(* ===== verification/Trigger_Types.thy ===== *)
theory Trigger_Types
  imports Main
begin

text \<open>
  \<^verbatim>\<open>trigger_type_e\<close> of \<^verbatim>\<open>controllers/algo/engine_types.h\<close>: the trigger types a user can select.
  The C++ enumeration is over \<^verbatim>\<open>uint32_t\<close> and is read from the configuration; \<open>TT_OTHER\<close> stands
  for a value without an enumerator. Plugins that the development does not need are left out, which
  keeps the declaration of this many constructors fast.
\<close>

datatype (plugins only: code) trigger_type_e =
    TT_TOOTHED_WHEEL
  | TT_FORD_ASPIRE
  | TT_DODGE_NEON_1995
  | TT_MAZDA_MIATA_NA
  | TT_MITSUBISHI_MESS
  | TT_GM_7X
  | TT_DAIHATSU
  | TT_MAZDA_SOHC_4
  | TT_TOOTHED_WHEEL_60_2
  | TT_TOOTHED_WHEEL_36_1
  | TT_MERCEDES_2_SEGMENT
  | TT_MITSUBISHI_4G93
  | TT_DODGE_NEON_2003_CAM
  | TT_MAZDA_DOHC_1_4
  | TT_ONE_PLUS_ONE
  | TT_UNUSED_17
  | TT_ONE
  | TT_DODGE_RAM
  | TT_60_2_VW
  | TT_BENELLI_TRE
  | TT_DODGE_STRATUS
  | TT_36_2_2_2
  | TT_NISSAN_SR20VE
  | TT_2JZ_3_34
  | TT_ROVER_K
  | TT_HONDA_CBR_600
  | TT_CHRYSLER_NGC_36_2_2
  | TT_3_1_CAM
  | TT_DODGE_NEON_2003_CRANK
  | TT_MIATA_VVT
  | TT_MAZDA_MIATA_VVT_TEST
  | TT_SUBARU_7_6
  | TT_JEEP_18_2_2_2
  | TT_12_TOOTH_CRANK
  | TT_DODGE_NEON_1995_ONLY_CRANK
  | TT_JEEP_4_CYL
  | TT_FIAT_IAW_P8
  | TT_FORD_ST170
  | TT_VVT_MIATA_NB
  | TT_RENIX_44_2_2
  | TT_RENIX_66_2_2_2
  | TT_HONDA_K_CRANK_12_1
  | TT_VVT_BOSCH_QUICK_START
  | TT_TOOTHED_WHEEL_36_2
  | TT_SUBARU_SVX
  | TT_1_16
  | TT_SUBARU_7_WITHOUT_6
  | TT_NISSAN_MR18_CAM_VVT
  | TT_TRI_TACH
  | TT_GM_60_2_2_2
  | TT_SKODA_FAVORIT
  | TT_VVT_BARRA_3_PLUS_1
  | TT_KAWA_KX450F
  | TT_NISSAN_VQ35
  | TT_VVT_NISSAN_VQ35
  | TT_NISSAN_VQ30
  | TT_NISSAN_QR25
  | TT_VVT_MITSUBISHI_3A92
  | TT_SUBARU_SVX_CRANK_1
  | TT_SUBARU_SVX_CAM_VVT
  | TT_FORD_TFI_PIP
  | TT_SUZUKI_G13B
  | TT_HONDA_K_CAM_4_1
  | TT_NISSAN_MR18_CRANK
  | TT_TOOTHED_WHEEL_32_2
  | TT_36_2_1
  | TT_36_2_1_1
  | TT_VVT_MITSUBISHI_6G75
  | TT_VVT_TOYOTA_4_1
  | TT_GM_24x
  | TT_GM_24x_2
  | TT_SUBARU_EZ30
  | TT_VVT_MAZDA_SKYACTIV
  | TT_MITSU_4G9x_CAM
  | TT_MITSU_4G63_CAM
  | TT_VVT_MAZDA_L
  | TT_VVT_MIATA_NA
  | TT_UNUSED
  | TT_OTHER nat

end
