(* ===== verification/Fome_Prelude.thy ===== *)
theory Fome_Prelude
  imports Complex_Main "HOL-Library.Word"
begin

text \<open>
  Shared ground of the development: the error log of the firmware, C floats, the functions of
  the \<^verbatim>\<open>libfirmware\<close> submodule (whose directory is empty, so they are parameters of the model),
  small C idioms, and the collections of simplification rules the component theories fill.

  Floats. A C \<^verbatim>\<open>float\<close> or \<^verbatim>\<open>double\<close> whose finiteness matters is an \<open>xfloat\<close>: one of the special
  values of IEEE 754 or a rational. Where the code keeps a value finite (angles of a shape,
  switch times), it is a rational. Arithmetic on finite values is exact: rounding is not
  modelled, which is a bound of every statement about computed float values.
\<close>

named_theorems shape_simps \<open>symbolic execution of trigger shape definitions\<close>

subsection \<open>Errors: calls of firmwareError and warning as log entries\<close>

text \<open>
  \<^verbatim>\<open>firmwareError\<close> and \<^verbatim>\<open>warning\<close> (\<^verbatim>\<open>core/error_handling.cpp\<close>) record a code and return; in
  the firmware, the code after the call still runs. An operation that can call them appends an
  entry to a log. A call without a code goes to \<^verbatim>\<open>OBD_PCM_Processor_Fault\<close>. \<open>OutOfBounds\<close> is
  not a message of the firmware: it marks a write past the end of a C array.
\<close>

datatype (plugins only: code) obd_code =
    OBD_PCM_Processor_Fault
  | CUSTOM_ERR_ASSERT
  | CUSTOM_OMODE_UNDEF
  | CUSTOM_ERR_6599
  | CUSTOM_ERR_TRG_ANGLE_ORDER
  | CUSTOM_ERR_SAME_ANGLE
  | CUSTOM_ERR_WAVE_1
  | CUSTOM_ERR_WAVE_2
  | CUSTOM_ERR_6586
  | CUSTOM_ERR_6587
  | CUSTOM_OBD_TRIGGER_WAVEFORM
  | CUSTOM_ERR_NO_SHAPE
  | CUSTOM_ERR_ANGLE
  | CUSTOM_TRIGGER_SYNC_ANGLE
  | CUSTOM_TRIGGER_SYNC_ANGLE_RANGE
  | CUSTOM_TRIGGER_CYCLE
  | CUSTOM_OBD_93
  | CUSTOM_PRIMARY_NOT_ENOUGH_TEETH
  | CUSTOM_PRIMARY_TOO_MANY_TEETH
  | CUSTOM_CAM_NOT_ENOUGH_TEETH
  | CUSTOM_CAM_TOO_MANY_TEETH
  | CUSTOM_ERR_TASK_TIMER_OVERFLOW
  | CUSTOM_ERR_LOCK_ISSUE
  | CUSTOM_ERR_6625
  | CUSTOM_FLSTACK
  | ERROR_FL_STACK_OVERFLOW
  | CUSTOM_ERR_ARRAY_REMOVE
  | CUSTOM_OBD_LOCAL_FREEZE
  | CUSTOM_ERR_TIMER_OVERFLOW
  | CUSTOM_ERR_6593
  | CUSTOM_ERR_6555
  | CUSTOM_ERR_CUSTOM_GAPS_BAD
  | CUSTOM_ERR_TRIGGER_SYNC
  | CUSTOM_ERR_TRIGGER_WAVEFORM_TOO_LONG
  | CUSTOM_ERR_TRIGGER_ZERO
  | CUSTOM_SHAPE_LEN_ZERO
  | CUSTOM_PRIMARY_DOUBLED_EDGE
  | CUSTOM_PRIMARY_BAD_TOOTH_TIMING
  | CUSTOM_ERR_UNEXPECTED_SHAFT_EVENT
  | CUSTOM_VVT_MODE_NOT_SELECTED
  | CUSTOM_VVT_SYNC_POSITION
  | ObdCode int

text \<open>\<open>ObdCode\<close> holds the number that \<^verbatim>\<open>obd_error_codes.h\<close> gives a code.\<close>

abbreviation "CUSTOM_ERR_LOOPED_QUEUE \<equiv> ObdCode 6115"
abbreviation "CUSTOM_RE_ADDING_INTO_EXECUTION_QUEUE \<equiv> ObdCode 9011"
abbreviation "CUSTOM_ERR_6553 \<equiv> ObdCode 6553"
abbreviation "CUSTOM_OBD_WRONG_FIRING_ORDER \<equiv> ObdCode 6024"
abbreviation "CUSTOM_OBD_UNKNOWN_FIRING_ORDER \<equiv> ObdCode 6023"
abbreviation "CUSTOM_FIRING_LENGTH \<equiv> ObdCode 6687"
abbreviation "CUSTOM_DUTY_INVALID \<equiv> ObdCode 6710"
abbreviation "CUSTOM_DUTY_TOO_LOW \<equiv> ObdCode 6579"
abbreviation "CUSTOM_PWM_DUTY_TOO_HIGH \<equiv> ObdCode 6711"
abbreviation "CUSTOM_ERR_PWM_DUTY_ASSERT \<equiv> ObdCode 6693"
abbreviation "CUSTOM_ERR_PWM_STATE_ASSERT \<equiv> ObdCode 6712"
abbreviation "CUSTOM_PWM_CYCLE_START \<equiv> ObdCode 6697"
abbreviation "CUSTOM_ERR_6581 \<equiv> ObdCode 6581"
abbreviation "CUSTOM_DWELL \<equiv> ObdCode 6098"
abbreviation "CUSTOM_ZERO_DWELL \<equiv> ObdCode 6032"
abbreviation "CUSTOM_SPARK_ANGLE_1 \<equiv> ObdCode 6589"
abbreviation "CUSTOM_ADVANCE_SPARK \<equiv> ObdCode 6688"
abbreviation "CUSTOM_ERR_OUT_OF_ORDER \<equiv> ObdCode 6147"
abbreviation "CUSTOM_OBD_IGNITION_MODE \<equiv> ObdCode 6025"
abbreviation "CUSTOM_ERR_IGNITION_MODE \<equiv> ObdCode 6108"
abbreviation "CUSTOM_DWELL_TOO_LONG \<equiv> ObdCode 6033"
abbreviation "CUSTOM_OBD_NAN_INJECTION \<equiv> ObdCode 6030"
abbreviation "CUSTOM_OBD_NEG_INJECTION \<equiv> ObdCode 6031"
abbreviation "CUSTOM_TOO_LONG_FUEL_INJECTION \<equiv> ObdCode 9013"
abbreviation "CUSTOM_ERR_INVALID_INJECTION_MODE \<equiv> ObdCode 6104"

datatype diag = FirmwareError obd_code | Warning obd_code | OutOfBounds

type_synonym diag_log = "diag list"

subsection \<open>Floats\<close>

datatype xfloat = NaN | PInf | MInf | Fin rat

fun xle :: "xfloat \<Rightarrow> xfloat \<Rightarrow> bool" where
  "xle NaN y = False"
| "xle x NaN = False"
| "xle MInf y = True"
| "xle x PInf = True"
| "xle (Fin a) (Fin b) = (a \<le> b)"
| "xle x y = False"

fun xless :: "xfloat \<Rightarrow> xfloat \<Rightarrow> bool" where
  "xless NaN y = False"
| "xless x NaN = False"
| "xless MInf MInf = False"
| "xless PInf PInf = False"
| "xless MInf y = True"
| "xless x PInf = True"
| "xless (Fin a) (Fin b) = (a < b)"
| "xless x y = False"

text \<open>Division of two finite values, with the special results of IEEE division by zero.\<close>

definition xdiv :: "rat \<Rightarrow> rat \<Rightarrow> xfloat" where
  "xdiv a b = (if b \<noteq> 0 then Fin (a / b) else if a = 0 then NaN else if a > 0 then PInf else MInf)"

text \<open>Product of a finite nonnegative value and a float.\<close>

fun xmul_nonneg :: "rat \<Rightarrow> xfloat \<Rightarrow> xfloat" where
  "xmul_nonneg a NaN = NaN"
| "xmul_nonneg a PInf = (if a = 0 then NaN else PInf)"
| "xmul_nonneg a MInf = (if a = 0 then NaN else MInf)"
| "xmul_nonneg a (Fin b) = Fin (a * b)"

definition isInRange :: "xfloat \<Rightarrow> xfloat \<Rightarrow> xfloat \<Rightarrow> bool" where
  "isInRange mn val mx = (xle mn val \<and> xle val mx)"

lemma isInRange_Fin [simp]:
  "isInRange (Fin a) (Fin b) (Fin c) = (a \<le> b \<and> b \<le> c)"
  "isInRange x NaN y = False"
  "isInRange NaN x y = False"
  by (cases x; simp add: isInRange_def)+

text \<open>The C conversion of a finite float to an integer truncates towards zero; \<^verbatim>\<open>round\<close> of
  \<^verbatim>\<open>math.h\<close> rounds halves away from zero.\<close>

definition c_trunc :: "rat \<Rightarrow> int" where
  "c_trunc q = (if 0 \<le> q then \<lfloor>q\<rfloor> else \<lceil>q\<rceil>)"

definition c_round :: "rat \<Rightarrow> int" where
  "c_round q = (if 0 \<le> q then \<lfloor>q + 1/2\<rfloor> else \<lceil>q - 1/2\<rceil>)"

lemma c_trunc_of_int [simp]: "c_trunc (of_int n) = n"
  by (simp add: c_trunc_def)

lemma c_trunc_numeral [simp]:
  "c_trunc (numeral n) = numeral n" "c_trunc (- numeral n) = - numeral n"
  "c_trunc 0 = 0" "c_trunc 1 = 1"
  by (simp_all add: c_trunc_def)

subsection \<open>The libfirmware submodule\<close>

text \<open>
  \<^verbatim>\<open>isSameF\<close> compares two floats for near equality, \<^verbatim>\<open>maxI\<close> is the larger of two integers and
  \<^verbatim>\<open>clampF\<close> limits a float to a range. Their sources are not in the repository: every definition
  that calls one takes the record \<open>libfw\<close>, and what the code relies on is \<open>libfw_ok\<close>.
\<close>

record libfw =
  isSameF :: "rat \<Rightarrow> rat \<Rightarrow> bool"
  maxI :: "int \<Rightarrow> int \<Rightarrow> int"
  clampF :: "rat \<Rightarrow> rat \<Rightarrow> rat \<Rightarrow> rat"

definition libfw_ok :: "libfw \<Rightarrow> bool" where
  "libfw_ok L \<longleftrightarrow>
     (\<forall>a b. 1/8000 < b - a \<longrightarrow> \<not> isSameF L a b) \<and>
     (\<forall>a b. maxI L a b = max a b) \<and>
     (\<forall>lo x hi. clampF L lo x hi = max lo (min x hi))"

text \<open>An instance that satisfies the hypothesis, for the witnesses.\<close>

definition libfw_example :: libfw where
  "libfw_example = \<lparr>isSameF = (\<lambda>a b. \<bar>a - b\<bar> < 1/10000), maxI = max,
     clampF = (\<lambda>lo x hi. max lo (min x hi))\<rparr>"

lemma libfw_example_ok: "libfw_ok libfw_example"
  by (auto simp: libfw_ok_def libfw_example_def)

lemma libfw_not_same: "libfw_ok L \<Longrightarrow> 1/8000 < b - a \<Longrightarrow> \<not> isSameF L a b"
  by (simp add: libfw_ok_def)

lemma libfw_maxI: "libfw_ok L \<Longrightarrow> maxI L a b = max a b"
  by (simp add: libfw_ok_def)

lemma libfw_clampF: "libfw_ok L \<Longrightarrow> clampF L lo x hi = max lo (min x hi)"
  by (simp add: libfw_ok_def)

subsection \<open>Lists\<close>

lemma nth_append_last [simp]: "(xs @ [x]) ! length xs = x"
  by simp

lemma sorted_wrt_snoc:
  "sorted_wrt P (xs @ [x]) \<longleftrightarrow> sorted_wrt P xs \<and> (\<forall>y \<in> set xs. P y x)"
  by (auto simp: sorted_wrt_append)

lemma find_None_upt:
  "find P [0..<n] = None \<longleftrightarrow> (\<forall>i<n. \<not> P i)"
  by (auto simp: find_None_iff)

end
