(* ===== verification/State_Sequence.thy ===== *)
theory State_Sequence
  imports Fome_Prelude
begin

text \<open>
  \<^verbatim>\<open>controllers/core/state_sequence.h\<close> and \<^verbatim>\<open>.cpp\<close>: the multi-channel logical signal with one
  time axis, as arrays of \<open>PWM_PHASE_MAX_COUNT\<close> switch times and channel state bytes of which the
  first \<open>phaseCount\<close> are in use.
\<close>

unbundle bit_operations_syntax

definition PWM_PHASE_MAX_COUNT :: nat where "PWM_PHASE_MAX_COUNT = 280"

definition PWM_PHASE_MAX_WAVE_PER_PWM :: nat where "PWM_PHASE_MAX_WAVE_PER_PWM = 2"

record state_sequence =
  phaseCount :: nat
  waveCount :: nat
  switchTimes :: "rat list"
  waveForm :: "8 word list"

definition getSwitchTime :: "state_sequence \<Rightarrow> nat \<Rightarrow> rat" where
  "getSwitchTime w phaseIndex = switchTimes w ! phaseIndex"

definition getChannelState :: "state_sequence \<Rightarrow> nat \<Rightarrow> nat \<Rightarrow> bool" where
  "getChannelState w channelIndex phaseIndex =
     (drop_bit channelIndex (waveForm w ! phaseIndex) AND 1 \<noteq> 0)"

definition wave_reset :: "state_sequence \<Rightarrow> state_sequence" where
  "wave_reset w = w\<lparr>waveCount := 0\<rparr>"

definition setSwitchTime :: "nat \<Rightarrow> rat \<Rightarrow> state_sequence \<Rightarrow> state_sequence" where
  "setSwitchTime phaseIndex value w = w\<lparr>switchTimes := (switchTimes w)[phaseIndex := value]\<rparr>"

definition setChannelState :: "nat \<Rightarrow> nat \<Rightarrow> bool \<Rightarrow> state_sequence \<Rightarrow> state_sequence" where
  "setChannelState channelIndex phaseIndex st w =
     w\<lparr>waveForm := (waveForm w)[phaseIndex :=
        (waveForm w ! phaseIndex AND NOT (push_bit channelIndex 1))
          OR push_bit channelIndex (if st then 1 else 0)]\<rparr>"

text \<open>\<^verbatim>\<open>checkSwitchTimes\<close>: what it reports, in order.\<close>

definition checkSwitchTimes :: "state_sequence \<Rightarrow> diag_log" where
  "checkSwitchTimes w =
     (if \<not> phaseCount w > 0 then [FirmwareError CUSTOM_ERR_WAVE_1]
      else if getSwitchTime w (phaseCount w - 1) \<noteq> 1 then [FirmwareError CUSTOM_ERR_WAVE_1]
      else concat (map (\<lambda>i. if getSwitchTime w i \<ge> getSwitchTime w (i + 1)
                            then [FirmwareError CUSTOM_ERR_WAVE_2] else []) [0..<phaseCount w - 1]))"

text \<open>\<^verbatim>\<open>findInsertionAngle\<close>: the loop runs \<open>i\<close> from \<open>phaseCount - 1\<close> down to 0; the argument of
  the loop is \<open>i + 1\<close>.\<close>

fun findInsertionAngle_loop :: "state_sequence \<Rightarrow> rat \<Rightarrow> nat \<Rightarrow> nat" where
  "findInsertionAngle_loop w angle 0 = 0"
| "findInsertionAngle_loop w angle (Suc i) =
     (if angle > getSwitchTime w i then i + 1 else findInsertionAngle_loop w angle i)"

definition findInsertionAngle :: "state_sequence \<Rightarrow> rat \<Rightarrow> nat" where
  "findInsertionAngle w angle = findInsertionAngle_loop w angle (phaseCount w)"

definition findAngleMatch :: "libfw \<Rightarrow> state_sequence \<Rightarrow> rat \<Rightarrow> nat option" where
  "findAngleMatch L w angle = find (\<lambda>i. isSameF L (getSwitchTime w i) angle) [0..<phaseCount w]"

subsection \<open>Reads after writes\<close>

lemma setChannelState_other_fields [simp]:
  "phaseCount (setChannelState c i b w) = phaseCount w"
  "waveCount (setChannelState c i b w) = waveCount w"
  "switchTimes (setChannelState c i b w) = switchTimes w"
  "length (waveForm (setChannelState c i b w)) = length (waveForm w)"
  by (simp_all add: setChannelState_def)

lemma setSwitchTime_other_fields [simp]:
  "phaseCount (setSwitchTime i t w) = phaseCount w"
  "waveCount (setSwitchTime i t w) = waveCount w"
  "waveForm (setSwitchTime i t w) = waveForm w"
  "length (switchTimes (setSwitchTime i t w)) = length (switchTimes w)"
  by (simp_all add: setSwitchTime_def)

lemma getSwitchTime_setSwitchTime:
  "i < length (switchTimes w) \<Longrightarrow>
     getSwitchTime (setSwitchTime i t w) j = (if j = i then t else getSwitchTime w j)"
  by (auto simp: getSwitchTime_def setSwitchTime_def)

lemma getSwitchTime_setChannelState [simp]:
  "getSwitchTime (setChannelState c i b w) j = getSwitchTime w j"
  by (simp add: getSwitchTime_def)

lemma getSwitchTime_phaseCount [simp]:
  "getSwitchTime (w\<lparr>phaseCount := n\<rparr>) j = getSwitchTime w j"
  by (simp add: getSwitchTime_def)

lemma getChannelState_bit: "getChannelState w c i = bit (waveForm w ! i) c"
  by (simp add: getChannelState_def and_one_eq bit_drop_bit_eq odd_iff_mod_2_eq_one bit_iff_odd
      drop_bit_eq_div)

lemma getChannelState_setSwitchTime [simp]:
  "getChannelState (setSwitchTime i t w) c j = getChannelState w c j"
  by (simp add: getChannelState_def)

lemma getChannelState_phaseCount [simp]:
  "getChannelState (w\<lparr>phaseCount := n\<rparr>) c j = getChannelState w c j"
  by (simp add: getChannelState_def)

text \<open>The two channel numbers in use are bits of the byte, so a write is seen at its own place
  and nowhere else.\<close>

lemma getChannelState_setChannelState:
  assumes "c < 8" "i < length (waveForm w)"
  shows "getChannelState (setChannelState c i b w) c' j =
           (if c' = c \<and> j = i then b else getChannelState w c' j)"
proof (cases "j = i")
  case True
  have "bit ((waveForm w ! i AND NOT (push_bit c 1)) OR push_bit c (if b then 1 else 0 :: 8 word)) c'
      = (if c' = c then b else bit (waveForm w ! i) c')"
    using assms(1)
    by (auto simp: bit_or_iff bit_and_iff bit_not_iff bit_push_bit_iff bit_1_iff bit_exp_iff
        dest: bit_imp_le_length)
  then show ?thesis
    using True assms(2) by (simp add: getChannelState_bit setChannelState_def)
next
  case False
  then show ?thesis by (simp add: getChannelState_bit setChannelState_def)
qed

subsection \<open>The searches\<close>

lemma findInsertionAngle_loop_le: "findInsertionAngle_loop w a n \<le> n"
  by (induction n) auto

lemma findInsertionAngle_append:
  "0 < phaseCount w \<Longrightarrow> getSwitchTime w (phaseCount w - 1) < a \<Longrightarrow>
     findInsertionAngle w a = phaseCount w"
  by (cases "phaseCount w") (auto simp: findInsertionAngle_def)

lemma findAngleMatch_None:
  "findAngleMatch L w a = None \<longleftrightarrow> (\<forall>i<phaseCount w. \<not> isSameF L (getSwitchTime w i) a)"
  by (simp add: findAngleMatch_def find_None_upt)

text \<open>On a sorted sequence, \<open>findInsertionAngle\<close> splits it at the angle.\<close>

lemma findInsertionAngle_above:
  "findInsertionAngle_loop w a n \<le> i \<Longrightarrow> i < n \<Longrightarrow> a \<le> getSwitchTime w i"
  by (induction n) (auto simp: less_Suc_eq split: if_splits)

lemma findInsertionAngle_below:
  "0 < findInsertionAngle_loop w a n \<Longrightarrow>
     getSwitchTime w (findInsertionAngle_loop w a n - 1) < a"
  by (induction n) (auto split: if_splits)

lemma checkSwitchTimes_Nil_iff:
  "checkSwitchTimes w = [] \<longleftrightarrow>
     0 < phaseCount w \<and> getSwitchTime w (phaseCount w - 1) = 1 \<and>
     (\<forall>i < phaseCount w - 1. getSwitchTime w i < getSwitchTime w (i + 1))"
  by (auto simp: checkSwitchTimes_def not_le simp del: if_image_distrib split: if_splits)

end
