(* ===== verification/Trigger_Structure.thy ===== *)
theory Trigger_Structure
  imports State_Sequence
begin

text \<open>
  \<^verbatim>\<open>controllers/trigger/decoders/trigger_structure.h\<close> and \<^verbatim>\<open>.cpp\<close>: \<^verbatim>\<open>TriggerWaveform\<close>, the
  description of a trigger wheel, and the operations shape definitions are written with. The
  C++ object is the record \<open>trigger_waveform\<close>; a method takes it last and returns it updated.
  The field \<open>wf_log\<close> is not in the class: it collects the calls of \<^verbatim>\<open>firmwareError\<close> and
  \<^verbatim>\<open>warning\<close>. Fields that only the unit test build has are left out.
\<close>

subsection \<open>Enumerations and constants\<close>

datatype operation_mode_e =
    OM_NONE
  | FOUR_STROKE_CRANK_SENSOR
  | FOUR_STROKE_CAM_SENSOR
  | TWO_STROKE
  | FOUR_STROKE_SYMMETRICAL_CRANK_SENSOR
  | FOUR_STROKE_THREE_TIMES_CRANK_SENSOR
  | FOUR_STROKE_TWELVE_TIMES_CRANK_SENSOR

datatype sync_edge = Rise | Fall | RiseOnly | Both

datatype trigger_wheel = T_PRIMARY | T_SECONDARY

fun wheel_index :: "trigger_wheel \<Rightarrow> nat" where
  "wheel_index T_PRIMARY = 0"
| "wheel_index T_SECONDARY = 1"

definition GAP_TRACKING_LENGTH :: nat where "GAP_TRACKING_LENGTH = 18"

definition TRIGGER_GAP_DEVIATION :: rat where "TRIGGER_GAP_DEVIATION = 1/4"
definition TRIGGER_GAP_DEVIATION_LOW :: rat where
  "TRIGGER_GAP_DEVIATION_LOW = 1 - TRIGGER_GAP_DEVIATION"
definition TRIGGER_GAP_DEVIATION_HIGH :: rat where
  "TRIGGER_GAP_DEVIATION_HIGH = 1 + TRIGGER_GAP_DEVIATION"

abbreviation (input) FOUR_STROKE_CYCLE_DURATION :: "rat" where "FOUR_STROKE_CYCLE_DURATION \<equiv> 720"
abbreviation (input) TWO_STROKE_CYCLE_DURATION :: "rat" where "TWO_STROKE_CYCLE_DURATION \<equiv> 360"
abbreviation (input) FOUR_STROKE_ENGINE_CYCLE :: "rat" where "FOUR_STROKE_ENGINE_CYCLE \<equiv> 720"
abbreviation (input) CRANK_MODE_MULTIPLIER :: "rat" where "CRANK_MODE_MULTIPLIER \<equiv> 2"
abbreviation (input) TRIGGER_INPUT_PIN_COUNT :: nat where "TRIGGER_INPUT_PIN_COUNT \<equiv> 2"

subsection \<open>The waveform\<close>

record trigger_waveform =
  isSynchronizationNeeded :: bool
  isSecondWheelCam :: bool
  gapTrackingLength :: int
  shapeWithoutTdc :: bool
  needSecondTriggerInput :: bool
  shapeDefinitionError :: bool
  version :: int
  syncronizationRatioFrom :: "xfloat list"
  syncronizationRatioTo :: "xfloat list"
  syncRatioAvg :: int
  tdcPosition :: rat
  useOnlyPrimaryForSync :: bool
  m_syncEdge :: sync_edge
  useOnlyRisingEdges :: bool
  expectedEventCount :: "nat list"
  wave :: state_sequence
  isRiseEvent :: "bool list"
  triggerShapeSynchPointIndex :: "nat option"
  previousAngle :: rat
  m_operationMode :: operation_mode_e
  wf_log :: diag_log

definition report :: "diag \<Rightarrow> trigger_waveform \<Rightarrow> trigger_waveform" where
  "report d s = s\<lparr>wf_log := wf_log s @ [d]\<rparr>"

definition setShapeDefinitionError :: "bool \<Rightarrow> trigger_waveform \<Rightarrow> trigger_waveform" where
  "setShapeDefinitionError value s = s\<lparr>shapeDefinitionError := value\<rparr>"

text \<open>\<^verbatim>\<open>(int)efiRound((from + to) * 0.5f, 1.0f)\<close>. Every caller passes finite ratios for gap 0; the
  conversion of NaN or an infinity to an integer is undefined in C and 0 here.\<close>

definition ratio_average :: "xfloat \<Rightarrow> xfloat \<Rightarrow> int" where
  "ratio_average from to =
     (case (from, to) of (Fin a, Fin b) \<Rightarrow> c_round ((a + b) * (1/2)) | _ \<Rightarrow> 0)"

definition setTriggerSynchronizationGap3 ::
  "libfw \<Rightarrow> int \<Rightarrow> xfloat \<Rightarrow> xfloat \<Rightarrow> trigger_waveform \<Rightarrow> trigger_waveform" where
  "setTriggerSynchronizationGap3 L gapIndex from to s =
     (let s = s\<lparr>isSynchronizationNeeded := True\<rparr> in
      if \<not> (gapIndex \<ge> 0 \<and> gapIndex < int GAP_TRACKING_LENGTH)
      then report (FirmwareError OBD_PCM_Processor_Fault) s
      else
        let s = s\<lparr>syncronizationRatioFrom := (syncronizationRatioFrom s)[nat gapIndex := from],
                  syncronizationRatioTo := (syncronizationRatioTo s)[nat gapIndex := to]\<rparr>;
            s = (if gapIndex = 0 then s\<lparr>syncRatioAvg := ratio_average from to\<rparr> else s)
        in s\<lparr>gapTrackingLength := maxI L (1 + gapIndex) (gapTrackingLength s)\<rparr>)"

definition setTriggerSynchronizationGap2 ::
  "libfw \<Rightarrow> rat \<Rightarrow> rat \<Rightarrow> trigger_waveform \<Rightarrow> trigger_waveform" where
  "setTriggerSynchronizationGap2 L from to s = setTriggerSynchronizationGap3 L 0 (Fin from) (Fin to) s"

definition setTriggerSynchronizationGap ::
  "libfw \<Rightarrow> rat \<Rightarrow> trigger_waveform \<Rightarrow> trigger_waveform" where
  "setTriggerSynchronizationGap L syncRatio s =
     setTriggerSynchronizationGap3 L 0 (Fin (syncRatio * TRIGGER_GAP_DEVIATION_LOW))
       (Fin (syncRatio * TRIGGER_GAP_DEVIATION_HIGH)) s"

definition setSecondTriggerSynchronizationGap ::
  "libfw \<Rightarrow> rat \<Rightarrow> trigger_waveform \<Rightarrow> trigger_waveform" where
  "setSecondTriggerSynchronizationGap L syncRatio s =
     setTriggerSynchronizationGap3 L 1 (Fin (syncRatio * TRIGGER_GAP_DEVIATION_LOW))
       (Fin (syncRatio * TRIGGER_GAP_DEVIATION_HIGH)) s"

definition setSecondTriggerSynchronizationGap2 ::
  "libfw \<Rightarrow> rat \<Rightarrow> rat \<Rightarrow> trigger_waveform \<Rightarrow> trigger_waveform" where
  "setSecondTriggerSynchronizationGap2 L from to s =
     setTriggerSynchronizationGap3 L 1 (Fin from) (Fin to) s"

definition setThirdTriggerSynchronizationGap ::
  "libfw \<Rightarrow> rat \<Rightarrow> trigger_waveform \<Rightarrow> trigger_waveform" where
  "setThirdTriggerSynchronizationGap L syncRatio s =
     setTriggerSynchronizationGap3 L 2 (Fin (syncRatio * TRIGGER_GAP_DEVIATION_LOW))
       (Fin (syncRatio * TRIGGER_GAP_DEVIATION_HIGH)) s"

text \<open>\<^verbatim>\<open>TriggerWaveform::initialize\<close>. The arrays of the wave are not cleared.\<close>

definition wf_initialize ::
  "libfw \<Rightarrow> operation_mode_e \<Rightarrow> sync_edge \<Rightarrow> trigger_waveform \<Rightarrow> trigger_waveform" where
  "wf_initialize L operationMode syncEdge s =
     (let s = s\<lparr>isSynchronizationNeeded := True, isSecondWheelCam := False,
                needSecondTriggerInput := False, shapeWithoutTdc := False,
                useOnlyRisingEdges := (syncEdge = RiseOnly)\<rparr>;
          s = setTriggerSynchronizationGap L 2 s;
          s = fold (\<lambda>gapIndex. setTriggerSynchronizationGap3 L (int gapIndex) NaN (Fin 100000))
                   [1..<GAP_TRACKING_LENGTH] s
      in s\<lparr>gapTrackingLength := 1, tdcPosition := 0, shapeDefinitionError := False,
           useOnlyPrimaryForSync := False, m_operationMode := operationMode,
           m_syncEdge := syncEdge, triggerShapeSynchPointIndex := None,
           expectedEventCount := replicate PWM_PHASE_MAX_WAVE_PER_PWM 0,
           wave := (wave_reset (wave s))\<lparr>waveCount := TRIGGER_INPUT_PIN_COUNT, phaseCount := 0\<rparr>,
           previousAngle := 0, isRiseEvent := replicate PWM_PHASE_MAX_COUNT False\<rparr>)"

definition getSize :: "trigger_waveform \<Rightarrow> nat" where
  "getSize s = phaseCount (wave s)"

definition getTriggerWaveformSynchPointIndex :: "trigger_waveform \<Rightarrow> int" where
  "getTriggerWaveformSynchPointIndex s =
     (case triggerShapeSynchPointIndex s of None \<Rightarrow> -1 | Some i \<Rightarrow> int i)"

definition cycle_duration :: "operation_mode_e \<Rightarrow> rat" where
  "cycle_duration om =
     (case om of
        FOUR_STROKE_THREE_TIMES_CRANK_SENSOR \<Rightarrow> FOUR_STROKE_CYCLE_DURATION / 6
      | FOUR_STROKE_SYMMETRICAL_CRANK_SENSOR \<Rightarrow> FOUR_STROKE_CYCLE_DURATION / 4
      | FOUR_STROKE_TWELVE_TIMES_CRANK_SENSOR \<Rightarrow> FOUR_STROKE_CYCLE_DURATION / 24
      | FOUR_STROKE_CRANK_SENSOR \<Rightarrow> TWO_STROKE_CYCLE_DURATION
      | TWO_STROKE \<Rightarrow> TWO_STROKE_CYCLE_DURATION
      | _ \<Rightarrow> FOUR_STROKE_CYCLE_DURATION)"

definition getCycleDuration :: "trigger_waveform \<Rightarrow> rat" where
  "getCycleDuration s = cycle_duration (m_operationMode s)"

definition getEngineCycle :: "operation_mode_e \<Rightarrow> rat" where
  "getEngineCycle om = (if om = TWO_STROKE then 360 else FOUR_STROKE_ENGINE_CYCLE)"

definition getWheelOperationMode :: "trigger_waveform \<Rightarrow> operation_mode_e" where
  "getWheelOperationMode s = m_operationMode s"

text \<open>The answer and what is reported; the C++ returns true after the error.\<close>

definition needsDisambiguation :: "trigger_waveform \<Rightarrow> bool \<times> diag_log" where
  "needsDisambiguation s =
     (case getWheelOperationMode s of
        FOUR_STROKE_CRANK_SENSOR \<Rightarrow> (True, [])
      | FOUR_STROKE_SYMMETRICAL_CRANK_SENSOR \<Rightarrow> (True, [])
      | FOUR_STROKE_THREE_TIMES_CRANK_SENSOR \<Rightarrow> (True, [])
      | FOUR_STROKE_TWELVE_TIMES_CRANK_SENSOR \<Rightarrow> (True, [])
      | FOUR_STROKE_CAM_SENSOR \<Rightarrow> (False, [])
      | TWO_STROKE \<Rightarrow> (False, [])
      | _ \<Rightarrow> (True, [FirmwareError OBD_PCM_Processor_Fault]))"

definition getLength :: "trigger_waveform \<Rightarrow> nat" where
  "getLength s =
     nat (c_trunc (getEngineCycle (m_operationMode s) / getCycleDuration s)) * getSize s"

definition getSwitchAngle :: "trigger_waveform \<Rightarrow> nat \<Rightarrow> rat" where
  "getSwitchAngle s index = getCycleDuration s * getSwitchTime (wave s) index"

text \<open>\<^verbatim>\<open>getAngle\<close>; \<open>None\<close> is the failed assertion on an empty shape (the C++ returns NaN).\<close>

definition getAngle :: "trigger_waveform \<Rightarrow> nat \<Rightarrow> rat option" where
  "getAngle s index =
     (if phaseCount (wave s) = 0 then None
      else let crankCycle = index div phaseCount (wave s);
               remainder = index mod phaseCount (wave s)
           in Some (getCycleDuration s * of_nat crankCycle + getSwitchAngle s remainder))"

definition getExpectedEventCount :: "trigger_waveform \<Rightarrow> nat \<Rightarrow> nat" where
  "getExpectedEventCount s channelIndex = expectedEventCount s ! channelIndex"

definition calculateExpectedEventCounts :: "trigger_waveform \<Rightarrow> trigger_waveform" where
  "calculateExpectedEventCounts s =
     (let s = (if \<not> useOnlyRisingEdges s
               then fold (\<lambda>i s. if getExpectedEventCount s i mod 2 \<noteq> 0
                                then report (FirmwareError OBD_PCM_Processor_Fault) s else s)
                         [0..<PWM_PHASE_MAX_WAVE_PER_PWM] s
               else s);
          isSingleToothOnPrimaryChannel =
            (if useOnlyRisingEdges s then getExpectedEventCount s 0 = 1
             else getExpectedEventCount s 0 = 2);
          s = (if \<not> shapeWithoutTdc s \<and>
                  isSingleToothOnPrimaryChannel \<noteq> (\<not> isSynchronizationNeeded s)
               then report (FirmwareError OBD_PCM_Processor_Fault) s else s)
      in if isSingleToothOnPrimaryChannel then s\<lparr>useOnlyPrimaryForSync := True\<rparr>
         else if getExpectedEventCount s 1 = 0 \<and> useOnlyPrimaryForSync s
         then report (FirmwareError OBD_PCM_Processor_Fault) s else s)"

text \<open>A waveform object in zeroed static memory, used by the witnesses.\<close>

definition blank_waveform :: trigger_waveform where
  "blank_waveform = \<lparr>isSynchronizationNeeded = False, isSecondWheelCam = False,
     gapTrackingLength = 0, shapeWithoutTdc = False, needSecondTriggerInput = False,
     shapeDefinitionError = False, version = 0,
     syncronizationRatioFrom = replicate GAP_TRACKING_LENGTH (Fin 0),
     syncronizationRatioTo = replicate GAP_TRACKING_LENGTH (Fin 0),
     syncRatioAvg = 0, tdcPosition = 0, useOnlyPrimaryForSync = False, m_syncEdge = Rise,
     useOnlyRisingEdges = False, expectedEventCount = [0, 0],
     wave = \<lparr>phaseCount = 0, waveCount = 0, switchTimes = replicate PWM_PHASE_MAX_COUNT 0,
             waveForm = replicate PWM_PHASE_MAX_COUNT 0\<rparr>,
     isRiseEvent = replicate PWM_PHASE_MAX_COUNT False, triggerShapeSynchPointIndex = None,
     previousAngle = 0, m_operationMode = OM_NONE, wf_log = []\<rparr>"

subsection \<open>Adding events\<close>

text \<open>The write of event \<open>index\<close>: the channel states of the previous event are carried over. The
  firmware writes whatever the index; a write at or past \<open>PWM_PHASE_MAX_COUNT\<close> is past the end
  of the arrays and is reported as \<open>OutOfBounds\<close>.\<close>

definition store_event ::
  "nat \<Rightarrow> rat \<Rightarrow> bool \<Rightarrow> trigger_wheel \<Rightarrow> trigger_waveform \<Rightarrow> trigger_waveform" where
  "store_event index angle st channelIndex s =
     (let s = (if index < PWM_PHASE_MAX_COUNT then s else report OutOfBounds s);
          s = s\<lparr>isRiseEvent := (isRiseEvent s)[index := st]\<rparr>;
          s = (if index \<noteq> phaseCount (wave s)
               then report (FirmwareError OBD_PCM_Processor_Fault) s else s);
          w = (wave s)\<lparr>phaseCount := phaseCount (wave s) + 1\<rparr>;
          w = fold (\<lambda>i w. setChannelState i index (getChannelState w i (index - 1)) w)
                   [0..<PWM_PHASE_MAX_WAVE_PER_PWM] w;
          w = setSwitchTime index angle w;
          w = setChannelState (wheel_index channelIndex) index st w
      in s\<lparr>wave := w\<rparr>)"

definition store_first_event ::
  "rat \<Rightarrow> bool \<Rightarrow> trigger_wheel \<Rightarrow> trigger_waveform \<Rightarrow> trigger_waveform" where
  "store_first_event angle st channelIndex s =
     (let w = (wave s)\<lparr>phaseCount := 1\<rparr>;
          w = fold (\<lambda>i. setChannelState i 0 False) [0..<PWM_PHASE_MAX_WAVE_PER_PWM] w;
          s = s\<lparr>isRiseEvent := (isRiseEvent s)[0 := st]\<rparr>;
          w = setSwitchTime 0 angle w;
          w = setChannelState (wheel_index channelIndex) 0 st w
      in s\<lparr>wave := w\<rparr>)"

text \<open>The bookkeeping at the head of \<^verbatim>\<open>addEvent\<close>, done before the angle is looked at.\<close>

definition count_event :: "bool \<Rightarrow> trigger_wheel \<Rightarrow> trigger_waveform \<Rightarrow> trigger_waveform" where
  "count_event st channelIndex s =
     (let s = (if channelIndex = T_SECONDARY then s\<lparr>needSecondTriggerInput := True\<rparr> else s)
      in if \<not> useOnlyRisingEdges s \<or> st
         then s\<lparr>expectedEventCount := (expectedEventCount s)
                  [wheel_index channelIndex := expectedEventCount s ! wheel_index channelIndex + 1]\<rparr>
         else s)"

definition addEvent ::
  "libfw \<Rightarrow> rat \<Rightarrow> bool \<Rightarrow> trigger_wheel \<Rightarrow> trigger_waveform \<Rightarrow> trigger_waveform" where
  "addEvent L angle st channelIndex s =
     (if m_operationMode s = OM_NONE then report (FirmwareError CUSTOM_OMODE_UNDEF) s
      else
        let s = count_event st channelIndex s in
        if angle \<le> 0 \<or> angle > 1 then report (FirmwareError CUSTOM_ERR_6599) s
        else if phaseCount (wave s) > 0 \<and> angle \<le> previousAngle s
        then setShapeDefinitionError True (report (Warning CUSTOM_ERR_TRG_ANGLE_ORDER) s)
        else
          let s = s\<lparr>previousAngle := angle\<rparr> in
          if phaseCount (wave s) = 0 then store_first_event angle st channelIndex s
          else if findAngleMatch L (wave s) angle \<noteq> None
          then setShapeDefinitionError True (report (Warning CUSTOM_ERR_SAME_ANGLE) s)
          else store_event (findInsertionAngle (wave s) angle) angle st channelIndex s)"

definition addEvent720 ::
  "libfw \<Rightarrow> rat \<Rightarrow> bool \<Rightarrow> trigger_wheel \<Rightarrow> trigger_waveform \<Rightarrow> trigger_waveform" where
  "addEvent720 L angle st channelIndex s =
     addEvent L (angle / FOUR_STROKE_CYCLE_DURATION) st channelIndex s"

definition addEvent360 ::
  "libfw \<Rightarrow> rat \<Rightarrow> bool \<Rightarrow> trigger_wheel \<Rightarrow> trigger_waveform \<Rightarrow> trigger_waveform" where
  "addEvent360 L angle st channelIndex s =
     (if \<not> (m_operationMode s = FOUR_STROKE_CAM_SENSOR \<or>
            m_operationMode s = FOUR_STROKE_CRANK_SENSOR)
      then report (FirmwareError CUSTOM_OMODE_UNDEF) s
      else addEvent L (CRANK_MODE_MULTIPLIER * angle / FOUR_STROKE_CYCLE_DURATION) st channelIndex s)"

definition addEventAngle ::
  "libfw \<Rightarrow> rat \<Rightarrow> bool \<Rightarrow> trigger_wheel \<Rightarrow> trigger_waveform \<Rightarrow> trigger_waveform" where
  "addEventAngle L angle st channelIndex s =
     addEvent L (angle / getCycleDuration s) st channelIndex s"

definition addEventClamped ::
  "libfw \<Rightarrow> rat \<Rightarrow> bool \<Rightarrow> trigger_wheel \<Rightarrow> rat \<Rightarrow> rat \<Rightarrow> trigger_waveform \<Rightarrow> trigger_waveform" where
  "addEventClamped L angle st channelIndex filterLeft filterRight s =
     (if angle > filterLeft \<and> angle < filterRight
      then addEvent L (angle / getEngineCycle (m_operationMode s)) st channelIndex s else s)"

end
