(* ===== verification/Shape_Library.thy ===== *)
theory Shape_Library
  imports Trigger_Structure
begin

text \<open>
  The library behind the proofs about trigger shapes: the invariant of a waveform under
  construction and its preservation by \<open>addEvent\<close>, and the normal form \<open>mkwave s0 es\<close>, a
  waveform built from a freshly initialised one \<open>s0\<close> by accepted events \<open>es\<close> (newest first),
  with one equation per operation so that simplification runs a shape definition.
\<close>

subsection \<open>The invariant of a waveform under construction\<close>

definition arrays_ok :: "trigger_waveform \<Rightarrow> bool" where
  "arrays_ok s \<longleftrightarrow>
     length (switchTimes (wave s)) = PWM_PHASE_MAX_COUNT \<and>
     length (waveForm (wave s)) = PWM_PHASE_MAX_COUNT \<and>
     length (isRiseEvent s) = PWM_PHASE_MAX_COUNT \<and>
     length (expectedEventCount s) = PWM_PHASE_MAX_WAVE_PER_PWM"

definition times_ok :: "state_sequence \<Rightarrow> bool" where
  "times_ok w \<longleftrightarrow>
     (\<forall>i < phaseCount w. 0 < getSwitchTime w i \<and> getSwitchTime w i \<le> 1) \<and>
     (\<forall>i. Suc i < phaseCount w \<longrightarrow> getSwitchTime w i < getSwitchTime w (Suc i))"

definition wave_inv :: "trigger_waveform \<Rightarrow> bool" where
  "wave_inv s \<longleftrightarrow>
     arrays_ok s \<and> phaseCount (wave s) \<le> PWM_PHASE_MAX_COUNT \<and> times_ok (wave s) \<and>
     (0 < phaseCount (wave s) \<longrightarrow> getSwitchTime (wave s) (phaseCount (wave s) - 1) \<le> previousAngle s)"

lemma times_ok_mono:
  assumes "times_ok w" "i \<le> j" "j < phaseCount w"
  shows "getSwitchTime w i \<le> getSwitchTime w j"
  using assms(2,3)
proof (induction j)
  case 0
  then show ?case by simp
next
  case (Suc j)
  then show ?case
    using assms(1) by (cases "i = Suc j") (force simp: times_ok_def)+
qed

lemma times_ok_last:
  "times_ok w \<Longrightarrow> i < phaseCount w \<Longrightarrow> getSwitchTime w i \<le> getSwitchTime w (phaseCount w - 1)"
  by (rule times_ok_mono) auto

subsection \<open>What each step of addEvent changes\<close>

lemma upt_channels: "[0..<PWM_PHASE_MAX_WAVE_PER_PWM] = [0, 1]"
  by (simp add: PWM_PHASE_MAX_WAVE_PER_PWM_def upt_rec)

lemma count_event_fields [simp]:
  "wave (count_event st ch s) = wave s"
  "isRiseEvent (count_event st ch s) = isRiseEvent s"
  "previousAngle (count_event st ch s) = previousAngle s"
  "m_operationMode (count_event st ch s) = m_operationMode s"
  "shapeDefinitionError (count_event st ch s) = shapeDefinitionError s"
  "useOnlyRisingEdges (count_event st ch s) = useOnlyRisingEdges s"
  "length (expectedEventCount (count_event st ch s)) = length (expectedEventCount s)"
  "wf_log (count_event st ch s) = wf_log s"
  by (simp_all add: count_event_def Let_def)

lemma report_fields [simp]:
  "wave (report d s) = wave s"
  "isRiseEvent (report d s) = isRiseEvent s"
  "previousAngle (report d s) = previousAngle s"
  "m_operationMode (report d s) = m_operationMode s"
  "shapeDefinitionError (report d s) = shapeDefinitionError s"
  "useOnlyRisingEdges (report d s) = useOnlyRisingEdges s"
  "expectedEventCount (report d s) = expectedEventCount s"
  "wf_log (report d s) = wf_log s @ [d]"
  by (simp_all add: report_def)

lemma setShapeDefinitionError_fields [simp]:
  "wave (setShapeDefinitionError b s) = wave s"
  "isRiseEvent (setShapeDefinitionError b s) = isRiseEvent s"
  "previousAngle (setShapeDefinitionError b s) = previousAngle s"
  "m_operationMode (setShapeDefinitionError b s) = m_operationMode s"
  "useOnlyRisingEdges (setShapeDefinitionError b s) = useOnlyRisingEdges s"
  "expectedEventCount (setShapeDefinitionError b s) = expectedEventCount s"
  "shapeDefinitionError (setShapeDefinitionError b s) = b"
  "wf_log (setShapeDefinitionError b s) = wf_log s"
  by (simp_all add: setShapeDefinitionError_def)

lemma store_first_event_fields:
  assumes "arrays_ok s"
  shows "arrays_ok (store_first_event a st ch s)"
    and "phaseCount (wave (store_first_event a st ch s)) = 1"
    and "getSwitchTime (wave (store_first_event a st ch s)) 0 = a"
    and "isRiseEvent (store_first_event a st ch s) ! 0 = st"
  using assms
  by (simp_all add: store_first_event_def Let_def arrays_ok_def upt_channels
      getSwitchTime_setSwitchTime PWM_PHASE_MAX_COUNT_def)

lemma store_event_append_fields:
  assumes "arrays_ok s" "phaseCount (wave s) < PWM_PHASE_MAX_COUNT" "n = phaseCount (wave s)"
  shows "arrays_ok (store_event n a st ch s)"
    and "phaseCount (wave (store_event n a st ch s)) = n + 1"
    and "getSwitchTime (wave (store_event n a st ch s)) j =
           (if j = n then a else getSwitchTime (wave s) j)"
    and "isRiseEvent (store_event n a st ch s) = (isRiseEvent s)[n := st]"
  using assms
  by (simp_all add: store_event_def Let_def arrays_ok_def upt_channels
      getSwitchTime_setSwitchTime)

lemma store_event_same_fields [simp]:
  "m_operationMode (store_event n a st ch s) = m_operationMode s"
  "previousAngle (store_event n a st ch s) = previousAngle s"
  "expectedEventCount (store_event n a st ch s) = expectedEventCount s"
  "useOnlyRisingEdges (store_event n a st ch s) = useOnlyRisingEdges s"
  "shapeDefinitionError (store_event n a st ch s) = shapeDefinitionError s"
  by (simp_all add: store_event_def Let_def)

lemma store_event_log:
  "wf_log (store_event n a st ch s) = wf_log s
     @ (if n < PWM_PHASE_MAX_COUNT then [] else [OutOfBounds])
     @ (if n \<noteq> phaseCount (wave s) then [FirmwareError OBD_PCM_Processor_Fault] else [])"
  by (simp add: store_event_def Let_def)

lemma store_first_event_same_fields [simp]:
  "m_operationMode (store_first_event a st ch s) = m_operationMode s"
  "previousAngle (store_first_event a st ch s) = previousAngle s"
  "expectedEventCount (store_first_event a st ch s) = expectedEventCount s"
  "useOnlyRisingEdges (store_first_event a st ch s) = useOnlyRisingEdges s"
  "shapeDefinitionError (store_first_event a st ch s) = shapeDefinitionError s"
  "wf_log (store_first_event a st ch s) = wf_log s"
  by (simp_all add: store_first_event_def Let_def)

lemma arrays_ok_count_event [simp]: "arrays_ok (count_event st ch s) = arrays_ok s"
  by (simp add: arrays_ok_def)

lemma arrays_ok_report [simp]: "arrays_ok (report d s) = arrays_ok s"
  by (simp add: arrays_ok_def)

lemma arrays_ok_setShapeDefinitionError [simp]:
  "arrays_ok (setShapeDefinitionError b s) = arrays_ok s"
  by (simp add: arrays_ok_def)

lemma arrays_ok_previousAngle [simp]: "arrays_ok (s\<lparr>previousAngle := a\<rparr>) = arrays_ok s"
  by (simp add: arrays_ok_def)

subsection \<open>The events addEvent accepts\<close>

definition accepts :: "libfw \<Rightarrow> rat \<Rightarrow> trigger_waveform \<Rightarrow> bool" where
  "accepts L a s \<longleftrightarrow>
     m_operationMode s \<noteq> OM_NONE \<and> 0 < a \<and> a \<le> 1 \<and>
     (0 < phaseCount (wave s) \<longrightarrow> previousAngle s < a \<and> findAngleMatch L (wave s) a = None)"

definition push_event :: "rat \<times> bool \<times> trigger_wheel \<Rightarrow> trigger_waveform \<Rightarrow> trigger_waveform" where
  "push_event e s =
     (case e of (a, st, ch) \<Rightarrow>
        let s = (count_event st ch s)\<lparr>previousAngle := a\<rparr> in
        if phaseCount (wave s) = 0 then store_first_event a st ch s
        else store_event (phaseCount (wave s)) a st ch s)"

lemma wave_inv_insertion:
  assumes "wave_inv s" "0 < phaseCount (wave s)" "previousAngle s < a"
  shows "findInsertionAngle (wave s) a = phaseCount (wave s)"
  using assms by (intro findInsertionAngle_append) (auto simp: wave_inv_def)

lemma addEvent_accepts:
  assumes "wave_inv s" "accepts L a s"
  shows "addEvent L a st ch s = push_event (a, st, ch) s"
proof -
  have "findInsertionAngle (wave s) a = phaseCount (wave s)" if "0 < phaseCount (wave s)"
    using assms that by (intro wave_inv_insertion) (auto simp: accepts_def)
  with assms(2) show ?thesis
    by (auto simp: addEvent_def push_event_def accepts_def Let_def)
qed

text \<open>Otherwise the event is refused with exactly one message, and the stored events stay.\<close>

lemma addEvent_refuses:
  assumes "\<not> accepts L a s"
  shows "wave (addEvent L a st ch s) = wave s"
    and "isRiseEvent (addEvent L a st ch s) = isRiseEvent s"
    and "\<exists>d. wf_log (addEvent L a st ch s) = wf_log s @ [d] \<and>
           d \<in> {FirmwareError CUSTOM_OMODE_UNDEF, FirmwareError CUSTOM_ERR_6599,
                Warning CUSTOM_ERR_TRG_ANGLE_ORDER, Warning CUSTOM_ERR_SAME_ANGLE}"
    and "previousAngle s \<le> previousAngle (addEvent L a st ch s) \<or> phaseCount (wave s) = 0"
    and "length (expectedEventCount (addEvent L a st ch s)) = length (expectedEventCount s)"
  using assms by (auto simp: addEvent_def accepts_def Let_def not_less)

lemma push_event_inv:
  assumes "wave_inv s" "phaseCount (wave s) < PWM_PHASE_MAX_COUNT"
    and "0 < a" "a \<le> 1" "0 < phaseCount (wave s) \<longrightarrow> previousAngle s < a"
  shows "wave_inv (push_event (a, st, ch) s)"
    and "phaseCount (wave (push_event (a, st, ch) s)) = Suc (phaseCount (wave s))"
    and "getSwitchTime (wave (push_event (a, st, ch) s)) (phaseCount (wave s)) = a"
    and "\<And>j. j < phaseCount (wave s) \<Longrightarrow>
           getSwitchTime (wave (push_event (a, st, ch) s)) j = getSwitchTime (wave s) j"
    and "previousAngle (push_event (a, st, ch) s) = a"
    and "wf_log (push_event (a, st, ch) s) = wf_log s"
proof -
  define t where "t = (count_event st ch s)\<lparr>previousAngle := a\<rparr>"
  have t [simp]: "wave t = wave s" "arrays_ok t" "previousAngle t = a" "wf_log t = wf_log s"
    using assms(1) by (simp_all add: t_def wave_inv_def)
  have push: "push_event (a, st, ch) s =
      (if phaseCount (wave s) = 0 then store_first_event a st ch t
       else store_event (phaseCount (wave s)) a st ch t)"
    by (simp add: push_event_def t_def)
  show n: "phaseCount (wave (push_event (a, st, ch) s)) = Suc (phaseCount (wave s))"
    using assms(2) by (simp add: push store_first_event_fields store_event_append_fields)
  show new: "getSwitchTime (wave (push_event (a, st, ch) s)) (phaseCount (wave s)) = a"
    using assms(2) by (simp add: push store_first_event_fields store_event_append_fields)
  show old: "getSwitchTime (wave (push_event (a, st, ch) s)) j = getSwitchTime (wave s) j"
    if "j < phaseCount (wave s)" for j
    using assms(2) that by (auto simp: push store_event_append_fields)
  show p: "previousAngle (push_event (a, st, ch) s) = a"
    by (simp add: push)
  show "wf_log (push_event (a, st, ch) s) = wf_log s"
    using assms(2) by (simp add: push store_event_log)
  have arr: "arrays_ok (push_event (a, st, ch) s)"
    using assms(2) by (simp add: push store_first_event_fields store_event_append_fields)
  have "times_ok (wave (push_event (a, st, ch) s))"
    unfolding times_ok_def n
  proof (intro conjI allI impI)
    fix i
    assume "i < Suc (phaseCount (wave s))"
    then show "0 < getSwitchTime (wave (push_event (a, st, ch) s)) i"
      and "getSwitchTime (wave (push_event (a, st, ch) s)) i \<le> 1"
      using new old assms(1,3,4) by (auto simp: wave_inv_def times_ok_def less_Suc_eq)
  next
    fix i
    assume i: "Suc i < Suc (phaseCount (wave s))"
    show "getSwitchTime (wave (push_event (a, st, ch) s)) i
        < getSwitchTime (wave (push_event (a, st, ch) s)) (Suc i)"
    proof (cases "Suc i = phaseCount (wave s)")
      case True
      have "getSwitchTime (wave s) (phaseCount (wave s) - 1) < a"
        using True assms(1,5) by (auto simp: wave_inv_def)
      with True new old[of i] show ?thesis by (metis diff_Suc_1 lessI)
    next
      case False
      with i old assms(1) show ?thesis by (auto simp: wave_inv_def times_ok_def)
    qed
  qed
  with arr n new p assms(2) show "wave_inv (push_event (a, st, ch) s)"
    by (simp add: wave_inv_def)
qed

text \<open>The invariant through any call of \<open>addEvent\<close>, accepted or refused.\<close>

lemma addEvent_inv:
  assumes "wave_inv s" "phaseCount (wave s) < PWM_PHASE_MAX_COUNT"
  shows "wave_inv (addEvent L a st ch s)"
proof (cases "accepts L a s")
  case True
  then show ?thesis
    using assms by (auto simp: addEvent_accepts accepts_def intro!: push_event_inv)
next
  case False
  from addEvent_refuses[OF False, of st ch] assms(1) show ?thesis
    by (auto simp: wave_inv_def arrays_ok_def intro: order_trans)
qed

subsection \<open>Waveforms built from a list of accepted events\<close>

type_synonym shape_event = "rat \<times> bool \<times> trigger_wheel"

primrec mkwave :: "trigger_waveform \<Rightarrow> shape_event list \<Rightarrow> trigger_waveform" where
  "mkwave s0 [] = s0"
| "mkwave s0 (e # es) = push_event e (mkwave s0 es)"

definition fresh :: "trigger_waveform \<Rightarrow> bool" where
  "fresh s \<longleftrightarrow> arrays_ok s \<and> phaseCount (wave s) = 0 \<and> m_operationMode s \<noteq> OM_NONE \<and>
     expectedEventCount s = [0, 0]"

text \<open>The newest event comes first; two neighbours are further apart than \<open>isSameF\<close> can confuse.\<close>

definition follows :: "rat \<Rightarrow> shape_event list \<Rightarrow> bool" where
  "follows a es \<longleftrightarrow> (case es of [] \<Rightarrow> True | (b, _) # _ \<Rightarrow> 1/8000 < a - b)"

lemma follows_simps [simp]:
  "follows a []" "follows a ((b, x) # es) \<longleftrightarrow> 1/8000 < a - b"
  by (simp_all add: follows_def)

fun events_ok :: "shape_event list \<Rightarrow> bool" where
  "events_ok [] = True"
| "events_ok ((a, st, ch) # es) = (0 < a \<and> a \<le> 1 \<and> follows a es \<and> events_ok es)"

fun event_count :: "bool \<Rightarrow> trigger_wheel \<Rightarrow> shape_event list \<Rightarrow> nat" where
  "event_count riseOnly w [] = 0"
| "event_count riseOnly w ((a, st, ch) # es) =
     (if ch = w \<and> (\<not> riseOnly \<or> st) then 1 else 0) + event_count riseOnly w es"

lemma m_operationMode_push_event [simp]:
  "m_operationMode (push_event e s) = m_operationMode s"
  "useOnlyRisingEdges (push_event e s) = useOnlyRisingEdges s"
  "shapeDefinitionError (push_event e s) = shapeDefinitionError s"
  by (simp_all add: push_event_def Let_def split: prod.split)

lemma mkwave_fields [simp]:
  "m_operationMode (mkwave s0 es) = m_operationMode s0"
  "useOnlyRisingEdges (mkwave s0 es) = useOnlyRisingEdges s0"
  "shapeDefinitionError (mkwave s0 es) = shapeDefinitionError s0"
  by (induction es) auto

lemma fresh_wave_inv: "fresh s \<Longrightarrow> wave_inv s"
  by (simp add: fresh_def wave_inv_def times_ok_def)

lemma mkwave_inv:
  assumes "fresh s0" "events_ok es" "length es \<le> PWM_PHASE_MAX_COUNT"
  shows "wave_inv (mkwave s0 es) \<and> phaseCount (wave (mkwave s0 es)) = length es \<and>
     (es \<noteq> [] \<longrightarrow> previousAngle (mkwave s0 es) = fst (hd es)) \<and>
     wf_log (mkwave s0 es) = wf_log s0 \<and>
     (\<forall>i < length es. getSwitchTime (wave (mkwave s0 es)) i = fst (rev es ! i))"
  using assms(2,3)
proof (induction es)
  case Nil
  then show ?case using assms(1) by (auto simp: fresh_wave_inv) (auto simp: fresh_def)
next
  case (Cons e es)
  obtain a st ch where e: "e = (a, st, ch)" by (cases e)
  let ?s = "mkwave s0 es"
  from Cons e have IH: "wave_inv ?s" "phaseCount (wave ?s) = length es"
    "es \<noteq> [] \<longrightarrow> previousAngle ?s = fst (hd es)" "wf_log ?s = wf_log s0"
    "\<forall>i < length es. getSwitchTime (wave ?s) i = fst (rev es ! i)"
    by auto
  have a: "0 < a" "a \<le> 1" using Cons.prems e by auto
  have prev: "0 < phaseCount (wave ?s) \<longrightarrow> previousAngle ?s < a"
    using IH(2,3) Cons.prems(1) e by (cases es) auto
  have lt: "phaseCount (wave ?s) < PWM_PHASE_MAX_COUNT"
    using Cons.prems(2) IH(2) by simp
  note push = push_event_inv[OF IH(1) lt a prev, where st = st and ch = ch]
  show ?case
    unfolding e mkwave.simps
  proof (intro conjI allI impI)
    fix i
    assume "i < length ((a, st, ch) # es)"
    then show "getSwitchTime (wave (push_event (a, st, ch) ?s)) i
        = fst (rev ((a, st, ch) # es) ! i)"
      using push(3) push(4)[of i] IH(2,5) by (auto simp: less_Suc_eq nth_append)
  qed (use push IH in auto)
qed

lemma accepts_mkwave:
  assumes "libfw_ok L" "fresh s0" "events_ok ((a, st, ch) # es)" "length es \<le> PWM_PHASE_MAX_COUNT"
  shows "accepts L a (mkwave s0 es)"
proof -
  let ?s = "mkwave s0 es"
  have M: "wave_inv ?s" "phaseCount (wave ?s) = length es"
    "es \<noteq> [] \<longrightarrow> previousAngle ?s = fst (hd es)"
    "\<forall>i < length es. getSwitchTime (wave ?s) i = fst (rev es ! i)"
    using mkwave_inv[OF assms(2), of es] assms(3,4) by auto
  have "1/8000 < a - getSwitchTime (wave ?s) i" if "i < length es" for i
  proof -
    have "getSwitchTime (wave ?s) i \<le> getSwitchTime (wave ?s) (length es - 1)"
      using M(1,2) that times_ok_last[of "wave ?s" i] by (auto simp: wave_inv_def)
    also have "\<dots> = fst (hd es)"
      using M(4) that by (cases es) (auto simp: nth_append)
    finally show ?thesis
      using assms(3) that by (cases es) auto
  qed
  then have "findAngleMatch L (wave ?s) a = None"
    using libfw_not_same[OF assms(1)] M(2) by (simp add: findAngleMatch_None)
  moreover have "0 < phaseCount (wave ?s) \<longrightarrow> previousAngle ?s < a"
    using M(2,3) assms(3) by (cases es) auto
  ultimately show ?thesis
    using assms(2,3) by (simp add: accepts_def fresh_def)
qed

subsection \<open>Symbolic execution: the list of the added events\<close>

text \<open>
  \<open>adds L es s\<close> is \<open>s\<close> after the calls of \<open>addEvent\<close> in \<open>es\<close>, newest first. Every operation of a
  shape definition has an equation that brings its result back to this form, whatever the events
  are; one check of the whole list (\<open>events_ok\<close>) then says that every call was accepted.
\<close>

primrec adds :: "libfw \<Rightarrow> shape_event list \<Rightarrow> trigger_waveform \<Rightarrow> trigger_waveform" where
  "adds L [] s = s"
| "adds L (e # es) s = (case e of (a, st, ch) \<Rightarrow> addEvent L a st ch (adds L es s))"

declare adds.simps [simp del]

lemma adds_mkwave:
  assumes "libfw_ok L" "fresh s0" "events_ok es" "length es \<le> PWM_PHASE_MAX_COUNT"
  shows "adds L es s0 = mkwave s0 es"
  using assms(3,4)
proof (induction es)
  case (Cons e es)
  obtain a st ch where e: "e = (a, st, ch)" by (cases e)
  with Cons have IH: "adds L es s0 = mkwave s0 es"
    by simp
  have "accepts L a (mkwave s0 es)"
    using accepts_mkwave[OF assms(1,2), of a st ch es] Cons.prems e by simp
  moreover have "wave_inv (mkwave s0 es)"
    using mkwave_inv[OF assms(2), of es] Cons.prems e by simp
  ultimately show ?case
    by (simp add: adds.simps e IH addEvent_accepts)
qed (simp add: adds.simps)

lemma count_event_setters:
  "count_event st ch (s\<lparr>isSynchronizationNeeded := b\<rparr>) = (count_event st ch s)\<lparr>isSynchronizationNeeded := b\<rparr>"
  "count_event st ch (s\<lparr>isSecondWheelCam := b\<rparr>) = (count_event st ch s)\<lparr>isSecondWheelCam := b\<rparr>"
  "count_event st ch (s\<lparr>shapeWithoutTdc := b\<rparr>) = (count_event st ch s)\<lparr>shapeWithoutTdc := b\<rparr>"
  "count_event st ch (s\<lparr>useOnlyPrimaryForSync := b\<rparr>) = (count_event st ch s)\<lparr>useOnlyPrimaryForSync := b\<rparr>"
  "count_event st ch (s\<lparr>tdcPosition := x\<rparr>) = (count_event st ch s)\<lparr>tdcPosition := x\<rparr>"
  "count_event st ch (s\<lparr>gapTrackingLength := i\<rparr>) = (count_event st ch s)\<lparr>gapTrackingLength := i\<rparr>"
  "count_event st ch (s\<lparr>syncRatioAvg := i\<rparr>) = (count_event st ch s)\<lparr>syncRatioAvg := i\<rparr>"
  "count_event st ch (s\<lparr>syncronizationRatioFrom := xs\<rparr>) = (count_event st ch s)\<lparr>syncronizationRatioFrom := xs\<rparr>"
  "count_event st ch (s\<lparr>syncronizationRatioTo := xs\<rparr>) = (count_event st ch s)\<lparr>syncronizationRatioTo := xs\<rparr>"
  by (simp_all add: count_event_def Let_def)

lemma store_event_eq:
  "store_event n a st ch s =
     s\<lparr>isRiseEvent := (isRiseEvent s)[n := st],
       wave := (let w = (wave s)\<lparr>phaseCount := phaseCount (wave s) + 1\<rparr>;
                    w = fold (\<lambda>i w. setChannelState i n (getChannelState w i (n - 1)) w)
                             [0..<PWM_PHASE_MAX_WAVE_PER_PWM] w
                in setChannelState (wheel_index ch) n st (setSwitchTime n a w)),
       wf_log := wf_log s @ (if n < PWM_PHASE_MAX_COUNT then [] else [OutOfBounds])
                   @ (if n \<noteq> phaseCount (wave s) then [FirmwareError OBD_PCM_Processor_Fault] else [])\<rparr>"
  by (simp add: store_event_def report_def Let_def)

lemma addEvent_setters:
  "addEvent L a st ch (s\<lparr>isSynchronizationNeeded := b\<rparr>) = (addEvent L a st ch s)\<lparr>isSynchronizationNeeded := b\<rparr>"
  "addEvent L a st ch (s\<lparr>isSecondWheelCam := b\<rparr>) = (addEvent L a st ch s)\<lparr>isSecondWheelCam := b\<rparr>"
  "addEvent L a st ch (s\<lparr>shapeWithoutTdc := b\<rparr>) = (addEvent L a st ch s)\<lparr>shapeWithoutTdc := b\<rparr>"
  "addEvent L a st ch (s\<lparr>useOnlyPrimaryForSync := b\<rparr>) = (addEvent L a st ch s)\<lparr>useOnlyPrimaryForSync := b\<rparr>"
  "addEvent L a st ch (s\<lparr>tdcPosition := x\<rparr>) = (addEvent L a st ch s)\<lparr>tdcPosition := x\<rparr>"
  "addEvent L a st ch (s\<lparr>gapTrackingLength := i\<rparr>) = (addEvent L a st ch s)\<lparr>gapTrackingLength := i\<rparr>"
  "addEvent L a st ch (s\<lparr>syncRatioAvg := i\<rparr>) = (addEvent L a st ch s)\<lparr>syncRatioAvg := i\<rparr>"
  "addEvent L a st ch (s\<lparr>syncronizationRatioFrom := xs\<rparr>) = (addEvent L a st ch s)\<lparr>syncronizationRatioFrom := xs\<rparr>"
  "addEvent L a st ch (s\<lparr>syncronizationRatioTo := xs\<rparr>) = (addEvent L a st ch s)\<lparr>syncronizationRatioTo := xs\<rparr>"
  by (simp_all add: addEvent_def Let_def count_event_setters store_event_eq report_def
      store_first_event_def setShapeDefinitionError_def)

lemma addEvent_mode [simp]:
  "m_operationMode (addEvent L a st ch s) = m_operationMode s"
  "gapTrackingLength (addEvent L a st ch s) = gapTrackingLength s"
  "syncronizationRatioFrom (addEvent L a st ch s) = syncronizationRatioFrom s"
  "syncronizationRatioTo (addEvent L a st ch s) = syncronizationRatioTo s"
  by (simp_all add: addEvent_def Let_def count_event_def report_def store_event_def
      store_first_event_def setShapeDefinitionError_def)

lemma adds_fields:
  "m_operationMode (adds L es s) = m_operationMode s"
  "gapTrackingLength (adds L es s) = gapTrackingLength s"
  "syncronizationRatioFrom (adds L es s) = syncronizationRatioFrom s"
  "syncronizationRatioTo (adds L es s) = syncronizationRatioTo s"
  by (induction es) (auto simp: adds.simps split: prod.split)

text \<open>The equations that run a shape definition.\<close>

lemma addEvent_adds [shape_simps]:
  "addEvent L a st ch (adds L es s) = adds L ((a, st, ch) # es) s"
  by (simp add: adds.simps)

lemma addEvent720_adds [shape_simps]:
  "addEvent720 L a st ch (adds L es s) = adds L ((a / 720, st, ch) # es) s"
  by (simp add: addEvent720_def shape_simps)

lemma addEvent360_adds [shape_simps]:
  "m_operationMode s = FOUR_STROKE_CAM_SENSOR \<or> m_operationMode s = FOUR_STROKE_CRANK_SENSOR \<Longrightarrow>
     addEvent360 L a st ch (adds L es s) = adds L ((2 * a / 720, st, ch) # es) s"
  by (simp add: addEvent360_def adds_fields shape_simps)

lemma addEventAngle_adds [shape_simps]:
  "addEventAngle L a st ch (adds L es s) = adds L ((a / cycle_duration (m_operationMode s), st, ch) # es) s"
  by (simp add: addEventAngle_def getCycleDuration_def adds_fields shape_simps)

lemma addEventClamped_adds [shape_simps]:
  "addEventClamped L a st ch lo hi (adds L es s) =
     adds L (if lo < a \<and> a < hi
             then (a / getEngineCycle (m_operationMode s), st, ch) # es else es) s"
  by (simp add: addEventClamped_def adds_fields shape_simps)

lemma getCycleDuration_adds [shape_simps]:
  "getCycleDuration (adds L es s) = cycle_duration (m_operationMode s)"
  by (simp add: getCycleDuration_def adds_fields)

lemma adds_setters [shape_simps]:
  "(adds L es s)\<lparr>isSynchronizationNeeded := b\<rparr> = adds L es (s\<lparr>isSynchronizationNeeded := b\<rparr>)"
  "(adds L es s)\<lparr>isSecondWheelCam := b\<rparr> = adds L es (s\<lparr>isSecondWheelCam := b\<rparr>)"
  "(adds L es s)\<lparr>shapeWithoutTdc := b\<rparr> = adds L es (s\<lparr>shapeWithoutTdc := b\<rparr>)"
  "(adds L es s)\<lparr>useOnlyPrimaryForSync := b\<rparr> = adds L es (s\<lparr>useOnlyPrimaryForSync := b\<rparr>)"
  "(adds L es s)\<lparr>tdcPosition := x\<rparr> = adds L es (s\<lparr>tdcPosition := x\<rparr>)"
  "(adds L es s)\<lparr>gapTrackingLength := i\<rparr> = adds L es (s\<lparr>gapTrackingLength := i\<rparr>)"
  "(adds L es s)\<lparr>syncRatioAvg := i\<rparr> = adds L es (s\<lparr>syncRatioAvg := i\<rparr>)"
  "(adds L es s)\<lparr>syncronizationRatioFrom := xs\<rparr> = adds L es (s\<lparr>syncronizationRatioFrom := xs\<rparr>)"
  "(adds L es s)\<lparr>syncronizationRatioTo := xs\<rparr> = adds L es (s\<lparr>syncronizationRatioTo := xs\<rparr>)"
  by (induction es) (simp_all add: adds.simps addEvent_setters [symmetric] split: prod.splits)

lemma setGap3_eq:
  assumes "0 \<le> i" "i < 18"
  shows "setTriggerSynchronizationGap3 L i f t s =
    (let s = s\<lparr>isSynchronizationNeeded := True,
          syncronizationRatioFrom := (syncronizationRatioFrom s)[nat i := f],
          syncronizationRatioTo := (syncronizationRatioTo s)[nat i := t],
          gapTrackingLength := maxI L (1 + i) (gapTrackingLength s)\<rparr>
     in if i = 0 then s\<lparr>syncRatioAvg := ratio_average f t\<rparr> else s)"
  using assms
  by (simp add: setTriggerSynchronizationGap3_def GAP_TRACKING_LENGTH_def Let_def)

lemma setGap3_adds [shape_simps]:
  assumes "0 \<le> i" "i < 18"
  shows "setTriggerSynchronizationGap3 L i f t (adds L es s) =
     adds L es (setTriggerSynchronizationGap3 L i f t s)"
  by (simp add: setGap3_eq[OF assms] Let_def adds_fields adds_setters)

lemmas gap_defs [shape_simps] =
  setTriggerSynchronizationGap_def setTriggerSynchronizationGap2_def
  setSecondTriggerSynchronizationGap_def setSecondTriggerSynchronizationGap2_def
  setThirdTriggerSynchronizationGap_def

lemma setGap3_reads:
  fixes L s f t
  assumes "0 \<le> i" "i < 18"
  defines "s' \<equiv> setTriggerSynchronizationGap3 L i f t s"
  shows "isSynchronizationNeeded s'" "shapeWithoutTdc s' = shapeWithoutTdc s"
    "useOnlyPrimaryForSync s' = useOnlyPrimaryForSync s" "wf_log s' = wf_log s"
    "shapeDefinitionError s' = shapeDefinitionError s" "m_operationMode s' = m_operationMode s"
    "useOnlyRisingEdges s' = useOnlyRisingEdges s" "fresh s' = fresh s" "m_syncEdge s' = m_syncEdge s"
    "tdcPosition s' = tdcPosition s" "wave s' = wave s"
    "gapTrackingLength s' = maxI L (1 + i) (gapTrackingLength s)"
    "isRiseEvent s' = isRiseEvent s" "version s' = version s"
  by (simp_all add: s'_def setGap3_eq[OF assms(1,2)] Let_def fresh_def arrays_ok_def)

subsection \<open>The freshly initialised waveform\<close>

lemma fold_setGap3_reads:
  fixes L s f t
  assumes "set gs \<subseteq> {..<18}"
  defines "s' \<equiv> fold (\<lambda>i. setTriggerSynchronizationGap3 L (int i) f t) gs s"
  shows "shapeWithoutTdc s' = shapeWithoutTdc s" "wf_log s' = wf_log s"
    "useOnlyRisingEdges s' = useOnlyRisingEdges s" "wave s' = wave s"
    "isSynchronizationNeeded s \<longrightarrow> isSynchronizationNeeded s'" "version s' = version s"
  unfolding s'_def using assms(1)
  by (induction gs arbitrary: s) (auto simp: setGap3_reads)

definition arrays_declared :: "trigger_waveform \<Rightarrow> bool" where
  "arrays_declared s \<longleftrightarrow>
     length (switchTimes (wave s)) = PWM_PHASE_MAX_COUNT \<and>
     length (waveForm (wave s)) = PWM_PHASE_MAX_COUNT"

lemma arrays_declared_blank: "arrays_declared blank_waveform"
  by (simp add: arrays_declared_def blank_waveform_def)

lemma wf_initialize_reads:
  fixes L s om se
  defines "s' \<equiv> wf_initialize L om se s"
  shows "isSynchronizationNeeded s'" "\<not> shapeWithoutTdc s'" "\<not> useOnlyPrimaryForSync s'"
    "wf_log s' = wf_log s" "\<not> shapeDefinitionError s'" "m_operationMode s' = om"
    "useOnlyRisingEdges s' = (se = RiseOnly)" "m_syncEdge s' = se" "tdcPosition s' = 0"
    "gapTrackingLength s' = 1" "version s' = version s"
    "arrays_declared s \<Longrightarrow> om \<noteq> OM_NONE \<Longrightarrow> fresh s'"
proof -
  have G: "set [1..<GAP_TRACKING_LENGTH] \<subseteq> {..<18}"
    by (auto simp: GAP_TRACKING_LENGTH_def)
  note R = fold_setGap3_reads[OF G] setGap3_reads
  show "isSynchronizationNeeded s'" "\<not> shapeWithoutTdc s'" "\<not> useOnlyPrimaryForSync s'"
    "wf_log s' = wf_log s" "\<not> shapeDefinitionError s'" "m_operationMode s' = om"
    "useOnlyRisingEdges s' = (se = RiseOnly)" "m_syncEdge s' = se" "tdcPosition s' = 0"
    "gapTrackingLength s' = 1" "version s' = version s"
    "arrays_declared s \<Longrightarrow> om \<noteq> OM_NONE \<Longrightarrow> fresh s'"
    by (simp_all del: One_nat_def add: s'_def wf_initialize_def Let_def R setTriggerSynchronizationGap_def
        fresh_def arrays_ok_def arrays_declared_def wave_reset_def
        PWM_PHASE_MAX_WAVE_PER_PWM_def numeral_2_eq_2)
qed

subsection \<open>A clean shape\<close>

text \<open>
  What the firmware needs of a shape definition \<open>s'\<close> run on the waveform \<open>s\<close>, after the final
  \<open>calculateExpectedEventCounts\<close>: nothing reported, no definition error, between one event and
  \<open>PWM_PHASE_MAX_COUNT\<close> events at strictly increasing positions in (0, 1], the last one at 1, so
  that \<open>checkSwitchTimes\<close> has nothing to report either.
\<close>

definition clean_shape :: "trigger_waveform \<Rightarrow> trigger_waveform \<Rightarrow> bool" where
  "clean_shape s s' \<longleftrightarrow>
     wf_log (calculateExpectedEventCounts s') = wf_log s \<and>
     \<not> shapeDefinitionError s' \<and> m_operationMode s' \<noteq> OM_NONE \<and>
     wave_inv s' \<and> 0 < phaseCount (wave s') \<and> checkSwitchTimes (wave s') = []"

fun counts_ok :: "bool \<Rightarrow> bool \<Rightarrow> bool \<Rightarrow> bool \<Rightarrow> nat \<Rightarrow> nat \<Rightarrow> bool" where
  "counts_ok riseOnly needSync withoutTdc onlyPrimary p q \<longleftrightarrow>
     (riseOnly \<or> even p \<and> even q) \<and>
     (withoutTdc \<or> ((p = (if riseOnly then 1 else 2)) = (\<not> needSync))) \<and>
     (p = (if riseOnly then 1 else 2) \<or> q \<noteq> 0 \<or> \<not> onlyPrimary)"

lemma push_event_reads [simp]:
  "gapTrackingLength (push_event e s) = gapTrackingLength s"
  "isSynchronizationNeeded (push_event e s) = isSynchronizationNeeded s"
  "shapeWithoutTdc (push_event e s) = shapeWithoutTdc s"
  "useOnlyPrimaryForSync (push_event e s) = useOnlyPrimaryForSync s"
  "tdcPosition (push_event e s) = tdcPosition s"
  "m_syncEdge (push_event e s) = m_syncEdge s"
  "version (push_event e s) = version s"
  by (cases e; simp add: push_event_def count_event_def store_event_def store_first_event_def report_def Let_def)+

lemma mkwave_reads [simp]:
  "gapTrackingLength (mkwave s es) = gapTrackingLength s"
  "isSynchronizationNeeded (mkwave s es) = isSynchronizationNeeded s"
  "shapeWithoutTdc (mkwave s es) = shapeWithoutTdc s"
  "useOnlyPrimaryForSync (mkwave s es) = useOnlyPrimaryForSync s"
  "tdcPosition (mkwave s es) = tdcPosition s"
  "m_syncEdge (mkwave s es) = m_syncEdge s"
  "version (mkwave s es) = version s"
  by (induction es) auto

lemma expectedEventCount_push_event:
  "expectedEventCount (push_event (a, st, ch) s) =
     (if \<not> useOnlyRisingEdges s \<or> st
      then (expectedEventCount s)[wheel_index ch := expectedEventCount s ! wheel_index ch + 1]
      else expectedEventCount s)"
  by (simp add: push_event_def count_event_def Let_def)

lemma expectedEventCount_mkwave:
  assumes "expectedEventCount s0 = [0, 0]"
  shows "expectedEventCount (mkwave s0 es) =
     [event_count (useOnlyRisingEdges s0) T_PRIMARY es, event_count (useOnlyRisingEdges s0) T_SECONDARY es]"
proof (induction es)
  case (Cons e es)
  obtain a st ch where "e = (a, st, ch)" by (cases e)
  with Cons show ?case by (cases ch) (auto simp: expectedEventCount_push_event)
qed (simp add: assms)

lemma calculateExpectedEventCounts_log:
  assumes "expectedEventCount s = [p, q]"
    and "counts_ok (useOnlyRisingEdges s) (isSynchronizationNeeded s) (shapeWithoutTdc s)
           (useOnlyPrimaryForSync s) p q"
  shows "wf_log (calculateExpectedEventCounts s) = wf_log s"
proof (cases "useOnlyRisingEdges s")
  case True
  then show ?thesis
    using assms by (auto simp: calculateExpectedEventCounts_def Let_def getExpectedEventCount_def)
next
  case False
  then have "even p" "even q"
    using assms(2) by auto
  then show ?thesis
    using assms False
    by (auto simp: calculateExpectedEventCounts_def Let_def getExpectedEventCount_def upt_channels
        even_iff_mod_2_eq_zero)
qed

lemma clean_shape_mkwave:
  assumes "fresh s0" "wf_log s0 = wf_log s" "\<not> shapeDefinitionError s0"
    and "events_ok es" "length es \<le> PWM_PHASE_MAX_COUNT" "es \<noteq> []" "fst (hd es) = 1"
    and "counts_ok (useOnlyRisingEdges s0) (isSynchronizationNeeded s0) (shapeWithoutTdc s0)
           (useOnlyPrimaryForSync s0) (event_count (useOnlyRisingEdges s0) T_PRIMARY es)
           (event_count (useOnlyRisingEdges s0) T_SECONDARY es)"
  shows "clean_shape s (mkwave s0 es)"
proof -
  note M = mkwave_inv[OF assms(1,4,5)]
  have "getSwitchTime (wave (mkwave s0 es)) (length es - 1) = 1"
    using M assms(6,7) by (cases es) (auto simp: nth_append)
  then have "checkSwitchTimes (wave (mkwave s0 es)) = []"
    using M assms(6) by (auto simp: checkSwitchTimes_Nil_iff wave_inv_def times_ok_def)
  moreover have "expectedEventCount s0 = [0, 0]" "m_operationMode s0 \<noteq> OM_NONE"
    using assms(1) by (auto simp: fresh_def)
  moreover have "wf_log (calculateExpectedEventCounts (mkwave s0 es)) = wf_log (mkwave s0 es)"
    using calculation assms(8)
    by (intro calculateExpectedEventCounts_log[OF expectedEventCount_mkwave]) simp_all
  ultimately show ?thesis
    using M assms(2,3,6) by (simp add: clean_shape_def)
qed

text \<open>The starting point of a definition: \<open>started L om se s\<close> is \<open>wf_initialize\<close>, written apart so
  that simplification does not unfold it again.\<close>

definition started :: "libfw \<Rightarrow> operation_mode_e \<Rightarrow> sync_edge \<Rightarrow> trigger_waveform \<Rightarrow> trigger_waveform" where
  "started L om se s = wf_initialize L om se s"

lemma wf_initialize_adds [shape_simps]: "wf_initialize L om se s = adds L [] (started L om se s)"
  by (simp add: adds.simps started_def)

lemma started_reads [simp]:
  "isSynchronizationNeeded (started L om se s)" "\<not> shapeWithoutTdc (started L om se s)"
  "\<not> useOnlyPrimaryForSync (started L om se s)" "wf_log (started L om se s) = wf_log s"
  "\<not> shapeDefinitionError (started L om se s)" "m_operationMode (started L om se s) = om"
  "useOnlyRisingEdges (started L om se s) = (se = RiseOnly)"
  "arrays_declared s \<Longrightarrow> om \<noteq> OM_NONE \<Longrightarrow> fresh (started L om se s)"
  by (simp_all add: started_def wf_initialize_reads)

lemma fresh_setters [simp]:
  "fresh (s\<lparr>isSynchronizationNeeded := b\<rparr>) = fresh s"
  "fresh (s\<lparr>isSecondWheelCam := b\<rparr>) = fresh s"
  "fresh (s\<lparr>shapeWithoutTdc := b\<rparr>) = fresh s"
  "fresh (s\<lparr>useOnlyPrimaryForSync := b\<rparr>) = fresh s"
  "fresh (s\<lparr>tdcPosition := x\<rparr>) = fresh s"
  by (simp_all add: fresh_def arrays_ok_def)

text \<open>The rule that settles a shape: one evaluation of its list of events.\<close>

lemma clean_shape_adds [shape_simps]:
  assumes "libfw_ok L" "fresh s0" "wf_log s0 = wf_log s" "\<not> shapeDefinitionError s0"
    and "es \<noteq> []" "fst (hd es) = 1" "events_ok es" "length es \<le> PWM_PHASE_MAX_COUNT"
    and "counts_ok (useOnlyRisingEdges s0) (isSynchronizationNeeded s0) (shapeWithoutTdc s0)
           (useOnlyPrimaryForSync s0) (event_count (useOnlyRisingEdges s0) T_PRIMARY es)
           (event_count (useOnlyRisingEdges s0) T_SECONDARY es)"
  shows "clean_shape s (adds L es s0)"
  using assms by (simp add: adds_mkwave clean_shape_mkwave)

lemmas shape_run = shape_simps setGap3_reads cycle_duration_def getEngineCycle_def
  PWM_PHASE_MAX_COUNT_def upto_rec1 upt_conv_Cons

end
