(* ===== verification/Shapes_Universal.thy ===== *)
theory Shapes_Universal
  imports Shape_Library
begin

text \<open>
  The missing-tooth wheels and the other generic wheels, and the shapes of no particular maker.
  One definition per function of \<^verbatim>\<open>trigger_universal.cpp\<close>, \<^verbatim>\<open>trigger_misc.cpp\<close>
  (\<^verbatim>\<open>controllers/trigger/decoders\<close>), statement by statement, and for each complete shape the
  proof that it is clean (\<open>clean_shape\<close>).
\<close>

subsection \<open>\<^verbatim>\<open>trigger_universal.cpp\<close>\<close>

abbreviation (input) NO_LEFT_FILTER :: rat where "NO_LEFT_FILTER \<equiv> - 1"
abbreviation (input) NO_RIGHT_FILTER :: rat where "NO_RIGHT_FILTER \<equiv> 1000"

definition addSkippedToothTriggerEvents ::
  "libfw \<Rightarrow> trigger_wheel \<Rightarrow> int \<Rightarrow> int \<Rightarrow> rat \<Rightarrow> rat \<Rightarrow> rat \<Rightarrow> rat \<Rightarrow> rat \<Rightarrow>
     trigger_waveform \<Rightarrow> trigger_waveform" where
  "addSkippedToothTriggerEvents L wheel totalTeethCount skippedCount toothWidth offset engineCycle
       filterLeft filterRight s =
     (if \<not> totalTeethCount > 0 then report (FirmwareError CUSTOM_ERR_6586) s
      else if \<not> skippedCount \<ge> 0 then report (FirmwareError CUSTOM_ERR_6587) s
      else
        let s = fold (\<lambda>i s.
                  let angleDown = engineCycle / of_int totalTeethCount * (of_int i + (1 - toothWidth));
                      angleUp = engineCycle / of_int totalTeethCount * of_int (i + 1);
                      s = addEventClamped L (offset + angleDown) True wheel filterLeft filterRight s;
                      s = addEventClamped L (offset + angleUp) False wheel filterLeft filterRight s
                  in s) [0..totalTeethCount - skippedCount - 1 - 1] s;
            angleDown = engineCycle / of_int totalTeethCount
              * (of_int (totalTeethCount - skippedCount - 1) + (1 - toothWidth));
            s = addEventClamped L (offset + angleDown) True wheel filterLeft filterRight s;
            s = addEventClamped L (offset + engineCycle) False wheel filterLeft filterRight s
        in s)"

definition initializeSkippedToothTrigger ::
  "libfw \<Rightarrow> int \<Rightarrow> int \<Rightarrow> operation_mode_e \<Rightarrow> sync_edge \<Rightarrow> trigger_waveform \<Rightarrow> trigger_waveform" where
  "initializeSkippedToothTrigger L totalTeethCount skippedCount operationMode syncEdge s =
     (if totalTeethCount \<le> 0
      then setShapeDefinitionError True (report (FirmwareError CUSTOM_OBD_TRIGGER_WAVEFORM) s)
      else
        let s = wf_initialize L operationMode syncEdge s;
            s = setTriggerSynchronizationGap L (of_int (skippedCount + 1)) s;
            s = (if totalTeethCount > 6 \<and> skippedCount > 0
                 then setSecondTriggerSynchronizationGap L 1 s else s);
            s = s\<lparr>shapeWithoutTdc := (totalTeethCount > 1 \<and> skippedCount = 0)\<rparr>;
            s = s\<lparr>isSynchronizationNeeded := (totalTeethCount > 2 \<and> skippedCount \<noteq> 0)\<rparr>;
            s = addSkippedToothTriggerEvents L T_PRIMARY totalTeethCount skippedCount (1 / 2) 0
                  (getEngineCycle operationMode) NO_LEFT_FILTER NO_RIGHT_FILTER s
        in s)"

definition configureOnePlusOne ::
  "libfw \<Rightarrow> trigger_waveform \<Rightarrow> trigger_waveform" where
  "configureOnePlusOne L s =
     (let s = wf_initialize L FOUR_STROKE_CAM_SENSOR Rise s;
          s = addEvent360 L 90 True T_PRIMARY s;
          s = addEvent360 L 180 False T_PRIMARY s;
          s = addEvent360 L 270 True T_SECONDARY s;
          s = addEvent360 L 360 False T_SECONDARY s;
          s = s\<lparr>isSynchronizationNeeded := False\<rparr>;
          s = s\<lparr>useOnlyPrimaryForSync := True\<rparr>
      in s)"

lemma clean_configureOnePlusOne:
  "libfw_ok L \<Longrightarrow> arrays_declared s \<Longrightarrow> clean_shape s (configureOnePlusOne L s)"
  unfolding configureOnePlusOne_def Let_def by (simp add: shape_run)

definition configure3_1_cam ::
  "libfw \<Rightarrow> trigger_waveform \<Rightarrow> trigger_waveform" where
  "configure3_1_cam L s =
     (let s = wf_initialize L FOUR_STROKE_CAM_SENSOR RiseOnly s;
          crankW = of_int (360 div 3 div 2);
          crank = T_SECONDARY;
          s = addEvent720 L 10 True T_PRIMARY s;
          s = addEvent720 L 50 False T_PRIMARY s;
          a = 2 * crankW;
          a = a + crankW;
          s = addEvent720 L a True crank s;
          a = a + crankW;
          s = addEvent720 L a False crank s;
          a = a + crankW;
          s = addEvent720 L a True crank s;
          a = a + crankW;
          s = addEvent720 L a False crank s;
          a = a + crankW;
          a = a + crankW;
          a = a + crankW;
          s = addEvent720 L a True crank s;
          a = a + crankW;
          s = addEvent720 L a False crank s;
          a = a + crankW;
          s = addEvent720 L a True crank s;
          a = a + crankW;
          s = addEvent720 L a False crank s;
          s = s\<lparr>isSynchronizationNeeded := False\<rparr>
      in s)"

lemma clean_configure3_1_cam:
  "libfw_ok L \<Longrightarrow> arrays_declared s \<Longrightarrow> clean_shape s (configure3_1_cam L s)"
  unfolding configure3_1_cam_def Let_def by (simp add: shape_run)

definition configureKawaKX450F ::
  "libfw \<Rightarrow> trigger_waveform \<Rightarrow> trigger_waveform" where
  "configureKawaKX450F L s =
     (let engineCycle = FOUR_STROKE_ENGINE_CYCLE;
          s = wf_initialize L FOUR_STROKE_CRANK_SENSOR Rise s;
          s = setTriggerSynchronizationGap L (57 / 25) s;
          toothWidth = (3 / 20 :: rat);
          s = addSkippedToothTriggerEvents L T_PRIMARY 18 0 toothWidth 0 engineCycle NO_LEFT_FILTER (720 - 39) s;
          s = addEvent L (97 / 100) True T_PRIMARY s;
          s = addEvent L 1 False T_PRIMARY s
      in s)"

lemma clean_configureKawaKX450F:
  "libfw_ok L \<Longrightarrow> arrays_declared s \<Longrightarrow> clean_shape s (configureKawaKX450F L s)"
  unfolding configureKawaKX450F_def addSkippedToothTriggerEvents_def Let_def by (simp add: shape_run)

definition configureQuickStartSenderWheel ::
  "libfw \<Rightarrow> trigger_waveform \<Rightarrow> trigger_waveform" where
  "configureQuickStartSenderWheel L s =
     (let s = wf_initialize L FOUR_STROKE_CAM_SENSOR Fall s;
          offset = (20 :: int);
          s = setTriggerSynchronizationGap L (129 / 200) s;
          s = setSecondTriggerSynchronizationGap L (389 / 250) s;
          s = addEvent360 L (of_int offset + 0) True T_PRIMARY s;
          s = addEvent360 L (of_int offset + 70) False T_PRIMARY s;
          s = addEvent360 L (of_int offset + 90) True T_PRIMARY s;
          s = addEvent360 L (of_int offset + 110) False T_PRIMARY s;
          s = addEvent360 L (of_int offset + 180) True T_PRIMARY s;
          s = addEvent360 L (of_int offset + 200) False T_PRIMARY s;
          s = addEvent360 L (of_int offset + 270) True T_PRIMARY s;
          s = addEvent360 L (of_int offset + 340) False T_PRIMARY s
      in s)"

lemma clean_configureQuickStartSenderWheel:
  "libfw_ok L \<Longrightarrow> arrays_declared s \<Longrightarrow> clean_shape s (configureQuickStartSenderWheel L s)"
  unfolding configureQuickStartSenderWheel_def Let_def by (simp add: shape_run)

definition configure12ToothCrank ::
  "libfw \<Rightarrow> trigger_waveform \<Rightarrow> trigger_waveform" where
  "configure12ToothCrank L s =
     (let s = wf_initialize L FOUR_STROKE_TWELVE_TIMES_CRANK_SENSOR RiseOnly s;
          s = s\<lparr>shapeWithoutTdc := True\<rparr>;
          s = fold (\<lambda>i s.
                 setTriggerSynchronizationGap3 L i (Fin (1 / 5)) (Fin (17 / 5)) s) [0..1] s;
          width = of_int (360 div 12);
          s = addEventAngle L (width / 2) False T_PRIMARY s;
          s = addEventAngle L width True T_PRIMARY s
      in s)"

lemma clean_configure12ToothCrank:
  "libfw_ok L \<Longrightarrow> arrays_declared s \<Longrightarrow> clean_shape s (configure12ToothCrank L s)"
  unfolding configure12ToothCrank_def Let_def by (simp add: shape_run)

subsection \<open>\<^verbatim>\<open>trigger_misc.cpp\<close>\<close>

definition configureFiatIAQ_P8 ::
  "libfw \<Rightarrow> trigger_waveform \<Rightarrow> trigger_waveform" where
  "configureFiatIAQ_P8 L s =
     (let s = wf_initialize L FOUR_STROKE_CAM_SENSOR Rise s;
          width = (60 :: int);
          s = s\<lparr>tdcPosition := of_int width\<rparr>;
          s = addEvent720 L (of_int width) True T_PRIMARY s;
          s = addEvent720 L 180 False T_PRIMARY s;
          s = addEvent720 L (180 + of_int width) True T_PRIMARY s;
          s = addEvent720 L 720 False T_PRIMARY s;
          s = setTriggerSynchronizationGap L 3 s
      in s)"

lemma clean_configureFiatIAQ_P8:
  "libfw_ok L \<Longrightarrow> arrays_declared s \<Longrightarrow> clean_shape s (configureFiatIAQ_P8 L s)"
  unfolding configureFiatIAQ_P8_def Let_def by (simp add: shape_run)

definition configureTriTach ::
  "libfw \<Rightarrow> trigger_waveform \<Rightarrow> trigger_waveform" where
  "configureTriTach L s =
     (let s = wf_initialize L FOUR_STROKE_CRANK_SENSOR RiseOnly s;
          s = s\<lparr>isSynchronizationNeeded := False\<rparr>;
          toothWidth = (1 / 2 :: rat);
          engineCycle = FOUR_STROKE_ENGINE_CYCLE;
          totalTeethCount = (135 :: int);
          offset = (0 :: rat);
          angleDown = engineCycle / of_int totalTeethCount * (0 + (1 - toothWidth));
          angleUp = engineCycle / of_int totalTeethCount * (0 + 1);
          s = addEventClamped L (offset + angleDown) True T_PRIMARY NO_LEFT_FILTER NO_RIGHT_FILTER s;
          s = addEventClamped L (offset + angleDown + 1 / 10) True T_SECONDARY NO_LEFT_FILTER NO_RIGHT_FILTER s;
          s = addEventClamped L (offset + angleUp) False T_PRIMARY NO_LEFT_FILTER NO_RIGHT_FILTER s;
          s = addEventClamped L (offset + angleUp + 1 / 10) False T_SECONDARY NO_LEFT_FILTER NO_RIGHT_FILTER s;
          s = addSkippedToothTriggerEvents L T_SECONDARY totalTeethCount 0 toothWidth offset engineCycle (1 * FOUR_STROKE_ENGINE_CYCLE / 135) NO_RIGHT_FILTER s
      in s)"

lemma clean_configureTriTach:
  "libfw_ok L \<Longrightarrow> arrays_declared s \<Longrightarrow> clean_shape s (configureTriTach L s)"
  unfolding configureTriTach_def addSkippedToothTriggerEvents_def Let_def by (simp add: shape_run)

definition configureFordPip ::
  "libfw \<Rightarrow> trigger_waveform \<Rightarrow> trigger_waveform" where
  "configureFordPip L s =
     (let s = wf_initialize L FOUR_STROKE_CAM_SENSOR Rise s;
          s = s\<lparr>tdcPosition := 1325 / 2\<rparr>;
          s = setTriggerSynchronizationGap L (33 / 50) s;
          s = setSecondTriggerSynchronizationGap L (5 / 4) s;
          oneCylinder = c_trunc (getCycleDuration s / 8);
          s = addEventAngle L (of_int oneCylinder * (3 / 4)) True T_PRIMARY s;
          s = addEventAngle L (of_int oneCylinder) False T_PRIMARY s;
          s = fold (\<lambda>i s.
                 let s = addEventAngle L (of_int oneCylinder * (of_int i - 1 / 2)) True T_PRIMARY s;
                     s = addEventAngle L (of_int oneCylinder * of_int i) False T_PRIMARY s
                 in s) [2..8] s
      in s)"

lemma clean_configureFordPip:
  "libfw_ok L \<Longrightarrow> arrays_declared s \<Longrightarrow> clean_shape s (configureFordPip L s)"
  unfolding configureFordPip_def Let_def by (simp add: shape_run)

definition configureFordST170 ::
  "libfw \<Rightarrow> trigger_waveform \<Rightarrow> trigger_waveform" where
  "configureFordST170 L s =
     (let s = wf_initialize L FOUR_STROKE_CAM_SENSOR RiseOnly s;
          width = (10 :: int);
          total = c_trunc (getCycleDuration s / 8);
          s = addEventAngle L (1 * of_int total - of_int width) True T_PRIMARY s;
          s = addEventAngle L (1 * of_int total) False T_PRIMARY s;
          s = addEventAngle L (2 * of_int total - of_int width) True T_PRIMARY s;
          s = addEventAngle L (2 * of_int total) False T_PRIMARY s;
          s = addEventAngle L (4 * of_int total - of_int width) True T_PRIMARY s;
          s = addEventAngle L (4 * of_int total) False T_PRIMARY s;
          s = addEventAngle L (6 * of_int total - of_int width) True T_PRIMARY s;
          s = addEventAngle L (6 * of_int total) False T_PRIMARY s;
          s = addEventAngle L (8 * of_int total - of_int width) True T_PRIMARY s;
          s = addEventAngle L (8 * of_int total) False T_PRIMARY s
      in s)"

lemma clean_configureFordST170:
  "libfw_ok L \<Longrightarrow> arrays_declared s \<Longrightarrow> clean_shape s (configureFordST170 L s)"
  unfolding configureFordST170_def Let_def by (simp add: shape_run)

definition configureDaihatsu4 ::
  "libfw \<Rightarrow> trigger_waveform \<Rightarrow> trigger_waveform" where
  "configureDaihatsu4 L s =
     (let s = wf_initialize L FOUR_STROKE_CAM_SENSOR RiseOnly s;
          width = (10 :: int);
          s = setTriggerSynchronizationGap L (1 / 8) s;
          s = addEventAngle L (30 - of_int width) True T_PRIMARY s;
          s = addEventAngle L 30 False T_PRIMARY s;
          s = addEventAngle L (getCycleDuration s / 3 - of_int width) True T_PRIMARY s;
          s = addEventAngle L (getCycleDuration s / 3) False T_PRIMARY s;
          s = addEventAngle L (getCycleDuration s / 3 * 2 - of_int width) True T_PRIMARY s;
          s = addEventAngle L (getCycleDuration s / 3 * 2) False T_PRIMARY s;
          s = addEventAngle L (getCycleDuration s - of_int width) True T_PRIMARY s;
          s = addEventAngle L (getCycleDuration s) False T_PRIMARY s
      in s)"

lemma clean_configureDaihatsu4:
  "libfw_ok L \<Longrightarrow> arrays_declared s \<Longrightarrow> clean_shape s (configureDaihatsu4 L s)"
  unfolding configureDaihatsu4_def Let_def by (simp add: shape_run)

definition configureBarra3plus1cam ::
  "libfw \<Rightarrow> trigger_waveform \<Rightarrow> trigger_waveform" where
  "configureBarra3plus1cam L s =
     (let s = wf_initialize L FOUR_STROKE_CAM_SENSOR RiseOnly s;
          offset = (120 :: int);
          s = addEventAngle L (of_int offset + 2 * 0 - 10) True T_PRIMARY s;
          s = addEventAngle L (of_int offset + 2 * 0 + 0) False T_PRIMARY s;
          s = addEventAngle L (of_int offset + 2 * 60 - 10) True T_PRIMARY s;
          s = addEventAngle L (of_int offset + 2 * 60 + 0) False T_PRIMARY s;
          s = addEventAngle L (of_int offset + 2 * 180 - 10) True T_PRIMARY s;
          s = addEventAngle L (of_int offset + 2 * 180 + 0) False T_PRIMARY s;
          s = addEventAngle L (of_int offset + 2 * 300 - 10) True T_PRIMARY s;
          s = addEventAngle L (of_int offset + 2 * 300 + 0) False T_PRIMARY s;
          s = setTriggerSynchronizationGap3 L 0 (Fin (8 / 5)) (Fin (12 / 5)) s;
          s = setTriggerSynchronizationGap3 L 1 (Fin (4 / 5)) (Fin (6 / 5)) s
      in s)"

lemma clean_configureBarra3plus1cam:
  "libfw_ok L \<Longrightarrow> arrays_declared s \<Longrightarrow> clean_shape s (configureBarra3plus1cam L s)"
  unfolding configureBarra3plus1cam_def Let_def by (simp add: shape_run)

definition configureBenelli ::
  "libfw \<Rightarrow> trigger_waveform \<Rightarrow> trigger_waveform" where
  "configureBenelli L s =
     (let s = wf_initialize L FOUR_STROKE_CRANK_SENSOR RiseOnly s;
          magic = (15 :: rat);
          angle = 3 * magic;
          s = addEvent360 L (angle / 2) True T_PRIMARY s;
          s = addEvent360 L angle False T_PRIMARY s;
          (angle, s) = fold (\<lambda>i (angle, s).
                 let angle = angle + magic / 2;
                     s = addEvent360 L angle True T_PRIMARY s;
                     angle = angle + magic / 2;
                     s = addEvent360 L angle False T_PRIMARY s
                 in (angle, s)) [0..24 - 3 - 1] (angle, s)
      in s)"

lemma clean_configureBenelli:
  "libfw_ok L \<Longrightarrow> arrays_declared s \<Longrightarrow> clean_shape s (configureBenelli L s)"
  unfolding configureBenelli_def Let_def by (simp add: shape_run)

end
