(* ===== verification/Toothed_Wheel.thy ===== *)
theory Toothed_Wheel
  imports Shapes_Universal
begin

text \<open>
  Missing-tooth wheels for every tooth count: the events \<open>initializeSkippedToothTrigger\<close> adds for
  a wheel of \<open>teeth\<close> positions of which the last \<open>skipped\<close> are empty, and for which pairs the
  shape is clean.
\<close>

text \<open>The first \<open>n\<close> teeth of \<open>teeth\<close>, newest event first: tooth \<open>i\<close> rises half way.\<close>

primrec tooth_events :: "int \<Rightarrow> nat \<Rightarrow> shape_event list" where
  "tooth_events teeth 0 = []"
| "tooth_events teeth (Suc i) =
     ((of_nat i + 1) / of_int teeth, False, T_PRIMARY)
     # ((of_nat i + 1/2) / of_int teeth, True, T_PRIMARY) # tooth_events teeth i"

definition wheel_events :: "int \<Rightarrow> nat \<Rightarrow> shape_event list" where
  "wheel_events teeth n =
     (1, False, T_PRIMARY) # ((of_nat n + 1/2) / of_int teeth, True, T_PRIMARY)
     # tooth_events teeth n"

lemma length_tooth_events [simp]: "length (tooth_events teeth n) = 2 * n"
  by (induction n) auto

lemma event_count_tooth_events [simp]:
  "event_count r T_PRIMARY (tooth_events teeth n) = (if r then n else 2 * n)"
  "event_count r T_SECONDARY (tooth_events teeth n) = 0"
  by (induction n) auto

lemma half_tooth:
  fixes teeth :: int
  assumes "0 < teeth" "teeth < 4000" "x + 1/2 \<le> y"
  shows "1/8000 < y / rat_of_int teeth - x / rat_of_int teeth"
proof -
  have "1/8000 < (1/2) / rat_of_int teeth"
    using assms(1,2) by (simp add: field_simps)
  also have "\<dots> \<le> (y - x) / rat_of_int teeth"
    using assms(1,3) by (intro divide_right_mono) auto
  finally show ?thesis by (simp add: diff_divide_distrib)
qed

lemma events_ok_tooth_events:
  assumes "0 < teeth" "teeth < 4000"
  shows "int n \<le> teeth \<Longrightarrow> events_ok (tooth_events teeth n) \<and>
    (\<forall>y. rat_of_nat n + 1/2 \<le> y \<longrightarrow> follows (y / of_int teeth) (tooth_events teeth n))"
proof (induction n)
  case (Suc n)
  then have IH: "events_ok (tooth_events teeth n)"
    "follows ((rat_of_nat n + 1/2) / of_int teeth) (tooth_events teeth n)"
    by auto
  have "rat_of_nat n + 1 \<le> rat_of_int teeth"
    using Suc.prems by (metis Suc.prems add.commute of_int_le_iff of_int_of_nat_eq of_nat_Suc)
  then show ?case
    using IH assms half_tooth[OF assms, of "rat_of_nat n + 1/2"]
      half_tooth[OF assms, of "rat_of_nat n + 1"]
    by (auto simp: field_simps)
qed simp

lemma events_ok_wheel_events:
  assumes "0 < teeth" "teeth < 4000" "int n < teeth"
  shows "events_ok (wheel_events teeth n)"
proof -
  have n: "rat_of_nat n + 1 \<le> rat_of_int teeth"
    using assms(3) by (metis add.commute of_int_le_iff of_int_of_nat_eq of_nat_Suc zless_iff_Suc_zadd
        zle_add1_eq_le zless_imp_add1_zle)
  have "1/8000 < rat_of_int teeth / rat_of_int teeth - (rat_of_nat n + 1/2) / rat_of_int teeth"
    using n by (intro half_tooth[OF assms(1,2)]) simp
  moreover have "(rat_of_nat n + 1/2) / rat_of_int teeth \<le> 1"
    using n assms(1) by simp
  ultimately show ?thesis
    using events_ok_tooth_events[OF assms(1,2), of n] assms
    by (auto simp: wheel_events_def)
qed

text \<open>The loop of \<open>addSkippedToothTriggerEvents\<close> adds \<open>tooth_events\<close>.\<close>

lemma clamped_tooth:
  fixes teeth :: int and x :: rat
  assumes "0 < teeth" "0 < x" "x \<le> of_int teeth" "c = getEngineCycle om" "m_operationMode s = om"
  shows "addEventClamped L (0 + c / of_int teeth * x) st ch NO_LEFT_FILTER NO_RIGHT_FILTER (adds L es s) =
         adds L ((x / of_int teeth, st, ch) # es) s"
proof -
  have c: "0 < c" "c \<le> 720"
    using assms(4) by (auto simp: getEngineCycle_def)
  have "0 < c / of_int teeth * x"
    using assms(1,2) c by simp
  moreover have "c / of_int teeth * x \<le> c / of_int teeth * of_int teeth"
    using assms(1,3) c by (intro mult_left_mono) auto
  ultimately have "-1 < c / of_int teeth * x" "c / of_int teeth * x < 1000"
    using c assms(1) by auto
  then show ?thesis
    using c assms(1,4,5) by (simp add: addEventClamped_adds)
qed

lemma tooth_loop:
  fixes teeth :: int
  assumes "0 < teeth" "c = getEngineCycle om" "m_operationMode s = om"
  shows "int n \<le> teeth \<Longrightarrow>
    fold (\<lambda>i s. let angleDown = c / of_int teeth * (of_int i + (1 - 1 / 2));
                    angleUp = c / of_int teeth * of_int (i + 1);
                    s = addEventClamped L (0 + angleDown) True T_PRIMARY NO_LEFT_FILTER NO_RIGHT_FILTER s;
                    s = addEventClamped L (0 + angleUp) False T_PRIMARY NO_LEFT_FILTER NO_RIGHT_FILTER s
                in s) [0..int n - 1] (adds L [] s) = adds L (tooth_events teeth n) s"
proof (induction n)
  case (Suc n)
  have n: "rat_of_nat n + 1 \<le> of_int teeth"
    using Suc.prems by (metis add.commute of_int_le_iff of_int_of_nat_eq of_nat_Suc)
  have "[0..int (Suc n) - 1] = [0..int n - 1] @ [int n]"
    by (simp add: upto_rec2)
  then show ?case
    using Suc n clamped_tooth[OF assms(1) _ _ assms(2,3), of "rat_of_nat n + 1/2"]
      clamped_tooth[OF assms(1) _ _ assms(2,3), of "rat_of_nat n + 1"]
    by (simp add: Let_def)
qed simp

lemma addSkippedToothTriggerEvents_wheel:
  assumes "0 < teeth" "0 \<le> skipped" "skipped < teeth" "m_operationMode s = om"
  shows "addSkippedToothTriggerEvents L T_PRIMARY teeth skipped (1 / 2) 0 (getEngineCycle om)
           NO_LEFT_FILTER NO_RIGHT_FILTER (adds L [] s) =
         adds L (wheel_events teeth (nat (teeth - skipped - 1))) s"
proof -
  define n where "n = nat (teeth - skipped - 1)"
  have n: "teeth - skipped - 1 = int n" "int n < teeth"
    using assms by (auto simp: n_def)
  have r: "rat_of_nat n + 1 \<le> rat_of_int teeth"
    using n(2) by (metis add.commute of_int_le_iff of_int_of_nat_eq of_nat_Suc zless_iff_Suc_zadd
        zle_add1_eq_le zless_imp_add1_zle)
  note last = clamped_tooth[OF assms(1) _ _ refl assms(4), of "rat_of_nat n + 1/2"]
  note full = clamped_tooth[OF assms(1) _ _ refl assms(4), of "rat_of_int teeth"]
  have "rat_of_int (teeth - skipped - 1) = rat_of_nat n"
    by (simp add: n(1) del: of_int_diff)
  then show ?thesis
    using assms(1,2) tooth_loop[OF assms(1) refl assms(4), of n] n r last full
    by (simp add: addSkippedToothTriggerEvents_def Let_def wheel_events_def n_def[symmetric]
        del: of_int_diff)
qed

subsection \<open>Which wheels are clean\<close>

text \<open>
  The teeth fit in the waveform, and a wheel that is left with a single tooth has no gap to
  synchronize on, so \<open>calculateExpectedEventCounts\<close> objects when the firmware would need one.
\<close>

definition wheel_fits :: "int \<Rightarrow> int \<Rightarrow> bool" where
  "wheel_fits teeth skipped \<longleftrightarrow>
     0 \<le> skipped \<and> skipped < teeth \<and> teeth < 4000 \<and> teeth - skipped \<le> 140 \<and>
     (skipped = 0 \<or> teeth = 2 \<or> skipped < teeth - 1)"

lemma initializeSkippedToothTrigger_adds:
  fixes L teeth skipped om edge s
  assumes "0 < teeth" "0 \<le> skipped" "skipped < teeth" "arrays_declared s" "om \<noteq> OM_NONE"
  obtains s0 where
    "initializeSkippedToothTrigger L teeth skipped om edge s =
       adds L (wheel_events teeth (nat (teeth - skipped - 1))) s0"
    "fresh s0" "wf_log s0 = wf_log s" "\<not> shapeDefinitionError s0"
    "useOnlyRisingEdges s0 = (edge = RiseOnly)" "\<not> useOnlyPrimaryForSync s0"
    "shapeWithoutTdc s0 = (teeth > 1 \<and> skipped = 0)"
    "isSynchronizationNeeded s0 = (teeth > 2 \<and> skipped \<noteq> 0)"
    "s0 = (let s1 = setTriggerSynchronizationGap L (of_int (skipped + 1)) (started L om edge s);
               s2 = (if teeth > 6 \<and> skipped > 0 then setSecondTriggerSynchronizationGap L 1 s1 else s1)
           in s2\<lparr>shapeWithoutTdc := (teeth > 1 \<and> skipped = 0),
                 isSynchronizationNeeded := (teeth > 2 \<and> skipped \<noteq> 0)\<rparr>)"
proof -
  let ?s1 = "setTriggerSynchronizationGap L (of_int (skipped + 1)) (started L om edge s)"
  let ?s2 = "if teeth > 6 \<and> skipped > 0 then setSecondTriggerSynchronizationGap L 1 ?s1 else ?s1"
  let ?s0 = "?s2\<lparr>shapeWithoutTdc := (teeth > 1 \<and> skipped = 0),
                  isSynchronizationNeeded := (teeth > 2 \<and> skipped \<noteq> 0)\<rparr>"
  have reads: "fresh ?s0" "wf_log ?s0 = wf_log s" "\<not> shapeDefinitionError ?s0"
    "m_operationMode ?s0 = om" "useOnlyRisingEdges ?s0 = (edge = RiseOnly)"
    "\<not> useOnlyPrimaryForSync ?s0"
    using assms(4,5) by (auto simp: setTriggerSynchronizationGap_def
        setSecondTriggerSynchronizationGap_def setGap3_reads)
  have "initializeSkippedToothTrigger L teeth skipped om edge s =
      addSkippedToothTriggerEvents L T_PRIMARY teeth skipped (1 / 2) 0 (getEngineCycle om)
           NO_LEFT_FILTER NO_RIGHT_FILTER (adds L [] ?s0)"
    using assms(1) by (auto simp: initializeSkippedToothTrigger_def Let_def shape_simps)
  also have "\<dots> = adds L (wheel_events teeth (nat (teeth - skipped - 1))) ?s0"
    using assms(1-3) reads(4) by (intro addSkippedToothTriggerEvents_wheel) auto
  finally show thesis
    by (rule that[OF _ reads(1-3,5,6)]) (simp_all add: Let_def)
qed

lemma clean_wheel:
  assumes "libfw_ok L" "arrays_declared s" "om \<noteq> OM_NONE" "wheel_fits teeth skipped"
  shows "clean_shape s (initializeSkippedToothTrigger L teeth skipped om edge s)"
proof -
  let ?n = "nat (teeth - skipped - 1)"
  have n: "0 < teeth" "0 \<le> skipped" "skipped < teeth" "teeth < 4000" "int ?n < teeth"
    "teeth - skipped \<le> 140"
    using assms(4) by (auto simp: wheel_fits_def)
  obtain s0 where s0: "initializeSkippedToothTrigger L teeth skipped om edge s =
       adds L (wheel_events teeth ?n) s0"
    "fresh s0" "wf_log s0 = wf_log s" "\<not> shapeDefinitionError s0"
    "useOnlyRisingEdges s0 = (edge = RiseOnly)" "\<not> useOnlyPrimaryForSync s0"
    "shapeWithoutTdc s0 = (teeth > 1 \<and> skipped = 0)"
    "isSynchronizationNeeded s0 = (teeth > 2 \<and> skipped \<noteq> 0)"
    by (rule initializeSkippedToothTrigger_adds[OF n(1-3) assms(2,3)], rule that)
  have C: "counts_ok (edge = RiseOnly) (teeth > 2 \<and> skipped \<noteq> 0) (teeth > 1 \<and> skipped = 0) False
      (event_count (edge = RiseOnly) T_PRIMARY (wheel_events teeth ?n))
      (event_count (edge = RiseOnly) T_SECONDARY (wheel_events teeth ?n))"
    using assms(4) n by (simp add: wheel_fits_def wheel_events_def) arith
  have es: "wheel_events teeth ?n \<noteq> []" "fst (hd (wheel_events teeth ?n)) = 1"
    "length (wheel_events teeth ?n) \<le> PWM_PHASE_MAX_COUNT"
    using n by (simp_all add: wheel_events_def PWM_PHASE_MAX_COUNT_def)
  show ?thesis
    unfolding s0(1)
    by (rule clean_shape_adds[OF assms(1) s0(2-4) es(1,2) events_ok_wheel_events[OF n(1,4,5)] es(3)])
      (use C s0(5-8) in \<open>simp del: counts_ok.simps\<close>)
qed

subsection \<open>Wheels with too many teeth\<close>

text \<open>Outside unit tests \<open>addEvent\<close> has no bounds check: event 281 is written past the arrays.\<close>

lemma addEvent_log_grows: "set (wf_log s) \<subseteq> set (wf_log (addEvent L a st ch s))"
  by (auto simp: addEvent_def Let_def store_event_log)

lemma adds_log_grows: "set (wf_log s) \<subseteq> set (wf_log (adds L es s))"
  by (induction es) (auto simp: adds.simps split: prod.split dest: subsetD[OF addEvent_log_grows])

lemma adds_append: "adds L (es @ fs) s = adds L es (adds L fs s)"
  by (induction es) (auto simp: adds.simps split: prod.split)

lemma events_ok_append: "events_ok (es @ fs) \<Longrightarrow> events_ok fs"
  by (induction es) auto

lemma adds_overflow:
  assumes "libfw_ok L" "fresh s0" "events_ok es" "PWM_PHASE_MAX_COUNT < length es"
  shows "OutOfBounds \<in> set (wf_log (adds L es s0))"
proof -
  define fs where "fs = drop (length es - PWM_PHASE_MAX_COUNT) es"
  define k where "k = length es - PWM_PHASE_MAX_COUNT - 1"
  have k: "length es - PWM_PHASE_MAX_COUNT = Suc k" "k < length es"
    using assms(4) by (auto simp: k_def)
  then have es: "es = take k es @ es ! k # fs"
    by (simp add: fs_def id_take_nth_drop[symmetric])
  obtain a st ch where e: "es ! k = (a, st, ch)"
    by (cases "es ! k")
  have ok: "events_ok ((a, st, ch) # fs)"
    using events_ok_append[of "take k es"] assms(3) es e by metis
  have len: "length fs = PWM_PHASE_MAX_COUNT"
    using assms(4) by (simp add: fs_def)
  have fs: "adds L fs s0 = mkwave s0 fs"
    using ok len by (intro adds_mkwave assms) auto
  have inv: "wave_inv (mkwave s0 fs)" "phaseCount (wave (mkwave s0 fs)) = PWM_PHASE_MAX_COUNT"
    "previousAngle (mkwave s0 fs) = fst (hd fs)"
    using mkwave_inv[OF assms(2), of fs] ok len by (auto simp: PWM_PHASE_MAX_COUNT_def)
  have "accepts L a (mkwave s0 fs)"
    using ok len by (intro accepts_mkwave assms) auto
  then have "addEvent L a st ch (mkwave s0 fs) = push_event (a, st, ch) (mkwave s0 fs)"
    by (intro addEvent_accepts inv)
  then have "OutOfBounds \<in> set (wf_log (addEvent L a st ch (mkwave s0 fs)))"
    using inv(2) by (simp add: push_event_def Let_def store_event_log PWM_PHASE_MAX_COUNT_def)
  then have "OutOfBounds \<in> set (wf_log (adds L ((a, st, ch) # fs) s0))"
    by (simp add: adds.simps fs)
  then show ?thesis
    using adds_log_grows[of "adds L ((a, st, ch) # fs) s0" L "take k es"] es e
    by (metis adds_append subsetD)
qed

lemma overflow_wheel:
  assumes "libfw_ok L" "arrays_declared s" "om \<noteq> OM_NONE"
    and "0 \<le> skipped" "skipped < teeth" "teeth < 4000" "140 < teeth - skipped"
  shows "OutOfBounds \<in> set (wf_log (initializeSkippedToothTrigger L teeth skipped om edge s))"
proof -
  let ?n = "nat (teeth - skipped - 1)"
  have n: "0 < teeth" "int ?n < teeth"
    using assms by auto
  obtain s0 where s0: "initializeSkippedToothTrigger L teeth skipped om edge s =
       adds L (wheel_events teeth ?n) s0" "fresh s0"
    using initializeSkippedToothTrigger_adds[OF n(1) assms(4,5,2,3)] .
  show ?thesis
    unfolding s0(1) using assms
    by (intro adds_overflow s0 events_ok_wheel_events n)
      (auto simp: wheel_events_def PWM_PHASE_MAX_COUNT_def)
qed

end
