(* ===== verification/Shapes_Europe.thy ===== *)
theory Shapes_Europe
  imports Shapes_Universal
begin

text \<open>
  The shapes of Mercedes, Renix, Rover, VW and GM engines.
  One definition per function of \<^verbatim>\<open>trigger_mercedes.cpp\<close>, \<^verbatim>\<open>trigger_renix.cpp\<close>, \<^verbatim>\<open>trigger_rover.cpp\<close>, \<^verbatim>\<open>trigger_vw.cpp\<close>, \<^verbatim>\<open>trigger_gm.cpp\<close>
  (\<^verbatim>\<open>controllers/trigger/decoders\<close>), statement by statement, and for each complete shape the
  proof that it is clean (\<open>clean_shape\<close>).
\<close>

subsection \<open>\<^verbatim>\<open>trigger_mercedes.cpp\<close>\<close>

definition setMercedesTwoSegment ::
  "libfw \<Rightarrow> trigger_waveform \<Rightarrow> trigger_waveform" where
  "setMercedesTwoSegment L s =
     (let s = wf_initialize L FOUR_STROKE_CRANK_SENSOR Rise s;
          s = addEvent360 L (180 - 10) True T_PRIMARY s;
          s = addEvent360 L 180 False T_PRIMARY s;
          s = addEvent360 L (227 - 10) True T_PRIMARY s;
          s = addEvent360 L 227 False T_PRIMARY s;
          s = addEvent360 L (360 - 10) True T_PRIMARY s;
          s = addEvent360 L 360 False T_PRIMARY s;
          s = setTriggerSynchronizationGap L (27 / 20) s;
          s = setSecondTriggerSynchronizationGap L (71 / 25) s;
          s = setThirdTriggerSynchronizationGap L (13 / 50) s
      in s)"

lemma clean_setMercedesTwoSegment:
  "libfw_ok L \<Longrightarrow> arrays_declared s \<Longrightarrow> clean_shape s (setMercedesTwoSegment L s)"
  unfolding setMercedesTwoSegment_def Let_def by (simp add: shape_run)

subsection \<open>\<^verbatim>\<open>trigger_renix.cpp\<close>\<close>

definition commonRenix ::
  "libfw \<Rightarrow> trigger_waveform \<Rightarrow> trigger_waveform" where
  "commonRenix L s =
     (let count = (22 :: int);
          tooth = getCycleDuration s / of_int count;
          currentAngle = (0 :: rat);
          (currentAngle, s) = fold (\<lambda>i (currentAngle, s).
                 let s = addEventAngle L (currentAngle + tooth / 2) True T_PRIMARY s;
                     s = addEventAngle L (currentAngle + tooth) False T_PRIMARY s;
                     currentAngle = currentAngle + tooth
                 in (currentAngle, s)) [0..19] (currentAngle, s);
          s = addEventAngle L (currentAngle + tooth) True T_PRIMARY s;
          s = addEventAngle L (getCycleDuration s) False T_PRIMARY s
      in s)"

definition initializeRenix44_2_2 ::
  "libfw \<Rightarrow> trigger_waveform \<Rightarrow> trigger_waveform" where
  "initializeRenix44_2_2 L s =
     (let s = wf_initialize L FOUR_STROKE_SYMMETRICAL_CRANK_SENSOR RiseOnly s;
          s = commonRenix L s
      in s)"

lemma clean_initializeRenix44_2_2:
  "libfw_ok L \<Longrightarrow> arrays_declared s \<Longrightarrow> clean_shape s (initializeRenix44_2_2 L s)"
  unfolding initializeRenix44_2_2_def commonRenix_def Let_def by (simp add: shape_run)

definition initializeRenix66_2_2 ::
  "libfw \<Rightarrow> trigger_waveform \<Rightarrow> trigger_waveform" where
  "initializeRenix66_2_2 L s =
     (let s = wf_initialize L FOUR_STROKE_THREE_TIMES_CRANK_SENSOR RiseOnly s;
          s = commonRenix L s
      in s)"

lemma clean_initializeRenix66_2_2:
  "libfw_ok L \<Longrightarrow> arrays_declared s \<Longrightarrow> clean_shape s (initializeRenix66_2_2 L s)"
  unfolding initializeRenix66_2_2_def commonRenix_def Let_def by (simp add: shape_run)

subsection \<open>\<^verbatim>\<open>trigger_rover.cpp\<close>\<close>

definition initializeRoverK ::
  "libfw \<Rightarrow> trigger_waveform \<Rightarrow> trigger_waveform" where
  "initializeRoverK L s =
     (let s = wf_initialize L FOUR_STROKE_CRANK_SENSOR RiseOnly s;
          tooth = (20 :: rat);
          s = setTriggerSynchronizationGap L 2 s;
          s = setSecondTriggerSynchronizationGap2 L (1 / 10000) 100000 s;
          s = setThirdTriggerSynchronizationGap L 2 s;
          base = (0 :: rat);
          (base, s) = fold (\<lambda>i (base, s).
                 let s = addEvent720 L (base + tooth / 2) True T_PRIMARY s;
                     s = addEvent720 L (base + tooth) False T_PRIMARY s;
                     base = base + tooth
                 in (base, s)) [0..1] (base, s);
          base = base + tooth;
          (base, s) = fold (\<lambda>i (base, s).
                 let s = addEvent720 L (base + tooth / 2) True T_PRIMARY s;
                     s = addEvent720 L (base + tooth) False T_PRIMARY s;
                     base = base + tooth
                 in (base, s)) [0..1] (base, s);
          base = base + tooth;
          (base, s) = fold (\<lambda>i (base, s).
                 let s = addEvent720 L (base + tooth / 2) True T_PRIMARY s;
                     s = addEvent720 L (base + tooth) False T_PRIMARY s;
                     base = base + tooth
                 in (base, s)) [0..13] (base, s);
          base = base + tooth;
          (base, s) = fold (\<lambda>i (base, s).
                 let s = addEvent720 L (base + tooth / 2) True T_PRIMARY s;
                     s = addEvent720 L (base + tooth) False T_PRIMARY s;
                     base = base + tooth
                 in (base, s)) [0..2] (base, s);
          base = base + tooth;
          (base, s) = fold (\<lambda>i (base, s).
                 let s = addEvent720 L (base + tooth / 2) True T_PRIMARY s;
                     s = addEvent720 L (base + tooth) False T_PRIMARY s;
                     base = base + tooth
                 in (base, s)) [0..10] (base, s)
      in s)"

lemma clean_initializeRoverK:
  "libfw_ok L \<Longrightarrow> arrays_declared s \<Longrightarrow> clean_shape s (initializeRoverK L s)"
  unfolding initializeRoverK_def Let_def by (simp add: shape_run)

subsection \<open>\<^verbatim>\<open>trigger_vw.cpp\<close>\<close>

definition setSkodaFavorit ::
  "libfw \<Rightarrow> trigger_waveform \<Rightarrow> trigger_waveform" where
  "setSkodaFavorit L s =
     (let s = wf_initialize L FOUR_STROKE_CRANK_SENSOR Rise s;
          s = addEvent360 L 46 True T_PRIMARY s;
          s = addEvent360 L 177 False T_PRIMARY s;
          s = addEvent360 L 180 True T_PRIMARY s;
          s = addEvent360 L 183 False T_PRIMARY s;
          s = addEvent360 L 226 True T_PRIMARY s;
          s = addEvent360 L 360 False T_PRIMARY s;
          s = s\<lparr>tdcPosition := 180 - 46\<rparr>;
          s = setTriggerSynchronizationGap L (391 / 100) s
      in s)"

lemma clean_setSkodaFavorit:
  "libfw_ok L \<Longrightarrow> arrays_declared s \<Longrightarrow> clean_shape s (setSkodaFavorit L s)"
  unfolding setSkodaFavorit_def Let_def by (simp add: shape_run)

definition setVwConfiguration ::
  "libfw \<Rightarrow> trigger_waveform \<Rightarrow> trigger_waveform" where
  "setVwConfiguration L s =
     (let s = wf_initialize L FOUR_STROKE_CRANK_SENSOR RiseOnly s;
          totalTeethCount = (60 :: int);
          skippedCount = (2 :: int);
          engineCycle = FOUR_STROKE_ENGINE_CYCLE;
          toothWidth = (1 / 2 :: rat);
          s = addSkippedToothTriggerEvents L T_PRIMARY 60 2 toothWidth 0 engineCycle NO_LEFT_FILTER 690 s;
          angleDown = engineCycle / of_int totalTeethCount * (of_int totalTeethCount - of_int skippedCount - 1 + (1 - toothWidth));
          s = addEventClamped L (0 + angleDown + 12) True T_PRIMARY NO_LEFT_FILTER NO_RIGHT_FILTER s;
          s = addEventClamped L (0 + engineCycle) False T_PRIMARY NO_LEFT_FILTER NO_RIGHT_FILTER s;
          s = setTriggerSynchronizationGap2 L (8 / 5) 4 s;
          s = setSecondTriggerSynchronizationGap L 1 s;
          s = setThirdTriggerSynchronizationGap L 1 s
      in s)"

lemma clean_setVwConfiguration:
  "libfw_ok L \<Longrightarrow> arrays_declared s \<Longrightarrow> clean_shape s (setVwConfiguration L s)"
  unfolding setVwConfiguration_def addSkippedToothTriggerEvents_def Let_def by (simp add: shape_run)

subsection \<open>\<^verbatim>\<open>trigger_gm.cpp\<close>\<close>

unbundle bit_operations_syntax

definition addTooth ::
  "libfw \<Rightarrow> rat \<Rightarrow> trigger_waveform \<Rightarrow> rat \<times> trigger_waveform" where
  "addTooth L offset s =
     (let s = addEventAngle L offset True T_SECONDARY s;
          offset = offset + CRANK_MODE_MULTIPLIER * 3;
          s = addEventAngle L offset False T_SECONDARY s;
          offset = offset + CRANK_MODE_MULTIPLIER * 3
      in (offset, s))"

definition configureGm60_2_2_2 ::
  "libfw \<Rightarrow> trigger_waveform \<Rightarrow> trigger_waveform" where
  "configureGm60_2_2_2 L s =
     (let s = wf_initialize L FOUR_STROKE_CAM_SENSOR RiseOnly s;
          s = s\<lparr>isSynchronizationNeeded := False\<rparr>;
          s = s\<lparr>isSecondWheelCam := True\<rparr>;
          m = CRANK_MODE_MULTIPLIER;
          offset = c_trunc (1 * m);
          (offset, s) = fold (\<lambda>i (offset, s).
                 let (next, s) = addTooth L (of_int offset) s
                 in (c_trunc next, s)) [0..11] (offset, s);
          offset = c_trunc (of_int offset + m * 2 * 6);
          (offset, s) = fold (\<lambda>i (offset, s).
                 let (next, s) = addTooth L (of_int offset) s
                 in (c_trunc next, s)) [0..17] (offset, s);
          offset = c_trunc (of_int offset + m * 2 * 6);
          (offset, s) = fold (\<lambda>i (offset, s).
                 let (next, s) = addTooth L (of_int offset) s
                 in (c_trunc next, s)) [0..17] (offset, s);
          offset = c_trunc (of_int offset + m * 2 * 6);
          (offset, s) = fold (\<lambda>i (offset, s).
                 let (next, s) = addTooth L (of_int offset) s
                 in (c_trunc next, s)) [0..4] (offset, s);
          s = addEventAngle L (m * (360 - 6)) True T_PRIMARY s;
          (next, s) = addTooth L (of_int offset) s;
          offset = c_trunc next;
          s = addEventAngle L (m * 360) False T_PRIMARY s
      in s)"

lemma clean_configureGm60_2_2_2:
  "libfw_ok L \<Longrightarrow> arrays_declared s \<Longrightarrow> clean_shape s (configureGm60_2_2_2 L s)"
  unfolding configureGm60_2_2_2_def addTooth_def Let_def by (simp add: shape_run)

definition configureGmTriggerWaveform ::
  "libfw \<Rightarrow> trigger_waveform \<Rightarrow> trigger_waveform" where
  "configureGmTriggerWaveform L s =
     (let s = wf_initialize L FOUR_STROKE_CRANK_SENSOR RiseOnly s;
          w = (5 :: rat);
          s = addEvent360 L (60 - w) True T_PRIMARY s;
          s = addEvent360 L 60 False T_PRIMARY s;
          s = addEvent360 L (120 - w) True T_PRIMARY s;
          s = addEvent360 L 120 False T_PRIMARY s;
          s = addEvent360 L (180 - w) True T_PRIMARY s;
          s = addEvent360 L 180 False T_PRIMARY s;
          s = addEvent360 L (240 - w) True T_PRIMARY s;
          s = addEvent360 L 240 False T_PRIMARY s;
          s = addEvent360 L (300 - w) True T_PRIMARY s;
          s = addEvent360 L 300 False T_PRIMARY s;
          s = addEvent360 L (350 - w) True T_PRIMARY s;
          s = addEvent360 L 350 False T_PRIMARY s;
          s = addEvent360 L (360 - w) True T_PRIMARY s;
          s = addEvent360 L 360 False T_PRIMARY s;
          s = setTriggerSynchronizationGap L 6 s
      in s)"

lemma clean_configureGmTriggerWaveform:
  "libfw_ok L \<Longrightarrow> arrays_declared s \<Longrightarrow> clean_shape s (configureGmTriggerWaveform L s)"
  unfolding configureGmTriggerWaveform_def Let_def by (simp add: shape_run)

definition gm_tooth_pair ::
  "libfw \<Rightarrow> rat \<Rightarrow> bool \<Rightarrow> int \<Rightarrow> rat \<Rightarrow> trigger_waveform \<Rightarrow> int \<times> trigger_waveform" where
  "gm_tooth_pair L startAngle isShortLong mult shortToothWidth s =
     (let window = c_trunc ((if isShortLong then shortToothWidth else 15 - shortToothWidth) * of_int mult);
          end' = c_trunc (startAngle + of_int (mult * 15));
          s = addEvent720 L (startAngle + of_int window) True T_PRIMARY s;
          s = addEvent720 L (of_int end') False T_PRIMARY s
      in (end', s))"

definition initGmLS24 ::
  "libfw \<Rightarrow> rat \<Rightarrow> trigger_waveform \<Rightarrow> trigger_waveform" where
  "initGmLS24 L shortToothWidth s =
     (let s = wf_initialize L FOUR_STROKE_CRANK_SENSOR Rise s;
          code = (0x0A33BE :: 32 word);
          angle = (0 :: int);
          (code, angle, s) = fold (\<lambda>i (code, angle, s).
                 let bit = (code AND 1 \<noteq> 0);
                     code = drop_bit 1 code;
                     (angle, s) = gm_tooth_pair L (of_int angle) bit (c_trunc CRANK_MODE_MULTIPLIER)
                       shortToothWidth s
                 in (code, angle, s)) [0..<24] (code, angle, s)
      in s)"

definition initGmLS24_5deg ::
  "libfw \<Rightarrow> trigger_waveform \<Rightarrow> trigger_waveform" where
  "initGmLS24_5deg L s =
     (let s = initGmLS24 L 5 s;
          s = setTriggerSynchronizationGap L 2 s;
          s = setSecondTriggerSynchronizationGap L (1 / 2) s;
          s = setThirdTriggerSynchronizationGap L 2 s;
          s = s\<lparr>tdcPosition := 50\<rparr>
      in s)"

lemma clean_initGmLS24_5deg:
  "libfw_ok L \<Longrightarrow> arrays_declared s \<Longrightarrow> clean_shape s (initGmLS24_5deg L s)"
  unfolding initGmLS24_5deg_def gm_tooth_pair_def initGmLS24_def Let_def by (simp add: shape_run)

definition initGmLS24_3deg ::
  "libfw \<Rightarrow> trigger_waveform \<Rightarrow> trigger_waveform" where
  "initGmLS24_3deg L s =
     (let s = initGmLS24 L 3 s;
          s = setTriggerSynchronizationGap L 4 s;
          s = setSecondTriggerSynchronizationGap L (1 / 4) s;
          s = setThirdTriggerSynchronizationGap L 4 s;
          s = s\<lparr>tdcPosition := 48\<rparr>
      in s)"

lemma clean_initGmLS24_3deg:
  "libfw_ok L \<Longrightarrow> arrays_declared s \<Longrightarrow> clean_shape s (initGmLS24_3deg L s)"
  unfolding initGmLS24_3deg_def gm_tooth_pair_def initGmLS24_def Let_def by (simp add: shape_run)

end
