(* ===== verification/Shapes_Chrysler.thy ===== *)
theory Shapes_Chrysler
  imports Shapes_Universal
begin

text \<open>
  The shapes of Chrysler, Dodge and Jeep engines.
  One definition per function of \<^verbatim>\<open>trigger_chrysler.cpp\<close>
  (\<^verbatim>\<open>controllers/trigger/decoders\<close>), statement by statement, and for each complete shape the
  proof that it is clean (\<open>clean_shape\<close>).
\<close>

subsection \<open>\<^verbatim>\<open>trigger_chrysler.cpp\<close>\<close>

abbreviation (input) CHRYSLER_NGC6_GAP :: rat where "CHRYSLER_NGC6_GAP \<equiv> 3 / 2"

definition initDodgeRam ::
  "libfw \<Rightarrow> trigger_waveform \<Rightarrow> trigger_waveform" where
  "initDodgeRam L s =
     (let s = wf_initialize L FOUR_STROKE_CAM_SENSOR Rise s;
          s = s\<lparr>isSynchronizationNeeded := False\<rparr>;
          s = addSkippedToothTriggerEvents L T_SECONDARY 8 0 (3 / 50) (- 25) 360 0 720 s;
          s = addEvent720 L 360 True T_PRIMARY s;
          s = addSkippedToothTriggerEvents L T_SECONDARY 8 0 (3 / 50) (360 - 25) 360 0 720 s;
          s = addEvent720 L 720 False T_PRIMARY s
      in s)"

lemma clean_initDodgeRam:
  "libfw_ok L \<Longrightarrow> arrays_declared s \<Longrightarrow> clean_shape s (initDodgeRam L s)"
  unfolding initDodgeRam_def addSkippedToothTriggerEvents_def Let_def by (simp add: shape_run)

definition configureNeon2003TriggerWaveformCrank ::
  "libfw \<Rightarrow> trigger_waveform \<Rightarrow> trigger_waveform" where
  "configureNeon2003TriggerWaveformCrank L s =
     (let s = wf_initialize L FOUR_STROKE_CRANK_SENSOR RiseOnly s;
          s = setTriggerSynchronizationGap L 3 s;
          s = addEvent360 L 25 False T_PRIMARY s;
          s = addEvent360 L 30 True T_PRIMARY s;
          s = addEvent360 L 35 False T_PRIMARY s;
          s = addEvent360 L 40 True T_PRIMARY s;
          s = addEvent360 L 45 False T_PRIMARY s;
          s = addEvent360 L 50 True T_PRIMARY s;
          s = addEvent360 L 55 False T_PRIMARY s;
          s = addEvent360 L 60 True T_PRIMARY s;
          s = addEvent360 L 65 False T_PRIMARY s;
          s = addEvent360 L 70 True T_PRIMARY s;
          s = addEvent360 L 75 False T_PRIMARY s;
          s = addEvent360 L 80 True T_PRIMARY s;
          s = addEvent360 L 85 False T_PRIMARY s;
          s = addEvent360 L 90 True T_PRIMARY s;
          s = addEvent360 L 95 False T_PRIMARY s;
          s = addEvent360 L 100 True T_PRIMARY s;
          s = addEvent360 L 105 False T_PRIMARY s;
          s = addEvent360 L 110 True T_PRIMARY s;
          s = addEvent360 L 115 False T_PRIMARY s;
          s = addEvent360 L 120 True T_PRIMARY s;
          s = addEvent360 L 125 False T_PRIMARY s;
          s = addEvent360 L 130 True T_PRIMARY s;
          s = addEvent360 L 135 False T_PRIMARY s;
          s = addEvent360 L 140 True T_PRIMARY s;
          s = addEvent360 L 145 False T_PRIMARY s;
          s = addEvent360 L 150 True T_PRIMARY s;
          s = addEvent360 L 155 False T_PRIMARY s;
          s = addEvent360 L 160 True T_PRIMARY s;
          s = addEvent360 L 165 False T_PRIMARY s;
          s = addEvent360 L 170 True T_PRIMARY s;
          s = addEvent360 L 175 False T_PRIMARY s;
          s = addEvent360 L 180 True T_PRIMARY s;
          s = addEvent360 L 185 False T_PRIMARY s;
          s = addEvent360 L 210 True T_PRIMARY s;
          s = addEvent360 L 215 False T_PRIMARY s;
          s = addEvent360 L 220 True T_PRIMARY s;
          s = addEvent360 L 225 False T_PRIMARY s;
          s = addEvent360 L 230 True T_PRIMARY s;
          s = addEvent360 L 235 False T_PRIMARY s;
          s = addEvent360 L 240 True T_PRIMARY s;
          s = addEvent360 L 245 False T_PRIMARY s;
          s = addEvent360 L 250 True T_PRIMARY s;
          s = addEvent360 L 255 False T_PRIMARY s;
          s = addEvent360 L 260 True T_PRIMARY s;
          s = addEvent360 L 265 False T_PRIMARY s;
          s = addEvent360 L 270 True T_PRIMARY s;
          s = addEvent360 L 275 False T_PRIMARY s;
          s = addEvent360 L 280 True T_PRIMARY s;
          s = addEvent360 L 285 False T_PRIMARY s;
          s = addEvent360 L 290 True T_PRIMARY s;
          s = addEvent360 L 295 False T_PRIMARY s;
          s = addEvent360 L 300 True T_PRIMARY s;
          s = addEvent360 L 305 False T_PRIMARY s;
          s = addEvent360 L 310 True T_PRIMARY s;
          s = addEvent360 L 315 False T_PRIMARY s;
          s = addEvent360 L 320 True T_PRIMARY s;
          s = addEvent360 L 325 False T_PRIMARY s;
          s = addEvent360 L 330 True T_PRIMARY s;
          s = addEvent360 L 335 False T_PRIMARY s;
          s = addEvent360 L 340 True T_PRIMARY s;
          s = addEvent360 L 345 False T_PRIMARY s;
          s = addEvent360 L 350 True T_PRIMARY s;
          s = addEvent360 L 355 False T_PRIMARY s;
          s = addEvent360 L 360 True T_PRIMARY s
      in s)"

lemma clean_configureNeon2003TriggerWaveformCrank:
  "libfw_ok L \<Longrightarrow> arrays_declared s \<Longrightarrow> clean_shape s (configureNeon2003TriggerWaveformCrank L s)"
  unfolding configureNeon2003TriggerWaveformCrank_def Let_def by (simp add: shape_run)

definition configureNeon2003TriggerWaveformCam ::
  "libfw \<Rightarrow> trigger_waveform \<Rightarrow> trigger_waveform" where
  "configureNeon2003TriggerWaveformCam L s =
     (let useOnlyPrimary = True;
          s = wf_initialize L FOUR_STROKE_CAM_SENSOR Rise s;
          s = s\<lparr>tdcPosition := 496\<rparr>;
          s = setTriggerSynchronizationGap2 L (3 / 4) (3 / 2) s;
          s = setTriggerSynchronizationGap3 L 1 (Fin (13 / 20)) (Fin (5 / 4)) s;
          EPS_ANGLE = (3 / 10 :: rat);
          s = (if useOnlyPrimary
          then let s = addEvent720 L 144 True T_PRIMARY s;
              s = addEvent720 L 180 False T_PRIMARY s;
              s = addEvent720 L 216 True T_PRIMARY s;
              s = addEvent720 L 252 False T_PRIMARY s;
              s = addEvent720 L 288 True T_PRIMARY s;
              s = addEvent720 L 324 False T_PRIMARY s;
              s = addEvent720 L 360 True T_PRIMARY s;
              s = addEvent720 L 504 False T_PRIMARY s;
              s = addEvent720 L 540 True T_PRIMARY s;
              s = addEvent720 L 576 False T_PRIMARY s;
              s = addEvent720 L 612 True T_PRIMARY s;
              s = addEvent720 L 648 False T_PRIMARY s;
              s = addEvent720 L 684 True T_PRIMARY s;
              s = addEvent720 L 720 False T_PRIMARY s
          in s
          else let s = s\<lparr>useOnlyPrimaryForSync := True\<rparr>;
              s = addEvent720 L 25 False T_SECONDARY s;
              s = addEvent720 L 30 True T_SECONDARY s;
              s = addEvent720 L 35 False T_SECONDARY s;
              s = addEvent720 L 40 True T_SECONDARY s;
              s = addEvent720 L 45 False T_SECONDARY s;
              s = addEvent720 L 50 True T_SECONDARY s;
              s = addEvent720 L 55 False T_SECONDARY s;
              s = addEvent720 L 60 True T_SECONDARY s;
              s = addEvent720 L 65 False T_SECONDARY s;
              s = addEvent720 L 70 True T_SECONDARY s;
              s = addEvent720 L 75 False T_SECONDARY s;
              s = addEvent720 L 80 True T_SECONDARY s;
              s = addEvent720 L 85 False T_SECONDARY s;
              s = addEvent720 L 90 True T_SECONDARY s;
              s = addEvent720 L 95 False T_SECONDARY s;
              s = addEvent720 L 100 True T_SECONDARY s;
              s = addEvent720 L 105 False T_SECONDARY s;
              s = addEvent720 L 110 True T_SECONDARY s;
              s = addEvent720 L 115 False T_SECONDARY s;
              s = addEvent720 L 120 True T_SECONDARY s;
              s = addEvent720 L 125 False T_SECONDARY s;
              s = addEvent720 L 130 True T_SECONDARY s;
              s = addEvent720 L 135 False T_SECONDARY s;
              s = addEvent720 L 140 True T_SECONDARY s;
              s = addEvent720 L 144 True T_PRIMARY s;
              s = addEvent720 L 145 False T_SECONDARY s;
              s = addEvent720 L 150 True T_SECONDARY s;
              s = addEvent720 L 155 False T_SECONDARY s;
              s = addEvent720 L 160 True T_SECONDARY s;
              s = addEvent720 L 165 False T_SECONDARY s;
              s = addEvent720 L 170 True T_SECONDARY s;
              s = addEvent720 L 175 False T_SECONDARY s;
              s = addEvent720 L (180 - EPS_ANGLE) True T_SECONDARY s;
              s = addEvent720 L 180 False T_PRIMARY s;
              s = addEvent720 L 185 False T_SECONDARY s;
              s = addEvent720 L 210 True T_SECONDARY s;
              s = addEvent720 L 215 False T_SECONDARY s;
              s = addEvent720 L 216 True T_PRIMARY s;
              s = addEvent720 L 220 True T_SECONDARY s;
              s = addEvent720 L 225 False T_SECONDARY s;
              s = addEvent720 L 230 True T_SECONDARY s;
              s = addEvent720 L 235 False T_SECONDARY s;
              s = addEvent720 L 240 True T_SECONDARY s;
              s = addEvent720 L 245 False T_SECONDARY s;
              s = addEvent720 L 250 True T_SECONDARY s;
              s = addEvent720 L 252 False T_PRIMARY s;
              s = addEvent720 L 255 False T_SECONDARY s;
              s = addEvent720 L 260 True T_SECONDARY s;
              s = addEvent720 L 265 False T_SECONDARY s;
              s = addEvent720 L 270 True T_SECONDARY s;
              s = addEvent720 L 275 False T_SECONDARY s;
              s = addEvent720 L 280 True T_SECONDARY s;
              s = addEvent720 L 285 False T_SECONDARY s;
              s = addEvent720 L 288 True T_PRIMARY s;
              s = addEvent720 L 290 True T_SECONDARY s;
              s = addEvent720 L 295 False T_SECONDARY s;
              s = addEvent720 L 300 True T_SECONDARY s;
              s = addEvent720 L 305 False T_SECONDARY s;
              s = addEvent720 L 310 True T_SECONDARY s;
              s = addEvent720 L 315 False T_SECONDARY s;
              s = addEvent720 L 320 True T_SECONDARY s;
              s = addEvent720 L 324 False T_PRIMARY s;
              s = addEvent720 L 325 False T_SECONDARY s;
              s = addEvent720 L 330 True T_SECONDARY s;
              s = addEvent720 L 335 False T_SECONDARY s;
              s = addEvent720 L 340 True T_SECONDARY s;
              s = addEvent720 L 345 False T_SECONDARY s;
              s = addEvent720 L 350 True T_SECONDARY s;
              s = addEvent720 L 355 False T_SECONDARY s;
              s = addEvent720 L (360 - EPS_ANGLE) True T_SECONDARY s;
              s = addEvent720 L 360 True T_PRIMARY s;
              s = addEvent720 L 385 False T_SECONDARY s;
              s = addEvent720 L 390 True T_SECONDARY s;
              s = addEvent720 L 395 False T_SECONDARY s;
              s = addEvent720 L 400 True T_SECONDARY s;
              s = addEvent720 L 405 False T_SECONDARY s;
              s = addEvent720 L 410 True T_SECONDARY s;
              s = addEvent720 L 415 False T_SECONDARY s;
              s = addEvent720 L 420 True T_SECONDARY s;
              s = addEvent720 L 425 False T_SECONDARY s;
              s = addEvent720 L 430 True T_SECONDARY s;
              s = addEvent720 L 435 False T_SECONDARY s;
              s = addEvent720 L 440 True T_SECONDARY s;
              s = addEvent720 L 445 False T_SECONDARY s;
              s = addEvent720 L 450 True T_SECONDARY s;
              s = addEvent720 L 455 False T_SECONDARY s;
              s = addEvent720 L 460 True T_SECONDARY s;
              s = addEvent720 L 465 False T_SECONDARY s;
              s = addEvent720 L 470 True T_SECONDARY s;
              s = addEvent720 L 475 False T_SECONDARY s;
              s = addEvent720 L 480 True T_SECONDARY s;
              s = addEvent720 L 485 False T_SECONDARY s;
              s = addEvent720 L 490 True T_SECONDARY s;
              s = addEvent720 L 495 False T_SECONDARY s;
              s = addEvent720 L 500 True T_SECONDARY s;
              s = addEvent720 L 504 False T_PRIMARY s;
              s = addEvent720 L 505 False T_SECONDARY s;
              s = addEvent720 L 510 True T_SECONDARY s;
              s = addEvent720 L 515 False T_SECONDARY s;
              s = addEvent720 L 520 True T_SECONDARY s;
              s = addEvent720 L 525 False T_SECONDARY s;
              s = addEvent720 L 530 True T_SECONDARY s;
              s = addEvent720 L 535 False T_SECONDARY s;
              s = addEvent720 L (540 - EPS_ANGLE) True T_SECONDARY s;
              s = addEvent720 L 540 True T_PRIMARY s;
              s = addEvent720 L 545 False T_SECONDARY s;
              s = addEvent720 L 570 True T_SECONDARY s;
              s = addEvent720 L 575 False T_SECONDARY s;
              s = addEvent720 L 576 False T_PRIMARY s;
              s = addEvent720 L 580 True T_SECONDARY s;
              s = addEvent720 L 585 False T_SECONDARY s;
              s = addEvent720 L 590 True T_SECONDARY s;
              s = addEvent720 L 595 False T_SECONDARY s;
              s = addEvent720 L 600 True T_SECONDARY s;
              s = addEvent720 L 605 False T_SECONDARY s;
              s = addEvent720 L 610 True T_SECONDARY s;
              s = addEvent720 L 612 True T_PRIMARY s;
              s = addEvent720 L 615 False T_SECONDARY s;
              s = addEvent720 L 620 True T_SECONDARY s;
              s = addEvent720 L 625 False T_SECONDARY s;
              s = addEvent720 L 630 True T_SECONDARY s;
              s = addEvent720 L 635 False T_SECONDARY s;
              s = addEvent720 L 640 True T_SECONDARY s;
              s = addEvent720 L 645 False T_SECONDARY s;
              s = addEvent720 L 648 False T_PRIMARY s;
              s = addEvent720 L 650 True T_SECONDARY s;
              s = addEvent720 L 655 False T_SECONDARY s;
              s = addEvent720 L 660 True T_SECONDARY s;
              s = addEvent720 L 665 False T_SECONDARY s;
              s = addEvent720 L 670 True T_SECONDARY s;
              s = addEvent720 L 675 False T_SECONDARY s;
              s = addEvent720 L 680 True T_SECONDARY s;
              s = addEvent720 L 684 True T_PRIMARY s;
              s = addEvent720 L 685 False T_SECONDARY s;
              s = addEvent720 L 690 True T_SECONDARY s;
              s = addEvent720 L 695 False T_SECONDARY s;
              s = addEvent720 L 700 True T_SECONDARY s;
              s = addEvent720 L 705 False T_SECONDARY s;
              s = addEvent720 L 710 True T_SECONDARY s;
              s = addEvent720 L 715 False T_SECONDARY s;
              s = addEvent720 L (720 - EPS_ANGLE) True T_SECONDARY s;
              s = addEvent720 L 720 False T_PRIMARY s
          in s)
      in s)"

lemma clean_configureNeon2003TriggerWaveformCam:
  "libfw_ok L \<Longrightarrow> arrays_declared s \<Longrightarrow> clean_shape s (configureNeon2003TriggerWaveformCam L s)"
  unfolding configureNeon2003TriggerWaveformCam_def Let_def by (simp add: shape_run)

definition configureDodgeStratusTriggerWaveform ::
  "libfw \<Rightarrow> trigger_waveform \<Rightarrow> trigger_waveform" where
  "configureDodgeStratusTriggerWaveform L s =
     (let s = wf_initialize L FOUR_STROKE_CAM_SENSOR RiseOnly s;
          s = s\<lparr>tdcPosition := 150\<rparr>;
          w = (7 :: rat);
          g = (20 :: rat);
          s = setTriggerSynchronizationGap2 L (CHRYSLER_NGC6_GAP - 1 / 4) (CHRYSLER_NGC6_GAP + 2 / 5) s;
          base = (0 :: rat);
          angle = base + 120 - w;
          s = addEvent720 L angle True T_PRIMARY s;
          s = addEvent720 L (angle + w) False T_PRIMARY s;
          angle = angle + g;
          s = addEvent720 L angle True T_PRIMARY s;
          s = addEvent720 L (angle + w) False T_PRIMARY s;
          base = base + 120;
          angle = base + 120 - w;
          s = addEvent720 L angle True T_PRIMARY s;
          s = addEvent720 L (angle + w) False T_PRIMARY s;
          angle = angle + g;
          s = addEvent720 L angle True T_PRIMARY s;
          s = addEvent720 L (angle + w) False T_PRIMARY s;
          angle = angle + g;
          s = addEvent720 L angle True T_PRIMARY s;
          s = addEvent720 L (angle + w) False T_PRIMARY s;
          base = base + 120;
          angle = base + 120 - w;
          s = addEvent720 L angle True T_PRIMARY s;
          s = addEvent720 L (angle + w) False T_PRIMARY s;
          angle = angle + g;
          s = addEvent720 L angle True T_PRIMARY s;
          s = addEvent720 L (angle + w) False T_PRIMARY s;
          base = base + 120;
          angle = base + 120 - w;
          s = addEvent720 L angle True T_PRIMARY s;
          s = addEvent720 L (angle + w) False T_PRIMARY s;
          base = base + 120;
          angle = base + 120 - w;
          s = addEvent720 L angle True T_PRIMARY s;
          s = addEvent720 L (angle + w) False T_PRIMARY s;
          angle = angle + g;
          s = addEvent720 L angle True T_PRIMARY s;
          s = addEvent720 L (angle + w) False T_PRIMARY s;
          angle = angle + g;
          s = addEvent720 L angle True T_PRIMARY s;
          s = addEvent720 L (angle + w) False T_PRIMARY s;
          base = base + 120;
          angle = base + 120 - w;
          s = addEvent720 L angle True T_PRIMARY s;
          s = addEvent720 L (angle + w) False T_PRIMARY s
      in s)"

lemma clean_configureDodgeStratusTriggerWaveform:
  "libfw_ok L \<Longrightarrow> arrays_declared s \<Longrightarrow> clean_shape s (configureDodgeStratusTriggerWaveform L s)"
  unfolding configureDodgeStratusTriggerWaveform_def Let_def by (simp add: shape_run)

definition configureNeon1995TriggerWaveformOnlyCrank ::
  "libfw \<Rightarrow> trigger_waveform \<Rightarrow> trigger_waveform" where
  "configureNeon1995TriggerWaveformOnlyCrank L s =
     (let s = wf_initialize L FOUR_STROKE_CRANK_SENSOR Rise s;
          s = setTriggerSynchronizationGap3 L 0 (Fin (8 / 5)) (Fin (9 / 2)) s;
          s = setTriggerSynchronizationGap3 L 1 (Fin (1 / 2)) (Fin (3 / 2)) s;
          s = setTriggerSynchronizationGap3 L 2 (Fin (1 / 2)) (Fin (3 / 2)) s;
          s = setTriggerSynchronizationGap3 L 3 (Fin (1 / 10)) (Fin (3 / 10)) s;
          s = s\<lparr>tdcPosition := 279\<rparr>;
          base = (59 :: int);
          s = addEvent360 L (of_int base + 0) True T_PRIMARY s;
          s = addEvent360 L (of_int base + 60) False T_PRIMARY s;
          s = addEvent360 L (of_int base + 75) True T_PRIMARY s;
          s = addEvent360 L (of_int base + 82) False T_PRIMARY s;
          s = addEvent360 L (of_int base + 96) True T_PRIMARY s;
          s = addEvent360 L (of_int base + 102) False T_PRIMARY s;
          s = addEvent360 L (of_int base + 116) True T_PRIMARY s;
          s = addEvent360 L (of_int base + 122) False T_PRIMARY s;
          s = addEvent360 L (of_int base + 235) True T_PRIMARY s;
          s = addEvent360 L (of_int base + 242) False T_PRIMARY s;
          s = addEvent360 L (of_int base + 255) True T_PRIMARY s;
          s = addEvent360 L (of_int base + 261) False T_PRIMARY s;
          s = addEvent360 L (of_int base + 275) True T_PRIMARY s;
          s = addEvent360 L (of_int base + 281) False T_PRIMARY s;
          s = addEvent360 L (of_int base + 295) True T_PRIMARY s;
          s = addEvent360 L (of_int base + 301) False T_PRIMARY s
      in s)"

lemma clean_configureNeon1995TriggerWaveformOnlyCrank:
  "libfw_ok L \<Longrightarrow> arrays_declared s \<Longrightarrow> clean_shape s (configureNeon1995TriggerWaveformOnlyCrank L s)"
  unfolding configureNeon1995TriggerWaveformOnlyCrank_def Let_def by (simp add: shape_run)

definition initJeep18_2_2_2 ::
  "libfw \<Rightarrow> trigger_waveform \<Rightarrow> trigger_waveform" where
  "initJeep18_2_2_2 L s =
     (let s = wf_initialize L FOUR_STROKE_CAM_SENSOR RiseOnly s;
          s = s\<lparr>isSynchronizationNeeded := False\<rparr>;
          s = s\<lparr>tdcPosition := 581\<rparr>;
          off = (212 :: rat);
          s = addEvent720 L (534 - 720 + off) True T_SECONDARY s;
          s = addEvent720 L (536 - 720 + off) False T_SECONDARY s;
          s = addEvent720 L (554 - 720 + off) True T_SECONDARY s;
          s = addEvent720 L (556 - 720 + off) False T_SECONDARY s;
          s = addEvent720 L (574 - 720 + off) True T_SECONDARY s;
          s = addEvent720 L (576 - 720 + off) False T_SECONDARY s;
          s = addEvent720 L (594 - 720 + off) True T_SECONDARY s;
          s = addEvent720 L (596 - 720 + off) False T_SECONDARY s;
          s = addEvent720 L (654 - 720 + off) True T_SECONDARY s;
          s = addEvent720 L (656 - 720 + off) False T_SECONDARY s;
          s = addEvent720 L (674 - 720 + off) True T_SECONDARY s;
          s = addEvent720 L (676 - 720 + off) False T_SECONDARY s;
          s = addEvent720 L (694 - 720 + off) True T_SECONDARY s;
          s = addEvent720 L (696 - 720 + off) False T_SECONDARY s;
          s = addEvent720 L (714 - 720 + off) True T_SECONDARY s;
          s = addEvent720 L (716 - 720 + off) False T_SECONDARY s;
          s = addEvent720 L (54 + off) True T_SECONDARY s;
          s = addEvent720 L (56 + off) False T_SECONDARY s;
          s = addEvent720 L (74 + off) True T_SECONDARY s;
          s = addEvent720 L (76 + off) False T_SECONDARY s;
          s = addEvent720 L (94 + off) True T_SECONDARY s;
          s = addEvent720 L (96 + off) False T_SECONDARY s;
          s = addEvent720 L (114 + off) True T_SECONDARY s;
          s = addEvent720 L (116 + off) False T_SECONDARY s;
          s = addEvent720 L (148 + off) True T_PRIMARY s;
          s = addEvent720 L (174 + off) True T_SECONDARY s;
          s = addEvent720 L (176 + off) False T_SECONDARY s;
          s = addEvent720 L (194 + off) True T_SECONDARY s;
          s = addEvent720 L (196 + off) False T_SECONDARY s;
          s = addEvent720 L (214 + off) True T_SECONDARY s;
          s = addEvent720 L (216 + off) False T_SECONDARY s;
          s = addEvent720 L (234 + off) True T_SECONDARY s;
          s = addEvent720 L (236 + off) False T_SECONDARY s;
          s = addEvent720 L (294 + off) True T_SECONDARY s;
          s = addEvent720 L (296 + off) False T_SECONDARY s;
          s = addEvent720 L (314 + off) True T_SECONDARY s;
          s = addEvent720 L (316 + off) False T_SECONDARY s;
          s = addEvent720 L (334 + off) True T_SECONDARY s;
          s = addEvent720 L (336 + off) False T_SECONDARY s;
          s = addEvent720 L (354 + off) True T_SECONDARY s;
          s = addEvent720 L (356 + off) False T_SECONDARY s;
          s = addEvent720 L (414 + off) True T_SECONDARY s;
          s = addEvent720 L (416 + off) False T_SECONDARY s;
          s = addEvent720 L (434 + off) True T_SECONDARY s;
          s = addEvent720 L (436 + off) False T_SECONDARY s;
          s = addEvent720 L (454 + off) True T_SECONDARY s;
          s = addEvent720 L (456 + off) False T_SECONDARY s;
          s = addEvent720 L (474 + off) True T_SECONDARY s;
          s = addEvent720 L (476 + off) False T_SECONDARY s;
          s = addEvent720 L (508 + off) False T_PRIMARY s
      in s)"

lemma clean_initJeep18_2_2_2:
  "libfw_ok L \<Longrightarrow> arrays_declared s \<Longrightarrow> clean_shape s (initJeep18_2_2_2 L s)"
  unfolding initJeep18_2_2_2_def Let_def by (simp add: shape_run)

definition add4cylblock ::
  "libfw \<Rightarrow> int \<Rightarrow> trigger_waveform \<Rightarrow> trigger_waveform" where
  "add4cylblock L off s =
     (let s = addEvent720 L (114 + of_int off) True T_SECONDARY s;
          s = addEvent720 L (114 + of_int off + 2) False T_SECONDARY s;
          s = addEvent720 L (134 + of_int off) True T_SECONDARY s;
          s = addEvent720 L (134 + of_int off + 2) False T_SECONDARY s;
          s = addEvent720 L (154 + of_int off) True T_SECONDARY s;
          s = addEvent720 L (154 + of_int off + 2) False T_SECONDARY s;
          s = addEvent720 L (174 + of_int off) True T_SECONDARY s;
          s = addEvent720 L (174 + of_int off + 2) False T_SECONDARY s
      in s)"

definition initJeep_XJ_4cyl_2500 ::
  "libfw \<Rightarrow> trigger_waveform \<Rightarrow> trigger_waveform" where
  "initJeep_XJ_4cyl_2500 L s =
     (let s = wf_initialize L FOUR_STROKE_CAM_SENSOR RiseOnly s;
          s = s\<lparr>isSynchronizationNeeded := False\<rparr>;
          s = s\<lparr>tdcPosition := 720 - 236\<rparr>;
          offset = (124 :: rat);
          s = add4cylblock L (c_trunc (offset - 180)) s;
          s = add4cylblock L (c_trunc offset) s;
          s = addEvent720 L (236 + offset) True T_PRIMARY s;
          s = add4cylblock L (c_trunc (offset + 180)) s;
          s = add4cylblock L (c_trunc (offset + 360)) s;
          s = addEvent720 L (596 + offset) False T_PRIMARY s
      in s)"

lemma clean_initJeep_XJ_4cyl_2500:
  "libfw_ok L \<Longrightarrow> arrays_declared s \<Longrightarrow> clean_shape s (initJeep_XJ_4cyl_2500 L s)"
  unfolding initJeep_XJ_4cyl_2500_def add4cylblock_def Let_def by (simp add: shape_run)

definition configureChryslerNGC_36_2_2 ::
  "libfw \<Rightarrow> trigger_waveform \<Rightarrow> trigger_waveform" where
  "configureChryslerNGC_36_2_2 L s =
     (let s = wf_initialize L FOUR_STROKE_CAM_SENSOR RiseOnly s;
          wide = (30 * 2 :: rat);
          narrow = (10 * 2 :: rat);
          s = setTriggerSynchronizationGap L (7 / 2) s;
          s = fold (\<lambda>i s.
                 setTriggerSynchronizationGap3 L i (Fin TRIGGER_GAP_DEVIATION_LOW) (Fin TRIGGER_GAP_DEVIATION_HIGH) s) [1..14] s;
          s = setTriggerSynchronizationGap3 L 15 (Fin (2 / 5 * TRIGGER_GAP_DEVIATION_LOW)) (Fin (2 / 5 * TRIGGER_GAP_DEVIATION_HIGH)) s;
          base = (0 :: rat);
          (base, s) = fold (\<lambda>i (base, s).
                 let s = addEventAngle L (base + narrow / 2) True T_PRIMARY s;
                     s = addEventAngle L (base + narrow) False T_PRIMARY s;
                     base = base + narrow
                 in (base, s)) [0..13] (base, s);
          s = addEventAngle L (base + narrow / 2) True T_PRIMARY s;
          base = base + narrow / 2;
          s = addEventAngle L (base + wide) False T_PRIMARY s;
          base = base + wide;
          (base, s) = fold (\<lambda>i (base, s).
                 let s = addEventAngle L (base + narrow / 2) True T_PRIMARY s;
                     s = addEventAngle L (base + narrow) False T_PRIMARY s;
                     base = base + narrow
                 in (base, s)) [0..15] (base, s);
          s = addEventAngle L (getCycleDuration s - narrow / 2) True T_PRIMARY s;
          s = addEventAngle L (getCycleDuration s) False T_PRIMARY s
      in s)"

lemma clean_configureChryslerNGC_36_2_2:
  "libfw_ok L \<Longrightarrow> arrays_declared s \<Longrightarrow> clean_shape s (configureChryslerNGC_36_2_2 L s)"
  unfolding configureChryslerNGC_36_2_2_def Let_def by (simp add: shape_run)

end
