(* ===== verification/Shapes_Mazda.thy ===== *)
theory Shapes_Mazda
  imports Shapes_Universal
begin

text \<open>
  The shapes of Mazda, Honda, Suzuki and Toyota engines.
  One definition per function of \<^verbatim>\<open>trigger_mazda.cpp\<close>, \<^verbatim>\<open>trigger_honda.cpp\<close>, \<^verbatim>\<open>trigger_suzuki.cpp\<close>, \<^verbatim>\<open>trigger_toyota.cpp\<close>
  (\<^verbatim>\<open>controllers/trigger/decoders\<close>), statement by statement, and for each complete shape the
  proof that it is clean (\<open>clean_shape\<close>).
\<close>

subsection \<open>\<^verbatim>\<open>trigger_mazda.cpp\<close>\<close>

abbreviation (input) NB_CRANK_MAGIC :: int where "NB_CRANK_MAGIC \<equiv> 70"

definition initializeMazdaMiataNaShape ::
  "libfw \<Rightarrow> trigger_waveform \<Rightarrow> trigger_waveform" where
  "initializeMazdaMiataNaShape L s =
     (let s = wf_initialize L FOUR_STROKE_CAM_SENSOR Both s;
          s = s\<lparr>isSecondWheelCam := True\<rparr>;
          s = setTriggerSynchronizationGap2 L (1 / 10) (1 / 2) s;
          s = setSecondTriggerSynchronizationGap2 L (1 / 2) (23 / 10) s;
          s = s\<lparr>tdcPosition := 5181 / 1000\<rparr>;
          s = addEvent720 L (10592081 / 200000) True T_SECONDARY s;
          s = addEvent720 L (30658989 / 250000) False T_SECONDARY s;
          s = addEvent720 L (216897031 / 1000000) True T_PRIMARY s;
          s = addEvent720 L (58160017 / 250000) True T_SECONDARY s;
          s = addEvent720 L (36102461 / 125000) False T_PRIMARY s;
          s = addEvent720 L (302646323 / 1000000) False T_SECONDARY s;
          s = addEvent720 L (51556007 / 125000) True T_SECONDARY s;
          s = addEvent720 L (482816719 / 1000000) False T_SECONDARY s;
          s = addEvent720 L (115407099 / 200000) True T_PRIMARY s;
          s = addEvent720 L (592878113 / 1000000) True T_SECONDARY s;
          s = addEvent720 L (165724927 / 250000) False T_SECONDARY s;
          s = addEvent720 L 720 False T_PRIMARY s;
          s = s\<lparr>useOnlyPrimaryForSync := True\<rparr>
      in s)"

lemma clean_initializeMazdaMiataNaShape:
  "libfw_ok L \<Longrightarrow> arrays_declared s \<Longrightarrow> clean_shape s (initializeMazdaMiataNaShape L s)"
  unfolding initializeMazdaMiataNaShape_def Let_def by (simp add: shape_run)

definition initializeMazdaMiataNb2Crank ::
  "libfw \<Rightarrow> trigger_waveform \<Rightarrow> trigger_waveform" where
  "initializeMazdaMiataNb2Crank L s =
     (let s = wf_initialize L FOUR_STROKE_SYMMETRICAL_CRANK_SENSOR RiseOnly s;
          s = s\<lparr>tdcPosition := 60 + 655\<rparr>;
          s = setTriggerSynchronizationGap2 L (7 / 20) (23 / 20) s;
          s = setSecondTriggerSynchronizationGap2 L (4 / 5) (9 / 5) s;
          s = addEventAngle L (180 - of_int NB_CRANK_MAGIC - 4) False T_PRIMARY s;
          s = addEventAngle L (180 - of_int NB_CRANK_MAGIC) True T_PRIMARY s;
          s = addEventAngle L (180 - 4) False T_PRIMARY s;
          s = addEventAngle L 180 True T_PRIMARY s
      in s)"

lemma clean_initializeMazdaMiataNb2Crank:
  "libfw_ok L \<Longrightarrow> arrays_declared s \<Longrightarrow> clean_shape s (initializeMazdaMiataNb2Crank L s)"
  unfolding initializeMazdaMiataNb2Crank_def Let_def by (simp add: shape_run)

definition addNBCrankTooth ::
  "libfw \<Rightarrow> rat \<Rightarrow> trigger_wheel \<Rightarrow> trigger_waveform \<Rightarrow> trigger_waveform" where
  "addNBCrankTooth L angle channelIndex s =
     (let s = addEvent720 L angle True channelIndex s;
          s = addEvent720 L (angle + 4) False channelIndex s
      in s)"

definition initializeMazdaMiataNb1ShapeWithOffset ::
  "libfw \<Rightarrow> rat \<Rightarrow> trigger_waveform \<Rightarrow> trigger_waveform" where
  "initializeMazdaMiataNb1ShapeWithOffset L offset s =
     (let s = wf_initialize L FOUR_STROKE_CAM_SENSOR Fall s;
          s = setTriggerSynchronizationGap3 L 0 (Fin (13 / 200)) (Fin (17 / 100)) s;
          s = s\<lparr>useOnlyPrimaryForSync := True\<rparr>;
          s = s\<lparr>tdcPosition := 276\<rparr>;
          s = addEvent720 L 20 False T_PRIMARY s;
          s = addNBCrankTooth L (offset + 66) T_SECONDARY s;
          s = addNBCrankTooth L (offset + 66 + of_int NB_CRANK_MAGIC) T_SECONDARY s;
          s = addNBCrankTooth L (offset + 66 + 180) T_SECONDARY s;
          s = addNBCrankTooth L (offset + 66 + 180 + of_int NB_CRANK_MAGIC) T_SECONDARY s;
          s = addEvent720 L 340 True T_PRIMARY s;
          s = addEvent720 L 360 False T_PRIMARY s;
          s = addEvent720 L 380 True T_PRIMARY s;
          s = addEvent720 L 400 False T_PRIMARY s;
          s = addNBCrankTooth L (offset + 66 + 360) T_SECONDARY s;
          s = addNBCrankTooth L (offset + 66 + 360 + of_int NB_CRANK_MAGIC) T_SECONDARY s;
          s = addNBCrankTooth L (offset + 66 + 540) T_SECONDARY s;
          s = addNBCrankTooth L (offset + 66 + 540 + of_int NB_CRANK_MAGIC) T_SECONDARY s;
          s = addEvent720 L 720 True T_PRIMARY s
      in s)"

definition initializeMazdaMiataVVtTestShape ::
  "libfw \<Rightarrow> trigger_waveform \<Rightarrow> trigger_waveform" where
  "initializeMazdaMiataVVtTestShape L s = initializeMazdaMiataNb1ShapeWithOffset L (- 22) s"

lemma clean_initializeMazdaMiataVVtTestShape:
  "libfw_ok L \<Longrightarrow> arrays_declared s \<Longrightarrow> clean_shape s (initializeMazdaMiataVVtTestShape L s)"
  unfolding initializeMazdaMiataVVtTestShape_def addNBCrankTooth_def initializeMazdaMiataNb1ShapeWithOffset_def Let_def by (simp add: shape_run)

definition configureMazdaProtegeSOHC ::
  "libfw \<Rightarrow> trigger_waveform \<Rightarrow> trigger_waveform" where
  "configureMazdaProtegeSOHC L s =
     (let s = wf_initialize L FOUR_STROKE_CAM_SENSOR Both s;
          a = (5 :: rat);
          z = (93 / 1000 :: rat);
          a = (180 :: rat);
          s = addEvent720 L (a - z * 720) True T_PRIMARY s;
          s = addEvent720 L a False T_PRIMARY s;
          a = a + 180;
          s = addEvent720 L (a - z * 720) True T_PRIMARY s;
          s = addEvent720 L a False T_PRIMARY s;
          a = a + 180;
          s = addEvent720 L (a - z * 720) True T_PRIMARY s;
          s = addEvent720 L a False T_PRIMARY s;
          a = a + 180;
          s = addEvent720 L (a - z * 720) True T_PRIMARY s;
          s = addEvent720 L a False T_PRIMARY s;
          s = s\<lparr>isSynchronizationNeeded := False\<rparr>;
          s = s\<lparr>shapeWithoutTdc := True\<rparr>
      in s)"

lemma clean_configureMazdaProtegeSOHC:
  "libfw_ok L \<Longrightarrow> arrays_declared s \<Longrightarrow> clean_shape s (configureMazdaProtegeSOHC L s)"
  unfolding configureMazdaProtegeSOHC_def Let_def by (simp add: shape_run)

definition configureMazdaProtegeLx ::
  "libfw \<Rightarrow> trigger_waveform \<Rightarrow> trigger_waveform" where
  "configureMazdaProtegeLx L s =
     (let s = wf_initialize L FOUR_STROKE_CAM_SENSOR RiseOnly s;
          s = s\<lparr>isSecondWheelCam := True\<rparr>;
          s = addEvent720 L (47664627 / 500000) True T_PRIMARY s;
          s = addEvent720 L (47664627 / 500000 + 3719173 / 250000) True T_SECONDARY s;
          s = addEvent720 L (47664627 / 500000 + 82693557 / 1000000) False T_SECONDARY s;
          s = addEvent720 L (47664627 / 500000 + 68559577 / 500000) False T_PRIMARY s;
          s = addEvent720 L (47664627 / 500000 + 48094577 / 250000) True T_SECONDARY s;
          s = addEvent720 L (47664627 / 500000 + 130778209 / 500000) False T_SECONDARY s;
          s = addEvent720 L (47664627 / 500000 + 373060597 / 1000000) True T_SECONDARY s;
          s = addEvent720 L (47664627 / 500000 + 27718949 / 62500) False T_SECONDARY s;
          s = addEvent720 L (47664627 / 500000 + 34709361 / 62500) True T_SECONDARY s;
          s = addEvent720 L 720 False T_SECONDARY s;
          s = s\<lparr>tdcPosition := 68559577 / 500000\<rparr>;
          s = s\<lparr>isSynchronizationNeeded := False\<rparr>
      in s)"

lemma clean_configureMazdaProtegeLx:
  "libfw_ok L \<Longrightarrow> arrays_declared s \<Longrightarrow> clean_shape s (configureMazdaProtegeLx L s)"
  unfolding configureMazdaProtegeLx_def Let_def by (simp add: shape_run)

definition initializeMazdaMiataVVtCamShape ::
  "libfw \<Rightarrow> trigger_waveform \<Rightarrow> trigger_waveform" where
  "initializeMazdaMiataVVtCamShape L s =
     (let s = wf_initialize L FOUR_STROKE_CAM_SENSOR RiseOnly s;
          s = setTriggerSynchronizationGap2 L 6 20 s;
          s = setSecondTriggerSynchronizationGap2 L (1 / 25) (1 / 5) s;
          s = addEvent720 L 325 False T_PRIMARY s;
          s = addEvent720 L 360 True T_PRIMARY s;
          s = addEvent720 L 641 False T_PRIMARY s;
          s = addEvent720 L 679 True T_PRIMARY s;
          s = addEvent720 L 700 False T_PRIMARY s;
          s = addEvent720 L 720 True T_PRIMARY s
      in s)"

lemma clean_initializeMazdaMiataVVtCamShape:
  "libfw_ok L \<Longrightarrow> arrays_declared s \<Longrightarrow> clean_shape s (initializeMazdaMiataVVtCamShape L s)"
  unfolding initializeMazdaMiataVVtCamShape_def Let_def by (simp add: shape_run)

definition initializeMazdaMiataNaCamShape ::
  "libfw \<Rightarrow> trigger_waveform \<Rightarrow> trigger_waveform" where
  "initializeMazdaMiataNaCamShape L s =
     (let s = wf_initialize L FOUR_STROKE_CAM_SENSOR Both s;
          s = setTriggerSynchronizationGap3 L 0 (Fin (1 / 10)) (Fin (1 / 2)) s;
          s = setTriggerSynchronizationGap3 L 1 (Fin (1 / 2)) (Fin (23 / 10)) s;
          s = addEvent720 L (216897031 / 1000000) True T_PRIMARY s;
          s = addEvent720 L (36102461 / 125000) False T_PRIMARY s;
          s = addEvent720 L (115407099 / 200000) True T_PRIMARY s;
          s = addEvent720 L 720 False T_PRIMARY s
      in s)"

lemma clean_initializeMazdaMiataNaCamShape:
  "libfw_ok L \<Longrightarrow> arrays_declared s \<Longrightarrow> clean_shape s (initializeMazdaMiataNaCamShape L s)"
  unfolding initializeMazdaMiataNaCamShape_def Let_def by (simp add: shape_run)

definition initializeMazdaSkyactivCam ::
  "libfw \<Rightarrow> trigger_waveform \<Rightarrow> trigger_waveform" where
  "initializeMazdaSkyactivCam L s =
     (let s = wf_initialize L FOUR_STROKE_CAM_SENSOR RiseOnly s;
          s = addEvent360 L 50 True T_PRIMARY s;
          s = addEvent360 L 70 False T_PRIMARY s;
          s = addEvent360 L 80 True T_PRIMARY s;
          s = addEvent360 L 90 False T_PRIMARY s;
          s = addEvent360 L 140 True T_PRIMARY s;
          s = addEvent360 L 160 False T_PRIMARY s;
          s = addEvent360 L 170 True T_PRIMARY s;
          s = addEvent360 L 180 False T_PRIMARY s;
          s = addEvent360 L 250 True T_PRIMARY s;
          s = addEvent360 L 270 False T_PRIMARY s;
          s = addEvent360 L 340 True T_PRIMARY s;
          s = addEvent360 L 360 False T_PRIMARY s;
          s = setTriggerSynchronizationGap L (43 / 100) s;
          s = setSecondTriggerSynchronizationGap L (39 / 50) s;
          s = setThirdTriggerSynchronizationGap L (28 / 25) s
      in s)"

lemma clean_initializeMazdaSkyactivCam:
  "libfw_ok L \<Longrightarrow> arrays_declared s \<Longrightarrow> clean_shape s (initializeMazdaSkyactivCam L s)"
  unfolding initializeMazdaSkyactivCam_def Let_def by (simp add: shape_run)

definition initializeMazdaLCam ::
  "libfw \<Rightarrow> trigger_waveform \<Rightarrow> trigger_waveform" where
  "initializeMazdaLCam L s =
     (let s = wf_initialize L FOUR_STROKE_CAM_SENSOR RiseOnly s;
          s = addEvent360 L 50 True T_PRIMARY s;
          s = addEvent360 L 60 False T_PRIMARY s;
          s = addEvent360 L 80 True T_PRIMARY s;
          s = addEvent360 L 90 False T_PRIMARY s;
          s = addEvent360 L 140 True T_PRIMARY s;
          s = addEvent360 L 150 False T_PRIMARY s;
          s = addEvent360 L 170 True T_PRIMARY s;
          s = addEvent360 L 180 False T_PRIMARY s;
          s = addEvent360 L 260 True T_PRIMARY s;
          s = addEvent360 L 270 False T_PRIMARY s;
          s = addEvent360 L 350 True T_PRIMARY s;
          s = addEvent360 L 360 False T_PRIMARY s;
          s = setTriggerSynchronizationGap3 L 0 (Fin (8 / 25)) (Fin (4 / 5)) s;
          s = setTriggerSynchronizationGap3 L 1 (Fin (3 / 2)) (Fin (5 / 2)) s;
          s = setTriggerSynchronizationGap3 L 2 (Fin (8 / 25)) (Fin (4 / 5)) s
      in s)"

lemma clean_initializeMazdaLCam:
  "libfw_ok L \<Longrightarrow> arrays_declared s \<Longrightarrow> clean_shape s (initializeMazdaLCam L s)"
  unfolding initializeMazdaLCam_def Let_def by (simp add: shape_run)

subsection \<open>\<^verbatim>\<open>trigger_honda.cpp\<close>\<close>

definition configureHondaCbr600 ::
  "libfw \<Rightarrow> trigger_waveform \<Rightarrow> trigger_waveform" where
  "configureHondaCbr600 L s =
     (let s = wf_initialize L FOUR_STROKE_CAM_SENSOR RiseOnly s;
          s = s\<lparr>useOnlyPrimaryForSync := True\<rparr>;
          s = setTriggerSynchronizationGap L 6 s;
          totalTeethCount = (24 :: int);
          skippedCount = (0 :: int);
          s = addSkippedToothTriggerEvents L T_SECONDARY totalTeethCount skippedCount (1 / 2) 0 720 0 349 s;
          s = addEvent720 L 350 False T_PRIMARY s;
          s = addEvent720 L 360 True T_PRIMARY s;
          s = addEvent720 L (360 + 1 / 5) False T_SECONDARY s;
          s = addSkippedToothTriggerEvents L T_SECONDARY totalTeethCount skippedCount (1 / 2) 0 720 361 649 s;
          s = addEvent720 L 650 False T_PRIMARY s;
          s = addEvent720 L 660 True T_PRIMARY s;
          s = addEvent720 L (660 + 1 / 5) False T_SECONDARY s;
          s = addSkippedToothTriggerEvents L T_SECONDARY totalTeethCount skippedCount (1 / 2) 0 720 661 709 s;
          s = addEvent720 L 710 False T_PRIMARY s;
          s = addEvent720 L (720 - 1) False T_SECONDARY s;
          s = addEvent720 L 720 True T_PRIMARY s
      in s)"

lemma clean_configureHondaCbr600:
  "libfw_ok L \<Longrightarrow> arrays_declared s \<Longrightarrow> clean_shape s (configureHondaCbr600 L s)"
  unfolding configureHondaCbr600_def addSkippedToothTriggerEvents_def Let_def by (simp add: shape_run)

definition configureOnePlus16 ::
  "libfw \<Rightarrow> trigger_waveform \<Rightarrow> trigger_waveform" where
  "configureOnePlus16 L s =
     (let s = wf_initialize L FOUR_STROKE_CAM_SENSOR RiseOnly s;
          count = (16 :: int);
          tooth = getCycleDuration s / of_int count;
          width = tooth / 2;
          s = addEventAngle L 1 True T_PRIMARY s;
          s = addEventAngle L 5 False T_PRIMARY s;
          s = fold (\<lambda>i s.
                 let s = addEventAngle L (tooth * of_int i - width) True T_SECONDARY s;
                     s = addEventAngle L (tooth * of_int i) False T_SECONDARY s
                 in s) [1..count] s;
          s = s\<lparr>isSynchronizationNeeded := False\<rparr>
      in s)"

lemma clean_configureOnePlus16:
  "libfw_ok L \<Longrightarrow> arrays_declared s \<Longrightarrow> clean_shape s (configureOnePlus16 L s)"
  unfolding configureOnePlus16_def Let_def by (simp add: shape_run)

definition kseriesTooth ::
  "libfw \<Rightarrow> rat \<Rightarrow> trigger_waveform \<Rightarrow> trigger_waveform" where
  "kseriesTooth L end' s =
     (let s = addEvent360 L (end' - 4) True T_PRIMARY s;
          s = addEvent360 L end' False T_PRIMARY s
      in s)"

definition configureHondaK_12_1 ::
  "libfw \<Rightarrow> trigger_waveform \<Rightarrow> trigger_waveform" where
  "configureHondaK_12_1 L s =
     (let s = wf_initialize L FOUR_STROKE_CRANK_SENSOR RiseOnly s;
          s = setSecondTriggerSynchronizationGap2 L (1 / 5) (7 / 10) s;
          s = setTriggerSynchronizationGap2 L (11 / 10) (12 / 5) s;
          count = (12 :: int);
          tooth = of_int (360 div count);
          s = kseriesTooth L (tooth / 3) s;
          s = fold (\<lambda>i s.
                 kseriesTooth L (tooth * of_int i) s) [1..count] s
      in s)"

lemma clean_configureHondaK_12_1:
  "libfw_ok L \<Longrightarrow> arrays_declared s \<Longrightarrow> clean_shape s (configureHondaK_12_1 L s)"
  unfolding configureHondaK_12_1_def kseriesTooth_def Let_def by (simp add: shape_run)

definition configureHondaK_4_1 ::
  "libfw \<Rightarrow> trigger_waveform \<Rightarrow> trigger_waveform" where
  "configureHondaK_4_1 L s =
     (let s = wf_initialize L FOUR_STROKE_CAM_SENSOR RiseOnly s;
          s = setTriggerSynchronizationGap3 L 0 (Fin (3 / 2)) (Fin (9 / 2)) s;
          s = setTriggerSynchronizationGap3 L 1 (Fin (1 / 10)) (Fin (1 / 2)) s;
          start = (111 / 2 :: rat);
          end' = (141 / 2 :: rat);
          s = addEvent360 L (start + 90 * 0) True T_PRIMARY s;
          s = addEvent360 L (end' + 90 * 0) False T_PRIMARY s;
          s = addEvent360 L (start + 90 * 1) True T_PRIMARY s;
          s = addEvent360 L (end' + 90 * 1) False T_PRIMARY s;
          s = addEvent360 L (start + 90 * 2) True T_PRIMARY s;
          s = addEvent360 L (end' + 90 * 2) False T_PRIMARY s;
          s = addEvent360 L (start + 90 * 3) True T_PRIMARY s;
          s = addEvent360 L (end' + 90 * 3) False T_PRIMARY s;
          s = addEvent360 L 353 True T_PRIMARY s;
          s = addEvent360 L 360 False T_PRIMARY s
      in s)"

lemma clean_configureHondaK_4_1:
  "libfw_ok L \<Longrightarrow> arrays_declared s \<Longrightarrow> clean_shape s (configureHondaK_4_1 L s)"
  unfolding configureHondaK_4_1_def Let_def by (simp add: shape_run)

subsection \<open>\<^verbatim>\<open>trigger_suzuki.cpp\<close>\<close>

definition initializeSuzukiG13B ::
  "libfw \<Rightarrow> trigger_waveform \<Rightarrow> trigger_waveform" where
  "initializeSuzukiG13B L s =
     (let s = wf_initialize L FOUR_STROKE_CAM_SENSOR RiseOnly s;
          w = (5 :: rat);
          specialTooth = (20 :: rat);
          s = addEvent720 L (180 - w) True T_PRIMARY s;
          s = addEvent720 L 180 False T_PRIMARY s;
          s = addEvent720 L (2 * specialTooth + 180 - w) True T_PRIMARY s;
          s = addEvent720 L (2 * specialTooth + 180) False T_PRIMARY s;
          s = addEvent720 L (360 - w) True T_PRIMARY s;
          s = addEvent720 L 360 False T_PRIMARY s;
          s = addEvent720 L (540 - w) True T_PRIMARY s;
          s = addEvent720 L 540 False T_PRIMARY s;
          s = addEvent720 L (720 - w) True T_PRIMARY s;
          s = addEvent720 L 720 False T_PRIMARY s;
          s = setTriggerSynchronizationGap L (11 / 50) s;
          s = setSecondTriggerSynchronizationGap L 1 s
      in s)"

lemma clean_initializeSuzukiG13B:
  "libfw_ok L \<Longrightarrow> arrays_declared s \<Longrightarrow> clean_shape s (initializeSuzukiG13B L s)"
  unfolding initializeSuzukiG13B_def Let_def by (simp add: shape_run)

subsection \<open>\<^verbatim>\<open>trigger_toyota.cpp\<close>\<close>

definition initialize2jzGE3_34_simulation_shape ::
  "libfw \<Rightarrow> trigger_waveform \<Rightarrow> trigger_waveform" where
  "initialize2jzGE3_34_simulation_shape L s =
     (let s = wf_initialize L FOUR_STROKE_CAM_SENSOR Rise s;
          camD = of_int (720 div 6);
          crankDelta = of_int (720 div 36 div 2);
          camAngle = (1 :: rat);
          crankAngle = 2 * crankDelta;
          (crankAngle, s) = fold (\<lambda>i (crankAngle, s).
                 let s = addEvent720 L (crankAngle + 5) True T_SECONDARY s;
                     s = addEvent720 L (crankAngle + crankDelta) False T_SECONDARY s;
                     crankAngle = crankAngle + 10
                 in (crankAngle, s)) [0..9] (crankAngle, s);
          camAngle = camAngle + camD;
          s = addEvent720 L camAngle True T_PRIMARY s;
          s = addEvent720 L (camAngle + 3) False T_PRIMARY s;
          (crankAngle, s) = fold (\<lambda>i (crankAngle, s).
                 let s = addEvent720 L (crankAngle + 5) True T_SECONDARY s;
                     s = addEvent720 L (crankAngle + crankDelta) False T_SECONDARY s;
                     crankAngle = crankAngle + 10
                 in (crankAngle, s)) [0..11] (crankAngle, s);
          camAngle = camAngle + camD;
          (crankAngle, s) = fold (\<lambda>i (crankAngle, s).
                 let s = addEvent720 L (crankAngle + 5) True T_SECONDARY s;
                     s = addEvent720 L (crankAngle + crankDelta) False T_SECONDARY s;
                     crankAngle = crankAngle + crankDelta
                 in (crankAngle, s)) [0..11] (crankAngle, s);
          camAngle = camAngle + camD;
          s = addEvent720 L camAngle True T_PRIMARY s;
          s = addEvent720 L (camAngle + 3) False T_PRIMARY s;
          crankAngle = crankAngle + 20;
          (crankAngle, s) = fold (\<lambda>i (crankAngle, s).
                 let s = addEvent720 L (crankAngle + 5) True T_SECONDARY s;
                     s = addEvent720 L (crankAngle + crankDelta) False T_SECONDARY s;
                     crankAngle = crankAngle + crankDelta
                 in (crankAngle, s)) [0..9] (crankAngle, s);
          camAngle = camAngle + camD;
          (crankAngle, s) = fold (\<lambda>i (crankAngle, s).
                 let s = addEvent720 L (crankAngle + 5) True T_SECONDARY s;
                     s = addEvent720 L (crankAngle + crankDelta) False T_SECONDARY s;
                     crankAngle = crankAngle + crankDelta
                 in (crankAngle, s)) [0..11] (crankAngle, s);
          camAngle = camAngle + camD;
          s = addEvent720 L camAngle True T_PRIMARY s;
          s = addEvent720 L (camAngle + 3) False T_PRIMARY s;
          (crankAngle, s) = fold (\<lambda>i (crankAngle, s).
                 let s = addEvent720 L (crankAngle + 5) True T_SECONDARY s;
                     s = addEvent720 L (crankAngle + crankDelta) False T_SECONDARY s;
                     crankAngle = crankAngle + 10
                 in (crankAngle, s)) [0..11] (crankAngle, s);
          camAngle = camAngle + camD;
          s = s\<lparr>shapeWithoutTdc := True\<rparr>;
          s = s\<lparr>isSynchronizationNeeded := False\<rparr>
      in s)"

lemma clean_initialize2jzGE3_34_simulation_shape:
  "libfw_ok L \<Longrightarrow> arrays_declared s \<Longrightarrow> clean_shape s (initialize2jzGE3_34_simulation_shape L s)"
  unfolding initialize2jzGE3_34_simulation_shape_def Let_def by (simp add: shape_run)

end
