(* ===== verification/Shapes_Nissan.thy ===== *)
theory Shapes_Nissan
  imports Shapes_Universal
begin

text \<open>
  The shapes of Nissan, Mitsubishi and Subaru engines.
  One definition per function of \<^verbatim>\<open>trigger_nissan.cpp\<close>, \<^verbatim>\<open>trigger_mitsubishi.cpp\<close>, \<^verbatim>\<open>trigger_subaru.cpp\<close>
  (\<^verbatim>\<open>controllers/trigger/decoders\<close>), statement by statement, and for each complete shape the
  proof that it is clean (\<open>clean_shape\<close>).
\<close>

subsection \<open>\<^verbatim>\<open>trigger_nissan.cpp\<close>\<close>

definition initializeNissanSR20VE_4 ::
  "libfw \<Rightarrow> trigger_waveform \<Rightarrow> trigger_waveform" where
  "initializeNissanSR20VE_4 L s =
     (let s = wf_initialize L FOUR_STROKE_CAM_SENSOR Both s;
          s = s\<lparr>tdcPosition := 630\<rparr>;
          s = setTriggerSynchronizationGap2 L (967 / 100 * (3 / 4)) 16 s;
          width = (4 :: rat);
          s = addEvent720 L (1 * 180 - 4 * width) True T_PRIMARY s;
          s = addEvent720 L (1 * 180) False T_PRIMARY s;
          s = addEvent720 L (2 * 180 - width) True T_PRIMARY s;
          s = addEvent720 L (2 * 180) False T_PRIMARY s;
          s = addEvent720 L (3 * 180 - width) True T_PRIMARY s;
          s = addEvent720 L (3 * 180) False T_PRIMARY s;
          s = addEvent720 L (4 * 180 - width) True T_PRIMARY s;
          s = addEvent720 L (4 * 180) False T_PRIMARY s
      in s)"

lemma clean_initializeNissanSR20VE_4:
  "libfw_ok L \<Longrightarrow> arrays_declared s \<Longrightarrow> clean_shape s (initializeNissanSR20VE_4 L s)"
  unfolding initializeNissanSR20VE_4_def Let_def by (simp add: shape_run)

definition addPrimaryToothEndingAt ::
  "libfw \<Rightarrow> rat \<Rightarrow> trigger_waveform \<Rightarrow> trigger_waveform" where
  "addPrimaryToothEndingAt L fallAngle s =
     (let vvtWidth = (20 :: int);
          s = addEventAngle L (fallAngle - of_int vvtWidth) True T_PRIMARY s;
          s = addEventAngle L fallAngle False T_PRIMARY s
      in s)"

definition initializeNissanVQvvt ::
  "libfw \<Rightarrow> trigger_waveform \<Rightarrow> trigger_waveform" where
  "initializeNissanVQvvt L s =
     (let s = wf_initialize L FOUR_STROKE_CAM_SENSOR RiseOnly s;
          offset = (720 - 520 :: int);
          s = addPrimaryToothEndingAt L (of_int offset + 40) s;
          s = addPrimaryToothEndingAt L (of_int offset + 160) s;
          s = addPrimaryToothEndingAt L (of_int offset + 200) s;
          s = addPrimaryToothEndingAt L (of_int offset + 280) s;
          s = addPrimaryToothEndingAt L (of_int offset + 320) s;
          s = addPrimaryToothEndingAt L (of_int offset + 520) s;
          s = setTriggerSynchronizationGap2 L 4 6 s;
          s = setSecondTriggerSynchronizationGap2 L (7 / 20) (7 / 10) s
      in s)"

lemma clean_initializeNissanVQvvt:
  "libfw_ok L \<Longrightarrow> arrays_declared s \<Longrightarrow> clean_shape s (initializeNissanVQvvt L s)"
  unfolding initializeNissanVQvvt_def addPrimaryToothEndingAt_def Let_def by (simp add: shape_run)

definition makeNissanPattern ::
  "libfw \<Rightarrow> 32 word \<Rightarrow> 32 word \<Rightarrow> 32 word \<Rightarrow> trigger_waveform \<Rightarrow> trigger_waveform" where
  "makeNissanPattern L halfCylinderCount totalWheel missing s =
     (let toothAngle = 360 / of_nat (unat totalWheel);
          patternTeeth = totalWheel div halfCylinderCount;
          toothCount = patternTeeth - missing;
          currentAngle = of_nat (unat missing) * toothAngle;
          (currentAngle, s) = fold (\<lambda>i (currentAngle, s).
                 let currentAngle = currentAngle + toothAngle;
                     s = addEventAngle L (currentAngle - 5) True T_PRIMARY s;
                     s = addEventAngle L currentAngle False T_PRIMARY s
                 in (currentAngle, s)) [0..<unat toothCount] (currentAngle, s)
      in s)"

definition initializeNissanVQ35crank ::
  "libfw \<Rightarrow> trigger_waveform \<Rightarrow> trigger_waveform" where
  "initializeNissanVQ35crank L s =
     (let s = wf_initialize L FOUR_STROKE_THREE_TIMES_CRANK_SENSOR RiseOnly s;
          s = s\<lparr>tdcPosition := 675\<rparr>;
          s = makeNissanPattern L 3 36 2 s;
          s = setTriggerSynchronizationGap3 L 0 (Fin (1 / 5)) (Fin (1 / 2)) s;
          s = setTriggerSynchronizationGap3 L 1 (Fin 2) (Fin 4) s;
          s = setTriggerSynchronizationGap3 L 2 (Fin (3 / 5)) (Fin (7 / 5)) s
      in s)"

lemma clean_initializeNissanVQ35crank:
  "libfw_ok L \<Longrightarrow> arrays_declared s \<Longrightarrow> clean_shape s (initializeNissanVQ35crank L s)"
  unfolding initializeNissanVQ35crank_def makeNissanPattern_def Let_def by (simp add: shape_run)

definition initializeNissanMR18crank ::
  "libfw \<Rightarrow> trigger_waveform \<Rightarrow> trigger_waveform" where
  "initializeNissanMR18crank L s =
     (let s = wf_initialize L FOUR_STROKE_SYMMETRICAL_CRANK_SENSOR RiseOnly s;
          s = s\<lparr>tdcPosition := 80\<rparr>;
          s = makeNissanPattern L 2 36 2 s;
          s = setTriggerSynchronizationGap L (33 / 100) s
      in s)"

lemma clean_initializeNissanMR18crank:
  "libfw_ok L \<Longrightarrow> arrays_declared s \<Longrightarrow> clean_shape s (initializeNissanMR18crank L s)"
  unfolding initializeNissanMR18crank_def makeNissanPattern_def Let_def by (simp add: shape_run)

definition initializeNissanQR25crank ::
  "libfw \<Rightarrow> trigger_waveform \<Rightarrow> trigger_waveform" where
  "initializeNissanQR25crank L s =
     (let s = wf_initialize L FOUR_STROKE_SYMMETRICAL_CRANK_SENSOR RiseOnly s;
          s = setTriggerSynchronizationGap L (33 / 100) s;
          s = setSecondTriggerSynchronizationGap L 3 s;
          s = s\<lparr>tdcPosition := 585\<rparr>;
          currentAngle = (20 :: rat);
          (currentAngle, s) = fold (\<lambda>i (currentAngle, s).
                 let currentAngle = currentAngle + 10;
                     s = addEventAngle L (currentAngle - 5) True T_PRIMARY s;
                     s = addEventAngle L currentAngle False T_PRIMARY s
                 in (currentAngle, s)) [0..15] (currentAngle, s)
      in s)"

lemma clean_initializeNissanQR25crank:
  "libfw_ok L \<Longrightarrow> arrays_declared s \<Longrightarrow> clean_shape s (initializeNissanQR25crank L s)"
  unfolding initializeNissanQR25crank_def Let_def by (simp add: shape_run)

definition addvq30tooth ::
  "libfw \<Rightarrow> rat \<Rightarrow> trigger_waveform \<Rightarrow> trigger_waveform" where
  "addvq30tooth L angle s =
     (let s = addEvent360 L (angle - 4) True T_PRIMARY s;
          s = addEvent360 L angle False T_PRIMARY s
      in s)"

definition initializeNissanVQ30cam ::
  "libfw \<Rightarrow> trigger_waveform \<Rightarrow> trigger_waveform" where
  "initializeNissanVQ30cam L s =
     (let s = wf_initialize L FOUR_STROKE_CAM_SENSOR RiseOnly s;
          s = s\<lparr>tdcPosition := 120\<rparr>;
          x = (360 + 52 :: int);
          s = addvq30tooth L (of_int x - (360 - 9 * 0)) s;
          s = addvq30tooth L (of_int x - (360 - 9 * 1)) s;
          s = addvq30tooth L (of_int x - (360 - 9 * 2)) s;
          s = addvq30tooth L (of_int x - (252 + 9 * 5)) s;
          s = addvq30tooth L (of_int x - (252 + 9 * 4)) s;
          s = addvq30tooth L (of_int x - (252 + 9 * 3)) s;
          s = addvq30tooth L (of_int x - (252 + 9 * 2)) s;
          s = addvq30tooth L (of_int x - (252 + 9 * 1)) s;
          s = addvq30tooth L (of_int x - (252 + 9 * 0)) s;
          s = addvq30tooth L (of_int x - 236) s;
          s = addvq30tooth L (of_int x - (152 + 9 * 3)) s;
          s = addvq30tooth L (of_int x - (152 + 9 * 2)) s;
          s = addvq30tooth L (of_int x - (152 + 9 * 1)) s;
          s = addvq30tooth L (of_int x - (152 + 9 * 0)) s;
          s = addvq30tooth L (of_int x - (85 + 9 * 4)) s;
          s = addvq30tooth L (of_int x - (85 + 9 * 3)) s;
          s = addvq30tooth L (of_int x - (85 + 9 * 2)) s;
          s = addvq30tooth L (of_int x - (85 + 9 * 1)) s;
          s = addvq30tooth L (of_int x - (85 + 9 * 0)) s;
          s = addvq30tooth L (of_int x - (52 + 9 * 1)) s;
          s = addvq30tooth L (of_int x - (52 + 9 * 0)) s;
          s = setTriggerSynchronizationGap3 L 0 (Fin (289 / 50 * TRIGGER_GAP_DEVIATION_LOW)) (Fin (289 / 50 * TRIGGER_GAP_DEVIATION_HIGH)) s;
          s = setTriggerSynchronizationGap3 L 1 (Fin (19 / 50 * TRIGGER_GAP_DEVIATION_LOW)) (Fin (19 / 50 * TRIGGER_GAP_DEVIATION_HIGH)) s;
          s = setTriggerSynchronizationGap3 L 2 (Fin (267 / 100 * TRIGGER_GAP_DEVIATION_LOW)) (Fin (267 / 100 * TRIGGER_GAP_DEVIATION_HIGH)) s
      in s)"

lemma clean_initializeNissanVQ30cam:
  "libfw_ok L \<Longrightarrow> arrays_declared s \<Longrightarrow> clean_shape s (initializeNissanVQ30cam L s)"
  unfolding initializeNissanVQ30cam_def addvq30tooth_def Let_def by (simp add: shape_run)

definition initializeNissanMRvvt ::
  "libfw \<Rightarrow> trigger_waveform \<Rightarrow> trigger_waveform" where
  "initializeNissanMRvvt L s =
     (let s = wf_initialize L FOUR_STROKE_CAM_SENSOR RiseOnly s;
          s = s\<lparr>tdcPosition := 0\<rparr>;
          x = (73 :: int);
          toothSpacing = (17 :: int);
          s = addvq30tooth L (of_int x + 0) s;
          s = addvq30tooth L (of_int x + 90 + 0 * of_int toothSpacing) s;
          s = addvq30tooth L (of_int x + 90 + 1 * of_int toothSpacing) s;
          s = addvq30tooth L (of_int x + 90 + 2 * of_int toothSpacing) s;
          s = addvq30tooth L (of_int x + 180 + 0 * of_int toothSpacing) s;
          s = addvq30tooth L (of_int x + 180 + 1 * of_int toothSpacing) s;
          s = addvq30tooth L (of_int x + 180 + 2 * of_int toothSpacing) s;
          s = addvq30tooth L (of_int x + 180 + 3 * of_int toothSpacing) s;
          s = addvq30tooth L (of_int x + 270 + 0 * of_int toothSpacing) s;
          s = addvq30tooth L (of_int x + 270 + 1 * of_int toothSpacing) s;
          s = setTriggerSynchronizationGap2 L (19 / 5) 5 s;
          s = setSecondTriggerSynchronizationGap2 L (3 / 10) (11 / 20) s
      in s)"

lemma clean_initializeNissanMRvvt:
  "libfw_ok L \<Longrightarrow> arrays_declared s \<Longrightarrow> clean_shape s (initializeNissanMRvvt L s)"
  unfolding initializeNissanMRvvt_def addvq30tooth_def Let_def by (simp add: shape_run)

subsection \<open>\<^verbatim>\<open>trigger_mitsubishi.cpp\<close>\<close>

definition configureFordAspireTriggerWaveform ::
  "libfw \<Rightarrow> trigger_waveform \<Rightarrow> trigger_waveform" where
  "configureFordAspireTriggerWaveform L s =
     (let s = wf_initialize L FOUR_STROKE_CAM_SENSOR RiseOnly s;
          s = s\<lparr>isSynchronizationNeeded := False\<rparr>;
          s = s\<lparr>isSecondWheelCam := True\<rparr>;
          x = (1219 / 10 :: rat);
          y = (5543 / 50 :: rat);
          s = addEvent720 L (x + y - 180) True T_SECONDARY s;
          s = addEvent720 L x False T_SECONDARY s;
          s = addEvent720 L (x + y) True T_SECONDARY s;
          s = addEvent720 L (x + 180) False T_SECONDARY s;
          s = addEvent720 L 360 True T_PRIMARY s;
          s = addEvent720 L (x + 180 + y) True T_SECONDARY s;
          s = addEvent720 L (x + 360) False T_SECONDARY s;
          s = addEvent720 L (x + 360 + y) True T_SECONDARY s;
          s = addEvent720 L (x + 540) False T_SECONDARY s;
          s = addEvent720 L 720 False T_PRIMARY s
      in s)"

lemma clean_configureFordAspireTriggerWaveform:
  "libfw_ok L \<Longrightarrow> arrays_declared s \<Longrightarrow> clean_shape s (configureFordAspireTriggerWaveform L s)"
  unfolding configureFordAspireTriggerWaveform_def Let_def by (simp add: shape_run)

definition addMitsu93 ::
  "libfw \<Rightarrow> bool \<Rightarrow> trigger_waveform \<Rightarrow> trigger_waveform" where
  "addMitsu93 L addSecondary s =
     (let narrowW = (66 :: rat);
          offset = of_int (if addSecondary then 0 else 120);
          s = addEvent720 L (offset + 60) True T_PRIMARY s;
          s = (if addSecondary
          then addEvent720 L (offset + 180 - narrowW) True T_SECONDARY s
          else s);
          s = addEvent720 L (offset + 146) False T_PRIMARY s;
          s = (if addSecondary
          then addEvent720 L (offset + 180) False T_SECONDARY s
          else s);
          s = (if addSecondary
          then addEvent720 L (offset + 360 - narrowW) True T_SECONDARY s
          else s);
          s = (if addSecondary
          then addEvent720 L (offset + 360) False T_SECONDARY s
          else s);
          s = addEvent720 L (offset + 421) True T_PRIMARY s;
          s = (if addSecondary
          then addEvent720 L (offset + 540 - narrowW) True T_SECONDARY s
          else s);
          s = (if addSecondary
          then addEvent720 L (offset + 540) False T_SECONDARY s
          else s);
          s = addEvent720 L (offset + 600) False T_PRIMARY s;
          s = (if addSecondary
          then addEvent720 L (offset + 720 - narrowW) True T_SECONDARY s
          else s);
          s = (if addSecondary
          then addEvent720 L (offset + 720) False T_SECONDARY s
          else s);
          s = s\<lparr>useOnlyPrimaryForSync := addSecondary\<rparr>
      in s)"

definition initializeMitsubishi4G93 ::
  "libfw \<Rightarrow> trigger_waveform \<Rightarrow> trigger_waveform" where
  "initializeMitsubishi4G93 L s =
     (let s = wf_initialize L FOUR_STROKE_CAM_SENSOR Fall s;
          s = setTriggerSynchronizationGap L (8333 / 5000) s;
          s = addMitsu93 L True s
      in s)"

lemma clean_initializeMitsubishi4G93:
  "libfw_ok L \<Longrightarrow> arrays_declared s \<Longrightarrow> clean_shape s (initializeMitsubishi4G93 L s)"
  unfolding initializeMitsubishi4G93_def addMitsu93_def Let_def by (simp add: shape_run)

definition initializeMitsubishi4g9xCam ::
  "libfw \<Rightarrow> trigger_waveform \<Rightarrow> trigger_waveform" where
  "initializeMitsubishi4g9xCam L s =
     (let s = wf_initialize L FOUR_STROKE_CAM_SENSOR Both s;
          s = setSecondTriggerSynchronizationGap2 L (1 / 5) (4 / 5) s;
          s = setTriggerSynchronizationGap2 L 2 5 s;
          s = addEvent720 L 270 True T_PRIMARY s;
          s = addEvent720 L 450 False T_PRIMARY s;
          s = addEvent720 L 630 True T_PRIMARY s;
          s = addEvent720 L 720 False T_PRIMARY s
      in s)"

lemma clean_initializeMitsubishi4g9xCam:
  "libfw_ok L \<Longrightarrow> arrays_declared s \<Longrightarrow> clean_shape s (initializeMitsubishi4g9xCam L s)"
  unfolding initializeMitsubishi4g9xCam_def Let_def by (simp add: shape_run)

definition initializeMitsubishi4g63Cam ::
  "libfw \<Rightarrow> trigger_waveform \<Rightarrow> trigger_waveform" where
  "initializeMitsubishi4g63Cam L s = initializeMitsubishi4g9xCam L s"

lemma clean_initializeMitsubishi4g63Cam:
  "libfw_ok L \<Longrightarrow> arrays_declared s \<Longrightarrow> clean_shape s (initializeMitsubishi4g63Cam L s)"
  unfolding initializeMitsubishi4g63Cam_def initializeMitsubishi4g9xCam_def Let_def by (simp add: shape_run)

definition initializeMitsubishi4gMess ::
  "libfw \<Rightarrow> trigger_waveform \<Rightarrow> trigger_waveform" where
  "initializeMitsubishi4gMess L s =
     (let s = wf_initialize L FOUR_STROKE_CAM_SENSOR Both s;
          s = setTriggerSynchronizationGap L (16 / 5) s;
          s = addMitsu93 L False s
      in s)"

lemma clean_initializeMitsubishi4gMess:
  "libfw_ok L \<Longrightarrow> arrays_declared s \<Longrightarrow> clean_shape s (initializeMitsubishi4gMess L s)"
  unfolding initializeMitsubishi4gMess_def addMitsu93_def Let_def by (simp add: shape_run)

definition initialize36_2_1_1 ::
  "libfw \<Rightarrow> trigger_waveform \<Rightarrow> trigger_waveform" where
  "initialize36_2_1_1 L s =
     (let s = wf_initialize L FOUR_STROKE_CRANK_SENSOR RiseOnly s;
          s = s\<lparr>tdcPosition := 90\<rparr>;
          totalTeethCount = (36 :: int);
          engineCycle = FOUR_STROKE_ENGINE_CYCLE;
          toothWidth = (1 / 2 :: rat);
          oneTooth = of_int (720 div totalTeethCount);
          offset = (36 - 11 - 12 - 11) * oneTooth;
          s = addSkippedToothTriggerEvents L T_PRIMARY totalTeethCount 0 toothWidth offset engineCycle NO_LEFT_FILTER (offset + 11 * oneTooth + 1) s;
          offset = offset + (11 + 1) * oneTooth;
          s = addSkippedToothTriggerEvents L T_PRIMARY totalTeethCount 0 toothWidth offset engineCycle NO_LEFT_FILTER (offset + 11 * oneTooth + 1) s;
          offset = offset + (11 + 1) * oneTooth;
          s = addSkippedToothTriggerEvents L T_PRIMARY totalTeethCount 0 toothWidth offset engineCycle NO_LEFT_FILTER (offset + 10 * oneTooth + 1) s;
          s = setTriggerSynchronizationGap L 3 s;
          s = setSecondTriggerSynchronizationGap L 1 s
      in s)"

lemma clean_initialize36_2_1_1:
  "libfw_ok L \<Longrightarrow> arrays_declared s \<Longrightarrow> clean_shape s (initialize36_2_1_1 L s)"
  unfolding initialize36_2_1_1_def addSkippedToothTriggerEvents_def Let_def by (simp add: shape_run)

definition initialize36_2_1 ::
  "libfw \<Rightarrow> trigger_waveform \<Rightarrow> trigger_waveform" where
  "initialize36_2_1 L s =
     (let s = wf_initialize L FOUR_STROKE_CRANK_SENSOR RiseOnly s;
          s = s\<lparr>tdcPosition := 90\<rparr>;
          totalTeethCount = (36 :: int);
          engineCycle = FOUR_STROKE_ENGINE_CYCLE;
          toothWidth = (1 / 2 :: rat);
          oneTooth = of_int (720 div totalTeethCount);
          offset = (36 - 16 - 2 - 17) * oneTooth;
          s = addSkippedToothTriggerEvents L T_PRIMARY totalTeethCount 0 toothWidth offset engineCycle NO_LEFT_FILTER (offset + 16 * oneTooth + 1) s;
          offset = offset + (16 + 2) * oneTooth;
          s = addSkippedToothTriggerEvents L T_PRIMARY totalTeethCount 0 toothWidth offset engineCycle NO_LEFT_FILTER (offset + 17 * oneTooth + 1) s;
          s = setTriggerSynchronizationGap L 3 s;
          s = setSecondTriggerSynchronizationGap L 1 s
      in s)"

lemma clean_initialize36_2_1:
  "libfw_ok L \<Longrightarrow> arrays_declared s \<Longrightarrow> clean_shape s (initialize36_2_1 L s)"
  unfolding initialize36_2_1_def addSkippedToothTriggerEvents_def Let_def by (simp add: shape_run)

definition initializeVvt3A92 ::
  "libfw \<Rightarrow> trigger_waveform \<Rightarrow> trigger_waveform" where
  "initializeVvt3A92 L s =
     (let s = wf_initialize L FOUR_STROKE_CRANK_SENSOR RiseOnly s;
          w = (5 :: int);
          s = addEvent360 L (120 - of_int w) True T_PRIMARY s;
          s = addEvent360 L 120 False T_PRIMARY s;
          s = addEvent360 L (12 + 120 - of_int w) True T_PRIMARY s;
          s = addEvent360 L (12 + 120) False T_PRIMARY s;
          s = addEvent360 L (240 - of_int w) True T_PRIMARY s;
          s = addEvent360 L 240 False T_PRIMARY s;
          s = addEvent360 L (360 - of_int w) True T_PRIMARY s;
          s = addEvent360 L 360 False T_PRIMARY s;
          s = setTriggerSynchronizationGap L 9 s;
          s = setSecondTriggerSynchronizationGap L (11 / 100) s
      in s)"

lemma clean_initializeVvt3A92:
  "libfw_ok L \<Longrightarrow> arrays_declared s \<Longrightarrow> clean_shape s (initializeVvt3A92 L s)"
  unfolding initializeVvt3A92_def Let_def by (simp add: shape_run)

subsection \<open>\<^verbatim>\<open>trigger_subaru.cpp\<close>\<close>

definition initialize_one_of_36_2_2_2 ::
  "libfw \<Rightarrow> int \<Rightarrow> int \<Rightarrow> bool \<Rightarrow> trigger_waveform \<Rightarrow> trigger_waveform" where
  "initialize_one_of_36_2_2_2 L firstCount secondCount knownOperationModeHack s =
     (let s = wf_initialize L FOUR_STROKE_CRANK_SENSOR RiseOnly s;
          wide = (30 * 2 :: rat);
          narrow = (10 * 2 :: rat);
          base = (0 :: rat);
          (base, s) = fold (\<lambda>i (base, s).
                 let s = addEvent720 L (base + narrow / 2) False T_PRIMARY s;
                     s = addEvent720 L (base + narrow) True T_PRIMARY s;
                     base = base + narrow
                 in (base, s)) [0..firstCount - 1] (base, s);
          s = addEvent720 L (base + wide / 2) False T_PRIMARY s;
          s = addEvent720 L (base + wide) True T_PRIMARY s;
          base = base + wide;
          (base, s) = fold (\<lambda>i (base, s).
                 let s = addEvent720 L (base + narrow / 2) False T_PRIMARY s;
                     s = addEvent720 L (base + narrow) True T_PRIMARY s;
                     base = base + narrow
                 in (base, s)) [0..secondCount - 1] (base, s);
          s = addEvent720 L (720 - wide - wide / 2) False T_PRIMARY s;
          s = addEvent720 L (720 - wide) True T_PRIMARY s;
          s = addEvent720 L (720 - wide / 2) False T_PRIMARY s;
          s = addEvent720 L 720 True T_PRIMARY s
      in s)"

definition initialize36_2_2_2 ::
  "libfw \<Rightarrow> trigger_waveform \<Rightarrow> trigger_waveform" where
  "initialize36_2_2_2 L s =
     (let s = initialize_one_of_36_2_2_2 L 12 15 True s;
          s = setTriggerSynchronizationGap L (333 / 1000) s;
          s = setSecondTriggerSynchronizationGap L 1 s;
          s = setThirdTriggerSynchronizationGap L 3 s
      in s)"

lemma clean_initialize36_2_2_2:
  "libfw_ok L \<Longrightarrow> arrays_declared s \<Longrightarrow> clean_shape s (initialize36_2_2_2 L s)"
  unfolding initialize36_2_2_2_def initialize_one_of_36_2_2_2_def Let_def by (simp add: shape_run)

definition initializeSubaruEZ30 ::
  "libfw \<Rightarrow> trigger_waveform \<Rightarrow> trigger_waveform" where
  "initializeSubaruEZ30 L s =
     (let s = initialize_one_of_36_2_2_2 L 18 9 False s;
          s = setTriggerSynchronizationGap3 L 0 (Fin (1 / 4)) (Fin (1 / 2)) s;
          s = setTriggerSynchronizationGap3 L 1 (Fin (7 / 10)) (Fin (3 / 2)) s;
          s = setTriggerSynchronizationGap3 L 2 (Fin 2) (Fin 4) s
      in s)"

lemma clean_initializeSubaruEZ30:
  "libfw_ok L \<Longrightarrow> arrays_declared s \<Longrightarrow> clean_shape s (initializeSubaruEZ30 L s)"
  unfolding initializeSubaruEZ30_def initialize_one_of_36_2_2_2_def Let_def by (simp add: shape_run)

definition initializeSubaru7_6_with ::
  "libfw \<Rightarrow> bool \<Rightarrow> trigger_waveform \<Rightarrow> trigger_waveform" where
  "initializeSubaru7_6_with L withCrankWheel s =
     (let s = wf_initialize L FOUR_STROKE_CAM_SENSOR RiseOnly s;
          s = s\<lparr>tdcPosition := 160 + 360\<rparr>;
          width = (5 :: rat);
          s = addEvent720 L (180 * 0 + 15 - width) True T_PRIMARY s;
          s = addEvent720 L (180 * 0 + 15) False T_PRIMARY s;
          s = (if withCrankWheel
          then let s = addEvent720 L (180 * 0 + 63 - width) True T_SECONDARY s;
              s = addEvent720 L (180 * 0 + 63) False T_SECONDARY s;
              s = addEvent720 L (180 * 0 + 95 - width) True T_SECONDARY s;
              s = addEvent720 L (180 * 0 + 95) False T_SECONDARY s;
              s = addEvent720 L (180 * 0 + 150 - width) True T_SECONDARY s;
              s = addEvent720 L (180 * 0 + 150) False T_SECONDARY s
          in s
          else s);
          s = addEvent720 L (180 * 1 + 0 - width) True T_PRIMARY s;
          s = addEvent720 L (180 * 1 + 0) False T_PRIMARY s;
          s = (if withCrankWheel
          then let s = addEvent720 L (180 * 1 + 63 - width) True T_SECONDARY s;
              s = addEvent720 L (180 * 1 + 63) False T_SECONDARY s;
              s = addEvent720 L (180 * 1 + 95 - width) True T_SECONDARY s;
              s = addEvent720 L (180 * 1 + 95) False T_SECONDARY s;
              s = addEvent720 L (180 * 1 + 150 - width) True T_SECONDARY s;
              s = addEvent720 L (180 * 1 + 150) False T_SECONDARY s
          in s
          else s);
          s = addEvent720 L (180 * 2 + (- 15) - width) True T_PRIMARY s;
          s = addEvent720 L (180 * 2 + (- 15)) False T_PRIMARY s;
          s = addEvent720 L (180 * 2 + 0 - width) True T_PRIMARY s;
          s = addEvent720 L (180 * 2 + 0) False T_PRIMARY s;
          s = addEvent720 L (180 * 2 + 15 - width) True T_PRIMARY s;
          s = addEvent720 L (180 * 2 + 15) False T_PRIMARY s;
          s = (if withCrankWheel
          then let s = addEvent720 L (180 * 2 + 63 - width) True T_SECONDARY s;
              s = addEvent720 L (180 * 2 + 63) False T_SECONDARY s;
              s = addEvent720 L (180 * 2 + 95 - width) True T_SECONDARY s;
              s = addEvent720 L (180 * 2 + 95) False T_SECONDARY s;
              s = addEvent720 L (180 * 2 + 150 - width) True T_SECONDARY s;
              s = addEvent720 L (180 * 2 + 150) False T_SECONDARY s
          in s
          else s);
          s = addEvent720 L (180 * 3 + 0 - width) True T_PRIMARY s;
          s = addEvent720 L (180 * 3 + 0) False T_PRIMARY s;
          s = (if withCrankWheel
          then let s = addEvent720 L (180 * 3 + 63 - width) True T_SECONDARY s;
              s = addEvent720 L (180 * 3 + 63) False T_SECONDARY s;
              s = addEvent720 L (180 * 3 + 95 - width) True T_SECONDARY s;
              s = addEvent720 L (180 * 3 + 95) False T_SECONDARY s;
              s = addEvent720 L (180 * 3 + 150 - width) True T_SECONDARY s;
              s = addEvent720 L (180 * 3 + 150) False T_SECONDARY s
          in s
          else s);
          s = addEvent720 L (180 * 4 + 0 - width) True T_PRIMARY s;
          s = addEvent720 L (180 * 4 + 0) False T_PRIMARY s;
          s = setTriggerSynchronizationGap2 L (653 / 100 * TRIGGER_GAP_DEVIATION_LOW) (52 / 5 * TRIGGER_GAP_DEVIATION_HIGH) s;
          s = setTriggerSynchronizationGap3 L 1 (Fin (4 / 5 * TRIGGER_GAP_DEVIATION_LOW)) (Fin (1 * TRIGGER_GAP_DEVIATION_HIGH)) s;
          s = s\<lparr>useOnlyPrimaryForSync := withCrankWheel\<rparr>
      in s)"

definition initializeSubaruOnly7 ::
  "libfw \<Rightarrow> trigger_waveform \<Rightarrow> trigger_waveform" where
  "initializeSubaruOnly7 L s = initializeSubaru7_6_with L False s"

lemma clean_initializeSubaruOnly7:
  "libfw_ok L \<Longrightarrow> arrays_declared s \<Longrightarrow> clean_shape s (initializeSubaruOnly7 L s)"
  unfolding initializeSubaruOnly7_def initializeSubaru7_6_with_def Let_def by (simp add: shape_run)

definition initializeSubaru7_6 ::
  "libfw \<Rightarrow> trigger_waveform \<Rightarrow> trigger_waveform" where
  "initializeSubaru7_6 L s = initializeSubaru7_6_with L True s"

lemma clean_initializeSubaru7_6:
  "libfw_ok L \<Longrightarrow> arrays_declared s \<Longrightarrow> clean_shape s (initializeSubaru7_6 L s)"
  unfolding initializeSubaru7_6_def initializeSubaru7_6_with_def Let_def by (simp add: shape_run)

definition initializeSubaru_SVX ::
  "libfw \<Rightarrow> trigger_waveform \<Rightarrow> trigger_waveform" where
  "initializeSubaru_SVX L s =
     (let width = (5 :: rat);
          offset = (10 :: rat);
          cam_offset = (10 + 30 + 30 + 30 - 90 :: rat);
          s = wf_initialize L FOUR_STROKE_CAM_SENSOR Fall s;
          s = s\<lparr>isSynchronizationNeeded := False\<rparr>;
          s = s\<lparr>useOnlyPrimaryForSync := True\<rparr>;
          n = (0 :: int);
          s = addEventAngle L (20 + 30 * of_int n + offset - width) True T_SECONDARY s;
          s = addEventAngle L (20 + 30 * of_int n + offset) False T_SECONDARY s;
          n = n + 1;
          s = addEventAngle L (20 + 30 * of_int n + offset - width) True T_SECONDARY s;
          s = addEventAngle L (20 + 30 * of_int n + offset) False T_SECONDARY s;
          n = n + 1;
          s = addEventAngle L (20 + 30 * of_int n + offset - width) True T_SECONDARY s;
          s = addEventAngle L (20 + 30 * of_int n + offset) False T_SECONDARY s;
          n = n + 1;
          s = addEventAngle L (20 + 30 * of_int n + offset - width) True T_SECONDARY s;
          s = addEventAngle L (20 + 30 * of_int n + offset) False T_SECONDARY s;
          n = n + 1;
          s = addEventAngle L (20 + 30 * of_int n + offset - width) True T_SECONDARY s;
          s = addEventAngle L (20 + 30 * of_int n + offset) False T_SECONDARY s;
          s = addEvent720 L (20 + offset + 30 * of_int n - width + cam_offset) True T_PRIMARY s;
          s = addEvent720 L (20 + offset + 30 * of_int n + cam_offset) False T_PRIMARY s;
          n = n + 1;
          s = addEventAngle L (20 + 30 * of_int n + offset - width) True T_SECONDARY s;
          s = addEventAngle L (20 + 30 * of_int n + offset) False T_SECONDARY s;
          n = n + 1;
          s = addEventAngle L (20 + 30 * of_int n + offset - width) True T_SECONDARY s;
          s = addEventAngle L (20 + 30 * of_int n + offset) False T_SECONDARY s;
          n = n + 1;
          s = addEventAngle L (20 + 30 * of_int n + offset - width) True T_SECONDARY s;
          s = addEventAngle L (20 + 30 * of_int n + offset) False T_SECONDARY s;
          n = n + 1;
          s = addEventAngle L (20 + 30 * of_int n + offset - width) True T_SECONDARY s;
          s = addEventAngle L (20 + 30 * of_int n + offset) False T_SECONDARY s;
          n = n + 1;
          s = addEventAngle L (20 + 30 * of_int n + offset - width) True T_SECONDARY s;
          s = addEventAngle L (20 + 30 * of_int n + offset) False T_SECONDARY s;
          n = n + 1;
          s = addEventAngle L (20 + 30 * of_int n + offset - width) True T_SECONDARY s;
          s = addEventAngle L (20 + 30 * of_int n + offset) False T_SECONDARY s;
          n = n + 1;
          s = addEventAngle L (20 + 30 * of_int n + offset - width) True T_SECONDARY s;
          s = addEventAngle L (20 + 30 * of_int n + offset) False T_SECONDARY s;
          n = n + 1;
          s = addEventAngle L (20 + 30 * of_int n + offset - width) True T_SECONDARY s;
          s = addEventAngle L (20 + 30 * of_int n + offset) False T_SECONDARY s;
          n = n + 1;
          s = addEventAngle L (20 + 30 * of_int n + offset - width) True T_SECONDARY s;
          s = addEventAngle L (20 + 30 * of_int n + offset) False T_SECONDARY s;
          n = n + 1;
          s = addEventAngle L (20 + 30 * of_int n + offset - width) True T_SECONDARY s;
          s = addEventAngle L (20 + 30 * of_int n + offset) False T_SECONDARY s;
          n = n + 1;
          s = addEventAngle L (20 + 30 * of_int n + offset - width) True T_SECONDARY s;
          s = addEventAngle L (20 + 30 * of_int n + offset) False T_SECONDARY s;
          n = n + 1;
          s = addEventAngle L (20 + 30 * of_int n + offset - width) True T_SECONDARY s;
          s = addEventAngle L (20 + 30 * of_int n + offset) False T_SECONDARY s;
          n = n + 1;
          s = addEventAngle L (20 + 30 * of_int n + offset - width) True T_SECONDARY s;
          s = addEventAngle L (20 + 30 * of_int n + offset) False T_SECONDARY s;
          n = n + 1;
          s = addEventAngle L (20 + 30 * of_int n + offset - width) True T_SECONDARY s;
          s = addEventAngle L (20 + 30 * of_int n + offset) False T_SECONDARY s;
          n = n + 1;
          s = addEventAngle L (20 + 30 * of_int n + offset - width) True T_SECONDARY s;
          s = addEventAngle L (20 + 30 * of_int n + offset) False T_SECONDARY s;
          n = n + 1;
          s = addEventAngle L (20 + 30 * of_int n + offset - width) True T_SECONDARY s;
          s = addEventAngle L (20 + 30 * of_int n + offset) False T_SECONDARY s;
          n = n + 1;
          s = addEventAngle L (20 + 30 * of_int n + offset - width) True T_SECONDARY s;
          s = addEventAngle L (20 + 30 * of_int n + offset) False T_SECONDARY s;
          n = n + 1;
          s = addEventAngle L (20 + 30 * of_int n + offset - width) True T_SECONDARY s;
          s = addEventAngle L (20 + 30 * of_int n + offset) False T_SECONDARY s;
          n = n + 1;
          s = addEventAngle L (20 + 30 * of_int n + offset - width) True T_SECONDARY s;
          s = addEventAngle L (20 + 30 * of_int n + offset) False T_SECONDARY s;
          s = s\<lparr>tdcPosition := 720 - 30\<rparr>
      in s)"

lemma clean_initializeSubaru_SVX:
  "libfw_ok L \<Longrightarrow> arrays_declared s \<Longrightarrow> clean_shape s (initializeSubaru_SVX L s)"
  unfolding initializeSubaru_SVX_def Let_def by (simp add: shape_run)

end
