(* ===== verification/Trigger_Shapes.thy ===== *)
theory Trigger_Shapes
  imports Trigger_Types Toothed_Wheel Shapes_Europe Shapes_Chrysler Shapes_Mazda Shapes_Nissan
begin

text \<open>
  The selection of a trigger shape, \<^verbatim>\<open>initializeTriggerWaveform\<close>
  (\<^verbatim>\<open>trigger_structure.cpp\<close>), with the theorems over all trigger types.
\<close>

subsection \<open>The dispatch on the trigger type\<close>

text \<open>The switch of \<^verbatim>\<open>initializeTriggerWaveform\<close>, with the two custom tooth counts of
  \<^verbatim>\<open>triggerConfig.TriggerType\<close>.\<close>

definition initialize_shape ::
  "libfw \<Rightarrow> operation_mode_e \<Rightarrow> trigger_type_e \<Rightarrow> int \<Rightarrow> int \<Rightarrow> trigger_waveform \<Rightarrow> trigger_waveform" where
  "initialize_shape L triggerOperationMode type customTotalToothCount customSkippedToothCount s =
     (case type of
        TT_TOOTHED_WHEEL \<Rightarrow> initializeSkippedToothTrigger L customTotalToothCount customSkippedToothCount triggerOperationMode RiseOnly s
      | TT_MAZDA_MIATA_NA \<Rightarrow> initializeMazdaMiataNaShape L s
      | TT_MITSUBISHI_MESS \<Rightarrow> initializeMitsubishi4gMess L s
      | TT_MAZDA_MIATA_VVT_TEST \<Rightarrow> initializeMazdaMiataVVtTestShape L s
      | TT_SUZUKI_G13B \<Rightarrow> initializeSuzukiG13B L s
      | TT_FORD_TFI_PIP \<Rightarrow> configureFordPip L s
      | TT_FORD_ST170 \<Rightarrow> configureFordST170 L s
      | TT_VVT_MIATA_NB \<Rightarrow> initializeMazdaMiataVVtCamShape L s
      | TT_VVT_MIATA_NA \<Rightarrow> initializeMazdaMiataNaCamShape L s
      | TT_RENIX_66_2_2_2 \<Rightarrow> initializeRenix66_2_2 L s
      | TT_RENIX_44_2_2 \<Rightarrow> initializeRenix44_2_2 L s
      | TT_MIATA_VVT \<Rightarrow> initializeMazdaMiataNb2Crank L s
      | TT_DODGE_NEON_1995 \<Rightarrow> configureNeon1995TriggerWaveformOnlyCrank L s
      | TT_DODGE_NEON_1995_ONLY_CRANK \<Rightarrow> configureNeon1995TriggerWaveformOnlyCrank L s
      | TT_DODGE_STRATUS \<Rightarrow> configureDodgeStratusTriggerWaveform L s
      | TT_DODGE_NEON_2003_CAM \<Rightarrow> configureNeon2003TriggerWaveformCam L s
      | TT_DODGE_NEON_2003_CRANK \<Rightarrow> configureNeon2003TriggerWaveformCam L s
      | TT_FORD_ASPIRE \<Rightarrow> configureFordAspireTriggerWaveform L s
      | TT_VVT_NISSAN_VQ35 \<Rightarrow> initializeNissanVQvvt L s
      | TT_VVT_MITSUBISHI_3A92 \<Rightarrow> initializeVvt3A92 L s
      | TT_VVT_TOYOTA_4_1 \<Rightarrow> 
          (let s = initializeSkippedToothTrigger L 4 1 triggerOperationMode RiseOnly s;
               s = setTriggerSynchronizationGap3 L 0 (Fin (8 / 5)) (Fin (12 / 5)) s;
               s = setTriggerSynchronizationGap3 L 1 (Fin (3 / 4)) (Fin (5 / 4)) s
           in s)
      | TT_VVT_MITSUBISHI_6G75 \<Rightarrow> initializeNissanQR25crank L s
      | TT_NISSAN_QR25 \<Rightarrow> initializeNissanQR25crank L s
      | TT_NISSAN_VQ30 \<Rightarrow> initializeNissanVQ30cam L s
      | TT_NISSAN_VQ35 \<Rightarrow> initializeNissanVQ35crank L s
      | TT_NISSAN_MR18_CRANK \<Rightarrow> initializeNissanMR18crank L s
      | TT_NISSAN_MR18_CAM_VVT \<Rightarrow> initializeNissanMRvvt L s
      | TT_KAWA_KX450F \<Rightarrow> configureKawaKX450F L s
      | TT_SKODA_FAVORIT \<Rightarrow> setSkodaFavorit L s
      | TT_GM_60_2_2_2 \<Rightarrow> configureGm60_2_2_2 L s
      | TT_GM_7X \<Rightarrow> configureGmTriggerWaveform L s
      | TT_MAZDA_DOHC_1_4 \<Rightarrow> configureMazdaProtegeLx L s
      | TT_ONE_PLUS_ONE \<Rightarrow> configureOnePlusOne L s
      | TT_3_1_CAM \<Rightarrow> configure3_1_cam L s
      | TT_MERCEDES_2_SEGMENT \<Rightarrow> setMercedesTwoSegment L s
      | TT_ONE \<Rightarrow> initializeSkippedToothTrigger L 1 0 triggerOperationMode Rise s
      | TT_UNUSED_17 \<Rightarrow> initializeSkippedToothTrigger L 1 0 triggerOperationMode Rise s
      | TT_MAZDA_SOHC_4 \<Rightarrow> configureMazdaProtegeSOHC L s
      | TT_DAIHATSU \<Rightarrow> configureDaihatsu4 L s
      | TT_36_2_1_1 \<Rightarrow> initialize36_2_1_1 L s
      | TT_36_2_1 \<Rightarrow> initialize36_2_1 L s
      | TT_TOOTHED_WHEEL_32_2 \<Rightarrow> 
          (let s = initializeSkippedToothTrigger L 32 2 triggerOperationMode RiseOnly s;
               s = setThirdTriggerSynchronizationGap L 1 s
           in s)
      | TT_TOOTHED_WHEEL_60_2 \<Rightarrow> initializeSkippedToothTrigger L 60 2 triggerOperationMode RiseOnly s
      | TT_TOOTHED_WHEEL_36_2 \<Rightarrow> 
          (let s = initializeSkippedToothTrigger L 36 2 triggerOperationMode RiseOnly s;
               s = setTriggerSynchronizationGap3 L 0 (Fin (8 / 5)) (Fin (9 / 2)) s;
               s = setTriggerSynchronizationGap3 L 1 (Fin (3 / 5)) (Fin (3 / 2)) s;
               s = setTriggerSynchronizationGap3 L 2 (Fin (3 / 5)) (Fin (3 / 2)) s
           in s)
      | TT_60_2_VW \<Rightarrow> setVwConfiguration L s
      | TT_TOOTHED_WHEEL_36_1 \<Rightarrow> initializeSkippedToothTrigger L 36 1 triggerOperationMode RiseOnly s
      | TT_VVT_BOSCH_QUICK_START \<Rightarrow> configureQuickStartSenderWheel L s
      | TT_VVT_BARRA_3_PLUS_1 \<Rightarrow> configureBarra3plus1cam L s
      | TT_HONDA_K_CAM_4_1 \<Rightarrow> configureHondaK_4_1 L s
      | TT_HONDA_K_CRANK_12_1 \<Rightarrow> configureHondaK_12_1 L s
      | TT_SUBARU_EZ30 \<Rightarrow> initializeSubaruEZ30 L s
      | TT_VVT_MAZDA_SKYACTIV \<Rightarrow> initializeMazdaSkyactivCam L s
      | TT_VVT_MAZDA_L \<Rightarrow> initializeMazdaLCam L s
      | TT_BENELLI_TRE \<Rightarrow> configureBenelli L s
      | TT_MITSU_4G63_CAM \<Rightarrow> initializeMitsubishi4g63Cam L s
      | TT_MITSU_4G9x_CAM \<Rightarrow> initializeMitsubishi4g9xCam L s
      | TT_1_16 \<Rightarrow> configureOnePlus16 L s
      | TT_HONDA_CBR_600 \<Rightarrow> configureHondaCbr600 L s
      | TT_CHRYSLER_NGC_36_2_2 \<Rightarrow> configureChryslerNGC_36_2_2 L s
      | TT_MITSUBISHI_4G93 \<Rightarrow> initializeMitsubishi4G93 L s
      | TT_DODGE_RAM \<Rightarrow> initDodgeRam L s
      | TT_JEEP_4_CYL \<Rightarrow> initJeep_XJ_4cyl_2500 L s
      | TT_JEEP_18_2_2_2 \<Rightarrow> initJeep18_2_2_2 L s
      | TT_SUBARU_7_6 \<Rightarrow> initializeSubaru7_6 L s
      | TT_36_2_2_2 \<Rightarrow> initialize36_2_2_2 L s
      | TT_2JZ_3_34 \<Rightarrow> initialize2jzGE3_34_simulation_shape L s
      | TT_12_TOOTH_CRANK \<Rightarrow> configure12ToothCrank L s
      | TT_NISSAN_SR20VE \<Rightarrow> initializeNissanSR20VE_4 L s
      | TT_ROVER_K \<Rightarrow> initializeRoverK L s
      | TT_FIAT_IAW_P8 \<Rightarrow> configureFiatIAQ_P8 L s
      | TT_TRI_TACH \<Rightarrow> configureTriTach L s
      | TT_GM_24x \<Rightarrow> initGmLS24_5deg L s
      | TT_GM_24x_2 \<Rightarrow> initGmLS24_3deg L s
      | TT_SUBARU_7_WITHOUT_6 \<Rightarrow> initializeSubaruOnly7 L s
      | TT_SUBARU_SVX \<Rightarrow> initializeSubaru_SVX L s
      | TT_SUBARU_SVX_CRANK_1 \<Rightarrow> initializeSubaru_SVX L s
      | TT_SUBARU_SVX_CAM_VVT \<Rightarrow> initializeSubaru_SVX L s
      | _ \<Rightarrow> report (Warning CUSTOM_ERR_NO_SHAPE) (setShapeDefinitionError True s))"

definition initializeTriggerWaveform ::
  "libfw \<Rightarrow> operation_mode_e \<Rightarrow> trigger_type_e \<Rightarrow> int \<Rightarrow> int \<Rightarrow> trigger_waveform \<Rightarrow> trigger_waveform" where
  "initializeTriggerWaveform L triggerOperationMode type customTotalToothCount customSkippedToothCount s =
     (let s = s\<lparr>shapeDefinitionError := False\<rparr>;
          s = initialize_shape L triggerOperationMode type customTotalToothCount customSkippedToothCount s;
          s = calculateExpectedEventCounts s;
          s = s\<lparr>version := version s + 1\<rparr>
      in if \<not> shapeDefinitionError s
         then s\<lparr>wf_log := wf_log s @ checkSwitchTimes (wave s)\<rparr> else s)"

subsection \<open>Every implemented type is clean\<close>

text \<open>The types with a shape of their own; the custom wheel is treated by its tooth counts.\<close>

definition has_shape :: "trigger_type_e \<Rightarrow> bool" where
  "has_shape type = (case type of TT_TOOTHED_WHEEL \<Rightarrow> False | TT_UNUSED \<Rightarrow> False | TT_OTHER n \<Rightarrow> False | _ \<Rightarrow> True)"

lemmas clean_shapes =
  clean_initializeMazdaMiataNaShape
  clean_initializeMitsubishi4gMess
  clean_initializeMazdaMiataVVtTestShape
  clean_initializeSuzukiG13B
  clean_configureFordPip
  clean_configureFordST170
  clean_initializeMazdaMiataVVtCamShape
  clean_initializeMazdaMiataNaCamShape
  clean_initializeRenix66_2_2
  clean_initializeRenix44_2_2
  clean_initializeMazdaMiataNb2Crank
  clean_configureNeon1995TriggerWaveformOnlyCrank
  clean_configureDodgeStratusTriggerWaveform
  clean_configureNeon2003TriggerWaveformCam
  clean_configureFordAspireTriggerWaveform
  clean_initializeNissanVQvvt
  clean_initializeVvt3A92
  clean_initializeNissanQR25crank
  clean_initializeNissanVQ30cam
  clean_initializeNissanVQ35crank
  clean_initializeNissanMR18crank
  clean_initializeNissanMRvvt
  clean_configureKawaKX450F
  clean_setSkodaFavorit
  clean_configureGm60_2_2_2
  clean_configureGmTriggerWaveform
  clean_configureMazdaProtegeLx
  clean_configureOnePlusOne
  clean_configure3_1_cam
  clean_setMercedesTwoSegment
  clean_configureMazdaProtegeSOHC
  clean_configureDaihatsu4
  clean_initialize36_2_1_1
  clean_initialize36_2_1
  clean_setVwConfiguration
  clean_configureQuickStartSenderWheel
  clean_configureBarra3plus1cam
  clean_configureHondaK_4_1
  clean_configureHondaK_12_1
  clean_initializeSubaruEZ30
  clean_initializeMazdaSkyactivCam
  clean_initializeMazdaLCam
  clean_configureBenelli
  clean_initializeMitsubishi4g63Cam
  clean_initializeMitsubishi4g9xCam
  clean_configureOnePlus16
  clean_configureHondaCbr600
  clean_configureChryslerNGC_36_2_2
  clean_initializeMitsubishi4G93
  clean_initDodgeRam
  clean_initJeep_XJ_4cyl_2500
  clean_initJeep18_2_2_2
  clean_initializeSubaru7_6
  clean_initialize36_2_2_2
  clean_initialize2jzGE3_34_simulation_shape
  clean_configure12ToothCrank
  clean_initializeNissanSR20VE_4
  clean_initializeRoverK
  clean_configureFiatIAQ_P8
  clean_configureTriTach
  clean_initGmLS24_5deg
  clean_initGmLS24_3deg
  clean_initializeSubaruOnly7
  clean_initializeSubaru_SVX

text \<open>Wheels to which the dispatcher adds gaps after they are complete.\<close>

lemma clean_initialize_shape_gaps:
  assumes "libfw_ok L" "arrays_declared s" "om \<noteq> OM_NONE"
  shows "clean_shape s (initialize_shape L om TT_VVT_TOYOTA_4_1 n k s)"
    and "clean_shape s (initialize_shape L om TT_TOOTHED_WHEEL_32_2 n k s)"
    and "clean_shape s (initialize_shape L om TT_TOOTHED_WHEEL_36_2 n k s)"
  unfolding initialize_shape_def trigger_type_e.case initializeSkippedToothTrigger_def
    addSkippedToothTriggerEvents_def Let_def
  using assms by (cases "om = TWO_STROKE"; simp add: shape_run)+

lemma clean_initialize_shape:
  assumes "libfw_ok L" "arrays_declared s" "om \<noteq> OM_NONE"
    and "if type = TT_TOOTHED_WHEEL then wheel_fits n k else has_shape type"
  shows "clean_shape s (initialize_shape L om type n k s)"
proof -
  have w: "wheel_fits 1 0" "wheel_fits 60 2" "wheel_fits 36 1"
    by (simp_all add: wheel_fits_def)
  show ?thesis
    using assms(4)
    by (cases type; (simp add: clean_initialize_shape_gaps[OF assms(1-3)]; fail)?;
        simp add: initialize_shape_def has_shape_def clean_shapes[OF assms(1,2)]
          clean_wheel[OF assms(1-3)] w)
qed

subsection \<open>The result of the dispatcher\<close>

text \<open>What the rest of the firmware relies on, read off the waveform after the call.\<close>

definition good_waveform :: "trigger_waveform \<Rightarrow> bool" where
  "good_waveform s \<longleftrightarrow>
     \<not> shapeDefinitionError s \<and> 0 < getSize s \<and> getSize s \<le> PWM_PHASE_MAX_COUNT \<and>
     (\<forall>i < getSize s. 0 < getSwitchTime (wave s) i \<and> getSwitchTime (wave s) i \<le> 1) \<and>
     (\<forall>i. Suc i < getSize s \<longrightarrow> getSwitchTime (wave s) i < getSwitchTime (wave s) (Suc i)) \<and>
     getSwitchTime (wave s) (getSize s - 1) = 1"

definition only_logs :: "trigger_waveform \<Rightarrow> trigger_waveform \<Rightarrow> bool" where
  "only_logs s s' \<longleftrightarrow> (\<exists>l. s' = s\<lparr>wf_log := wf_log s @ l\<rparr>)"

lemma only_logs_refl: "only_logs s s"
  by (auto simp: only_logs_def intro: exI[of _ "[]"])

lemma only_logs_report: "only_logs s s' \<Longrightarrow> only_logs s (report d s')"
  by (auto simp: only_logs_def report_def)

lemma only_logs_if: "only_logs s s' \<Longrightarrow> only_logs s (if c then report d s' else s')"
  by (simp add: only_logs_report)

lemma calculateExpectedEventCounts_changes:
  obtains b s' where "only_logs s s'" "calculateExpectedEventCounts s = s'\<lparr>useOnlyPrimaryForSync := b\<rparr>"
proof -
  define s1 where "s1 = (if \<not> useOnlyRisingEdges s
               then fold (\<lambda>i s. if getExpectedEventCount s i mod 2 \<noteq> 0
                                then report (FirmwareError OBD_PCM_Processor_Fault) s else s)
                         [0..<PWM_PHASE_MAX_WAVE_PER_PWM] s else s)"
  define one where "one = (if useOnlyRisingEdges s1 then getExpectedEventCount s1 0 = 1
             else getExpectedEventCount s1 0 = 2)"
  define s2 where "s2 = (if \<not> shapeWithoutTdc s1 \<and> one \<noteq> (\<not> isSynchronizationNeeded s1)
               then report (FirmwareError OBD_PCM_Processor_Fault) s1 else s1)"
  define s3 where "s3 = (if getExpectedEventCount s2 1 = 0 \<and> useOnlyPrimaryForSync s2
             then report (FirmwareError OBD_PCM_Processor_Fault) s2 else s2)"
  have "only_logs s s1"
    unfolding s1_def upt_channels by (auto intro!: only_logs_report only_logs_refl)
  then have s2: "only_logs s s2"
    unfolding s2_def by (rule only_logs_if)
  then have s3: "only_logs s s3"
    unfolding s3_def by (rule only_logs_if)
  have calc: "calculateExpectedEventCounts s = (if one then s2\<lparr>useOnlyPrimaryForSync := True\<rparr> else s3)"
    unfolding calculateExpectedEventCounts_def s1_def one_def s2_def s3_def Let_def by (rule refl)
  show thesis
  proof (cases one)
    case True
    with calc that[OF s2] show thesis by simp
  next
    case False
    with calc that[OF s3, of "useOnlyPrimaryForSync s3"] show thesis by simp
  qed
qed

lemma calculateExpectedEventCounts_fields [simp]:
  "wave (calculateExpectedEventCounts s) = wave s"
  "shapeDefinitionError (calculateExpectedEventCounts s) = shapeDefinitionError s"
  by (rule calculateExpectedEventCounts_changes[of s]; auto simp: only_logs_def)+

lemma calculateExpectedEventCounts_keeps_log:
  "set (wf_log s) \<subseteq> set (wf_log (calculateExpectedEventCounts s))"
  by (rule calculateExpectedEventCounts_changes[of s]) (auto simp: only_logs_def)

lemma arrays_declared_reset [simp]:
  "arrays_declared (s\<lparr>shapeDefinitionError := b\<rparr>) = arrays_declared s"
  by (simp add: arrays_declared_def)

lemma clean_dispatch:
  assumes "clean_shape (s\<lparr>shapeDefinitionError := False\<rparr>)
             (initialize_shape L om type n k (s\<lparr>shapeDefinitionError := False\<rparr>))"
  shows "good_waveform (initializeTriggerWaveform L om type n k s)"
    and "wf_log (initializeTriggerWaveform L om type n k s) = wf_log s"
  using assms
  by (auto simp: initializeTriggerWaveform_def good_waveform_def clean_shape_def Let_def getSize_def
      wave_inv_def times_ok_def checkSwitchTimes_Nil_iff)

text \<open>The error paths report, set the error flag and leave the stored events.\<close>

lemma refused_dispatch:
  assumes "wf_log s' = wf_log s @ [d]" "shapeDefinitionError s'" "wave s' = wave s"
    and "s' = initialize_shape L om type n k (s\<lparr>shapeDefinitionError := False\<rparr>)"
  shows "shapeDefinitionError (initializeTriggerWaveform L om type n k s) \<and>
    d \<in> set (wf_log (initializeTriggerWaveform L om type n k s)) \<and>
    wave (initializeTriggerWaveform L om type n k s) = wave s"
  using calculateExpectedEventCounts_keeps_log[of s'] assms
  by (auto simp: initializeTriggerWaveform_def Let_def)

text \<open>C12: every trigger type that has a shape of its own gives a good waveform, and nothing is
  reported, for every operation mode and from every earlier state.\<close>

theorem builtin_shapes_good:
  assumes "libfw_ok L" "arrays_declared s" "om \<noteq> OM_NONE" "has_shape type"
  shows "good_waveform (initializeTriggerWaveform L om type n k s) \<and>
    wf_log (initializeTriggerWaveform L om type n k s) = wf_log s"
proof -
  have "type \<noteq> TT_TOOTHED_WHEEL"
    using assms(4) by (auto simp: has_shape_def)
  then show ?thesis
    using assms by (intro conjI clean_dispatch clean_initialize_shape) auto
qed

lemma builtin_shapes_good_witness:
  "good_waveform (initializeTriggerWaveform libfw_example FOUR_STROKE_CAM_SENSOR TT_FORD_ASPIRE 0 0
       blank_waveform) \<and>
   wf_log (initializeTriggerWaveform libfw_example FOUR_STROKE_CAM_SENSOR TT_FORD_ASPIRE 0 0
       blank_waveform) = wf_log blank_waveform"
  by (rule builtin_shapes_good[OF libfw_example_ok arrays_declared_blank])
    (simp_all add: has_shape_def)

text \<open>C13: so does a custom wheel, for every tooth count that fits.\<close>

theorem custom_wheel_good:
  assumes "libfw_ok L" "arrays_declared s" "om \<noteq> OM_NONE" "wheel_fits n k"
  shows "good_waveform (initializeTriggerWaveform L om TT_TOOTHED_WHEEL n k s) \<and>
    wf_log (initializeTriggerWaveform L om TT_TOOTHED_WHEEL n k s) = wf_log s"
  using assms by (intro conjI clean_dispatch clean_initialize_shape) auto

lemma custom_wheel_good_witness:
  "good_waveform (initializeTriggerWaveform libfw_example FOUR_STROKE_CRANK_SENSOR TT_TOOTHED_WHEEL 60 2
       blank_waveform) \<and>
   wf_log (initializeTriggerWaveform libfw_example FOUR_STROKE_CRANK_SENSOR TT_TOOTHED_WHEEL 60 2
       blank_waveform) = wf_log blank_waveform"
  by (rule custom_wheel_good[OF libfw_example_ok arrays_declared_blank])
    (simp_all add: wheel_fits_def)

text \<open>C14: a custom wheel with more than 140 teeth writes past the arrays of the waveform.\<close>

theorem custom_wheel_overflow:
  assumes "libfw_ok L" "arrays_declared s" "om \<noteq> OM_NONE"
    and "0 \<le> k" "k < n" "n < 4000" "140 < n - k"
  shows "OutOfBounds \<in> set (wf_log (initializeTriggerWaveform L om TT_TOOTHED_WHEEL n k s))"
proof -
  let ?s = "initialize_shape L om TT_TOOTHED_WHEEL n k (s\<lparr>shapeDefinitionError := False\<rparr>)"
  have "OutOfBounds \<in> set (wf_log ?s)"
    using assms by (simp add: initialize_shape_def overflow_wheel)
  then show ?thesis
    using calculateExpectedEventCounts_keeps_log[of ?s]
    by (auto simp: initializeTriggerWaveform_def Let_def)
qed

lemma custom_wheel_overflow_witness:
  "OutOfBounds \<in> set (wf_log (initializeTriggerWaveform libfw_example FOUR_STROKE_CRANK_SENSOR
     TT_TOOTHED_WHEEL 180 0 blank_waveform))"
  by (rule custom_wheel_overflow[OF libfw_example_ok arrays_declared_blank]) simp_all

text \<open>A custom wheel without teeth is refused, and the stored events stay.\<close>

theorem custom_wheel_no_teeth:
  assumes "n \<le> 0"
  shows "shapeDefinitionError (initializeTriggerWaveform L om TT_TOOTHED_WHEEL n k s) \<and>
    FirmwareError CUSTOM_OBD_TRIGGER_WAVEFORM
      \<in> set (wf_log (initializeTriggerWaveform L om TT_TOOTHED_WHEEL n k s)) \<and>
    wave (initializeTriggerWaveform L om TT_TOOTHED_WHEEL n k s) = wave s"
  using assms
  by (intro refused_dispatch[OF _ _ _ refl])
    (simp_all add: initialize_shape_def initializeSkippedToothTrigger_def)

lemma custom_wheel_no_teeth_witness:
  "shapeDefinitionError (initializeTriggerWaveform libfw_example FOUR_STROKE_CRANK_SENSOR
      TT_TOOTHED_WHEEL 0 0 blank_waveform)"
  using custom_wheel_no_teeth[of 0 libfw_example FOUR_STROKE_CRANK_SENSOR 0 blank_waveform] by simp

text \<open>A value that is not an implemented type is refused with a warning.\<close>

theorem unknown_type_refused:
  assumes "\<not> has_shape type" "type \<noteq> TT_TOOTHED_WHEEL"
  shows "shapeDefinitionError (initializeTriggerWaveform L om type n k s) \<and>
    Warning CUSTOM_ERR_NO_SHAPE \<in> set (wf_log (initializeTriggerWaveform L om type n k s)) \<and>
    wave (initializeTriggerWaveform L om type n k s) = wave s"
proof -
  have "type = TT_UNUSED \<or> (\<exists>x. type = TT_OTHER x)"
    using assms by (cases type) (auto simp: has_shape_def)
  then show ?thesis
    by (intro refused_dispatch[OF _ _ _ refl]) (auto simp: initialize_shape_def)
qed

lemma unknown_type_refused_witness:
  "shapeDefinitionError (initializeTriggerWaveform libfw_example FOUR_STROKE_CRANK_SENSOR
      (TT_OTHER 99) 0 0 blank_waveform)"
  using unknown_type_refused[of "TT_OTHER 99" libfw_example FOUR_STROKE_CRANK_SENSOR 0 0 blank_waveform]
  by (simp add: has_shape_def)

end
