(* ===== verification/Event_Angles.thy ===== *)
theory Event_Angles
  imports Shape_Library
begin

text \<open>
  The angles of the decoded events: \<^verbatim>\<open>wrapAngle\<close> (\<^verbatim>\<open>trigger_structure.h\<close>),
  \<^verbatim>\<open>TriggerFormDetails::prepareEventAngles\<close> (\<^verbatim>\<open>trigger_decoder.cpp\<close>) and the binary search
  \<^verbatim>\<open>TriggerWaveform::findAngleIndex\<close> (\<^verbatim>\<open>trigger_structure.cpp\<close>). Loops that need not end for
  every input are partial functions with value \<open>None\<close> where they do not return; reading past the
  end of an array is \<open>None\<close> as well.
\<close>

subsection \<open>wrapAngle\<close>

partial_function (option) wrap_up :: "rat \<Rightarrow> rat \<Rightarrow> rat option" where
  "wrap_up engineCycle angle =
     (if angle < 0 then wrap_up engineCycle (angle + engineCycle) else Some angle)"

partial_function (option) wrap_down :: "rat \<Rightarrow> rat \<Rightarrow> rat option" where
  "wrap_down engineCycle angle =
     (if angle \<ge> engineCycle then wrap_down engineCycle (angle - engineCycle) else Some angle)"

declare wrap_up.simps [code] wrap_down.simps [code]

text \<open>\<^verbatim>\<open>assertAngleRange\<close>, as it is when assertions are enabled.\<close>

definition assertAngleRange :: "obd_code \<Rightarrow> rat \<Rightarrow> rat \<times> diag_log" where
  "assertAngleRange code angle =
     (if angle > 10000000 \<or> angle < - 10000000 then (0, [FirmwareError code]) else (angle, []))"

text \<open>A NaN is reported and becomes 0; an infinity is out of range and becomes 0.\<close>

definition wrapAngle :: "rat \<Rightarrow> obd_code \<Rightarrow> xfloat \<Rightarrow> (rat \<times> diag_log) option" where
  "wrapAngle engineCycle code angle =
     (let (a, msgs) = (case angle of
                        NaN \<Rightarrow> (0, [FirmwareError CUSTOM_ERR_ANGLE])
                      | Fin x \<Rightarrow> assertAngleRange code x
                      | _ \<Rightarrow> (0, [FirmwareError code]))
      in case wrap_up engineCycle a of
           None \<Rightarrow> None
         | Some a \<Rightarrow> (case wrap_down engineCycle a of None \<Rightarrow> None | Some a \<Rightarrow> Some (a, msgs)))"

text \<open>The value in [0, engineCycle) that differs by whole cycles.\<close>

definition wrapped :: "rat \<Rightarrow> rat \<Rightarrow> rat" where
  "wrapped c x = x - c * of_int \<lfloor>x / c\<rfloor>"

lemma wrapped_unique:
  assumes "0 < c" "0 \<le> x + of_int k * c" "x + of_int k * c < c"
  shows "wrapped c x = x + of_int k * c"
proof -
  have "\<lfloor>x / c\<rfloor> = - k"
    using assms by (intro floor_unique) (auto simp: field_simps)
  then show ?thesis by (simp add: wrapped_def)
qed

lemma wrapped_bounds: "0 < c \<Longrightarrow> 0 \<le> wrapped c x \<and> wrapped c x < c"
  using floor_divide_lower[of c x] floor_divide_upper[of c x]
  by (auto simp: wrapped_def algebra_simps)

lemma wrapped_in [simp]: "0 \<le> x \<Longrightarrow> x < c \<Longrightarrow> wrapped c x = x"
  using wrapped_unique[of c x 0] by auto

lemma wrap_up_ends:
  assumes "0 < c"
  shows "- (of_nat n * c) \<le> a \<Longrightarrow>
    \<exists>k::int. wrap_up c a = Some (a + of_int k * c) \<and> 0 \<le> a + of_int k * c \<and>
      (k = 0 \<or> a + of_int k * c < c)"
proof (induction n arbitrary: a)
  case 0
  then show ?case
    by (intro exI[of _ 0]) (subst wrap_up.simps, auto)
next
  case (Suc n)
  show ?case
  proof (cases "a < 0")
    case True
    from Suc.prems have "- (of_nat n * c) \<le> a + c"
      by (simp add: algebra_simps)
    from Suc.IH[OF this] obtain k :: int where k:
      "wrap_up c (a + c) = Some (a + c + of_int k * c)" "0 \<le> a + c + of_int k * c"
      "k = 0 \<or> a + c + of_int k * c < c"
      by auto
    then show ?thesis
      using True by (intro exI[of _ "k + 1"]) (subst wrap_up.simps, auto simp: algebra_simps)
  next
    case False
    then show ?thesis
      by (intro exI[of _ 0]) (subst wrap_up.simps, auto)
  qed
qed

lemma wrap_down_ends:
  assumes "0 < c"
  shows "0 \<le> a \<Longrightarrow> a < (of_nat n + 1) * c \<Longrightarrow>
    \<exists>k::int. wrap_down c a = Some (a + of_int k * c) \<and> 0 \<le> a + of_int k * c \<and>
      a + of_int k * c < c"
proof (induction n arbitrary: a)
  case 0
  then show ?case
    by (intro exI[of _ 0]) (subst wrap_down.simps, auto)
next
  case (Suc n)
  show ?case
  proof (cases "a \<ge> c")
    case True
    with Suc.prems have "0 \<le> a - c" "a - c < (of_nat n + 1) * c"
      by (simp_all add: algebra_simps)
    from Suc.IH[OF this] obtain k :: int where
      "wrap_down c (a - c) = Some (a - c + of_int k * c)" "0 \<le> a - c + of_int k * c"
      "a - c + of_int k * c < c"
      by auto
    then show ?thesis
      using True by (intro exI[of _ "k - 1"]) (subst wrap_down.simps, auto simp: algebra_simps)
  next
    case False
    then show ?thesis
      using Suc.prems by (intro exI[of _ 0]) (subst wrap_down.simps, auto)
  qed
qed

lemma wraps_end:
  assumes "0 < c"
  shows "(case wrap_up c a of None \<Rightarrow> None | Some b \<Rightarrow> wrap_down c b) = Some (wrapped c a)"
proof -
  obtain n :: nat where "- a / c < of_nat n"
    using reals_Archimedean2 by blast
  then have "- (of_nat n * c) \<le> a"
    using assms by (simp add: field_simps)
  from wrap_up_ends[OF assms this] obtain k :: int where k:
    "wrap_up c a = Some (a + of_int k * c)" "0 \<le> a + of_int k * c"
    by auto
  obtain m :: nat where "(a + of_int k * c) / c < of_nat m"
    using reals_Archimedean2 by blast
  then have "a + of_int k * c < (of_nat m + 1) * c"
    using assms by (simp add: field_simps)
  from wrap_down_ends[OF assms k(2) this] obtain j :: int where j:
    "wrap_down c (a + of_int k * c) = Some (a + of_int k * c + of_int j * c)"
    "0 \<le> a + of_int k * c + of_int j * c" "a + of_int k * c + of_int j * c < c"
    by auto
  then have "wrapped c a = a + of_int (k + j) * c"
    using assms by (intro wrapped_unique) (auto simp: algebra_simps)
  with k j show ?thesis by (simp add: algebra_simps)
qed

lemma wrapAngle_finite:
  assumes "0 < c" "\<bar>x\<bar> \<le> 10000000"
  shows "wrapAngle c code (Fin x) = Some (wrapped c x, [])"
  using wraps_end[OF assms(1), of x] assms(2)
  by (auto simp: wrapAngle_def assertAngleRange_def split: option.splits)

subsection \<open>prepareEventAngles\<close>

definition store_angle :: "rat list \<Rightarrow> nat \<Rightarrow> rat \<Rightarrow> diag_log \<Rightarrow> rat list \<times> diag_log" where
  "store_angle angles i a msgs =
     (if i < length angles then (angles[i := a], msgs) else (angles, msgs @ [OutOfBounds]))"

text \<open>The loop over the events; \<open>riseOnlyIndex\<close> and the array are carried along. A failed assertion
  returns at once, with what is stored so far.\<close>

fun prepare_events ::
  "rat \<Rightarrow> trigger_waveform \<Rightarrow> nat \<Rightarrow> rat \<Rightarrow> nat list \<Rightarrow> rat list \<Rightarrow> nat \<Rightarrow> diag_log \<Rightarrow>
     (rat list \<times> diag_log) option" where
  "prepare_events engineCycle shape synchPoint firstAngle [] angles riseOnlyIndex msgs = Some (angles, msgs)"
| "prepare_events engineCycle shape synchPoint firstAngle (eventIndex # rest) angles riseOnlyIndex msgs =
     (if eventIndex = 0
      then let (angles, msgs) = store_angle angles 0 0 msgs;
               (angles, msgs) = store_angle angles 1 0 msgs
           in prepare_events engineCycle shape synchPoint firstAngle rest angles riseOnlyIndex msgs
      else
        let wrappedIndex = (synchPoint + eventIndex) mod getLength shape;
            triggerDefinitionIndex = wrappedIndex mod getSize shape
        in case getAngle shape wrappedIndex of
             None \<Rightarrow> Some (angles, msgs @ [FirmwareError CUSTOM_ERR_ASSERT, FirmwareError CUSTOM_TRIGGER_CYCLE])
           | Some a \<Rightarrow>
             (case wrapAngle engineCycle CUSTOM_TRIGGER_SYNC_ANGLE_RANGE (Fin (a - firstAngle)) of
                None \<Rightarrow> None
              | Some (angle, l) \<Rightarrow>
                let msgs = msgs @ l in
                if useOnlyRisingEdges shape
                then if \<not> triggerDefinitionIndex < getSize shape
                     then Some (angles, msgs @ [FirmwareError OBD_PCM_Processor_Fault])
                     else if \<not> triggerDefinitionIndex < length (isRiseEvent shape)
                     then Some (angles, msgs @ [FirmwareError OBD_PCM_Processor_Fault])
                     else if isRiseEvent shape ! triggerDefinitionIndex
                     then let riseOnlyIndex = riseOnlyIndex + 2;
                              (angles, msgs) = store_angle angles riseOnlyIndex angle msgs;
                              (angles, msgs) = store_angle angles (riseOnlyIndex + 1) angle msgs
                          in prepare_events engineCycle shape synchPoint firstAngle rest angles riseOnlyIndex msgs
                     else prepare_events engineCycle shape synchPoint firstAngle rest angles riseOnlyIndex msgs
                else let (angles, msgs) = store_angle angles eventIndex angle msgs
                     in prepare_events engineCycle shape synchPoint firstAngle rest angles riseOnlyIndex msgs))"

text \<open>\<open>engineCycleEventCount\<close> is the field of the trigger central that the assertion reads. On an
  empty shape the first angle is a NaN, which no later step looks at.\<close>

definition prepareEventAngles ::
  "rat \<Rightarrow> nat \<Rightarrow> trigger_waveform \<Rightarrow> rat list \<Rightarrow> (rat list \<times> diag_log) option" where
  "prepareEventAngles engineCycle engineCycleEventCount shape angles =
     (case triggerShapeSynchPointIndex shape of
        None \<Rightarrow> Some (angles, [])
      | Some synchPoint \<Rightarrow>
        let (firstAngle, msgs) = (case getAngle shape synchPoint of
                                   None \<Rightarrow> (0, [FirmwareError CUSTOM_ERR_ASSERT])
                                 | Some a \<Rightarrow> assertAngleRange CUSTOM_TRIGGER_SYNC_ANGLE a);
            angles = replicate (length angles) 0
        in if \<not> engineCycleEventCount \<noteq> 0
           then Some (angles, msgs @ [FirmwareError CUSTOM_TRIGGER_CYCLE])
           else prepare_events engineCycle shape synchPoint firstAngle [0..<getLength shape] angles 0 msgs)"

subsection \<open>The position of an event, counted past the end of the engine cycle\<close>

definition event_angle :: "trigger_waveform \<Rightarrow> nat \<Rightarrow> rat" where
  "event_angle s i = getCycleDuration s * of_nat (i div getSize s) + getSwitchAngle s (i mod getSize s)"

text \<open>What the angles need of a shape; every clean shape has it.\<close>

definition has_angles :: "trigger_waveform \<Rightarrow> bool" where
  "has_angles s \<longleftrightarrow> 0 < getSize s \<and> times_ok (wave s)"

definition wheel_cycles :: "trigger_waveform \<Rightarrow> nat" where
  "wheel_cycles s = nat (c_trunc (getEngineCycle (m_operationMode s) / getCycleDuration s))"

lemma getAngle_event_angle: "has_angles s \<Longrightarrow> getAngle s i = Some (event_angle s i)"
  by (simp add: getAngle_def event_angle_def has_angles_def getSize_def Let_def)

lemma getCycleDuration_bounds: "0 < getCycleDuration s" "getCycleDuration s \<le> 720"
  by (cases "m_operationMode s"; simp add: getCycleDuration_def cycle_duration_def)+

lemma engine_cycle_whole:
  "getEngineCycle (m_operationMode s) = of_nat (wheel_cycles s) * getCycleDuration s"
  "0 < wheel_cycles s"
  by (cases "m_operationMode s";
      simp add: getCycleDuration_def cycle_duration_def getEngineCycle_def wheel_cycles_def)+

lemma getLength_cycles: "getLength s = wheel_cycles s * getSize s"
  by (simp add: getLength_def wheel_cycles_def)

lemma getLength_pos: "has_angles s \<Longrightarrow> 0 < getLength s"
  using engine_cycle_whole(2)[of s] by (simp add: getLength_cycles has_angles_def)

lemma event_angle_step:
  assumes "has_angles s"
  shows "event_angle s i < event_angle s (Suc i)"
proof -
  let ?n = "getSize s"
  have n: "0 < ?n" and t: "times_ok (wave s)" and sz: "?n = phaseCount (wave s)"
    using assms by (auto simp: has_angles_def getSize_def)
  have c: "0 < getCycleDuration s" by (rule getCycleDuration_bounds)
  show ?thesis
  proof (cases "Suc (i mod ?n) = ?n")
    case True
    then have "Suc i div ?n = Suc (i div ?n)" "Suc i mod ?n = 0"
      using n by (simp_all add: div_Suc mod_Suc)
    moreover have "getSwitchTime (wave s) (i mod ?n) \<le> 1" "0 < getSwitchTime (wave s) 0"
      using t n sz by (auto simp: times_ok_def)
    moreover from this have
      "getCycleDuration s * getSwitchTime (wave s) (i mod ?n) \<le> getCycleDuration s * 1"
      "0 < getCycleDuration s * getSwitchTime (wave s) 0"
      using c by (simp_all only: mult_left_mono less_imp_le zero_less_mult_iff simp_thms)
    ultimately show ?thesis
      by (simp add: event_angle_def getSwitchAngle_def algebra_simps)
  next
    case False
    then have "Suc i div ?n = i div ?n" "Suc i mod ?n = Suc (i mod ?n)"
      using n by (simp_all add: div_Suc mod_Suc)
    moreover have "Suc (i mod ?n) < ?n"
      using False n by (meson Suc_lessI mod_less_divisor)
    then have "getSwitchTime (wave s) (i mod ?n) < getSwitchTime (wave s) (Suc (i mod ?n))"
      using t sz by (auto simp: times_ok_def)
    ultimately show ?thesis
      using c by (simp add: event_angle_def getSwitchAngle_def)
  qed
qed

lemma event_angle_mono: "has_angles s \<Longrightarrow> i < j \<Longrightarrow> event_angle s i < event_angle s j"
  by (rule lift_Suc_mono_less[of "event_angle s"]) (auto simp: event_angle_step)

lemma event_angle_next_cycle:
  assumes "has_angles s"
  shows "event_angle s (i + getLength s) = event_angle s i + getEngineCycle (m_operationMode s)"
  using assms
  by (simp add: event_angle_def getLength_cycles has_angles_def engine_cycle_whole(1) algebra_simps)

lemma event_angle_first:
  assumes "has_angles s" "i < getSize s"
  shows "0 < event_angle s i" "event_angle s i \<le> 720"
proof -
  have t: "0 < getSwitchTime (wave s) i" "getSwitchTime (wave s) i \<le> 1"
    using assms by (auto simp: has_angles_def times_ok_def getSize_def)
  show "0 < event_angle s i"
    using assms t getCycleDuration_bounds[of s] by (simp add: event_angle_def getSwitchAngle_def)
  have "getCycleDuration s * getSwitchTime (wave s) i \<le> 720 * 1"
    using t getCycleDuration_bounds[of s] by (intro mult_mono) auto
  then show "event_angle s i \<le> 720"
    using assms by (simp add: event_angle_def getSwitchAngle_def)
qed

text \<open>The angle of event \<open>e\<close> after the synchronization point.\<close>

definition sync_angle :: "trigger_waveform \<Rightarrow> nat \<Rightarrow> nat \<Rightarrow> rat" where
  "sync_angle s sp e = event_angle s (sp + e) - event_angle s sp"

lemma sync_angle_simps [simp]: "sync_angle s sp 0 = 0"
  by (simp add: sync_angle_def)

lemma sync_angle_mono: "has_angles s \<Longrightarrow> d < e \<Longrightarrow> sync_angle s sp d < sync_angle s sp e"
  by (simp add: sync_angle_def event_angle_mono)

lemma sync_angle_bounds:
  assumes "has_angles s" "e < getLength s"
  shows "0 \<le> sync_angle s sp e" "sync_angle s sp e < getEngineCycle (m_operationMode s)"
proof -
  show "0 \<le> sync_angle s sp e"
    using sync_angle_mono[OF assms(1), of 0 e sp] by (cases e) auto
  have "sync_angle s sp e < sync_angle s sp (getLength s)"
    by (rule sync_angle_mono[OF assms])
  then show "sync_angle s sp e < getEngineCycle (m_operationMode s)"
    by (simp add: sync_angle_def event_angle_next_cycle[OF assms(1)])
qed

lemma getEngineCycle_bounds: "0 < getEngineCycle om" "getEngineCycle om \<le> 720"
  by (simp_all add: getEngineCycle_def)

lemma wrapped_event:
  assumes "has_angles s" "sp < getSize s" "e < getLength s"
  defines "w \<equiv> (sp + e) mod getLength s"
  shows "wrapAngle (getEngineCycle (m_operationMode s)) code (Fin (event_angle s w - event_angle s sp)) =
    Some (sync_angle s sp e, [])"
proof -
  let ?c = "getEngineCycle (m_operationMode s)"
  note b = sync_angle_bounds[OF assms(1,3), of sp] and c = getEngineCycle_bounds[of "m_operationMode s"]
  have "getSize s \<le> getLength s"
    using engine_cycle_whole(2)[of s] by (simp add: getLength_cycles)
  then have "sp + e < 2 * getLength s"
    using assms(2,3) by linarith
  then consider "w = sp + e" | "sp + e = w + getLength s"
    by (cases "sp + e < getLength s") (auto simp: assms(4) le_mod_geq)
  then show ?thesis
  proof cases
    case 1
    then have "event_angle s w - event_angle s sp = sync_angle s sp e"
      by (simp add: sync_angle_def)
    then show ?thesis
      using b c by (simp add: wrapAngle_finite)
  next
    case 2
    then have d: "event_angle s w - event_angle s sp + ?c = sync_angle s sp e"
      by (simp add: sync_angle_def event_angle_next_cycle[OF assms(1)])
    then have "wrapped ?c (event_angle s w - event_angle s sp) = sync_angle s sp e"
      using b c wrapped_unique[of ?c "event_angle s w - event_angle s sp" 1] by simp
    moreover have "\<bar>event_angle s w - event_angle s sp\<bar> \<le> 10000000"
      using b c d by (simp add: abs_le_iff)
    ultimately show ?thesis
      using c by (simp add: wrapAngle_finite)
  qed
qed

subsection \<open>What prepareEventAngles computes\<close>

primrec write_angles :: "nat \<Rightarrow> rat list \<Rightarrow> rat list \<Rightarrow> rat list" where
  "write_angles p [] xs = xs"
| "write_angles p (a # as) xs = write_angles (p + 1) as (xs[p := a])"

primrec write_pairs :: "nat \<Rightarrow> rat list \<Rightarrow> rat list \<Rightarrow> rat list" where
  "write_pairs p [] xs = xs"
| "write_pairs p (a # as) xs = write_pairs (p + 2) as (xs[p := a, p + 1 := a])"

lemma length_write [simp]:
  "length (write_angles p as xs) = length xs" "length (write_pairs p as xs) = length xs"
  by (induction as arbitrary: p xs) auto

lemma write_angles_below: "i < p \<Longrightarrow> write_angles p as xs ! i = xs ! i"
  by (induction as arbitrary: p xs) auto

lemma write_pairs_below: "i < p \<Longrightarrow> write_pairs p as xs ! i = xs ! i"
  by (induction as arbitrary: p xs) auto

lemma write_angles_above: "p + length as \<le> i \<Longrightarrow> write_angles p as xs ! i = xs ! i"
  by (induction as arbitrary: p xs) auto

lemma write_pairs_above: "p + 2 * length as \<le> i \<Longrightarrow> write_pairs p as xs ! i = xs ! i"
  by (induction as arbitrary: p xs) auto

lemma write_angles_nth:
  "j < length as \<Longrightarrow> p + length as \<le> length xs \<Longrightarrow> write_angles p as xs ! (p + j) = as ! j"
proof (induction as arbitrary: p xs j)
  case (Cons a as)
  then show ?case
    using Cons.IH[of "j - 1" "p + 1" "xs[p := a]"]
    by (cases j) (auto simp: write_angles_below)
qed simp

lemma write_pairs_nth:
  "j < length as \<Longrightarrow> p + 2 * length as \<le> length xs \<Longrightarrow>
     write_pairs p as xs ! (p + 2 * j) = as ! j \<and> write_pairs p as xs ! (p + 2 * j + 1) = as ! j"
proof (induction as arbitrary: p xs j)
  case (Cons a as)
  then show ?case
    using Cons.IH[of "j - 1" "p + 2" "xs[p := a, p + 1 := a]"]
    by (cases j) (auto simp: write_pairs_below)
qed simp

lemma prepare_events_both:
  assumes shape: "has_angles s" "sp < getSize s" and c: "c = getEngineCycle (m_operationMode s)"
    and "\<not> useOnlyRisingEdges s" "0 < m"
  shows "m + k \<le> getLength s \<Longrightarrow> m + k \<le> length xs \<Longrightarrow>
    prepare_events c s sp (event_angle s sp) [m..<m + k] xs ro msgs =
      Some (write_angles m (map (sync_angle s sp) [m..<m + k]) xs, msgs)"
  using assms(5)
proof (induction k arbitrary: m xs)
  case (Suc k)
  have "[m..<m + Suc k] = m # [Suc m..<Suc m + k]"
    by (simp add: upt_conv_Cons)
  then show ?case
    using Suc.prems Suc.IH[of "Suc m" "xs[m := sync_angle s sp m]"] assms(4)
      wrapped_event[OF shape, of m CUSTOM_TRIGGER_SYNC_ANGLE_RANGE]
    by (simp add: getAngle_event_angle[OF shape(1)] c store_angle_def Let_def)
qed simp

lemma prepare_events_rising:
  assumes shape: "has_angles s" "sp < getSize s" and c: "c = getEngineCycle (m_operationMode s)"
    and "useOnlyRisingEdges s" "getSize s \<le> length (isRiseEvent s)"
  shows "\<forall>e \<in> set es. 0 < e \<and> e < getLength s \<Longrightarrow>
    ro + 2 + 2 * length (filter (\<lambda>e. isRiseEvent s ! ((sp + e) mod getLength s mod getSize s)) es) \<le> length xs \<Longrightarrow>
    prepare_events c s sp (event_angle s sp) es xs ro msgs =
      Some (write_pairs (ro + 2) (map (sync_angle s sp)
              (filter (\<lambda>e. isRiseEvent s ! ((sp + e) mod getLength s mod getSize s)) es)) xs, msgs)"
proof (induction es arbitrary: ro xs)
  case (Cons e es)
  have d: "(sp + e) mod getLength s mod getSize s < getSize s"
    using shape by (simp add: has_angles_def)
  then have d2: "(sp + e) mod getLength s mod getSize s < length (isRiseEvent s)"
    using assms(5) by linarith
  show ?case
    using Cons.prems d d2 assms(4) wrapped_event[OF shape, of e CUSTOM_TRIGGER_SYNC_ANGLE_RANGE]
      Cons.IH[of "ro + 2" "xs[ro + 2 := sync_angle s sp e, ro + 3 := sync_angle s sp e]"] Cons.IH[of ro xs]
    by (auto simp: getAngle_event_angle[OF shape(1)] c store_angle_def Let_def numeral_eq_Suc)
qed simp

lemma prepareEventAngles_start:
  assumes "has_angles s" "triggerShapeSynchPointIndex s = Some sp" "sp < getSize s"
    and "count \<noteq> 0" "2 \<le> length xs" "c = getEngineCycle (m_operationMode s)"
  shows "prepareEventAngles c count s xs =
    prepare_events c s sp (event_angle s sp) [1..<getLength s] (replicate (length xs) 0) 0 []"
proof -
  have "assertAngleRange CUSTOM_TRIGGER_SYNC_ANGLE (event_angle s sp) = (event_angle s sp, [])"
    using event_angle_first[OF assms(1,3)] by (simp add: assertAngleRange_def)
  moreover have "[0..<getLength s] = 0 # [1..<getLength s]"
    using getLength_pos[OF assms(1)] by (simp add: upt_conv_Cons)
  moreover have "(replicate (length xs) (0::rat))[0 := 0, 1 := 0] = replicate (length xs) 0"
    using assms(5) by (metis list_update_id nth_replicate Suc_le_lessD numeral_2_eq_2 One_nat_def
        zero_less_Suc less_trans)
  moreover have "xs \<noteq> []" "1 < length xs"
    using assms(5) by auto
  ultimately show ?thesis
    using assms(2,4) by (simp add: prepareEventAngles_def getAngle_event_angle[OF assms(1)]
        store_angle_def Let_def del: upt_Suc)
qed

lemma sync_angle_wrapped:
  assumes "has_angles s" "sp < getSize s" "e < getLength s"
  shows "sync_angle s sp e =
    wrapped (getEngineCycle (m_operationMode s)) (event_angle s ((sp + e) mod getLength s) - event_angle s sp)"
proof -
  let ?x = "event_angle s ((sp + e) mod getLength s) - event_angle s sp"
  have "wrapAngle (getEngineCycle (m_operationMode s)) CUSTOM_ERR_ASSERT (Fin ?x) =
      Some (sync_angle s sp e, [])"
    by (rule wrapped_event[OF assms])
  then have "assertAngleRange CUSTOM_ERR_ASSERT ?x = (?x, [])"
    by (auto simp: wrapAngle_def assertAngleRange_def split: option.splits if_splits)
  then show ?thesis
    using wraps_end[OF getEngineCycle_bounds(1), of "m_operationMode s" ?x]
      wrapped_event[OF assms, of CUSTOM_ERR_ASSERT]
    by (auto simp: wrapAngle_def split: option.splits)
qed

lemma prepared_both_edges:
  assumes "times_ok (wave s)" "0 < getSize s" "\<not> useOnlyRisingEdges s"
    and "triggerShapeSynchPointIndex s = Some sp" "sp < getSize s" "count \<noteq> 0"
    and "getLength s \<le> length xs" "2 \<le> length xs"
  shows "\<exists>ys. prepareEventAngles (getEngineCycle (m_operationMode s)) count s xs = Some (ys, []) \<and>
    length ys = length xs \<and> ys ! 0 = 0 \<and>
    (\<forall>i j. i < j \<and> j < getLength s \<longrightarrow> ys ! i < ys ! j) \<and>
    (\<forall>i < getLength s. ys ! i < getEngineCycle (m_operationMode s) \<and>
       ys ! i = wrapped (getEngineCycle (m_operationMode s))
                  (the (getAngle s ((sp + i) mod getLength s)) - the (getAngle s sp))) \<and>
    (\<forall>i. getLength s \<le> i \<and> i < length xs \<longrightarrow> ys ! i = 0)"
proof -
  have s: "has_angles s"
    using assms(1,2) by (simp add: has_angles_def)
  let ?ys = "write_angles 1 (map (sync_angle s sp) [1..<getLength s]) (replicate (length xs) 0)"
  have nth: "?ys ! i = sync_angle s sp i" if "i < getLength s" for i
  proof (cases i)
    case 0
    moreover have "0 < length xs" using assms(8) by linarith
    ultimately show ?thesis by (simp add: write_angles_below)
  next
    case (Suc j)
    then show ?thesis
      using that assms(7) write_angles_nth[of j "map (sync_angle s sp) [1..<getLength s]" 1
          "replicate (length xs) 0"] by simp
  qed
  have "prepareEventAngles (getEngineCycle (m_operationMode s)) count s xs = Some (?ys, [])"
    using getLength_pos[OF s] assms(7)
      prepare_events_both[OF s assms(5) refl assms(3), where m = 1 and k = "getLength s - 1"
          and xs = "replicate (length xs) 0" and msgs = "[]"]
    by (subst prepareEventAngles_start[OF s assms(4,5,6,8) refl]) simp
  moreover have "?ys ! 0 = 0"
    using nth[OF getLength_pos[OF s]] by simp
  moreover have "\<forall>i j. i < j \<and> j < getLength s \<longrightarrow> ?ys ! i < ?ys ! j"
    by (auto simp: nth sync_angle_mono[OF s] simp del: One_nat_def)
  moreover have "\<forall>i < getLength s. ?ys ! i < getEngineCycle (m_operationMode s)"
    by (simp add: nth sync_angle_bounds[OF s] del: One_nat_def)
  moreover have "\<forall>i < getLength s. ?ys ! i = wrapped (getEngineCycle (m_operationMode s))
      (the (getAngle s ((sp + i) mod getLength s)) - the (getAngle s sp))"
    by (simp add: nth sync_angle_wrapped[OF s assms(5)] getAngle_event_angle[OF s] del: One_nat_def)
  moreover have "\<forall>i. getLength s \<le> i \<and> i < length xs \<longrightarrow> ?ys ! i = 0"
    using getLength_pos[OF s] by (auto simp: write_angles_above)
  ultimately show ?thesis
    by (intro exI[of _ ?ys]) simp
qed

lemma prepared_rising_edges:
  assumes "times_ok (wave s)" "0 < getSize s" "useOnlyRisingEdges s"
    and "triggerShapeSynchPointIndex s = Some sp" "sp < getSize s" "count \<noteq> 0"
    and "getSize s \<le> length (isRiseEvent s)"
    and "rises = filter (\<lambda>e. isRiseEvent s ! ((sp + e) mod getLength s mod getSize s)) [1..<getLength s]"
    and "2 + 2 * length rises \<le> length xs"
  shows "\<exists>ys. prepareEventAngles (getEngineCycle (m_operationMode s)) count s xs = Some (ys, []) \<and>
    length ys = length xs \<and> ys ! 0 = 0 \<and> ys ! 1 = 0 \<and>
    (\<forall>j < length rises. ys ! (2 * j + 2) = ys ! (2 * j + 3) \<and>
       ys ! (2 * j + 2) = wrapped (getEngineCycle (m_operationMode s))
         (the (getAngle s ((sp + rises ! j) mod getLength s)) - the (getAngle s sp))) \<and>
    (\<forall>i j. i < j \<and> j \<le> length rises \<longrightarrow> ys ! (2 * i) < ys ! (2 * j)) \<and>
    (\<forall>i. 2 + 2 * length rises \<le> i \<and> i < length xs \<longrightarrow> ys ! i = 0)"
proof -
  have s: "has_angles s"
    using assms(1,2) by (simp add: has_angles_def)
  let ?as = "map (sync_angle s sp) rises"
  let ?ys = "write_pairs 2 ?as (replicate (length xs) 0)"
  have len: "0 < length xs" "1 < length xs"
    using assms(9) by auto
  have rises: "\<forall>e \<in> set rises. 0 < e \<and> e < getLength s"
    using assms(8) by auto
  have inc: "rises ! i < rises ! j" if "i < j" "j < length rises" for i j
  proof -
    have "sorted_wrt (<) rises"
      unfolding assms(8) by (intro sorted_wrt_filter sorted_wrt_upt)
    with that show ?thesis by (simp add: sorted_wrt_iff_nth_less)
  qed
  have nth: "?ys ! (2 * j + 2) = sync_angle s sp (rises ! j)"
    "?ys ! (2 * j + 3) = sync_angle s sp (rises ! j)" if "j < length rises" for j
    using write_pairs_nth[of j ?as 2 "replicate (length xs) 0"] that assms(9)
    by (simp_all add: add.commute numeral_eq_Suc)
  have zero: "?ys ! 0 = 0" "?ys ! 1 = 0"
    using len by (simp_all add: write_pairs_below)
  have mono: "?ys ! (2 * i) < ?ys ! (2 * j)" if ij: "i < j" "j \<le> length rises" for i j
  proof -
    obtain k where k: "j = Suc k" "k < length rises"
      using ij by (cases j) auto
    show ?thesis
    proof (cases i)
      case 0
      then show ?thesis
        using k nth(1)[of k] zero rises sync_angle_mono[OF s, of 0 "rises ! k" sp] by simp
    next
      case (Suc m)
      then show ?thesis
        using ij k nth(1)[of k] nth(1)[of m] inc[of m k] sync_angle_mono[OF s] by simp
    qed
  qed
  have "prepareEventAngles (getEngineCycle (m_operationMode s)) count s xs = Some (?ys, [])"
    using assms(9) prepare_events_rising[OF s assms(5) refl assms(3,7), where es = "[1..<getLength s]"
        and ro = 0 and xs = "replicate (length xs) 0" and msgs = "[]"] len
    by (subst prepareEventAngles_start[OF s assms(4,5,6) _ refl]) (auto simp: assms(8) numeral_2_eq_2)
  moreover have "\<forall>i. 2 + 2 * length rises \<le> i \<and> i < length xs \<longrightarrow> ?ys ! i = 0"
    by (auto simp: write_pairs_above)
  ultimately show ?thesis
    using nth zero mono rises sync_angle_wrapped[OF s assms(5)]
    by (intro exI[of _ ?ys]) (auto simp: getAngle_event_angle[OF s])
qed

text \<open>C15: the prepared angles are those of the events after the synchronization point, wrapped into the engine
  cycle: of all events, one entry each, for a shape decoded on both edges; of the synchronization point
  and the rises after it, two equal entries each, for a shape decoded on rising edges only. From
  one of these events to the next they increase strictly, from 0; the rest of the array is 0.\<close>

theorem event_angles_after_sync:
  assumes "times_ok (wave s)" "0 < getSize s" "triggerShapeSynchPointIndex s = Some sp" "sp < getSize s" "count \<noteq> 0"
    and "useOnlyRisingEdges s \<Longrightarrow> getSize s \<le> length (isRiseEvent s)"
    and "events = (if useOnlyRisingEdges s
      then 0 # filter (\<lambda>e. isRiseEvent s ! ((sp + e) mod getLength s mod getSize s)) [1..<getLength s] else [0..<getLength s])"
    and "width = (if useOnlyRisingEdges s then 2 else 1)" "width * length events \<le> length xs" "2 \<le> length xs"
  shows "\<exists>ys. prepareEventAngles (getEngineCycle (m_operationMode s)) count s xs = Some (ys, []) \<and>
    length ys = length xs \<and> ys ! 0 = 0 \<and>
    (\<forall>k < length events. \<forall>d < width. ys ! (width * k + d) = wrapped (getEngineCycle (m_operationMode s))
       (the (getAngle s ((sp + events ! k) mod getLength s)) - the (getAngle s sp))) \<and>
    (\<forall>j k. j < k \<and> k < length events \<longrightarrow> ys ! (width * j) < ys ! (width * k)) \<and>
    (\<forall>i. width * length events \<le> i \<and> i < length xs \<longrightarrow> ys ! i = 0)"
proof (cases "useOnlyRisingEdges s")
  case False
  then show ?thesis
    using prepared_both_edges[OF assms(1,2) False assms(3-5) _ assms(10)] assms(7-9) by auto
next
  case True
  define rises where "rises = filter (\<lambda>e. isRiseEvent s ! ((sp + e) mod getLength s mod getSize s)) [1..<getLength s]"
  have ev: "events = 0 # rises" and width: "width = 2" using True assms(7,8) by (simp_all add: rises_def)
  have len: "2 + 2 * length rises \<le> length xs" using assms(9) by (simp add: ev width)
  obtain ys where ys: "prepareEventAngles (getEngineCycle (m_operationMode s)) count s xs = Some (ys, [])"
    "length ys = length xs" "ys ! 0 = 0" "ys ! 1 = 0"
    "\<forall>j < length rises. ys ! (2 * j + 2) = ys ! (2 * j + 3) \<and>
       ys ! (2 * j + 2) = wrapped (getEngineCycle (m_operationMode s))
         (the (getAngle s ((sp + rises ! j) mod getLength s)) - the (getAngle s sp))"
    "\<forall>i j. i < j \<and> j \<le> length rises \<longrightarrow> ys ! (2 * i) < ys ! (2 * j)"
    "\<forall>i. 2 + 2 * length rises \<le> i \<and> i < length xs \<longrightarrow> ys ! i = 0"
    using prepared_rising_edges[OF assms(1,2) True assms(3-5) assms(6)[OF True] rises_def len] by blast
  have "sp < getLength s"
    using assms(4) engine_cycle_whole(2)[of s] by (simp add: getLength_cycles less_le_trans)
  then have first: "wrapped (getEngineCycle (m_operationMode s))
      (the (getAngle s ((sp + 0) mod getLength s)) - the (getAngle s sp)) = 0"
    by (simp add: getEngineCycle_bounds)
  have "ys ! (2 * k + d) = wrapped (getEngineCycle (m_operationMode s))
       (the (getAngle s ((sp + events ! k) mod getLength s)) - the (getAngle s sp))"
    if "k < length events" "d < 2" for k d
  proof (cases k)
    case 0
    then show ?thesis using that(2) ys(3,4) first by (auto simp: ev less_Suc_eq numeral_2_eq_2)
  next
    case (Suc j)
    then have j: "j < length rises" "2 * k + 0 = 2 * j + 2" "2 * k + 1 = 2 * j + 3" using that(1) by (simp_all add: ev)
    note c = ys(5)[rule_format, OF j(1)]
    note at = conjunct2[OF c] and pair = conjunct1[OF c, symmetric]
    from that(2) consider "d = 0" | "d = 1" by linarith
    then have "ys ! (2 * k + d) = ys ! (2 * j + 2)"
      by cases (simp_all only: j(2,3) pair)
    then show ?thesis unfolding at ev Suc nth_Cons_Suc .
  qed
  then show ?thesis
    using ys(1-3,6,7) by (intro exI[of _ ys]) (simp add: width ev less_Suc_eq_le)
qed

text \<open>A shape of two events, decoded on both edges and on rising edges only.\<close>

definition two_event_shape :: trigger_waveform where
  "two_event_shape = blank_waveform\<lparr>wave := (wave blank_waveform)\<lparr>phaseCount := 2, switchTimes := [1/4, 1]\<rparr>,
      isRiseEvent := [True, False], m_operationMode := FOUR_STROKE_CRANK_SENSOR, triggerShapeSynchPointIndex := Some 0\<rparr>"

lemma event_angles_after_sync_witness:
  "(\<exists>ys. prepareEventAngles 720 4 two_event_shape (replicate 560 7) = Some (ys, []) \<and> ys ! 1 < ys ! 2) \<and>
   (\<exists>ys. prepareEventAngles 720 4 (two_event_shape\<lparr>useOnlyRisingEdges := True\<rparr>) (replicate 560 7) = Some (ys, []) \<and>
      ys ! 1 = 0 \<and> 0 < ys ! 2 \<and> ys ! 4 = 0)"
proof
  let ?w = two_event_shape and ?r = "two_event_shape\<lparr>useOnlyRisingEdges := True\<rparr>"
  note D = two_event_shape_def blank_waveform_def times_ok_def getSwitchTime_def getSize_def less_Suc_eq numeral_2_eq_2
  have g: "getLength ?w = 4" "getEngineCycle (m_operationMode ?w) = 720" "getSize ?w = 2"
    "getLength ?r = 4" "getEngineCycle (m_operationMode ?r) = 720" "getSize ?r = 2"
    by (simp_all add: two_event_shape_def blank_waveform_def getLength_def getEngineCycle_def getCycleDuration_def
        cycle_duration_def getSize_def)
  have ev: "[0, 1, 2, 3] = (if useOnlyRisingEdges ?w
      then 0 # filter (\<lambda>e. isRiseEvent ?w ! ((0 + e) mod getLength ?w mod getSize ?w)) [1..<getLength ?w] else [0..<getLength ?w])"
    "[0, 2] = (if useOnlyRisingEdges ?r
      then 0 # filter (\<lambda>e. isRiseEvent ?r ! ((0 + e) mod getLength ?r mod getSize ?r)) [1..<getLength ?r] else [0..<getLength ?r])"
    unfolding g by (simp_all add: two_event_shape_def blank_waveform_def upt_conv_Cons)
  show "\<exists>ys. prepareEventAngles 720 4 ?w (replicate 560 7) = Some (ys, []) \<and> ys ! 1 < ys ! 2"
  proof -
    have "\<exists>ys. prepareEventAngles (getEngineCycle (m_operationMode ?w)) 4 ?w (replicate 560 7) = Some (ys, []) \<and>
      length ys = length (replicate 560 (7::rat)) \<and> ys ! 0 = 0 \<and>
      (\<forall>k < length [0, 1, 2, 3::nat]. \<forall>d < 1. ys ! (1 * k + d) = wrapped (getEngineCycle (m_operationMode ?w))
         (the (getAngle ?w ((0 + [0, 1, 2, 3::nat] ! k) mod getLength ?w)) - the (getAngle ?w 0))) \<and>
      (\<forall>j k. j < k \<and> k < length [0, 1, 2, 3::nat] \<longrightarrow> ys ! (1 * j) < ys ! (1 * k)) \<and>
      (\<forall>i. 1 * length [0, 1, 2, 3::nat] \<le> i \<and> i < length (replicate 560 (7::rat)) \<longrightarrow> ys ! i = 0)"
      by (rule event_angles_after_sync[OF _ _ _ _ _ _ ev(1)]) (auto simp: D)
    then obtain ys where ys: "prepareEventAngles (getEngineCycle (m_operationMode ?w)) 4 ?w (replicate 560 7) = Some (ys, [])"
      "ys ! 0 = 0" "\<forall>j k. j < k \<and> k < length [0, 1, 2, 3::nat] \<longrightarrow> ys ! (1 * j) < ys ! (1 * k)"
      "\<forall>i. 1 * length [0, 1, 2, 3::nat] \<le> i \<and> i < length (replicate 560 (7::rat)) \<longrightarrow> ys ! i = 0"
      "\<forall>k < length [0, 1, 2, 3::nat]. \<forall>d < 1. ys ! (1 * k + d) = wrapped (getEngineCycle (m_operationMode ?w))
         (the (getAngle ?w ((0 + [0, 1, 2, 3::nat] ! k) mod getLength ?w)) - the (getAngle ?w 0))"
      by blast
    show ?thesis
      using ys(3)[rule_format, of 1 2] ys(1) by (auto simp: g)
  qed
  show "\<exists>ys. prepareEventAngles 720 4 ?r (replicate 560 7) = Some (ys, []) \<and> ys ! 1 = 0 \<and> 0 < ys ! 2 \<and> ys ! 4 = 0"
  proof -
    have "\<exists>ys. prepareEventAngles (getEngineCycle (m_operationMode ?r)) 4 ?r (replicate 560 7) = Some (ys, []) \<and>
      length ys = length (replicate 560 (7::rat)) \<and> ys ! 0 = 0 \<and>
      (\<forall>k < length [0, 2::nat]. \<forall>d < 2. ys ! (2 * k + d) = wrapped (getEngineCycle (m_operationMode ?r))
         (the (getAngle ?r ((0 + [0, 2::nat] ! k) mod getLength ?r)) - the (getAngle ?r 0))) \<and>
      (\<forall>j k. j < k \<and> k < length [0, 2::nat] \<longrightarrow> ys ! (2 * j) < ys ! (2 * k)) \<and>
      (\<forall>i. 2 * length [0, 2::nat] \<le> i \<and> i < length (replicate 560 (7::rat)) \<longrightarrow> ys ! i = 0)"
      by (rule event_angles_after_sync[OF _ _ _ _ _ _ ev(2)]) (auto simp: D)
    then obtain ys where ys: "prepareEventAngles (getEngineCycle (m_operationMode ?r)) 4 ?r (replicate 560 7) = Some (ys, [])"
      "ys ! 0 = 0" "\<forall>j k. j < k \<and> k < length [0, 2::nat] \<longrightarrow> ys ! (2 * j) < ys ! (2 * k)"
      "\<forall>i. 2 * length [0, 2::nat] \<le> i \<and> i < length (replicate 560 (7::rat)) \<longrightarrow> ys ! i = 0"
      "\<forall>k < length [0, 2::nat]. \<forall>d < 2. ys ! (2 * k + d) = wrapped (getEngineCycle (m_operationMode ?r))
         (the (getAngle ?r ((0 + [0, 2::nat] ! k) mod getLength ?r)) - the (getAngle ?r 0))"
      by blast
    show ?thesis
      using ys(3)[rule_format, of 0 1] ys(5)[rule_format, of 0 0] ys(5)[rule_format, of 0 1] ys(4)[rule_format, of 4] ys(1,2)
    by (auto simp: g)
  qed
qed

end
