(* ===== verification/Angle_Index.thy ===== *)
theory Angle_Index
  imports Event_Angles
begin

text \<open>
  \<^verbatim>\<open>TriggerWaveform::findAngleIndex\<close> (\<^verbatim>\<open>trigger_structure.cpp\<close>): the binary search for the last
  event at or before an angle, on 32 bit unsigned indices, and its contract.
\<close>

unbundle bit_operations_syntax

text \<open>The do-while loop. Reading past the end of the array is \<open>None\<close>.\<close>

partial_function (option) find_angle_loop ::
  "rat list \<Rightarrow> rat \<Rightarrow> 32 word \<Rightarrow> 32 word \<Rightarrow> 32 word option" where
  "find_angle_loop eventAngles targetAngle left right =
     (let middle = (left + right) div 2 in
      if \<not> unat middle < length eventAngles then None
      else
        let (left, right) = (if eventAngles ! unat middle \<le> targetAngle then (middle + 1, right)
                             else (left, middle - 1))
        in if left \<le> right then find_angle_loop eventAngles targetAngle left right else Some left)"

declare find_angle_loop.simps [code]

definition findAngleIndex ::
  "trigger_waveform \<Rightarrow> rat list \<Rightarrow> rat \<Rightarrow> (16 word \<times> diag_log) option" where
  "findAngleIndex s eventAngles targetAngle =
     (let engineCycleEventCount = getLength s in
      if \<not> (engineCycleEventCount \<noteq> 0 \<and> engineCycleEventCount \<le> 0xFFFF)
      then Some (0, [FirmwareError CUSTOM_ERR_ASSERT])
      else case find_angle_loop eventAngles targetAngle 0 (of_nat engineCycleEventCount - 1) of
             None \<Rightarrow> None
           | Some left \<Rightarrow>
             let left = left - 1;
                 left = (if useOnlyRisingEdges s then left AND NOT 1 else left)
             in Some (ucast left, []))"

lemma unat_small: "n \<le> 0x1FFFF \<Longrightarrow> unat (of_nat n :: 32 word) = n"
  by (simp add: unat_of_nat)

lemma middle_small:
  "l \<le> 0xFFFF \<Longrightarrow> r \<le> 0xFFFF \<Longrightarrow> (of_nat l + of_nat r :: 32 word) div 2 = of_nat ((l + r) div 2)"
  by (intro word_unat_eq_iff[THEN iffD2]) (simp add: unat_div unat_small flip: of_nat_add)

lemma ucast_of_nat_16: "(ucast (of_nat k :: 32 word) :: 16 word) = of_nat k"
  by (rule bit_word_eqI) (auto simp: bit_simps)

lemma find_angle_loop_ok:
  assumes "n \<le> length ea" "n \<le> 0xFFFF" "\<And>i j. i \<le> j \<Longrightarrow> j < n \<Longrightarrow> ea ! i \<le> ea ! j" "ea ! 0 \<le> t"
  shows "l \<le> r \<Longrightarrow> r < n \<Longrightarrow> l = 0 \<or> ea ! (l - 1) \<le> t \<Longrightarrow>
      (\<forall>j. r < j \<and> j < n \<longrightarrow> t < ea ! j) \<Longrightarrow>
    \<exists>k. k < n \<and> find_angle_loop ea t (of_nat l) (of_nat r) = Some (of_nat (Suc k)) \<and>
      ea ! k \<le> t \<and> (\<forall>j. k < j \<and> j < n \<longrightarrow> t < ea ! j)"
proof (induction "r + 1 - l" arbitrary: l r rule: less_induct)
  case less
  define m where "m = (l + r) div 2"
  have m: "l \<le> m" "m \<le> r" "m < n" "m < length ea"
    using less.prems(1,2) assms(1) by (auto simp: m_def)
  have mid: "(of_nat l + of_nat r :: 32 word) div 2 = of_nat m"
    using less.prems(1,2) assms(2) by (simp add: middle_small m_def)
  have un: "unat (of_nat j :: 32 word) = j" if "j \<le> n" for j
    using that assms(2) by (intro unat_small) simp
  have le: "(of_nat i :: 32 word) \<le> of_nat j \<longleftrightarrow> i \<le> j" if "i \<le> n" "j \<le> n" for i j
    using that by (simp add: word_le_nat_alt un)
  show ?case
  proof (cases "ea ! m \<le> t")
    case True
    have loop: "find_angle_loop ea t (of_nat l) (of_nat r) =
        (if Suc m \<le> r then find_angle_loop ea t (of_nat (Suc m)) (of_nat r) else Some (of_nat (Suc m)))"
      using True m less.prems(2) le[of "Suc m" r]
      by (subst find_angle_loop.simps) (simp add: mid un Let_def add.commute)
    show ?thesis
    proof (cases "Suc m \<le> r")
      case True
      with less.hyps[of r "Suc m"] less.prems m \<open>ea ! m \<le> t\<close> loop show ?thesis
        by auto
    next
      case False
      then have "m = r" using m by simp
      with loop False m less.prems(4) True show ?thesis
        by (intro exI[of _ m]) auto
    qed
  next
    case False
    have m0: "m \<noteq> 0"
      using False assms(4) by (metis)
    then have pred: "(of_nat m - 1 :: 32 word) = of_nat (m - 1)"
      by (simp add: of_nat_diff)
    have loop: "find_angle_loop ea t (of_nat l) (of_nat r) =
        (if l \<le> m - 1 then find_angle_loop ea t (of_nat l) (of_nat (m - 1)) else Some (of_nat l))"
      using False m le[of l "m - 1"]
      by (subst find_angle_loop.simps) (simp add: mid un Let_def pred)
    have above: "\<forall>j. m - 1 < j \<and> j < n \<longrightarrow> t < ea ! j"
      using False assms(3)[of m] m0 by (metis Suc_pred' bot_nat_0.not_eq_extremum less_Suc_eq_le
          linorder_not_le not_less_eq order_trans)
    show ?thesis
    proof (cases "l \<le> m - 1")
      case True
      with less.hyps[of "m - 1" l] less.prems(3) m m0 above loop show ?thesis
        by auto
    next
      case False
      then have "m = l" "l \<noteq> 0" using m m0 by auto
      with loop False m less.prems(3) above show ?thesis
        by (intro exI[of _ "l - 1"]) auto
    qed
  qed
qed

lemma findAngleIndex_found:
  assumes "0 < getLength s" "getLength s \<le> 0xFFFF" "getLength s \<le> length ea"
    and "\<And>i j. i \<le> j \<Longrightarrow> j < getLength s \<Longrightarrow> ea ! i \<le> ea ! j" "ea ! 0 \<le> t"
  shows "\<exists>k < getLength s. ea ! k \<le> t \<and> (\<forall>j. k < j \<and> j < getLength s \<longrightarrow> t < ea ! j) \<and>
    findAngleIndex s ea t = Some (of_nat (if useOnlyRisingEdges s then 2 * (k div 2) else k), [])"
proof -
  let ?n = "getLength s"
  obtain k where k: "k < ?n" "find_angle_loop ea t (of_nat 0) (of_nat (?n - 1)) = Some (of_nat (Suc k))"
    "ea ! k \<le> t" "\<forall>j. k < j \<and> j < ?n \<longrightarrow> t < ea ! j"
  proof -
    have "\<forall>j. ?n - 1 < j \<and> j < ?n \<longrightarrow> t < ea ! j"
      by auto
    with find_angle_loop_ok[OF assms(3,2,4,5), of 0 "?n - 1"] assms(1) that show thesis
      by auto
  qed
  have even_part: "(of_nat k :: 32 word) AND NOT 1 = of_nat (2 * (k div 2))"
    by (rule bit_word_eqI)
      (auto simp: bit_simps bit_1_iff bit_double_iff simp flip: bit_Suc)
  show ?thesis
    using k assms(1,2) even_part ucast_of_nat_16[of k] ucast_of_nat_16[of "2 * (k div 2)"]
    by (intro exI[of _ k]) (auto simp: findAngleIndex_def Let_def of_nat_diff)
qed

text \<open>C16: the search finds the last event at or before the angle; with rising edges only the index
  is rounded down to an even one.\<close>

theorem findAngleIndex_last_event:
  assumes "0 < getLength s" "getLength s \<le> 0xFFFF" "getLength s \<le> length ea"
    and "\<And>i j. i \<le> j \<Longrightarrow> j < getLength s \<Longrightarrow> ea ! i \<le> ea ! j" "ea ! 0 \<le> t"
  shows "\<exists>k < getLength s. ea ! k \<le> t \<and> (\<forall>j. k < j \<and> j < getLength s \<longrightarrow> t < ea ! j) \<and>
    findAngleIndex s ea t = Some (of_nat (if useOnlyRisingEdges s then 2 * (k div 2) else k), [])"
  using assms by (rule findAngleIndex_found)

lemma find_angle_loop_before:
  assumes "n \<le> length ea" "n \<le> 0xFFFF" "length ea < 0x7FFFFFFF" "\<forall>i < n. t < ea ! i"
  shows "r < n \<Longrightarrow> find_angle_loop ea t 0 (of_nat r) = None"
proof (induction r rule: less_induct)
  case (less r)
  define m where "m = r div 2"
  have m: "m \<le> r" "m < n" "m < length ea" "r \<le> 0xFFFF"
    using less.prems assms(1,2) by (auto simp: m_def)
  have mid: "(of_nat r :: 32 word) div 2 = of_nat m"
    using middle_small[of 0 r] m by (simp add: m_def)
  have un: "unat (of_nat m :: 32 word) = m"
    using m by (intro unat_small) simp
  have step: "find_angle_loop ea t 0 (of_nat r) = find_angle_loop ea t 0 (of_nat m - 1)"
  proof -
    have "\<not> ea ! m \<le> t"
      using m assms(4) by (simp add: not_le)
    with m show ?thesis
      by (subst find_angle_loop.simps) (simp add: mid un Let_def)
  qed
  show ?case
  proof (cases m)
    case 0
    have "(0 + (- 1) :: 32 word) div 2 = 0x7FFFFFFF"
      by simp
    moreover have "find_angle_loop ea t 0 (- 1) = None"
      using assms(3) by (subst find_angle_loop.simps) simp
    ultimately show ?thesis
      using step 0 by simp
  next
    case (Suc j)
    then have "j < r" "j < n" using m by auto
    with less.IH step Suc show ?thesis by simp
  qed
qed

lemma findAngleIndex_last_event_witness:
  fixes w
  defines "w \<equiv> blank_waveform\<lparr>wave := (wave blank_waveform)\<lparr>phaseCount := 3\<rparr>,
      m_operationMode := FOUR_STROKE_CAM_SENSOR\<rparr>"
  shows "findAngleIndex w [0, 100, 300] 150 = Some (1, [])"
proof -
  have n: "getLength w = 3" "\<not> useOnlyRisingEdges w"
    by (simp_all add: w_def blank_waveform_def getLength_def getEngineCycle_def getCycleDuration_def
        cycle_duration_def getSize_def)
  have "\<exists>k < getLength w. [0, 100, 300 :: rat] ! k \<le> 150 \<and>
      (\<forall>j. k < j \<and> j < getLength w \<longrightarrow> 150 < [0, 100, 300 :: rat] ! j) \<and>
    findAngleIndex w [0, 100, 300] 150 = Some (of_nat (if useOnlyRisingEdges w then 2 * (k div 2) else k), [])"
    by (rule findAngleIndex_last_event)
      (auto simp: n less_Suc_eq numeral_3_eq_3 le_Suc_eq)
  then obtain k where k: "k < 3" "[0, 100, 300 :: rat] ! k \<le> 150"
    "\<forall>j. k < j \<and> j < 3 \<longrightarrow> 150 < [0, 100, 300 :: rat] ! j"
    "findAngleIndex w [0, 100, 300] 150 = Some (of_nat k, [])"
    using n by auto
  have "k \<noteq> 0" using k(3)[rule_format, of 1] by auto
  moreover have "k \<noteq> 2" using k(2) by auto
  ultimately have "k = 1" using k(1) by linarith
  with k(4) show ?thesis by simp
qed

text \<open>For an angle before the first event the upper index wraps around and the search reads past
  the end of the array.\<close>

theorem findAngleIndex_before_first:
  assumes "0 < getLength s" "getLength s \<le> 0xFFFF" "length ea < 0x7FFFFFFF"
    and "getLength s \<le> length ea" "\<forall>i < getLength s. t < ea ! i"
  shows "findAngleIndex s ea t = None"
  using find_angle_loop_before[OF assms(4,2,3,5), of "getLength s - 1"] assms(1,2)
  by (simp add: findAngleIndex_def Let_def)

lemma findAngleIndex_before_first_witness:
  "findAngleIndex (blank_waveform\<lparr>wave := (wave blank_waveform)\<lparr>phaseCount := 2\<rparr>,
      m_operationMode := FOUR_STROKE_CAM_SENSOR\<rparr>) [5, 100] 3 = None"
  by (rule findAngleIndex_before_first)
    (auto simp: blank_waveform_def getLength_def getEngineCycle_def getCycleDuration_def
        cycle_duration_def getSize_def less_Suc_eq numeral_2_eq_2)

end
