(* ===== verification/Timer_Model.thy ===== *)
theory Timer_Model
  imports Fome_Prelude
begin

text \<open>
  \<^verbatim>\<open>util/timer.cpp\<close>: the class \<^verbatim>\<open>Timer\<close>. Its state is the 64 bit tick of the last reset, an
  \<open>int\<close> here (\<open>timer_init\<close> keeps it away from overflow on purpose); the current tick is an
  argument. \<open>US_TO_NT_MULTIPLIER\<close> is the one of the STM32 port.
\<close>

type_synonym efitick_t = int

definition US_TO_NT_MULTIPLIER :: int where "US_TO_NT_MULTIPLIER = 4"

definition NT_PER_SECOND :: int where "NT_PER_SECOND = 1000000 * US_TO_NT_MULTIPLIER"

definition clock32max :: int where "clock32max = 0xFFFFFFFF - 1"

text \<open>\<^verbatim>\<open>INT64_MIN / 8\<close>\<close>

definition timer_init :: efitick_t where
  "timer_init = - (2 ^ 60)"

text \<open>\<^verbatim>\<open>USF2NT\<close> multiplies a float; \<^verbatim>\<open>NT2US\<close> divides an unsigned integer, so it truncates.\<close>

definition USF2NT :: "rat \<Rightarrow> rat" where "USF2NT us = us * of_int US_TO_NT_MULTIPLIER"

definition NT2US :: "32 word \<Rightarrow> 32 word" where "NT2US x = x div of_int US_TO_NT_MULTIPLIER"

definition hasElapsedUs :: "efitick_t \<Rightarrow> efitick_t \<Rightarrow> rat \<Rightarrow> bool" where
  "hasElapsedUs m_lastReset now microseconds =
     (let delta = now - m_lastReset in
      if delta \<ge> clock32max then True
      else let delta32 = (of_int delta :: 32 word)
           in of_nat (unat delta32) > USF2NT microseconds)"

definition hasElapsedMs :: "efitick_t \<Rightarrow> efitick_t \<Rightarrow> rat \<Rightarrow> bool" where
  "hasElapsedMs m_lastReset now milliseconds = hasElapsedUs m_lastReset now (milliseconds * 1000)"

definition hasElapsedSec :: "efitick_t \<Rightarrow> efitick_t \<Rightarrow> rat \<Rightarrow> bool" where
  "hasElapsedSec m_lastReset now seconds = hasElapsedMs m_lastReset now (seconds * 1000)"

definition getElapsedUs :: "efitick_t \<Rightarrow> efitick_t \<Rightarrow> rat" where
  "getElapsedUs m_lastReset nowNt =
     (let deltaNt = nowNt - m_lastReset in
      if deltaNt < 0 then 0
      else let deltaNt = (if deltaNt > clock32max then clock32max else deltaNt);
               delta32 = (of_int deltaNt :: 32 word)
           in of_nat (unat (NT2US delta32)))"

definition getElapsedSeconds :: "efitick_t \<Rightarrow> efitick_t \<Rightarrow> rat" where
  "getElapsedSeconds m_lastReset nowNt = 1 / 1000000 * getElapsedUs m_lastReset nowNt"

text \<open>The result and the new tick of the last reset.\<close>

definition getElapsedSecondsAndReset :: "efitick_t \<Rightarrow> efitick_t \<Rightarrow> rat \<times> efitick_t" where
  "getElapsedSecondsAndReset m_lastReset nowNt = (getElapsedSeconds m_lastReset nowNt, nowNt)"

lemma unsigned_small:
  assumes "0 \<le> d" "d < 2 ^ 32"
  shows "(unsigned (of_int d :: 32 word) :: rat) = of_int d"
  using assms by (simp add: unsigned_of_int take_bit_int_eq_self)

lemma unsigned_NT2US:
  assumes "0 \<le> d" "d < 2 ^ 32"
  shows "(unsigned (NT2US (of_int d)) :: rat) = of_int (d div 4)"
proof -
  have "uint (NT2US (of_int d)) = d div 4"
    using assms
    by (simp add: NT2US_def US_TO_NT_MULTIPLIER_def uint_div uint_word_of_int take_bit_int_eq_self)
  then show ?thesis
    by (metis of_int_uint)
qed

lemma getElapsedUs_floor:
  "getElapsedUs lastReset now =
     of_int (max 0 (min clock32max (now - lastReset)) div US_TO_NT_MULTIPLIER)"
proof -
  define d where "d = now - lastReset"
  show ?thesis
    unfolding getElapsedUs_def d_def[symmetric]
    by (auto simp: clock32max_def US_TO_NT_MULTIPLIER_def unsigned_NT2US
        unsigned_NT2US[of 4294967294, simplified] Let_def min_def max_def)
qed

text \<open>Elapsed microseconds are the whole microseconds since the reset, at most 32 bits of ticks,
  and 0 for a reset in the future.\<close>

theorem getElapsedUs_exact:
  "getElapsedUs lastReset now =
     of_int (max 0 (min clock32max (now - lastReset)) div US_TO_NT_MULTIPLIER)"
  by (rule getElapsedUs_floor)

text \<open>For a reset that is not in the future, \<open>hasElapsedUs\<close> says whether more than the period has
  passed, and is true from 32 bits of ticks on.\<close>

theorem hasElapsedUs_exact:
  assumes "lastReset \<le> now"
  shows "hasElapsedUs lastReset now us \<longleftrightarrow>
    now - lastReset \<ge> clock32max \<or> of_int (now - lastReset) / of_int US_TO_NT_MULTIPLIER > us"
proof -
  define d where "d = now - lastReset"
  have "0 \<le> d"
    using assms by (simp add: d_def)
  then show ?thesis
    unfolding hasElapsedUs_def d_def[symmetric]
    by (auto simp: clock32max_def US_TO_NT_MULTIPLIER_def unsigned_small USF2NT_def Let_def
        pos_less_divide_eq)
qed

text \<open>For a reset that is slightly in the future, the case \<open>getElapsedUs\<close> guards against,
  \<open>hasElapsedUs\<close> wraps the negative difference and reports that the period is over.\<close>

theorem hasElapsedUs_future_reset:
  assumes "now < lastReset" "lastReset - now \<le> NT_PER_SECOND" "us \<le> 1000000000"
  shows "hasElapsedUs lastReset now us \<and> getElapsedUs lastReset now = 0"
proof -
  define d where "d = now - lastReset"
  have d: "d < 0" "- 4000000 \<le> d"
    using assms by (auto simp: d_def NT_PER_SECOND_def US_TO_NT_MULTIPLIER_def)
  have "take_bit 32 d = take_bit 32 (d + 2 ^ 32)"
    by (simp add: take_bit_eq_mod)
  also have "\<dots> = d + 2 ^ 32"
    using d by (intro take_bit_int_eq_self) auto
  finally have "(unsigned (of_int d :: 32 word) :: rat) = of_int (d + 2 ^ 32)"
    using d(2) by (simp add: unsigned_of_int)
  moreover have "- 4000000 \<le> rat_of_int d"
    using d(2) by (metis of_int_le_iff of_int_minus of_int_numeral)
  ultimately have "4000000000 < (unsigned (of_int d :: 32 word) :: rat)"
    by simp
  then show ?thesis
    unfolding hasElapsedUs_def getElapsedUs_def d_def[symmetric]
    using d assms(3) by (simp add: USF2NT_def US_TO_NT_MULTIPLIER_def clock32max_def Let_def)
qed

lemma hasElapsedUs_exact_witness: "hasElapsedUs 100 500 99 \<and> \<not> hasElapsedUs 100 500 100"
  using hasElapsedUs_exact[of 100 500 99] hasElapsedUs_exact[of 100 500 100]
  by (simp add: US_TO_NT_MULTIPLIER_def clock32max_def)

lemma hasElapsedUs_future_reset_witness: "hasElapsedUs 1001 1000 50000 \<and> getElapsedUs 1001 1000 = 0"
  by (rule hasElapsedUs_future_reset) (simp_all add: NT_PER_SECOND_def US_TO_NT_MULTIPLIER_def)

end
