(* ===== verification/Trigger_Decoder.thy ===== *)
theory Trigger_Decoder
  imports Trigger_Structure Trigger_Types Timer_Model
begin

text \<open>
  \<^verbatim>\<open>controllers/trigger/trigger_decoder.h\<close> and \<^verbatim>\<open>.cpp\<close>: the state machine that finds the
  synchronization point in the train of tooth edges and counts the events from there. One record
  holds the fields of \<^verbatim>\<open>TriggerDecoderBase\<close> (with \<^verbatim>\<open>trigger_state_s\<close>) and of the primary decoder
  (\<^verbatim>\<open>trigger_state_primary_s\<close>); the virtual methods are chosen by \<open>decoder_class\<close>. Calls to the
  outside (the listener, the pins, the RPM calculator) are recorded in \<open>calls\<close>, messages in
  \<open>dec_log\<close>. Values that come from the rest of the firmware are in \<open>decoder_env\<close>. Printing is left
  out. Counters keep their width in the code.
\<close>

subsection \<open>State\<close>

datatype trigger_event = PrimaryFalling | PrimaryRising | SecondaryFalling | SecondaryRising

datatype decoder_class = BaseDecoder | PrimaryDecoder | VvtDecoder

datatype decoder_call =
    OnTriggerSynchronizationLost
  | OnTriggerSyncronization bool bool
  | OnTriggerStateProperState efitick_t
  | ToggleDebugTriggerSync
  | ResetInstantRpm

record decoder =
  triggerSyncGapRatio :: xfloat
  crankSynchronizationCounter :: "16 word"
  triggerErrorCounter :: "16 word"
  triggerStateIndex :: "8 word"
  edgeCountRise :: "16 word"
  edgeCountFall :: "16 word"
  shaft_is_synchronized :: bool
  previousEventTimer :: efitick_t
  toothDurations :: "32 word list"
  toothed_previous_time :: efitick_t
  current_index :: "32 word"
  eventCount :: "32 word list"
  orderingErrorCounter :: "32 word"
  startOfCycleNt :: efitick_t
  prevSignal :: trigger_event
  totalEventCountBase :: int
  isFirstEvent :: bool
  m_timeSinceDecodeError :: efitick_t
  m_camResyncCounter :: "8 word"
  m_phaseAdjustment :: "16 word"
  m_hasSynchronizedPhase :: bool
  m_needsDisambiguation :: bool
  m_expectDisambiguation :: bool
  calls :: "decoder_call list"
  dec_log :: diag_log

record decoder_env =
  env_rpm :: rat
  env_now :: efitick_t
  env_listener :: bool
  env_fakeFullSync :: bool

definition call :: "decoder_call \<Rightarrow> decoder \<Rightarrow> decoder" where
  "call c d = d\<lparr>calls := calls d @ [c]\<rparr>"

definition dec_report :: "diag \<Rightarrow> decoder \<Rightarrow> decoder" where
  "dec_report m d = d\<lparr>dec_log := dec_log d @ [m]\<rparr>"

subsection \<open>Small operations\<close>

definition resetCurrentCycleState :: "decoder \<Rightarrow> decoder" where
  "resetCurrentCycleState d =
     d\<lparr>eventCount := replicate PWM_PHASE_MAX_WAVE_PER_PWM 0, current_index := 0\<rparr>"

definition resetState_base :: "decoder \<Rightarrow> decoder" where
  "resetState_base d =
     (let d = d\<lparr>shaft_is_synchronized := False, toothed_previous_time := 0,
                toothDurations := replicate (GAP_TRACKING_LENGTH + 1) 0,
                crankSynchronizationCounter := 0, triggerErrorCounter := 0,
                orderingErrorCounter := 0, m_timeSinceDecodeError := timer_init,
                prevSignal := PrimaryFalling, startOfCycleNt := 0\<rparr>;
          d = resetCurrentCycleState d
      in d\<lparr>totalEventCountBase := 0, isFirstEvent := True\<rparr>)"

definition resetHasFullSync :: "decoder \<Rightarrow> decoder" where
  "resetHasFullSync d =
     d\<lparr>m_hasSynchronizedPhase := \<not> m_needsDisambiguation d, m_phaseAdjustment := 0\<rparr>"

definition resetState :: "decoder_class \<Rightarrow> decoder \<Rightarrow> decoder" where
  "resetState cls d =
     (case cls of PrimaryDecoder \<Rightarrow> resetHasFullSync (resetState_base d)
                | _ \<Rightarrow> resetState_base d)"

definition setNeedsDisambiguation :: "bool \<Rightarrow> bool \<Rightarrow> decoder \<Rightarrow> decoder" where
  "setNeedsDisambiguation needs expects d =
     resetHasFullSync (d\<lparr>m_needsDisambiguation := needs, m_expectDisambiguation := expects\<rparr>)"

definition setTriggerErrorState :: "decoder_env \<Rightarrow> decoder \<Rightarrow> decoder" where
  "setTriggerErrorState env d =
     d\<lparr>m_timeSinceDecodeError := env_now env, triggerErrorCounter := triggerErrorCounter d + 1\<rparr>"

definition someSortOfTriggerError :: "decoder_env \<Rightarrow> decoder \<Rightarrow> bool" where
  "someSortOfTriggerError env d = (\<not> hasElapsedSec (m_timeSinceDecodeError d) (env_now env) 1)"

definition getTotalEventCounter :: "decoder \<Rightarrow> int" where
  "getTotalEventCounter d = totalEventCountBase d + uint (current_index d)"

definition getCrankSynchronizationCounter :: "decoder \<Rightarrow> int" where
  "getCrankSynchronizationCounter d = uint (crankSynchronizationCounter d)"

definition isValidIndex :: "trigger_waveform \<Rightarrow> decoder \<Rightarrow> bool" where
  "isValidIndex shape d = (unat (current_index d) < getSize shape)"

fun eventIndex :: "trigger_event \<Rightarrow> trigger_wheel" where
  "eventIndex PrimaryFalling = T_PRIMARY"
| "eventIndex PrimaryRising = T_PRIMARY"
| "eventIndex SecondaryFalling = T_SECONDARY"
| "eventIndex SecondaryRising = T_SECONDARY"

fun eventType :: "trigger_event \<Rightarrow> bool" where
  "eventType PrimaryFalling = False"
| "eventType PrimaryRising = True"
| "eventType SecondaryFalling = False"
| "eventType SecondaryRising = True"

definition nextTriggerEvent :: "bool \<Rightarrow> decoder \<Rightarrow> decoder" where
  "nextTriggerEvent useOnlyRisingEdgeForTrigger d =
     (let d = (if useOnlyRisingEdgeForTrigger then d\<lparr>current_index := current_index d + 1\<rparr> else d)
      in d\<lparr>current_index := current_index d + 1\<rparr>)"

text \<open>\<^verbatim>\<open>onTriggerError\<close>, \<^verbatim>\<open>onNotEnoughTeeth\<close> and \<^verbatim>\<open>onTooManyTeeth\<close> are empty in the base class, which the
  initialization of shapes uses, and overridden in the two others; the primary one also discards the instant RPM and the last TDC mark of the
  engine, which the one call \<open>ResetInstantRpm\<close> records.\<close>

definition onTriggerError :: "decoder_class \<Rightarrow> decoder \<Rightarrow> decoder" where
  "onTriggerError cls d =
     (case cls of PrimaryDecoder \<Rightarrow> call ResetInstantRpm (resetHasFullSync d) | _ \<Rightarrow> d)"

definition onNotEnoughTeeth :: "decoder_class \<Rightarrow> decoder \<Rightarrow> decoder" where
  "onNotEnoughTeeth cls d =
     (case cls of BaseDecoder \<Rightarrow> d
                | PrimaryDecoder \<Rightarrow> dec_report (Warning CUSTOM_PRIMARY_NOT_ENOUGH_TEETH) d
                | VvtDecoder \<Rightarrow> dec_report (Warning CUSTOM_CAM_NOT_ENOUGH_TEETH) d)"

definition onTooManyTeeth :: "decoder_class \<Rightarrow> decoder \<Rightarrow> decoder" where
  "onTooManyTeeth cls d =
     (case cls of BaseDecoder \<Rightarrow> d
                | PrimaryDecoder \<Rightarrow> dec_report (Warning CUSTOM_PRIMARY_TOO_MANY_TEETH) d
                | VvtDecoder \<Rightarrow> dec_report (Warning CUSTOM_CAM_TOO_MANY_TEETH) d)"

definition validateEventCounters :: "trigger_waveform \<Rightarrow> decoder \<Rightarrow> bool" where
  "validateEventCounters shape d =
     fold (\<lambda>i isDecodingError. isDecodingError \<or>
             unat (eventCount d ! i) \<noteq> getExpectedEventCount shape i)
          [0..<PWM_PHASE_MAX_WAVE_PER_PWM] False"

definition onShaftSynchronization ::
  "bool \<Rightarrow> efitick_t \<Rightarrow> trigger_waveform \<Rightarrow> decoder \<Rightarrow> decoder" where
  "onShaftSynchronization wasSynchronized nowNt shape d =
     (let d = resetCurrentCycleState (d\<lparr>startOfCycleNt := nowNt\<rparr>);
          d = (if wasSynchronized
               then d\<lparr>crankSynchronizationCounter := crankSynchronizationCounter d + 1\<rparr>
               else d\<lparr>crankSynchronizationCounter := 0\<rparr>)
      in d\<lparr>totalEventCountBase := totalEventCountBase d + int (getSize shape)\<rparr>)"

definition shouldConsiderEdge :: "trigger_waveform \<Rightarrow> trigger_wheel \<Rightarrow> bool \<Rightarrow> bool" where
  "shouldConsiderEdge shape triggerWheel isRising =
     (if triggerWheel \<noteq> T_PRIMARY \<and> useOnlyPrimaryForSync shape then False
      else case m_syncEdge shape of
             Both \<Rightarrow> True
           | RiseOnly \<Rightarrow> isRising
           | Rise \<Rightarrow> isRising
           | Fall \<Rightarrow> \<not> isRising)"

definition logEdgeCounters :: "bool \<Rightarrow> decoder \<Rightarrow> decoder" where
  "logEdgeCounters isRising d =
     (if isRising then d\<lparr>edgeCountRise := edgeCountRise d + 1\<rparr>
      else d\<lparr>edgeCountFall := edgeCountFall d + 1\<rparr>)"

definition hasSynchronizedPhase :: "decoder_env \<Rightarrow> decoder \<Rightarrow> bool" where
  "hasSynchronizedPhase env d = (if env_fakeFullSync env then True else m_hasSynchronizedPhase d)"

text \<open>\<^verbatim>\<open>syncEnginePhase\<close>: the angle, or 0 with a message when an argument is out of range. The
  adjustment is stored in 16 bits and compared with the float.\<close>

definition syncEnginePhase :: "int \<Rightarrow> int \<Rightarrow> rat \<Rightarrow> decoder \<Rightarrow> rat \<times> decoder" where
  "syncEnginePhase divider remainder engineCycle d =
     (if \<not> divider > 1 then (0, dec_report (FirmwareError OBD_PCM_Processor_Fault) d)
      else if \<not> remainder < divider then (0, dec_report (FirmwareError OBD_PCM_Processor_Fault) d)
      else
        let currentRemainder = getCrankSynchronizationCounter d mod divider;
            totalShift = of_int (remainder - currentRemainder) * engineCycle / of_int divider;
            totalShift = (if totalShift < 0 then totalShift + engineCycle else totalShift);
            d = d\<lparr>m_hasSynchronizedPhase := True\<rparr>;
            d = (if of_nat (unat (m_phaseAdjustment d)) \<noteq> totalShift
                 then d\<lparr>m_phaseAdjustment := of_int (c_trunc totalShift),
                        m_camResyncCounter := m_camResyncCounter d + 1\<rparr>
                 else d)
        in (totalShift, d))"

subsection \<open>The synchronization test\<close>

definition tooth :: "decoder \<Rightarrow> nat \<Rightarrow> rat" where
  "tooth d i = of_nat (unat (toothDurations d ! i))"

definition isGapCondition :: "trigger_waveform \<Rightarrow> decoder \<Rightarrow> nat \<Rightarrow> bool" where
  "isGapCondition shape d i =
     (xless (xmul_nonneg (tooth d (i + 1)) (syncronizationRatioFrom shape ! i)) (Fin (tooth d i)) \<and>
      xless (Fin (tooth d i)) (xmul_nonneg (tooth d (i + 1)) (syncronizationRatioTo shape ! i)))"

text \<open>The loop over the tracked gaps, which leaves at the first gap out of its range.\<close>

fun gaps_ok :: "trigger_waveform \<Rightarrow> decoder \<Rightarrow> nat list \<Rightarrow> bool" where
  "gaps_ok shape d [] = True"
| "gaps_ok shape d (i # is) =
     (if syncronizationRatioFrom shape ! i = NaN then gaps_ok shape d is
      else if \<not> isGapCondition shape d i then False
      else gaps_ok shape d is)"

text \<open>The special decoder of the Miata NB; it can clear the synchronized flag.\<close>

definition isSyncPoint ::
  "decoder_env \<Rightarrow> trigger_waveform \<Rightarrow> trigger_type_e \<Rightarrow> decoder \<Rightarrow> bool \<times> decoder" where
  "isSyncPoint env shape triggerType d =
     (if triggerType = TT_MIATA_VVT
      then
        let useToothCounting = (shaft_is_synchronized d \<and> env_rpm env < 1000) in
        if useToothCounting
        then if isInRange (Fin (2/5)) (triggerSyncGapRatio d) (Fin 2)
             then (current_index d \<noteq> 0, d)
             else (False, d\<lparr>shaft_is_synchronized := False\<rparr>)
        else
          let secondGap = xdiv (tooth d 1) (tooth d 2);
              currentGapOk = isInRange (syncronizationRatioFrom shape ! 0) (triggerSyncGapRatio d)
                               (syncronizationRatioTo shape ! 0);
              secondGapOk = isInRange (syncronizationRatioFrom shape ! 1) secondGap
                              (syncronizationRatioTo shape ! 1)
          in if \<not> currentGapOk \<or> \<not> secondGapOk then (False, d)
             else (xless (triggerSyncGapRatio d) secondGap, d)
      else (gaps_ok shape d [0..<nat (gapTrackingLength shape)], d))"

subsection \<open>Decoding one edge\<close>

text \<open>The head of \<^verbatim>\<open>decodeTriggerEvent\<close>: the timeout and the bookkeeping of the edge. For an empty shape the quotient
  is infinite and the upper bound counts. What a listener does is recorded as a call and not done here; the
  engine's listener for a lost synchronization is \<open>OnTriggerSynchronizationLost\<close> of \<open>Rpm_Calculator\<close>.\<close>

definition edge_timeout ::
  "libfw \<Rightarrow> decoder_env \<Rightarrow> trigger_waveform \<Rightarrow> efitick_t \<Rightarrow> decoder \<Rightarrow> decoder" where
  "edge_timeout L env shape nowNt d =
     (let triggerTimeoutPeriod = (if getLength shape = 0 then 1 else clampF L (1/10) (20 / of_nat (getLength shape)) 1);
          (previousEventTime, timer) = getElapsedSecondsAndReset (previousEventTimer d) nowNt;
          d = d\<lparr>previousEventTimer := timer\<rparr>
      in if previousEventTime > triggerTimeoutPeriod
         then let d = d\<lparr>shaft_is_synchronized := False\<rparr>
              in if env_listener env then call OnTriggerSynchronizationLost d else d
         else d)"

definition edge_bookkeeping :: "trigger_waveform \<Rightarrow> trigger_event \<Rightarrow> efitick_t \<Rightarrow> decoder \<Rightarrow> decoder" where
  "edge_bookkeeping shape signal nowNt d =
     (let d = (if \<not> useOnlyRisingEdges shape \<and> prevSignal d = signal
               then d\<lparr>orderingErrorCounter := orderingErrorCounter d + 1\<rparr> else d);
          d = d\<lparr>prevSignal := signal\<rparr>;
          w = wheel_index (eventIndex signal);
          d = d\<lparr>eventCount := (eventCount d)[w := eventCount d ! w + 1]\<rparr>;
          d = logEdgeCounters (eventType signal) d;
          d = (if toothed_previous_time d > nowNt
               then dec_report (FirmwareError CUSTOM_OBD_93) d else d);
          currentDurationLong = (if isFirstEvent d then 0 else nowNt - toothed_previous_time d)
      in d\<lparr>toothDurations := (toothDurations d)[0 :=
             of_int (if currentDurationLong > 10 * NT_PER_SECOND then 10 * NT_PER_SECOND
                     else currentDurationLong)]\<rparr>)"

text \<open>Whether this edge is the synchronization point, by the gaps or by counting.\<close>

definition sync_decision ::
  "decoder_env \<Rightarrow> trigger_waveform \<Rightarrow> trigger_type_e \<Rightarrow> decoder \<Rightarrow> bool \<times> decoder" where
  "sync_decision env shape triggerType d =
     (if isSynchronizationNeeded shape
      then let d = d\<lparr>triggerSyncGapRatio := xdiv (tooth d 0) (tooth d 1)\<rparr>;
               (isSynchronizationPoint, d) = isSyncPoint env shape triggerType d
           in (isSynchronizationPoint, if isSynchronizationPoint then call ToggleDebugTriggerSync d else d)
      else let endOfCycleIndex = (of_nat (getSize shape) :: 32 word)
                 - (if useOnlyRisingEdges shape then 2 else 1)
           in (\<not> shaft_is_synchronized d \<or> current_index d \<ge> endOfCycleIndex, d))"

text \<open>What happens at a synchronization point.\<close>

definition at_sync_point ::
  "decoder_class \<Rightarrow> decoder_env \<Rightarrow> trigger_waveform \<Rightarrow> bool \<Rightarrow> efitick_t \<Rightarrow> decoder \<Rightarrow> decoder" where
  "at_sync_point cls env shape wasSynchronized nowNt d =
     (let isDecodingError = validateEventCounters shape d;
          d = (if env_listener env then call (OnTriggerSyncronization wasSynchronized isDecodingError) d else d);
          d = (if wasSynchronized \<and> isDecodingError
               then let d = setTriggerErrorState env d;
                        d = onNotEnoughTeeth cls d;
                        d = d\<lparr>shaft_is_synchronized := False\<rparr>
                    in onTriggerError cls d
               else d\<lparr>shaft_is_synchronized := True\<rparr>);
          d = nextTriggerEvent (useOnlyRisingEdges shape) d
      in onShaftSynchronization wasSynchronized nowNt shape d)"

text \<open>The loop that moves the tooth durations up by one, from the oldest.\<close>

definition shift_durations :: "int \<Rightarrow> 32 word list \<Rightarrow> 32 word list" where
  "shift_durations gapTracking durations =
     fold (\<lambda>i ds. ds[i := ds ! (i - 1)]) (rev [1..<Suc (nat gapTracking)]) durations"

definition important_edge ::
  "decoder_class \<Rightarrow> decoder_env \<Rightarrow> trigger_waveform \<Rightarrow> trigger_type_e \<Rightarrow> efitick_t \<Rightarrow> decoder \<Rightarrow> decoder" where
  "important_edge cls env shape triggerType nowNt d =
     (let d = d\<lparr>isFirstEvent := False\<rparr>;
          wasSynchronized = shaft_is_synchronized d;
          (isSynchronizationPoint, d) = sync_decision env shape triggerType d;
          d = (if isSynchronizationPoint then at_sync_point cls env shape wasSynchronized nowNt d
               else if shaft_is_synchronized d then nextTriggerEvent (useOnlyRisingEdges shape) d
               else d)
      in d\<lparr>toothDurations := shift_durations (gapTrackingLength shape) (toothDurations d),
           toothed_previous_time := nowNt\<rparr>)"

text \<open>The tail: too many events, or the index of this event.\<close>

definition edge_result ::
  "decoder_class \<Rightarrow> decoder_env \<Rightarrow> trigger_waveform \<Rightarrow> efitick_t \<Rightarrow> decoder \<Rightarrow> 32 word option \<times> decoder" where
  "edge_result cls env shape nowNt d =
     (if shaft_is_synchronized d \<and> \<not> isValidIndex shape d
      then let d = (if env_rpm env \<noteq> 0 then onTooManyTeeth cls (setTriggerErrorState env d) else d);
               d = onTriggerError cls d
           in (None, d\<lparr>shaft_is_synchronized := False\<rparr>)
      else let d = (if env_listener env then call (OnTriggerStateProperState nowNt) d else d);
               d = d\<lparr>triggerStateIndex := ucast (current_index d)\<rparr>
           in (if shaft_is_synchronized d then Some (current_index d) else None, d))"

definition decodeTriggerEvent ::
  "libfw \<Rightarrow> decoder_class \<Rightarrow> decoder_env \<Rightarrow> trigger_waveform \<Rightarrow> trigger_type_e \<Rightarrow> trigger_event \<Rightarrow> efitick_t \<Rightarrow>
     decoder \<Rightarrow> 32 word option \<times> decoder" where
  "decodeTriggerEvent L cls env shape triggerType signal nowNt d =
     (let d = edge_timeout L env shape nowNt d;
          d = edge_bookkeeping shape signal nowNt d;
          d = (if \<not> shouldConsiderEdge shape (eventIndex signal) (eventType signal)
               then nextTriggerEvent (useOnlyRisingEdges shape) d
               else important_edge cls env shape triggerType nowNt d)
      in edge_result cls env shape nowNt d)"

end
