(* ===== verification/Decoder_Sync.thy ===== *)
theory Decoder_Sync
  imports Trigger_Decoder Shape_Library
begin

text \<open>
  What the decoder does with a train of rising edges on the primary channel: if the gap test holds
  exactly at the first tooth of each cycle, the decoder synchronizes at the first such tooth and
  from there on counts every event without an error.
\<close>

subsection \<open>Field lemmas\<close>

lemma call_fields [simp]:
  "dec_log (call c d) = dec_log d" "shaft_is_synchronized (call c d) = shaft_is_synchronized d"
  "current_index (call c d) = current_index d" "eventCount (call c d) = eventCount d"
  "toothDurations (call c d) = toothDurations d" "isFirstEvent (call c d) = isFirstEvent d"
  "toothed_previous_time (call c d) = toothed_previous_time d"
  "previousEventTimer (call c d) = previousEventTimer d"
  "crankSynchronizationCounter (call c d) = crankSynchronizationCounter d"
  "triggerErrorCounter (call c d) = triggerErrorCounter d"
  "triggerSyncGapRatio (call c d) = triggerSyncGapRatio d"
  "calls (call c d) = calls d @ [c]"
  by (simp_all add: call_def)

lemma shift_durations_nth:
  assumes "nat G < length ds"
  shows "length (shift_durations G ds) = length ds"
    and "shift_durations G ds ! i = (if 1 \<le> i \<and> i \<le> nat G then ds ! (i - 1) else ds ! i)"
proof -
  define f :: "nat \<Rightarrow> 32 word list \<Rightarrow> 32 word list" where "f = (\<lambda>i ds. ds[i := ds ! (i - 1)])"
  have "length (fold f (rev [1..<Suc n]) xs) = length xs \<and>
      fold f (rev [1..<Suc n]) xs ! i = (if 1 \<le> i \<and> i \<le> n then xs ! (i - 1) else xs ! i)"
    if "n < length xs" for n and xs :: "32 word list"
    using that
  proof (induction n arbitrary: xs)
    case (Suc n)
    have "rev [1..<Suc (Suc n)] = Suc n # rev [1..<Suc n]"
      by simp
    then show ?case
      using Suc.IH[of "xs[Suc n := xs ! n]"] Suc.prems
      by (auto simp: f_def nth_list_update le_Suc_eq)
  qed simp
  from this[OF assms] show "length (shift_durations G ds) = length ds"
    and "shift_durations G ds ! i = (if 1 \<le> i \<and> i \<le> nat G then ds ! (i - 1) else ds ! i)"
    unfolding shift_durations_def f_def by auto
qed

text \<open>The gap test on the true distances between the teeth: \<open>g m\<close> ticks before tooth \<open>m\<close>.\<close>

definition gap_in_range :: "trigger_waveform \<Rightarrow> (nat \<Rightarrow> int) \<Rightarrow> nat \<Rightarrow> nat \<Rightarrow> bool" where
  "gap_in_range shape g m i \<longleftrightarrow>
     syncronizationRatioFrom shape ! i = NaN \<or>
     xless (xmul_nonneg (of_int (g (m - (i + 1)))) (syncronizationRatioFrom shape ! i)) (Fin (of_int (g (m - i)))) \<and>
     xless (Fin (of_int (g (m - i)))) (xmul_nonneg (of_int (g (m - (i + 1)))) (syncronizationRatioTo shape ! i))"

definition gap_test :: "trigger_waveform \<Rightarrow> (nat \<Rightarrow> int) \<Rightarrow> nat \<Rightarrow> bool" where
  "gap_test shape g m \<longleftrightarrow> (\<forall>i < nat (gapTrackingLength shape). gap_in_range shape g m i)"

lemma gaps_ok_all:
  "gaps_ok shape d is \<longleftrightarrow> (\<forall>i \<in> set is. syncronizationRatioFrom shape ! i = NaN \<or> isGapCondition shape d i)"
  by (induction "is") auto

lemma gaps_ok_gap_test:
  assumes "\<And>i. i \<le> nat (gapTrackingLength shape) \<Longrightarrow> tooth d i = of_int (g (m - i))"
  shows "gaps_ok shape d [0..<nat (gapTrackingLength shape)] \<longleftrightarrow> gap_test shape g m"
  unfolding gaps_ok_all gap_test_def gap_in_range_def isGapCondition_def
  using assms by (simp add: Ball_def less_imp_le)

subsection \<open>The pieces of decodeTriggerEvent on a rising primary edge\<close>

lemma edge_timeout_fields [simp]:
  "previousEventTimer (edge_timeout L env shape now d) = now"
  "dec_log (edge_timeout L env shape now d) = dec_log d"
  "current_index (edge_timeout L env shape now d) = current_index d"
  "eventCount (edge_timeout L env shape now d) = eventCount d"
  "toothDurations (edge_timeout L env shape now d) = toothDurations d"
  "isFirstEvent (edge_timeout L env shape now d) = isFirstEvent d"
  "toothed_previous_time (edge_timeout L env shape now d) = toothed_previous_time d"
  "crankSynchronizationCounter (edge_timeout L env shape now d) = crankSynchronizationCounter d"
  "triggerErrorCounter (edge_timeout L env shape now d) = triggerErrorCounter d"
  by (simp_all add: edge_timeout_def getElapsedSecondsAndReset_def Let_def)

text \<open>The timeout is at least a tenth of a second.\<close>

lemma edge_timeout_sync:
  assumes "libfw_ok L" "shaft_is_synchronized d \<Longrightarrow> 0 \<le> now - previousEventTimer d \<and>
    now - previousEventTimer d \<le> NT_PER_SECOND div 10"
  shows "shaft_is_synchronized (edge_timeout L env shape now d) = shaft_is_synchronized d"
proof (cases "shaft_is_synchronized d")
  case True
  then have d: "0 \<le> now - previousEventTimer d" "now - previousEventTimer d \<le> 400000"
    using assms(2) by (auto simp: NT_PER_SECOND_def US_TO_NT_MULTIPLIER_def)
  have "max 0 (min clock32max (now - previousEventTimer d)) div US_TO_NT_MULTIPLIER \<le> 100000"
    using d by (simp add: US_TO_NT_MULTIPLIER_def clock32max_def)
  then have "getElapsedUs (previousEventTimer d) now \<le> 100000"
    unfolding getElapsedUs_floor by (metis of_int_le_iff of_int_numeral)
  moreover have "1/10 \<le> (if getLength shape = 0 then 1 else clampF L (1/10) (20 / of_nat (getLength shape)) 1)"
  proof (cases "getLength shape = 0")
    case False
    moreover have "1/10 \<le> clampF L (1/10) (20 / of_nat (getLength shape)) 1"
      by (simp add: libfw_clampF[OF assms(1)])
    ultimately show ?thesis by (simp only: if_False)
  qed simp
  ultimately show ?thesis
    by (simp add: edge_timeout_def getElapsedSecondsAndReset_def getElapsedSeconds_def Let_def)
qed (simp add: edge_timeout_def getElapsedSecondsAndReset_def Let_def)

text \<open>The number of ticks before the edge, with the clip at ten seconds.\<close>

lemma edge_bookkeeping_rising:
  assumes "useOnlyRisingEdges shape" "toothed_previous_time d \<le> now"
    and "g = (if isFirstEvent d then 0 else now - toothed_previous_time d)" "g \<le> 10 * NT_PER_SECOND"
  defines "d' \<equiv> edge_bookkeeping shape PrimaryRising now d"
  shows "toothDurations d' = (toothDurations d)[0 := of_int g]"
    and "eventCount d' = (eventCount d)[0 := eventCount d ! 0 + 1]"
    and "previousEventTimer d' = previousEventTimer d" "dec_log d' = dec_log d"
    and "current_index d' = current_index d" "isFirstEvent d' = isFirstEvent d"
    and "toothed_previous_time d' = toothed_previous_time d"
    and "crankSynchronizationCounter d' = crankSynchronizationCounter d"
    and "triggerErrorCounter d' = triggerErrorCounter d"
    and "shaft_is_synchronized d' = shaft_is_synchronized d"
  using assms(1-4)
  by (auto simp: d'_def edge_bookkeeping_def logEdgeCounters_def Let_def not_less)

text \<open>The decision at an edge of a wheel that is synchronized by its gaps.\<close>

lemma sync_decision_gaps:
  assumes "isSynchronizationNeeded shape" "ty \<noteq> TT_MIATA_VVT"
    and "\<And>i. i \<le> nat (gapTrackingLength shape) \<Longrightarrow> tooth d i = of_int (g (m - i))"
  shows "fst (sync_decision env shape ty d) = gap_test shape g m"
    and "shaft_is_synchronized (snd (sync_decision env shape ty d)) = shaft_is_synchronized d"
    and "current_index (snd (sync_decision env shape ty d)) = current_index d"
    and "eventCount (snd (sync_decision env shape ty d)) = eventCount d"
    and "toothDurations (snd (sync_decision env shape ty d)) = toothDurations d"
    and "isFirstEvent (snd (sync_decision env shape ty d)) = isFirstEvent d"
    and "previousEventTimer (snd (sync_decision env shape ty d)) = previousEventTimer d"
    and "dec_log (snd (sync_decision env shape ty d)) = dec_log d"
    and "crankSynchronizationCounter (snd (sync_decision env shape ty d)) = crankSynchronizationCounter d"
    and "triggerErrorCounter (snd (sync_decision env shape ty d)) = triggerErrorCounter d"
proof -
  have "gaps_ok shape (d\<lparr>triggerSyncGapRatio := r\<rparr>) [0..<nat (gapTrackingLength shape)] = gap_test shape g m" for r
    using assms(3) by (intro gaps_ok_gap_test) (simp add: tooth_def)
  then show "fst (sync_decision env shape ty d) = gap_test shape g m"
    and "shaft_is_synchronized (snd (sync_decision env shape ty d)) = shaft_is_synchronized d"
    and "current_index (snd (sync_decision env shape ty d)) = current_index d"
    and "eventCount (snd (sync_decision env shape ty d)) = eventCount d"
    and "toothDurations (snd (sync_decision env shape ty d)) = toothDurations d"
    and "isFirstEvent (snd (sync_decision env shape ty d)) = isFirstEvent d"
    and "previousEventTimer (snd (sync_decision env shape ty d)) = previousEventTimer d"
    and "dec_log (snd (sync_decision env shape ty d)) = dec_log d"
    and "crankSynchronizationCounter (snd (sync_decision env shape ty d)) = crankSynchronizationCounter d"
    and "triggerErrorCounter (snd (sync_decision env shape ty d)) = triggerErrorCounter d"
    using assms(1,2) by (simp_all add: sync_decision_def isSyncPoint_def Let_def)
qed

text \<open>A synchronization point that is the first one, or that comes after the expected events.\<close>

lemma at_sync_point_good:
  fixes cls env now
  assumes "\<not> was \<or> \<not> validateEventCounters shape d"
  defines "d' \<equiv> at_sync_point cls env shape was now d"
  shows "shaft_is_synchronized d'" "current_index d' = 0" "eventCount d' = [0, 0]"
    and "crankSynchronizationCounter d' = (if was then crankSynchronizationCounter d + 1 else 0)"
    and "dec_log d' = dec_log d" "triggerErrorCounter d' = triggerErrorCounter d"
    and "toothDurations d' = toothDurations d" "isFirstEvent d' = isFirstEvent d"
    and "previousEventTimer d' = previousEventTimer d"
  using assms(1)
  by (auto simp: d'_def at_sync_point_def onShaftSynchronization_def resetCurrentCycleState_def
      nextTriggerEvent_def Let_def PWM_PHASE_MAX_WAVE_PER_PWM_def numeral_2_eq_2)

lemma edge_result_good:
  assumes "\<not> shaft_is_synchronized d \<or> isValidIndex shape d"
  shows "fst (edge_result cls env shape now d) =
      (if shaft_is_synchronized d then Some (current_index d) else None)"
    and "shaft_is_synchronized (snd (edge_result cls env shape now d)) = shaft_is_synchronized d"
    and "current_index (snd (edge_result cls env shape now d)) = current_index d"
    and "eventCount (snd (edge_result cls env shape now d)) = eventCount d"
    and "toothDurations (snd (edge_result cls env shape now d)) = toothDurations d"
    and "isFirstEvent (snd (edge_result cls env shape now d)) = isFirstEvent d"
    and "previousEventTimer (snd (edge_result cls env shape now d)) = previousEventTimer d"
    and "toothed_previous_time (snd (edge_result cls env shape now d)) = toothed_previous_time d"
    and "dec_log (snd (edge_result cls env shape now d)) = dec_log d"
    and "crankSynchronizationCounter (snd (edge_result cls env shape now d)) = crankSynchronizationCounter d"
    and "triggerErrorCounter (snd (edge_result cls env shape now d)) = triggerErrorCounter d"
  using assms by (auto simp: edge_result_def Let_def)

subsection \<open>A train of rising edges\<close>

text \<open>A wheel with \<open>R\<close> teeth per cycle on the primary channel, of which the rising edges are used.\<close>

definition rising_wheel :: "trigger_waveform \<Rightarrow> nat \<Rightarrow> bool" where
  "rising_wheel shape R \<longleftrightarrow>
     useOnlyRisingEdges shape \<and> m_syncEdge shape = RiseOnly \<and> isSynchronizationNeeded shape \<and>
     getSize shape = 2 * R \<and> 0 < R \<and> 2 * R \<le> 0xFFFF \<and> expectedEventCount shape = [R, 0] \<and>
     1 \<le> gapTrackingLength shape \<and> gapTrackingLength shape \<le> 18"

text \<open>The edges come at the times \<open>t 0\<close>, \<open>t 1\<close>, ..., less than a tenth of a second apart.\<close>

definition tooth_gap :: "(nat \<Rightarrow> efitick_t) \<Rightarrow> nat \<Rightarrow> int" where
  "tooth_gap t m = (if m = 0 then 0 else t m - t (m - 1))"

definition edge_train :: "(nat \<Rightarrow> efitick_t) \<Rightarrow> bool" where
  "edge_train t \<longleftrightarrow> 0 \<le> t 0 \<and> (\<forall>m. 0 \<le> t (Suc m) - t m \<and> t (Suc m) - t m \<le> NT_PER_SECOND div 10)"

text \<open>The state after the first \<open>m\<close> edges.\<close>

primrec decode_run ::
  "libfw \<Rightarrow> decoder_class \<Rightarrow> (nat \<Rightarrow> decoder_env) \<Rightarrow> trigger_waveform \<Rightarrow> trigger_type_e \<Rightarrow> (nat \<Rightarrow> efitick_t) \<Rightarrow>
     decoder \<Rightarrow> nat \<Rightarrow> decoder" where
  "decode_run L cls env shape ty t d 0 = d"
| "decode_run L cls env shape ty t d (Suc m) =
     snd (decodeTriggerEvent L cls (env m) shape ty PrimaryRising (t m) (decode_run L cls env shape ty t d m))"

definition count_state :: "nat \<Rightarrow> nat \<Rightarrow> decoder \<Rightarrow> bool" where
  "count_state R x d \<longleftrightarrow> shaft_is_synchronized d \<and> current_index d = of_nat (2 * (x mod R)) \<and>
     eventCount d ! 0 = of_nat (x mod R) \<and> crankSynchronizationCounter d = of_nat (x div R)"

definition train_state ::
  "trigger_waveform \<Rightarrow> nat \<Rightarrow> (nat \<Rightarrow> efitick_t) \<Rightarrow> nat \<Rightarrow> diag_log \<Rightarrow> 16 word \<Rightarrow> nat \<Rightarrow> decoder \<Rightarrow> bool" where
  "train_state shape R t s msgs errs m d \<longleftrightarrow>
     isFirstEvent d = (m = 0) \<and> length (toothDurations d) = GAP_TRACKING_LENGTH + 1 \<and>
     (\<forall>i. 1 \<le> i \<and> i \<le> nat (gapTrackingLength shape) \<longrightarrow> toothDurations d ! i = of_int (tooth_gap t (m - i))) \<and>
     length (eventCount d) = 2 \<and> eventCount d ! 1 = 0 \<and>
     (if m = 0 then toothed_previous_time d \<le> t 0
      else toothed_previous_time d = t (m - 1) \<and> previousEventTimer d = t (m - 1)) \<and>
     (if m \<le> s then \<not> shaft_is_synchronized d else count_state R (m - 1 - s) d) \<and>
     dec_log d = msgs \<and> triggerErrorCounter d = errs"

lemma tooth_gap_bounds:
  assumes "edge_train t"
  shows "0 \<le> tooth_gap t m" "tooth_gap t m \<le> 400000"
  using assms
  by (cases m; simp add: tooth_gap_def edge_train_def NT_PER_SECOND_def US_TO_NT_MULTIPLIER_def)+

lemma unat_tooth_gap:
  assumes "edge_train t"
  shows "rat_of_nat (unat (of_int (tooth_gap t m) :: 32 word)) = of_int (tooth_gap t m)"
  using tooth_gap_bounds[OF assms, of m]
  by (simp add: unsigned_small)

lemma unat_of_nat32: "n < 4294967296 \<Longrightarrow> unat (of_nat n :: 32 word) = n"
  by (simp add: unat_of_nat take_bit_nat_eq_self)

text \<open>What the edge does after the synchronization decision.\<close>

definition count_edge ::
  "decoder_class \<Rightarrow> decoder_env \<Rightarrow> trigger_waveform \<Rightarrow> bool \<Rightarrow> efitick_t \<Rightarrow> decoder \<Rightarrow> decoder" where
  "count_edge cls env shape sync_point now d =
     (if sync_point then at_sync_point cls env shape (shaft_is_synchronized d) now d
      else if shaft_is_synchronized d then nextTriggerEvent True d else d)"

text \<open>A rising edge on the primary channel of a wheel that is synchronized by its gaps: up to
  bookkeeping, the decoder does \<open>count_edge\<close> at the outcome of the gap test.\<close>

lemma decode_rising:
  fixes L cls env shape ty now d g m
  assumes L: "libfw_ok L" and wheel: "rising_wheel shape R" and ty: "ty \<noteq> TT_MIATA_VVT"
    and time: "shaft_is_synchronized d \<longrightarrow> 0 \<le> now - previousEventTimer d \<and>
      now - previousEventTimer d \<le> NT_PER_SECOND div 10"
    and tpt: "toothed_previous_time d \<le> now"
    and gm: "g m = (if isFirstEvent d then 0 else now - toothed_previous_time d)"
    and gb: "\<And>i. 0 \<le> g i \<and> g i \<le> 400000"
    and hist: "length (toothDurations d) = GAP_TRACKING_LENGTH + 1"
      "\<And>i. 1 \<le> i \<Longrightarrow> i \<le> nat (gapTrackingLength shape) \<Longrightarrow> toothDurations d ! i = of_int (g (m - i))"
  obtains d4 where
    "decodeTriggerEvent L cls env shape ty PrimaryRising now d =
       edge_result cls env shape now ((count_edge cls env shape (gap_test shape g m) now d4)
         \<lparr>toothDurations := shift_durations (gapTrackingLength shape)
             (toothDurations (count_edge cls env shape (gap_test shape g m) now d4)),
           toothed_previous_time := now\<rparr>)"
    "shaft_is_synchronized d4 = shaft_is_synchronized d" "current_index d4 = current_index d"
    "eventCount d4 = (eventCount d)[0 := eventCount d ! 0 + 1]"
    "crankSynchronizationCounter d4 = crankSynchronizationCounter d"
    "dec_log d4 = dec_log d" "triggerErrorCounter d4 = triggerErrorCounter d" "\<not> isFirstEvent d4"
    "previousEventTimer d4 = now" "length (toothDurations d4) = GAP_TRACKING_LENGTH + 1"
    "\<And>i. i \<le> nat (gapTrackingLength shape) \<Longrightarrow> toothDurations d4 ! i = of_int (g (m - i))"
proof -
  let ?G = "nat (gapTrackingLength shape)"
  define d1 where "d1 = edge_timeout L env shape now d"
  define d2 where "d2 = edge_bookkeeping shape PrimaryRising now d1"
  define d3 where "d3 = d2\<lparr>isFirstEvent := False\<rparr>"
  define d4 where "d4 = snd (sync_decision env shape ty d3)"
  have W: "useOnlyRisingEdges shape" "m_syncEdge shape = RiseOnly" "isSynchronizationNeeded shape" "?G \<le> 18"
    using wheel by (auto simp: rising_wheel_def)
  have sync1: "shaft_is_synchronized d1 = shaft_is_synchronized d"
    unfolding d1_def using time by (intro edge_timeout_sync[OF L]) simp
  have gm1: "g m = (if isFirstEvent d1 then 0 else now - toothed_previous_time d1)"
    and tpt1: "toothed_previous_time d1 \<le> now" and "g m \<le> 10 * NT_PER_SECOND"
    using gm tpt gb[of m] by (auto simp: d1_def NT_PER_SECOND_def US_TO_NT_MULTIPLIER_def)
  note B = edge_bookkeeping_rising[OF W(1) tpt1 gm1 this(3), folded d2_def]
  have td2: "toothDurations d2 ! i = of_int (g (m - i))" if "i \<le> ?G" for i
    using that hist W(4) by (cases i) (auto simp: B(1) d1_def nth_list_update GAP_TRACKING_LENGTH_def)
  have tooth3: "tooth d3 i = of_int (g (m - i))" if "i \<le> ?G" for i
    using td2[OF that] gb[of "m - i"] by (simp add: tooth_def d3_def unsigned_small)
  note D = sync_decision_gaps[OF W(3) ty tooth3, where env = env, folded d4_def]
  have sync4: "shaft_is_synchronized d4 = shaft_is_synchronized d2"
    by (simp add: D d3_def)
  have "sync_decision env shape ty d3 = (gap_test shape g m, d4)"
    by (simp add: prod_eq_iff D(1) d4_def)
  then have "important_edge cls env shape ty now d2 = (count_edge cls env shape (gap_test shape g m) now d4)
         \<lparr>toothDurations := shift_durations (gapTrackingLength shape)
             (toothDurations (count_edge cls env shape (gap_test shape g m) now d4)),
           toothed_previous_time := now\<rparr>"
    by (simp add: important_edge_def count_edge_def Let_def d3_def[symmetric] W(1) sync4) (simp add: d3_def)
  then have dec: "decodeTriggerEvent L cls env shape ty PrimaryRising now d =
       edge_result cls env shape now ((count_edge cls env shape (gap_test shape g m) now d4)
         \<lparr>toothDurations := shift_durations (gapTrackingLength shape)
             (toothDurations (count_edge cls env shape (gap_test shape g m) now d4)),
           toothed_previous_time := now\<rparr>)"
    using W(2) by (simp add: decodeTriggerEvent_def shouldConsiderEdge_def Let_def d1_def[symmetric] d2_def[symmetric])
  have td4: "toothDurations d4 ! i = of_int (g (m - i))" if "i \<le> ?G" for i
    using td2[OF that] by (simp add: D d3_def)
  show thesis
    by (rule that[OF dec _ _ _ _ _ _ _ _ _ td4])
      (simp_all add: D d3_def B, use sync1 hist(1) in \<open>simp_all add: d1_def\<close>)
qed

lemma count_edge_other [simp]:
  "toothDurations (count_edge cls env shape b now d) = toothDurations d"
  "isFirstEvent (count_edge cls env shape b now d) = isFirstEvent d"
  "previousEventTimer (count_edge cls env shape b now d) = previousEventTimer d"
  by (auto simp: count_edge_def at_sync_point_def onShaftSynchronization_def resetCurrentCycleState_def
      nextTriggerEvent_def setTriggerErrorState_def onNotEnoughTeeth_def dec_report_def onTriggerError_def
      resetHasFullSync_def Let_def split: decoder_class.split)

text \<open>Counting when the gap test holds exactly at the first tooth of a cycle.\<close>

lemma count_edge_sync:
  fixes cls env now
  assumes "0 < R" "2 * R \<le> 0xFFFF" "expectedEventCount shape = [R, 0]"
    and "s \<le> m" "(m - s) mod R = 0" "length (eventCount d) = 2" "eventCount d ! 1 = 0"
    and "if m = s then \<not> shaft_is_synchronized d
         else count_state R (m - 1 - s) (d\<lparr>eventCount := (eventCount d)[0 := eventCount d ! 0 - 1]\<rparr>)"
  defines "d5 \<equiv> count_edge cls env shape True now d"
  shows "count_state R (m - s) d5 \<and> dec_log d5 = dec_log d \<and> triggerErrorCounter d5 = triggerErrorCounter d \<and>
    eventCount d5 = [0, 0]"
proof -
  have d5: "d5 = at_sync_point cls env shape (shaft_is_synchronized d) now d"
    by (simp add: d5_def count_edge_def)
  have before: "(m - 1 - s) mod R = R - 1 \<and> (m - s) div R = Suc ((m - 1 - s) div R) \<and>
      count_state R (m - 1 - s) (d\<lparr>eventCount := (eventCount d)[0 := eventCount d ! 0 - 1]\<rparr>)" if "m \<noteq> s"
  proof -
    have "m - s = Suc (m - 1 - s)" using assms(4) that by simp
    then have "Suc (m - 1 - s) mod R = 0" "(m - s) div R = Suc (m - 1 - s) div R" using assms(5) by metis+
    then show ?thesis
      using assms(8) that by (auto simp: mod_Suc div_Suc split: if_splits)
  qed
  have "eventCount d ! 0 = of_nat R" if "m \<noteq> s"
  proof -
    have "eventCount d ! 0 - 1 = of_nat (R - 1)"
      using before[OF that] assms(6) by (simp add: count_state_def)
    then show ?thesis using assms(1) by (simp add: of_nat_diff algebra_simps)
  qed
  then have good: "\<not> shaft_is_synchronized d \<or> \<not> validateEventCounters shape d"
    using assms(2,3,7,8) by (cases "m = s") (auto simp: validateEventCounters_def getExpectedEventCount_def
        PWM_PHASE_MAX_WAVE_PER_PWM_def numeral_2_eq_2 unat_of_nat32)
  note A = at_sync_point_good[OF good, where cls = cls and env = env and now = now, folded d5]
  have "crankSynchronizationCounter d5 = of_nat ((m - s) div R)"
    using before assms(8) A(4) by (cases "m = s") (auto simp: count_state_def)
  then show ?thesis
    using A assms(5) by (simp add: count_state_def)
qed

lemma count_edge_next:
  fixes cls env shape now
  assumes "s < m" "(m - s) mod R \<noteq> 0" "0 < length (eventCount d)"
    and "count_state R (m - 1 - s) (d\<lparr>eventCount := (eventCount d)[0 := eventCount d ! 0 - 1]\<rparr>)"
  defines "d5 \<equiv> count_edge cls env shape False now d"
  shows "count_state R (m - s) d5 \<and> dec_log d5 = dec_log d \<and> triggerErrorCounter d5 = triggerErrorCounter d \<and>
    eventCount d5 = eventCount d"
proof -
  have ms: "m - s = Suc (m - 1 - s)" using assms(1) by simp
  then have y: "(m - s) mod R = Suc ((m - 1 - s) mod R)" "(m - s) div R = (m - 1 - s) div R"
    using assms(2) by (auto simp: mod_Suc div_Suc split: if_splits)
  have "d5 = nextTriggerEvent True d"
    using assms(4) by (simp add: d5_def count_edge_def count_state_def)
  then show ?thesis
    using assms(3,4) by (auto simp: nextTriggerEvent_def count_state_def y algebra_simps)
qed

lemma count_edge_step:
  fixes cls env now
  assumes "rising_wheel shape R" "b \<longleftrightarrow> s \<le> m \<and> (m - s) mod R = 0"
    and "length (eventCount d) = 2" "eventCount d ! 1 = 0"
    and "if m \<le> s then \<not> shaft_is_synchronized d
         else count_state R (m - 1 - s) (d\<lparr>eventCount := (eventCount d)[0 := eventCount d ! 0 - 1]\<rparr>)"
  defines "d5 \<equiv> count_edge cls env shape b now d"
  shows "(if s \<le> m then count_state R (m - s) d5 else \<not> shaft_is_synchronized d5) \<and>
    dec_log d5 = dec_log d \<and> triggerErrorCounter d5 = triggerErrorCounter d \<and>
    length (eventCount d5) = 2 \<and> eventCount d5 ! 1 = 0"
proof -
  have W: "0 < R" "2 * R \<le> 0xFFFF" "expectedEventCount shape = [R, 0]"
    using assms(1) by (auto simp: rising_wheel_def)
  consider "b" | "m < s" "\<not> b" | "s < m" "(m - s) mod R \<noteq> 0" "\<not> b"
    using assms(2) by (metis cancel_comm_monoid_add_class.diff_cancel linorder_neqE_nat mod_0 order_refl less_imp_le)
  then show ?thesis
  proof cases
    case 1
    then show ?thesis
      using count_edge_sync[OF W, of s m d cls env now] assms(2-5) by (auto simp: d5_def)
  next
    case 2
    then show ?thesis
      using assms(3-5) by (auto simp: d5_def count_edge_def)
  next
    case 3
    then show ?thesis
      using count_edge_next[OF 3(1,2), of d cls env shape now] assms(3-5) by (auto simp: d5_def)
  qed
qed

text \<open>One edge of a train.\<close>

lemma decode_step:
  assumes L: "libfw_ok L" and wheel: "rising_wheel shape R" and ty: "ty \<noteq> TT_MIATA_VVT"
    and train: "edge_train t"
    and test: "\<forall>m. gap_test shape (tooth_gap t) m \<longleftrightarrow> s \<le> m \<and> (m - s) mod R = 0"
    and st: "train_state shape R t s msgs errs m d"
  shows "train_state shape R t s msgs errs (Suc m)
           (snd (decodeTriggerEvent L cls env shape ty PrimaryRising (t m) d))"
    and "fst (decodeTriggerEvent L cls env shape ty PrimaryRising (t m) d) =
           (if s \<le> m then Some (of_nat (2 * ((m - s) mod R))) else None)"
proof -
  let ?g = "tooth_gap t"
  let ?G = "nat (gapTrackingLength shape)"
  note S = st[unfolded train_state_def]
  have W: "getSize shape = 2 * R" "0 < R" "2 * R \<le> 0xFFFF" "?G \<le> 18"
    using wheel by (auto simp: rising_wheel_def)
  have time: "shaft_is_synchronized d \<longrightarrow> 0 \<le> t m - previousEventTimer d \<and>
      t m - previousEventTimer d \<le> NT_PER_SECOND div 10"
    using S train by (cases m) (auto simp: edge_train_def)
  have gm: "?g m = (if isFirstEvent d then 0 else t m - toothed_previous_time d)"
    using S by (auto simp: tooth_gap_def)
  have tpt: "toothed_previous_time d \<le> t m"
    using S tooth_gap_bounds(1)[OF train, of m] gm by (cases m) auto
  obtain d4 where d4: "decodeTriggerEvent L cls env shape ty PrimaryRising (t m) d =
       edge_result cls env shape (t m) ((count_edge cls env shape (gap_test shape ?g m) (t m) d4)
         \<lparr>toothDurations := shift_durations (gapTrackingLength shape) (toothDurations d4),
           toothed_previous_time := t m\<rparr>)"
    "shaft_is_synchronized d4 = shaft_is_synchronized d" "current_index d4 = current_index d"
    "eventCount d4 = (eventCount d)[0 := eventCount d ! 0 + 1]"
    "crankSynchronizationCounter d4 = crankSynchronizationCounter d"
    "dec_log d4 = dec_log d" "triggerErrorCounter d4 = triggerErrorCounter d" "\<not> isFirstEvent d4"
    "previousEventTimer d4 = t m" "length (toothDurations d4) = GAP_TRACKING_LENGTH + 1"
    "\<And>i. i \<le> ?G \<Longrightarrow> toothDurations d4 ! i = of_int (?g (m - i))"
    using S gm tooth_gap_bounds[OF train]
    by (rule_tac decode_rising[OF L wheel ty time tpt, where g = ?g and m = m and cls = cls and env = env]) (auto simp del: One_nat_def)
  define d5 where "d5 = count_edge cls env shape (gap_test shape ?g m) (t m) d4"
  have C: "(if s \<le> m then count_state R (m - s) d5 else \<not> shaft_is_synchronized d5) \<and>
      dec_log d5 = dec_log d4 \<and> triggerErrorCounter d5 = triggerErrorCounter d4 \<and>
      length (eventCount d5) = 2 \<and> eventCount d5 ! 1 = 0"
    unfolding d5_def
    by (rule count_edge_step[OF wheel test[rule_format]]) (use S d4 in \<open>auto simp: count_state_def\<close>)
  define d6 where "d6 = d5\<lparr>toothDurations := shift_durations (gapTrackingLength shape) (toothDurations d4),
      toothed_previous_time := t m\<rparr>"
  have F: "shaft_is_synchronized d6 = shaft_is_synchronized d5" "current_index d6 = current_index d5"
    "eventCount d6 = eventCount d5" "crankSynchronizationCounter d6 = crankSynchronizationCounter d5"
    "dec_log d6 = dec_log d5" "triggerErrorCounter d6 = triggerErrorCounter d5"
    "\<not> isFirstEvent d6" "previousEventTimer d6 = t m" "toothed_previous_time d6 = t m"
    "toothDurations d6 = shift_durations (gapTrackingLength shape) (toothDurations d4)"
    using d4(8,9) by (simp_all add: d6_def d5_def)
  have sh: "length (toothDurations d6) = 19"
    "\<And>i. 1 \<le> i \<Longrightarrow> i \<le> ?G \<Longrightarrow> toothDurations d6 ! i = of_int (?g (Suc m - i))"
    using shift_durations_nth[of "gapTrackingLength shape" "toothDurations d4"] d4(10,11) W(4)
    by (auto simp: F Suc_diff_le GAP_TRACKING_LENGTH_def)
  have mR: "(m - s) mod R < R" using W(2) by simp
  then have "2 * ((m - s) mod R) < 4294967296" using W(3) by linarith
  note u = unat_of_nat32[OF this]
  have valid: "\<not> shaft_is_synchronized d6 \<or> isValidIndex shape d6"
  proof (cases "s \<le> m")
    case True
    then have "current_index d6 = of_nat (2 * ((m - s) mod R))" using C by (simp add: F count_state_def)
    then show ?thesis using mR W(1) u by (simp add: isValidIndex_def del: of_nat_mult)
  qed (use C F in simp)
  note E = edge_result_good[OF valid, where cls = cls and env = env and now = "t m"]
  have dec: "decodeTriggerEvent L cls env shape ty PrimaryRising (t m) d = edge_result cls env shape (t m) d6"
    by (simp add: d4(1) d6_def d5_def)
  show "fst (decodeTriggerEvent L cls env shape ty PrimaryRising (t m) d) =
           (if s \<le> m then Some (of_nat (2 * ((m - s) mod R))) else None)"
    using C by (simp add: dec E F count_state_def split: if_splits)
  show "train_state shape R t s msgs errs (Suc m)
           (snd (decodeTriggerEvent L cls env shape ty PrimaryRising (t m) d))"
    using C sh S d4(6,7)
    by (auto simp: dec E F train_state_def count_state_def GAP_TRACKING_LENGTH_def)
qed

lemma reset_train_state:
  assumes "edge_train t" "rising_wheel shape R"
  shows "train_state shape R t s (dec_log d) 0 0 (resetState cls d)"
  using assms
  by (auto simp: rising_wheel_def train_state_def resetState_def resetState_base_def resetHasFullSync_def
      resetCurrentCycleState_def Let_def tooth_gap_def edge_train_def GAP_TRACKING_LENGTH_def
      PWM_PHASE_MAX_WAVE_PER_PWM_def nth_replicate numeral_2_eq_2 split: decoder_class.split)

lemma decode_run_train_state:
  assumes "libfw_ok L" "rising_wheel shape R" "ty \<noteq> TT_MIATA_VVT" "edge_train t"
    and "\<forall>m. gap_test shape (tooth_gap t) m \<longleftrightarrow> s \<le> m \<and> (m - s) mod R = 0"
    and "train_state shape R t s msgs errs 0 d"
  shows "train_state shape R t s msgs errs m (decode_run L cls env shape ty t d m)"
  using assms(6) decode_step(1)[OF assms(1-5)]
  by (induction m) auto

text \<open>The run of a decoder from its reset.\<close>

lemma decode_run_tracks:
  assumes "libfw_ok L" "rising_wheel shape R" "ty \<noteq> TT_MIATA_VVT" "edge_train t"
    and "\<forall>m. gap_test shape (tooth_gap t) m \<longleftrightarrow> s \<le> m \<and> (m - s) mod R = 0"
  shows "let D = decode_run L cls env shape ty t (resetState cls d) in
    fst (decodeTriggerEvent L cls (env m) shape ty PrimaryRising (t m) (D m)) =
      (if s \<le> m then Some (of_nat (2 * ((m - s) mod R))) else None) \<and>
    (s \<le> m \<longrightarrow> crankSynchronizationCounter (D (Suc m)) = of_nat ((m - s) div R)) \<and>
    triggerErrorCounter (D m) = 0 \<and> dec_log (D m) = dec_log d"
proof -
  have run: "train_state shape R t s (dec_log d) 0 m
      (decode_run L cls env shape ty t (resetState cls d) m)"
    by (rule decode_run_train_state[OF assms reset_train_state[OF assms(4,2)]])
  note step = decode_step[OF assms run, where cls = cls and env = "env m"]
  show ?thesis
    using step run by (auto simp: Let_def train_state_def count_state_def Suc_le_eq)
qed

text \<open>C2: if the gaps of a train of rising edges pass the gap test exactly at the first tooth of each
  cycle, starting with edge \<open>s\<close>, then a decoder that has been reset returns no index before edge \<open>s\<close>
  and, from edge \<open>s\<close> on, for ever, the index of each tooth (the rising edges have the even indices);
  it counts the cycles in its 16-bit counter, and no error and no message is ever produced.\<close>

theorem decoder_tracks_train:
  assumes "libfw_ok L" "rising_wheel shape R" "ty \<noteq> TT_MIATA_VVT" "edge_train t"
    and "\<forall>m. gap_test shape (tooth_gap t) m \<longleftrightarrow> s \<le> m \<and> (m - s) mod R = 0"
  shows "let D = decode_run L cls env shape ty t (resetState cls d) in
    fst (decodeTriggerEvent L cls (env m) shape ty PrimaryRising (t m) (D m)) =
      (if s \<le> m then Some (of_nat (2 * ((m - s) mod R))) else None) \<and>
    (s \<le> m \<longrightarrow> crankSynchronizationCounter (D (Suc m)) = of_nat ((m - s) div R)) \<and>
    triggerErrorCounter (D m) = 0 \<and> dec_log (D m) = dec_log d"
  by (rule decode_run_tracks[OF assms])

subsection \<open>Values for the witnesses\<close>

text \<open>A decoder in zeroed static memory.\<close>

definition blank_decoder :: decoder where
  "blank_decoder = \<lparr>triggerSyncGapRatio = Fin 0, crankSynchronizationCounter = 0, triggerErrorCounter = 0,
     triggerStateIndex = 0, edgeCountRise = 0, edgeCountFall = 0, shaft_is_synchronized = False,
     previousEventTimer = 0, toothDurations = replicate (GAP_TRACKING_LENGTH + 1) 0,
     toothed_previous_time = 0, current_index = 0, eventCount = [0, 0], orderingErrorCounter = 0,
     startOfCycleNt = 0, prevSignal = PrimaryFalling, totalEventCountBase = 0, isFirstEvent = True,
     m_timeSinceDecodeError = timer_init, m_camResyncCounter = 0, m_phaseAdjustment = 0,
     m_hasSynchronizedPhase = False, m_needsDisambiguation = False, m_expectDisambiguation = False,
     calls = [], dec_log = []\<rparr>"

definition example_env :: decoder_env where
  "example_env = \<lparr>env_rpm = 1000, env_now = 0, env_listener = True, env_fakeFullSync = False\<rparr>"

end
