(* ===== verification/Wheel_Sync.thy ===== *)
theory Wheel_Sync
  imports Decoder_Sync Trigger_Shapes
begin

text \<open>
  From the tooth counts of the configuration to a running decoder: the waveform that
  \<open>initializeTriggerWaveform\<close> builds for a missing-tooth wheel, turned at constant speed, makes the
  decoder synchronize on the first complete gap and follow the wheel from there.
\<close>

subsection \<open>The waveform of the wheel\<close>

definition gap_arrays_declared :: "trigger_waveform \<Rightarrow> bool" where
  "gap_arrays_declared s \<longleftrightarrow> length (syncronizationRatioFrom s) = GAP_TRACKING_LENGTH \<and>
     length (syncronizationRatioTo s) = GAP_TRACKING_LENGTH"

lemma setGap3_arrays:
  assumes "0 \<le> i" "i < 18"
  shows "syncronizationRatioFrom (setTriggerSynchronizationGap3 L i f t s) =
      (syncronizationRatioFrom s)[nat i := f]"
    and "syncronizationRatioTo (setTriggerSynchronizationGap3 L i f t s) =
      (syncronizationRatioTo s)[nat i := t]"
  by (simp_all add: setGap3_eq[OF assms] Let_def)

lemma fold_setGap3_arrays:
  assumes "set gs \<subseteq> {..<18}"
  shows "gap_arrays_declared (fold (\<lambda>i. setTriggerSynchronizationGap3 L (int i) f t) gs s) =
    gap_arrays_declared s"
  using assms
  by (induction gs arbitrary: s) (auto simp: gap_arrays_declared_def setGap3_arrays)

lemma started_gap_arrays:
  assumes "gap_arrays_declared s"
  shows "gap_arrays_declared (started L om edge s)"
proof -
  have G: "set [1..<GAP_TRACKING_LENGTH] \<subseteq> {..<18}"
    by (auto simp: GAP_TRACKING_LENGTH_def)
  have "gap_arrays_declared (setTriggerSynchronizationGap L 2 (s\<lparr>isSynchronizationNeeded := True,
      isSecondWheelCam := False, needSecondTriggerInput := False, shapeWithoutTdc := False,
      useOnlyRisingEdges := (edge = RiseOnly)\<rparr>))"
    using assms by (simp add: setTriggerSynchronizationGap_def gap_arrays_declared_def setGap3_arrays)
  then have "gap_arrays_declared (fold (\<lambda>i. setTriggerSynchronizationGap3 L (int i) NaN (Fin 100000))
      [1..<GAP_TRACKING_LENGTH] (setTriggerSynchronizationGap L 2 (s\<lparr>isSynchronizationNeeded := True,
      isSecondWheelCam := False, needSecondTriggerInput := False, shapeWithoutTdc := False,
      useOnlyRisingEdges := (edge = RiseOnly)\<rparr>)))"
    by (simp only: fold_setGap3_arrays[OF G])
  then show ?thesis
    unfolding started_def wf_initialize_def Let_def gap_arrays_declared_def
    by (simp del: One_nat_def)
qed

lemma skipped_wheel_shape:
  assumes "libfw_ok L" "6 < teeth" "0 < skipped" "skipped < teeth" "teeth < 4000" "teeth - skipped \<le> 140"
    and "arrays_declared s" "gap_arrays_declared s" "om \<noteq> OM_NONE"
  defines "s' \<equiv> initializeSkippedToothTrigger L teeth skipped om RiseOnly s"
  shows "gapTrackingLength s' = 2" "m_syncEdge s' = RiseOnly"
    and "syncronizationRatioFrom s' ! 0 = Fin (of_int (skipped + 1) * (3/4))"
    and "syncronizationRatioTo s' ! 0 = Fin (of_int (skipped + 1) * (5/4))"
    and "syncronizationRatioFrom s' ! 1 = Fin (3/4)" "syncronizationRatioTo s' ! 1 = Fin (5/4)"
    and "isSynchronizationNeeded s'" "useOnlyRisingEdges s'" "getSize s' = 2 * nat (teeth - skipped)"
    and "expectedEventCount s' = [nat (teeth - skipped), 0]"
proof -
  let ?n = "nat (teeth - skipped - 1)"
  let ?st = "started L om RiseOnly s"
  have n: "0 < teeth" "0 \<le> skipped" "int ?n < teeth"
    using assms by auto
  obtain s0 where s0: "s' = adds L (wheel_events teeth ?n) s0" "fresh s0"
    "useOnlyRisingEdges s0" "isSynchronizationNeeded s0 = (teeth > 2 \<and> skipped \<noteq> 0)"
    "s0 = (setSecondTriggerSynchronizationGap L 1 (setTriggerSynchronizationGap L (of_int (skipped + 1)) ?st))
       \<lparr>shapeWithoutTdc := False, isSynchronizationNeeded := True\<rparr>"
    using assms(2-4)
    by (rule_tac initializeSkippedToothTrigger_adds[OF n(1,2) assms(4,7,9), of L RiseOnly])
      (rule that; simp add: s'_def)
  have len: "length (wheel_events teeth ?n) \<le> PWM_PHASE_MAX_COUNT"
    using assms(6) by (simp add: wheel_events_def PWM_PHASE_MAX_COUNT_def)
  have ev: "events_ok (wheel_events teeth ?n)"
    by (rule events_ok_wheel_events[OF n(1) assms(5) n(3)])
  have s': "s' = mkwave s0 (wheel_events teeth ?n)"
    unfolding s0(1) by (rule adds_mkwave[OF assms(1) s0(2) ev len])
  have st: "gapTrackingLength ?st = 1" "m_syncEdge ?st = RiseOnly"
    "length (syncronizationRatioFrom ?st) = 18" "length (syncronizationRatioTo ?st) = 18"
    using started_gap_arrays[OF assms(8)]
    by (simp_all add: gap_arrays_declared_def GAP_TRACKING_LENGTH_def started_def wf_initialize_reads)
  note dev = TRIGGER_GAP_DEVIATION_LOW_def TRIGGER_GAP_DEVIATION_HIGH_def TRIGGER_GAP_DEVIATION_def
  have fields: "gapTrackingLength s0 = 2" "m_syncEdge s0 = RiseOnly"
    "syncronizationRatioFrom s0 ! 0 = Fin (of_int (skipped + 1) * (3/4))"
    "syncronizationRatioTo s0 ! 0 = Fin (of_int (skipped + 1) * (5/4))"
    "syncronizationRatioFrom s0 ! 1 = Fin (3/4)" "syncronizationRatioTo s0 ! 1 = Fin (5/4)"
    using st by (simp_all add: s0(5) gap_defs setGap3_reads setGap3_arrays dev libfw_maxI[OF assms(1)])
  show "gapTrackingLength s' = 2" "m_syncEdge s' = RiseOnly" "isSynchronizationNeeded s'" "useOnlyRisingEdges s'"
    using fields s0(3,4) assms(2,3) by (simp_all add: s')
  show "syncronizationRatioFrom s' ! 0 = Fin (of_int (skipped + 1) * (3/4))"
    "syncronizationRatioTo s' ! 0 = Fin (of_int (skipped + 1) * (5/4))"
    "syncronizationRatioFrom s' ! 1 = Fin (3/4)" "syncronizationRatioTo s' ! 1 = Fin (5/4)"
    using fields by (simp_all add: s0(1) adds_fields)
  show "getSize s' = 2 * nat (teeth - skipped)"
    using mkwave_inv[OF s0(2) ev len] assms(4) by (simp add: s' getSize_def wheel_events_def)
  have "expectedEventCount s0 = [0, 0]"
    using s0(2) by (simp add: fresh_def)
  then have "expectedEventCount s' = [Suc ?n, 0]"
    using s0(3) unfolding s' by (subst expectedEventCount_mkwave) (simp_all add: wheel_events_def)
  then show "expectedEventCount s' = [nat (teeth - skipped), 0]"
    using assms(4) by (simp add: Suc_nat_eq_nat_zadd1)
qed

subsection \<open>The wheel at constant speed\<close>

text \<open>The rising edges of a wheel with \<open>n\<close> teeth and \<open>k\<close> missing ones after the last, \<open>u\<close> ticks from
  tooth to tooth. The first edge the decoder sees is tooth \<open>p\<close>.\<close>

definition constant_speed :: "(nat \<Rightarrow> efitick_t) \<Rightarrow> nat \<Rightarrow> nat \<Rightarrow> nat \<Rightarrow> int \<Rightarrow> bool" where
  "constant_speed t p n k u \<longleftrightarrow>
     (\<forall>m. t (Suc m) = t m + (if (Suc m + p) mod n = 0 then (int k + 1) * u else u))"

text \<open>The first edge, not before the fourth, that comes after the gap.\<close>

definition first_sync :: "nat \<Rightarrow> nat \<Rightarrow> nat" where
  "first_sync p n = 3 + (n - (p + 3) mod n) mod n"

lemma first_sync_mod:
  assumes "0 < n"
  shows "(first_sync p n + p) mod n = 0" "3 \<le> first_sync p n" "first_sync p n < n + 3"
proof -
  let ?r = "(p + 3) mod n"
  have "(first_sync p n + p) mod n = (?r + (n - ?r)) mod n"
    unfolding first_sync_def by (metis (no_types) add.commute add.left_commute mod_add_eq mod_mod_trivial)
  also have "\<dots> = 0"
    using assms by (simp add: less_imp_le)
  finally show "(first_sync p n + p) mod n = 0" .
  show "3 \<le> first_sync p n" "first_sync p n < n + 3"
    using assms by (simp_all add: first_sync_def)
qed

lemma first_sync_iff:
  assumes "0 < n"
  shows "first_sync p n \<le> m \<and> (m - first_sync p n) mod n = 0 \<longleftrightarrow> 3 \<le> m \<and> (m + p) mod n = 0"
proof -
  let ?s = "first_sync p n"
  note F = first_sync_mod[OF assms, of p]
  have "(m + p) mod n = (m - ?s) mod n" if "?s \<le> m"
  proof -
    have "(m + p) mod n = ((m - ?s) + (?s + p)) mod n" using that by simp
    also have "\<dots> = (m - ?s) mod n" by (metis F(1) add_0_right mod_add_right_eq)
    finally show ?thesis .
  qed
  moreover have False if "3 \<le> m" "(m + p) mod n = 0" "m < ?s"
  proof -
    have "n dvd (?s + p) - (m + p)"
      using that(2) F(1) by (intro dvd_diff_nat) auto
    then have "n dvd ?s - m" by simp
    then have "n \<le> ?s - m"
      using that(3) by (intro dvd_imp_le) auto
    then show False
      using that F(3) by linarith
  qed
  ultimately show ?thesis
    using F(2) by (metis le_trans not_less)
qed

lemma constant_speed_gap:
  assumes "constant_speed t p n k u" "0 < m"
  shows "tooth_gap t m = (if (m + p) mod n = 0 then (int k + 1) * u else u)"
  using assms by (cases m) (auto simp: constant_speed_def tooth_gap_def)

text \<open>The gap test on the first edges, while the history of gaps is not yet complete.\<close>

lemma gap_test_start:
  assumes "gapTrackingLength shape = 2" "m < 3" "\<And>i. 0 \<le> tooth_gap t i"
    and "syncronizationRatioFrom shape ! 0 = Fin a" "syncronizationRatioTo shape ! 0 = Fin b"
    and "syncronizationRatioFrom shape ! 1 = Fin c" "syncronizationRatioTo shape ! 1 = Fin d"
  shows "\<not> gap_test shape (tooth_gap t) m"
proof -
  have "\<not> gap_in_range shape (tooth_gap t) 0 0" "\<not> gap_in_range shape (tooth_gap t) 1 0"
    "\<not> gap_in_range shape (tooth_gap t) 2 1"
    using assms(3)[of 1] assms(4-7) by (simp_all add: gap_in_range_def tooth_gap_def)
  moreover have "m = 0 \<or> m = 1 \<or> m = 2" using assms(2) by auto
  ultimately show ?thesis
    using assms(1) by (auto simp: gap_test_def numeral_2_eq_2 less_Suc_eq)
qed

lemma gap_test_two:
  assumes "gapTrackingLength shape = 2"
  shows "gap_test shape g m \<longleftrightarrow> gap_in_range shape g m 0 \<and> gap_in_range shape g m 1"
  using assms by (auto simp: gap_test_def numeral_2_eq_2 less_Suc_eq)

lemma two_short_gaps:
  fixes m n p :: nat
  assumes "3 \<le> n" "3 \<le> m" "(m + p) mod n = 0"
  shows "(m - 1 + p) mod n \<noteq> 0" "(m - 2 + p) mod n \<noteq> 0"
proof -
  have False if "(m - j + p) mod n = 0" "0 < j" "j < 3" for j
  proof -
    have "n dvd (m + p) - (m - j + p)"
      using that(1) assms(3) by (intro dvd_diff_nat) auto
    then have "n dvd j" using that assms(2) by simp
    then show False using that assms(1) by (auto dest: dvd_imp_le)
  qed
  from this[of 1] this[of 2] show "(m - 1 + p) mod n \<noteq> 0" "(m - 2 + p) mod n \<noteq> 0" by auto
qed

lemma gap_test_constant_speed:
  assumes "gapTrackingLength shape = 2" "0 < u" "0 < k" "3 \<le> n" "constant_speed t p n k u"
    and "syncronizationRatioFrom shape ! 0 = Fin ((of_nat k + 1) * (3/4))"
    and "syncronizationRatioTo shape ! 0 = Fin ((of_nat k + 1) * (5/4))"
    and "syncronizationRatioFrom shape ! 1 = Fin (3/4)" "syncronizationRatioTo shape ! 1 = Fin (5/4)"
  shows "gap_test shape (tooth_gap t) m \<longleftrightarrow> 3 \<le> m \<and> (m + p) mod n = 0"
proof (cases "3 \<le> m")
  case True
  then have G: "tooth_gap t (m - i) = (if (m - i + p) mod n = 0 then (int k + 1) * u else u)" if "i < 3" for i
    using that by (intro constant_speed_gap[OF assms(5)]) auto
  have u: "(0::rat) < of_int u" and k: "(1::rat) \<le> of_nat k"
    using assms(2,3) by auto
  note R = gap_test_two[OF assms(1)] gap_in_range_def assms(6-9)
  show ?thesis
  proof (cases "(m + p) mod n = 0")
    case True
    note two = two_short_gaps[OF assms(4) \<open>3 \<le> m\<close> True]
    then have "tooth_gap t m = (int k + 1) * u" "tooth_gap t (m - 1) = u" "tooth_gap t (m - 2) = u"
      using G[of 0] G[of 1] G[of 2] True by auto
    then show ?thesis
      using True \<open>3 \<le> m\<close> u k by (simp add: R field_simps add_pos_nonneg del: One_nat_def)
  next
    case False
    have "of_int u \<le> of_int (tooth_gap t (m - 1)) * ((rat_of_nat k + 1) * (3/4))"
    proof -
      have "u \<le> tooth_gap t (m - 1)" using G[of 1] assms(2) by (simp add: algebra_simps)
      then have "rat_of_int u * 1 \<le> of_int (tooth_gap t (m - 1)) * ((rat_of_nat k + 1) * (3/4))"
        using u k by (intro mult_mono) auto
      then show ?thesis by simp
    qed
    then have "\<not> gap_in_range shape (tooth_gap t) m 0"
      using G[of 0] False by (simp add: gap_in_range_def assms(6,7))
    then show ?thesis
      using False by (simp add: gap_test_two[OF assms(1)])
  qed
next
  case False
  have "0 \<le> tooth_gap t i" for i
    using constant_speed_gap[OF assms(5), of i] assms(2) by (cases i) (auto simp: tooth_gap_def)
  then show ?thesis
    using False gap_test_start[OF assms(1) _ _ assms(6-9), of m t] by simp
qed

subsection \<open>Configuration to decoding\<close>

lemma calculateExpectedEventCounts_sync_fields:
  "gapTrackingLength (calculateExpectedEventCounts s) = gapTrackingLength s"
  "m_syncEdge (calculateExpectedEventCounts s) = m_syncEdge s"
  "syncronizationRatioFrom (calculateExpectedEventCounts s) = syncronizationRatioFrom s"
  "syncronizationRatioTo (calculateExpectedEventCounts s) = syncronizationRatioTo s"
  "isSynchronizationNeeded (calculateExpectedEventCounts s) = isSynchronizationNeeded s"
  "useOnlyRisingEdges (calculateExpectedEventCounts s) = useOnlyRisingEdges s"
  "expectedEventCount (calculateExpectedEventCounts s) = expectedEventCount s"
  by (rule calculateExpectedEventCounts_changes[of s]; auto simp: only_logs_def)+

lemma custom_wheel_decodable:
  assumes "libfw_ok L" "arrays_declared w" "gap_arrays_declared w" "om \<noteq> OM_NONE"
    and "6 < teeth" "0 < skipped" "3 \<le> teeth - skipped" "teeth - skipped \<le> 140" "teeth < 4000"
  defines "shape \<equiv> initializeTriggerWaveform L om TT_TOOTHED_WHEEL teeth skipped w"
  shows "rising_wheel shape (nat (teeth - skipped))"
    and "gapTrackingLength shape = 2"
    and "syncronizationRatioFrom shape ! 0 = Fin ((of_nat (nat skipped) + 1) * (3/4))"
    and "syncronizationRatioTo shape ! 0 = Fin ((of_nat (nat skipped) + 1) * (5/4))"
    and "syncronizationRatioFrom shape ! 1 = Fin (3/4)" "syncronizationRatioTo shape ! 1 = Fin (5/4)"
proof -
  have "skipped < teeth" "arrays_declared (w\<lparr>shapeDefinitionError := False\<rparr>)"
    "gap_arrays_declared (w\<lparr>shapeDefinitionError := False\<rparr>)"
    using assms by (auto simp: gap_arrays_declared_def)
  note S = skipped_wheel_shape[OF assms(1,5,6) this(1) assms(9,8) this(2,3) assms(4)]
  note D = shape_def initializeTriggerWaveform_def Let_def initialize_shape_def getSize_def
    calculateExpectedEventCounts_sync_fields
  have "2 * nat (teeth - skipped) \<le> 65535"
    using assms(8) by auto
  then show "rising_wheel shape (nat (teeth - skipped))"
    using S assms(7) by (simp add: D rising_wheel_def)
  show "gapTrackingLength shape = 2"
    "syncronizationRatioFrom shape ! 0 = Fin ((of_nat (nat skipped) + 1) * (3/4))"
    "syncronizationRatioTo shape ! 0 = Fin ((of_nat (nat skipped) + 1) * (5/4))"
    "syncronizationRatioFrom shape ! 1 = Fin (3/4)" "syncronizationRatioTo shape ! 1 = Fin (5/4)"
    using S assms(6) by (simp_all add: D del: One_nat_def)
qed

text \<open>C1: a wheel with \<open>teeth\<close> tooth positions of which \<open>skipped\<close> are missing, turning at a constant
  speed of at least ten gaps per second, whatever tooth it starts at: the decoder that is configured
  from the two counts alone synchronizes at the first tooth after a gap that has three gaps before
  it, within \<open>n + 3\<close> edges, never returns an index before that, and returns for every later edge the
  index of its tooth, without an error and without a message.\<close>

theorem missing_tooth_wheel_synchronizes:
  assumes "libfw_ok L" "arrays_declared w" "gap_arrays_declared w" "om \<noteq> OM_NONE"
    and "6 < teeth" "0 < skipped" "3 \<le> teeth - skipped" "teeth - skipped \<le> 140" "teeth < 4000"
    and "n = nat (teeth - skipped)" "k = nat skipped"
    and "constant_speed t p n k u" "0 \<le> t 0" "0 < u" "(int k + 1) * u \<le> NT_PER_SECOND div 10"
  shows "let shape = initializeTriggerWaveform L om TT_TOOTHED_WHEEL teeth skipped w;
             D = decode_run L cls env shape TT_TOOTHED_WHEEL t (resetState cls d);
             s = first_sync p n
    in s < n + 3 \<and>
      fst (decodeTriggerEvent L cls (env m) shape TT_TOOTHED_WHEEL PrimaryRising (t m) (D m)) =
        (if s \<le> m then Some (of_nat (2 * ((m - s) mod n))) else None) \<and>
      (s \<le> m \<longrightarrow> crankSynchronizationCounter (D (Suc m)) = of_nat ((m - s) div n)) \<and>
      triggerErrorCounter (D m) = 0 \<and> dec_log (D m) = dec_log d"
proof -
  let ?shape = "initializeTriggerWaveform L om TT_TOOTHED_WHEEL teeth skipped w"
  have n: "3 \<le> n" "0 < k" using assms(6,7,10,11) by auto
  have W: "rising_wheel ?shape n"
    using custom_wheel_decodable(1)[OF assms(1-9)] assms(10) by simp
  note G = custom_wheel_decodable(2-)[OF assms(1-9), folded assms(11)]
  have step: "t (Suc i) - t i = u \<or> t (Suc i) - t i = (int k + 1) * u" for i
    using assms(12) by (auto simp: constant_speed_def)
  have ku: "u \<le> (int k + 1) * u" using assms(14) by (simp add: algebra_simps)
  have train: "edge_train t"
    unfolding edge_train_def using assms(13)
  proof (intro conjI allI)
    show "0 \<le> t (Suc i) - t i" "t (Suc i) - t i \<le> NT_PER_SECOND div 10" for i
      using step[of i] ku assms(14,15) by linarith+
  qed
  have "\<forall>m. gap_test ?shape (tooth_gap t) m \<longleftrightarrow> first_sync p n \<le> m \<and> (m - first_sync p n) mod n = 0"
    using gap_test_constant_speed[OF G(1) assms(14) n(2,1) assms(12) G(2-)] first_sync_iff n(1) by simp
  from decode_run_tracks[OF assms(1) W _ train this] first_sync_mod(3)[of n p] n(1)
  show ?thesis by (simp add: Let_def)
qed

text \<open>The 60-2 wheel at 4000 ticks a tooth (a millisecond, 1000 rpm), started at tooth 17.\<close>

definition example_train :: "nat \<Rightarrow> efitick_t" where
  "example_train m = 4000 * (int m + 2 * int ((m + 17) div 58))"

lemma example_train_constant_speed: "constant_speed example_train 17 58 2 4000"
  unfolding constant_speed_def example_train_def
proof
  fix m
  show "4000 * (int (Suc m) + 2 * int ((Suc m + 17) div 58)) = 4000 * (int m + 2 * int ((m + 17) div 58)) +
      (if (Suc m + 17) mod 58 = 0 then (int 2 + 1) * 4000 else 4000)"
    using div_Suc[of "m + 17" 58] by (simp add: algebra_simps)
qed

theorem missing_tooth_wheel_synchronizes_witness:
  "let shape = initializeTriggerWaveform libfw_example FOUR_STROKE_CRANK_SENSOR TT_TOOTHED_WHEEL 60 2 blank_waveform;
       D = decode_run libfw_example PrimaryDecoder (\<lambda>_. example_env) shape TT_TOOTHED_WHEEL example_train
             (resetState PrimaryDecoder blank_decoder);
       s = first_sync 17 58
   in s < 58 + 3 \<and>
      fst (decodeTriggerEvent libfw_example PrimaryDecoder example_env shape TT_TOOTHED_WHEEL PrimaryRising
             (example_train 50) (D 50)) =
        (if s \<le> 50 then Some (of_nat (2 * ((50 - s) mod 58))) else None) \<and>
      (s \<le> 50 \<longrightarrow> crankSynchronizationCounter (D (Suc 50)) = of_nat ((50 - s) div 58)) \<and>
      triggerErrorCounter (D 50) = 0 \<and> dec_log (D 50) = dec_log blank_decoder"
  by (rule missing_tooth_wheel_synchronizes[OF libfw_example_ok arrays_declared_blank, where u = 4000 and k = 2])
    (use example_train_constant_speed in \<open>simp_all add: gap_arrays_declared_def blank_waveform_def
      example_train_def NT_PER_SECOND_def US_TO_NT_MULTIPLIER_def\<close>)

lemma wheel_60_2:
  defines "shape \<equiv> initializeTriggerWaveform libfw_example FOUR_STROKE_CRANK_SENSOR TT_TOOTHED_WHEEL 60 2
    blank_waveform"
  shows "rising_wheel shape 58"
    and "\<forall>m. gap_test shape (tooth_gap example_train) m \<longleftrightarrow>
      first_sync 17 58 \<le> m \<and> (m - first_sync 17 58) mod 58 = 0"
proof -
  have "gap_arrays_declared blank_waveform"
    by (simp add: gap_arrays_declared_def blank_waveform_def)
  note W = custom_wheel_decodable[OF libfw_example_ok arrays_declared_blank this,
      of FOUR_STROKE_CRANK_SENSOR 60 2, folded shape_def]
  show "rising_wheel shape 58" using W(1) by simp
  have "gap_test shape (tooth_gap example_train) m \<longleftrightarrow> 3 \<le> m \<and> (m + 17) mod 58 = 0" for m
    by (rule gap_test_constant_speed[OF W(2) _ _ _ example_train_constant_speed])
      (use W(3-) in simp_all)
  then show "\<forall>m. gap_test shape (tooth_gap example_train) m \<longleftrightarrow>
      first_sync 17 58 \<le> m \<and> (m - first_sync 17 58) mod 58 = 0"
    using first_sync_iff[of 58 17] by simp
qed

lemma example_train_edges: "edge_train example_train"
proof -
  have step: "example_train (Suc m) - example_train m \<in> {4000, 12000}" for m
    using example_train_constant_speed by (auto simp: constant_speed_def)
  have "0 \<le> example_train (Suc m) - example_train m \<and> example_train (Suc m) - example_train m \<le> 400000" for m
    using step[of m] by auto
  then show ?thesis
    by (simp add: edge_train_def NT_PER_SECOND_def US_TO_NT_MULTIPLIER_def) (simp add: example_train_def)
qed

text \<open>The same wheel as a train of edges.\<close>

theorem decoder_tracks_train_witness:
  "let shape = initializeTriggerWaveform libfw_example FOUR_STROKE_CRANK_SENSOR TT_TOOTHED_WHEEL 60 2 blank_waveform;
       D = decode_run libfw_example PrimaryDecoder (\<lambda>_. example_env) shape TT_TOOTHED_WHEEL example_train
             (resetState PrimaryDecoder blank_decoder);
       s = first_sync 17 58
   in fst (decodeTriggerEvent libfw_example PrimaryDecoder example_env shape TT_TOOTHED_WHEEL PrimaryRising
             (example_train 100) (D 100)) =
        (if s \<le> 100 then Some (of_nat (2 * ((100 - s) mod 58))) else None) \<and>
      (s \<le> 100 \<longrightarrow> crankSynchronizationCounter (D (Suc 100)) = of_nat ((100 - s) div 58)) \<and>
      triggerErrorCounter (D 100) = 0 \<and> dec_log (D 100) = dec_log blank_decoder"
  unfolding Let_def
  by (rule decoder_tracks_train[OF libfw_example_ok wheel_60_2(1) _ example_train_edges wheel_60_2(2),
        where env = "\<lambda>_. example_env", unfolded Let_def]) simp

end
