(* ===== verification/Decoder_Errors.thy ===== *)
theory Decoder_Errors
  imports Decoder_Sync
begin

text \<open>
  The decoder away from the regular train: what the result of an edge means, what a wrong number of
  teeth does, how the phase of the engine cycle is resolved, and how \<^verbatim>\<open>trigger_central.cpp\<close> turns the
  index in the trigger cycle into one in the engine cycle.
\<close>

subsection \<open>The result of an edge\<close>

lemma edge_index:
  "case decodeTriggerEvent L cls env shape ty signal now d of
     (Some i, d') \<Rightarrow> shaft_is_synchronized d' \<and> current_index d' = i \<and> unat i < getSize shape
   | (None, d') \<Rightarrow> \<not> shaft_is_synchronized d'"
  by (auto simp: decodeTriggerEvent_def edge_result_def isValidIndex_def onTriggerError_def Let_def
      split: decoder_class.split)

text \<open>C3: whatever the edge and the state before it, an index is returned exactly when the decoder is
  synchronized after the edge; it is then the index of the current event, and it is inside the
  trigger cycle.\<close>

theorem decoded_index_valid:
  "case decodeTriggerEvent L cls env shape ty signal now d of
     (Some i, d') \<Rightarrow> shaft_is_synchronized d' \<and> current_index d' = i \<and> unat i < getSize shape
   | (None, d') \<Rightarrow> \<not> shaft_is_synchronized d'"
  by (rule edge_index)

subsection \<open>Too few or too many teeth\<close>

text \<open>A decoder in the middle of a train of edges: \<open>g\<close> are the gaps it has seen, newest at \<open>m\<close>.\<close>

definition mid_train :: "trigger_waveform \<Rightarrow> (nat \<Rightarrow> int) \<Rightarrow> nat \<Rightarrow> efitick_t \<Rightarrow> decoder \<Rightarrow> bool" where
  "mid_train shape g m now d \<longleftrightarrow>
     shaft_is_synchronized d \<and> \<not> isFirstEvent d \<and>
     previousEventTimer d = toothed_previous_time d \<and> toothed_previous_time d = now - g m \<and>
     (\<forall>i. 0 \<le> g i \<and> g i \<le> NT_PER_SECOND div 10) \<and>
     length (toothDurations d) = GAP_TRACKING_LENGTH + 1 \<and> length (eventCount d) = 2 \<and>
     (\<forall>i. 1 \<le> i \<and> i \<le> nat (gapTrackingLength shape) \<longrightarrow> toothDurations d ! i = of_int (g (m - i)))"

lemma mid_train_decode:
  assumes "libfw_ok L" "rising_wheel shape R" "ty \<noteq> TT_MIATA_VVT" "mid_train shape g m now d"
  obtains d4 where
    "decodeTriggerEvent L cls env shape ty PrimaryRising now d =
       edge_result cls env shape now ((count_edge cls env shape (gap_test shape g m) now d4)
         \<lparr>toothDurations := shift_durations (gapTrackingLength shape) (toothDurations d4),
           toothed_previous_time := now\<rparr>)"
    "shaft_is_synchronized d4" "current_index d4 = current_index d"
    "eventCount d4 = (eventCount d)[0 := eventCount d ! 0 + 1]"
    "dec_log d4 = dec_log d" "triggerErrorCounter d4 = triggerErrorCounter d"
proof -
  have ten: "NT_PER_SECOND div 10 = 400000"
    by (simp add: NT_PER_SECOND_def US_TO_NT_MULTIPLIER_def)
  note M = assms(4)[unfolded mid_train_def ten]
  have g: "0 \<le> g i \<and> g i \<le> 400000" for i using M by auto
  have time: "shaft_is_synchronized d \<longrightarrow> 0 \<le> now - previousEventTimer d \<and>
      now - previousEventTimer d \<le> NT_PER_SECOND div 10"
    and tpt: "toothed_previous_time d \<le> now"
    and gm: "g m = (if isFirstEvent d then 0 else now - toothed_previous_time d)"
    using M g[of m] by (auto simp: ten)
  show thesis
    using M g
    by (rule_tac decode_rising[OF assms(1-3) time tpt, where g = g and m = m and cls = cls and env = env])
      (auto simp: gm intro: that simp del: One_nat_def)
qed

text \<open>The warning of the overriding methods; the base class has none.\<close>

definition class_warning :: "decoder_class \<Rightarrow> obd_code \<Rightarrow> obd_code \<Rightarrow> diag_log" where
  "class_warning cls primary cam =
     (case cls of BaseDecoder \<Rightarrow> [] | PrimaryDecoder \<Rightarrow> [Warning primary] | VvtDecoder \<Rightarrow> [Warning cam])"

lemma at_sync_point_bad:
  fixes cls env now
  assumes "validateEventCounters shape d"
  defines "d' \<equiv> at_sync_point cls env shape True now d"
  shows "\<not> shaft_is_synchronized d'" "triggerErrorCounter d' = triggerErrorCounter d + 1"
    and "dec_log d' = dec_log d @ class_warning cls CUSTOM_PRIMARY_NOT_ENOUGH_TEETH CUSTOM_CAM_NOT_ENOUGH_TEETH"
    and "cls = PrimaryDecoder \<Longrightarrow> m_hasSynchronizedPhase d' = (\<not> m_needsDisambiguation d')"
  using assms(1)
  by (auto simp: d'_def at_sync_point_def onShaftSynchronization_def resetCurrentCycleState_def
      nextTriggerEvent_def setTriggerErrorState_def onNotEnoughTeeth_def dec_report_def onTriggerError_def
      resetHasFullSync_def call_def class_warning_def Let_def split: decoder_class.split)

text \<open>C4: a synchronization gap that comes after the wrong number of teeth (one was missed or one was
  noise): the edge returns no index, synchronization is dropped, the error counter goes up by one
  and the warning of the decoder's class is the one message.\<close>

theorem wrong_tooth_count_drops_sync:
  assumes "libfw_ok L" "rising_wheel shape R" "ty \<noteq> TT_MIATA_VVT" "mid_train shape g m now d"
    and "gap_test shape g m" "eventCount d ! 0 + 1 \<noteq> of_nat R"
  shows "let (r, d') = decodeTriggerEvent L cls env shape ty PrimaryRising now d in
    r = None \<and> \<not> shaft_is_synchronized d' \<and> triggerErrorCounter d' = triggerErrorCounter d + 1 \<and>
    dec_log d' = dec_log d @ class_warning cls CUSTOM_PRIMARY_NOT_ENOUGH_TEETH CUSTOM_CAM_NOT_ENOUGH_TEETH"
proof -
  obtain d4 where d4: "decodeTriggerEvent L cls env shape ty PrimaryRising now d =
       edge_result cls env shape now ((count_edge cls env shape (gap_test shape g m) now d4)
         \<lparr>toothDurations := shift_durations (gapTrackingLength shape) (toothDurations d4),
           toothed_previous_time := now\<rparr>)"
    "shaft_is_synchronized d4" "current_index d4 = current_index d"
    "eventCount d4 = (eventCount d)[0 := eventCount d ! 0 + 1]"
    "dec_log d4 = dec_log d" "triggerErrorCounter d4 = triggerErrorCounter d"
    by (rule mid_train_decode[OF assms(1-4), of cls env], rule that)
  have "unat (eventCount d4 ! 0) \<noteq> R"
    using assms(4,6) d4(4) by (auto simp: mid_train_def)
  then have bad: "validateEventCounters shape d4"
    using assms(2) by (simp add: validateEventCounters_def getExpectedEventCount_def rising_wheel_def
        PWM_PHASE_MAX_WAVE_PER_PWM_def numeral_2_eq_2)
  have "count_edge cls env shape (gap_test shape g m) now d4 = at_sync_point cls env shape True now d4"
    using assms(5) d4(2) by (simp add: count_edge_def)
  then show ?thesis
    using at_sync_point_bad[OF bad, of cls env now] d4(5,6)
    by (simp add: d4(1) edge_result_def Let_def)
qed

text \<open>An edge too many: it comes where the cycle should be over and does not pass the gap test.
  No index is returned, synchronization is dropped and, on a turning engine, the error counter goes
  up by one with the warning of the decoder's class.\<close>

theorem too_many_teeth_drops_sync:
  assumes "libfw_ok L" "rising_wheel shape R" "ty \<noteq> TT_MIATA_VVT" "mid_train shape g m now d"
    and "\<not> gap_test shape g m" "current_index d = of_nat (2 * (R - 1))" "env_rpm env \<noteq> 0"
  shows "let (r, d') = decodeTriggerEvent L cls env shape ty PrimaryRising now d in
    r = None \<and> \<not> shaft_is_synchronized d' \<and> triggerErrorCounter d' = triggerErrorCounter d + 1 \<and>
    dec_log d' = dec_log d @ class_warning cls CUSTOM_PRIMARY_TOO_MANY_TEETH CUSTOM_CAM_TOO_MANY_TEETH"
proof -
  obtain d4 where d4: "decodeTriggerEvent L cls env shape ty PrimaryRising now d =
       edge_result cls env shape now ((count_edge cls env shape (gap_test shape g m) now d4)
         \<lparr>toothDurations := shift_durations (gapTrackingLength shape) (toothDurations d4),
           toothed_previous_time := now\<rparr>)"
    "shaft_is_synchronized d4" "current_index d4 = current_index d"
    "eventCount d4 = (eventCount d)[0 := eventCount d ! 0 + 1]"
    "dec_log d4 = dec_log d" "triggerErrorCounter d4 = triggerErrorCounter d"
    by (rule mid_train_decode[OF assms(1-4), of cls env], rule that)
  have W: "0 < R" "2 * R \<le> 0xFFFF" "getSize shape = 2 * R"
    using assms(2) by (auto simp: rising_wheel_def)
  then have "current_index d + 1 + 1 = of_nat (2 * R)"
    by (simp add: assms(6) of_nat_diff algebra_simps)
  then have ix: "current_index (nextTriggerEvent True d4) = of_nat (2 * R)"
    by (simp add: nextTriggerEvent_def Let_def d4(3) algebra_simps)
  have "unat (of_nat (2 * R) :: 32 word) = 2 * R"
    using W(2) by (intro unat_of_nat32) simp
  then have "\<not> isValidIndex shape (nextTriggerEvent True d4)"
    unfolding isValidIndex_def ix W(3) by simp
  moreover have "count_edge cls env shape (gap_test shape g m) now d4 = nextTriggerEvent True d4"
    using assms(5) d4(2) by (simp add: count_edge_def)
  ultimately show ?thesis
    using assms(7) d4(2,5,6)
    by (simp add: d4(1) edge_result_def Let_def isValidIndex_def)
      (simp add: nextTriggerEvent_def setTriggerErrorState_def onTooManyTeeth_def dec_report_def
        onTriggerError_def resetHasFullSync_def call_def class_warning_def Let_def split: decoder_class.split)
qed

text \<open>A wheel with four teeth and one missing, and a decoder on it that has just seen a tooth.\<close>

definition example_shape :: trigger_waveform where
  "example_shape = blank_waveform\<lparr>useOnlyRisingEdges := True, m_syncEdge := RiseOnly,
     isSynchronizationNeeded := True, gapTrackingLength := 1,
     syncronizationRatioFrom := [Fin (3/2)], syncronizationRatioTo := [Fin (5/2)],
     expectedEventCount := [4, 0], wave := (wave blank_waveform)\<lparr>phaseCount := 8\<rparr>\<rparr>"

definition example_decoder :: "efitick_t \<Rightarrow> 32 word \<Rightarrow> decoder" where
  "example_decoder t n = blank_decoder\<lparr>shaft_is_synchronized := True, isFirstEvent := False,
     previousEventTimer := t, toothed_previous_time := t, toothDurations := [0, 4000] @ replicate 17 0,
     eventCount := [n, 0], current_index := 2 * n\<rparr>"

lemma example_shape_wheel: "rising_wheel example_shape 4"
  by (simp add: rising_wheel_def example_shape_def getSize_def)

lemma example_mid_train:
  assumes "\<And>i. i \<noteq> 10 \<Longrightarrow> g i = 4000" "0 \<le> g 10" "g 10 \<le> 400000"
  shows "mid_train example_shape g 10 100000 (example_decoder (100000 - g 10) n)"
proof -
  have "0 \<le> g i \<and> g i \<le> 400000" for i
    using assms by (cases "i = 10") auto
  then show ?thesis
    using assms(1) by (auto simp: mid_train_def example_decoder_def blank_decoder_def example_shape_def
        GAP_TRACKING_LENGTH_def NT_PER_SECOND_def US_TO_NT_MULTIPLIER_def le_Suc_eq)
qed

theorem wrong_tooth_count_drops_sync_witness:
  "let (r, d') = decodeTriggerEvent libfw_example VvtDecoder example_env example_shape TT_TOOTHED_WHEEL
       PrimaryRising 100000 (example_decoder (100000 - 8000) 1)
   in r = None \<and> \<not> shaft_is_synchronized d' \<and>
      triggerErrorCounter d' = triggerErrorCounter (example_decoder (100000 - 8000) 1) + 1 \<and>
      dec_log d' = dec_log (example_decoder (100000 - 8000) 1) @
        class_warning VvtDecoder CUSTOM_PRIMARY_NOT_ENOUGH_TEETH CUSTOM_CAM_NOT_ENOUGH_TEETH"
proof (rule wrong_tooth_count_drops_sync[OF libfw_example_ok example_shape_wheel])
  show "mid_train example_shape (\<lambda>i. if i = 10 then 8000 else 4000) 10 100000 (example_decoder (100000 - 8000) 1)"
    using example_mid_train[of "\<lambda>i. if i = 10 then 8000 else 4000" 1] by simp
  show "gap_test example_shape (\<lambda>i. if i = 10 then 8000 else 4000) 10"
    by (simp add: gap_test_def gap_in_range_def example_shape_def)
  show "eventCount (example_decoder (100000 - 8000) 1) ! 0 + 1 \<noteq> of_nat 4"
    by (simp add: example_decoder_def)
qed simp

theorem too_many_teeth_drops_sync_witness:
  "let (r, d') = decodeTriggerEvent libfw_example PrimaryDecoder example_env example_shape TT_TOOTHED_WHEEL
       PrimaryRising 100000 (example_decoder (100000 - 4000) 3)
   in r = None \<and> \<not> shaft_is_synchronized d' \<and>
      triggerErrorCounter d' = triggerErrorCounter (example_decoder (100000 - 4000) 3) + 1 \<and>
      dec_log d' = dec_log (example_decoder (100000 - 4000) 3) @
        class_warning PrimaryDecoder CUSTOM_PRIMARY_TOO_MANY_TEETH CUSTOM_CAM_TOO_MANY_TEETH"
proof (rule too_many_teeth_drops_sync[OF libfw_example_ok example_shape_wheel])
  show "mid_train example_shape (\<lambda>_. 4000) 10 100000 (example_decoder (100000 - 4000) 3)"
    using example_mid_train[of "\<lambda>_. 4000" 3] by simp
  show "\<not> gap_test example_shape (\<lambda>_. 4000) 10"
    by (simp add: gap_test_def gap_in_range_def example_shape_def)
  show "current_index (example_decoder (100000 - 4000) 3) = of_nat (2 * (4 - 1))"
    by (simp add: example_decoder_def)
qed (simp_all add: example_env_def)

subsection \<open>The phase of the engine cycle\<close>

text \<open>The shift, as the C code computes it and in closed form.\<close>

definition phase_shift :: "int \<Rightarrow> int \<Rightarrow> rat \<Rightarrow> decoder \<Rightarrow> rat" where
  "phase_shift divider remainder engineCycle d =
     of_int ((remainder - getCrankSynchronizationCounter d) mod divider) * engineCycle / of_int divider"

lemma phase_shift_code:
  fixes divider remainder :: int and engineCycle :: rat and d
  assumes "0 \<le> remainder" "remainder < divider" "0 < engineCycle"
  defines "s \<equiv> of_int (remainder - getCrankSynchronizationCounter d mod divider) * engineCycle / of_int divider"
  shows "(if s < 0 then s + engineCycle else s) = phase_shift divider remainder engineCycle d"
proof -
  let ?r = "getCrankSynchronizationCounter d mod divider"
  have r: "0 \<le> ?r" "?r < divider" using assms(1,2) by auto
  have "(remainder - getCrankSynchronizationCounter d) mod divider = (remainder - ?r) mod divider"
    by (simp add: mod_diff_right_eq)
  also have "\<dots> = (if remainder < ?r then remainder - ?r + divider else remainder - ?r)"
  proof (cases "remainder < ?r")
    case True
    have "(remainder - ?r) mod divider = (remainder - ?r + divider) mod divider" by simp
    also have "\<dots> = remainder - ?r + divider" using True r assms(1) by (intro mod_pos_pos_trivial) linarith+
    finally show ?thesis using True by simp
  next
    case False
    then show ?thesis using r assms(2) by (simp add: mod_pos_pos_trivial)
  qed
  finally have m: "(remainder - getCrankSynchronizationCounter d) mod divider =
    (if remainder < ?r then remainder - ?r + divider else remainder - ?r)" .
  have "s < 0 \<longleftrightarrow> remainder < ?r"
    using assms(1-3) by (simp add: s_def divide_less_0_iff mult_less_0_iff)
  then show ?thesis
    unfolding phase_shift_def m s_def using assms(1,2) by (auto simp: field_simps)
qed

lemma phase_shift_range:
  assumes "0 < divider" "0 < engineCycle"
  shows "0 \<le> phase_shift divider remainder engineCycle d" "phase_shift divider remainder engineCycle d < engineCycle"
proof -
  let ?m = "(remainder - getCrankSynchronizationCounter d) mod divider"
  have "0 \<le> ?m" "rat_of_int ?m < of_int divider" using assms(1) by auto
  then show "0 \<le> phase_shift divider remainder engineCycle d" "phase_shift divider remainder engineCycle d < engineCycle"
    using assms by (simp_all add: phase_shift_def divide_less_eq mult.commute)
qed

lemma syncEnginePhase_eq:
  assumes "1 < divider" "0 \<le> remainder" "remainder < divider" "0 < engineCycle"
  shows "syncEnginePhase divider remainder engineCycle d =
    (let shift = phase_shift divider remainder engineCycle d; d = d\<lparr>m_hasSynchronizedPhase := True\<rparr>
     in (shift, if of_nat (unat (m_phaseAdjustment d)) \<noteq> shift
                then d\<lparr>m_phaseAdjustment := of_int (c_trunc shift), m_camResyncCounter := m_camResyncCounter d + 1\<rparr>
                else d))"
  unfolding syncEnginePhase_def Let_def phase_shift_code[OF assms(2-4)]
  using assms(1,3) by simp

lemma phase_adjustment_stored:
  assumes "0 \<le> shift" "shift < 65536" "shift \<in> \<int>"
  shows "of_nat (unat (of_int (c_trunc shift) :: 16 word)) = shift"
proof -
  obtain n where n: "shift = of_int n" using assms(3) by (auto elim: Ints_cases)
  then have "0 \<le> n" "n < 65536" using assms(1,2) by auto
  then show ?thesis by (simp add: n unsigned_of_int take_bit_int_eq_self)
qed

text \<open>C5: with a divider above 1 and a remainder in its range, the shift is the number of trigger
  cycles that the counter is off, modulo the divider, times the length of a trigger cycle; so it
  lies in the engine cycle, and the phase counts as known afterwards. If the shift is a number of
  degrees that the 16-bit field can hold, resolving again at the same counter changes nothing.\<close>

theorem syncEnginePhase_resolves:
  assumes "1 < divider" "0 \<le> remainder" "remainder < divider" "0 < engineCycle"
  shows "let (shift, d') = syncEnginePhase divider remainder engineCycle d in
    shift = of_int ((remainder - getCrankSynchronizationCounter d) mod divider) * engineCycle / of_int divider \<and>
    0 \<le> shift \<and> shift < engineCycle \<and> m_hasSynchronizedPhase d' \<and>
    (shift \<in> \<int> \<and> shift < 65536 \<longrightarrow> syncEnginePhase divider remainder engineCycle d' = (shift, d'))"
proof -
  define s where "s = phase_shift divider remainder engineCycle d"
  have P: "phase_shift divider remainder engineCycle d' = s"
    if "crankSynchronizationCounter d' = crankSynchronizationCounter d" for d'
    using that by (simp add: s_def phase_shift_def getCrankSynchronizationCounter_def)
  have R: "0 \<le> s" "s < engineCycle"
    using phase_shift_range assms(1,4) by (simp_all add: s_def)
  define d' where "d' = snd (syncEnginePhase divider remainder engineCycle d)"
  have D: "syncEnginePhase divider remainder engineCycle d = (s, d')"
    "m_hasSynchronizedPhase d'" "crankSynchronizationCounter d' = crankSynchronizationCounter d"
    "m_phaseAdjustment d' = m_phaseAdjustment d \<and> of_nat (unat (m_phaseAdjustment d)) = s \<or>
     m_phaseAdjustment d' = of_int (c_trunc s)"
    by (auto simp: d'_def syncEnginePhase_eq[OF assms] Let_def s_def[symmetric])
  have "syncEnginePhase divider remainder engineCycle d' = (s, d')" if "s \<in> \<int> \<and> s < 65536"
  proof -
    have "of_nat (unat (m_phaseAdjustment d')) = s"
      using D(4) phase_adjustment_stored[of s] R that by auto
    then show ?thesis
      using D(2) by (simp add: syncEnginePhase_eq[OF assms, of d'] Let_def P[OF D(3)])
  qed
  then show ?thesis
    using R D(2) by (simp add: D(1)) (simp add: s_def phase_shift_def)
qed

theorem syncEnginePhase_resolves_witness:
  "let (shift, d') = syncEnginePhase 2 1 720 blank_decoder in
    shift = of_int ((1 - getCrankSynchronizationCounter blank_decoder) mod 2) * 720 / of_int 2 \<and>
    0 \<le> shift \<and> shift < 720 \<and> m_hasSynchronizedPhase d' \<and>
    (shift \<in> \<int> \<and> shift < 65536 \<longrightarrow> syncEnginePhase 2 1 720 d' = (shift, d'))"
  by (rule syncEnginePhase_resolves) simp_all

subsection \<open>The index in the engine cycle\<close>

text \<open>\<^verbatim>\<open>getCrankDivider\<close> and the first lines after the decoder call in
  \<^verbatim>\<open>TriggerCentral::handleShaftSignal\<close>.\<close>

definition getCrankDivider :: "operation_mode_e \<Rightarrow> int" where
  "getCrankDivider operationMode =
     (case operationMode of
        FOUR_STROKE_CRANK_SENSOR \<Rightarrow> 2
      | FOUR_STROKE_SYMMETRICAL_CRANK_SENSOR \<Rightarrow> 4
      | FOUR_STROKE_THREE_TIMES_CRANK_SENSOR \<Rightarrow> 6
      | FOUR_STROKE_TWELVE_TIMES_CRANK_SENSOR \<Rightarrow> 24
      | OM_NONE \<Rightarrow> 1
      | FOUR_STROKE_CAM_SENSOR \<Rightarrow> 1
      | TWO_STROKE \<Rightarrow> 1)"

definition triggerIndexForListeners :: "trigger_waveform \<Rightarrow> decoder \<Rightarrow> 32 word \<Rightarrow> int" where
  "triggerIndexForListeners shape d currentIndex =
     (let crankDivider = getCrankDivider (getWheelOperationMode shape);
          crankInternalIndex = getCrankSynchronizationCounter d mod crankDivider
      in uint currentIndex + crankInternalIndex * int (getSize shape))"

lemma getLength_divider: "int (getLength shape) = getCrankDivider (m_operationMode shape) * int (getSize shape)"
  by (cases "m_operationMode shape")
    (simp_all add: getLength_def getCrankDivider_def getEngineCycle_def getCycleDuration_def cycle_duration_def)

lemma getCrankDivider_pos: "0 < getCrankDivider om"
  by (cases om) (simp_all add: getCrankDivider_def)

text \<open>The index handed to the listeners is inside the engine cycle, \<open>getLength\<close> events long,
  whatever index the decoder returns.\<close>

theorem listener_index_in_cycle:
  "case decodeTriggerEvent L cls env shape ty signal now d of
     (Some i, d') \<Rightarrow> 0 \<le> triggerIndexForListeners shape d' i \<and> triggerIndexForListeners shape d' i < int (getLength shape)
   | (None, d') \<Rightarrow> True"
proof -
  obtain r d' where e: "decodeTriggerEvent L cls env shape ty signal now d = (r, d')"
    by (cases "decodeTriggerEvent L cls env shape ty signal now d")
  have "0 \<le> triggerIndexForListeners shape d' i \<and> triggerIndexForListeners shape d' i < int (getLength shape)"
    if "r = Some i" for i
  proof -
    let ?D = "getCrankDivider (m_operationMode shape)"
    let ?k = "getCrankSynchronizationCounter d' mod ?D"
    have k: "0 \<le> ?k" "?k + 1 \<le> ?D"
      using getCrankDivider_pos[of "m_operationMode shape"] by (auto simp: add1_zle_eq)
    have "unat i < getSize shape"
      using edge_index[where L = L and cls = cls and env = env and shape = shape and ty = ty and
          signal = signal and now = now and d = d] that by (simp add: e)
    then have "uint i < int (getSize shape)"
      unfolding unat_eq_nat_uint by (simp only: nat_less_iff[OF uint_ge_0])
    then have "uint i + ?k * int (getSize shape) < (?k + 1) * int (getSize shape)"
      by (simp add: algebra_simps)
    also have "\<dots> \<le> ?D * int (getSize shape)" using k(2) by (intro mult_right_mono) auto
    finally show ?thesis
      using k(1) by (simp add: triggerIndexForListeners_def getWheelOperationMode_def getLength_divider Let_def)
  qed
  then show ?thesis by (simp add: e split: option.split)
qed

text \<open>The counter of trigger cycles is 16 bits wide. From one cycle to the next the position in the
  engine cycle advances by one, except that with six or twenty-four trigger cycles per engine cycle
  it jumps when the counter wraps, because neither divides 65536.\<close>

theorem cycle_counter_wrap:
  "let D = getCrankDivider (getWheelOperationMode shape);
       d' = onShaftSynchronization True now shape d
   in getCrankSynchronizationCounter d' mod D = (getCrankSynchronizationCounter d mod D + 1) mod D \<longleftrightarrow>
      \<not> (crankSynchronizationCounter d = 0xFFFF \<and>
         (m_operationMode shape = FOUR_STROKE_THREE_TIMES_CRANK_SENSOR \<or>
          m_operationMode shape = FOUR_STROKE_TWELVE_TIMES_CRANK_SENSOR))"
proof -
  let ?c = "crankSynchronizationCounter d"
  let ?D = "getCrankDivider (m_operationMode shape)"
  have c': "crankSynchronizationCounter (onShaftSynchronization True now shape d) = ?c + 1"
    by (simp add: onShaftSynchronization_def resetCurrentCycleState_def Let_def)
  show ?thesis
  proof (cases "?c = 0xFFFF")
    case True
    then show ?thesis
      unfolding Let_def c' getCrankSynchronizationCounter_def getWheelOperationMode_def
      by (cases "m_operationMode shape") (simp_all add: getCrankDivider_def)
  next
    case False
    then have "uint ?c \<noteq> 65535"
      by (metis word_of_int_numeral word_of_int_uint)
    moreover have "uint ?c < 65536"
      using uint_lt2p[of ?c] by simp
    ultimately have "uint (?c + 1) = uint ?c + 1"
      by (simp add: uint_word_ariths(1))
    then show ?thesis
      using False unfolding Let_def c' getCrankSynchronizationCounter_def getWheelOperationMode_def
      by (simp add: mod_add_left_eq)
  qed
qed

end
