(* ===== verification/Timed_Queue.thy ===== *)
theory Timed_Queue
  imports Fome_Prelude "HOL-Library.Multiset"
begin

text \<open>
  The contract of a queue of timed events, as the executor relies on it: \<open>put\<close> adds an event, in a
  place the caller may choose, or refuses it, \<open>get\<close> hands out the earliest event if it is due. From the laws: draining the queue hands
  out the due events in order, and no event is lost or handed out twice, however insertions and
  executions are interleaved.
\<close>

locale timed_queue =
  fixes ok :: "'q \<Rightarrow> bool"
    and events :: "'q \<Rightarrow> (int \<times> 'a) list"
    and put :: "'s \<Rightarrow> int \<Rightarrow> 'a \<Rightarrow> 'q \<Rightarrow> 'q option"
    and get :: "int \<Rightarrow> 'q \<Rightarrow> (int \<times> 'a \<times> 'q) option"
    and late :: "'q \<Rightarrow> int"
  assumes events_sorted: "ok q \<Longrightarrow> sorted (map fst (events q))"
    and put_some: "ok q \<Longrightarrow> put s t a q = Some q' \<Longrightarrow>
      ok q' \<and> mset (events q') = add_mset (t, a) (mset (events q)) \<and> late q' = late q"
    and get_none: "ok q \<Longrightarrow> get now q = None \<Longrightarrow> events q = [] \<or> now + late q < fst (hd (events q))"
    and get_some: "ok q \<Longrightarrow> get now q = Some (t, a, q') \<Longrightarrow>
      ok q' \<and> events q = (t, a) # events q' \<and> t \<le> now + late q \<and> late q' = late q"
begin

primrec drain :: "nat \<Rightarrow> int \<Rightarrow> 'q \<Rightarrow> (int \<times> 'a) list \<times> 'q" where
  "drain 0 now q = ([], q)"
| "drain (Suc n) now q =
     (case get now q of None \<Rightarrow> ([], q)
      | Some (t, a, q') \<Rightarrow> (let (es, q'') = drain n now q' in ((t, a) # es, q'')))"

lemma drain_due:
  assumes "ok q" "length (events q) \<le> n" "drain n now q = (es, q')"
  shows "ok q' \<and> events q = es @ events q' \<and> late q' = late q \<and>
    (\<forall>e \<in> set es. fst e \<le> now + late q) \<and> (\<forall>e \<in> set (events q'). now + late q < fst e)"
  using assms
proof (induction n arbitrary: q es)
  case (Suc n)
  show ?case
  proof (cases "get now q")
    case None
    then have "\<forall>e \<in> set (events q). now + late q < fst e"
      using get_none[OF Suc.prems(1) None] events_sorted[OF Suc.prems(1)]
      by (cases "events q") auto
    then show ?thesis using None Suc.prems by simp
  next
    case (Some r)
    obtain t a q1 where r: "r = (t, a, q1)" by (cases r)
    obtain es1 where es1: "drain n now q1 = (es1, q')" "es = (t, a) # es1"
      using Suc.prems(3) Some r by (auto split: prod.splits)
    note g = get_some[OF Suc.prems(1) Some[unfolded r]]
    have "length (events q1) \<le> n" using g Suc.prems(2) by simp
    with Suc.IH[of q1 es1] g es1 show ?thesis by auto
  qed
qed simp

text \<open>Any interleaving of insertions and executions: \<open>ins\<close> was put, \<open>outs\<close> was handed out.\<close>

inductive history :: "'q \<Rightarrow> (int \<times> 'a) list \<Rightarrow> (int \<times> 'a) list \<Rightarrow> 'q \<Rightarrow> bool" where
  start: "history q [] [] q"
| insertion: "history q ins outs q1 \<Longrightarrow> put s t a q1 = Some q2 \<Longrightarrow> history q (ins @ [(t, a)]) outs q2"
| execution: "history q ins outs q1 \<Longrightarrow> get now q1 = Some (t, a, q2) \<Longrightarrow> history q ins (outs @ [(t, a)]) q2"

lemma history_conserves:
  assumes "history q ins outs q'" "ok q"
  shows "ok q' \<and> mset outs + mset (events q') = mset (events q) + mset ins"
  using assms
proof (induction rule: history.induct)
  case (insertion q ins outs q1 s t a q2)
  then show ?case using put_some[of q1 s t a q2] by simp
next
  case (execution q ins outs q1 now t a q2)
  then have "mset outs + mset (events q1) = mset (events q) + mset ins" "ok q1" by auto
  with get_some[OF this(2) execution.hyps(2)] show ?case by simp
qed simp

end

end
