(* ===== verification/Event_Queue.thy ===== *)
theory Event_Queue
  imports Timer_Model Timed_Queue
begin

text \<open>
  \<^verbatim>\<open>controllers/system/timer/event_queue.h\<close> and \<^verbatim>\<open>.cpp\<close>: the list of pending events, sorted by time and
  linked through the \<^verbatim>\<open>scheduling_s\<close> objects themselves, with a pool of 64 objects for callers that
  bring none. The objects live in an explicit store from addresses to records; the pool occupies the
  addresses 0 to 63, the objects of the callers the others. A loop over the links ends only if the
  links do, so the operations that contain one return \<open>None\<close> for "does not return".
  \<^verbatim>\<open>assertListIsSorted\<close> is empty outside tests and the simulator.
\<close>

subsection \<open>State\<close>

type_synonym addr = nat

record action_s =
  m_callback :: "nat option"
  m_param :: nat

definition null_action :: action_s where
  "null_action = \<lparr>m_callback = None, m_param = 0\<rparr>"

record scheduling_s =
  momentX :: efitick_t
  nextScheduling_s :: "addr option"
  sched_action :: action_s

type_synonym store = "addr \<Rightarrow> scheduling_s"

record event_queue =
  sched :: store
  m_head :: "addr option"
  m_lateDelay :: int
  m_freelist :: "addr option"
  schedulingUsedCount :: "8 word"
  queue_log :: diag_log

definition POOL_SIZE :: nat where "POOL_SIZE = 64"

definition is_scheduled :: "action_s \<Rightarrow> bool" where
  "is_scheduled a = (m_callback a \<noteq> None)"

definition set_next :: "addr \<Rightarrow> addr option \<Rightarrow> event_queue \<Rightarrow> event_queue" where
  "set_next a p q = q\<lparr>sched := (sched q)(a := (sched q a)\<lparr>nextScheduling_s := p\<rparr>)\<rparr>"

definition set_action :: "addr \<Rightarrow> action_s \<Rightarrow> event_queue \<Rightarrow> event_queue" where
  "set_action a act q = q\<lparr>sched := (sched q)(a := (sched q a)\<lparr>sched_action := act\<rparr>)\<rparr>"

definition set_moment :: "addr \<Rightarrow> efitick_t \<Rightarrow> event_queue \<Rightarrow> event_queue" where
  "set_moment a t q = q\<lparr>sched := (sched q)(a := (sched q a)\<lparr>momentX := t\<rparr>)\<rparr>"

definition queue_report :: "diag \<Rightarrow> event_queue \<Rightarrow> event_queue" where
  "queue_report d q = q\<lparr>queue_log := queue_log q @ [d]\<rparr>"

subsection \<open>The pool\<close>

definition getFreeScheduling :: "event_queue \<Rightarrow> addr option \<times> event_queue" where
  "getFreeScheduling q =
     (case m_freelist q of
        None \<Rightarrow> (None, q)
      | Some retVal \<Rightarrow>
          let q = q\<lparr>m_freelist := nextScheduling_s (sched q retVal)\<rparr>;
              q = set_next retVal None q
          in (Some retVal, q\<lparr>schedulingUsedCount := schedulingUsedCount q + 1\<rparr>))"

definition tryReturnScheduling :: "addr \<Rightarrow> event_queue \<Rightarrow> event_queue" where
  "tryReturnScheduling s q =
     (if 0 \<le> s \<and> s \<le> POOL_SIZE - 1
      then let q = set_next s (m_freelist q) q
           in q\<lparr>m_freelist := Some s, schedulingUsedCount := schedulingUsedCount q - 1\<rparr>
      else q)"

text \<open>The constructor, in a store in which no object has an action.\<close>

definition EventQueue :: "int \<Rightarrow> store \<Rightarrow> event_queue" where
  "EventQueue lateDelay s =
     (let q = \<lparr>sched = s, m_head = None, m_lateDelay = lateDelay, m_freelist = None,
               schedulingUsedCount = 0, queue_log = []\<rparr>;
          q = fold tryReturnScheduling [0..<POOL_SIZE] q
      in q\<lparr>schedulingUsedCount := 0\<rparr>)"

subsection \<open>Insertion and removal\<close>

partial_function (option) find_position :: "store \<Rightarrow> efitick_t \<Rightarrow> addr \<Rightarrow> addr option" where
  "find_position s timeX insertPosition =
     (case nextScheduling_s (s insertPosition) of
        None \<Rightarrow> Some insertPosition
      | Some n \<Rightarrow> if momentX (s n) < timeX then find_position s timeX n else Some insertPosition)"

text \<open>The part of \<^verbatim>\<open>insertTask\<close> that links an object into the list; true for a new head.\<close>

definition link_task :: "addr \<Rightarrow> efitick_t \<Rightarrow> event_queue \<Rightarrow> (bool \<times> event_queue) option" where
  "link_task s timeX q =
     (case m_head q of
        None \<Rightarrow> Some (True, (set_next s None q)\<lparr>m_head := Some s\<rparr>)
      | Some h \<Rightarrow>
          if timeX < momentX (sched q h)
          then Some (True, (set_next s (Some h) q)\<lparr>m_head := Some s\<rparr>)
          else case find_position (sched q) timeX h of
                 None \<Rightarrow> None
               | Some p \<Rightarrow>
                   let q = set_next s (nextScheduling_s (sched q p)) q
                   in Some (False, set_next p (Some s) q))"

definition insertTask :: "addr option \<Rightarrow> efitick_t \<Rightarrow> action_s \<Rightarrow> event_queue \<Rightarrow> (bool \<times> event_queue) option" where
  "insertTask scheduling timeX action q =
     (let (scheduling, q) = (case scheduling of None \<Rightarrow> getFreeScheduling q | Some s \<Rightarrow> (Some s, q)) in
      case scheduling of
        None \<Rightarrow> Some (False, q)
      | Some s \<Rightarrow>
          if \<not> is_scheduled action then Some (False, queue_report (FirmwareError CUSTOM_ERR_ASSERT) q)
          else if is_scheduled (sched_action (sched q s)) then Some (False, q)
          else link_task s timeX (set_action s action (set_moment s timeX q)))"

partial_function (option) find_previous :: "store \<Rightarrow> addr \<Rightarrow> addr \<Rightarrow> addr option option" where
  "find_previous s scheduling prev =
     (case nextScheduling_s (s prev) of
        None \<Rightarrow> Some None
      | Some current \<Rightarrow> if current \<noteq> scheduling then find_previous s scheduling current else Some (Some prev))"

definition remove_task :: "addr \<Rightarrow> event_queue \<Rightarrow> event_queue option" where
  "remove_task scheduling q =
     (if \<not> is_scheduled (sched_action (sched q scheduling)) then Some q
      else case m_head q of
        None \<Rightarrow> Some q
      | Some h \<Rightarrow>
          if scheduling = h
          then let q = q\<lparr>m_head := nextScheduling_s (sched q h)\<rparr>
               in Some (set_action scheduling null_action (set_next scheduling None q))
          else case find_previous (sched q) scheduling h of
                 None \<Rightarrow> None
               | Some None \<Rightarrow> Some (queue_report (FirmwareError OBD_PCM_Processor_Fault) q)
               | Some (Some prev) \<Rightarrow>
                   let q = set_next prev (nextScheduling_s (sched q scheduling)) q
                   in Some (set_action scheduling null_action (set_next scheduling None q)))"

subsection \<open>Execution\<close>

definition getNextEventTime :: "efitick_t \<Rightarrow> event_queue \<Rightarrow> efitick_t option" where
  "getNextEventTime nowX q =
     (case m_head q of
        None \<Rightarrow> None
      | Some h \<Rightarrow> if momentX (sched q h) \<le> nowX then Some (nowX + m_lateDelay q) else Some (momentX (sched q h)))"

text \<open>\<^verbatim>\<open>executeOne\<close> up to the call of the action: the action and its time (up to which the code spins),
  with the object unlinked, cleared and, if it is from the pool, returned.\<close>

definition take_due :: "efitick_t \<Rightarrow> event_queue \<Rightarrow> (efitick_t \<times> action_s \<times> event_queue) option" where
  "take_due now q =
     (case m_head q of
        None \<Rightarrow> None
      | Some current \<Rightarrow>
          if momentX (sched q current) > now + m_lateDelay q then None
          else let moment = momentX (sched q current);
                   q = q\<lparr>m_head := nextScheduling_s (sched q current)\<rparr>;
                   q = set_next current None q;
                   action = sched_action (sched q current);
                   q = set_action current null_action q
               in Some (moment, action, tryReturnScheduling current q))"

text \<open>\<open>exec\<close> is \<^verbatim>\<open>action.execute()\<close>: the callback, which may use the queue and the rest of the firmware,
  here \<open>w\<close>.\<close>

definition executeOne ::
  "(action_s \<Rightarrow> event_queue \<times> 'w \<Rightarrow> event_queue \<times> 'w) \<Rightarrow> efitick_t \<Rightarrow> event_queue \<times> 'w \<Rightarrow> bool \<times> event_queue \<times> 'w" where
  "executeOne exec now s =
     (let (q, w) = s in
      case take_due now q of
        None \<Rightarrow> (False, q, w)
      | Some (moment, action, q) \<Rightarrow> (True, exec action (q, w)))"

partial_function (option) execute_loop ::
  "(action_s \<Rightarrow> event_queue \<times> 'w \<Rightarrow> event_queue \<times> 'w) \<Rightarrow> efitick_t \<Rightarrow> nat \<Rightarrow> event_queue \<times> 'w \<Rightarrow>
     (nat \<times> event_queue \<times> 'w) option" where
  "execute_loop exec now executionCounter s =
     (let (didExecute, s) = executeOne exec now s in
      if didExecute then execute_loop exec now (executionCounter + 1) s else Some (executionCounter, s))"

definition executeAll ::
  "(action_s \<Rightarrow> event_queue \<times> 'w \<Rightarrow> event_queue \<times> 'w) \<Rightarrow> efitick_t \<Rightarrow> event_queue \<times> 'w \<Rightarrow>
     (nat \<times> event_queue \<times> 'w) option" where
  "executeAll exec now s = execute_loop exec now 0 s"

text \<open>\<^verbatim>\<open>LL_COUNT2\<close>\<close>

partial_function (option) count_links :: "store \<Rightarrow> addr option \<Rightarrow> nat \<Rightarrow> nat option" where
  "count_links s p result =
     (case p of None \<Rightarrow> Some result | Some a \<Rightarrow> count_links s (nextScheduling_s (s a)) (result + 1))"

definition queue_size :: "event_queue \<Rightarrow> nat option" where
  "queue_size q = count_links (sched q) (m_head q) 0"

partial_function (option) clear_queue :: "event_queue \<Rightarrow> event_queue option" where
  "clear_queue q =
     (case m_head q of
        None \<Rightarrow> Some (q\<lparr>m_head := None\<rparr>)
      | Some x \<Rightarrow>
          let q = q\<lparr>m_head := nextScheduling_s (sched q x)\<rparr>;
              q = set_moment x 0 q;
              q = set_next x None q
          in clear_queue (set_action x null_action q))"

subsection \<open>The invariant\<close>

text \<open>The addresses \<open>as\<close> are linked one after the other from \<open>p\<close> to the end of a list.\<close>

fun chain :: "store \<Rightarrow> addr option \<Rightarrow> addr list \<Rightarrow> bool" where
  "chain s p [] = (p = None)"
| "chain s p (a # as) = (p = Some a \<and> chain s (nextScheduling_s (s a)) as)"

text \<open>The queue holds the objects \<open>xs\<close> in order of time and the free list the pool objects \<open>fs\<close>. An object
  has an action exactly when it is in the queue.\<close>

definition queue_rep :: "event_queue \<Rightarrow> addr list \<Rightarrow> addr list \<Rightarrow> bool" where
  "queue_rep q xs fs \<longleftrightarrow>
     chain (sched q) (m_head q) xs \<and> chain (sched q) (m_freelist q) fs \<and> distinct (xs @ fs) \<and>
     sorted (map (\<lambda>a. momentX (sched q a)) xs) \<and>
     (\<forall>a. is_scheduled (sched_action (sched q a)) \<longleftrightarrow> a \<in> set xs) \<and>
     set fs \<subseteq> {..<POOL_SIZE}"

text \<open>Every object of the pool is in the queue or free, and the counter of used objects is right.\<close>

definition pool_complete :: "event_queue \<Rightarrow> addr list \<Rightarrow> addr list \<Rightarrow> bool" where
  "pool_complete q xs fs \<longleftrightarrow> {..<POOL_SIZE} \<subseteq> set xs \<union> set fs \<and>
     schedulingUsedCount q = of_nat (POOL_SIZE - length fs)"

lemma chain_append:
  "chain s p (xs @ ys) \<longleftrightarrow>
     (if xs = [] then chain s p ys
      else p = Some (hd xs) \<and> chain s (nextScheduling_s (s (last xs))) ys \<and>
           (\<forall>i. Suc i < length xs \<longrightarrow> nextScheduling_s (s (xs ! i)) = Some (xs ! Suc i)))"
proof (induction xs arbitrary: p)
  case (Cons x xs)
  then show ?case
    by (cases xs) (auto simp: nth_Cons split: nat.splits)
qed simp

lemma chain_unique: "chain s p xs \<Longrightarrow> chain s p ys \<Longrightarrow> xs = ys"
  by (induction xs arbitrary: p ys) (case_tac ys, auto)+

lemma chain_cong:
  "(\<And>a. a \<in> set xs \<Longrightarrow> nextScheduling_s (s a) = nextScheduling_s (s' a)) \<Longrightarrow> chain s p xs = chain s' p xs"
  by (induction xs arbitrary: p) auto

lemma chain_insert:
  assumes "chain s p (xs @ ys)" "distinct (xs @ ys)" "xs \<noteq> []" "a \<notin> set (xs @ ys)"
    and "\<And>x. x \<noteq> a \<Longrightarrow> x \<noteq> last xs \<Longrightarrow> nextScheduling_s (s' x) = nextScheduling_s (s x)"
    and "nextScheduling_s (s' a) = nextScheduling_s (s (last xs))" "nextScheduling_s (s' (last xs)) = Some a"
  shows "chain s' p (xs @ a # ys)"
  using assms
proof (induction xs arbitrary: p)
  case (Cons x xs)
  show ?case
  proof (cases "xs = []")
    case True
    have "chain s' q ys = chain s q ys" for q
      using Cons.prems True by (intro chain_cong Cons.prems(5)) auto
    then show ?thesis using Cons.prems True by simp
  next
    case False
    then have "nextScheduling_s (s' x) = nextScheduling_s (s x)"
      using Cons.prems by (intro Cons.prems(5)) auto
    then show ?thesis
      using Cons False by simp
  qed
qed simp

lemma chain_delete:
  assumes "chain s p (xs @ a # ys)" "distinct (xs @ a # ys)" "xs \<noteq> []"
    and "\<And>x. x \<noteq> a \<Longrightarrow> x \<noteq> last xs \<Longrightarrow> nextScheduling_s (s' x) = nextScheduling_s (s x)"
    and "nextScheduling_s (s' (last xs)) = nextScheduling_s (s a)"
  shows "chain s' p (xs @ ys)"
  using assms
proof (induction xs arbitrary: p)
  case (Cons x xs)
  show ?case
  proof (cases "xs = []")
    case True
    have "chain s' q ys = chain s q ys" for q
      using Cons.prems True by (intro chain_cong Cons.prems(4)) auto
    then show ?thesis using Cons.prems True by simp
  next
    case False
    then have "nextScheduling_s (s' x) = nextScheduling_s (s x)"
      using Cons.prems by (intro Cons.prems(4)) auto
    then show ?thesis
      using Cons False by simp
  qed
qed simp

subsection \<open>The loops end\<close>

text \<open>Where a task goes: before the head if it is earlier, otherwise behind the head and the tasks after
  it that are strictly earlier.\<close>

definition task_position :: "(addr \<Rightarrow> efitick_t) \<Rightarrow> efitick_t \<Rightarrow> addr list \<Rightarrow> nat" where
  "task_position time t xs =
     (case xs of [] \<Rightarrow> 0
      | y # ys \<Rightarrow> if t < time y then 0 else Suc (length (takeWhile (\<lambda>a. time a < t) ys)))"

lemma find_position_chain:
  assumes "chain s (Some p) (p # ys)"
  shows "find_position s t p = Some (last (p # takeWhile (\<lambda>a. momentX (s a) < t) ys))"
  using assms
proof (induction ys arbitrary: p)
  case Nil
  then show ?case by (subst find_position.simps) simp
next
  case (Cons y ys)
  then show ?case by (subst find_position.simps) auto
qed

lemma find_previous_chain:
  assumes "chain s (Some p) (p # ys)"
  shows "find_previous s x p =
    Some (if x \<in> set ys then Some (last (p # takeWhile (\<lambda>a. a \<noteq> x) ys)) else None)"
  using assms
proof (induction ys arbitrary: p)
  case Nil
  then show ?case by (subst find_previous.simps) simp
next
  case (Cons y ys)
  then show ?case by (subst find_previous.simps) auto
qed

lemma count_links_chain: "chain s p xs \<Longrightarrow> count_links s p n = Some (n + length xs)"
  by (induction xs arbitrary: p n; subst count_links.simps) auto

subsection \<open>Reading the store after an update\<close>

lemma set_next_reads [simp]:
  "nextScheduling_s (sched (set_next a p q) x) = (if x = a then p else nextScheduling_s (sched q x))"
  "momentX (sched (set_next a p q) x) = momentX (sched q x)"
  "sched_action (sched (set_next a p q) x) = sched_action (sched q x)"
  "m_head (set_next a p q) = m_head q" "m_freelist (set_next a p q) = m_freelist q"
  "m_lateDelay (set_next a p q) = m_lateDelay q" "queue_log (set_next a p q) = queue_log q"
  "schedulingUsedCount (set_next a p q) = schedulingUsedCount q"
  by (simp_all add: set_next_def)

lemma set_action_reads [simp]:
  "nextScheduling_s (sched (set_action a act q) x) = nextScheduling_s (sched q x)"
  "momentX (sched (set_action a act q) x) = momentX (sched q x)"
  "sched_action (sched (set_action a act q) x) = (if x = a then act else sched_action (sched q x))"
  "m_head (set_action a act q) = m_head q" "m_freelist (set_action a act q) = m_freelist q"
  "m_lateDelay (set_action a act q) = m_lateDelay q" "queue_log (set_action a act q) = queue_log q"
  "schedulingUsedCount (set_action a act q) = schedulingUsedCount q"
  by (simp_all add: set_action_def)

lemma set_moment_reads [simp]:
  "nextScheduling_s (sched (set_moment a t q) x) = nextScheduling_s (sched q x)"
  "momentX (sched (set_moment a t q) x) = (if x = a then t else momentX (sched q x))"
  "sched_action (sched (set_moment a t q) x) = sched_action (sched q x)"
  "m_head (set_moment a t q) = m_head q" "m_freelist (set_moment a t q) = m_freelist q"
  "m_lateDelay (set_moment a t q) = m_lateDelay q" "queue_log (set_moment a t q) = queue_log q"
  "schedulingUsedCount (set_moment a t q) = schedulingUsedCount q"
  by (simp_all add: set_moment_def)

lemma queue_log_update_reads [simp]:
  "sched (queue_report d q) = sched q" "m_head (queue_report d q) = m_head q"
  "m_freelist (queue_report d q) = m_freelist q" "m_lateDelay (queue_report d q) = m_lateDelay q"
  "schedulingUsedCount (queue_report d q) = schedulingUsedCount q"
  by (simp_all add: queue_report_def)

lemma is_scheduled_null [simp]: "\<not> is_scheduled null_action"
  by (simp add: is_scheduled_def null_action_def)

subsection \<open>Insertion\<close>

definition insert_task_at :: "(addr \<Rightarrow> efitick_t) \<Rightarrow> efitick_t \<Rightarrow> addr \<Rightarrow> addr list \<Rightarrow> addr list" where
  "insert_task_at time t a xs = (let i = task_position time t xs in take i xs @ a # drop i xs)"

lemma set_insert_task_at [simp]: "set (insert_task_at time t a xs) = insert a (set xs)"
proof -
  have "set (take i xs) \<union> set (drop i xs) = set xs" for i
    by (metis append_take_drop_id set_append)
  then show ?thesis by (auto simp: insert_task_at_def Let_def)
qed

lemma distinct_insert_task_at [simp]:
  "distinct (insert_task_at time t a xs) \<longleftrightarrow> distinct xs \<and> a \<notin> set xs"
proof -
  have "distinct (take i xs @ a # drop i xs) \<longleftrightarrow> distinct (a # xs)" for i
    by (metis append_take_drop_id distinct_card length_append length_Cons set_append
        Un_insert_right card_distinct list.set(2) add_Suc_right)
  then show ?thesis by (auto simp: insert_task_at_def Let_def)
qed

lemma insert_task_at_cong:
  "(\<And>x. x \<in> set xs \<Longrightarrow> f x = g x) \<Longrightarrow> insert_task_at f t a xs = insert_task_at g t a xs"
proof (cases xs)
  case (Cons y ys)
  assume "\<And>x. x \<in> set xs \<Longrightarrow> f x = g x"
  then have "f y = g y" "takeWhile (\<lambda>a. f a < t) ys = takeWhile (\<lambda>a. g a < t) ys"
    using Cons by (auto intro: takeWhile_cong)
  then show ?thesis using Cons by (simp add: insert_task_at_def task_position_def)
qed (simp add: insert_task_at_def task_position_def)

lemma insert_task_at_Cons:
  "insert_task_at time t a (y # ys) =
     (if t < time y then a # y # ys
      else y # takeWhile (\<lambda>b. time b < t) ys @ a # dropWhile (\<lambda>b. time b < t) ys)"
  by (simp add: insert_task_at_def task_position_def takeWhile_eq_take[symmetric] dropWhile_eq_drop[symmetric])

lemma sorted_insert_task_at:
  assumes "sorted (map time xs)" "time a = t"
  shows "sorted (map time (insert_task_at time t a xs))"
proof (cases xs)
  case (Cons y ys)
  let ?P = "\<lambda>b. time b < t"
  have sy: "sorted (map time (takeWhile ?P ys @ dropWhile ?P ys))" "\<forall>b \<in> set ys. time y \<le> time b"
    using assms(1) Cons by auto
  have d: "t \<le> time b" if b: "b \<in> set (dropWhile ?P ys)" for b
  proof -
    define ds where "ds = dropWhile ?P ys"
    obtain c cs where c: "ds = c # cs" using b unfolding ds_def[symmetric] by (cases ds) auto
    have "\<not> ?P (hd ds)" using c hd_dropWhile[of ?P ys] unfolding ds_def by simp
    moreover have "sorted (map time ds)" using sy(1) unfolding ds_def map_append sorted_append by blast
    ultimately show ?thesis using b c unfolding ds_def[symmetric] by auto
  qed
  have st: "sorted (map time (takeWhile ?P ys))" "sorted (map time (dropWhile ?P ys))"
    using sy(1) unfolding map_append sorted_append by auto
  have "time b \<le> t" "time b \<le> time c" if "b \<in> set (takeWhile ?P ys)" "c \<in> set (dropWhile ?P ys)" for b c
    using set_takeWhileD[OF that(1)] d[OF that(2)] by auto
  moreover have "time y \<le> time b" if "b \<in> set (takeWhile ?P ys) \<union> set (dropWhile ?P ys)" for b
    using that sy(2) by (auto dest: set_takeWhileD set_dropWhileD)
  moreover have "time b \<le> t" if "b \<in> set (takeWhile ?P ys)" for b
    using set_takeWhileD[OF that] by auto
  moreover have "sorted (map time ys)" "\<forall>b \<in> set ys. time y \<le> time b"
    using sy by auto
  ultimately show ?thesis
    using assms(2) Cons st d sy(2) by (auto simp: insert_task_at_Cons sorted_append intro: less_imp_le order_trans)
qed (use assms in \<open>simp add: insert_task_at_def\<close>)

text \<open>The store after an update that leaves the links of the free list alone.\<close>

lemma chain_free_unchanged:
  "chain (sched q) p fs \<Longrightarrow> a \<notin> set fs \<Longrightarrow> chain (sched (set_next a r q)) p fs"
  "chain (sched q) p fs \<Longrightarrow> chain (sched (set_action a act q)) p fs"
  "chain (sched q) p fs \<Longrightarrow> chain (sched (set_moment a t q)) p fs"
  by (subst chain_cong; force)+

lemma link_task_rep:
  assumes rep: "queue_rep q xs fs" and a: "a \<notin> set xs" "a \<notin> set fs" and act: "is_scheduled act"
  obtains q' where "link_task a t (set_action a act (set_moment a t q)) =
      Some (task_position (\<lambda>x. momentX (sched q x)) t xs = 0, q')"
    "queue_rep q' (insert_task_at (\<lambda>x. momentX (sched q x)) t a xs) fs"
    "\<And>x. momentX (sched q' x) = (if x = a then t else momentX (sched q x))"
    "\<And>x. sched_action (sched q' x) = (if x = a then act else sched_action (sched q x))"
    "queue_log q' = queue_log q" "schedulingUsedCount q' = schedulingUsedCount q" "m_lateDelay q' = m_lateDelay q"
proof -
  let ?q = "set_action a act (set_moment a t q)"
  let ?time = "\<lambda>x. momentX (sched q x)"
  note R = rep[unfolded queue_rep_def]
  have ch: "chain (sched ?q) (m_head q) xs" "chain (sched ?q) (m_freelist q) fs"
    using R by (auto intro: chain_free_unchanged)
  have time: "?time x = momentX (sched ?q x)" if "x \<in> set xs" for x
    using that a by auto
  define q' where "q' = (case link_task a t ?q of Some (b, q') \<Rightarrow> q' | None \<Rightarrow> q)"
  have shape: "link_task a t ?q = Some (task_position ?time t xs = 0, q') \<and>
      chain (sched q') (m_head q') (insert_task_at ?time t a xs) \<and> chain (sched q') (m_freelist q') fs \<and>
      (\<forall>x. momentX (sched q' x) = (if x = a then t else ?time x)) \<and>
      (\<forall>x. sched_action (sched q' x) = (if x = a then act else sched_action (sched q x))) \<and>
      queue_log q' = queue_log q \<and> schedulingUsedCount q' = schedulingUsedCount q \<and> m_lateDelay q' = m_lateDelay q"
  proof (cases xs)
    case Nil
    then show ?thesis
      using R ch a by (auto simp: q'_def link_task_def task_position_def insert_task_at_def intro: chain_free_unchanged)
  next
    case (Cons y ys)
    then have h: "m_head q = Some y" "a \<noteq> y" "y \<notin> set fs" using R a by auto
    show ?thesis
    proof (cases "t < ?time y")
      case True
      have "chain (sched (set_next a (Some y) ?q)) (Some y) xs"
        using ch(1) a(1) h(1) by (auto intro: chain_free_unchanged)
      then show ?thesis
        using True Cons h ch(2) a
        by (auto simp: q'_def link_task_def task_position_def insert_task_at_def intro: chain_free_unchanged)
    next
      case False
      let ?P = "\<lambda>b. momentX (sched ?q b) < t"
      define us where "us = y # takeWhile ?P ys"
      define vs where "vs = dropWhile ?P ys"
      have uv: "xs = us @ vs" "us \<noteq> []" by (simp_all add: us_def vs_def Cons)
      have ins: "insert_task_at ?time t a xs = us @ a # vs"
      proof -
        have "insert_task_at ?time t a xs = insert_task_at (\<lambda>x. momentX (sched ?q x)) t a xs"
          using time by (rule insert_task_at_cong)
        then show ?thesis
          using False h by (simp add: Cons insert_task_at_Cons us_def vs_def)
      qed
      have "find_position (sched ?q) t y = Some (last us)"
        unfolding us_def using ch(1) h(1) Cons by (intro find_position_chain) auto
      then have link: "link_task a t ?q =
          Some (False, set_next (last us) (Some a) (set_next a (nextScheduling_s (sched ?q (last us))) ?q))"
        using False h by (simp add: link_task_def)
      have lu: "last us \<in> set xs" using uv by auto
      then have "last us \<noteq> a" "last us \<notin> set fs" using a R by auto
      then have "chain (sched (set_next (last us) (Some a) (set_next a (nextScheduling_s (sched ?q (last us))) ?q)))
          (m_head q) (us @ a # vs)"
        using ch(1) uv R a by (intro chain_insert[of "sched ?q"]) auto
      then show ?thesis
        using link ins False \<open>last us \<noteq> a\<close> \<open>last us \<notin> set fs\<close> ch(2) a
        by (auto simp: q'_def task_position_def Cons intro!: chain_free_unchanged)
    qed
  qed
  have "queue_rep q' (insert_task_at ?time t a xs) fs"
    unfolding queue_rep_def
  proof (intro conjI allI)
    have "map (\<lambda>x. momentX (sched q' x)) xs = map ?time xs"
      using shape a(1) by auto
    then have "sorted (map (\<lambda>x. momentX (sched q' x)) xs)"
      using R by (simp only:)
    moreover have "momentX (sched q' a) = t"
      using shape by simp
    ultimately have "sorted (map (\<lambda>x. momentX (sched q' x)) (insert_task_at (\<lambda>x. momentX (sched q' x)) t a xs))"
      by (rule sorted_insert_task_at)
    moreover have "insert_task_at (\<lambda>x. momentX (sched q' x)) t a xs = insert_task_at ?time t a xs"
      using shape a(1) by (intro insert_task_at_cong) auto
    ultimately show "sorted (map (\<lambda>x. momentX (sched q' x)) (insert_task_at ?time t a xs))"
      by simp
    show "is_scheduled (sched_action (sched q' x)) = (x \<in> set (insert_task_at ?time t a xs))" for x
      using R shape act by simp
  qed (use R shape a in auto)
  then show thesis
    using that shape by blast
qed

lemma getFreeScheduling_rep:
  assumes "queue_rep q xs (f # fs)"
  obtains q' where "getFreeScheduling q = (Some f, q')" "queue_rep q' xs fs" "f \<notin> set xs" "f \<notin> set fs"
    "\<And>x. momentX (sched q' x) = momentX (sched q x)" "\<And>x. sched_action (sched q' x) = sched_action (sched q x)"
    "queue_log q' = queue_log q" "schedulingUsedCount q' = schedulingUsedCount q + 1" "m_lateDelay q' = m_lateDelay q"
proof -
  note R = assms[unfolded queue_rep_def]
  define q1 where "q1 = set_next f None (q\<lparr>m_freelist := nextScheduling_s (sched q f)\<rparr>)"
  have g: "getFreeScheduling q = (Some f, q1\<lparr>schedulingUsedCount := schedulingUsedCount q + 1\<rparr>)"
    using R by (simp add: getFreeScheduling_def q1_def)
  have "chain (sched q1) (m_head q) xs" "chain (sched q1) (nextScheduling_s (sched q f)) fs"
    using R unfolding q1_def by (auto intro!: chain_free_unchanged)
  then have "queue_rep (q1\<lparr>schedulingUsedCount := schedulingUsedCount q + 1\<rparr>) xs fs"
    using R by (auto simp: queue_rep_def q1_def)
  then show thesis
    using g R by (intro that[of "q1\<lparr>schedulingUsedCount := schedulingUsedCount q + 1\<rparr>"]) (auto simp: q1_def)
qed

text \<open>The three outcomes of \<open>insertTask\<close> with a callback: refused because the pool is used up, refused
  because the object is pending, and inserted.\<close>

lemma insertTask_rep:
  assumes rep: "queue_rep q xs fs" and act: "is_scheduled action"
    and free: "\<And>a. s = Some a \<Longrightarrow> a \<notin> set fs"
  shows "case (case s of None \<Rightarrow> fs | Some a \<Rightarrow> if a \<in> set xs then [] else [a]) of
      [] \<Rightarrow> insertTask s t action q = Some (False, q)
    | a # _ \<Rightarrow> \<exists>q'. insertTask s t action q = Some (task_position (\<lambda>x. momentX (sched q x)) t xs = 0, q') \<and>
        queue_rep q' (insert_task_at (\<lambda>x. momentX (sched q x)) t a xs) (if s = None then tl fs else fs) \<and>
        (\<forall>x. momentX (sched q' x) = (if x = a then t else momentX (sched q x))) \<and>
        (\<forall>x. sched_action (sched q' x) = (if x = a then action else sched_action (sched q x))) \<and>
        schedulingUsedCount q' = schedulingUsedCount q + (if s = None then 1 else 0) \<and>
        queue_log q' = queue_log q \<and> m_lateDelay q' = m_lateDelay q"
proof (cases s)
  case None
  show ?thesis
  proof (cases fs)
    case Nil
    then show ?thesis
      using rep None by (simp add: insertTask_def getFreeScheduling_def queue_rep_def)
  next
    case (Cons f fs')
    obtain q1 where q1: "getFreeScheduling q = (Some f, q1)" "queue_rep q1 xs fs'" "f \<notin> set xs" "f \<notin> set fs'"
      "\<And>x. momentX (sched q1 x) = momentX (sched q x)" "\<And>x. sched_action (sched q1 x) = sched_action (sched q x)"
      "queue_log q1 = queue_log q" "schedulingUsedCount q1 = schedulingUsedCount q + 1" "m_lateDelay q1 = m_lateDelay q"
      by (rule getFreeScheduling_rep[OF rep[unfolded Cons]], rule that)
    obtain q' where q': "link_task f t (set_action f action (set_moment f t q1)) =
        Some (task_position (\<lambda>x. momentX (sched q1 x)) t xs = 0, q')"
      "queue_rep q' (insert_task_at (\<lambda>x. momentX (sched q1 x)) t f xs) fs'"
      "\<And>x. momentX (sched q' x) = (if x = f then t else momentX (sched q1 x))"
      "\<And>x. sched_action (sched q' x) = (if x = f then action else sched_action (sched q1 x))"
      "queue_log q' = queue_log q1" "schedulingUsedCount q' = schedulingUsedCount q1" "m_lateDelay q' = m_lateDelay q1"
      by (rule link_task_rep[OF q1(2,3,4) act, of t], rule that)
    have "\<not> is_scheduled (sched_action (sched q1 f))"
      using q1(2,3) by (simp add: queue_rep_def)
    then have "insertTask s t action q = Some (task_position (\<lambda>x. momentX (sched q x)) t xs = 0, q')"
      using None q1(1,5) q'(1) act by (simp add: insertTask_def)
    then show ?thesis
      using None Cons q1 q' by auto
  qed
next
  case (Some a)
  have sch: "is_scheduled (sched_action (sched q a)) \<longleftrightarrow> a \<in> set xs"
    using rep by (simp add: queue_rep_def)
  show ?thesis
  proof (cases "a \<in> set xs")
    case True
    then show ?thesis using Some act sch by (simp add: insertTask_def)
  next
    case False
    obtain q' where q': "link_task a t (set_action a action (set_moment a t q)) =
        Some (task_position (\<lambda>x. momentX (sched q x)) t xs = 0, q')"
      "queue_rep q' (insert_task_at (\<lambda>x. momentX (sched q x)) t a xs) fs"
      "\<And>x. momentX (sched q' x) = (if x = a then t else momentX (sched q x))"
      "\<And>x. sched_action (sched q' x) = (if x = a then action else sched_action (sched q x))"
      "queue_log q' = queue_log q" "schedulingUsedCount q' = schedulingUsedCount q" "m_lateDelay q' = m_lateDelay q"
      by (rule link_task_rep[OF rep False free[OF Some] act, of t], rule that)
    then show ?thesis using Some False sch act by (simp add: insertTask_def)
  qed
qed

subsection \<open>Removal\<close>

lemma remove_task_rep:
  assumes rep: "queue_rep q xs fs" and a: "a \<in> set xs"
  obtains q' where "remove_task a q = Some q'" "queue_rep q' (remove1 a xs) fs"
    "\<And>x. momentX (sched q' x) = momentX (sched q x)"
    "\<And>x. sched_action (sched q' x) = (if x = a then null_action else sched_action (sched q x))"
    "queue_log q' = queue_log q" "schedulingUsedCount q' = schedulingUsedCount q" "m_lateDelay q' = m_lateDelay q"
proof -
  note R = rep[unfolded queue_rep_def]
  have sch: "is_scheduled (sched_action (sched q a))" using R a by simp
  obtain us vs where uv: "xs = us @ a # vs" "a \<notin> set us" using a by (auto dest: split_list_first)
  then have rm: "remove1 a xs = us @ vs" by (simp add: remove1_append)
  have af: "a \<notin> set fs" "a \<notin> set vs" using R uv by auto
  define q' where "q' = (case remove_task a q of Some q' \<Rightarrow> q' | None \<Rightarrow> q)"
  have step: "remove_task a q = Some q' \<and> chain (sched q') (m_head q') (us @ vs) \<and>
      chain (sched q') (m_freelist q') fs \<and> (\<forall>x. momentX (sched q' x) = momentX (sched q x)) \<and>
      (\<forall>x. sched_action (sched q' x) = (if x = a then null_action else sched_action (sched q x))) \<and>
      queue_log q' = queue_log q \<and> schedulingUsedCount q' = schedulingUsedCount q \<and> m_lateDelay q' = m_lateDelay q"
  proof (cases us)
    case Nil
    then show ?thesis
      using R uv af sch by (auto simp: q'_def remove_task_def Let_def intro!: chain_free_unchanged)
  next
    case (Cons h us')
    let ?q = "set_next (last us) (nextScheduling_s (sched q a)) q"
    have "find_previous (sched q) a h = Some (Some (last (h # takeWhile (\<lambda>x. x \<noteq> a) (us' @ a # vs))))"
      using R uv Cons by (subst find_previous_chain[of _ _ "us' @ a # vs"]) auto
    moreover have "takeWhile (\<lambda>x. x \<noteq> a) (us' @ a # vs) = us'"
      using uv(2) Cons by (simp add: takeWhile_append)
    ultimately have fp: "find_previous (sched q) a h = Some (Some (last us))"
      using Cons by simp
    have "last us \<in> set us" using Cons by simp
    then have lu: "last us \<noteq> a" "last us \<notin> set fs" using R uv by auto
    have hd: "m_head q = Some h" "a \<noteq> h" using R uv Cons by auto
    have "chain (sched (set_action a null_action (set_next a None ?q))) (m_head q) (us @ vs)"
      using R uv Cons lu by (intro chain_delete[of "sched q" _ us a vs]) auto
    then show ?thesis
      using R sch fp hd lu af
      by (auto simp: q'_def remove_task_def Let_def intro!: chain_free_unchanged)
  qed
  have "queue_rep q' (remove1 a xs) fs"
    using R step uv af unfolding rm queue_rep_def by (auto simp: sorted_append)
  then show thesis using that step by blast
qed

lemma remove_task_absent:
  assumes "queue_rep q xs fs" "a \<notin> set xs"
  shows "remove_task a q = Some q"
  using assms by (simp add: queue_rep_def remove_task_def)

subsection \<open>Execution\<close>

definition free_after :: "addr \<Rightarrow> addr list \<Rightarrow> addr list" where
  "free_after x fs = (if x < POOL_SIZE then x # fs else fs)"

lemma tryReturnScheduling_eq:
  "tryReturnScheduling x q =
     (if x < POOL_SIZE then (set_next x (m_freelist q) q)\<lparr>m_freelist := Some x,
        schedulingUsedCount := schedulingUsedCount q - 1\<rparr> else q)"
  by (auto simp: tryReturnScheduling_def POOL_SIZE_def Let_def)

lemma take_due_none:
  assumes "queue_rep q xs fs"
  shows "take_due now q = None \<longleftrightarrow> xs = [] \<or> now + m_lateDelay q < momentX (sched q (hd xs))"
  using assms by (cases xs) (auto simp: queue_rep_def take_due_def Let_def)

lemma take_due_rep:
  assumes rep: "queue_rep q (x # xs) fs" and due: "momentX (sched q x) \<le> now + m_lateDelay q"
  obtains q' where "take_due now q = Some (momentX (sched q x), sched_action (sched q x), q')"
    "queue_rep q' xs (free_after x fs)" "\<And>a. momentX (sched q' a) = momentX (sched q a)"
    "\<And>a. sched_action (sched q' a) = (if a = x then null_action else sched_action (sched q a))"
    "queue_log q' = queue_log q" "m_lateDelay q' = m_lateDelay q"
    "schedulingUsedCount q' = (if x < POOL_SIZE then schedulingUsedCount q - 1 else schedulingUsedCount q)"
proof -
  note R = rep[unfolded queue_rep_def]
  define q1 where "q1 = set_action x null_action (set_next x None (q\<lparr>m_head := nextScheduling_s (sched q x)\<rparr>))"
  let ?q' = "tryReturnScheduling x q1"
  have ch: "chain (sched q1) (nextScheduling_s (sched q x)) xs" "chain (sched q1) (m_freelist q) fs"
    using R unfolding q1_def by (auto intro!: chain_free_unchanged)
  have r1: "m_head q1 = nextScheduling_s (sched q x)" "m_freelist q1 = m_freelist q"
    "\<And>a. momentX (sched q1 a) = momentX (sched q a)"
    "\<And>a. sched_action (sched q1 a) = (if a = x then null_action else sched_action (sched q a))"
    by (simp_all add: q1_def)
  have t: "take_due now q = Some (momentX (sched q x), sched_action (sched q x), ?q')"
    using R due by (simp add: take_due_def Let_def q1_def)
  have "chain (sched ?q') (m_head ?q') xs" "chain (sched ?q') (m_freelist ?q') (free_after x fs)"
    using ch R by (auto simp: tryReturnScheduling_eq free_after_def r1 intro!: chain_free_unchanged)
  then have "queue_rep ?q' xs (free_after x fs)"
    using R unfolding queue_rep_def by (auto simp: tryReturnScheduling_eq free_after_def r1)
  then show thesis
    using t by (intro that[of ?q']) (auto simp: tryReturnScheduling_eq r1 q1_def)
qed

subsection \<open>The queue as a timed queue\<close>

text \<open>The pending objects, read off the store, and their times and actions.\<close>

partial_function (option) chain_addrs :: "store \<Rightarrow> addr option \<Rightarrow> addr list \<Rightarrow> addr list option" where
  "chain_addrs s p seen =
     (case p of None \<Rightarrow> Some (rev seen) | Some a \<Rightarrow> chain_addrs s (nextScheduling_s (s a)) (a # seen))"

definition pending_addrs :: "event_queue \<Rightarrow> addr list" where
  "pending_addrs q = (case chain_addrs (sched q) (m_head q) [] of None \<Rightarrow> [] | Some xs \<Rightarrow> xs)"

definition pending :: "event_queue \<Rightarrow> (efitick_t \<times> action_s) list" where
  "pending q = map (\<lambda>a. (momentX (sched q a), sched_action (sched q a))) (pending_addrs q)"

definition queue_ok :: "event_queue \<Rightarrow> bool" where
  "queue_ok q \<longleftrightarrow> (\<exists>xs fs. queue_rep q xs fs)"

text \<open>Insertion as a partial operation: a caller with its own object, or \<open>None\<close> for one from the pool.\<close>

definition put_task :: "addr option \<Rightarrow> efitick_t \<Rightarrow> action_s \<Rightarrow> event_queue \<Rightarrow> event_queue option" where
  "put_task s t action q =
     (if is_scheduled action \<and>
         (case s of None \<Rightarrow> m_freelist q \<noteq> None
                  | Some a \<Rightarrow> POOL_SIZE \<le> a \<and> \<not> is_scheduled (sched_action (sched q a)))
      then map_option snd (insertTask s t action q) else None)"

lemma chain_addrs_chain: "chain s p xs \<Longrightarrow> chain_addrs s p seen = Some (rev seen @ xs)"
  by (induction xs arbitrary: p seen; subst chain_addrs.simps) auto

lemma pending_addrs_rep: "queue_rep q xs fs \<Longrightarrow> pending_addrs q = xs"
  using chain_addrs_chain[of "sched q" "m_head q" xs "[]"] by (simp add: pending_addrs_def queue_rep_def)

lemma pending_rep:
  "queue_rep q xs fs \<Longrightarrow> pending q = map (\<lambda>a. (momentX (sched q a), sched_action (sched q a))) xs"
  by (simp add: pending_def pending_addrs_rep)

lemma mset_insert_task_at: "mset (insert_task_at time t a xs) = add_mset a (mset xs)"
  by (simp add: insert_task_at_def Let_def) (metis append_take_drop_id mset_append)

lemma put_task_ok:
  assumes "queue_ok q" "put_task s t action q = Some q'"
  shows "queue_ok q' \<and> mset (pending q') = add_mset (t, action) (mset (pending q)) \<and> m_lateDelay q' = m_lateDelay q"
proof -
  obtain xs fs where rep: "queue_rep q xs fs" using assms(1) by (auto simp: queue_ok_def)
  have put: "is_scheduled action" "map_option snd (insertTask s t action q) = Some q'"
    "case s of None \<Rightarrow> m_freelist q \<noteq> None | Some a \<Rightarrow> POOL_SIZE \<le> a \<and> \<not> is_scheduled (sched_action (sched q a))"
    using assms(2) by (auto simp: put_task_def split: if_splits)
  have free: "a \<notin> set fs" if "s = Some a" for a
    using that put(3) rep by (auto simp: queue_rep_def)
  obtain a rest where a: "(case s of None \<Rightarrow> fs | Some a \<Rightarrow> if a \<in> set xs then [] else [a]) = a # rest"
    using put(3) rep by (cases s; cases fs) (auto simp: queue_rep_def)
  have anew: "a \<notin> set xs"
    using a rep by (auto simp: queue_rep_def split: option.splits if_splits)
  from insertTask_rep[OF rep put(1), of s t] free a obtain fs' where
    q': "queue_rep q' (insert_task_at (\<lambda>x. momentX (sched q x)) t a xs) fs'"
    "\<And>x. momentX (sched q' x) = (if x = a then t else momentX (sched q x))"
    "\<And>x. sched_action (sched q' x) = (if x = a then action else sched_action (sched q x))"
    "m_lateDelay q' = m_lateDelay q"
    using put(2) by auto
  have "mset (pending q') = image_mset (\<lambda>b. (momentX (sched q' b), sched_action (sched q' b))) (add_mset a (mset xs))"
    unfolding pending_rep[OF q'(1)] by (simp add: mset_insert_task_at)
  also have "\<dots> = add_mset (t, action) (mset (pending q))"
    unfolding pending_rep[OF rep] using anew q'(2,3) by (auto intro!: image_mset_cong)
  finally show ?thesis using q' by (auto simp: queue_ok_def)
qed

interpretation eq: timed_queue queue_ok pending put_task take_due m_lateDelay
proof
  fix q :: event_queue and now t :: int and a q'
  assume ok: "queue_ok q"
  then obtain xs fs where rep: "queue_rep q xs fs" by (auto simp: queue_ok_def)
  show "sorted (map fst (pending q))"
    using rep unfolding pending_rep[OF rep] by (simp add: queue_rep_def comp_def)
  show "take_due now q = None \<Longrightarrow> pending q = [] \<or> now + m_lateDelay q < fst (hd (pending q))"
    using take_due_none[OF rep, of now] rep by (cases xs) (auto simp: pending_rep)
  show "queue_ok q' \<and> pending q = (t, a) # pending q' \<and> t \<le> now + m_lateDelay q \<and> m_lateDelay q' = m_lateDelay q"
    if get: "take_due now q = Some (t, a, q')"
  proof -
    obtain x ys where xs: "xs = x # ys" "momentX (sched q x) \<le> now + m_lateDelay q"
      using take_due_none[OF rep, of now] get by (cases xs) auto
    obtain q1 where q1: "take_due now q = Some (momentX (sched q x), sched_action (sched q x), q1)"
      "queue_rep q1 ys (free_after x fs)" "\<And>a. momentX (sched q1 a) = momentX (sched q a)"
      "\<And>a. sched_action (sched q1 a) = (if a = x then null_action else sched_action (sched q a))"
      "m_lateDelay q1 = m_lateDelay q"
      by (rule take_due_rep[OF rep[unfolded xs(1)] xs(2)], rule that)
    have "x \<notin> set ys" using rep xs by (auto simp: queue_rep_def)
    then have "pending q1 = map (\<lambda>a. (momentX (sched q a), sched_action (sched q a))) ys"
      unfolding pending_rep[OF q1(2)] using q1(3,4) by auto
    then show ?thesis
      using get q1 xs rep by (auto simp: pending_rep queue_ok_def)
  qed
qed (use put_task_ok in blast)

end
