(* ===== verification/Queue_Properties.thy ===== *)
theory Queue_Properties
  imports Event_Queue
begin

text \<open>
  What the event queue guarantees in every state it can reach through its operations: the list is
  sorted and finite, an object is linked exactly when it has an action, the pool is accounted for; the
  operations return; execution is in the order of the times.
\<close>

subsection \<open>Reachable states\<close>

text \<open>The callers use the pool or objects outside of it, pass actions with a callback, and cancel only
  their own objects. What a callback does to the queue are steps of their own.\<close>

inductive reachable :: "int \<Rightarrow> event_queue \<Rightarrow> bool" for late :: int where
  created: "(\<And>a. \<not> is_scheduled (sched_action (s a))) \<Longrightarrow> reachable late (EventQueue late s)"
| inserted: "reachable late q \<Longrightarrow> is_scheduled action \<Longrightarrow> (\<And>a. scheduling = Some a \<Longrightarrow> POOL_SIZE \<le> a) \<Longrightarrow>
    insertTask scheduling t action q = Some (b, q') \<Longrightarrow> reachable late q'"
| removed: "reachable late q \<Longrightarrow> POOL_SIZE \<le> a \<Longrightarrow> remove_task a q = Some q' \<Longrightarrow> reachable late q'"
| executed: "reachable late q \<Longrightarrow> take_due now q = Some (t, action, q') \<Longrightarrow> reachable late q'"

definition queue_inv :: "event_queue \<Rightarrow> bool" where
  "queue_inv q \<longleftrightarrow> (\<exists>xs fs. queue_rep q xs fs \<and> pool_complete q xs fs)"

lemma return_all:
  assumes "\<forall>a. \<not> is_scheduled (sched_action (s a))" "n \<le> POOL_SIZE"
    and "q = fold tryReturnScheduling [0..<n] \<lparr>sched = s, m_head = None, m_lateDelay = late, m_freelist = None,
               schedulingUsedCount = 0, queue_log = []\<rparr>"
  shows "m_head q = None \<and> m_lateDelay q = late \<and> queue_log q = [] \<and>
    chain (sched q) (m_freelist q) (rev [0..<n]) \<and> (\<forall>a. \<not> is_scheduled (sched_action (sched q a)))"
  using assms(2,3)
proof (induction n arbitrary: q)
  case (Suc n)
  define q1 where "q1 = fold tryReturnScheduling [0..<n] \<lparr>sched = s, m_head = None, m_lateDelay = late,
    m_freelist = None, schedulingUsedCount = 0, queue_log = []\<rparr>"
  have q: "q = tryReturnScheduling n q1" using Suc.prems by (simp add: q1_def)
  have "n < POOL_SIZE" using Suc.prems(1) by simp
  moreover have "m_head q1 = None \<and> m_lateDelay q1 = late \<and> queue_log q1 = [] \<and>
      chain (sched q1) (m_freelist q1) (rev [0..<n]) \<and> (\<forall>a. \<not> is_scheduled (sched_action (sched q1 a)))"
    using Suc.IH[OF _ q1_def] Suc.prems(1) by simp
  ultimately show ?case
    by (auto simp: q tryReturnScheduling_eq intro: chain_free_unchanged)
qed (use assms(1) in simp)

lemma EventQueue_inv:
  assumes "\<forall>a. \<not> is_scheduled (sched_action (s a))"
  shows "queue_rep (EventQueue late s) [] (rev [0..<POOL_SIZE]) \<and>
    pool_complete (EventQueue late s) [] (rev [0..<POOL_SIZE]) \<and> m_lateDelay (EventQueue late s) = late"
  using return_all[OF assms order_refl refl, of late]
  by (auto simp: EventQueue_def queue_rep_def pool_complete_def Let_def)

lemma insertTask_inv:
  assumes "queue_inv q" "is_scheduled action" "\<And>a. s = Some a \<Longrightarrow> POOL_SIZE \<le> a"
  obtains b q' where "insertTask s t action q = Some (b, q')" "queue_inv q'" "m_lateDelay q' = m_lateDelay q"
proof -
  obtain xs fs where rep: "queue_rep q xs fs" and pool: "pool_complete q xs fs"
    using assms(1) by (auto simp: queue_inv_def)
  have fs: "length fs \<le> POOL_SIZE" "set fs \<subseteq> {..<POOL_SIZE}"
    using rep card_mono[of "{..<POOL_SIZE}" "set fs"] by (auto simp: queue_rep_def distinct_card)
  have free: "a \<notin> set fs" if "s = Some a" for a
    using assms(3)[OF that] fs by auto
  note I = insertTask_rep[OF rep assms(2) free, of s t]
  show thesis
  proof (cases "case s of None \<Rightarrow> fs | Some a \<Rightarrow> if a \<in> set xs then [] else [a]")
    case Nil
    then show thesis using I assms(1) by (intro that[of False q]) simp_all
  next
    case (Cons a rest)
    then obtain q' where q': "insertTask s t action q = Some (task_position (\<lambda>x. momentX (sched q x)) t xs = 0, q')"
      "queue_rep q' (insert_task_at (\<lambda>x. momentX (sched q x)) t a xs) (if s = None then tl fs else fs)"
      "schedulingUsedCount q' = schedulingUsedCount q + (if s = None then 1 else 0)" "m_lateDelay q' = m_lateDelay q"
      using I by auto
    have "pool_complete q' (insert_task_at (\<lambda>x. momentX (sched q x)) t a xs) (if s = None then tl fs else fs)"
    proof (cases "s = None")
      case True
      then have "fs = a # rest" using Cons by simp
      then show ?thesis
        using True pool q'(3) fs(1) by (auto simp: pool_complete_def Suc_diff_le of_nat_diff)
    next
      case False
      then show ?thesis using pool q'(3) by (auto simp: pool_complete_def)
    qed
    then show thesis using q' that by (auto simp: queue_inv_def)
  qed
qed

lemma remove_task_inv:
  assumes "queue_inv q" "POOL_SIZE \<le> a"
  obtains q' where "remove_task a q = Some q'" "queue_inv q'" "m_lateDelay q' = m_lateDelay q"
proof -
  obtain xs fs where rep: "queue_rep q xs fs" and pool: "pool_complete q xs fs"
    using assms(1) by (auto simp: queue_inv_def)
  show thesis
  proof (cases "a \<in> set xs")
    case True
    obtain q' where q': "remove_task a q = Some q'" "queue_rep q' (remove1 a xs) fs"
      "schedulingUsedCount q' = schedulingUsedCount q" "m_lateDelay q' = m_lateDelay q"
      by (rule remove_task_rep[OF rep True], rule that)
    have "distinct xs" using rep by (simp add: queue_rep_def)
    then have "pool_complete q' (remove1 a xs) fs"
      using pool q'(3) assms(2) by (auto simp: pool_complete_def)
    then show thesis using q' that by (auto simp: queue_inv_def)
  next
    case False
    then show thesis using remove_task_absent[OF rep] assms(1) that by simp
  qed
qed

lemma take_due_inv:
  assumes "queue_inv q" "take_due now q = Some (t, action, q')"
  shows "queue_inv q' \<and> m_lateDelay q' = m_lateDelay q \<and> is_scheduled action"
proof -
  obtain xs fs where rep: "queue_rep q xs fs" and pool: "pool_complete q xs fs"
    using assms(1) by (auto simp: queue_inv_def)
  obtain x ys where xs: "xs = x # ys" "momentX (sched q x) \<le> now + m_lateDelay q"
    using take_due_none[OF rep, of now] assms(2) by (cases xs) auto
  obtain q1 where q1: "take_due now q = Some (momentX (sched q x), sched_action (sched q x), q1)"
    "queue_rep q1 ys (free_after x fs)" "m_lateDelay q1 = m_lateDelay q"
    "schedulingUsedCount q1 = (if x < POOL_SIZE then schedulingUsedCount q - 1 else schedulingUsedCount q)"
    by (rule take_due_rep[OF rep[unfolded xs(1)] xs(2)], rule that)
  have "length (free_after x fs) \<le> POOL_SIZE"
    using q1(2) card_mono[of "{..<POOL_SIZE}" "set (free_after x fs)"] by (auto simp: queue_rep_def distinct_card)
  then have "pool_complete q1 ys (free_after x fs)"
    using pool xs(1) q1(4) by (auto simp: pool_complete_def free_after_def of_nat_diff)
  moreover have "is_scheduled (sched_action (sched q x))"
    using rep xs by (simp add: queue_rep_def)
  ultimately show ?thesis
    using q1 assms(2) by (auto simp: queue_inv_def)
qed

lemma reachable_inv: "reachable late q \<Longrightarrow> queue_inv q \<and> m_lateDelay q = late"
proof (induction rule: reachable.induct)
  case (created s)
  then show ?case using EventQueue_inv[of s late] by (auto simp: queue_inv_def)
next
  case (inserted q action scheduling t b q')
  then show ?case by (metis insertTask_inv option.inject prod.inject)
next
  case (removed q a q')
  then show ?case by (metis remove_task_inv option.inject)
next
  case (executed q now t action q')
  then show ?case using take_due_inv by blast
qed

text \<open>C18: in every state the queue can reach, the pending objects are linked in the order of their times
  up to the end of the list, the free objects of the pool are linked too, the two lists share no
  object and together contain the whole pool, an object has an action exactly when it is pending,
  and the counter shown to the user is the number of pool objects in use.\<close>

theorem reachable_queue_inv:
  assumes "reachable late q"
  shows "\<exists>xs fs. queue_rep q xs fs \<and> pool_complete q xs fs"
  using reachable_inv[OF assms] by (simp add: queue_inv_def)

text \<open>In every reachable state the loops over the links end: insertion, removal and the count
  return, and the count is the number of pending events.\<close>

theorem reachable_operations_return:
  assumes "reachable late q" "is_scheduled action" "POOL_SIZE \<le> a"
  shows "insertTask None t action q \<noteq> None \<and> insertTask (Some a) t action q \<noteq> None \<and>
    remove_task a q \<noteq> None \<and> queue_size q = Some (length (pending q))"
proof (intro conjI)
  have inv: "queue_inv q" using reachable_inv[OF assms(1)] by simp
  then obtain xs fs where rep: "queue_rep q xs fs" by (auto simp: queue_inv_def)
  show "insertTask None t action q \<noteq> None"
    by (rule insertTask_inv[OF inv assms(2), of None t]) auto
  show "insertTask (Some a) t action q \<noteq> None"
    by (rule insertTask_inv[OF inv assms(2), of "Some a" t]) (use assms(3) in auto)
  show "remove_task a q \<noteq> None"
    by (rule remove_task_inv[OF inv assms(3)]) simp
  show "queue_size q = Some (length (pending q))"
    using rep count_links_chain[of "sched q" "m_head q" xs 0]
    by (simp add: queue_size_def pending_rep[OF rep] queue_rep_def)
qed

subsection \<open>Insertion and removal\<close>

text \<open>C19: an event that a caller brings and that is not pending yet is inserted into the order of the
  times, and the result says whether it is earlier than everything that was pending, which is when
  the hardware timer has to be set again; a pending one is left as it is.\<close>

theorem insertTask_refines:
  assumes "reachable late q" "is_scheduled action" "POOL_SIZE \<le> a"
  shows "if a \<in> set (pending_addrs q) then insertTask (Some a) t action q = Some (False, q)
    else \<exists>q'. insertTask (Some a) t action q = Some (\<forall>e \<in> set (pending q). t < fst e, q') \<and>
      pending_addrs q' = insert_task_at (\<lambda>x. momentX (sched q x)) t a (pending_addrs q) \<and>
      mset (pending q') = add_mset (t, action) (mset (pending q)) \<and> sorted (map fst (pending q'))"
proof -
  have ok: "queue_ok q" using reachable_inv[OF assms(1)] by (auto simp: queue_inv_def queue_ok_def)
  then obtain xs fs where rep: "queue_rep q xs fs" by (auto simp: queue_ok_def)
  have fs: "a \<notin> set fs" using rep assms(3) by (auto simp: queue_rep_def)
  note I = insertTask_rep[OF rep assms(2), of "Some a" t]
  have sch: "is_scheduled (sched_action (sched q a)) \<longleftrightarrow> a \<in> set xs"
    using rep by (simp add: queue_rep_def)
  show ?thesis
  proof (cases "a \<in> set xs")
    case True
    then show ?thesis using I fs pending_addrs_rep[OF rep] by simp
  next
    case False
    then obtain q' where q': "insertTask (Some a) t action q = Some (task_position (\<lambda>x. momentX (sched q x)) t xs = 0, q')"
      "queue_rep q' (insert_task_at (\<lambda>x. momentX (sched q x)) t a xs) fs"
      using I fs by auto
    have "task_position (\<lambda>x. momentX (sched q x)) t xs = 0 \<longleftrightarrow> (\<forall>e \<in> set (pending q). t < fst e)"
      using rep unfolding pending_rep[OF rep]
      by (cases xs) (auto simp: task_position_def queue_rep_def)
    moreover have "put_task (Some a) t action q = Some q'"
      using q'(1) assms(2,3) False sch by (simp add: put_task_def)
    then have "queue_ok q' \<and> mset (pending q') = add_mset (t, action) (mset (pending q))"
      using eq.put_some[OF ok] by blast
    moreover have "sorted (map fst (pending q'))"
      using eq.events_sorted calculation(2) by blast
    ultimately show ?thesis
      using q' False pending_addrs_rep[OF rep] pending_addrs_rep[OF q'(2)] by auto
  qed
qed

text \<open>Cancelling removes the object from the pending ones and keeps the order of the others; an object
  that is not pending is left as it is.\<close>

theorem remove_task_refines:
  assumes "reachable late q" "POOL_SIZE \<le> a"
  shows "\<exists>q'. remove_task a q = Some q' \<and> pending_addrs q' = remove1 a (pending_addrs q) \<and>
    (\<forall>x. momentX (sched q' x) = momentX (sched q x)) \<and> \<not> is_scheduled (sched_action (sched q' a)) \<and>
    (a \<notin> set (pending_addrs q) \<longrightarrow> q' = q)"
proof -
  obtain xs fs where rep: "queue_rep q xs fs"
    using reachable_inv[OF assms(1)] by (auto simp: queue_inv_def)
  show ?thesis
  proof (cases "a \<in> set xs")
    case True
    obtain q' where q': "remove_task a q = Some q'" "queue_rep q' (remove1 a xs) fs"
      "\<And>x. momentX (sched q' x) = momentX (sched q x)"
      "\<And>x. sched_action (sched q' x) = (if x = a then null_action else sched_action (sched q x))"
      by (rule remove_task_rep[OF rep True], rule that)
    then show ?thesis using True pending_addrs_rep[OF rep] pending_addrs_rep[OF q'(2)] by auto
  next
    case False
    then show ?thesis
      using remove_task_absent[OF rep] pending_addrs_rep[OF rep] rep
      by (simp add: remove1_idem queue_rep_def)
  qed
qed

subsection \<open>Execution\<close>

text \<open>A callback that only records the action.\<close>

definition record_action :: "action_s \<Rightarrow> event_queue \<times> action_s list \<Rightarrow> event_queue \<times> action_s list" where
  "record_action a s = (fst s, snd s @ [a])"

lemma execute_loop_drain:
  assumes "queue_ok q" "length (pending q) \<le> n" "eq.drain n now q = (es, q')"
  shows "execute_loop record_action now k (q, w) = Some (k + length es, q', w @ map snd es)"
  using assms
proof (induction n arbitrary: q es k w)
  case 0
  then have "take_due now q = None"
    using eq.get_some[of q now] by (cases "take_due now q") auto
  then show ?case
    using 0 by (subst execute_loop.simps) (simp add: executeOne_def)
next
  case (Suc n)
  show ?case
  proof (cases "take_due now q")
    case None
    then show ?thesis
      using Suc.prems by (subst execute_loop.simps) (simp add: executeOne_def)
  next
    case (Some r)
    obtain t a q1 where r: "r = (t, a, q1)" by (cases r)
    obtain es1 where es1: "eq.drain n now q1 = (es1, q')" "es = (t, a) # es1"
      using Suc.prems(3) Some r by (auto split: prod.splits)
    note g = eq.get_some[OF Suc.prems(1) Some[unfolded r]]
    have "execute_loop record_action now (k + 1) (q1, w @ [a]) = Some (k + 1 + length es1, q', w @ [a] @ map snd es1)"
      using Suc.IH[of q1 es1 "k + 1" "w @ [a]"] g es1 Suc.prems(2) by simp
    then show ?thesis
      using Some r es1(2) by (subst execute_loop.simps) (simp add: executeOne_def record_action_def)
  qed
qed

lemma drain_reachable:
  assumes "reachable late q" "eq.drain n now q = (es, q')"
  shows "reachable late q'"
  using assms
proof (induction n arbitrary: q es)
  case (Suc n)
  show ?case
  proof (cases "take_due now q")
    case (Some r)
    obtain t a q1 where r: "r = (t, a, q1)" by (cases r)
    obtain es1 where "eq.drain n now q1 = (es1, q')"
      using Suc.prems(2) Some r by (auto split: prod.splits)
    then show ?thesis
      using Suc.IH reachable.executed[OF Suc.prems(1) Some[unfolded r]] by blast
  qed (use Suc.prems in simp)
qed simp

text \<open>With callbacks that only record what they are called with, \<open>executeAll\<close> returns; it has run
  exactly the pending actions whose time is not after \<open>now\<close> plus the late delay, in the order of
  their times, and the others stay pending in their order.\<close>

theorem executeAll_runs_due:
  assumes "reachable late q"
  shows "\<exists>es q'. executeAll record_action now (q, w) = Some (length es, q', w @ map snd es) \<and>
    pending q = es @ pending q' \<and> sorted (map fst (pending q)) \<and> reachable late q' \<and>
    (\<forall>e \<in> set es. fst e \<le> now + late) \<and> (\<forall>e \<in> set (pending q'). now + late < fst e)"
proof -
  have ok: "queue_ok q" and late: "m_lateDelay q = late"
    using reachable_inv[OF assms] by (auto simp: queue_inv_def queue_ok_def)
  obtain es q' where d: "eq.drain (length (pending q)) now q = (es, q')" by fastforce
  note D = eq.drain_due[OF ok order_refl d]
  have "executeAll record_action now (q, w) = Some (length es, q', w @ map snd es)"
    using execute_loop_drain[OF ok order_refl d, of 0 w] by (simp add: executeAll_def)
  then show ?thesis
    using D late drain_reachable[OF assms d] eq.events_sorted[OF ok] by auto
qed

text \<open>Insertions, with objects from the pool or of the callers, and executions in any order.\<close>

inductive queue_history ::
  "event_queue \<Rightarrow> (efitick_t \<times> action_s) list \<Rightarrow> (efitick_t \<times> action_s) list \<Rightarrow> event_queue \<Rightarrow> bool" where
  history_start: "queue_history q [] [] q"
| history_insert: "queue_history q ins outs q1 \<Longrightarrow> put_task s t a q1 = Some q2 \<Longrightarrow> queue_history q (ins @ [(t, a)]) outs q2"
| history_execute: "queue_history q ins outs q1 \<Longrightarrow> take_due now q1 = Some (t, a, q2) \<Longrightarrow>
    queue_history q ins (outs @ [(t, a)]) q2"

lemma queue_history_is_history: "queue_history q ins outs q' \<Longrightarrow> eq.history q ins outs q'"
  by (induction rule: queue_history.induct) (auto intro: eq.history.intros)

text \<open>C20: however insertions (with objects from the pool or of the callers) and executions are interleaved,
  nothing is lost and nothing runs twice: what has run and what is pending is together what was
  pending at the start and what was inserted since.\<close>

theorem no_event_lost:
  assumes "reachable late q" "queue_history q ins outs q'"
  shows "mset outs + mset (pending q') = mset (pending q) + mset ins"
proof -
  have "queue_ok q" using reachable_inv[OF assms(1)] by (auto simp: queue_inv_def queue_ok_def)
  then show ?thesis using eq.history_conserves[OF queue_history_is_history[OF assms(2)]] by simp
qed

subsection \<open>The next event\<close>

text \<open>The time for which the executor sets the hardware timer is after \<open>now\<close> if the queue has a
  positive late delay (the executor asserts this), not after the first pending event unless that is
  already due, and absent exactly when nothing is pending.\<close>

theorem next_event_time:
  assumes "reachable late q" "0 < late"
  shows "case getNextEventTime now q of
      None \<Rightarrow> pending q = []
    | Some t \<Rightarrow> now < t \<and> (\<forall>e \<in> set (pending q). t \<le> max (now + late) (fst e)) \<and>
        (t = now + late \<or> t \<in> fst ` set (pending q))"
proof -
  obtain xs fs where rep: "queue_rep q xs fs" and late: "m_lateDelay q = late"
    using reachable_inv[OF assms(1)] by (auto simp: queue_inv_def)
  show ?thesis
    using rep assms(2) unfolding pending_rep[OF rep]
    by (cases xs) (auto simp: getNextEventTime_def queue_rep_def late)
qed

subsection \<open>Clearing\<close>

lemma clear_queue_rep:
  assumes "queue_rep q xs fs"
  shows "\<exists>q'. clear_queue q = Some q' \<and> queue_rep q' [] fs \<and> m_freelist q' = m_freelist q \<and>
    schedulingUsedCount q' = schedulingUsedCount q"
  using assms
proof (induction xs arbitrary: q)
  case Nil
  then show ?case by (subst clear_queue.simps) (simp add: queue_rep_def)
next
  case (Cons x xs)
  let ?q = "set_action x null_action (set_next x None (set_moment x 0 (q\<lparr>m_head := nextScheduling_s (sched q x)\<rparr>)))"
  note R = Cons.prems[unfolded queue_rep_def]
  have "chain (sched ?q) (nextScheduling_s (sched q x)) xs" "chain (sched ?q) (m_freelist q) fs"
    using R by (auto intro!: chain_free_unchanged)
  moreover have "map (\<lambda>a. momentX (sched ?q a)) xs = map (\<lambda>a. momentX (sched q a)) xs"
    using R by auto
  then have "sorted (map (\<lambda>a. momentX (sched ?q a)) xs)"
    using R by (simp only: list.map sorted_simps)
  ultimately have "queue_rep ?q xs fs"
    using R unfolding queue_rep_def by auto
  from Cons.IH[OF this] show ?case
    using R by (subst clear_queue.simps) (auto simp: Let_def)
qed

text \<open>\<open>clear\<close> empties the queue, but an object of the pool that was pending is afterwards neither
  pending nor free: the free list and the counter of used objects stay as they were, so it is lost
  to the pool.\<close>

theorem clear_loses_pool_objects:
  assumes "reachable late q"
  shows "\<exists>q'. clear_queue q = Some q' \<and> pending_addrs q' = [] \<and>
    schedulingUsedCount q' = schedulingUsedCount q \<and>
    (\<forall>x \<in> set (pending_addrs q). \<exists>fs. chain (sched q') (m_freelist q') fs \<and> x \<notin> set fs)"
proof -
  obtain xs fs where rep: "queue_rep q xs fs"
    using reachable_inv[OF assms] by (auto simp: queue_inv_def)
  obtain q' where q': "clear_queue q = Some q'" "queue_rep q' [] fs" "schedulingUsedCount q' = schedulingUsedCount q"
    using clear_queue_rep[OF rep] by auto
  have "x \<notin> set fs" if "x \<in> set xs" for x using that rep by (auto simp: queue_rep_def)
  then show ?thesis
    using q' pending_addrs_rep[OF q'(2)] pending_addrs_rep[OF rep] by (auto simp: queue_rep_def)
qed

subsection \<open>Witnesses\<close>

text \<open>A queue with the late delay of the executor (8 microseconds), and one event of a caller in it.\<close>

definition blank_store :: store where
  "blank_store a = \<lparr>momentX = 0, nextScheduling_s = None, sched_action = null_action\<rparr>"

definition example_action :: "nat \<Rightarrow> action_s" where
  "example_action n = \<lparr>m_callback = Some n, m_param = 0\<rparr>"

definition example_queue :: event_queue where
  "example_queue = (case insertTask (Some 100) 1000 (example_action 1) (EventQueue 32 blank_store) of
     Some (b, q) \<Rightarrow> q | None \<Rightarrow> EventQueue 32 blank_store)"

lemma example_action_scheduled [simp]: "is_scheduled (example_action n)"
  by (simp add: is_scheduled_def example_action_def)

lemma example_empty_reachable: "reachable 32 (EventQueue 32 blank_store)"
  by (rule reachable.created) (simp add: blank_store_def)

lemma example_queue_insert:
  obtains b where "insertTask (Some 100) 1000 (example_action 1) (EventQueue 32 blank_store) = Some (b, example_queue)"
    "queue_rep example_queue [100] (rev [0..<POOL_SIZE])"
proof -
  have rep: "queue_rep (EventQueue 32 blank_store) [] (rev [0..<POOL_SIZE])"
    using EventQueue_inv[of blank_store 32] by (simp add: blank_store_def)
  show thesis
    using insertTask_rep[OF rep example_action_scheduled[of 1], of "Some 100" 1000]
    by (auto simp: POOL_SIZE_def example_queue_def insert_task_at_def intro: that)
qed

lemma example_queue_reachable: "reachable 32 example_queue"
  by (rule example_queue_insert, rule reachable.inserted[OF example_empty_reachable]) (auto simp: POOL_SIZE_def)

lemma reachable_queue_inv_witness:
  "\<exists>xs fs. queue_rep example_queue xs fs \<and> pool_complete example_queue xs fs"
  by (rule reachable_queue_inv[OF example_queue_reachable])

lemma reachable_operations_return_witness:
  "insertTask None 900 (example_action 2) example_queue \<noteq> None \<and>
   insertTask (Some 100) 900 (example_action 2) example_queue \<noteq> None \<and>
   remove_task 100 example_queue \<noteq> None \<and> queue_size example_queue = Some (length (pending example_queue))"
  by (rule reachable_operations_return[OF example_queue_reachable]) (simp_all add: POOL_SIZE_def)

lemma insertTask_refines_witness:
  "if 101 \<in> set (pending_addrs example_queue)
   then insertTask (Some 101) 900 (example_action 2) example_queue = Some (False, example_queue)
   else \<exists>q'. insertTask (Some 101) 900 (example_action 2) example_queue =
        Some (\<forall>e \<in> set (pending example_queue). 900 < fst e, q') \<and>
      pending_addrs q' = insert_task_at (\<lambda>x. momentX (sched example_queue x)) 900 101 (pending_addrs example_queue) \<and>
      mset (pending q') = add_mset (900, example_action 2) (mset (pending example_queue)) \<and> sorted (map fst (pending q'))"
  by (rule insertTask_refines[OF example_queue_reachable]) (simp_all add: POOL_SIZE_def)

lemma remove_task_refines_witness:
  "\<exists>q'. remove_task 100 example_queue = Some q' \<and> pending_addrs q' = remove1 100 (pending_addrs example_queue) \<and>
    (\<forall>x. momentX (sched q' x) = momentX (sched example_queue x)) \<and> \<not> is_scheduled (sched_action (sched q' 100)) \<and>
    (100 \<notin> set (pending_addrs example_queue) \<longrightarrow> q' = example_queue)"
  by (rule remove_task_refines[OF example_queue_reachable]) (simp add: POOL_SIZE_def)

lemma executeAll_runs_due_witness:
  "\<exists>es q'. executeAll record_action 990 (example_queue, []) = Some (length es, q', [] @ map snd es) \<and>
    pending example_queue = es @ pending q' \<and> sorted (map fst (pending example_queue)) \<and> reachable 32 q' \<and>
    (\<forall>e \<in> set es. fst e \<le> 990 + 32) \<and> (\<forall>e \<in> set (pending q'). 990 + 32 < fst e)"
  by (rule executeAll_runs_due[OF example_queue_reachable])

lemma no_event_lost_witness:
  "\<exists>q'. queue_history example_queue [(900, example_action 2)] [] q' \<and>
     mset [] + mset (pending q') = mset (pending example_queue) + mset [(900, example_action 2)]"
proof -
  have rep: "queue_rep example_queue [100] (rev [0..<POOL_SIZE])"
    by (rule example_queue_insert)
  have "m_freelist example_queue \<noteq> None"
  proof (cases "rev [0..<POOL_SIZE]")
    case (Cons f fs)
    then show ?thesis using rep by (simp add: queue_rep_def)
  qed (simp add: POOL_SIZE_def)
  moreover obtain b q' where "insertTask None 900 (example_action 2) example_queue = Some (b, q')"
    using reachable_inv[OF example_queue_reachable]
    by (auto intro: insertTask_inv[OF _ example_action_scheduled[of 2], of example_queue None 900])
  ultimately have "put_task None 900 (example_action 2) example_queue = Some q'"
    by (simp add: put_task_def)
  then have "queue_history example_queue ([] @ [(900, example_action 2)]) [] q'"
    by (rule history_insert[OF history_start])
  from no_event_lost[OF example_queue_reachable this] this show ?thesis by auto
qed

lemma next_event_time_witness:
  "case getNextEventTime 500 example_queue of
      None \<Rightarrow> pending example_queue = []
    | Some t \<Rightarrow> 500 < t \<and> (\<forall>e \<in> set (pending example_queue). t \<le> max (500 + 32) (fst e)) \<and>
        (t = 500 + 32 \<or> t \<in> fst ` set (pending example_queue))"
  by (rule next_event_time[OF example_queue_reachable]) simp

lemma clear_loses_pool_objects_witness:
  "\<exists>q'. clear_queue example_queue = Some q' \<and> pending_addrs q' = [] \<and>
    schedulingUsedCount q' = schedulingUsedCount example_queue \<and>
    (\<forall>x \<in> set (pending_addrs example_queue). \<exists>fs. chain (sched q') (m_freelist q') fs \<and> x \<notin> set fs)"
  by (rule clear_loses_pool_objects[OF example_queue_reachable])

end
