(* ===== verification/Timer_Executor.thy ===== *)
theory Timer_Executor
  imports Queue_Properties
begin

text \<open>
  \<^verbatim>\<open>controllers/system/timer/single_timer_executor.cpp\<close> over the event queue, and
  \<^verbatim>\<open>setHardwareSchedulerTimer\<close> of \<^verbatim>\<open>hw_layer/microsecond_timer/microsecond_timer.cpp\<close>. The clock is a
  function from the number of reads to ticks; every \<^verbatim>\<open>getTimeNowNt()\<close> is one read. The callbacks are an
  argument, a function on the whole state with the rest of the firmware in the field \<open>world\<close>. The busy
  wait for an event in the near future reads the clock until it has come, so it may not return.
\<close>

subsection \<open>State\<close>

record hw_timer =
  hwStarted :: bool
  setHwTimerCounter :: int
  timerFreezeCounter :: int
  timerRestartCounter :: int
  lastSetTimerTimeNt :: efitick_t
  isTimerPending :: bool
  port_timer :: "(efitick_t \<times> efitick_t) list"

record 'w executor =
  exec_queue :: event_queue
  reentrantFlag :: bool
  timerCallbackCounter :: int
  scheduleCounter :: int
  maxExecuteCounter :: int
  executeCounter :: int
  executeAllPendingActionsInvocationCounter :: int
  lock_held :: bool
  reads :: nat
  hw :: hw_timer
  exec_log :: diag_log
  world :: 'w

type_synonym clock = "nat \<Rightarrow> efitick_t"

type_synonym 'w callbacks = "action_s \<Rightarrow> 'w executor \<Rightarrow> 'w executor"

definition exec_report :: "diag \<Rightarrow> 'w executor \<Rightarrow> 'w executor" where
  "exec_report d e = e\<lparr>exec_log := exec_log e @ [d]\<rparr>"

definition getTimeNowNt :: "clock \<Rightarrow> 'w executor \<Rightarrow> efitick_t \<times> 'w executor" where
  "getTimeNowNt clk e = (clk (reads e), e\<lparr>reads := reads e + 1\<rparr>)"

definition US2NT :: "int \<Rightarrow> int" where "US2NT us = us * US_TO_NT_MULTIPLIER"

definition TOO_FAR_INTO_FUTURE_NT :: int where "TOO_FAR_INTO_FUTURE_NT = US2NT (10 * 1000000)"

text \<open>An error that has been raised blocks the timer, as \<^verbatim>\<open>hasFirmwareError()\<close> does; here it is
  one in the log of the executor, to which an error raised elsewhere in the firmware would have to be added.\<close>

definition hasFirmwareError :: "diag_log \<Rightarrow> bool" where
  "hasFirmwareError l = list_ex (\<lambda>d. case d of FirmwareError c \<Rightarrow> True | _ \<Rightarrow> False) l"

subsection \<open>The hardware timer\<close>

definition setHardwareSchedulerTimer :: "clock \<Rightarrow> efitick_t \<Rightarrow> efitick_t \<Rightarrow> 'w executor \<Rightarrow> 'w executor" where
  "setHardwareSchedulerTimer clk nowNt setTimeNt e =
     (if \<not> hwStarted (hw e) then exec_report (FirmwareError OBD_PCM_Processor_Fault) e
      else
        let e = e\<lparr>hw := (hw e)\<lparr>setHwTimerCounter := setHwTimerCounter (hw e) + 1\<rparr>\<rparr>;
            timeDeltaNt = setTimeNt - nowNt;
            e = (if timeDeltaNt \<le> 0
                 then exec_report (Warning CUSTOM_OBD_LOCAL_FREEZE)
                        (e\<lparr>hw := (hw e)\<lparr>timerFreezeCounter := timerFreezeCounter (hw e) + 1\<rparr>\<rparr>)
                 else e)
        in if timeDeltaNt \<ge> US2NT 2 \<and> timeDeltaNt \<ge> TOO_FAR_INTO_FUTURE_NT
           then exec_report (FirmwareError CUSTOM_ERR_TIMER_OVERFLOW) e
           else
             let setTimeNt = (if timeDeltaNt < US2NT 2 then nowNt + US2NT 2 else setTimeNt)
             in if hasFirmwareError (exec_log e) then e
                else
                  let e = e\<lparr>hw := (hw e)\<lparr>port_timer := port_timer (hw e) @ [(nowNt, setTimeNt)]\<rparr>\<rparr>;
                      (now, e) = getTimeNowNt clk e
                  in e\<lparr>hw := (hw e)\<lparr>lastSetTimerTimeNt := now, isTimerPending := True,
                                     timerRestartCounter := timerRestartCounter (hw e) + 1\<rparr>\<rparr>)"

subsection \<open>The executor\<close>

partial_function (option) busy_wait :: "clock \<Rightarrow> efitick_t \<Rightarrow> nat \<Rightarrow> nat option" where
  "busy_wait clk moment n = (if moment > clk n then busy_wait clk moment (n + 1) else Some (n + 1))"

text \<open>\<^verbatim>\<open>EventQueue::executeOne\<close> with the busy wait and the callback.\<close>

definition execute_one ::
  "clock \<Rightarrow> 'w callbacks \<Rightarrow> efitick_t \<Rightarrow> 'w executor \<Rightarrow> (bool \<times> 'w executor) option" where
  "execute_one clk exec now e =
     (case take_due now (exec_queue e) of
        None \<Rightarrow> Some (False, e)
      | Some (moment, action, q) \<Rightarrow>
          Option.bind (busy_wait clk moment (reads e))
            (\<lambda>n. Some (True, exec action (e\<lparr>exec_queue := q, reads := n\<rparr>))))"

partial_function (option) execute_pending_loop :: "clock \<Rightarrow> 'w callbacks \<Rightarrow> 'w executor \<Rightarrow> 'w executor option" where
  "execute_pending_loop clk exec e =
     (let (nowNt, e) = getTimeNowNt clk e in
      Option.bind (execute_one clk exec nowNt e)
        (\<lambda>(didExecute, e).
           let e = (if executeCounter e = 500 then exec_report (FirmwareError CUSTOM_ERR_LOCK_ISSUE) e else e);
               e = e\<lparr>executeCounter := executeCounter e + 1\<rparr>
           in if didExecute then execute_pending_loop clk exec e else Some e))"

definition executeAllPendingActions :: "libfw \<Rightarrow> clock \<Rightarrow> 'w callbacks \<Rightarrow> 'w executor \<Rightarrow> 'w executor option" where
  "executeAllPendingActions L clk exec e =
     (let e = e\<lparr>executeAllPendingActionsInvocationCounter := executeAllPendingActionsInvocationCounter e + 1,
                reentrantFlag := True, executeCounter := -1\<rparr>
      in Option.bind (execute_pending_loop clk exec e)
        (\<lambda>e. let e = e\<lparr>maxExecuteCounter := maxI L (maxExecuteCounter e) (executeCounter e)\<rparr>
             in if \<not> lock_held e then Some (exec_report (FirmwareError CUSTOM_ERR_LOCK_ISSUE) e)
                else Some (e\<lparr>reentrantFlag := False\<rparr>)))"

definition scheduleTimerCallback :: "clock \<Rightarrow> 'w executor \<Rightarrow> 'w executor" where
  "scheduleTimerCallback clk e =
     (let (nowNt, e) = getTimeNowNt clk e in
      case getNextEventTime nowNt (exec_queue e) of
        None \<Rightarrow> e
      | Some next \<Rightarrow>
          if \<not> next > nowNt then exec_report (FirmwareError CUSTOM_ERR_6625) e
          else setHardwareSchedulerTimer clk nowNt next e)"

text \<open>\<^verbatim>\<open>schedule\<close>; the locker takes the lock unless it is held and gives it back at the end.\<close>

definition schedule ::
  "libfw \<Rightarrow> clock \<Rightarrow> 'w callbacks \<Rightarrow> addr option \<Rightarrow> efitick_t \<Rightarrow> action_s \<Rightarrow> 'w executor \<Rightarrow> 'w executor option" where
  "schedule L clk exec scheduling nt action e =
     (let (now, e) = getTimeNowNt clk e;
          deltaTimeNt = nt - now
      in if deltaTimeNt \<ge> TOO_FAR_INTO_FUTURE_NT
         then Some (exec_report (FirmwareError CUSTOM_ERR_TASK_TIMER_OVERFLOW) e)
         else
           let e = e\<lparr>scheduleCounter := scheduleCounter e + 1\<rparr>;
               was_locked = lock_held e;
               e = e\<lparr>lock_held := True\<rparr>
           in Option.bind (insertTask scheduling nt action (exec_queue e))
             (\<lambda>(needToResetTimer, q).
                let e = e\<lparr>exec_queue := q\<rparr>
                in if reentrantFlag e then Some (e\<lparr>lock_held := was_locked\<rparr>)
                   else Option.bind (executeAllPendingActions L clk exec e)
                     (\<lambda>e. let e = (if needToResetTimer then scheduleTimerCallback clk e else e)
                          in Some (e\<lparr>lock_held := was_locked\<rparr>))))"

definition cancel :: "addr \<Rightarrow> 'w executor \<Rightarrow> 'w executor option" where
  "cancel scheduling e = map_option (\<lambda>q. e\<lparr>exec_queue := q\<rparr>) (remove_task scheduling (exec_queue e))"

definition onTimerCallback :: "libfw \<Rightarrow> clock \<Rightarrow> 'w callbacks \<Rightarrow> 'w executor \<Rightarrow> 'w executor option" where
  "onTimerCallback L clk exec e =
     (let e = e\<lparr>timerCallbackCounter := timerCallbackCounter e + 1\<rparr>;
          was_locked = lock_held e;
          e = e\<lparr>lock_held := True\<rparr>
      in Option.bind (executeAllPendingActions L clk exec e)
        (\<lambda>e. Some ((scheduleTimerCallback clk e)\<lparr>lock_held := was_locked\<rparr>)))"

subsection \<open>Callbacks that leave the executor alone\<close>

text \<open>The callback changes only the world outside of the executor; it sees the last reading of the clock.\<close>

definition quiet_call :: "(efitick_t \<times> action_s \<Rightarrow> 'w \<Rightarrow> 'w) \<Rightarrow> clock \<Rightarrow> 'w callbacks" where
  "quiet_call f clk a e = e\<lparr>world := f (clk (reads e - 1), a) (world e)\<rparr>"

text \<open>The callback that writes down its action and the reading of the clock.\<close>

definition record_call :: "clock \<Rightarrow> (efitick_t \<times> action_s) list callbacks" where
  "record_call = quiet_call (\<lambda>c w. w @ [c])"

lemma fold_record: "fold (\<lambda>c w. w @ [c]) cs w = w @ cs"
  by (induction cs arbitrary: w) auto

text \<open>What has run: the events \<open>es\<close> in order, each at a reading of the clock not before its time.\<close>

definition ran_in_time :: "(efitick_t \<times> action_s) list \<Rightarrow> (efitick_t \<times> action_s) list \<Rightarrow> bool" where
  "ran_in_time es done_calls \<longleftrightarrow> list_all2 (\<lambda>(t, a) (c, b). a = b \<and> t \<le> c) es done_calls"

definition clock_advances :: "clock \<Rightarrow> bool" where
  "clock_advances clk \<longleftrightarrow> mono clk \<and> (\<forall>t n. \<exists>k \<ge> n. t \<le> clk k)"

lemma busy_wait_returns:
  assumes "clock_advances clk"
  obtains n' where "busy_wait clk moment n = Some n'" "n < n'" "moment \<le> clk (n' - 1)"
proof -
  obtain k where k: "n \<le> k" "moment \<le> clk k" using assms by (auto simp: clock_advances_def)
  then have "\<exists>n'. busy_wait clk moment n = Some n' \<and> n < n' \<and> moment \<le> clk (n' - 1)"
  proof (induction "k - n" arbitrary: n)
    case 0
    then show ?case by (subst busy_wait.simps) auto
  next
    case (Suc d)
    show ?case
    proof (cases "moment > clk n")
      case True
      have "d = k - (n + 1)" "n + 1 \<le> k" using Suc.hyps(2) by linarith+
      then obtain n' where "busy_wait clk moment (n + 1) = Some n'" "n + 1 < n'" "moment \<le> clk (n' - 1)"
        using Suc.hyps(1)[of "n + 1"] Suc.prems(2) by blast
      then show ?thesis using True by (subst busy_wait.simps) auto
    next
      case False
      then show ?thesis by (subst busy_wait.simps) auto
    qed
  qed
  then show thesis using that by blast
qed

subsection \<open>The pending events by their objects\<close>

definition entries :: "event_queue \<Rightarrow> (addr \<times> efitick_t \<times> action_s) list" where
  "entries q = map (\<lambda>a. (a, momentX (sched q a), sched_action (sched q a))) (pending_addrs q)"

lemma entries_pending: "map snd (entries q) = pending q"
  by (simp add: entries_def pending_def)

lemma entries_addrs: "map fst (entries q) = pending_addrs q"
  by (simp add: entries_def comp_def)

lemma entries_suffix:
  assumes "entries q = es @ entries q'"
  shows "pending q = map snd es @ pending q'" "set (pending_addrs q') \<subseteq> set (pending_addrs q)"
  using arg_cong[OF assms, of "map snd"] arg_cong[OF assms, of "map fst"]
  by (auto simp: entries_pending entries_addrs)

lemma entries_take_due:
  assumes "queue_ok q" "take_due now q = Some (t, a, q')"
  obtains x where "entries q = (x, t, a) # entries q'"
proof -
  obtain xs fs where rep: "queue_rep q xs fs" using assms(1) by (auto simp: queue_ok_def)
  then obtain x ys where xs: "xs = x # ys" "momentX (sched q x) \<le> now + m_lateDelay q"
    using take_due_none[OF rep, of now] assms(2) by (cases xs) force+
  obtain q1 where q1: "take_due now q = Some (momentX (sched q x), sched_action (sched q x), q1)"
    "queue_rep q1 ys (free_after x fs)" "\<And>a. momentX (sched q1 a) = momentX (sched q a)"
    "\<And>a. sched_action (sched q1 a) = (if a = x then null_action else sched_action (sched q a))"
    by (rule take_due_rep[OF rep[unfolded xs(1)] xs(2)], rule that)
  have "x \<notin> set ys" using rep xs(1) by (simp add: queue_rep_def)
  then have "entries q = (x, t, a) # entries q'"
    using assms(2) q1 pending_addrs_rep[OF rep] pending_addrs_rep[OF q1(2)] xs(1) by (auto simp: entries_def)
  then show thesis by (rule that)
qed

lemma entries_insert:
  assumes "queue_ok q" "is_scheduled action" "POOL_SIZE \<le> a" "a \<notin> set (pending_addrs q)"
    and "insertTask (Some a) t action q = Some (b, q')"
  shows "mset (entries q') = add_mset (a, t, action) (mset (entries q))"
proof -
  obtain xs fs where rep: "queue_rep q xs fs" using assms(1) by (auto simp: queue_ok_def)
  have a: "a \<notin> set xs" "a \<notin> set fs" using rep assms(3,4) pending_addrs_rep[OF rep] by (auto simp: queue_rep_def)
  then have q': "queue_rep q' (insert_task_at (\<lambda>x. momentX (sched q x)) t a xs) fs"
    "\<forall>x. momentX (sched q' x) = (if x = a then t else momentX (sched q x))"
    "\<forall>x. sched_action (sched q' x) = (if x = a then action else sched_action (sched q x))"
    using insertTask_rep[OF rep assms(2), of "Some a" t] assms(5) by auto
  show ?thesis
    using a q'(2,3) unfolding entries_def pending_addrs_rep[OF rep] pending_addrs_rep[OF q'(1)]
    by (auto simp: mset_insert_task_at intro!: image_mset_cong)
qed

lemma entries_remove:
  assumes "queue_ok q"
  obtains q' where "remove_task a q = Some q'" "entries q' = filter (\<lambda>en. fst en \<noteq> a) (entries q)"
proof -
  obtain xs fs where rep: "queue_rep q xs fs" using assms by (auto simp: queue_ok_def)
  show thesis
  proof (cases "a \<in> set xs")
    case True
    obtain q' where q': "remove_task a q = Some q'" "queue_rep q' (remove1 a xs) fs"
      "\<And>x. momentX (sched q' x) = momentX (sched q x)"
      "\<And>x. sched_action (sched q' x) = (if x = a then null_action else sched_action (sched q x))"
      by (rule remove_task_rep[OF rep True], rule that)
    have "remove1 a xs = filter (\<lambda>x. x \<noteq> a) xs"
      using rep by (auto simp: queue_rep_def distinct_remove1_removeAll removeAll_filter_not_eq intro: filter_cong)
    then have "entries q' = filter (\<lambda>en. fst en \<noteq> a) (entries q)"
      using q'(3,4) unfolding entries_def pending_addrs_rep[OF rep] pending_addrs_rep[OF q'(2)]
      by (auto simp: filter_map comp_def)
    with q'(1) show thesis by (rule that)
  next
    case False
    then have "filter (\<lambda>en. fst en \<noteq> a) (entries q) = entries q"
      unfolding entries_def pending_addrs_rep[OF rep] by (auto simp: filter_id_conv)
    with remove_task_absent[OF rep False] show thesis by (intro that) simp_all
  qed
qed

lemma execute_pending_loop_runs:
  assumes "clock_advances clk" "reachable late (exec_queue e)" "n = length (pending (exec_queue e))"
  shows "\<exists>e' es done_calls. execute_pending_loop clk (quiet_call f clk) e = Some e' \<and>
    entries (exec_queue e) = es @ entries (exec_queue e') \<and> reachable late (exec_queue e') \<and>
    world e' = fold f done_calls (world e) \<and> ran_in_time (map snd es) done_calls \<and>
    executeCounter e' = executeCounter e + int (length es) + 1 \<and>
    exec_log e' = exec_log e @ (if executeCounter e \<le> 500 \<and> 500 < executeCounter e'
                                then [FirmwareError CUSTOM_ERR_LOCK_ISSUE] else []) \<and>
    reentrantFlag e' = reentrantFlag e \<and> lock_held e' = lock_held e \<and> hw e' = hw e \<and>
    maxExecuteCounter e' = maxExecuteCounter e \<and> reads e < reads e' \<and>
    (\<forall>ev \<in> set (pending (exec_queue e')). clk (reads e' - 1) + late < fst ev)"
  using assms(2,3)
proof (induction n arbitrary: e rule: less_induct)
  case (less n)
  let ?q = "exec_queue e" and ?now = "clk (reads e)"
  have ok: "queue_ok ?q" and late: "m_lateDelay ?q = late"
    using reachable_inv[OF less.prems(1)] by (auto simp: queue_inv_def queue_ok_def)
  show ?case
  proof (cases "take_due ?now ?q")
    case None
    then have "\<forall>ev \<in> set (pending ?q). ?now + late < fst ev"
      using eq.get_none[OF ok None] eq.events_sorted[OF ok] late by (cases "pending ?q") auto
    then show ?thesis
      using None less.prems(1)
      by (subst execute_pending_loop.simps)
        (auto simp: getTimeNowNt_def execute_one_def exec_report_def ran_in_time_def Let_def
          intro!: exI[of _ "[]"])
  next
    case (Some r)
    obtain t a q1 where r: "r = (t, a, q1)" by (cases r)
    note g = eq.get_some[OF ok Some[unfolded r]]
    obtain x where x: "entries ?q = (x, t, a) # entries q1" by (rule entries_take_due[OF ok Some[unfolded r]])
    have reach: "reachable late q1" by (rule reachable.executed[OF less.prems(1) Some[unfolded r]])
    obtain k where k: "busy_wait clk t (reads e + 1) = Some k" "reads e + 1 < k" "t \<le> clk (k - 1)"
      by (rule busy_wait_returns[OF assms(1)])
    define e1 where "e1 = e\<lparr>exec_queue := q1, reads := k, world := f (clk (k - 1), a) (world e)\<rparr>"
    define e2 where "e2 = (if executeCounter e = 500 then exec_report (FirmwareError CUSTOM_ERR_LOCK_ISSUE) e1 else e1)
      \<lparr>executeCounter := executeCounter e + 1\<rparr>"
    have step: "execute_pending_loop clk (quiet_call f clk) e = execute_pending_loop clk (quiet_call f clk) e2"
      using Some r k(1)
      by (subst execute_pending_loop.simps)
        (simp add: getTimeNowNt_def execute_one_def quiet_call_def e1_def e2_def Let_def exec_report_def)
    have e2: "exec_queue e2 = q1" "world e2 = f (clk (k - 1), a) (world e)" "executeCounter e2 = executeCounter e + 1"
      "exec_log e2 = exec_log e @ (if executeCounter e = 500 then [FirmwareError CUSTOM_ERR_LOCK_ISSUE] else [])"
      "reentrantFlag e2 = reentrantFlag e" "lock_held e2 = lock_held e" "hw e2 = hw e"
      "maxExecuteCounter e2 = maxExecuteCounter e" "reads e2 = k"
      by (simp_all add: e2_def e1_def exec_report_def)
    have "length (pending q1) < n" using g less.prems(2) by simp
    from less.IH[OF this, of e2] reach obtain e' es done_calls where IH:
      "execute_pending_loop clk (quiet_call f clk) e2 = Some e'"
      "entries q1 = es @ entries (exec_queue e')" "reachable late (exec_queue e')"
      "world e' = fold f done_calls (world e2)" "ran_in_time (map snd es) done_calls"
      "executeCounter e' = executeCounter e2 + int (length es) + 1"
      "exec_log e' = exec_log e2 @ (if executeCounter e2 \<le> 500 \<and> 500 < executeCounter e'
                                then [FirmwareError CUSTOM_ERR_LOCK_ISSUE] else [])"
      "reentrantFlag e' = reentrantFlag e2" "lock_held e' = lock_held e2" "hw e' = hw e2"
      "maxExecuteCounter e' = maxExecuteCounter e2" "reads e2 < reads e'"
      "\<forall>ev \<in> set (pending (exec_queue e')). clk (reads e' - 1) + late < fst ev"
      unfolding e2 by blast
    have "exec_log e' = exec_log e @ (if executeCounter e \<le> 500 \<and> 500 < executeCounter e'
        then [FirmwareError CUSTOM_ERR_LOCK_ISSUE] else [])"
      using IH(6,7) by (auto simp: e2)
    moreover have "ran_in_time (map snd ((x, t, a) # es)) ((clk (k - 1), a) # done_calls)"
      using IH(5) k(3) by (simp add: ran_in_time_def)
    moreover have "entries ?q = ((x, t, a) # es) @ entries (exec_queue e')"
      using x IH(2) by simp
    ultimately show ?thesis
      using IH step k(2)
      by (intro exI[of _ e'] exI[of _ "(x, t, a) # es"] exI[of _ "(clk (k - 1), a) # done_calls"]) (simp add: e2)
  qed
qed

lemma executeAllPendingActions_runs:
  assumes "libfw_ok L" "clock_advances clk" "reachable late (exec_queue e)" "length (pending (exec_queue e)) \<le> 500"
    and "lock_held e"
  obtains e' es done_calls where "executeAllPendingActions L clk (quiet_call f clk) e = Some e'"
    "pending (exec_queue e) = es @ pending (exec_queue e')" "reachable late (exec_queue e')"
    "world e' = fold f done_calls (world e)" "ran_in_time es done_calls" "exec_log e' = exec_log e" "hw e' = hw e"
    "\<not> reentrantFlag e'" "lock_held e'" "reads e < reads e'"
    "\<forall>ev \<in> set (pending (exec_queue e')). clk (reads e' - 1) + late < fst ev"
proof -
  define e0 where "e0 = e\<lparr>executeAllPendingActionsInvocationCounter := executeAllPendingActionsInvocationCounter e + 1,
                reentrantFlag := True, executeCounter := -1\<rparr>"
  have e0: "exec_queue e0 = exec_queue e" "world e0 = world e" "exec_log e0 = exec_log e" "hw e0 = hw e"
    "lock_held e0 = lock_held e" "reads e0 = reads e" "executeCounter e0 = -1"
    by (simp_all add: e0_def)
  obtain e' es done_calls where P: "execute_pending_loop clk (quiet_call f clk) e0 = Some e'"
    "entries (exec_queue e) = es @ entries (exec_queue e')" "reachable late (exec_queue e')"
    "world e' = fold f done_calls (world e)" "ran_in_time (map snd es) done_calls" "executeCounter e' = int (length es)"
    "exec_log e' = exec_log e @ (if 500 < executeCounter e' then [FirmwareError CUSTOM_ERR_LOCK_ISSUE] else [])"
    "lock_held e' = lock_held e" "hw e' = hw e" "reads e < reads e'"
    "\<forall>ev \<in> set (pending (exec_queue e')). clk (reads e' - 1) + late < fst ev"
    using execute_pending_loop_runs[OF assms(2), of late e0 _ f] assms(3) by (fastforce simp: e0)
  note pend = entries_suffix(1)[OF P(2)]
  have "length es \<le> 500" using pend assms(4) by simp
  then have log: "exec_log e' = exec_log e" using P(6,7) by simp
  show thesis
    using P pend log assms(5)
    by (intro that[of "e'\<lparr>maxExecuteCounter := maxI L (maxExecuteCounter e') (executeCounter e'), reentrantFlag := False\<rparr>"
          "map snd es" done_calls])
      (simp_all add: executeAllPendingActions_def e0_def Let_def)
qed

text \<open>The late delay of \<^verbatim>\<open>SingleTimerExecutor()\<close>.\<close>

definition executor_late :: int where "executor_late = US2NT 8"

lemma setHardwareSchedulerTimer_sets:
  assumes "hwStarted (hw e)" "\<not> hasFirmwareError (exec_log e)" "now < next" "next - now < TOO_FAR_INTO_FUTURE_NT"
  obtains h where "setHardwareSchedulerTimer clk now next e = e\<lparr>reads := reads e + 1, hw := h\<rparr>"
    "port_timer h = port_timer (hw e) @ [(now, max next (now + US2NT 2))]"
proof (rule that)
  let ?e = "setHardwareSchedulerTimer clk now next e"
  have m: "max next (now + US2NT 2) = (if next - now < US2NT 2 then now + US2NT 2 else next)"
    by (simp add: max_def)
  have "\<not> next - now \<le> 0" "\<not> (next - now \<ge> US2NT 2 \<and> next - now \<ge> TOO_FAR_INTO_FUTURE_NT)"
    using assms(3,4) by auto
  note D = setHardwareSchedulerTimer_def getTimeNowNt_def Let_def if_not_P[OF this(1)] if_not_P[OF this(2)]
    assms(1,2) not_not if_False prod.case
  show "?e = e\<lparr>reads := reads e + 1, hw := hw ?e\<rparr>"
    unfolding D by (simp add: assms(1,2))
  show "port_timer (hw ?e) = port_timer (hw e) @ [(now, max next (now + US2NT 2))]"
    unfolding D m by (simp add: assms(1,2))
qed

lemma scheduleTimerCallback_sets:
  assumes "reachable executor_late (exec_queue e)" "hwStarted (hw e)" "\<not> hasFirmwareError (exec_log e)"
    and "\<forall>ev \<in> set (pending (exec_queue e)). fst ev < clk (reads e) + TOO_FAR_INTO_FUTURE_NT"
  defines "e' \<equiv> scheduleTimerCallback clk e"
  shows "exec_queue e' = exec_queue e" "world e' = world e" "exec_log e' = exec_log e" "reentrantFlag e' = reentrantFlag e"
    and "if pending (exec_queue e) = [] then port_timer (hw e') = port_timer (hw e)
         else \<exists>set_to. port_timer (hw e') = port_timer (hw e) @ [(clk (reads e), set_to)] \<and>
           clk (reads e) + US2NT 2 \<le> set_to \<and>
           (\<forall>ev \<in> set (pending (exec_queue e)). set_to \<le> max (clk (reads e) + executor_late) (fst ev))"
proof -
  let ?q = "exec_queue e" and ?now = "clk (reads e)"
  obtain xs fs where rep: "queue_rep ?q xs fs" and late: "m_lateDelay ?q = 32"
    using reachable_inv[OF assms(1)] by (auto simp: queue_inv_def executor_late_def US2NT_def US_TO_NT_MULTIPLIER_def)
  have n: "US2NT 2 = 8" "executor_late = 32" "TOO_FAR_INTO_FUTURE_NT = 40000000"
    by (simp_all add: US2NT_def executor_late_def TOO_FAR_INTO_FUTURE_NT_def US_TO_NT_MULTIPLIER_def)
  have *: "exec_queue e' = exec_queue e \<and> world e' = world e \<and> exec_log e' = exec_log e \<and>
      reentrantFlag e' = reentrantFlag e \<and> (if pending ?q = [] then port_timer (hw e') = port_timer (hw e)
       else \<exists>set_to. port_timer (hw e') = port_timer (hw e) @ [(?now, set_to)] \<and> ?now + US2NT 2 \<le> set_to \<and>
         (\<forall>ev \<in> set (pending ?q). set_to \<le> max (?now + executor_late) (fst ev)))"
  proof (cases xs)
    case Nil
    then show ?thesis
      using rep by (simp add: e'_def scheduleTimerCallback_def getTimeNowNt_def getNextEventTime_def queue_rep_def pending_rep[OF rep])
  next
    case (Cons x ys)
    define nextTime where "nextTime = (if momentX (sched ?q x) \<le> ?now then ?now + 32 else momentX (sched ?q x))"
    have first: "\<forall>ev \<in> set (pending ?q). momentX (sched ?q x) \<le> fst ev"
      using rep Cons unfolding pending_rep[OF rep] by (auto simp: queue_rep_def)
    have nx: "getNextEventTime ?now ?q = Some nextTime" "?now < nextTime" "nextTime - ?now < TOO_FAR_INTO_FUTURE_NT"
      using rep Cons assms(4) unfolding pending_rep[OF rep]
      by (auto simp: getNextEventTime_def queue_rep_def nextTime_def late n)
    obtain h where h: "setHardwareSchedulerTimer clk ?now nextTime (e\<lparr>reads := reads e + 1\<rparr>) =
        (e\<lparr>reads := reads e + 1\<rparr>)\<lparr>reads := reads e + 2, hw := h\<rparr>"
      "port_timer h = port_timer (hw e) @ [(?now, max nextTime (?now + US2NT 2))]"
      using setHardwareSchedulerTimer_sets[of "e\<lparr>reads := reads e + 1\<rparr>" ?now nextTime clk] assms(2,3) nx(2,3) by auto
    have "e' = (e\<lparr>reads := reads e + 1\<rparr>)\<lparr>reads := reads e + 2, hw := h\<rparr>"
      using nx(1,2) h(1) by (simp add: e'_def scheduleTimerCallback_def getTimeNowNt_def)
    moreover have "max nextTime (?now + US2NT 2) \<le> max (?now + executor_late) (fst ev)" if "ev \<in> set (pending ?q)" for ev
      using first that by (auto simp: nextTime_def n)
    moreover have "pending ?q \<noteq> []" using Cons by (simp add: pending_rep[OF rep])
    ultimately show ?thesis
      using h(2) by (simp add: exI[of _ "max nextTime (?now + US2NT 2)"] del: max.bounded_iff)
  qed
  then show "exec_queue e' = exec_queue e" "world e' = world e" "exec_log e' = exec_log e" "reentrantFlag e' = reentrantFlag e"
    "if pending (exec_queue e) = [] then port_timer (hw e') = port_timer (hw e)
         else \<exists>set_to. port_timer (hw e') = port_timer (hw e) @ [(clk (reads e), set_to)] \<and>
           clk (reads e) + US2NT 2 \<le> set_to \<and>
           (\<forall>ev \<in> set (pending (exec_queue e)). set_to \<le> max (clk (reads e) + executor_late) (fst ev))"
    by blast+
qed

text \<open>C17: a timer interrupt with at most 500 pending events, all less than ten seconds away, and callbacks
  that only record: the handler returns. It has run an initial part of the pending events, in the
  order of their times, each one when the clock had reached its time. Every event that was due when
  the handler was entered has run: what is left is more than the late delay after \<open>seen\<close>, a reading of
  the clock not before that moment. If anything is left the hardware timer is set, at least two
  microseconds ahead and not after the first event (or eight microseconds ahead); nothing is
  reported.\<close>

theorem timer_callback_runs_due:
  assumes "libfw_ok L" "clock_advances clk" "reachable executor_late (exec_queue e)"
    and "length (pending (exec_queue e)) \<le> 500" "hwStarted (hw e)" "\<not> hasFirmwareError (exec_log e)"
    and "\<forall>ev \<in> set (pending (exec_queue e)). fst ev < clk (reads e) + TOO_FAR_INTO_FUTURE_NT"
  shows "\<exists>e' es done_calls seen now. onTimerCallback L clk (record_call clk) e = Some e' \<and>
    pending (exec_queue e) = es @ pending (exec_queue e') \<and> reachable executor_late (exec_queue e') \<and>
    world e' = world e @ done_calls \<and> ran_in_time es done_calls \<and>
    clk (reads e) \<le> seen \<and> seen \<le> now \<and>
    (\<forall>ev \<in> set (pending (exec_queue e')). seen + executor_late < fst ev) \<and>
    exec_log e' = exec_log e \<and> \<not> reentrantFlag e' \<and> lock_held e' = lock_held e \<and>
    (if pending (exec_queue e') = [] then port_timer (hw e') = port_timer (hw e)
     else \<exists>set_to. port_timer (hw e') = port_timer (hw e) @ [(now, set_to)] \<and> now + US2NT 2 \<le> set_to \<and>
       (\<forall>ev \<in> set (pending (exec_queue e')). set_to \<le> max (now + executor_late) (fst ev)))"
proof -
  define e0 where "e0 = e\<lparr>timerCallbackCounter := timerCallbackCounter e + 1, lock_held := True\<rparr>"
  have e0: "exec_queue e0 = exec_queue e" "world e0 = world e" "exec_log e0 = exec_log e" "hw e0 = hw e"
    "lock_held e0" "reads e0 = reads e"
    by (simp_all add: e0_def)
  obtain e1 es done_calls where P: "executeAllPendingActions L clk (record_call clk) e0 = Some e1"
    "pending (exec_queue e) = es @ pending (exec_queue e1)" "reachable executor_late (exec_queue e1)"
    "world e1 = world e @ done_calls" "ran_in_time es done_calls" "exec_log e1 = exec_log e" "hw e1 = hw e"
    "\<not> reentrantFlag e1" "reads e < reads e1"
    "\<forall>ev \<in> set (pending (exec_queue e1)). clk (reads e1 - 1) + executor_late < fst ev"
    by (rule executeAllPendingActions_runs[OF assms(1,2), of executor_late e0 "\<lambda>c w. w @ [c]"])
      (use assms(3,4) e0 in \<open>simp_all add: record_call_def fold_record\<close>)
  have seen: "clk (reads e) \<le> clk (reads e1 - 1)" "clk (reads e1 - 1) \<le> clk (reads e1)"
    using assms(2) P(9) by (auto simp: clock_advances_def mono_def)
  then have "\<forall>ev \<in> set (pending (exec_queue e1)). fst ev < clk (reads e1) + TOO_FAR_INTO_FUTURE_NT"
    using assms(7) P(2) by (auto dest!: bspec)
  then have near: "\<And>ev. ev \<in> set (pending (exec_queue e1)) \<Longrightarrow> fst ev < clk (reads e1) + TOO_FAR_INTO_FUTURE_NT"
    by blast
  have S: "exec_queue (scheduleTimerCallback clk e1) = exec_queue e1" "world (scheduleTimerCallback clk e1) = world e1"
    "exec_log (scheduleTimerCallback clk e1) = exec_log e1"
    "reentrantFlag (scheduleTimerCallback clk e1) = reentrantFlag e1"
    "if pending (exec_queue e1) = [] then port_timer (hw (scheduleTimerCallback clk e1)) = port_timer (hw e1)
     else \<exists>set_to. port_timer (hw (scheduleTimerCallback clk e1)) = port_timer (hw e1) @ [(clk (reads e1), set_to)] \<and>
       clk (reads e1) + US2NT 2 \<le> set_to \<and>
       (\<forall>ev \<in> set (pending (exec_queue e1)). set_to \<le> max (clk (reads e1) + executor_late) (fst ev))"
    by (rule scheduleTimerCallback_sets; use P(3,6,7) assms(5,6) near in simp)+
  let ?e = "(scheduleTimerCallback clk e1)\<lparr>lock_held := lock_held e\<rparr>"
  have run: "onTimerCallback L clk (record_call clk) e = Some ?e"
    using P(1) by (simp add: onTimerCallback_def Let_def e0_def[symmetric])
  have timer: "if pending (exec_queue ?e) = [] then port_timer (hw ?e) = port_timer (hw e)
     else \<exists>set_to. port_timer (hw ?e) = port_timer (hw e) @ [(clk (reads e1), set_to)] \<and>
       clk (reads e1) + US2NT 2 \<le> set_to \<and>
       (\<forall>ev \<in> set (pending (exec_queue ?e)). set_to \<le> max (clk (reads e1) + executor_late) (fst ev))"
    using S(5)[unfolded P(7)] S(1) by simp
  show ?thesis
    by (rule exI[of _ ?e], rule exI[of _ es], rule exI[of _ done_calls], rule exI[of _ "clk (reads e1 - 1)"],
        rule exI[of _ "clk (reads e1)"])
      (intro conjI run timer seen; use P S(1-4) in simp)
qed

lemma scheduleTimerCallback_keeps:
  "exec_queue (scheduleTimerCallback clk e) = exec_queue e" "world (scheduleTimerCallback clk e) = world e"
  "reads e \<le> reads (scheduleTimerCallback clk e)"
  by (auto simp: scheduleTimerCallback_def setHardwareSchedulerTimer_def getTimeNowNt_def exec_report_def Let_def
      split: option.splits)

text \<open>Scheduling from anywhere with callbacks that leave the executor alone: the action is added, and what is
  missing from the queue afterwards has run.\<close>

lemma schedule_quiet:
  assumes "libfw_ok L" "clock_advances clk" "reachable late (exec_queue e)" "is_scheduled action" "POOL_SIZE \<le> a"
    and "a \<notin> set (pending_addrs (exec_queue e))" "nt < clk (reads e) + TOO_FAR_INTO_FUTURE_NT"
  obtains e' es done_calls where "schedule L clk (quiet_call f clk) (Some a) nt action e = Some e'"
    "reachable late (exec_queue e')" "world e' = fold f done_calls (world e)" "ran_in_time (map snd es) done_calls"
    "add_mset (a, nt, action) (mset (entries (exec_queue e))) = mset es + mset (entries (exec_queue e'))" "reads e \<le> reads e'"
proof -
  have ok: "queue_ok (exec_queue e)" and inv: "queue_inv (exec_queue e)"
    using reachable_inv[OF assms(3)] by (auto simp: queue_inv_def queue_ok_def)
  obtain b q' where q': "insertTask (Some a) nt action (exec_queue e) = Some (b, q')"
    by (rule insertTask_inv[OF inv assms(4), of "Some a" nt]) (use assms(5) in auto)
  have reach: "reachable late q'"
    by (rule reachable.inserted[OF assms(3,4) _ q']) (use assms(5) in auto)
  have put: "mset (entries q') = add_mset (a, nt, action) (mset (entries (exec_queue e)))"
    by (rule entries_insert[OF ok assms(4-6) q'])
  define e1 where "e1 = e\<lparr>reads := reads e + 1, scheduleCounter := scheduleCounter e + 1, lock_held := True, exec_queue := q'\<rparr>"
  have e1: "exec_queue e1 = q'" "world e1 = world e" "lock_held e1" "reads e \<le> reads e1" by (simp_all add: e1_def)
  show thesis
  proof (cases "reentrantFlag e")
    case True
    then have "schedule L clk (quiet_call f clk) (Some a) nt action e = Some (e1\<lparr>lock_held := lock_held e\<rparr>)"
      using q' assms(7) by (simp add: schedule_def getTimeNowNt_def e1_def Let_def)
    then show thesis
      using that[of "e1\<lparr>lock_held := lock_held e\<rparr>" "[]" "[]"] reach put by (simp add: e1 ran_in_time_def)
  next
    case False
    define e2 where "e2 = e1\<lparr>executeAllPendingActionsInvocationCounter := executeAllPendingActionsInvocationCounter e1 + 1,
        reentrantFlag := True, executeCounter := -1\<rparr>"
    obtain e3 es done_calls where run: "execute_pending_loop clk (quiet_call f clk) e2 = Some e3"
      "entries q' = es @ entries (exec_queue e3)" "reachable late (exec_queue e3)"
      "world e3 = fold f done_calls (world e)" "ran_in_time (map snd es) done_calls" "lock_held e3" "reads e2 < reads e3"
      using execute_pending_loop_runs[OF assms(2), of late e2 _ f] reach by (fastforce simp: e2_def e1)
    have "reads e \<le> reads e3" using run(7) by (simp add: e2_def e1_def)
    note reads = this
    define e4 where "e4 = e3\<lparr>maxExecuteCounter := maxI L (maxExecuteCounter e3) (executeCounter e3), reentrantFlag := False\<rparr>"
    let ?e' = "(if b then scheduleTimerCallback clk e4 else e4)\<lparr>lock_held := lock_held e\<rparr>"
    have "schedule L clk (quiet_call f clk) (Some a) nt action e = Some ?e'"
      using q' assms(7) False run(1,6)
      by (simp add: schedule_def getTimeNowNt_def executeAllPendingActions_def e1_def e2_def e4_def Let_def)
    moreover have "exec_queue ?e' = exec_queue e3" "world ?e' = world e3" "reads e \<le> reads ?e'"
      using scheduleTimerCallback_keeps(3)[of e4 clk] reads by (simp_all add: scheduleTimerCallback_keeps(1,2) e4_def)
    ultimately show thesis
      using that[of ?e' done_calls es] run put by (auto simp: union_commute)
  qed
qed

text \<open>An action that is scheduled from inside a callback is only inserted: the executor that is running
  finds it, nothing is executed recursively and the timer is not touched.\<close>

theorem schedule_inside_callback:
  assumes "reachable late (exec_queue e)" "reentrantFlag e" "is_scheduled action" "POOL_SIZE \<le> a"
    and "a \<notin> set (pending_addrs (exec_queue e))" "nt < clk (reads e) + TOO_FAR_INTO_FUTURE_NT"
  shows "\<exists>e'. schedule L clk exec (Some a) nt action e = Some e' \<and>
    mset (pending (exec_queue e')) = add_mset (nt, action) (mset (pending (exec_queue e))) \<and>
    reachable late (exec_queue e') \<and> world e' = world e \<and> hw e' = hw e \<and> exec_log e' = exec_log e \<and>
    reentrantFlag e' \<and> lock_held e' = lock_held e"
proof -
  have ok: "queue_ok (exec_queue e)" and inv: "queue_inv (exec_queue e)"
    using reachable_inv[OF assms(1)] by (auto simp: queue_inv_def queue_ok_def)
  obtain b q' where q': "insertTask (Some a) nt action (exec_queue e) = Some (b, q')"
    by (rule insertTask_inv[OF inv assms(3), of "Some a" nt]) (use assms(4) in auto)
  have reach: "reachable late q'"
    by (rule reachable.inserted[OF assms(1,3) _ q']) (use assms(4) in auto)
  obtain xs fs where rep: "queue_rep (exec_queue e) xs fs" using ok by (auto simp: queue_ok_def)
  have "\<not> is_scheduled (sched_action (sched (exec_queue e) a))"
    using rep assms(5) pending_addrs_rep[OF rep] by (simp add: queue_rep_def)
  then have "put_task (Some a) nt action (exec_queue e) = Some q'"
    using q' assms(3,4) by (simp add: put_task_def)
  then have "mset (pending q') = add_mset (nt, action) (mset (pending (exec_queue e)))"
    using eq.put_some[OF ok] by blast
  then show ?thesis
    using q' reach assms(2,6)
    by (auto simp: schedule_def getTimeNowNt_def Let_def)
qed

text \<open>An action more than ten seconds ahead is refused with an error, and the queue is not touched.\<close>

theorem schedule_too_far:
  assumes "clk (reads e) + TOO_FAR_INTO_FUTURE_NT \<le> nt"
  shows "\<exists>e'. schedule L clk exec s nt action e = Some e' \<and> exec_queue e' = exec_queue e \<and> hw e' = hw e \<and>
    world e' = world e \<and> exec_log e' = exec_log e @ [FirmwareError CUSTOM_ERR_TASK_TIMER_OVERFLOW]"
  using assms by (simp add: schedule_def getTimeNowNt_def exec_report_def Let_def)

subsection \<open>Witnesses\<close>

definition example_executor :: "(efitick_t \<times> action_s) list executor" where
  "example_executor = \<lparr>exec_queue = example_queue, reentrantFlag = False, timerCallbackCounter = 0,
     scheduleCounter = 0, maxExecuteCounter = 0, executeCounter = 0,
     executeAllPendingActionsInvocationCounter = 0, lock_held = False, reads = 990,
     hw = \<lparr>hwStarted = True, setHwTimerCounter = 0, timerFreezeCounter = 0, timerRestartCounter = 0,
           lastSetTimerTimeNt = 0, isTimerPending = False, port_timer = []\<rparr>,
     exec_log = [], world = []\<rparr>"

lemma example_clock: "clock_advances int"
proof -
  have "\<exists>k \<ge> n. t \<le> int k" for t n by (rule exI[of _ "max n (nat t)"]) auto
  then show ?thesis by (auto simp: clock_advances_def mono_def)
qed

lemma example_executor_reachable: "reachable executor_late (exec_queue example_executor)"
  using example_queue_reachable by (simp add: example_executor_def executor_late_def US2NT_def US_TO_NT_MULTIPLIER_def)

lemma example_pending: "pending (exec_queue example_executor) = [(1000, example_action 1)]"
proof -
  obtain b where b: "insertTask (Some 100) 1000 (example_action 1) (EventQueue 32 blank_store) = Some (b, example_queue)"
    "queue_rep example_queue [100] (rev [0..<POOL_SIZE])"
    by (rule example_queue_insert, rule that)
  have rep: "queue_rep (EventQueue 32 blank_store) [] (rev [0..<POOL_SIZE])"
    using EventQueue_inv[of blank_store 32] by (simp add: blank_store_def)
  show ?thesis
    using insertTask_rep[OF rep example_action_scheduled[of 1], of "Some 100" 1000] b(1)
    by (auto simp: POOL_SIZE_def example_executor_def pending_rep[OF b(2)])
qed

lemma timer_callback_runs_due_witness:
  "\<exists>e' es done_calls seen now. onTimerCallback libfw_example int (record_call int) example_executor = Some e' \<and>
    pending (exec_queue example_executor) = es @ pending (exec_queue e') \<and> reachable executor_late (exec_queue e') \<and>
    world e' = world example_executor @ done_calls \<and> ran_in_time es done_calls \<and>
    int (reads example_executor) \<le> seen \<and> seen \<le> now \<and>
    (\<forall>ev \<in> set (pending (exec_queue e')). seen + executor_late < fst ev) \<and>
    exec_log e' = exec_log example_executor \<and> \<not> reentrantFlag e' \<and> lock_held e' = lock_held example_executor \<and>
    (if pending (exec_queue e') = [] then port_timer (hw e') = port_timer (hw example_executor)
     else \<exists>set_to. port_timer (hw e') = port_timer (hw example_executor) @ [(now, set_to)] \<and> now + US2NT 2 \<le> set_to \<and>
       (\<forall>ev \<in> set (pending (exec_queue e')). set_to \<le> max (now + executor_late) (fst ev)))"
  by (rule timer_callback_runs_due[OF libfw_example_ok example_clock example_executor_reachable])
    (unfold example_pending, simp_all add: example_executor_def hasFirmwareError_def TOO_FAR_INTO_FUTURE_NT_def
      US2NT_def US_TO_NT_MULTIPLIER_def)

lemma schedule_inside_callback_witness:
  "\<exists>e'. schedule libfw_example int (record_call int) (Some 101) 2000 (example_action 2)
      (example_executor\<lparr>reentrantFlag := True\<rparr>) = Some e' \<and>
    mset (pending (exec_queue e')) =
      add_mset (2000, example_action 2) (mset (pending (exec_queue (example_executor\<lparr>reentrantFlag := True\<rparr>)))) \<and>
    reachable executor_late (exec_queue e') \<and> world e' = world (example_executor\<lparr>reentrantFlag := True\<rparr>) \<and>
    hw e' = hw (example_executor\<lparr>reentrantFlag := True\<rparr>) \<and>
    exec_log e' = exec_log (example_executor\<lparr>reentrantFlag := True\<rparr>) \<and>
    reentrantFlag e' \<and> lock_held e' = lock_held (example_executor\<lparr>reentrantFlag := True\<rparr>)"
proof (rule schedule_inside_callback)
  have "queue_rep example_queue [100] (rev [0..<POOL_SIZE])" by (rule example_queue_insert)
  then show "101 \<notin> set (pending_addrs (exec_queue (example_executor\<lparr>reentrantFlag := True\<rparr>)))"
    by (simp add: pending_addrs_rep example_executor_def)
qed (use example_executor_reachable in \<open>simp_all add: POOL_SIZE_def example_executor_def
    TOO_FAR_INTO_FUTURE_NT_def US2NT_def US_TO_NT_MULTIPLIER_def\<close>)

lemma schedule_too_far_witness:
  "\<exists>e'. schedule libfw_example int (record_call int) None 50000000 (example_action 1) example_executor = Some e' \<and>
    exec_queue e' = exec_queue example_executor \<and> hw e' = hw example_executor \<and> world e' = world example_executor \<and>
    exec_log e' = exec_log example_executor @ [FirmwareError CUSTOM_ERR_TASK_TIMER_OVERFLOW]"
  by (rule schedule_too_far)
    (simp add: example_executor_def TOO_FAR_INTO_FUTURE_NT_def US2NT_def US_TO_NT_MULTIPLIER_def)

end
