(* ===== verification/Bounded_Queue.thy ===== *)
theory Bounded_Queue
  imports Fome_Prelude
begin

text \<open>
  The contract of a bounded first-in first-out queue, and what a client may conclude from it: over any
  sequence of insertions and removals the items come out in the order in which they were accepted.
\<close>

locale bounded_queue =
  fixes ok :: "'q \<Rightarrow> bool"
    and items :: "'q \<Rightarrow> 'a list"
    and capacity :: "'q \<Rightarrow> nat"
    and put :: "'a \<Rightarrow> 'q \<Rightarrow> bool \<times> 'q"
    and get :: "'q \<Rightarrow> 'a \<times> 'q"
  assumes bounded: "ok q \<Longrightarrow> length (items q) \<le> capacity q"
    and put_accepts: "ok q \<Longrightarrow> length (items q) < capacity q \<Longrightarrow>
      \<exists>q'. put x q = (True, q') \<and> ok q' \<and> items q' = items q @ [x] \<and> capacity q' = capacity q"
    and put_refuses: "ok q \<Longrightarrow> length (items q) = capacity q \<Longrightarrow> put x q = (False, q)"
    and get_first: "ok q \<Longrightarrow> items q = x # xs \<Longrightarrow>
      \<exists>q'. get q = (x, q') \<and> ok q' \<and> items q' = xs \<and> capacity q' = capacity q"
begin

text \<open>A run of the client: \<open>Some x\<close> puts an item, \<open>None\<close> gets one if there is one. What was accepted and
  what came out, in order.\<close>

fun run :: "'a option list \<Rightarrow> 'q \<Rightarrow> 'a list \<times> 'a list \<times> 'q" where
  "run [] q = ([], [], q)"
| "run (Some x # ops) q =
     (let (accepted, q1) = put x q; (ins, outs, q2) = run ops q1
      in (if accepted then x # ins else ins, outs, q2))"
| "run (None # ops) q =
     (if items q = [] then run ops q
      else let (y, q1) = get q; (ins, outs, q2) = run ops q1 in (ins, y # outs, q2))"

lemma run_fifo:
  assumes "ok q" "run ops q = (ins, outs, q')"
  shows "ok q' \<and> items q @ ins = outs @ items q' \<and> capacity q' = capacity q"
  using assms
proof (induction ops q arbitrary: ins outs rule: run.induct)
  case (2 x ops q)
  obtain a q1 where p: "put x q = (a, q1)" by (cases "put x q")
  obtain i o' q2 where r: "run ops q1 = (i, o', q2)" by (cases "run ops q1") auto
  show ?case
  proof (cases "length (items q) < capacity q")
    case True
    with put_accepts[OF 2(2) True, of x] p 2 r show ?thesis by auto
  next
    case False
    then have "length (items q) = capacity q" using bounded[OF 2(2)] by simp
    with put_refuses[OF 2(2) this, of x] p 2 r show ?thesis by auto
  qed
next
  case (3 ops q)
  show ?case
  proof (cases "items q")
    case (Cons x xs)
    obtain q1 where g: "get q = (x, q1)" "ok q1" "items q1 = xs" "capacity q1 = capacity q"
      using get_first[OF 3(3) Cons] by auto
    obtain i o' q2 where r: "run ops q1 = (i, o', q2)" by (cases "run ops q1") auto
    show ?thesis using 3 g r Cons by auto
  qed (use 3 in simp)
qed simp

end

end
