(* ===== verification/Containers.thy ===== *)
theory Containers
  imports Bounded_Queue
begin

text \<open>
  \<^verbatim>\<open>util/containers\<close>: \<^verbatim>\<open>cyclic_buffer.h\<close>, \<^verbatim>\<open>fifo_buffer.h\<close>, \<^verbatim>\<open>fl_stack.h\<close> and \<^verbatim>\<open>static_vector.h\<close>. The C
  arrays are lists of fixed length; a template parameter is a type variable and the array length;
  \<open>zero\<close> is the all-zero value that \<^verbatim>\<open>memset\<close> leaves. Counters keep their width (\<^verbatim>\<open>size_t\<close> has 32 bits
  on the target).
\<close>

subsection \<open>cyclic_buffer\<close>

record 'a cyclic_buffer =
  elements :: "'a list"
  currentIndex :: "16 word"
  m_size :: "32 word"
  count :: "32 word"

definition cb_clear :: "'a \<Rightarrow> ('a, 'b) cyclic_buffer_scheme \<Rightarrow> ('a, 'b) cyclic_buffer_scheme" where
  "cb_clear zero b = b\<lparr>elements := replicate (length (elements b)) zero, count := 0, currentIndex := 0\<rparr>"

definition cb_setSize :: "'a \<Rightarrow> 32 word \<Rightarrow> ('a, 'b) cyclic_buffer_scheme \<Rightarrow> ('a, 'b) cyclic_buffer_scheme" where
  "cb_setSize zero newSize b =
     (let b = cb_clear zero b; maxSize = of_nat (length (elements b))
      in b\<lparr>m_size := (if newSize < maxSize then newSize else maxSize)\<rparr>)"

definition cb_add :: "'a \<Rightarrow> ('a, 'b) cyclic_buffer_scheme \<Rightarrow> ('a, 'b) cyclic_buffer_scheme" where
  "cb_add value b =
     (let idx = currentIndex b;
          b = b\<lparr>elements := (elements b)[unat idx := value]\<rparr>;
          idx = idx + 1;
          idx = (if ucast idx = m_size b then 0 else idx)
      in b\<lparr>currentIndex := idx, count := count b + 1\<rparr>)"

definition cb_contains :: "'a \<Rightarrow> ('a, 'b) cyclic_buffer_scheme \<Rightarrow> bool" where
  "cb_contains value b = list_ex (\<lambda>i. elements b ! i = value) [0..<unat (currentIndex b)]"

definition cb_getSize :: "('a, 'b) cyclic_buffer_scheme \<Rightarrow> int" where
  "cb_getSize b = sint (m_size b)"

definition cb_getCount :: "('a, 'b) cyclic_buffer_scheme \<Rightarrow> int" where
  "cb_getCount b = sint (count b)"

text \<open>The two loops that bring an index into range; with size 0 they do not end.\<close>

partial_function (option) raise_index :: "int \<Rightarrow> int \<Rightarrow> int option" where
  "raise_index sz index = (if index < 0 then raise_index sz (index + sz) else Some index)"

partial_function (option) lower_index :: "int \<Rightarrow> int \<Rightarrow> int option" where
  "lower_index sz index = (if index \<ge> sz then lower_index sz (index - sz) else Some index)"

definition cb_get :: "int \<Rightarrow> ('a, 'b) cyclic_buffer_scheme \<Rightarrow> 'a option" where
  "cb_get index b =
     Option.bind (raise_index (uint (m_size b)) index)
       (\<lambda>i. Option.bind (lower_index (uint (m_size b)) i) (\<lambda>i. Some (elements b ! nat i)))"

text \<open>The loop of \<^verbatim>\<open>sum\<close>, \<^verbatim>\<open>maxValue\<close> and \<^verbatim>\<open>minValue\<close>: it walks back from the newest element.\<close>

fun cb_walk :: "('r \<Rightarrow> 'a \<Rightarrow> 'r) \<Rightarrow> nat list \<Rightarrow> ('a, 'b) cyclic_buffer_scheme \<Rightarrow> 'r \<Rightarrow> 'r option" where
  "cb_walk f [] b result = Some result"
| "cb_walk f (i # is) b result =
     (case raise_index (uint (m_size b)) (int (unat (currentIndex b)) - int i - 1) of
        None \<Rightarrow> None
      | Some index \<Rightarrow> cb_walk f is b (f result (elements b ! nat index)))"

definition cb_length :: "32 word \<Rightarrow> ('a, 'b) cyclic_buffer_scheme \<Rightarrow> nat" where
  "cb_length len b = unat (if len > count b then count b else len)"

definition cb_sum :: "32 word \<Rightarrow> ('a::{zero,plus}, 'b) cyclic_buffer_scheme \<Rightarrow> 'a option" where
  "cb_sum len b = cb_walk (\<lambda>r x. r + x) [0..<cb_length len b] b 0"

definition cb_maxValue :: "'a::linorder \<Rightarrow> 32 word \<Rightarrow> ('a, 'b) cyclic_buffer_scheme \<Rightarrow> 'a option" where
  "cb_maxValue limits_min len b =
     cb_walk (\<lambda>r x. if x > r then x else r) [0..<cb_length len b] b limits_min"

definition cb_minValue :: "'a::linorder \<Rightarrow> 32 word \<Rightarrow> ('a, 'b) cyclic_buffer_scheme \<Rightarrow> 'a option" where
  "cb_minValue limits_max len b =
     cb_walk (\<lambda>r x. if x < r then x else r) [0..<cb_length len b] b limits_max"

subsection \<open>fifo_buffer\<close>

record 'a fifo_buffer = "'a cyclic_buffer" +
  currentIndexRead :: int

definition fifo_isEmpty :: "'a fifo_buffer \<Rightarrow> bool" where
  "fifo_isEmpty b = (cb_getCount b = 0)"

definition fifo_isFull :: "'a fifo_buffer \<Rightarrow> bool" where
  "fifo_isFull b = (cb_getCount b \<ge> cb_getSize b)"

definition fifo_put :: "'a \<Rightarrow> 'a fifo_buffer \<Rightarrow> bool \<times> 'a fifo_buffer" where
  "fifo_put item b = (if \<not> fifo_isFull b then (True, cb_add item b) else (False, b))"

fun fifo_put_items :: "'a list \<Rightarrow> 'a fifo_buffer \<Rightarrow> bool \<times> 'a fifo_buffer" where
  "fifo_put_items [] b = (True, b)"
| "fifo_put_items (x # xs) b =
     (let (ok, b) = fifo_put x b in if \<not> ok then (False, b) else fifo_put_items xs b)"

text \<open>The product of the signed index and the unsigned size is unsigned in C.\<close>

definition fifo_get :: "'a fifo_buffer \<Rightarrow> 'a \<times> 'a fifo_buffer" where
  "fifo_get b =
     (let ret = elements b ! nat (currentIndexRead b) in
      if \<not> fifo_isEmpty b
      then (ret, b\<lparr>currentIndexRead := uint ((of_int (currentIndexRead b) + 1) mod m_size b), count := count b - 1\<rparr>)
      else (ret, b))"

definition fifo_clear :: "'a \<Rightarrow> 'a fifo_buffer \<Rightarrow> 'a fifo_buffer" where
  "fifo_clear zero b = (cb_clear zero b)\<lparr>currentIndexRead := 0\<rparr>"

definition fifo_buffer :: "'a \<Rightarrow> nat \<Rightarrow> 'a fifo_buffer" where
  "fifo_buffer zero maxSize =
     (let b = cb_setSize zero (of_nat maxSize)
                \<lparr>elements = replicate maxSize zero, currentIndex = 0, m_size = 0, count = 0, currentIndexRead = 0\<rparr>
      in b\<lparr>currentIndexRead := 0\<rparr>)"

subsection \<open>FLStack and ArrayList\<close>

record 'a FLStack =
  currentSize :: int
  stack_values :: "'a list"
  stack_log :: diag_log

definition stack_report :: "diag \<Rightarrow> 'a FLStack \<Rightarrow> 'a FLStack" where
  "stack_report d s = s\<lparr>stack_log := stack_log s @ [d]\<rparr>"

definition stack_reset :: "'a FLStack \<Rightarrow> 'a FLStack" where
  "stack_reset s = s\<lparr>currentSize := 0\<rparr>"

definition stack_isEmpty :: "'a FLStack \<Rightarrow> bool" where
  "stack_isEmpty s = (currentSize s = 0)"

text \<open>The loop of \<^verbatim>\<open>remove\<close>; the first match is overwritten at position 0.\<close>

definition stack_remove :: "'a \<Rightarrow> 'a FLStack \<Rightarrow> bool \<times> 'a FLStack" where
  "stack_remove value s =
     (case List.find (\<lambda>i. stack_values s ! i = value) [0..<nat (currentSize s)] of
        None \<Rightarrow> (False, s)
      | Some i \<Rightarrow> (True, s\<lparr>stack_values := (stack_values s)[0 := stack_values s ! nat (currentSize s - 1)], currentSize := currentSize s - 1\<rparr>))"

definition stack_push :: "'a \<Rightarrow> 'a FLStack \<Rightarrow> 'a FLStack" where
  "stack_push value s =
     (if currentSize s \<ge> int (length (stack_values s)) then stack_report (FirmwareError ERROR_FL_STACK_OVERFLOW) s
      else s\<lparr>stack_values := (stack_values s)[nat (currentSize s) := value], currentSize := currentSize s + 1\<rparr>)"

text \<open>\<^verbatim>\<open>pop\<close> of an empty stack reports and then reads before the array.\<close>

definition stack_pop :: "'a FLStack \<Rightarrow> 'a option \<times> 'a FLStack" where
  "stack_pop s =
     (let s = (if currentSize s = 0 then stack_report (FirmwareError CUSTOM_FLSTACK) s else s);
          s = s\<lparr>currentSize := currentSize s - 1\<rparr>
      in if currentSize s < 0 then (None, stack_report OutOfBounds s)
         else (Some (stack_values s ! nat (currentSize s)), s))"

definition stack_get :: "int \<Rightarrow> 'a FLStack \<Rightarrow> 'a \<times> 'a FLStack" where
  "stack_get index s =
     (if \<not> (index \<ge> 0 \<and> index < int (length (stack_values s)))
      then (stack_values s ! 0, stack_report (FirmwareError CUSTOM_ERR_ASSERT) s)
      else (stack_values s ! nat index, s))"

record 'a ArrayList =
  list_size :: int
  list_elements :: "'a list"
  list_log :: diag_log

definition list_reset :: "'a ArrayList \<Rightarrow> 'a ArrayList" where
  "list_reset l = l\<lparr>list_size := 0\<rparr>"

definition list_removeAt :: "'a \<Rightarrow> int \<Rightarrow> 'a ArrayList \<Rightarrow> 'a ArrayList" where
  "list_removeAt zero index l =
     (if \<not> (index \<ge> 0 \<and> index < list_size l)
      then l\<lparr>list_log := list_log l @ [FirmwareError CUSTOM_ERR_ARRAY_REMOVE]\<rparr>
      else let l = l\<lparr>list_elements := (list_elements l)[nat index := list_elements l ! nat (list_size l - 1)]\<rparr>;
               l = l\<lparr>list_elements := (list_elements l)[nat (list_size l - 1) := zero]\<rparr>
           in l\<lparr>list_size := list_size l - 1\<rparr>)"

text \<open>\<^verbatim>\<open>add\<close> returns the address of the new element, here its index.\<close>

definition list_add :: "'a ArrayList \<Rightarrow> nat option \<times> 'a ArrayList" where
  "list_add l =
     (if \<not> list_size l < int (length (list_elements l))
      then (None, l\<lparr>list_log := list_log l @ [FirmwareError CUSTOM_ERR_ASSERT]\<rparr>)
      else (Some (nat (list_size l)), l\<lparr>list_size := list_size l + 1\<rparr>))"

subsection \<open>static_vector\<close>

record 'a static_vector =
  m_storage :: "'a list"
  vec_size :: nat

definition vec_clear :: "'a static_vector \<Rightarrow> 'a static_vector" where
  "vec_clear v = v\<lparr>vec_size := 0\<rparr>"

definition vec_find :: "('a \<Rightarrow> bool) \<Rightarrow> 'a static_vector \<Rightarrow> nat option" where
  "vec_find matches v = List.find (\<lambda>i. matches (m_storage v ! i)) [0..<vec_size v]"

definition vec_add :: "'a \<Rightarrow> 'a static_vector \<Rightarrow> nat option \<times> 'a static_vector" where
  "vec_add value v =
     (if vec_size v \<ge> length (m_storage v) then (None, v)
      else (Some (vec_size v), v\<lparr>m_storage := (m_storage v)[vec_size v := value], vec_size := vec_size v + 1\<rparr>))"

definition vec_get :: "nat \<Rightarrow> 'a static_vector \<Rightarrow> 'a" where
  "vec_get i v = m_storage v ! i"

definition vec_getCount :: "'a static_vector \<Rightarrow> nat" where
  "vec_getCount v = vec_size v"

subsection \<open>The index arithmetic\<close>

text \<open>A buffer whose index is in range.\<close>

definition cb_ok :: "('a, 'b) cyclic_buffer_scheme \<Rightarrow> bool" where
  "cb_ok b \<longleftrightarrow> 0 < unat (m_size b) \<and> unat (m_size b) \<le> length (elements b) \<and> unat (m_size b) \<le> 0xFFFF \<and>
     unat (currentIndex b) < unat (m_size b)"

lemma unat_inc16: "unat w < 0xFFFF \<Longrightarrow> unat (w + 1 :: 16 word) = unat w + 1"
  by (simp add: unat_word_ariths)

lemma unat_ucast32: "unat (ucast w :: 32 word) = unat (w :: 16 word)"
proof -
  have "unat w < 2 ^ 32" by (rule order_less_le_trans[OF unsigned_less]) simp
  then show ?thesis by (simp add: unsigned_ucast_eq take_bit_nat_eq_self)
qed

lemma cb_add_index:
  assumes "cb_ok b"
  shows "unat (currentIndex (cb_add x b)) = (unat (currentIndex b) + 1) mod unat (m_size b)"
proof -
  have i: "unat (currentIndex b + 1) = unat (currentIndex b) + 1"
    using assms by (intro unat_inc16) (auto simp: cb_ok_def)
  have "(ucast (currentIndex b + 1) :: 32 word) = m_size b \<longleftrightarrow> unat (currentIndex b) + 1 = unat (m_size b)"
    unfolding i[symmetric] by (metis unat_ucast32 unsigned_word_eqI)
  then show ?thesis
    using assms i by (auto simp: cb_add_def cb_ok_def Let_def)
qed

lemma cb_add_fields [simp]:
  "m_size (cb_add x b) = m_size b" "count (cb_add x b) = count b + 1"
  "length (elements (cb_add x b)) = length (elements b)"
  "elements (cb_add x b) = (elements b)[unat (currentIndex b) := x]"
  by (simp_all add: cb_add_def Let_def)

lemma cb_add_ok: "cb_ok b \<Longrightarrow> cb_ok (cb_add x b)"
  using cb_add_index[of b x] by (simp add: cb_ok_def)

subsection \<open>The FIFO queue\<close>

definition fifo_ok :: "'a fifo_buffer \<Rightarrow> bool" where
  "fifo_ok b \<longleftrightarrow> cb_ok b \<and> unat (count b) \<le> unat (m_size b) \<and>
     0 \<le> currentIndexRead b \<and> currentIndexRead b < int (unat (m_size b)) \<and>
     unat (currentIndex b) = (nat (currentIndexRead b) + unat (count b)) mod unat (m_size b)"

definition fifo_items :: "'a fifo_buffer \<Rightarrow> 'a list" where
  "fifo_items b = map (\<lambda>i. elements b ! ((nat (currentIndexRead b) + i) mod unat (m_size b))) [0..<unat (count b)]"

definition fifo_capacity :: "'a fifo_buffer \<Rightarrow> nat" where
  "fifo_capacity b = unat (m_size b)"

lemma sint_small: "unat (w :: 32 word) \<le> 0xFFFF \<Longrightarrow> sint w = int (unat w)"
proof -
  assume "unat w \<le> 0xFFFF"
  then have "int (unat w) \<le> 0xFFFF" by linarith
  then have "uint w \<le> 0xFFFF" by simp
  then have "uint w < 2 ^ 31" by simp
  moreover have "- (2 ^ 31) \<le> uint w" by (rule order_trans[OF _ uint_ge_0]) simp
  ultimately have "signed_take_bit 31 (uint w) = uint w"
    by (intro signed_take_bit_int_eq_self)
  then show ?thesis by (simp add: sint_uint)
qed

lemma unat_of_nat_inc: "n + 1 < 2 ^ 32 \<Longrightarrow> unat (of_nat n + 1 :: 32 word) = n + 1"
  by (simp add: unat_word_ariths unat_of_nat take_bit_nat_eq_self)

lemma fifo_counts:
  assumes "fifo_ok b"
  shows "cb_getCount b = int (unat (count b))" "cb_getSize b = int (unat (m_size b))"
  unfolding cb_getCount_def cb_getSize_def using assms
  by (intro sint_small; simp add: fifo_ok_def cb_ok_def del: of_nat_unat)+

lemma fifo_put_ok:
  assumes ok: "fifo_ok b" and room: "length (fifo_items b) < fifo_capacity b"
  obtains b' where "fifo_put x b = (True, b')" "fifo_ok b'" "fifo_items b' = fifo_items b @ [x]"
    "fifo_capacity b' = fifo_capacity b"
proof -
  let ?n = "unat (m_size b)" and ?r = "nat (currentIndexRead b)" and ?c = "unat (count b)"
  let ?b = "cb_add x b"
  note F = ok[unfolded fifo_ok_def cb_ok_def]
  have c: "?c < ?n" using room by (simp add: fifo_items_def fifo_capacity_def)
  have c1: "unat (count b + 1) = ?c + 1" using c F by (simp add: unat_word_ariths)
  have r: "currentIndexRead ?b = currentIndexRead b" by (simp add: cb_add_def Let_def)
  have ix: "unat (currentIndex ?b) = (?r + (?c + 1)) mod ?n"
    using cb_add_index[of b x] F by (simp add: cb_ok_def mod_Suc_eq)
  have "fifo_ok ?b"
    using F cb_add_ok[of b x] c c1 r ix by (simp add: fifo_ok_def cb_ok_def)
  moreover have "fifo_items ?b = fifo_items b @ [x]"
  proof -
    have neq: "(?r + ?c) mod ?n \<noteq> (?r + i) mod ?n" if "i < ?c" for i
    proof (rule notI, drule sym)
      assume "(?r + i) mod ?n = (?r + ?c) mod ?n"
      then have "?n dvd (?r + ?c) - (?r + i)" by (metis mod_eq_dvd_iff_nat le_add2 nat_le_iff_add that less_imp_le add_le_cancel_left)
      then show False using that c by (auto dest: dvd_imp_le)
    qed
    have old: "(elements b)[(?r + ?c) mod ?n := x] ! ((?r + i) mod ?n) = elements b ! ((?r + i) mod ?n)" if "i < ?c" for i
      by (rule nth_list_update_neq[OF neq[OF that]])
    have "(?r + ?c) mod ?n < length (elements b)"
      using F by (meson less_le_trans mod_less_divisor)
    then show ?thesis
      using F c1 r old by (simp add: fifo_items_def)
  qed
  moreover have "fifo_put x b = (True, ?b)"
    using c by (simp add: fifo_put_def fifo_isFull_def fifo_counts[OF ok] del: of_nat_unat)
  ultimately show thesis by (intro that[of ?b]) (simp_all add: fifo_capacity_def)
qed

lemma fifo_get_ok:
  assumes ok: "fifo_ok b" and items: "fifo_items b = x # xs"
  obtains b' where "fifo_get b = (x, b')" "fifo_ok b'" "fifo_items b' = xs" "fifo_capacity b' = fifo_capacity b"
proof -
  let ?n = "unat (m_size b)" and ?r = "nat (currentIndexRead b)" and ?c = "unat (count b)"
  note F = ok[unfolded fifo_ok_def cb_ok_def]
  have c: "0 < ?c" using items by (cases ?c) (auto simp: fifo_items_def)
  have c1: "unat (count b - 1) = ?c - 1" using c by (simp add: unat_minus_one word_greater_zero_iff flip: unat_gt_0)
  have r: "currentIndexRead b = int ?r" using F by simp
  have rn: "?r < ?n" using F by (simp add: nat_less_iff del: of_nat_unat)
  have "unat (of_nat ?r + 1 :: 32 word) = ?r + 1"
    using rn F by (intro unat_of_nat_inc) (simp del: of_nat_unat)
  then have "uint ((of_nat ?r + 1) mod m_size b) = int ((?r + 1) mod ?n)"
    by (metis of_nat_unat unat_mod)
  then have r1: "uint ((of_int (currentIndexRead b) + 1) mod m_size b) = int ((?r + 1) mod ?n)"
    using r by (metis of_int_of_nat_eq)
  define b' where "b' = b\<lparr>currentIndexRead := int ((?r + 1) mod ?n), count := count b - 1\<rparr>"
  have get: "fifo_get b = (elements b ! ?r, b')"
    using c by (simp add: fifo_get_def fifo_isEmpty_def fifo_counts[OF ok] r1 b'_def del: of_nat_unat)
  have shift: "((?r + 1) mod ?n + i) mod ?n = (?r + Suc i) mod ?n" for i
    by (simp add: mod_add_left_eq)
  have "?c - 1 \<le> ?n" using F by linarith
  then have "fifo_ok b'"
    using F c c1 rn shift[of "?c - 1"] by (simp add: fifo_ok_def cb_ok_def b'_def del: of_nat_unat)
  moreover have "elements b ! ?r # fifo_items b' = fifo_items b"
  proof -
    have "[0..<?c] = 0 # map Suc [0..<?c - 1]"
      using c by (simp add: map_Suc_upt upt_conv_Cons)
    then show ?thesis
      using rn c1 shift by (simp add: fifo_items_def b'_def comp_def)
  qed
  ultimately show thesis
    using get items by (intro that[of b']) (simp_all add: fifo_capacity_def b'_def)
qed

lemma fifo_put_full: "fifo_ok b \<Longrightarrow> length (fifo_items b) = fifo_capacity b \<Longrightarrow> fifo_put x b = (False, b)"
  by (simp add: fifo_put_def fifo_isFull_def fifo_counts fifo_items_def fifo_capacity_def)

interpretation fifo: bounded_queue fifo_ok fifo_items fifo_capacity fifo_put fifo_get
proof
  fix b :: "'a fifo_buffer" and x xs
  assume ok: "fifo_ok b"
  show "length (fifo_items b) \<le> fifo_capacity b"
    using ok by (simp add: fifo_items_def fifo_capacity_def fifo_ok_def)
  show "length (fifo_items b) < fifo_capacity b \<Longrightarrow>
      \<exists>b'. fifo_put x b = (True, b') \<and> fifo_ok b' \<and> fifo_items b' = fifo_items b @ [x] \<and> fifo_capacity b' = fifo_capacity b"
    using fifo_put_ok[OF ok, of x] by metis
  show "length (fifo_items b) = fifo_capacity b \<Longrightarrow> fifo_put x b = (False, b)"
    by (rule fifo_put_full[OF ok])
  show "fifo_items b = x # xs \<Longrightarrow>
      \<exists>b'. fifo_get b = (x, b') \<and> fifo_ok b' \<and> fifo_items b' = xs \<and> fifo_capacity b' = fifo_capacity b"
    using fifo_get_ok[OF ok, of x xs] by metis
qed

subsection \<open>Properties of the FIFO queue\<close>

lemma fifo_buffer_ok:
  assumes "0 < n" "n \<le> 0xFFFF"
  shows "fifo_ok (fifo_buffer zero n) \<and> fifo_items (fifo_buffer zero n) = [] \<and> fifo_capacity (fifo_buffer zero n) = n"
proof -
  have "unat (of_nat n :: 32 word) = n"
    using assms by (simp add: unat_of_nat take_bit_nat_eq_self)
  then show ?thesis
    using assms by (simp add: fifo_buffer_def cb_setSize_def cb_clear_def fifo_ok_def cb_ok_def
        fifo_items_def fifo_capacity_def Let_def)
qed

text \<open>A run of a client on the buffer: \<open>Some x\<close> puts, \<open>None\<close> gets unless the buffer is empty. The items
  accepted, the items that came out, and the buffer.\<close>

fun fifo_run :: "'a option list \<Rightarrow> 'a fifo_buffer \<Rightarrow> 'a list \<times> 'a list \<times> 'a fifo_buffer" where
  "fifo_run [] b = ([], [], b)"
| "fifo_run (Some x # ops) b =
     (let (accepted, b) = fifo_put x b; (ins, outs, b) = fifo_run ops b
      in (if accepted then x # ins else ins, outs, b))"
| "fifo_run (None # ops) b =
     (if fifo_isEmpty b then fifo_run ops b
      else let (y, b) = fifo_get b; (ins, outs, b) = fifo_run ops b in (ins, y # outs, b))"

lemma fifo_isEmpty_items: "fifo_ok b \<Longrightarrow> fifo_isEmpty b \<longleftrightarrow> fifo_items b = []"
  by (simp add: fifo_isEmpty_def fifo_counts fifo_items_def del: of_nat_unat)

lemma fifo_run_is_run: "fifo_ok b \<Longrightarrow> fifo_run ops b = fifo.run ops b"
proof (induction ops b rule: fifo_run.induct)
  case (2 x ops b)
  obtain a b1 where p: "fifo_put x b = (a, b1)" by (cases "fifo_put x b")
  have "fifo_ok b1"
    using fifo.put_accepts[OF 2(2), of x] fifo.put_refuses[OF 2(2), of x] fifo.bounded[OF 2(2)] p 2(2)
    by (cases "length (fifo_items b) < fifo_capacity b") auto
  then show ?case using 2(1) p by simp
next
  case (3 ops b)
  show ?case
  proof (cases "fifo_items b")
    case Nil
    then show ?thesis using 3 by (simp add: fifo_isEmpty_items)
  next
    case (Cons x xs)
    obtain b1 where "fifo_get b = (x, b1)" "fifo_ok b1"
      using fifo.get_first[OF 3(3) Cons] by auto
    then show ?thesis using 3 Cons by (simp add: fifo_isEmpty_items)
  qed
qed simp

text \<open>C21: over any sequence of insertions and removals on a new buffer, however often the indices wrap,
  the items come out in the order in which they were accepted: what came out, followed by what is
  in the buffer, is what was accepted.\<close>

theorem fifo_order:
  assumes "0 < n" "n \<le> 0xFFFF" "fifo_run ops (fifo_buffer zero n) = (ins, outs, b)"
  shows "ins = outs @ fifo_items b \<and> length (fifo_items b) \<le> n \<and> fifo_ok b"
proof -
  note N = fifo_buffer_ok[OF assms(1,2), of zero]
  then have "fifo.run ops (fifo_buffer zero n) = (ins, outs, b)"
    using fifo_run_is_run assms(3) by metis
  from fifo.run_fifo[OF _ this] N fifo.bounded[of b] show ?thesis by auto
qed

text \<open>A batch that fits is put completely; of a batch that does not fit, the first items are put until
  the buffer is full, and the answer is false.\<close>

theorem fifo_put_items_prefix:
  assumes "fifo_ok b"
  shows "\<exists>b'. fifo_put_items xs b = (length (fifo_items b) + length xs \<le> fifo_capacity b, b') \<and> fifo_ok b' \<and>
    fifo_items b' = fifo_items b @ take (fifo_capacity b - length (fifo_items b)) xs"
  using assms
proof (induction xs arbitrary: b)
  case Nil
  then show ?case using fifo.bounded by auto
next
  case (Cons x xs)
  show ?case
  proof (cases "length (fifo_items b) < fifo_capacity b")
    case True
    obtain b1 where b1: "fifo_put x b = (True, b1)" "fifo_ok b1" "fifo_items b1 = fifo_items b @ [x]"
      "fifo_capacity b1 = fifo_capacity b"
      using fifo.put_accepts[OF Cons.prems True, of x] by auto
    have "fifo_capacity b - length (fifo_items b) = Suc (fifo_capacity b - Suc (length (fifo_items b)))"
      using True by (simp add: Suc_diff_Suc)
    then show ?thesis using Cons.IH[OF b1(2)] b1 by auto
  next
    case False
    then have "length (fifo_items b) = fifo_capacity b" using fifo.bounded[OF Cons.prems] by simp
    with fifo.put_refuses[OF Cons.prems this, of x] Cons.prems show ?thesis by auto
  qed
qed

lemma fifo_order_witness:
  "case fifo_run [Some 1, Some 2, Some 3, None, Some 4, None] (fifo_buffer (0::int) 2) of (ins, outs, b) \<Rightarrow>
     ins = outs @ fifo_items b \<and> length (fifo_items b) \<le> 2 \<and> fifo_ok b"
proof -
  obtain ins outs b where e: "fifo_run [Some 1, Some 2, Some 3, None, Some 4, None] (fifo_buffer (0::int) 2) = (ins, outs, b)"
    by (rule prod_cases3)
  show ?thesis unfolding e prod.case by (rule fifo_order[OF _ _ e]) simp_all
qed

lemma fifo_put_items_prefix_witness:
  "\<exists>b'. fifo_put_items [1, 2, 3] (fifo_buffer (0::int) 2) =
      (length (fifo_items (fifo_buffer (0::int) 2)) + length [1::int, 2, 3] \<le> fifo_capacity (fifo_buffer (0::int) 2), b') \<and>
    fifo_ok b' \<and> fifo_items b' = fifo_items (fifo_buffer (0::int) 2) @
      take (fifo_capacity (fifo_buffer (0::int) 2) - length (fifo_items (fifo_buffer (0::int) 2))) [1, 2, 3]"
  by (rule fifo_put_items_prefix) (use fifo_buffer_ok[of 2 "0::int"] in simp)

subsection \<open>Properties of the cyclic buffer\<close>

text \<open>The buffer after the values \<open>vs\<close> were added, oldest first, to a cleared buffer.\<close>

definition cb_holds :: "('a, 'b) cyclic_buffer_scheme \<Rightarrow> 'a list \<Rightarrow> bool" where
  "cb_holds b vs \<longleftrightarrow> cb_ok b \<and> unat (currentIndex b) = length vs mod unat (m_size b) \<and>
     count b = of_nat (length vs) \<and>
     (\<forall>i < min (unat (m_size b)) (length vs).
        elements b ! ((length vs - 1 - i) mod unat (m_size b)) = rev vs ! i)"

lemma cb_holds_add:
  assumes "cb_holds b vs"
  shows "cb_holds (cb_add x b) (vs @ [x])"
proof -
  let ?n = "unat (m_size b)" and ?k = "length vs"
  note H = assms[unfolded cb_holds_def cb_ok_def]
  have ix: "unat (currentIndex (cb_add x b)) = Suc ?k mod ?n"
    using H cb_add_index[of b x] by (simp add: cb_ok_def mod_Suc_eq)
  have el: "(elements b)[?k mod ?n := x] ! ((?k - i) mod ?n) = rev (vs @ [x]) ! i"
    if i: "i < min ?n (Suc ?k)" for i
  proof (cases i)
    case 0
    have "?k mod ?n < length (elements b)" using H by (meson less_le_trans mod_less_divisor)
    then show ?thesis using 0 by simp
  next
    case (Suc j)
    have "?k mod ?n \<noteq> (?k - i) mod ?n"
    proof
      assume "?k mod ?n = (?k - i) mod ?n"
      then have "?n dvd ?k - (?k - i)" by (metis diff_le_self mod_eq_dvd_iff_nat)
      then show False using i Suc by (auto dest: dvd_imp_le)
    qed
    then have "(elements b)[?k mod ?n := x] ! ((?k - i) mod ?n) = elements b ! ((?k - 1 - j) mod ?n)"
      using Suc by simp
    also have "\<dots> = rev vs ! j" using H i Suc by auto
    finally show ?thesis using Suc by simp
  qed
  show ?thesis
    using H ix el cb_add_ok[of b x] by (auto simp: cb_holds_def cb_ok_def)
qed

lemma cb_holds_clear:
  assumes "0 < unat (m_size b)" "unat (m_size b) \<le> length (elements b)" "unat (m_size b) \<le> 0xFFFF"
  shows "cb_holds (cb_clear zero b) []"
  using assms by (simp add: cb_holds_def cb_ok_def cb_clear_def)

lemma raise_index_in_range:
  assumes "- sz \<le> i" "i < sz"
  shows "raise_index sz i = Some (i mod sz)"
proof (cases "i < 0")
  case True
  then have "raise_index sz i = raise_index sz (i + sz)" by (subst raise_index.simps) simp
  also have "\<dots> = Some (i + sz)" using assms(1) by (subst raise_index.simps) simp
  also have "i + sz = (i + sz) mod sz" using True assms by (intro mod_pos_pos_trivial[symmetric]) auto
  finally show ?thesis by simp
next
  case False
  then show ?thesis using assms by (subst raise_index.simps) (simp add: mod_pos_pos_trivial)
qed

lemma cb_walk_append:
  "cb_walk f (xs @ ys) b r = Option.bind (cb_walk f xs b r) (cb_walk f ys b)"
  by (induction xs arbitrary: r) (auto split: option.splits)

lemma cb_walk_recent:
  assumes "cb_holds b vs" "k \<le> min (unat (m_size b)) (length vs)"
  shows "cb_walk f [0..<k] b r = Some (foldl f r (take k (rev vs)))"
  using assms(2)
proof (induction k)
  case (Suc k)
  let ?n = "unat (m_size b)"
  note H = assms(1)[unfolded cb_holds_def cb_ok_def]
  let ?i = "int (length vs mod ?n) - int k - 1"
  have lt: "length vs mod ?n < ?n" using H by simp
  then have "raise_index (int ?n) ?i = Some (?i mod int ?n)"
    using Suc.prems by (intro raise_index_in_range) linarith+
  moreover have "?i mod int ?n = int ((length vs - 1 - k) mod ?n)"
  proof -
    have "?i mod int ?n = (int (length vs) - (int k + 1)) mod int ?n"
      unfolding of_nat_mod diff_diff_eq by (rule mod_diff_left_eq)
    also have "int (length vs) - (int k + 1) = int (length vs - 1 - k)" using Suc.prems by simp
    finally show ?thesis by (simp only: of_nat_mod)
  qed
  moreover have sz: "uint (m_size b) = int ?n" by (simp only: of_nat_unat)
  moreover have ix: "uint (currentIndex b) = int (length vs mod ?n)"
  proof -
    have "unat (currentIndex b) = length vs mod ?n" using H by blast
    then have "int (unat (currentIndex b)) = int (length vs mod ?n)" by (rule arg_cong)
    then show ?thesis unfolding of_nat_unat .
  qed
  ultimately have R: "raise_index (uint (m_size b)) (uint (currentIndex b) - int k - 1) =
      Some (int ((length vs - 1 - k) mod ?n))"
    by (simp only:)
  have "elements b ! ((length vs - 1 - k) mod ?n) = rev vs ! k"
    using H Suc.prems by simp
  then have "cb_walk f [k] b r' = Some (f r' (rev vs ! k))" for r'
    unfolding cb_walk.simps of_nat_unat R by (simp only: option.case nat_int)
  then show ?case
    using Suc by (simp add: cb_walk_append take_Suc_conv_app_nth)
qed simp

text \<open>After any number of values below the wrap of the counter, the sum, the largest and the smallest of the
  last \<open>len\<close> values, at most as many as the buffer is long, are computed over exactly the most recent
  values added, or over all of them if there are fewer.\<close>

theorem cyclic_buffer_recent:
  fixes vs :: "'a::linordered_idom list"
  assumes "cb_holds b vs" "length vs < 2 ^ 32" "unat len \<le> unat (m_size b)"
  defines "recent \<equiv> take (unat len) (rev vs)"
  shows "cb_sum len b = Some (sum_list recent) \<and>
    cb_maxValue lo len b = Some (foldl (\<lambda>r x. if x > r then x else r) lo recent) \<and>
    cb_minValue hi len b = Some (foldl (\<lambda>r x. if x < r then x else r) hi recent)"
proof -
  note H = assms(1)[unfolded cb_holds_def cb_ok_def]
  have c: "unat (count b) = length vs"
    using H assms(2) by (simp add: unat_of_nat take_bit_nat_eq_self)
  have "cb_length len b = min (unat len) (length vs)"
    using c by (simp add: cb_length_def word_less_nat_alt)
  then have w: "cb_walk f [0..<cb_length len b] b r = Some (foldl f r recent)" for f :: "'a \<Rightarrow> 'a \<Rightarrow> 'a" and r
    using cb_walk_recent[OF assms(1), of "min (unat len) (length vs)" f r] assms(3)
    by (simp add: recent_def min_def split: if_splits)
  have "foldl (\<lambda>r x. r + x) a xs = a + sum_list xs" for a :: 'a and xs
    by (induction xs arbitrary: a) (simp_all add: algebra_simps)
  then show ?thesis
    using w by (simp add: cb_sum_def cb_maxValue_def cb_minValue_def)
qed

text \<open>\<open>contains\<close> looks only below the write index. It is right until the buffer is full, but when the
  write index comes back to 0 it answers false for every value, present or not.\<close>

theorem cyclic_contains_partial:
  assumes "cb_holds b vs"
  shows "if length vs < unat (m_size b) then cb_contains x b \<longleftrightarrow> x \<in> set vs
    else length vs mod unat (m_size b) = 0 \<longrightarrow> \<not> cb_contains x b"
proof -
  let ?n = "unat (m_size b)" and ?k = "length vs"
  note H = assms[unfolded cb_holds_def cb_ok_def]
  have "elements b ! i = vs ! i" if "?k < ?n" "i < ?k" for i
  proof -
    define j where "j = ?k - 1 - i"
    have "j < min ?n ?k" "?k - 1 - j = i" using that by (auto simp: j_def)
    then have "elements b ! (i mod ?n) = rev vs ! j" using H by metis
    then show ?thesis using that by (simp add: rev_nth j_def)
  qed
  then show ?thesis
    using H by (auto simp: cb_contains_def list_ex_iff in_set_conv_nth)
qed

text \<open>A buffer of size 2 that has seen 3 values.\<close>

definition example_cyclic :: "int cyclic_buffer" where
  "example_cyclic = cb_add 30 (cb_add 20 (cb_add 10 (cb_clear 0
     \<lparr>elements = [0, 0], currentIndex = 0, m_size = 2, count = 0\<rparr>)))"

lemma example_cyclic_holds: "cb_holds example_cyclic [10, 20, 30]"
proof -
  have "cb_holds (cb_clear 0 \<lparr>elements = [0, 0], currentIndex = 0, m_size = 2, count = 0\<rparr>) ([] :: int list)"
    by (rule cb_holds_clear) simp_all
  from cb_holds_add[OF cb_holds_add[OF cb_holds_add[OF this]], of 30 20 10] show ?thesis
    by (simp add: example_cyclic_def)
qed

lemma example_cyclic_size [simp]: "m_size example_cyclic = 2"
  by (simp add: example_cyclic_def cb_clear_def)

lemma cyclic_buffer_recent_witness:
  "cb_sum 2 example_cyclic = Some (sum_list (take (unat (2::32 word)) (rev [10, 20, 30]))) \<and>
   cb_maxValue 0 2 example_cyclic =
     Some (foldl (\<lambda>r x. if x > r then x else r) 0 (take (unat (2::32 word)) (rev [10, 20, 30]))) \<and>
   cb_minValue 100 2 example_cyclic =
     Some (foldl (\<lambda>r x. if x < r then x else r) 100 (take (unat (2::32 word)) (rev [10, 20, 30])))"
  by (rule cyclic_buffer_recent[OF example_cyclic_holds]) simp_all

lemma cyclic_contains_partial_witness:
  "if length [10, 20, 30::int] < unat (m_size example_cyclic) then cb_contains 10 example_cyclic \<longleftrightarrow> 10 \<in> set [10, 20, 30::int]
   else length [10, 20, 30::int] mod unat (m_size example_cyclic) = 0 \<longrightarrow> \<not> cb_contains 10 example_cyclic"
  by (rule cyclic_contains_partial[OF example_cyclic_holds])

subsection \<open>Properties of the stack and the vector\<close>

definition stack_ok :: "'a FLStack \<Rightarrow> bool" where
  "stack_ok s \<longleftrightarrow> 0 \<le> currentSize s \<and> currentSize s \<le> int (length (stack_values s))"

definition stack_items :: "'a FLStack \<Rightarrow> 'a list" where
  "stack_items s = take (nat (currentSize s)) (stack_values s)"

text \<open>Pushing on a stack that is not full and popping gives the value back and the stack as it was; on a
  full stack the push is refused with an error.\<close>

theorem stack_push_pop:
  assumes "stack_ok s"
  shows "if length (stack_items s) < length (stack_values s)
    then stack_items (stack_push x s) = stack_items s @ [x] \<and> fst (stack_pop (stack_push x s)) = Some x \<and>
      stack_items (snd (stack_pop (stack_push x s))) = stack_items s
    else stack_push x s = stack_report (FirmwareError ERROR_FL_STACK_OVERFLOW) s"
proof (cases "currentSize s < int (length (stack_values s))")
  case True
  then obtain n where n: "currentSize s = int n" "n < length (stack_values s)"
    using assms by (metis nonneg_int_cases of_nat_less_iff stack_ok_def)
  then show ?thesis
    by (auto simp: stack_push_def stack_pop_def stack_items_def take_Suc_conv_app_nth nat_add_distrib Let_def)
next
  case False
  then have "length (stack_items s) = length (stack_values s)"
    using assms by (simp add: stack_items_def stack_ok_def)
  then show ?thesis using False by (simp add: stack_push_def)
qed

text \<open>Finding the first index in a range.\<close>

lemma find_first_index:
  assumes "k < n" "P k" "\<And>i. i < k \<Longrightarrow> \<not> P i"
  shows "List.find P [0..<n] = Some k"
proof -
  have "[0..<n] = [0..<k] @ k # [Suc k..<n]"
    using assms(1) upt_add_eq_append[of 0 k "n - k"] upt_conv_Cons[of k n] by simp
  moreover have "List.find P (xs @ k # ys) = Some k" if "\<forall>i\<in>set xs. \<not> P i" for xs ys
    using that assms(2) by (induction xs) auto
  ultimately show ?thesis using assms(3) by simp
qed

text \<open>\<open>remove\<close> puts the last value in the place of the first value of the stack, not of the one removed:
  removing a value that is neither first nor last loses the first value and keeps the removed one.\<close>

theorem stack_remove_wrong_slot:
  assumes "stack_ok s" "stack_items s = a # us @ x # vs @ [z]" "x \<noteq> a" "x \<notin> set us"
  shows "fst (stack_remove x s) \<and> stack_items (snd (stack_remove x s)) = z # us @ x # vs"
proof -
  let ?k = "Suc (length us)" and ?n = "Suc (Suc (Suc (length us + length vs)))"
  have n: "currentSize s = int ?n" "?n \<le> length (stack_values s)"
    using assms(1) arg_cong[OF assms(2), of length] by (auto simp: stack_ok_def stack_items_def)
  define rest where "rest = drop ?n (stack_values s)"
  have vals: "stack_values s = (a # us @ x # vs @ [z]) @ rest"
    using assms(2) append_take_drop_id[of ?n "stack_values s"]
    unfolding stack_items_def n(1) nat_int rest_def by metis
  have "stack_values s ! ?k = x" "stack_values s ! (?n - 1) = z"
    using vals by (simp_all add: nth_append nth_Cons')
  moreover have "stack_values s ! i \<noteq> x" if "i < ?k" for i
    using that assms(3,4) vals by (auto simp: nth_Cons' nth_append)
  moreover have last: "nat (int ?n - 1) = ?n - 1" by linarith
  ultimately have "stack_remove x s = (True, s\<lparr>stack_values := (stack_values s)[0 := z], currentSize := currentSize s - 1\<rparr>)"
    using find_first_index[of ?k ?n "\<lambda>i. stack_values s ! i = x"] n(1)
    unfolding stack_remove_def n(1) nat_int last by simp
  moreover have "nat (currentSize s - 1) = length (z # us @ x # vs)" using n(1) by simp
  ultimately show ?thesis using vals by (simp add: stack_items_def)
qed

definition vec_items :: "'a static_vector \<Rightarrow> 'a list" where
  "vec_items v = take (vec_size v) (m_storage v)"

text \<open>A vector takes values in order until it is full and refuses further ones without a change;
  \<open>find\<close> gives the position of the first value that matches, and none only if none matches.\<close>

theorem vec_add_find:
  assumes "vec_size v \<le> length (m_storage v)"
  shows "(if length (vec_items v) < length (m_storage v)
      then fst (vec_add x v) = Some (length (vec_items v)) \<and> vec_items (snd (vec_add x v)) = vec_items v @ [x]
      else vec_add x v = (None, v)) \<and>
    (case vec_find P v of
       None \<Rightarrow> \<forall>y\<in>set (vec_items v). \<not> P y
     | Some i \<Rightarrow> i < vec_getCount v \<and> vec_get i v = vec_items v ! i \<and> P (vec_get i v) \<and>
         (\<forall>j<i. \<not> P (vec_items v ! j)))"
proof (intro conjI)
  have len: "length (vec_items v) = vec_size v" using assms by (simp add: vec_items_def)
  show "if length (vec_items v) < length (m_storage v)
      then fst (vec_add x v) = Some (length (vec_items v)) \<and> vec_items (snd (vec_add x v)) = vec_items v @ [x]
      else vec_add x v = (None, v)"
    using assms unfolding len by (auto simp: vec_add_def vec_items_def take_Suc_conv_app_nth)
  show "case vec_find P v of
       None \<Rightarrow> \<forall>y\<in>set (vec_items v). \<not> P y
     | Some i \<Rightarrow> i < vec_getCount v \<and> vec_get i v = vec_items v ! i \<and> P (vec_get i v) \<and>
         (\<forall>j<i. \<not> P (vec_items v ! j))"
  proof (cases "vec_find P v")
    case None
    then have "\<not> P (m_storage v ! i)" if "i < vec_size v" for i
      using that by (auto simp: vec_find_def find_None_iff)
    then show ?thesis using None assms by (auto simp: vec_items_def in_set_conv_nth)
  next
    case (Some i)
    then have "i < vec_size v" "P (m_storage v ! i)" "\<forall>j<i. \<not> P (m_storage v ! j)"
      by (auto simp: vec_find_def find_Some_iff)
    then show ?thesis using Some assms by (auto simp: vec_items_def vec_get_def vec_getCount_def)
  qed
qed

definition example_stack :: "int FLStack" where
  "example_stack = \<lparr>currentSize = 4, stack_values = [1, 2, 3, 4, 0], stack_log = []\<rparr>"

lemma stack_push_pop_witness:
  "if length (stack_items example_stack) < length (stack_values example_stack)
   then stack_items (stack_push 9 example_stack) = stack_items example_stack @ [9] \<and>
     fst (stack_pop (stack_push 9 example_stack)) = Some 9 \<and>
     stack_items (snd (stack_pop (stack_push 9 example_stack))) = stack_items example_stack
   else stack_push 9 example_stack = stack_report (FirmwareError ERROR_FL_STACK_OVERFLOW) example_stack"
  by (rule stack_push_pop) (simp add: stack_ok_def example_stack_def)

lemma stack_remove_wrong_slot_witness:
  "fst (stack_remove 3 example_stack) \<and> stack_items (snd (stack_remove 3 example_stack)) = 4 # [2] @ 3 # []"
  by (rule stack_remove_wrong_slot[of _ 1]) (simp_all add: stack_ok_def stack_items_def example_stack_def)

lemma vec_add_find_witness:
  "let v = \<lparr>m_storage = [5, 6, 0], vec_size = 2\<rparr> :: int static_vector in
   (if length (vec_items v) < length (m_storage v)
      then fst (vec_add 7 v) = Some (length (vec_items v)) \<and> vec_items (snd (vec_add 7 v)) = vec_items v @ [7]
      else vec_add 7 v = (None, v)) \<and>
    (case vec_find (\<lambda>y. y = 6) v of
       None \<Rightarrow> \<forall>y\<in>set (vec_items v). \<not> y = 6
     | Some i \<Rightarrow> i < vec_getCount v \<and> vec_get i v = vec_items v ! i \<and> vec_get i v = 6 \<and>
         (\<forall>j<i. \<not> vec_items v ! j = 6))"
  unfolding Let_def by (rule vec_add_find) simp

end
