(* ===== verification/Engine_Phase.thy ===== *)
theory Engine_Phase
  imports Event_Angles
begin

text \<open>
  \<^verbatim>\<open>controllers/trigger/engine_phase_angle.h\<close> and \<^verbatim>\<open>isPhaseInRange\<close> of \<^verbatim>\<open>util/efilib.cpp\<close>: the phase of
  the engine at a tooth and at the next one, and the test by which injection, ignition and the
  trigger scheduler decide at which tooth an angle belongs. The two template instances of
  \<^verbatim>\<open>PhaseAngle\<close> are the type \<open>phase_angle\<close>; their operators are those of the angle.
\<close>

type_synonym phase_angle = rat

record enginePhaseInfo =
  timestamp :: int
  currentTrgPhase :: phase_angle
  nextTrgPhase :: phase_angle
  currentEngPhase :: phase_angle
  nextEngPhase :: phase_angle

definition isPhaseInRange :: "rat \<Rightarrow> rat \<Rightarrow> rat \<Rightarrow> bool" where
  "isPhaseInRange test current next' =
     (let afterCurrent = test \<ge> current;
          beforeNext = test < next'
      in if next' > current then afterCurrent \<and> beforeNext else afterCurrent \<or> beforeNext)"

definition isEngPhaseInRange :: "phase_angle \<Rightarrow> enginePhaseInfo \<Rightarrow> bool" where
  "isEngPhaseInRange test phaseInfo = isPhaseInRange test (currentEngPhase phaseInfo) (nextEngPhase phaseInfo)"

definition isTrgPhaseInRange :: "phase_angle \<Rightarrow> enginePhaseInfo \<Rightarrow> bool" where
  "isTrgPhaseInRange test phaseInfo = isPhaseInRange test (currentTrgPhase phaseInfo) (nextTrgPhase phaseInfo)"

subsection \<open>The teeth tile the cycle\<close>

text \<open>The angles of the teeth of one engine cycle in the order in which they pass.\<close>

definition tooth_angles :: "rat \<Rightarrow> rat list \<Rightarrow> bool" where
  "tooth_angles cycle as \<longleftrightarrow> as \<noteq> [] \<and> sorted_wrt (<) as \<and> (\<forall>a\<in>set as. 0 \<le> a \<and> a < cycle)"

text \<open>The last tooth not after the angle; before the first tooth it is the last tooth of the cycle.\<close>

definition tooth_of :: "rat list \<Rightarrow> rat \<Rightarrow> nat" where
  "tooth_of as x = (if x < hd as then length as - 1 else Max {k. k < length as \<and> as ! k \<le> x})"

lemma tooth_angles_less:
  assumes "tooth_angles c as" "i < j" "j < length as"
  shows "as ! i < as ! j"
  using assms by (auto simp: tooth_angles_def sorted_wrt_iff_nth_less)

lemma tooth_of_Max:
  assumes "as \<noteq> []" "hd as \<le> x"
  shows "tooth_of as x < length as" "as ! tooth_of as x \<le> x"
    and "tooth_of as x < j \<Longrightarrow> j < length as \<Longrightarrow> x < as ! j"
proof -
  let ?S = "{k. k < length as \<and> as ! k \<le> x}"
  have S: "finite ?S" "?S \<noteq> {}" using assms by (auto simp: hd_conv_nth)
  have e: "tooth_of as x = Max ?S" using assms(2) by (simp add: tooth_of_def)
  show "tooth_of as x < length as" "as ! tooth_of as x \<le> x" using Max_in[OF S] unfolding e by auto
  show "x < as ! j" if "tooth_of as x < j" "j < length as"
    using that Max_ge[OF S(1), of j] unfolding e by (metis (mono_tags, lifting) mem_Collect_eq not_le)
qed

lemma in_range_tooth:
  assumes T: "tooth_angles c as" and k: "k < length as"
  shows "isPhaseInRange x (as ! k) (as ! (Suc k mod length as)) \<longleftrightarrow> k = tooth_of as x"
proof -
  let ?n = "length as"
  have n: "0 < ?n" "as \<noteq> []" "hd as = as ! 0" using T by (auto simp: tooth_angles_def hd_conv_nth)
  note less = tooth_angles_less[OF T]
  have first: "as ! 0 \<le> as ! k" using less[of 0 k] k by (cases k) (auto simp: less_imp_le)
  show ?thesis
  proof (cases "Suc k = ?n")
    case True
    have nxt: "isPhaseInRange x (as ! k) (as ! (Suc k mod ?n)) \<longleftrightarrow> as ! k \<le> x \<or> x < as ! 0"
      using first True by (simp add: isPhaseInRange_def Let_def)
    show ?thesis
    proof (cases "x < hd as")
      case T': True
      then show ?thesis using nxt n True by (simp add: tooth_of_def)
    next
      case False
      note M = tooth_of_Max[OF n(2), of x]
      have "as ! k \<le> x \<longleftrightarrow> k = tooth_of as x"
        using M(1,2) M(3)[of k] True False k by (metis Suc_lessI less_antisym linorder_not_less not_less_eq)
      then show ?thesis using nxt False n by simp
    qed
  next
    case False
    then have k': "Suc k < ?n" "Suc k mod ?n = Suc k" using k by auto
    then have nxt: "isPhaseInRange x (as ! k) (as ! (Suc k mod ?n)) \<longleftrightarrow> as ! k \<le> x \<and> x < as ! Suc k"
      using less[of k "Suc k"] by (simp add: isPhaseInRange_def)
    show ?thesis
    proof (cases "x < hd as")
      case True
      then show ?thesis using nxt n first k' by (auto simp: tooth_of_def)
    next
      case F: False
      note M = tooth_of_Max[OF n(2), of x]
      have "as ! k \<le> x \<and> x < as ! Suc k \<longleftrightarrow> k = tooth_of as x"
      proof
        assume A: "as ! k \<le> x \<and> x < as ! Suc k"
        have "\<not> k < tooth_of as x"
        proof
          assume "k < tooth_of as x"
          then have "as ! Suc k \<le> as ! tooth_of as x"
            using less[of "Suc k" "tooth_of as x"] M(1) F by (cases "Suc k = tooth_of as x") auto
          then show False using A M(2) F by auto
        qed
        moreover have "\<not> tooth_of as x < k" using M(3)[of k] A k F by auto
        ultimately show "k = tooth_of as x" by simp
      next
        assume "k = tooth_of as x"
        then show "as ! k \<le> x \<and> x < as ! Suc k" using M(2) M(3)[of "Suc k"] k' F by auto
      qed
      then show ?thesis using nxt by simp
    qed
  qed
qed

lemma tooth_of_less: "as \<noteq> [] \<Longrightarrow> tooth_of as x < length as"
  using tooth_of_Max(1)[of as x] by (cases "x < hd as") (auto simp: tooth_of_def)

end
