(* ===== verification/Trigger_Simulator.thy ===== *)
theory Trigger_Simulator
  imports Wheel_Sync
begin

text \<open>
  \<^verbatim>\<open>controllers/trigger/trigger_simulator.cpp\<close>, \<^verbatim>\<open>needEvent\<close> of \<^verbatim>\<open>trigger_emulator_algo.cpp\<close> and
  \<^verbatim>\<open>findTriggerZeroEventIndex\<close> of \<^verbatim>\<open>trigger_decoder.cpp\<close>: when a shape is configured, the firmware feeds
  the edges of the shape at a constant simulated speed to a decoder of its own, takes the index at
  which it synchronizes as the synchronization point of the shape, and checks six more revolutions.
  The decoder is used here as the library theory of its train of edges (\<open>decode_run\<close>) promises.
\<close>

subsection \<open>The simulated signal\<close>

definition SIMULATION_CYCLE_PERIOD :: rat where "SIMULATION_CYCLE_PERIOD = 720000"

definition getSimulatedEventTime :: "trigger_waveform \<Rightarrow> nat \<Rightarrow> int" where
  "getSimulatedEventTime shape i =
     (let stateIndex = i mod getSize shape;
          loopIndex = i div getSize shape
      in c_trunc (SIMULATION_CYCLE_PERIOD * (of_nat loopIndex + getSwitchTime (wave shape) stateIndex)))"

definition getPreviousIndex :: "nat \<Rightarrow> nat \<Rightarrow> nat" where
  "getPreviousIndex currentIndex size' = (currentIndex + size' - 1) mod size'"

definition needEvent :: "nat \<Rightarrow> state_sequence \<Rightarrow> nat \<Rightarrow> bool" where
  "needEvent currentIndex mcss channelIndex =
     (let prevIndex = getPreviousIndex currentIndex (phaseCount mcss);
          previousValue = getChannelState mcss channelIndex prevIndex;
          currentValue = getChannelState mcss channelIndex currentIndex
      in previousValue \<noteq> currentValue)"

fun isTriggerUpEvent :: "trigger_event \<Rightarrow> bool" where
  "isTriggerUpEvent PrimaryFalling = False"
| "isTriggerUpEvent SecondaryFalling = False"
| "isTriggerUpEvent PrimaryRising = True"
| "isTriggerUpEvent SecondaryRising = True"

definition isUsefulSignal :: "trigger_event \<Rightarrow> trigger_waveform \<Rightarrow> bool" where
  "isUsefulSignal signal shape = (if useOnlyRisingEdges shape then isTriggerUpEvent signal else True)"

text \<open>The event of channel \<open>j\<close> for a level; the listener of the call is null.\<close>

definition channel_event :: "nat \<Rightarrow> bool \<Rightarrow> trigger_event" where
  "channel_event j currentValue =
     (if currentValue then [PrimaryRising, SecondaryRising] else [PrimaryFalling, SecondaryFalling]) ! j"

definition feedSimulatedEvent ::
  "libfw \<Rightarrow> decoder_class \<Rightarrow> decoder_env \<Rightarrow> trigger_type_e \<Rightarrow> trigger_waveform \<Rightarrow> nat \<Rightarrow> decoder \<Rightarrow> decoder" where
  "feedSimulatedEvent L cls env triggerType shape i state =
     (if \<not> getSize shape > 0 then dec_report (FirmwareError CUSTOM_ERR_6593) state
      else
        let stateIndex = i mod getSize shape;
            time = getSimulatedEventTime shape i
        in fold (\<lambda>j state.
                  if needEvent stateIndex (wave shape) j
                  then let currentValue = getChannelState (wave shape) j stateIndex;
                           event = channel_event j currentValue
                       in if isUsefulSignal event shape
                          then snd (decodeTriggerEvent L cls (env\<lparr>env_listener := False\<rparr>) shape triggerType event time state)
                          else state
                  else state) [0..<PWM_PHASE_MAX_WAVE_PER_PWM] state)"

subsection \<open>The search for the synchronization point\<close>

fun find_sync_loop ::
  "libfw \<Rightarrow> decoder_class \<Rightarrow> decoder_env \<Rightarrow> trigger_type_e \<Rightarrow> trigger_waveform \<Rightarrow> nat list \<Rightarrow> decoder \<Rightarrow>
     nat option \<times> decoder" where
  "find_sync_loop L cls env triggerType shape [] state = (None, state)"
| "find_sync_loop L cls env triggerType shape (i # is) state =
     (let state = feedSimulatedEvent L cls env triggerType shape i state in
      if shaft_is_synchronized state then (Some i, state)
      else find_sync_loop L cls env triggerType shape is state)"

definition findTriggerSyncPoint ::
  "libfw \<Rightarrow> decoder_class \<Rightarrow> decoder_env \<Rightarrow> bool \<Rightarrow> trigger_type_e \<Rightarrow> trigger_waveform \<Rightarrow> decoder \<Rightarrow>
     nat option \<times> trigger_waveform \<times> decoder" where
  "findTriggerSyncPoint L cls env overrideTriggerGaps triggerType shape state =
     (case find_sync_loop L cls env triggerType shape [0..<4 * PWM_PHASE_MAX_COUNT] state of
        (Some i, state) \<Rightarrow> (Some i, shape, state)
      | (None, state) \<Rightarrow>
          let shape = setShapeDefinitionError True shape;
              shape = report (FirmwareError (if overrideTriggerGaps then CUSTOM_ERR_CUSTOM_GAPS_BAD
                                             else CUSTOM_ERR_TRIGGER_SYNC)) shape
          in (None, shape, state))"

definition TEST_REVOLUTIONS :: nat where "TEST_REVOLUTIONS = 6"

definition assertSyncPosition ::
  "libfw \<Rightarrow> decoder_class \<Rightarrow> decoder_env \<Rightarrow> trigger_type_e \<Rightarrow> nat \<Rightarrow> trigger_waveform \<Rightarrow> decoder \<Rightarrow>
     trigger_waveform \<times> decoder" where
  "assertSyncPosition L cls env triggerType syncIndex shape state =
     (let state = fold (feedSimulatedEvent L cls env triggerType shape)
                    [syncIndex + 1..<Suc (syncIndex + TEST_REVOLUTIONS * getSize shape)] state
      in if getCrankSynchronizationCounter state \<noteq> int TEST_REVOLUTIONS
         then (setShapeDefinitionError True (report (Warning CUSTOM_OBD_TRIGGER_WAVEFORM) shape), state)
         else (shape\<lparr>shapeDefinitionError := False\<rparr>, state))"

definition findTriggerZeroEventIndex ::
  "libfw \<Rightarrow> decoder_class \<Rightarrow> decoder_env \<Rightarrow> bool \<Rightarrow> trigger_type_e \<Rightarrow> trigger_waveform \<Rightarrow> decoder \<Rightarrow>
     nat option \<times> trigger_waveform \<times> decoder" where
  "findTriggerZeroEventIndex L cls env overrideTriggerGaps triggerType shape state =
     (let state = resetState cls state in
      if shapeDefinitionError shape then (None, shape, state)
      else case findTriggerSyncPoint L cls env overrideTriggerGaps triggerType shape state of
             (None, shape, state) \<Rightarrow> (None, shape, state)
           | (Some syncIndex, shape, state) \<Rightarrow>
               if getCrankSynchronizationCounter state \<noteq> 0
               then (None, report (FirmwareError CUSTOM_ERR_ASSERT) shape, state)
               else let (shape, state) = assertSyncPosition L cls env triggerType syncIndex shape state
                    in (Some (syncIndex mod getSize shape), shape, state))"

definition initializeSyncPoint ::
  "libfw \<Rightarrow> decoder_class \<Rightarrow> decoder_env \<Rightarrow> bool \<Rightarrow> trigger_type_e \<Rightarrow> decoder \<Rightarrow> trigger_waveform \<Rightarrow>
     trigger_waveform \<times> decoder" where
  "initializeSyncPoint L cls env overrideTriggerGaps triggerType state shape =
     (let (index, shape, state) = findTriggerZeroEventIndex L cls env overrideTriggerGaps triggerType shape state
      in (shape\<lparr>triggerShapeSynchPointIndex := index\<rparr>, state))"

text \<open>\<^verbatim>\<open>calculateTriggerSynchPoint\<close> of \<^verbatim>\<open>trigger_central.cpp\<close>; \<^verbatim>\<open>initState\<close> is a base-class decoder.\<close>

definition calculateTriggerSynchPoint ::
  "libfw \<Rightarrow> decoder_env \<Rightarrow> bool \<Rightarrow> trigger_type_e \<Rightarrow> trigger_waveform \<Rightarrow> decoder \<Rightarrow> trigger_waveform \<times> decoder" where
  "calculateTriggerSynchPoint L env overrideTriggerGaps triggerType shape initState =
     (let (shape, initState) = initializeSyncPoint L BaseDecoder env overrideTriggerGaps triggerType initState shape
      in if getSize shape \<ge> PWM_PHASE_MAX_COUNT
         then (setShapeDefinitionError True (report (FirmwareError CUSTOM_ERR_TRIGGER_WAVEFORM_TOO_LONG) shape), initState)
         else (if getSize shape = 0 then report (FirmwareError CUSTOM_ERR_TRIGGER_ZERO) shape else shape, initState))"

subsection \<open>The levels of a wheel on the primary channel\<close>

lemma store_first_event_channels:
  assumes "arrays_ok s"
  shows "getChannelState (wave (store_first_event a st T_PRIMARY s)) 0 0 = st"
    and "\<not> getChannelState (wave (store_first_event a st T_PRIMARY s)) 1 0"
  using assms
  by (simp_all add: store_first_event_def Let_def PWM_PHASE_MAX_WAVE_PER_PWM_def numeral_2_eq_2 arrays_ok_def
      getChannelState_setChannelState PWM_PHASE_MAX_COUNT_def)

lemma store_event_channels:
  assumes "arrays_ok s" "n = phaseCount (wave s)" "0 < n" "n < PWM_PHASE_MAX_COUNT"
  shows "getChannelState (wave (store_event n a st T_PRIMARY s)) 0 i =
      (if i = n then st else getChannelState (wave s) 0 i)"
    and "getChannelState (wave (store_event n a st T_PRIMARY s)) 1 i =
      getChannelState (wave s) 1 (if i = n then n - 1 else i)"
  using assms
  by (auto simp: store_event_def Let_def PWM_PHASE_MAX_WAVE_PER_PWM_def numeral_2_eq_2 arrays_ok_def
      getChannelState_setChannelState)

lemma mkwave_channels:
  assumes "fresh s0" "events_ok es" "length es \<le> PWM_PHASE_MAX_COUNT" "\<forall>e\<in>set es. snd (snd e) = T_PRIMARY"
  shows "i < length es \<Longrightarrow> getChannelState (wave (mkwave s0 es)) 0 i = fst (snd (rev es ! i)) \<and>
    \<not> getChannelState (wave (mkwave s0 es)) 1 i"
  using assms(2-)
proof (induction es arbitrary: i)
  case (Cons e es)
  obtain a st where e: "e = (a, st, T_PRIMARY)"
    using Cons.prems(4) by (cases e) auto
  let ?s = "mkwave s0 es"
  have M: "wave_inv ?s" "phaseCount (wave ?s) = length es"
    using mkwave_inv[OF assms(1), of es] Cons.prems(2,3) e by auto
  have IH: "i < length es \<Longrightarrow> getChannelState (wave ?s) 0 i = fst (snd (rev es ! i)) \<and>
      \<not> getChannelState (wave ?s) 1 i" for i
    using Cons.IH Cons.prems(2-4) e by auto
  define t where "t = (count_event st T_PRIMARY ?s)\<lparr>previousAngle := a\<rparr>"
  have t: "wave t = wave ?s" "arrays_ok t"
    using M(1) by (simp_all add: t_def wave_inv_def)
  have push: "mkwave s0 (e # es) =
      (if es = [] then store_first_event a st T_PRIMARY t else store_event (length es) a st T_PRIMARY t)"
    using M(2) by (simp add: e push_event_def t_def)
  show ?case
  proof (cases "es = []")
    case True
    then show ?thesis
      using store_first_event_channels[OF t(2), of a st] Cons.prems(1) push e by simp
  next
    case False
    then have n: "length es = phaseCount (wave t)" "0 < length es" "length es < PWM_PHASE_MAX_COUNT"
      using M(2) t(1) Cons.prems(3) by auto
    show ?thesis
      using store_event_channels[OF t(2) n, of a st] push False Cons.prems(1) IH[of i] IH[of "length es - 1"]
      by (auto simp: t(1) e nth_append less_Suc_eq)
  qed
qed simp

text \<open>A wheel with \<open>n\<close> teeth on \<open>teeth\<close> positions, as the waveform holds it: tooth \<open>i\<close> rises at event
  \<open>2 * i\<close> and falls at the next one.\<close>

definition wheel_signal :: "trigger_waveform \<Rightarrow> int \<Rightarrow> nat \<Rightarrow> bool" where
  "wheel_signal shape teeth n \<longleftrightarrow> getSize shape = 2 * n \<and>
     (\<forall>i<n. getSwitchTime (wave shape) (2 * i) = (of_nat i + 1/2) / of_int teeth \<and>
        getChannelState (wave shape) 0 (2 * i) \<and> \<not> getChannelState (wave shape) 0 (2 * i + 1)) \<and>
     (\<forall>i<2 * n. \<not> getChannelState (wave shape) 1 i)"

lemma tooth_events_nth:
  "i < n \<Longrightarrow> rev (tooth_events teeth n) ! (2 * i) = ((of_nat i + 1/2) / of_int teeth, True, T_PRIMARY) \<and>
    rev (tooth_events teeth n) ! (2 * i + 1) = ((of_nat i + 1) / of_int teeth, False, T_PRIMARY)"
  by (induction n) (auto simp: less_Suc_eq nth_append)

lemma wheel_events_nth:
  assumes "i < Suc n"
  shows "rev (wheel_events teeth n) ! (2 * i) = ((of_nat i + 1/2) / of_int teeth, True, T_PRIMARY)"
    and "\<not> fst (snd (rev (wheel_events teeth n) ! (2 * i + 1)))"
  using assms tooth_events_nth[of i n teeth]
  by (auto simp: wheel_events_def nth_append less_Suc_eq)

lemma wheel_events_primary: "\<forall>e\<in>set (wheel_events teeth n). snd (snd e) = T_PRIMARY"
proof -
  have "\<forall>e\<in>set (tooth_events teeth n). snd (snd e) = T_PRIMARY"
    by (induction n) auto
  then show ?thesis by (simp add: wheel_events_def)
qed

lemma custom_wheel_signal:
  assumes "libfw_ok L" "0 < teeth" "teeth < 4000" "0 \<le> skipped" "skipped < teeth" "teeth - skipped \<le> 140"
    and "arrays_declared s" "om \<noteq> OM_NONE"
  shows "wheel_signal (initializeSkippedToothTrigger L teeth skipped om edge s) teeth (nat (teeth - skipped))"
proof -
  let ?m = "nat (teeth - skipped - 1)"
  have m: "nat (teeth - skipped) = Suc ?m" "int ?m < teeth"
    using assms by auto
  obtain s0 where s0: "initializeSkippedToothTrigger L teeth skipped om edge s = adds L (wheel_events teeth ?m) s0"
    "fresh s0"
    using initializeSkippedToothTrigger_adds[OF assms(2,4,5,7,8)] .
  have len: "length (wheel_events teeth ?m) \<le> PWM_PHASE_MAX_COUNT" "length (wheel_events teeth ?m) = 2 * Suc ?m"
    using assms(6) by (simp_all add: wheel_events_def PWM_PHASE_MAX_COUNT_def)
  have ev: "events_ok (wheel_events teeth ?m)"
    by (rule events_ok_wheel_events[OF assms(2,3) m(2)])
  note I = mkwave_inv[OF s0(2) ev len(1)] and C = mkwave_channels[OF s0(2) ev len(1) wheel_events_primary]
  have "getSwitchTime (wave (mkwave s0 (wheel_events teeth ?m))) (2 * i) = (of_nat i + 1/2) / of_int teeth \<and>
      getChannelState (wave (mkwave s0 (wheel_events teeth ?m))) 0 (2 * i) \<and>
      \<not> getChannelState (wave (mkwave s0 (wheel_events teeth ?m))) 0 (2 * i + 1)" if "i < Suc ?m" for i
    using that I C[of "2 * i"] C[of "2 * i + 1"] wheel_events_nth[OF that, of teeth] len(2) by auto
  moreover have "\<not> getChannelState (wave (mkwave s0 (wheel_events teeth ?m))) 1 i" if "i < 2 * Suc ?m" for i
    using that C[of i] len(2) by simp
  ultimately show ?thesis
    unfolding s0(1) adds_mkwave[OF assms(1) s0(2) ev len(1)] wheel_signal_def m(1)
    using I len(2) by (simp add: getSize_def)
qed

subsection \<open>Feeding the signal of a wheel\<close>

definition rise_time :: "trigger_waveform \<Rightarrow> nat \<Rightarrow> efitick_t" where
  "rise_time shape m = getSimulatedEventTime shape (2 * m)"

lemma feed_rise:
  assumes "wheel_signal shape teeth n" "0 < n" "useOnlyRisingEdges shape"
  shows "feedSimulatedEvent L cls env ty shape (2 * m) d =
    snd (decodeTriggerEvent L cls (env\<lparr>env_listener := False\<rparr>) shape ty PrimaryRising (rise_time shape m) d)"
proof -
  have size: "phaseCount (wave shape) = 2 * n" "getSize shape = 2 * n"
    using assms(1) by (auto simp: wheel_signal_def getSize_def)
  define j where "j = m mod n"
  have j: "2 * m mod (2 * n) = 2 * j" "j < n"
    using assms(2) by (simp_all add: j_def)
  have prev: "getPreviousIndex (2 * j) (2 * n) = 2 * (if j = 0 then n - 1 else j - 1) + 1"
  proof (cases j)
    case (Suc i)
    have "2 * j + 2 * n - 1 = 2 * n + (2 * i + 1)" using Suc by simp
    then have "(2 * j + 2 * n - 1) mod (2 * n) = 2 * i + 1"
      using j(2) Suc by (simp only: mod_add_self1) (simp add: mod_less)
    then show ?thesis using Suc by (simp add: getPreviousIndex_def)
  qed (use assms(2) in \<open>simp add: getPreviousIndex_def\<close>)
  let ?q = "if j = 0 then n - 1 else j - 1"
  have q: "?q < n" "2 * ?q + 1 < 2 * n" using j(2) by auto
  have "needEvent (2 * j) (wave shape) 0" "\<not> needEvent (2 * j) (wave shape) (Suc 0)"
    "getChannelState (wave shape) 0 (2 * j)"
    using assms(1) j(2) q unfolding needEvent_def Let_def size prev wheel_signal_def by auto
  then show ?thesis
    using assms(2,3) by (simp add: feedSimulatedEvent_def size j(1) upt_channels
        channel_event_def isUsefulSignal_def rise_time_def Let_def)
qed

lemma feed_fall:
  assumes "wheel_signal shape teeth n" "0 < n" "useOnlyRisingEdges shape"
  shows "feedSimulatedEvent L cls env ty shape (2 * m + 1) d = d"
proof -
  have size: "phaseCount (wave shape) = 2 * n" "getSize shape = 2 * n"
    using assms(1) by (auto simp: wheel_signal_def getSize_def)
  define j where "j = m mod n"
  have j: "j < n" using assms(2) by (simp add: j_def)
  have odd_even: "Suc (2 * x) \<noteq> 2 * y" for x y :: nat by presburger
  have "(2 * m + 1) mod (2 * n) = 2 * j + 1"
    using assms(2) odd_even[of "m mod n" n] by (simp add: j_def mod_Suc mod_mult_mult1)
  moreover have "getPreviousIndex (2 * j + 1) (2 * n) = 2 * j"
    using j by (simp add: getPreviousIndex_def)
  moreover have "\<not> getChannelState (wave shape) (Suc 0) (2 * j)" "\<not> getChannelState (wave shape) (Suc 0) (2 * j + 1)"
    "\<not> getChannelState (wave shape) 0 (2 * j + 1)"
    using assms(1) j by (auto simp: wheel_signal_def)
  ultimately show ?thesis
    using assms(2,3) by (simp add: feedSimulatedEvent_def size upt_channels
        channel_event_def isUsefulSignal_def needEvent_def Let_def)
qed

lemma feed_run:
  assumes "wheel_signal shape teeth n" "0 < n" "useOnlyRisingEdges shape"
  shows "fold (feedSimulatedEvent L cls env ty shape) [0..<k] d =
    decode_run L cls (\<lambda>_. env\<lparr>env_listener := False\<rparr>) shape ty (rise_time shape) d ((k + 1) div 2)"
proof (induction k)
  case (Suc k)
  show ?case
  proof (cases "even k")
    case True
    then obtain m where "k = 2 * m" by (elim evenE)
    then show ?thesis using Suc by (simp add: feed_rise[OF assms])
  next
    case False
    then obtain m where "k = 2 * m + 1" by (elim oddE)
    then show ?thesis using Suc feed_fall[OF assms, of L cls env ty m] by simp
  qed
qed simp

lemma find_sync_first:
  assumes "k < b" "a \<le> k" "\<And>i. a \<le> i \<Longrightarrow> i < k \<Longrightarrow> \<not> shaft_is_synchronized (X (Suc i))"
    and "shaft_is_synchronized (X (Suc k))"
    and "\<And>i. feedSimulatedEvent L cls env ty shape i (X i) = X (Suc i)"
  shows "find_sync_loop L cls env ty shape [a..<b] (X a) = (Some k, X (Suc k))"
  using assms(2,3)
proof (induction "k - a" arbitrary: a)
  case 0
  then have "[a..<b] = k # [Suc k..<b]" "a = k" using assms(1) by (simp_all add: upt_conv_Cons)
  then show ?case using assms(4,5) by simp
next
  case (Suc n)
  then have "[a..<b] = a # [Suc a..<b]" "\<not> shaft_is_synchronized (X (Suc a))"
    using assms(1) by (auto simp: upt_conv_Cons)
  then show ?case using Suc by (simp add: assms(5))
qed

subsection \<open>The gap test on truncated times\<close>

text \<open>The gaps of a wheel that turns at \<open>u\<close> ticks a tooth, each less than one tick off.\<close>

definition nearly_constant_speed :: "(nat \<Rightarrow> efitick_t) \<Rightarrow> nat \<Rightarrow> nat \<Rightarrow> rat \<Rightarrow> bool" where
  "nearly_constant_speed t n k u \<longleftrightarrow>
     (\<forall>m>0. \<bar>of_int (tooth_gap t m) - (if m mod n = 0 then (of_nat k + 1) * u else u)\<bar> < 1)"

lemma nearly_gap:
  assumes "nearly_constant_speed t n k u" "0 < m"
  shows "(if m mod n = 0 then (of_nat k + 1) * u else u) - 1 < of_int (tooth_gap t m)"
    and "of_int (tooth_gap t m) < (if m mod n = 0 then (of_nat k + 1) * u else u) + 1"
  using assms unfolding nearly_constant_speed_def by (auto simp: abs_less_iff dest!: spec[of _ m])

lemma long_gap_lower:
  fixes g :: rat
  shows "p \<le> ku + k \<Longrightarrow> 2 * u - 6 \<le> ku - 3 * k \<Longrightarrow> ku - 1 < g \<Longrightarrow> 10 < u \<Longrightarrow> 3/4 * p < g"
  by linarith

lemma long_gap_upper:
  fixes g :: rat
  shows "ku - k \<le> p \<Longrightarrow> 2 * u - 10 \<le> ku - 5 * k \<Longrightarrow> g < ku + 1 \<Longrightarrow> 10 < u \<Longrightarrow> g < 5/4 * p"
  by linarith

lemma gap_test_nearly_constant:
  assumes "gapTrackingLength shape = 2" "10 < u" "0 < k" "3 \<le> n" "nearly_constant_speed t n k u"
    and "syncronizationRatioFrom shape ! 0 = Fin ((of_nat k + 1) * (3/4))"
    and "syncronizationRatioTo shape ! 0 = Fin ((of_nat k + 1) * (5/4))"
    and "syncronizationRatioFrom shape ! 1 = Fin (3/4)" "syncronizationRatioTo shape ! 1 = Fin (5/4)"
  shows "gap_test shape (tooth_gap t) m \<longleftrightarrow> 3 \<le> m \<and> m mod n = 0"
proof (cases "3 \<le> m")
  case True
  have k: "(1::rat) \<le> of_nat k" using assms(3) by auto
  define K where "K = (of_nat k + 1 :: rat)"
  have K: "2 \<le> K" using k by (simp add: K_def)
  note N = nearly_gap[OF assms(5), folded K_def]
  define g0 g1 g2 :: rat where "g0 = of_int (tooth_gap t m)" and "g1 = of_int (tooth_gap t (m - 1))"
    and "g2 = of_int (tooth_gap t (m - 2))"
  have pos: "0 < m" "0 < m - 1" "0 < m - 2" using True by auto
  show ?thesis
  proof (cases "m mod n = 0")
    case T: True
    then have "(m - 1) mod n \<noteq> 0" "(m - 2) mod n \<noteq> 0"
      using two_short_gaps[OF assms(4) True, of 0] by simp_all
    then have G: "K * u - 1 < g0" "g0 < K * u + 1" "u - 1 < g1" "g1 < u + 1" "u - 1 < g2" "g2 < u + 1"
      using N[OF pos(1)] N[OF pos(2)] N[OF pos(3)] T by (simp_all add: g0_def g1_def g2_def)
    have "g1 * (K * (3/4)) < g0"
    proof -
      have "g1 * K \<le> (u + 1) * K" using G K by (intro mult_right_mono) auto
      also have "(u + 1) * K = K * u + K" by (simp add: algebra_simps)
      finally have "g1 * K \<le> K * u + K" .
      moreover have "2 * (u - 3) \<le> K * (u - 3)" using K assms(2) by (intro mult_right_mono) auto
      then have "2 * u - 6 \<le> K * u - 3 * K" by (simp add: algebra_simps)
      ultimately have "(3/4) * (g1 * K) < g0" using long_gap_lower G(1) assms(2) by blast
      then show ?thesis by (simp only: mult_ac)
    qed
    moreover have "g0 < g1 * (K * (5/4))"
    proof -
      have "(u - 1) * K \<le> g1 * K" using G K by (intro mult_right_mono) auto
      also have "(u - 1) * K = K * u - K" by (simp add: algebra_simps)
      finally have "K * u - K \<le> g1 * K" .
      moreover have "2 * (u - 5) \<le> K * (u - 5)" using K assms(2) by (intro mult_right_mono) auto
      then have "2 * u - 10 \<le> K * u - 5 * K" by (simp add: algebra_simps)
      ultimately have "g0 < (5/4) * (g1 * K)" using long_gap_upper G(2) assms(2) by blast
      then show ?thesis by (simp only: mult_ac)
    qed
    moreover have "g2 * (3/4) < g1" "g1 < g2 * (5/4)" using G assms(2) by simp_all
    ultimately have "gap_in_range shape (tooth_gap t) m 0" "gap_in_range shape (tooth_gap t) m 1"
      unfolding gap_in_range_def assms(6-9) g0_def g1_def g2_def K_def
      by (simp_all only: xmul_nonneg.simps xless.simps add_0 one_add_one diff_zero minus_nat.diff_0 simp_thms)
    then show ?thesis
      using T True by (simp only: gap_test_two[OF assms(1)] simp_thms)
  next
    case False
    have "u \<le> K * u" using K assms(2) by simp
    then have G: "g0 < u + 1" "u - 1 < g1"
      using N(2)[OF pos(1)] N(1)[OF pos(2)] False by (auto simp: g0_def g1_def split: if_splits)
    have "(u - 1) * 2 \<le> g1 * K" using G K assms(2) by (intro mult_mono) auto
    then have "\<not> g1 * (K * (3/4)) < g0" using G assms(2) by simp
    then have "\<not> gap_in_range shape (tooth_gap t) m 0"
      by (simp add: gap_in_range_def assms(6,7) g0_def g1_def K_def)
    then show ?thesis using False by (simp add: gap_test_two[OF assms(1)])
  qed
next
  case False
  have "0 \<le> tooth_gap t i" for i
  proof (cases "i = 0")
    case False
    have "u \<le> (of_nat k + 1) * u" using assms(2) by (simp add: algebra_simps)
    then have "u \<le> (if i mod n = 0 then (of_nat k + 1) * u else u)" by simp
    then have "(0::rat) < of_int (tooth_gap t i)"
      using nearly_gap(1)[OF assms(5), of i] False assms(2) by linarith
    then show ?thesis by simp
  qed (simp add: tooth_gap_def)
  then show ?thesis
    using False gap_test_start[OF assms(1) _ _ assms(6-9), of m t] by simp
qed

text \<open>The simulated times are those of such a wheel.\<close>

lemma trunc_diff:
  assumes "0 \<le> a" "a \<le> b"
  shows "\<bar>of_int (c_trunc b - c_trunc a) - (b - a)\<bar> < (1::rat)"
proof -
  have "of_int (c_trunc a) \<le> a" "a < of_int (c_trunc a) + 1" "of_int (c_trunc b) \<le> b" "b < of_int (c_trunc b) + 1"
    using assms floor_correct[of a] floor_correct[of b] by (simp_all add: c_trunc_def)
  then show ?thesis unfolding of_int_diff abs_less_iff by linarith
qed

lemma rise_time_wheel:
  assumes "wheel_signal shape teeth n" "0 < n"
  shows "rise_time shape m =
    c_trunc (720000 * (of_nat (m div n) + (of_nat (m mod n) + 1/2) / of_int teeth))"
proof -
  have "getSize shape = 2 * n" "getSwitchTime (wave shape) (2 * (m mod n)) = (of_nat (m mod n) + 1/2) / of_int teeth"
    using assms by (simp_all add: wheel_signal_def)
  then show ?thesis
    by (simp add: rise_time_def getSimulatedEventTime_def SIMULATION_CYCLE_PERIOD_def)
qed

lemma angle_of_gap:
  fixes T :: rat
  assumes "0 < T" "T = N + K"
  shows "720000 * (1 + q + (0 + 1/2) / T) - 720000 * (q + (N - 1 + 1/2) / T) = (K + 1) * (720000 / T)"
proof -
  have "720000 * (1 + q + (0 + 1/2) / T) - 720000 * (q + (N - 1 + 1/2) / T) = 720000 * ((T - N + 1) / T)"
    using assms(1) by (simp add: add_divide_distrib diff_divide_distrib right_diff_distrib distrib_left)
  also have "T - N + 1 = K + 1" using assms(2) by simp
  finally show ?thesis by simp
qed

lemma angle_of_tooth:
  fixes T :: rat
  assumes "0 < T"
  shows "720000 * (q + (1 + j + 1/2) / T) - 720000 * (q + (j + 1/2) / T) = 720000 / T"
  using assms by (simp add: add_divide_distrib right_diff_distrib distrib_left)

lemma rise_time_nearly_constant:
  assumes "wheel_signal shape teeth n" "0 < n" "teeth = int n + int k"
  shows "nearly_constant_speed (rise_time shape) n k (720000 / of_int teeth)"
    and "0 \<le> rise_time shape 0"
proof -
  define V where "V m = 720000 * (of_nat (m div n) + (of_nat (m mod n) + 1/2) / of_int teeth :: rat)" for m
  have T: "0 < (of_int teeth :: rat)" "(of_int teeth :: rat) = of_nat n + of_nat k"
    using assms(2,3) by auto
  have V0: "0 \<le> V m" for m
    using T(1) by (simp add: V_def)
  have step: "V (Suc m) - V m = (if Suc m mod n = 0 then (of_nat k + 1) * (720000 / of_int teeth)
      else 720000 / of_int teeth)" for m
  proof (cases "Suc m mod n = 0")
    case True
    then have "Suc (m mod n) = n" "Suc m div n = Suc (m div n)"
      using assms(2) by (auto simp: mod_Suc div_Suc split: if_splits)
    then have "rat_of_nat (m mod n) = of_nat n - 1"
      using arg_cong[of "Suc (m mod n)" n rat_of_nat] unfolding of_nat_Suc by linarith
    then show ?thesis
      using True \<open>Suc m div n = Suc (m div n)\<close> angle_of_gap[of "of_int teeth" "of_nat n" "of_nat k" "of_nat (m div n)"] T
      by (simp add: V_def)
  next
    case False
    then have "Suc m mod n = Suc (m mod n)" "Suc m div n = m div n"
      using assms(2) by (auto simp: mod_Suc div_Suc split: if_splits)
    then show ?thesis
      using False angle_of_tooth[of "of_int teeth" "of_nat (m div n)" "of_nat (m mod n)"] T
      by (simp only: V_def of_nat_Suc simp_thms if_False)
  qed
  have t: "rise_time shape m = c_trunc (V m)" for m
    by (simp only: rise_time_wheel[OF assms(1,2)] V_def)
  have gap: "tooth_gap (rise_time shape) m = c_trunc (V m) - c_trunc (V (m - 1))" if "0 < m" for m
    using that by (simp add: tooth_gap_def t)
  have le: "V (m - 1) \<le> V m" if "0 < m" for m
  proof -
    have "0 < 720000 / rat_of_int teeth" using T(1) by simp
    then have "0 \<le> (if Suc (m - 1) mod n = 0 then (of_nat k + 1) * (720000 / rat_of_int teeth) else 720000 / of_int teeth)"
      by (simp add: less_imp_le)
    then have "0 \<le> V (Suc (m - 1)) - V (m - 1)" by (simp only: step)
    then show ?thesis using that by simp
  qed
  show "nearly_constant_speed (rise_time shape) n k (720000 / of_int teeth)"
    unfolding nearly_constant_speed_def
  proof (intro allI impI)
    fix m :: nat
    assume m: "0 < m"
    then have "V m - V (m - 1) = (if m mod n = 0 then (of_nat k + 1) * (720000 / of_int teeth) else 720000 / of_int teeth)"
      using step[of "m - 1"] by simp
    with trunc_diff[OF V0 le[OF m]]
    show "\<bar>of_int (tooth_gap (rise_time shape) m) -
        (if m mod n = 0 then (of_nat k + 1) * (720000 / of_int teeth) else 720000 / of_int teeth)\<bar> < (1::rat)"
      by (simp only: gap[OF m])
  qed
  show "0 \<le> rise_time shape 0"
    using V0[of 0] unfolding t by (simp add: c_trunc_def)
qed

subsection \<open>The synchronization point of a missing-tooth wheel\<close>

lemma calculateExpectedEventCounts_wave: "wave (calculateExpectedEventCounts s) = wave s"
  by (rule calculateExpectedEventCounts_changes[of s]) (auto simp: only_logs_def)

lemma custom_wheel_shape_signal:
  assumes "libfw_ok L" "arrays_declared w" "om \<noteq> OM_NONE" "0 < teeth" "teeth < 4000" "0 \<le> skipped"
    "skipped < teeth" "teeth - skipped \<le> 140" "skipped = 0 \<or> skipped < teeth - 1"
  defines "shape \<equiv> initializeTriggerWaveform L om TT_TOOTHED_WHEEL teeth skipped w"
  shows "wheel_signal shape teeth (nat (teeth - skipped))" "\<not> shapeDefinitionError shape"
proof -
  have w: "arrays_declared (w\<lparr>shapeDefinitionError := False\<rparr>)" using assms(2) by auto
  have fits: "wheel_fits teeth skipped" using assms by (auto simp: wheel_fits_def)
  show "wheel_signal shape teeth (nat (teeth - skipped))"
    using custom_wheel_signal[OF assms(1,4-8) w assms(3), of RiseOnly]
    by (simp add: shape_def initializeTriggerWaveform_def initialize_shape_def Let_def wheel_signal_def getSize_def
        calculateExpectedEventCounts_wave)
  show "\<not> shapeDefinitionError shape"
    using clean_wheel[OF assms(1) w assms(3) fits, of RiseOnly]
    by (simp add: shape_def initializeTriggerWaveform_def initialize_shape_def Let_def clean_shape_def)
qed

lemma simulated_edge_train:
  assumes "nearly_constant_speed t n k u" "0 \<le> t 0" "10 < u" "(of_nat k + 1) * u \<le> 360000"
  shows "edge_train t"
  unfolding edge_train_def
proof (intro conjI allI)
  fix m
  have "u \<le> (of_nat k + 1) * u" using assms(3) by (simp add: algebra_simps)
  then have B: "u \<le> (if Suc m mod n = 0 then (of_nat k + 1) * u else u)"
    "(if Suc m mod n = 0 then (of_nat k + 1) * u else u) \<le> 360000"
    using assms(4) by auto
  note G = nearly_gap[OF assms(1), of "Suc m"]
  have "(0::rat) < of_int (tooth_gap t (Suc m))" using G(1) B assms(3) by linarith
  then show "0 \<le> t (Suc m) - t m" by (simp add: tooth_gap_def)
  have "of_int (tooth_gap t (Suc m)) < (360001::rat)" using G(2) B by linarith
  then have "tooth_gap t (Suc m) < 360001" by (metis of_int_less_iff of_int_numeral)
  then show "t (Suc m) - t m \<le> NT_PER_SECOND div 10"
    by (simp add: tooth_gap_def NT_PER_SECOND_def US_TO_NT_MULTIPLIER_def)
qed (rule assms(2))

lemma count_edge_counter:
  assumes "libfw_ok L" "rising_wheel shape n" "ty \<noteq> TT_MIATA_VVT" "edge_train t"
    and "\<forall>m. gap_test shape (tooth_gap t) m \<longleftrightarrow> s \<le> m \<and> (m - s) mod n = 0"
  shows "shaft_is_synchronized (decode_run L cls env shape ty t (resetState cls d) m) \<longleftrightarrow> s < m"
proof -
  have "train_state shape n t s (dec_log d) 0 m (decode_run L cls env shape ty t (resetState cls d) m)"
    by (rule decode_run_train_state[OF assms reset_train_state[OF assms(4,2)]])
  then show ?thesis
    by (simp add: train_state_def count_state_def not_le split: if_splits)
qed

lemma uint_of_nat16: "x < 65536 \<Longrightarrow> uint (of_nat x :: 16 word) = int x"
  by (simp add: unsigned_of_nat of_nat_take_bit take_bit_int_eq_self)

text \<open>The whole search on a signal that passes the gap test at every \<open>n\<close>-th rise from \<open>s\<close> on.\<close>

lemma zero_event_of_train:
  fixes L cls env ov ty shape d s
  defines "t \<equiv> rise_time shape" and "E \<equiv> \<lambda>_. env\<lparr>env_listener := False\<rparr>"
  assumes "libfw_ok L" "rising_wheel shape n" "ty \<noteq> TT_MIATA_VVT" "edge_train t" "wheel_signal shape teeth n"
    and "\<forall>m. gap_test shape (tooth_gap t) m \<longleftrightarrow> s \<le> m \<and> (m - s) mod n = 0"
    and "2 * s < 4 * PWM_PHASE_MAX_COUNT" "\<not> shapeDefinitionError shape"
  shows "findTriggerZeroEventIndex L cls env ov ty shape d =
    (Some (2 * s mod (2 * n)), shape, decode_run L cls E shape ty t (resetState cls d) (s + 6 * n + 1))"
proof -
  let ?D = "decode_run L cls E shape ty t (resetState cls d)"
  have n: "0 < n" "useOnlyRisingEdges shape" "getSize shape = 2 * n"
    using assms(4) by (auto simp: rising_wheel_def)
  note run = feed_run[OF assms(7) n(1,2), where L = L and cls = cls and env = env and ty = ty
      and d = "resetState cls d", folded t_def E_def]
  define X where "X k = ?D ((k + 1) div 2)" for k
  have X: "feedSimulatedEvent L cls env ty shape i (X i) = X (Suc i)" for i
    using run[of i] run[of "Suc i"] by (simp add: X_def)
  note sync = count_edge_counter[OF assms(3-6,8), where cls = cls and env = E and d = d]
  have "find_sync_loop L cls env ty shape [0..<4 * PWM_PHASE_MAX_COUNT] (X 0) = (Some (2 * s), X (Suc (2 * s)))"
    using assms(9) by (intro find_sync_first X) (auto simp: X_def sync simp del: decode_run.simps(2))
  then have find: "findTriggerSyncPoint L cls env ov ty shape (resetState cls d) = (Some (2 * s), shape, ?D (Suc s))"
    by (simp add: findTriggerSyncPoint_def X_def)
  have count: "getCrankSynchronizationCounter (?D (Suc m)) = int ((m - s) div n)"
    if "s \<le> m" "(m - s) div n < 65536" for m
    using decode_run_tracks[OF assms(3-6,8), where cls = cls and env = E and d = d and m = m] that
    by (simp add: getCrankSynchronizationCounter_def Let_def uint_of_nat16)
  have "fold (feedSimulatedEvent L cls env ty shape) [2 * s + 1..<2 * s + 12 * n + 1] (X (2 * s + 1)) =
      X (2 * s + 12 * n + 1)"
  proof -
    have "fold (feedSimulatedEvent L cls env ty shape) [a..<a + k] (X a) = X (a + k)" for a k
      by (induction k) (simp_all add: X)
    from this[of "2 * s + 1" "12 * n"] show ?thesis by (simp add: algebra_simps)
  qed
  moreover have "X (2 * s + 1) = ?D (Suc s)" "X (2 * s + 12 * n + 1) = ?D (Suc (s + 6 * n))"
    by (simp_all add: X_def)
  ultimately have "assertSyncPosition L cls env ty (2 * s) shape (?D (Suc s)) =
      (shape, ?D (Suc (s + 6 * n)))"
    using count[of "s + 6 * n"] n assms(10)
    by (simp add: assertSyncPosition_def TEST_REVOLUTIONS_def algebra_simps)
  then show ?thesis
    using count[of s] find assms(10) n(3) by (simp add: findTriggerZeroEventIndex_def Let_def)
qed

text \<open>C6: for every custom missing-tooth wheel whose gap is at most half a revolution, the firmware's own
  check of the configured shape succeeds: the decoder fed with the simulated signal, with its times
  truncated to whole ticks, synchronizes on the tooth after the gap, which is event 0; six further
  revolutions are counted; the shape is unchanged but for the synchronization point, and nothing is
  reported.\<close>

theorem wheel_sync_point_found:
  assumes "libfw_ok L" "arrays_declared w" "gap_arrays_declared w" "om \<noteq> OM_NONE"
    and "6 < teeth" "0 < skipped" "3 \<le> teeth - skipped" "teeth - skipped < 140" "teeth < 4000"
    and "2 * (skipped + 1) \<le> teeth"
  shows "let shape = initializeTriggerWaveform L om TT_TOOTHED_WHEEL teeth skipped w;
             (shape', st) = calculateTriggerSynchPoint L env ov TT_TOOTHED_WHEEL shape initState
    in shape' = shape\<lparr>triggerShapeSynchPointIndex := Some 0\<rparr> \<and>
      shaft_is_synchronized st \<and> crankSynchronizationCounter st = 6 \<and>
      triggerErrorCounter st = 0 \<and> dec_log st = dec_log initState"
proof -
  let ?shape = "initializeTriggerWaveform L om TT_TOOTHED_WHEEL teeth skipped w"
  let ?E = "\<lambda>_::nat. env\<lparr>env_listener := False\<rparr>"
  define n where "n = nat (teeth - skipped)"
  define k where "k = nat skipped"
  define u where "u = 720000 / rat_of_int teeth"
  have n: "3 \<le> n" "0 < n" "n < 140" "0 < k" "teeth = int n + int k" "int k = skipped" "int n = teeth - skipped"
    using assms by (auto simp: n_def k_def)
  have teeth: "skipped < teeth" "teeth - skipped \<le> 140" "0 < teeth" using assms by auto
  have W: "rising_wheel ?shape n"
    using custom_wheel_decodable(1)[OF assms(1-7) teeth(2) assms(9)] by (simp add: n_def)
  note G = custom_wheel_decodable(2-)[OF assms(1-7) teeth(2) assms(9), folded k_def]
  have sig: "wheel_signal ?shape teeth n" "\<not> shapeDefinitionError ?shape"
    using custom_wheel_shape_signal[OF assms(1,2,4) teeth(3) assms(9) _ teeth(1,2)] assms(6,7) by (simp_all add: n_def)
  have T: "(0::rat) < of_int teeth" "(of_int teeth :: rat) < 4000"
    using teeth(3) assms(9) by simp_all
  then have u: "10 < u" by (simp add: u_def pos_less_divide_eq)
  have "(2 * (rat_of_nat k + 1)) \<le> of_int teeth"
  proof -
    have "rat_of_int (2 * (int k + 1)) \<le> of_int teeth" unfolding of_int_le_iff using assms(10) n(6) by simp
    then show ?thesis by simp
  qed
  then have "(rat_of_nat k + 1) * 720000 \<le> 360000 * of_int teeth" by simp
  then have ku: "(rat_of_nat k + 1) * u \<le> 360000"
    using T(1) by (simp add: u_def pos_divide_le_eq)
  note near = rise_time_nearly_constant[OF sig(1) n(2,5), folded u_def]
  have train: "edge_train (rise_time ?shape)"
    by (rule simulated_edge_train[OF near u ku])
  have test: "\<forall>m. gap_test ?shape (tooth_gap (rise_time ?shape)) m \<longleftrightarrow> n \<le> m \<and> (m - n) mod n = 0"
  proof
    fix m
    have "3 \<le> m \<and> m mod n = 0 \<longleftrightarrow> n \<le> m \<and> (m - n) mod n = 0"
    proof (cases "n \<le> m")
      case False
      then show ?thesis using n(1) by auto
    qed (use n(1) in \<open>simp add: le_mod_geq\<close>)
    then show "gap_test ?shape (tooth_gap (rise_time ?shape)) m \<longleftrightarrow> n \<le> m \<and> (m - n) mod n = 0"
      using gap_test_nearly_constant[OF G(1) u n(4,1) near(1) G(2-)] by simp
  qed
  have "2 * n < 4 * PWM_PHASE_MAX_COUNT" using n(3) by (simp add: PWM_PHASE_MAX_COUNT_def)
  note Z = zero_event_of_train[OF assms(1) W _ train sig(1) test this sig(2), where cls = BaseDecoder
      and env = env and ov = ov and d = initState]
  let ?D = "decode_run L BaseDecoder ?E ?shape TT_TOOTHED_WHEEL (rise_time ?shape) (resetState BaseDecoder initState)"
  have st: "train_state ?shape n (rise_time ?shape) n (dec_log initState) 0 (n + 6 * n + 1) (?D (n + 6 * n + 1))"
    by (rule decode_run_train_state[OF assms(1) W _ train test reset_train_state[OF train W]]) simp
  have size: "getSize ?shape = 2 * n" using W by (simp add: rising_wheel_def)
  have "?shape\<lparr>triggerShapeSynchPointIndex := Some 0\<rparr> = (\<lambda>s. s\<lparr>triggerShapeSynchPointIndex := Some (2 * n mod (2 * n))\<rparr>) ?shape"
    by simp
  then show ?thesis
    using Z st n(2,3) size
    by (simp add: calculateTriggerSynchPoint_def initializeSyncPoint_def Let_def getSize_def
        PWM_PHASE_MAX_COUNT_def train_state_def count_state_def)
qed

text \<open>The 60-2 wheel.\<close>

theorem wheel_sync_point_found_witness:
  "let shape = initializeTriggerWaveform libfw_example FOUR_STROKE_CRANK_SENSOR TT_TOOTHED_WHEEL 60 2 blank_waveform;
       (shape', st) = calculateTriggerSynchPoint libfw_example example_env False TT_TOOTHED_WHEEL shape blank_decoder
   in shape' = shape\<lparr>triggerShapeSynchPointIndex := Some 0\<rparr> \<and>
      shaft_is_synchronized st \<and> crankSynchronizationCounter st = 6 \<and>
      triggerErrorCounter st = 0 \<and> dec_log st = dec_log blank_decoder"
  by (rule wheel_sync_point_found[OF libfw_example_ok arrays_declared_blank])
    (simp_all add: gap_arrays_declared_def blank_waveform_def)

subsection \<open>What the search does in general\<close>

text \<open>Whatever the shape, a synchronization point that is returned is an event of the shape, and after
  the check the definition error is clear exactly if six revolutions were counted. If none of the
  1120 simulated events synchronizes the decoder, the shape is refused with one error.\<close>

theorem sync_point_search_result:
  fixes L cls env ov ty shape d
  defines "R \<equiv> findTriggerZeroEventIndex L cls env ov ty shape d"
  assumes "0 < getSize shape" "\<not> shapeDefinitionError shape"
  shows "case R of
      (Some i, shape', d') \<Rightarrow> i < getSize shape \<and> wave shape' = wave shape \<and>
        (shapeDefinitionError shape' \<longleftrightarrow> getCrankSynchronizationCounter d' \<noteq> int TEST_REVOLUTIONS)
    | (None, shape', d') \<Rightarrow> wave shape' = wave shape \<and> (\<exists>m. wf_log shape' = wf_log shape @ [FirmwareError m]) \<and>
        (\<not> shaft_is_synchronized d' \<longrightarrow> shapeDefinitionError shape')"
proof -
  obtain r d1 where f: "find_sync_loop L cls env ty shape [0..<4 * PWM_PHASE_MAX_COUNT] (resetState cls d) = (r, d1)"
    by (cases "find_sync_loop L cls env ty shape [0..<4 * PWM_PHASE_MAX_COUNT] (resetState cls d)")
  have sync: "shaft_is_synchronized (snd (find_sync_loop L cls env ty shape is s)) \<or>
      fst (find_sync_loop L cls env ty shape is s) = None" for "is" s
    by (induction "is" arbitrary: s) (auto simp: Let_def)
  show ?thesis
  proof (cases r)
    case None
    then show ?thesis
      using assms(3) f by (auto simp: R_def findTriggerZeroEventIndex_def findTriggerSyncPoint_def
          setShapeDefinitionError_def report_def Let_def)
  next
    case (Some i)
    then have "shaft_is_synchronized d1" using sync[of "[0..<4 * PWM_PHASE_MAX_COUNT]" "resetState cls d"] f by simp
    moreover obtain shape' d2 where a: "assertSyncPosition L cls env ty i shape d1 = (shape', d2)"
      by (cases "assertSyncPosition L cls env ty i shape d1")
    moreover have "wave shape' = wave shape \<and>
        (shapeDefinitionError shape' \<longleftrightarrow> getCrankSynchronizationCounter d2 \<noteq> int TEST_REVOLUTIONS)"
      using a by (auto simp: assertSyncPosition_def setShapeDefinitionError_def report_def Let_def split: if_splits)
    ultimately show ?thesis
      using assms(2,3) f Some by (auto simp: R_def findTriggerZeroEventIndex_def findTriggerSyncPoint_def
          report_def Let_def getSize_def)
  qed
qed

lemma sync_point_search_result_witness:
  "case findTriggerZeroEventIndex libfw_example BaseDecoder example_env False TT_ONE
       (blank_waveform\<lparr>wave := (wave blank_waveform)\<lparr>phaseCount := 2\<rparr>\<rparr>) blank_decoder of
      (Some i, shape', d') \<Rightarrow> i < getSize (blank_waveform\<lparr>wave := (wave blank_waveform)\<lparr>phaseCount := 2\<rparr>\<rparr>) \<and>
        wave shape' = wave (blank_waveform\<lparr>wave := (wave blank_waveform)\<lparr>phaseCount := 2\<rparr>\<rparr>) \<and>
        (shapeDefinitionError shape' \<longleftrightarrow> getCrankSynchronizationCounter d' \<noteq> int TEST_REVOLUTIONS)
    | (None, shape', d') \<Rightarrow> wave shape' = wave (blank_waveform\<lparr>wave := (wave blank_waveform)\<lparr>phaseCount := 2\<rparr>\<rparr>) \<and>
        (\<exists>m. wf_log shape' = wf_log (blank_waveform\<lparr>wave := (wave blank_waveform)\<lparr>phaseCount := 2\<rparr>\<rparr>) @ [FirmwareError m]) \<and>
        (\<not> shaft_is_synchronized d' \<longrightarrow> shapeDefinitionError shape')"
  by (rule sync_point_search_result) (simp_all add: blank_waveform_def getSize_def)

end
