(* ===== verification/Trigger_Central.thy ===== *)
theory Trigger_Central
  imports Engine_Phase Trigger_Simulator Decoder_Errors Containers
begin

text \<open>
  \<^verbatim>\<open>controllers/trigger/trigger_central.h\<close> and \<^verbatim>\<open>.cpp\<close>: the handlers of crank and cam edges around the
  decoders, the conversion between the phase of the trigger and that of the engine, and the
  configuration of the shapes; \<^verbatim>\<open>VvtTriggerConfiguration\<close> of \<^verbatim>\<open>engine2.cpp\<close>. The configuration is a
  record of the fields read here; what the rest of the firmware provides during an interrupt (speed,
  time, operation mode) is the record \<open>central_env\<close>. The listeners of a decoded tooth are recorded in
  \<open>tc_calls\<close>; they may change what the environment shows, so the cam decoder that runs after them
  gets an environment of its own. Console output is left out. Operations with an angle loop return
  \<open>None\<close> where the loop does not end.
\<close>

subsection \<open>Types\<close>

datatype (plugins only: code size) vvt_mode_e =
    VVT_INACTIVE | VVT_SINGLE_TOOTH | VVT_TOYOTA_3_TOOTH | VVT_MIATA_NB | VVT_MIATA_NA
  | VVT_BOSCH_QUICK_START | VVT_TOYOTA_4_1 | VVT_FORD_ST170 | VVT_BARRA_3_PLUS_1 | VVT_NISSAN_VQ
  | VVT_HONDA_K_INTAKE | VVT_NISSAN_MR | VVT_MITSUBISHI_3A92 | VVT_MAP_V_TWIN | VVT_MITSUBISHI_6G75
  | VVT_MAZDA_SKYACTIV | VVT_HONDA_K_EXHAUST | VVT_MITSUBISHI_4G9x | VVT_MITSUBISHI_4G63 | VVT_MAZDA_L

definition BANKS_COUNT :: nat where "BANKS_COUNT = 2"
definition CAMS_PER_BANK :: nat where "CAMS_PER_BANK = 2"

record central_config =
  cfg_trigger_type :: trigger_type_e
  cfg_customTotalToothCount :: int
  cfg_customSkippedToothCount :: int
  cfg_twoStroke :: bool
  cfg_skippedWheelOnCam :: bool
  cfg_globalTriggerAngleOffset :: rat
  cfg_minCamPhaseResolveRpm :: rat
  cfg_maxCamPhaseResolveRpm :: rat
  cfg_vvtMode :: "vvt_mode_e list"
  cfg_vvtOffsets :: "rat list"
  cfg_engineSyncCam :: nat
  cfg_invertCamVVTSignal :: bool
  cfg_invertPrimaryTriggerSignal :: bool
  cfg_invertSecondaryTriggerSignal :: bool
  cfg_triggerSkipPulses :: nat
  cfg_cranking_rpm :: rat
  cfg_mapCamDetectionAnglePosition :: rat
  cfg_overrideTriggerGaps :: bool
  cfg_gapTrackingLengthOverride :: int
  cfg_triggerGapOverrideFrom :: "rat list"
  cfg_triggerGapOverrideTo :: "rat list"
  cfg_triggerInputPins :: "nat list"
  cfg_camInputs :: "nat list"

record central_env =
  ce_cfg :: central_config
  ce_dec :: decoder_env
  ce_engineCycle :: rat
  ce_oneDegreeUs :: "rat option"
  ce_operationMode :: operation_mode_e
  ce_cachedRpm :: rat
  ce_allowTriggerInput :: bool
  ce_instantMAP :: rat

datatype central_call =
    LogPrimaryTriggerTooth int bool
  | LogCamTriggerTooth int nat bool
  | SnifferCrankEvent nat int bool
  | SnifferVvtEvent nat bool
  | OnEngineCycleTps
  | RpmShaftPositionCallback int enginePhaseInfo
  | TdcMarkCallback int int
  | MainTriggerCallback int enginePhaseInfo

record central =
  triggerState :: decoder
  triggerShape :: trigger_waveform
  vvtState :: "decoder list"
  vvtShape :: "trigger_waveform list"
  eventAngles :: "rat list"
  engineCycleEventCount :: nat
  vvtPosition :: "(rat \<times> efitick_t) list"
  m_lastEventTimer :: efitick_t
  m_lastToothTimer :: efitick_t
  m_lastToothPhaseFromSyncPoint :: phase_angle
  expectedNextPhase :: "phase_angle option"
  m_skipTeethCount :: nat
  triggerIgnoredToothCount :: "8 word"
  triggerToothAngleError :: rat
  currentEngineDecodedPhase :: rat
  isSpinningJustForWatchdog :: bool
  mapCamPrevToothAngle :: rat
  mapCamPrevCycleValue :: rat
  mapVvt_MAP_AT_SPECIAL_POINT :: rat
  mapVvt_MAP_AT_DIFF :: rat
  directSelfStimulation :: bool
  hwTriggerInputEnabled :: bool
  isEngineSnifferEnabled :: bool
  triggerConfigChanged :: bool
  triggerVersion :: int
  triggerErrorDetection :: "int cyclic_buffer"
  triggerReentrant :: int
  maxTriggerReentrant :: int
  tc_calls :: "central_call list"
  tc_log :: diag_log

definition tc_call :: "central_call \<Rightarrow> central \<Rightarrow> central" where
  "tc_call c tc = tc\<lparr>tc_calls := tc_calls tc @ [c]\<rparr>"

definition tc_report :: "diag_log \<Rightarrow> central \<Rightarrow> central" where
  "tc_report ms tc = tc\<lparr>tc_log := tc_log tc @ ms\<rparr>"

subsection \<open>Phases\<close>

text \<open>\<^verbatim>\<open>wrapAngleMethod\<close> of a finite angle.\<close>

definition wrapAngleMethod :: "rat \<Rightarrow> obd_code \<Rightarrow> rat \<Rightarrow> (rat \<times> diag_log) option" where
  "wrapAngleMethod engineCycle code param = wrapAngle engineCycle code (Fin param)"

definition phaseAdjustment :: "central \<Rightarrow> rat" where
  "phaseAdjustment tc = of_nat (unat (m_phaseAdjustment (triggerState tc)))"

definition toEngPhase :: "central_env \<Rightarrow> phase_angle \<Rightarrow> central \<Rightarrow> (phase_angle \<times> diag_log) option" where
  "toEngPhase env trgPhase tc =
     wrapAngleMethod (ce_engineCycle env) CUSTOM_ERR_6555
       (trgPhase - tdcPosition (triggerShape tc) - cfg_globalTriggerAngleOffset (ce_cfg env) + phaseAdjustment tc)"

definition toTrgPhase :: "central_env \<Rightarrow> phase_angle \<Rightarrow> central \<Rightarrow> (phase_angle \<times> diag_log) option" where
  "toTrgPhase env engPhase tc =
     wrapAngleMethod (ce_engineCycle env) CUSTOM_ERR_6555
       (engPhase + tdcPosition (triggerShape tc) + cfg_globalTriggerAngleOffset (ce_cfg env) - phaseAdjustment tc)"

definition resetCounters :: "central \<Rightarrow> central" where
  "resetCounters tc =
     tc\<lparr>triggerState := (triggerState tc)\<lparr>edgeCountRise := 0, edgeCountFall := 0\<rparr>,
        vvtState := map (\<lambda>d. d\<lparr>edgeCountRise := 0, edgeCountFall := 0\<rparr>) (vvtState tc)\<rparr>"

definition getVVTPosition :: "efitick_t \<Rightarrow> nat \<Rightarrow> nat \<Rightarrow> central \<Rightarrow> rat option" where
  "getVVTPosition now bankIndex camIndex tc =
     (if bankIndex \<ge> BANKS_COUNT \<or> camIndex \<ge> CAMS_PER_BANK then None
      else let (angle, t) = vvtPosition tc ! (bankIndex * CAMS_PER_BANK + camIndex)
           in if hasElapsedSec t now 1 then None else Some angle)"

definition getCurrentEnginePhase :: "central_env \<Rightarrow> efitick_t \<Rightarrow> central \<Rightarrow> phase_angle option" where
  "getCurrentEnginePhase env nowNt tc =
     (case ce_oneDegreeUs env of
        None \<Rightarrow> None
      | Some oneDegreeUs \<Rightarrow>
          let elapsed = getElapsedUs (m_lastToothTimer tc) nowNt;
              toothPhase = m_lastToothPhaseFromSyncPoint tc
          in Some (toothPhase + elapsed / oneDegreeUs))"

definition getSecondsSinceTriggerEvent :: "efitick_t \<Rightarrow> central \<Rightarrow> rat" where
  "getSecondsSinceTriggerEvent nowNt tc = getElapsedSeconds (m_lastEventTimer tc) nowNt"

definition RPM_LOW_THRESHOLD :: rat where "RPM_LOW_THRESHOLD = 25"

definition engineMovedRecently :: "libfw \<Rightarrow> efitick_t \<Rightarrow> central \<Rightarrow> bool" where
  "engineMovedRecently L nowNt tc =
     (let oneRevolutionLimitInSeconds = 60 / RPM_LOW_THRESHOLD;
          maxAverageToothTime = oneRevolutionLimitInSeconds / of_nat (getSize (triggerShape tc));
          maxAllowedGap = maxAverageToothTime * 10;
          maxAllowedGap = clampF L (1/10) maxAllowedGap oneRevolutionLimitInSeconds
      in getSecondsSinceTriggerEvent nowNt tc < maxAllowedGap)"

definition lookupOperationMode :: "central_config \<Rightarrow> operation_mode_e" where
  "lookupOperationMode cfg =
     (if cfg_twoStroke cfg then TWO_STROKE
      else if cfg_skippedWheelOnCam cfg then FOUR_STROKE_CAM_SENSOR else FOUR_STROKE_CRANK_SENSOR)"

subsection \<open>Cams\<close>

definition needsTriggerDecoder :: "vvt_mode_e \<Rightarrow> bool" where
  "needsTriggerDecoder mode =
     (mode \<noteq> VVT_INACTIVE \<and> mode \<noteq> VVT_TOYOTA_3_TOOTH \<and> mode \<noteq> VVT_HONDA_K_INTAKE \<and>
      mode \<noteq> VVT_MAP_V_TWIN \<and> mode \<noteq> VVT_SINGLE_TOOTH)"

text \<open>The trigger type of a cam mode; the other modes are reported and give \<^verbatim>\<open>TT_ONE\<close>.\<close>

definition getVvtTriggerType :: "vvt_mode_e \<Rightarrow> trigger_type_e \<times> diag_log" where
  "getVvtTriggerType vvtMode =
     (case vvtMode of
        VVT_INACTIVE \<Rightarrow> (TT_ONE, [])
      | VVT_MIATA_NB \<Rightarrow> (TT_VVT_MIATA_NB, [])
      | VVT_MIATA_NA \<Rightarrow> (TT_VVT_MIATA_NA, [])
      | VVT_BOSCH_QUICK_START \<Rightarrow> (TT_VVT_BOSCH_QUICK_START, [])
      | VVT_HONDA_K_EXHAUST \<Rightarrow> (TT_HONDA_K_CAM_4_1, [])
      | VVT_FORD_ST170 \<Rightarrow> (TT_FORD_ST170, [])
      | VVT_BARRA_3_PLUS_1 \<Rightarrow> (TT_VVT_BARRA_3_PLUS_1, [])
      | VVT_MAZDA_SKYACTIV \<Rightarrow> (TT_VVT_MAZDA_SKYACTIV, [])
      | VVT_MAZDA_L \<Rightarrow> (TT_VVT_MAZDA_L, [])
      | VVT_NISSAN_VQ \<Rightarrow> (TT_VVT_NISSAN_VQ35, [])
      | VVT_TOYOTA_4_1 \<Rightarrow> (TT_VVT_TOYOTA_4_1, [])
      | VVT_MITSUBISHI_3A92 \<Rightarrow> (TT_VVT_MITSUBISHI_3A92, [])
      | VVT_MITSUBISHI_6G75 \<Rightarrow> (TT_NISSAN_MR18_CAM_VVT, [])
      | VVT_NISSAN_MR \<Rightarrow> (TT_NISSAN_MR18_CAM_VVT, [])
      | VVT_MITSUBISHI_4G9x \<Rightarrow> (TT_MITSU_4G9x_CAM, [])
      | VVT_MITSUBISHI_4G63 \<Rightarrow> (TT_MITSU_4G63_CAM, [])
      | _ \<Rightarrow> (TT_ONE, [FirmwareError OBD_PCM_Processor_Fault]))"

definition getVvtType :: "vvt_mode_e \<Rightarrow> trigger_type_e \<times> diag_log" where
  "getVvtType mode = (if \<not> needsTriggerDecoder mode then (TT_UNUSED, []) else getVvtTriggerType mode)"

definition syncAndReport :: "central_env \<Rightarrow> int \<Rightarrow> int \<Rightarrow> central \<Rightarrow> rat \<times> central" where
  "syncAndReport env divider remainder tc =
     (let engineCycle = getEngineCycle (ce_operationMode env);
          (angle, d) = syncEnginePhase divider remainder engineCycle (triggerState tc)
      in (angle, tc\<lparr>triggerState := d\<rparr>))"

definition adjustCrankPhase :: "central_env \<Rightarrow> nat \<Rightarrow> central \<Rightarrow> rat \<times> central" where
  "adjustCrankPhase env camIndex tc =
     (let rpm = env_rpm (ce_dec env);
          minSyncThreshold = cfg_minCamPhaseResolveRpm (ce_cfg env);
          isBelowMinSync = (minSyncThreshold \<noteq> 0 \<and> rpm < minSyncThreshold);
          maxSyncThreshold = cfg_maxCamPhaseResolveRpm (ce_cfg env);
          isAboveMaxSync = (maxSyncThreshold \<noteq> 0 \<and> rpm > maxSyncThreshold)
      in if isBelowMinSync \<or> isAboveMaxSync then (0, tc)
         else let crankDivider = getCrankDivider (ce_operationMode env) in
           if crankDivider = 1 then (0, tc)
           else case cfg_vvtMode (ce_cfg env) ! camIndex of
             VVT_MAP_V_TWIN \<Rightarrow> syncAndReport env crankDivider 1 tc
           | VVT_MITSUBISHI_4G63 \<Rightarrow> syncAndReport env crankDivider 1 tc
           | VVT_MITSUBISHI_4G9x \<Rightarrow> syncAndReport env crankDivider 1 tc
           | VVT_HONDA_K_INTAKE \<Rightarrow> (0, tc)
           | VVT_INACTIVE \<Rightarrow> (0, tc)
           | _ \<Rightarrow> syncAndReport env crankDivider 0 tc)"

partial_function (option) raise_vvt :: "int \<Rightarrow> rat \<Rightarrow> rat option" where
  "raise_vvt period pos =
     (if pos < of_int (- (period div 2)) then raise_vvt period (pos + of_int period)
      else Some pos)"

partial_function (option) lower_vvt :: "int \<Rightarrow> rat \<Rightarrow> rat option" where
  "lower_vvt period pos =
     (if pos \<ge> of_int (period div 2) then lower_vvt period (pos - of_int period)
      else Some pos)"

declare raise_vvt.simps [code] lower_vvt.simps [code]

definition wrapVvt :: "rat \<Rightarrow> int \<Rightarrow> rat option" where
  "wrapVvt pos period = Option.bind (raise_vvt period pos) (lower_vvt period)"

definition wrapVvtForCamType :: "rat \<Rightarrow> vvt_mode_e \<Rightarrow> rat option" where
  "wrapVvtForCamType pos mode =
     (if mode = VVT_HONDA_K_INTAKE \<or> mode = VVT_TOYOTA_3_TOOTH then wrapVvt pos 180
      else wrapVvt pos 720)"

text \<open>A cam edge. The position is recorded with the time of the edge once the phase of the engine is
  known; before that its timer is set far into the past.\<close>

definition vvt_mode_of :: "central_env \<Rightarrow> nat \<Rightarrow> vvt_mode_e" where
  "vvt_mode_of env camIndex = cfg_vvtMode (ce_cfg env) ! camIndex"

text \<open>\<^verbatim>\<open>hwHandleVvtCamSignal\<close> in the order of its parts: the edge is counted or decoded, located in the
  engine cycle, turned into a position of the cam, used to place the crank phase, and recorded.\<close>

definition sync_from_cam ::
  "central_env \<Rightarrow> nat \<Rightarrow> phase_angle \<Rightarrow> rat \<Rightarrow> central \<Rightarrow> rat \<times> central" where
  "sync_from_cam env index trgPhase pos tc =
     (if index = cfg_engineSyncCam (ce_cfg env)
      then let hadFullSyncBefore = hasSynchronizedPhase (ce_dec env) (triggerState tc);
               (crankOffset, tc) = adjustCrankPhase env (index mod CAMS_PER_BANK) tc;
               hadFullSyncAfter = hasSynchronizedPhase (ce_dec env) (triggerState tc);
               pos = (if \<not> hadFullSyncBefore \<and> hadFullSyncAfter then pos - crankOffset else pos);
               tc = (if \<bar>trgPhase\<bar> < 7 then tc_report [Warning CUSTOM_VVT_SYNC_POSITION] tc else tc)
           in (pos, tc)
      else (pos, tc))"

definition record_vvt :: "central_env \<Rightarrow> efitick_t \<Rightarrow> nat \<Rightarrow> rat \<Rightarrow> central \<Rightarrow> central option" where
  "record_vvt env nowNt index pos tc =
     Option.bind (wrapVvtForCamType pos (vvt_mode_of env (index mod CAMS_PER_BANK))) (\<lambda>pos.
       if hasSynchronizedPhase (ce_dec env) (triggerState tc)
       then Some (tc\<lparr>vvtPosition := (vvtPosition tc)[index := (pos, nowNt)]\<rparr>)
       else Some (tc\<lparr>vvtPosition := (vvtPosition tc)[index := (fst (vvtPosition tc ! index), timer_init)]\<rparr>))"

definition position_cam ::
  "central_env \<Rightarrow> efitick_t \<Rightarrow> nat \<Rightarrow> phase_angle \<Rightarrow> phase_angle \<Rightarrow> central \<Rightarrow> central option" where
  "position_cam env nowNt index trgPhase currentEnginePhase tc =
     (let pos = cfg_vvtOffsets (ce_cfg env) ! index - currentEnginePhase;
          finish = (\<lambda>pos. let (pos, tc) = sync_from_cam env index trgPhase pos tc in record_vvt env nowNt index pos tc)
      in if vvt_mode_of env (index mod CAMS_PER_BANK) = VVT_TOYOTA_3_TOOTH
         then Option.bind (wrapVvt pos 360) (\<lambda>pos.
                let inRange = (pos > - 37 \<and> pos < 80) in if \<not> inRange then Some tc else finish pos)
         else finish pos)"

definition locate_cam_edge :: "central_env \<Rightarrow> efitick_t \<Rightarrow> nat \<Rightarrow> central \<Rightarrow> central option" where
  "locate_cam_edge env nowNt index tc =
     (case getCurrentEnginePhase env nowNt tc of
        None \<Rightarrow> Some tc
      | Some trgPhase \<Rightarrow>
        Option.bind (toEngPhase env trgPhase tc) (\<lambda>(currentEnginePhase, msgs).
          let tc = tc_report msgs tc; vvtDecoder = vvtState tc ! index
          in if needsTriggerDecoder (vvt_mode_of env (index mod CAMS_PER_BANK)) \<and>
                (\<not> shaft_is_synchronized vvtDecoder \<or> current_index vvtDecoder \<noteq> 0)
             then Some tc
             else position_cam env nowNt index trgPhase currentEnginePhase tc))"

definition count_cam_edge ::
  "libfw \<Rightarrow> central_env \<Rightarrow> bool \<Rightarrow> efitick_t \<Rightarrow> nat \<Rightarrow> central \<Rightarrow> central" where
  "count_cam_edge L env isRising nowNt index tc =
     (let camIndex = index mod CAMS_PER_BANK;
          mode = vvt_mode_of env camIndex;
          vvtDecoder = vvtState tc ! index;
          vvtDecoder =
            (if needsTriggerDecoder mode
             then snd (decodeTriggerEvent L VvtDecoder ((ce_dec env)\<lparr>env_listener := False\<rparr>) (vvtShape tc ! camIndex)
                         (fst (getVvtType mode)) (if isRising then PrimaryRising else PrimaryFalling) nowNt vvtDecoder)
             else logEdgeCounters isRising vvtDecoder)
      in tc\<lparr>vvtState := (vvtState tc)[index := vvtDecoder]\<rparr>)"

definition hwHandleVvtCamSignal ::
  "libfw \<Rightarrow> central_env \<Rightarrow> bool \<Rightarrow> efitick_t \<Rightarrow> nat \<Rightarrow> central \<Rightarrow> central option" where
  "hwHandleVvtCamSignal L env isRising nowNt index tc =
     (if directSelfStimulation tc \<or> \<not> hwTriggerInputEnabled tc then Some tc
      else
        let isRising = (isRising \<noteq> cfg_invertCamVVTSignal (ce_cfg env));
            tc = tc_call (LogCamTriggerTooth nowNt index isRising) (tc_call (SnifferVvtEvent index isRising) tc);
            camIndex = index mod CAMS_PER_BANK;
            mode = vvt_mode_of env camIndex;
            tc = (if mode = VVT_INACTIVE then tc_report [Warning CUSTOM_VVT_MODE_NOT_SELECTED] tc else tc);
            vvtUseOnlyRise = (\<not> needsTriggerDecoder mode \<or> useOnlyRisingEdges (vvtShape tc ! camIndex))
        in if vvtUseOnlyRise \<and> \<not> isRising then Some tc
           else if \<not> shaft_is_synchronized (triggerState tc) then Some tc
           else locate_cam_edge env nowNt index (count_cam_edge L env isRising nowNt index tc))"

subsection \<open>Crank edges\<close>

fun wheelIndeces :: "trigger_event \<Rightarrow> nat" where
  "wheelIndeces PrimaryFalling = 0"
| "wheelIndeces PrimaryRising = 0"
| "wheelIndeces SecondaryFalling = 1"
| "wheelIndeces SecondaryRising = 1"

definition reportEventToWaveChart :: "trigger_event \<Rightarrow> int \<Rightarrow> bool \<Rightarrow> central \<Rightarrow> central" where
  "reportEventToWaveChart ckpSignalType triggerEventIndex addOppositeEvent tc =
     (if \<not> isEngineSnifferEnabled tc then tc
      else let wheelIndex = wheelIndeces ckpSignalType;
               isUp = isTriggerUpEvent ckpSignalType;
               tc = tc_call (SnifferCrankEvent wheelIndex triggerEventIndex isUp) tc
           in if addOppositeEvent then tc_call (SnifferCrankEvent wheelIndex triggerEventIndex (\<not> isUp)) tc else tc)"

partial_function (option) wrap_360 :: "rat \<Rightarrow> rat option" where
  "wrap_360 toothAngle360 = (if toothAngle360 \<ge> 360 then wrap_360 (toothAngle360 - 360) else Some toothAngle360)"

declare wrap_360.simps [code]

text \<open>The tooth after the configured angle: a rise of the pressure since the last one counts as a cam edge.\<close>

definition map_cam_tooth :: "libfw \<Rightarrow> central_env \<Rightarrow> efitick_t \<Rightarrow> central \<Rightarrow> central option" where
  "map_cam_tooth L env timestamp' tc =
     (let map' = ce_instantMAP env;
          diff = map' - mapCamPrevCycleValue tc;
          tc = tc\<lparr>mapCamPrevCycleValue := map'\<rparr>
      in Option.bind
           (if diff > 0
            then Option.bind (hwHandleVvtCamSignal L env True timestamp' 0 tc)
                   (hwHandleVvtCamSignal L env False timestamp' 0)
            else Some tc)
           (\<lambda>tc. Some (tc\<lparr>mapVvt_MAP_AT_SPECIAL_POINT := map', mapVvt_MAP_AT_DIFF := diff\<rparr>)))"

definition decodeMapCam :: "libfw \<Rightarrow> central_env \<Rightarrow> efitick_t \<Rightarrow> phase_angle \<Rightarrow> central \<Rightarrow> central option" where
  "decodeMapCam L env timestamp' currentPhase tc =
     (if vvt_mode_of env 0 = VVT_MAP_V_TWIN \<and> env_rpm (ce_dec env) < cfg_cranking_rpm (ce_cfg env)
      then Option.bind (wrap_360 currentPhase) (\<lambda>toothAngle360.
        let position = cfg_mapCamDetectionAnglePosition (ce_cfg env) in
        Option.bind
          (if mapCamPrevToothAngle tc < position \<and> toothAngle360 > position
           then map_cam_tooth L env timestamp' tc else Some tc)
          (\<lambda>tc. Some (tc\<lparr>mapCamPrevToothAngle := toothAngle360\<rparr>)))
      else Some tc)"

definition isToothExpectedNow :: "central_env \<Rightarrow> efitick_t \<Rightarrow> central \<Rightarrow> bool \<times> central" where
  "isToothExpectedNow env timestamp' tc =
     (let estimatedCurrentPhase = getCurrentEnginePhase env timestamp' tc;
          lastToothPhase = m_lastToothPhaseFromSyncPoint tc
      in case (expectedNextPhase tc, estimatedCurrentPhase) of
           (Some expected, Some estimated) \<Rightarrow>
             let angleError = expected - estimated;
                 cycle = ce_engineCycle env;
                 angleError = (if angleError < - cycle / 2 then angleError + cycle else angleError);
                 tc = tc\<lparr>triggerToothAngleError := angleError\<rparr>
             in if env_rpm (ce_dec env) > 1000
                then let angleSinceLastTooth = estimated - lastToothPhase in
                     if angleSinceLastTooth < 1/2
                     then (False, tc_report [Warning CUSTOM_PRIMARY_DOUBLED_EDGE] tc)
                     else let absError = \<bar>angleError\<bar>;
                              isRpmEnough = env_rpm (ce_dec env) > 1000
                          in if isRpmEnough \<and> absError > 10 \<and> absError < 180
                             then (True, tc_report [Warning CUSTOM_PRIMARY_BAD_TOOTH_TIMING] tc)
                             else (True, tc)
                else (True, tc)
         | _ \<Rightarrow> (True, tc\<lparr>triggerToothAngleError := 0\<rparr>))"

text \<open>The loop that looks for the next tooth with another angle.\<close>

partial_function (option) next_phase_loop ::
  "rat \<Rightarrow> rat list \<Rightarrow> nat \<Rightarrow> phase_angle \<Rightarrow> nat \<Rightarrow> diag_log \<Rightarrow> (phase_angle \<times> diag_log) option" where
  "next_phase_loop engineCycle angles cnt current nextToothIndex msgs =
     (let nextToothIndex = (nextToothIndex + 1) mod cnt in
      Option.bind (wrapAngleMethod engineCycle CUSTOM_ERR_6555 (angles ! nextToothIndex)) (\<lambda>(nextPhase, l).
        if nextPhase = current then next_phase_loop engineCycle angles cnt current nextToothIndex (msgs @ l)
        else Some (nextPhase, msgs @ l)))"

declare next_phase_loop.simps [code]

text \<open>A tooth that the decoder has placed: its phase and that of the next tooth.\<close>

definition place_tooth ::
  "central_env \<Rightarrow> trigger_event \<Rightarrow> efitick_t \<Rightarrow> int \<Rightarrow> central \<Rightarrow> (enginePhaseInfo \<times> central) option" where
  "place_tooth env signal timestamp' index tc =
     (let tc = reportEventToWaveChart signal index (useOnlyRisingEdges (triggerShape tc)) tc;
          currentTrg = eventAngles tc ! nat index;
          tc = tc\<lparr>m_lastToothTimer := timestamp', m_lastToothPhaseFromSyncPoint := currentTrg\<rparr>
      in Option.bind (toEngPhase env currentTrg tc) (\<lambda>(currentEng, msgs).
         let tc = (tc_report msgs tc)\<lparr>currentEngineDecodedPhase := currentEng\<rparr> in
         Option.bind (next_phase_loop (ce_engineCycle env) (eventAngles tc) (engineCycleEventCount tc) currentTrg (nat index) [])
         (\<lambda>(nextPhase, msgs).
         let tc = (tc_report msgs tc)\<lparr>expectedNextPhase := Some nextPhase\<rparr>;
             tc = (if ce_cachedRpm env > 0 \<and> index = 0 then tc_call OnEngineCycleTps tc else tc)
         in Option.bind (toEngPhase env nextPhase tc) (\<lambda>(nextEng, msgs).
         Some (\<lparr>timestamp = timestamp', currentTrgPhase = currentTrg, nextTrgPhase = nextPhase,
                currentEngPhase = currentEng, nextEngPhase = nextEng\<rparr>, tc_report msgs tc)))))"

text \<open>Then the listeners run; \<open>env'\<close> is the environment as they leave it.\<close>

definition decoded_tooth ::
  "libfw \<Rightarrow> central_env \<Rightarrow> central_env \<Rightarrow> trigger_event \<Rightarrow> efitick_t \<Rightarrow> 32 word \<Rightarrow> central \<Rightarrow> central option" where
  "decoded_tooth L env env' signal timestamp' eventIdx tc =
     (let index = triggerIndexForListeners (triggerShape tc) (triggerState tc) eventIdx in
      Option.bind (place_tooth env signal timestamp' index tc) (\<lambda>(phaseInfo, tc).
        let tc = tc_call (RpmShaftPositionCallback index phaseInfo) tc;
            tc = tc_call (TdcMarkCallback index timestamp') tc;
            tc = tc_call (MainTriggerCallback index phaseInfo) tc
        in decodeMapCam L env' timestamp' (currentEngPhase phaseInfo) tc))"

definition handleShaftSignal_central ::
  "libfw \<Rightarrow> central_env \<Rightarrow> central_env \<Rightarrow> trigger_event \<Rightarrow> efitick_t \<Rightarrow> central \<Rightarrow> central option" where
  "handleShaftSignal_central L env env' signal timestamp' tc =
     (if shapeDefinitionError (triggerShape tc)
      then Some (tc_report [Warning CUSTOM_ERR_UNEXPECTED_SHAFT_EVENT] tc)
      else
        let (expected, tc) = isToothExpectedNow env timestamp' tc in
        if \<not> expected then Some (tc\<lparr>triggerIgnoredToothCount := triggerIgnoredToothCount tc + 1\<rparr>)
        else
          let tc = tc\<lparr>isSpinningJustForWatchdog := True\<rparr>;
              tc = (if hasElapsedSec (m_lastEventTimer tc) (env_now (ce_dec env)) 1 then tc\<lparr>m_skipTeethCount := 0\<rparr> else tc);
              tc = tc\<lparr>m_lastEventTimer := timestamp'\<rparr>
          in if m_skipTeethCount tc < cfg_triggerSkipPulses (ce_cfg env)
             then Some (tc\<lparr>m_skipTeethCount := m_skipTeethCount tc + 1\<rparr>)
             else
               let (decodeResult, d) =
                     decodeTriggerEvent L PrimaryDecoder ((ce_dec env)\<lparr>env_listener := True\<rparr>) (triggerShape tc)
                       (cfg_trigger_type (ce_cfg env)) signal timestamp' (triggerState tc);
                   tc = tc\<lparr>triggerState := d\<rparr>
               in case decodeResult of
                    None \<Rightarrow>
                      let tc = reportEventToWaveChart signal 0 (useOnlyRisingEdges (triggerShape tc)) tc
                      in Some (tc\<lparr>expectedNextPhase := None\<rparr>)
                  | Some eventIdx \<Rightarrow> decoded_tooth L env env' signal timestamp' eventIdx tc)"

text \<open>The free function \<^verbatim>\<open>handleShaftSignal\<close>, for hardware and emulated signals; the measurement of its
  run time is left out.\<close>

definition shaft_event :: "central_config \<Rightarrow> bool \<Rightarrow> bool \<Rightarrow> trigger_event" where
  "shaft_event cfg isPrimary isRising =
     (if isRising
      then if isPrimary then (if cfg_invertPrimaryTriggerSignal cfg then PrimaryFalling else PrimaryRising)
           else (if cfg_invertSecondaryTriggerSignal cfg then SecondaryFalling else SecondaryRising)
      else if isPrimary then (if cfg_invertPrimaryTriggerSignal cfg then PrimaryRising else PrimaryFalling)
           else (if cfg_invertSecondaryTriggerSignal cfg then SecondaryRising else SecondaryFalling))"

definition handleShaftSignal ::
  "libfw \<Rightarrow> central_env \<Rightarrow> central_env \<Rightarrow> nat \<Rightarrow> bool \<Rightarrow> efitick_t \<Rightarrow> central \<Rightarrow> central option" where
  "handleShaftSignal L env env' signalIndex isRising timestamp' tc =
     (let isPrimary = (signalIndex = 0) in
      if \<not> isPrimary \<and> \<not> needSecondTriggerInput (triggerShape tc) then Some tc
      else
        let signal = shaft_event (ce_cfg env) isPrimary isRising in
        if \<not> ce_allowTriggerInput env then Some tc
        else
          let tc = tc_call (LogPrimaryTriggerTooth timestamp' isRising) tc in
          if \<not> isUsefulSignal signal (triggerShape tc) then Some tc
          else
            let tc = (if triggerReentrant tc > maxTriggerReentrant tc
                      then tc\<lparr>maxTriggerReentrant := triggerReentrant tc\<rparr> else tc);
                tc = tc\<lparr>triggerReentrant := triggerReentrant tc + 1\<rparr>
            in Option.bind (handleShaftSignal_central L env env' signal timestamp' tc)
                 (\<lambda>tc. Some (tc\<lparr>triggerReentrant := triggerReentrant tc - 1\<rparr>)))"

definition hwHandleShaftSignal ::
  "libfw \<Rightarrow> central_env \<Rightarrow> central_env \<Rightarrow> nat \<Rightarrow> bool \<Rightarrow> efitick_t \<Rightarrow> central \<Rightarrow> central option" where
  "hwHandleShaftSignal L env env' signalIndex isRising timestamp' tc =
     (if directSelfStimulation tc \<or> \<not> hwTriggerInputEnabled tc then Some tc
      else handleShaftSignal L env env' signalIndex isRising timestamp' tc)"

subsection \<open>Configuration\<close>

definition isBrainPinValid :: "nat \<Rightarrow> nat \<Rightarrow> bool" where
  "isBrainPinValid BRAIN_PIN_LAST brainPin =
     (if brainPin = 0 \<or> brainPin = 1 then False else if brainPin > BRAIN_PIN_LAST then False else True)"

text \<open>The gaps of the user over those of the shape.\<close>

definition override_gaps :: "libfw \<Rightarrow> central_config \<Rightarrow> trigger_waveform \<Rightarrow> trigger_waveform" where
  "override_gaps L cfg shape =
     (let n = cfg_gapTrackingLengthOverride cfg;
          shape = fold (\<lambda>gapIndex. setTriggerSynchronizationGap3 L (int gapIndex)
                          (Fin (cfg_triggerGapOverrideFrom cfg ! gapIndex)) (Fin (cfg_triggerGapOverrideTo cfg ! gapIndex)))
                    [0..<nat n] shape
      in fold (\<lambda>gapIndex shape. shape\<lparr>syncronizationRatioFrom := (syncronizationRatioFrom shape)[gapIndex := NaN],
                                      syncronizationRatioTo := (syncronizationRatioTo shape)[gapIndex := NaN]\<rparr>)
           [nat n..<GAP_TRACKING_LENGTH] shape)"

definition initVvtShape ::
  "libfw \<Rightarrow> central_env \<Rightarrow> vvt_mode_e \<Rightarrow> decoder \<Rightarrow> trigger_waveform \<Rightarrow> trigger_waveform \<times> decoder" where
  "initVvtShape L env mode initState shape =
     (let type = fst (getVvtType mode);
          shape = initializeTriggerWaveform L FOUR_STROKE_CAM_SENSOR type 0 0 shape
      in initializeSyncPoint L BaseDecoder (ce_dec env) (cfg_overrideTriggerGaps (ce_cfg env)) type initState shape)"

text \<open>The loop over the cams; \<open>expect\<close> is the flag \<^verbatim>\<open>expectDisambiguation\<close>.\<close>

fun init_cams ::
  "libfw \<Rightarrow> central_env \<Rightarrow> nat \<Rightarrow> nat list \<Rightarrow> bool \<Rightarrow> decoder \<Rightarrow> central \<Rightarrow> bool \<times> decoder \<times> central" where
  "init_cams L env BRAIN_PIN_LAST [] expect initState tc = (expect, initState, tc)"
| "init_cams L env BRAIN_PIN_LAST (camIndex # rest) expect initState tc =
     (let mode = vvt_mode_of env camIndex
      in if mode \<noteq> VVT_INACTIVE
         then
           let (initState, tc) =
                 (if needsTriggerDecoder mode
                  then let (shape, initState) = initVvtShape L env mode initState (vvtShape tc ! camIndex)
                       in (initState, tc\<lparr>vvtShape := (vvtShape tc)[camIndex := shape]\<rparr>)
                  else (initState, tc));
               expect = (expect \<or> list_ex (\<lambda>bankIndex. isBrainPinValid BRAIN_PIN_LAST
                           (cfg_camInputs (ce_cfg env) ! (bankIndex * CAMS_PER_BANK + camIndex))) [0..<BANKS_COUNT])
           in init_cams L env BRAIN_PIN_LAST rest expect initState tc
         else init_cams L env BRAIN_PIN_LAST rest expect initState tc)"

definition updateWaveform :: "libfw \<Rightarrow> central_env \<Rightarrow> nat \<Rightarrow> decoder \<Rightarrow> central \<Rightarrow> decoder \<times> central" where
  "updateWaveform L env BRAIN_PIN_LAST initState tc =
     (let cfg = ce_cfg env;
          tc = tc_report (concat (map (\<lambda>cam. snd (getVvtType (vvt_mode_of env cam))) [0..<CAMS_PER_BANK])) tc;
          shape = initializeTriggerWaveform L (lookupOperationMode cfg) (cfg_trigger_type cfg)
                    (cfg_customTotalToothCount cfg) (cfg_customSkippedToothCount cfg) (triggerShape tc);
          shape = (if cfg_overrideTriggerGaps cfg then override_gaps L cfg shape else shape);
          tc = tc\<lparr>triggerShape := shape\<rparr>;
          (assertion_failed, initState, tc) =
            (if \<not> shapeDefinitionError shape
             then let tc = tc\<lparr>engineCycleEventCount := getLength shape\<rparr> in
                  if \<not> getLength shape > 0 then (True, initState, tc_report [FirmwareError CUSTOM_SHAPE_LEN_ZERO] tc)
                  else let tc = tc\<lparr>triggerErrorDetection := cb_clear 0 (triggerErrorDetection tc)\<rparr>;
                           (shape, initState) = calculateTriggerSynchPoint L (ce_dec env) (cfg_overrideTriggerGaps cfg)
                                                  (cfg_trigger_type cfg) shape initState
                       in (False, initState, tc\<lparr>triggerShape := shape\<rparr>)
             else (False, initState, tc))
      in if assertion_failed then (initState, tc)
         else
           let (primaryNeedsDisambiguation, msgs) = needsDisambiguation (triggerShape tc);
               tc = tc_report msgs tc;
               (expectDisambiguation, initState, tc) =
                 init_cams L env BRAIN_PIN_LAST [0..<CAMS_PER_BANK] (\<not> primaryNeedsDisambiguation) initState tc
           in (initState, tc\<lparr>triggerState :=
                 setNeedsDisambiguation primaryNeedsDisambiguation expectDisambiguation (triggerState tc)\<rparr>))"

definition prepareTriggerShape :: "central_env \<Rightarrow> central \<Rightarrow> central option" where
  "prepareTriggerShape env tc =
     (if shapeDefinitionError (triggerShape tc) then Some tc
      else Option.bind (prepareEventAngles (ce_engineCycle env) (engineCycleEventCount tc) (triggerShape tc) (eventAngles tc))
             (\<lambda>(angles, msgs). Some (tc_report msgs (tc\<lparr>eventAngles := angles\<rparr>))))"

text \<open>\<^verbatim>\<open>LocalVersionHolder::isOld\<close>\<close>

definition isOld :: "int \<Rightarrow> int \<Rightarrow> bool \<times> int" where
  "isOld globalVersion localVersion =
     (if globalVersion > localVersion then (True, globalVersion) else (False, localVersion))"

definition checkIfTriggerConfigChanged :: "int \<Rightarrow> central \<Rightarrow> bool \<times> central" where
  "checkIfTriggerConfigChanged globalVersion tc =
     (let (old, v) = isOld globalVersion (triggerVersion tc);
          result = (old \<and> triggerConfigChanged tc)
      in (result, tc\<lparr>triggerVersion := v, triggerConfigChanged := False\<rparr>))"

definition trigger_config_differs :: "central_config \<Rightarrow> central_config \<Rightarrow> bool" where
  "trigger_config_differs active cfg =
     (cfg_camInputs active \<noteq> cfg_camInputs cfg \<or> cfg_vvtOffsets active \<noteq> cfg_vvtOffsets cfg \<or>
      cfg_triggerGapOverrideFrom active \<noteq> cfg_triggerGapOverrideFrom cfg \<or>
      cfg_triggerGapOverrideTo active \<noteq> cfg_triggerGapOverrideTo cfg \<or>
      cfg_triggerInputPins active \<noteq> cfg_triggerInputPins cfg \<or> cfg_vvtMode active \<noteq> cfg_vvtMode cfg \<or>
      cfg_trigger_type active \<noteq> cfg_trigger_type cfg \<or>
      cfg_skippedWheelOnCam active \<noteq> cfg_skippedWheelOnCam cfg \<or> cfg_twoStroke active \<noteq> cfg_twoStroke cfg \<or>
      cfg_globalTriggerAngleOffset active \<noteq> cfg_globalTriggerAngleOffset cfg \<or>
      cfg_customTotalToothCount active \<noteq> cfg_customTotalToothCount cfg \<or>
      cfg_customSkippedToothCount active \<noteq> cfg_customSkippedToothCount cfg \<or>
      cfg_overrideTriggerGaps active \<noteq> cfg_overrideTriggerGaps cfg)"

text \<open>\<open>update\<close> is \<^verbatim>\<open>Engine::updateTriggerWaveform\<close>.\<close>

definition onConfigurationChangeTriggerCallback ::
  "(central \<Rightarrow> central) \<Rightarrow> central_config \<Rightarrow> central_config \<Rightarrow> central \<Rightarrow> central" where
  "onConfigurationChangeTriggerCallback update active cfg tc =
     (let changed = trigger_config_differs active cfg;
          tc = (if changed then update tc else tc)
      in tc\<lparr>triggerConfigChanged := triggerConfigChanged tc \<or> changed\<rparr>)"

definition validateTriggerInputs :: "nat \<Rightarrow> central_config \<Rightarrow> diag_log" where
  "validateTriggerInputs BRAIN_PIN_LAST cfg =
     (if \<not> isBrainPinValid BRAIN_PIN_LAST (cfg_triggerInputPins cfg ! 0) \<and>
         isBrainPinValid BRAIN_PIN_LAST (cfg_triggerInputPins cfg ! 1) then [FirmwareError OBD_PCM_Processor_Fault] else []) @
     (if \<not> isBrainPinValid BRAIN_PIN_LAST (cfg_camInputs cfg ! 0) \<and>
         isBrainPinValid BRAIN_PIN_LAST (cfg_camInputs cfg ! 2) then [FirmwareError OBD_PCM_Processor_Fault] else [])"

definition isTriggerDecoderError :: "central \<Rightarrow> bool option" where
  "isTriggerDecoderError tc = Option.bind (cb_sum 6 (triggerErrorDetection tc)) (\<lambda>s. Some (s > 4))"

subsection \<open>Construction\<close>

text \<open>The object as its constructor leaves it, in zeroed static memory; the arrays have the sizes of the
  configuration \<^verbatim>\<open>PWM_PHASE_MAX_COUNT\<close>, \<open>BANKS_COUNT\<close> and \<open>CAMS_PER_BANK\<close>.\<close>

definition TriggerCentral :: central where
  "TriggerCentral =
     (let cams = BANKS_COUNT * CAMS_PER_BANK;
          errors = cb_setSize 0 128 \<lparr>elements = replicate 128 0, currentIndex = 0, m_size = 0, count = 0\<rparr>;
          tc = \<lparr>triggerState = blank_decoder, triggerShape = blank_waveform,
                vvtState = replicate cams blank_decoder, vvtShape = replicate CAMS_PER_BANK blank_waveform,
                eventAngles = replicate (2 * PWM_PHASE_MAX_COUNT) 0, engineCycleEventCount = 0,
                vvtPosition = replicate cams (0, timer_init), m_lastEventTimer = timer_init,
                m_lastToothTimer = timer_init, m_lastToothPhaseFromSyncPoint = 0, expectedNextPhase = None,
                m_skipTeethCount = 0, triggerIgnoredToothCount = 0, triggerToothAngleError = 0,
                currentEngineDecodedPhase = 0, isSpinningJustForWatchdog = False, mapCamPrevToothAngle = - 1,
                mapCamPrevCycleValue = 0, mapVvt_MAP_AT_SPECIAL_POINT = 0, mapVvt_MAP_AT_DIFF = 0,
                directSelfStimulation = False, hwTriggerInputEnabled = True, isEngineSnifferEnabled = False,
                triggerConfigChanged = False, triggerVersion = - 1, triggerErrorDetection = errors,
                triggerReentrant = 0, maxTriggerReentrant = 0, tc_calls = [], tc_log = []\<rparr>;
          tc = resetCounters tc
      in tc\<lparr>triggerState := resetState PrimaryDecoder (triggerState tc)\<rparr>)"

end
