(* ===== verification/Central_Properties.thy ===== *)
theory Central_Properties
  imports Trigger_Central
begin

text \<open>
  What the handlers of \<open>Trigger_Central\<close> guarantee: the two phase spaces are inverse to each other, the
  phase ranges handed to the listeners divide the engine cycle among the teeth, and what a cam edge
  or a doubled crank edge can change.
\<close>

subsection \<open>Angles modulo the engine cycle\<close>

lemma wrapped_shift: "0 < c \<Longrightarrow> wrapped c (x + of_int k * c) = wrapped c x"
  by (simp add: wrapped_def add_divide_distrib algebra_simps)

lemma wrapped_add: "0 < c \<Longrightarrow> wrapped c (wrapped c x + y) = wrapped c (x + y)"
  using wrapped_shift[of c "x + y" "- \<lfloor>x / c\<rfloor>"]
  by (simp add: wrapped_def[of c x] algebra_simps)

lemma wrapAngleMethod_finite:
  "0 < c \<Longrightarrow> \<bar>x\<bar> \<le> 10000000 \<Longrightarrow> wrapAngleMethod c code x = Some (wrapped c x, [])"
  by (simp add: wrapAngleMethod_def wrapAngle_finite)

lemma phaseAdjustment_bounds: "0 \<le> phaseAdjustment tc" "phaseAdjustment tc \<le> 65535"
proof -
  have "unat (m_phaseAdjustment (triggerState tc)) < 2 ^ 16"
    using unsigned_less[of "m_phaseAdjustment (triggerState tc)"] by simp
  then have "(of_nat (unat (m_phaseAdjustment (triggerState tc))) :: rat) \<le> of_nat 65535"
    by (subst of_nat_le_iff) simp
  then show "0 \<le> phaseAdjustment tc" "phaseAdjustment tc \<le> 65535"
    unfolding phaseAdjustment_def by (auto simp del: of_nat_unat)
qed

subsection \<open>The next tooth\<close>

lemma next_phase_step:
  assumes "0 < c" "0 \<le> as ! ((k + 1) mod n)" "as ! ((k + 1) mod n) < c" "c \<le> 1000000"
  shows "next_phase_loop c as n cur k msgs =
    (if as ! ((k + 1) mod n) = cur then next_phase_loop c as n cur ((k + 1) mod n) msgs
     else Some (as ! ((k + 1) mod n), msgs))"
  using assms wrapAngleMethod_finite[of c "as ! ((k + 1) mod n)" CUSTOM_ERR_6555]
  by (subst next_phase_loop.simps) simp

text \<open>With every edge used, the angles of the teeth are the entries; with rising edges only, every angle
  fills two entries.\<close>

definition entries_of :: "bool \<Rightarrow> rat list \<Rightarrow> rat list \<Rightarrow> bool" where
  "entries_of rise_only bs as \<longleftrightarrow>
     (if rise_only then \<forall>j<length bs. as ! (2 * j) = bs ! j \<and> as ! (2 * j + 1) = bs ! j
      else \<forall>j<length bs. as ! j = bs ! j)"

definition entry :: "bool \<Rightarrow> nat \<Rightarrow> nat" where
  "entry rise_only j = (if rise_only then 2 * j else j)"

lemma tooth_angles_next:
  assumes T: "tooth_angles c bs" and len: "2 \<le> length bs" and j: "j < length bs"
  shows "bs ! (Suc j mod length bs) \<noteq> bs ! j"
proof (cases "Suc j = length bs")
  case True
  then show ?thesis using tooth_angles_less[OF T, of 0 j] len j by auto
next
  case False
  then show ?thesis using tooth_angles_less[OF T, of j "Suc j"] j by auto
qed

lemma next_phase_tooth:
  assumes T: "tooth_angles c bs" and len: "2 \<le> length bs" and e: "entries_of ro bs as" and j: "j < length bs"
    and c: "0 < c" "c \<le> 1000000"
  shows "next_phase_loop c as (entry ro (length bs)) (bs ! j) (entry ro j) [] =
    Some (bs ! (Suc j mod length bs), [])"
proof -
  let ?m = "length bs"
  have in_c: "i < ?m \<Longrightarrow> 0 \<le> bs ! i \<and> bs ! i < c" for i
    using T by (auto simp: tooth_angles_def)
  have j': "Suc j mod ?m < ?m" using j by (intro mod_less_divisor) linarith
  note neq = tooth_angles_next[OF T len j]
  show ?thesis
  proof (cases ro)
    case False
    then have "as ! (Suc j mod ?m) = bs ! (Suc j mod ?m)" using e j' by (simp add: entries_of_def)
    then show ?thesis
      using next_phase_step[of c as j ?m "bs ! j" "[]"] in_c[OF j'] neq c False by (simp add: entry_def)
  next
    case True
    have odd: "(2 * j + 1) mod (2 * ?m) = 2 * j + 1" using j by simp
    have even: "(2 * j + 1 + 1) mod (2 * ?m) = 2 * (Suc j mod ?m)" using mult_mod_right[of 2 "Suc j" ?m] by simp
    have "as ! (2 * j + 1) = bs ! j" "as ! (2 * (Suc j mod ?m)) = bs ! (Suc j mod ?m)"
      using e j j' True by (auto simp: entries_of_def)
    then show ?thesis
      using next_phase_step[of c as "2 * j" "2 * ?m" "bs ! j" "[]"]
        next_phase_step[of c as "2 * j + 1" "2 * ?m" "bs ! j" "[]"] in_c[OF j'] in_c[OF j] neq c True
      unfolding odd even by (simp add: entry_def)
  qed
qed

text \<open>The rises after the synchronization point, the first tooth left out.\<close>

definition later_rises :: "trigger_waveform \<Rightarrow> nat \<Rightarrow> nat list" where
  "later_rises s sp = filter (\<lambda>e. isRiseEvent s ! ((sp + e) mod getLength s mod getSize s)) [1..<getLength s]"

definition preparable :: "trigger_waveform \<Rightarrow> nat \<Rightarrow> rat list \<Rightarrow> bool" where
  "preparable s sp xs \<longleftrightarrow>
     times_ok (wave s) \<and> 0 < getSize s \<and> triggerShapeSynchPointIndex s = Some sp \<and> sp < getSize s \<and>
     getLength s \<le> length xs \<and> 2 \<le> length xs \<and>
     (useOnlyRisingEdges s \<longrightarrow> getSize s \<le> length (isRiseEvent s) \<and> 2 * Suc (length (later_rises s sp)) = getLength s)"

lemma teeth_of_entries:
  assumes "\<forall>i j. i < j \<and> j < m \<longrightarrow> ys ! entry ro i < ys ! entry ro j" "0 < m"
    and "\<forall>j<m. 0 \<le> ys ! entry ro j \<and> ys ! entry ro j < c"
    and "ro \<Longrightarrow> \<forall>j<m. ys ! (2 * j + 1) = ys ! (2 * j)"
  shows "tooth_angles c (map (\<lambda>j. ys ! entry ro j) [0..<m])"
    and "entries_of ro (map (\<lambda>j. ys ! entry ro j) [0..<m]) ys"
  using assms by (auto simp: tooth_angles_def entries_of_def sorted_wrt_iff_nth_less entry_def)

lemma prepared_teeth:
  assumes "preparable s sp xs" "cnt \<noteq> 0"
  obtains ys bs where "prepareEventAngles (getEngineCycle (m_operationMode s)) cnt s xs = Some (ys, [])"
    "tooth_angles (getEngineCycle (m_operationMode s)) bs" "entries_of (useOnlyRisingEdges s) bs ys"
    "entry (useOnlyRisingEdges s) (length bs) = getLength s"
proof (cases "useOnlyRisingEdges s")
  case False
  let ?c = "getEngineCycle (m_operationMode s)"
  obtain ys where ys: "prepareEventAngles ?c cnt s xs = Some (ys, [])"
    "\<forall>i j. i < j \<and> j < getLength s \<longrightarrow> ys ! i < ys ! j"
    "\<forall>i<getLength s. ys ! i = wrapped ?c (the (getAngle s ((sp + i) mod getLength s)) - the (getAngle s sp))"
    using prepared_both_edges[of s sp cnt xs] assms False by (auto simp: preparable_def)
  have "0 < getLength s" using assms(1) getLength_pos[of s] by (auto simp: preparable_def has_angles_def)
  then show ?thesis
    using that[OF ys(1), of "map (\<lambda>j. ys ! entry False j) [0..<getLength s]"] False
      teeth_of_entries[of "getLength s" ys False ?c] ys(2,3) wrapped_bounds[OF getEngineCycle_bounds(1)]
    by (simp add: entry_def)
next
  case True
  let ?c = "getEngineCycle (m_operationMode s)"
  let ?m = "Suc (length (later_rises s sp))"
  have len: "2 * ?m = getLength s" "getLength s \<le> length xs" using assms(1) True by (auto simp: preparable_def)
  obtain ys where ys: "prepareEventAngles ?c cnt s xs = Some (ys, [])" "ys ! 0 = 0" "ys ! 1 = 0"
    "\<forall>j<length (later_rises s sp). ys ! (2 * j + 2) = ys ! (2 * j + 3) \<and>
       ys ! (2 * j + 2) = wrapped ?c (the (getAngle s ((sp + later_rises s sp ! j) mod getLength s)) - the (getAngle s sp))"
    "\<forall>i j. i < j \<and> j \<le> length (later_rises s sp) \<longrightarrow> ys ! (2 * i) < ys ! (2 * j)"
    using prepared_rising_edges[of s sp cnt "later_rises s sp" xs] assms True len
    unfolding preparable_def later_rises_def by auto
  have pair: "ys ! (2 * j + 1) = ys ! (2 * j) \<and> 0 \<le> ys ! (2 * j) \<and> ys ! (2 * j) < ?c" if "j < ?m" for j
  proof (cases j)
    case 0
    then show ?thesis using ys(2,3) getEngineCycle_bounds(1) by simp
  next
    case (Suc k)
    then have "2 * j = 2 * k + 2" "2 * j + 1 = 2 * k + 3" "k < length (later_rises s sp)" using that by auto
    then show ?thesis using ys(4) wrapped_bounds[OF getEngineCycle_bounds(1)] by metis
  qed
  show ?thesis
    using that[OF ys(1), of "map (\<lambda>j. ys ! entry True j) [0..<?m]"] True len(1)
      teeth_of_entries[of ?m ys True ?c] ys(5) pair by (simp add: entry_def less_Suc_eq_le)
qed


text \<open>A test of a phase does not change when all its angles are turned by the same amount.\<close>

lemma isPhaseInRange_wrapped:
  assumes "0 < c" "0 \<le> x" "x < c" "0 \<le> cur" "cur < c" "0 \<le> nxt" "nxt < c" "cur \<noteq> nxt"
  shows "isPhaseInRange x cur nxt \<longleftrightarrow> wrapped c (x - cur) < wrapped c (nxt - cur)"
proof -
  have w: "wrapped c (a - b) = (if b \<le> a then a - b else a - b + c)"
    if "0 \<le> a" "a < c" "0 \<le> b" "b < c" for a b
    using that wrapped_in[of "a - b" c] wrapped_in[of "a - b + c" c] wrapped_shift[OF assms(1), of "a - b" 1]
    by auto
  show ?thesis
    using assms unfolding w[OF assms(2-5)] w[OF assms(6,7,4,5)] isPhaseInRange_def Let_def by auto
qed

lemma wrapped_eq_iff:
  assumes "0 < c" "0 \<le> a" "a < c" "0 \<le> b" "b < c"
  shows "wrapped c (a + d) = wrapped c (b + d) \<longleftrightarrow> a = b"
proof
  assume "wrapped c (a + d) = wrapped c (b + d)"
  then have "wrapped c (wrapped c (a + d) - d) = wrapped c (wrapped c (b + d) - d)" by simp
  then show "a = b"
    using wrapped_add[OF assms(1), of "a + d" "- d"] wrapped_add[OF assms(1), of "b + d" "- d"] assms by simp
qed simp

lemma isPhaseInRange_turned:
  assumes "0 < c" "0 \<le> x" "x < c" "0 \<le> cur" "cur < c" "0 \<le> nxt" "nxt < c" "cur \<noteq> nxt"
  shows "isPhaseInRange (wrapped c (x + d)) (wrapped c (cur + d)) (wrapped c (nxt + d)) \<longleftrightarrow> isPhaseInRange x cur nxt"
proof -
  have diff: "wrapped c (wrapped c (a + d) - wrapped c (cur + d)) = wrapped c (a - cur)" for a
  proof -
    have e: "a + d - wrapped c (cur + d) = a - cur + of_int \<lfloor>(cur + d) / c\<rfloor> * c"
      by (simp add: wrapped_def algebra_simps)
    have "wrapped c (wrapped c (a + d) - wrapped c (cur + d)) = wrapped c (a + d - wrapped c (cur + d))"
      using wrapped_add[OF assms(1), of "a + d" "- wrapped c (cur + d)"] by simp
    then show ?thesis unfolding e using wrapped_shift[OF assms(1)] by simp
  qed
  show ?thesis
    using wrapped_bounds[OF assms(1)] wrapped_eq_iff[OF assms(1,4,5,6,7), of d] assms
    by (simp add: isPhaseInRange_wrapped[of c] diff)
qed

text \<open>The range of engine phases that the handler gives to its listeners at the tooth with index \<open>i\<close>.\<close>

definition tooth_range :: "central_env \<Rightarrow> central \<Rightarrow> nat \<Rightarrow> (phase_angle \<times> phase_angle) option" where
  "tooth_range env tc i =
     Option.bind (toEngPhase env (eventAngles tc ! i) tc) (\<lambda>(current, _).
     Option.bind (next_phase_loop (ce_engineCycle env) (eventAngles tc) (engineCycleEventCount tc)
                    (eventAngles tc ! i) i []) (\<lambda>(nextTrg, _).
     Option.bind (toEngPhase env nextTrg tc) (\<lambda>(nextEng, _). Some (current, nextEng))))"

definition small_offsets :: "central_env \<Rightarrow> central \<Rightarrow> bool" where
  "small_offsets env tc \<longleftrightarrow>
     0 < ce_engineCycle env \<and> ce_engineCycle env \<le> 1000000 \<and>
     \<bar>tdcPosition (triggerShape tc)\<bar> \<le> 1000000 \<and> \<bar>cfg_globalTriggerAngleOffset (ce_cfg env)\<bar> \<le> 1000000"

definition engine_shift :: "central_env \<Rightarrow> central \<Rightarrow> rat" where
  "engine_shift env tc =
     phaseAdjustment tc - tdcPosition (triggerShape tc) - cfg_globalTriggerAngleOffset (ce_cfg env)"

lemma toEngPhase_wrapped:
  assumes "small_offsets env tc" "0 \<le> p" "p < ce_engineCycle env"
  shows "toEngPhase env p tc = Some (wrapped (ce_engineCycle env) (p + engine_shift env tc), [])"
  using assms phaseAdjustment_bounds[of tc]
    wrapAngleMethod_finite[of "ce_engineCycle env" "p + engine_shift env tc" CUSTOM_ERR_6555]
  by (auto simp: toEngPhase_def engine_shift_def small_offsets_def algebra_simps abs_le_iff)

lemma toTrgPhase_wrapped:
  assumes "small_offsets env tc" "0 \<le> p" "p < ce_engineCycle env"
  shows "toTrgPhase env p tc = Some (wrapped (ce_engineCycle env) (p - engine_shift env tc), [])"
  using assms phaseAdjustment_bounds[of tc]
    wrapAngleMethod_finite[of "ce_engineCycle env" "p - engine_shift env tc" CUSTOM_ERR_6555]
  by (auto simp: toTrgPhase_def engine_shift_def small_offsets_def algebra_simps abs_le_iff)


text \<open>A phase of the trigger converted to a phase of the engine is in the engine cycle, and converting it
  back gives the phase again, whatever the offsets and the phase adjustment.\<close>

theorem phase_roundtrip:
  assumes "small_offsets env tc" "0 \<le> p" "p < ce_engineCycle env"
  shows "\<exists>q. toEngPhase env p tc = Some (q, []) \<and> 0 \<le> q \<and> q < ce_engineCycle env \<and>
    toTrgPhase env q tc = Some (p, [])"
proof -
  have c: "0 < ce_engineCycle env" using assms(1) by (simp add: small_offsets_def)
  note q = wrapped_bounds[OF c, of "p + engine_shift env tc"]
  have "wrapped (ce_engineCycle env) (wrapped (ce_engineCycle env) (p + engine_shift env tc) - engine_shift env tc) = p"
    using wrapped_add[OF c, of "p + engine_shift env tc" "- engine_shift env tc"] assms(2,3) by simp
  then show ?thesis
    using toEngPhase_wrapped[OF assms] toTrgPhase_wrapped[OF assms(1)] q by auto
qed

lemma tooth_range_turned:
  assumes "small_offsets env tc" "tooth_angles (ce_engineCycle env) bs" "2 \<le> length bs"
    and "entries_of ro bs (eventAngles tc)" "engineCycleEventCount tc = entry ro (length bs)" "j < length bs"
  shows "tooth_range env tc (entry ro j) =
    Some (wrapped (ce_engineCycle env) (bs ! j + engine_shift env tc),
          wrapped (ce_engineCycle env) (bs ! (Suc j mod length bs) + engine_shift env tc))"
proof -
  have e: "eventAngles tc ! entry ro j = bs ! j"
    using assms(4,6) by (auto simp: entries_of_def entry_def)
  have in_c: "0 \<le> bs ! i \<and> bs ! i < ce_engineCycle env" if "i < length bs" for i
    using assms(2) that by (auto simp: tooth_angles_def)
  have "Suc j mod length bs < length bs" using assms(6) by (intro mod_less_divisor) linarith
  then show ?thesis
    using in_c[OF assms(6)] in_c[of "Suc j mod length bs"] assms(1)
      next_phase_tooth[OF assms(2-4,6), unfolded assms(5)[symmetric]]
    by (simp add: tooth_range_def e toEngPhase_wrapped small_offsets_def)
qed

text \<open>C7: whatever the phase of the engine, exactly one tooth of the cycle has it in the range of phases
  that its handler gives to the listeners, so that an action scheduled for an angle is neither
  missed nor taken twice in a cycle.\<close>

theorem one_tooth_per_phase:
  assumes "preparable (triggerShape tc) sp xs" "cnt \<noteq> 0"
    and "prepareEventAngles (ce_engineCycle env) cnt (triggerShape tc) xs = Some (eventAngles tc, msgs)"
    and "ce_engineCycle env = getEngineCycle (m_operationMode (triggerShape tc))"
    and "engineCycleEventCount tc = getLength (triggerShape tc)" "small_offsets env tc"
    and "4 \<le> getLength (triggerShape tc)" "0 \<le> x" "x < ce_engineCycle env"
  shows "\<exists>!j. entry (useOnlyRisingEdges (triggerShape tc)) j < getLength (triggerShape tc) \<and>
    (\<exists>cur nxt. tooth_range env tc (entry (useOnlyRisingEdges (triggerShape tc)) j) = Some (cur, nxt) \<and>
       isPhaseInRange x cur nxt)"
proof -
  let ?ro = "useOnlyRisingEdges (triggerShape tc)" and ?c = "ce_engineCycle env" and ?d = "engine_shift env tc"
  obtain bs where bs: "tooth_angles ?c bs" "entries_of ?ro bs (eventAngles tc)"
    "entry ?ro (length bs) = getLength (triggerShape tc)"
    using prepared_teeth[OF assms(1,2)] assms(3,4) by auto
  have len: "2 \<le> length bs" "bs \<noteq> []" using bs(3) assms(7) by (auto simp: entry_def split: if_splits)
  have c: "0 < ?c" using assms(6) by (simp add: small_offsets_def)
  note y = wrapped_bounds[OF c, of "x - ?d"]
  have x: "wrapped ?c (wrapped ?c (x - ?d) + ?d) = x"
    using wrapped_add[OF c, of "x - ?d" ?d] assms(8,9) by simp
  have in_c: "0 \<le> bs ! i \<and> bs ! i < ?c" if "i < length bs" for i
    using bs(1) that by (auto simp: tooth_angles_def)
  have iff: "(\<exists>cur nxt. tooth_range env tc (entry ?ro j) = Some (cur, nxt) \<and> isPhaseInRange x cur nxt) \<longleftrightarrow>
      j = tooth_of bs (wrapped ?c (x - ?d))" if j: "j < length bs" for j
  proof -
    have j': "Suc j mod length bs < length bs" using j by (intro mod_less_divisor) linarith
    have "(\<exists>cur nxt. tooth_range env tc (entry ?ro j) = Some (cur, nxt) \<and> isPhaseInRange x cur nxt) \<longleftrightarrow>
        isPhaseInRange x (wrapped ?c (bs ! j + ?d)) (wrapped ?c (bs ! (Suc j mod length bs) + ?d))"
      using tooth_range_turned[OF assms(6) bs(1) len(1) bs(2) _ j] assms(5) bs(3) by simp
    also have "\<dots> \<longleftrightarrow> isPhaseInRange (wrapped ?c (x - ?d)) (bs ! j) (bs ! (Suc j mod length bs))"
      using isPhaseInRange_turned[OF c, of "wrapped ?c (x - ?d)" "bs ! j" "bs ! (Suc j mod length bs)" ?d]
        y in_c[OF j] in_c[OF j'] tooth_angles_next[OF bs(1) len(1) j] x by simp
    finally show ?thesis using in_range_tooth[OF bs(1) j] by simp
  qed
  have "entry ?ro j < getLength (triggerShape tc) \<longleftrightarrow> j < length bs" for j
    using bs(3) by (auto simp: entry_def split: if_splits)
  then show ?thesis using iff tooth_of_less[OF len(2)] by (intro ex1I[of _ "tooth_of bs (wrapped ?c (x - ?d))"]) auto
qed


subsection \<open>A wheel with one tooth\<close>

text \<open>When all teeth have the same angle the loop that looks for another angle does not end.\<close>

definition same_angles :: "rat \<Rightarrow> rat list \<Rightarrow> nat \<Rightarrow> phase_angle \<Rightarrow> bool" where
  "same_angles c as n cur \<longleftrightarrow> 0 < n \<and> (\<forall>i<n. \<exists>l. wrapAngleMethod c CUSTOM_ERR_6555 (as ! i) = Some (cur, l))"

lemma next_phase_same:
  assumes "next_phase_loop c as n cur k msgs = Some r"
  shows "\<not> same_angles c as n cur"
proof (rule next_phase_loop.raw_induct[OF _ assms, where P = "\<lambda>c as n cur k msgs r. \<not> same_angles c as n cur"])
  fix loop :: "rat \<Rightarrow> rat list \<Rightarrow> nat \<Rightarrow> phase_angle \<Rightarrow> nat \<Rightarrow> diag_log \<Rightarrow> (phase_angle \<times> diag_log) option"
    and c as n cur k msgs r
  assume IH: "\<And>c as n cur k msgs r. loop c as n cur k msgs = Some r \<Longrightarrow> \<not> same_angles c as n cur"
    and body: "(let k = (k + 1) mod n in
      Option.bind (wrapAngleMethod c CUSTOM_ERR_6555 (as ! k)) (\<lambda>(nxt, l).
        if nxt = cur then loop c as n cur k (msgs @ l) else Some (nxt, msgs @ l))) = Some r"
  show "\<not> same_angles c as n cur"
  proof
    assume same: "same_angles c as n cur"
    then have "(k + 1) mod n < n" by (simp add: same_angles_def)
    with same obtain l where "wrapAngleMethod c CUSTOM_ERR_6555 (as ! ((k + 1) mod n)) = Some (cur, l)"
      unfolding same_angles_def by blast
    with body have "loop c as n cur ((k + 1) mod n) (msgs @ l) = Some r" by simp
    from IH[OF this] same show False by simp
  qed
qed

text \<open>C9: with rising edges only and one rise in the engine cycle (a custom wheel with a single tooth on a
  two-stroke engine or at cam speed), the handler of the crank edge never returns from the first
  decoded tooth on.\<close>

theorem single_tooth_never_returns:
  assumes "preparable (triggerShape tc) sp xs" "cnt \<noteq> 0" "useOnlyRisingEdges (triggerShape tc)"
    and "prepareEventAngles (ce_engineCycle env) cnt (triggerShape tc) xs = Some (eventAngles tc, msgs)"
    and "ce_engineCycle env = getEngineCycle (m_operationMode (triggerShape tc))" "small_offsets env tc"
    and "getLength (triggerShape tc) = 2" "engineCycleEventCount tc = 2"
    and "nat (triggerIndexForListeners (triggerShape tc) (triggerState tc) i) < 2"
  shows "decoded_tooth L env env' signal t i tc = None"
proof -
  have "later_rises (triggerShape tc) sp = []" using assms(1,3,7) by (simp add: preparable_def)
  then have z: "eventAngles tc ! 0 = 0" "eventAngles tc ! 1 = 0"
    using prepared_rising_edges[of "triggerShape tc" sp cnt "[]" xs] assms
    by (auto simp: preparable_def later_rises_def)
  have c: "0 < ce_engineCycle env" using assms(6) by (simp add: small_offsets_def)
  have same: "same_angles (ce_engineCycle env) (eventAngles tc) 2 0"
    using z c by (auto simp: same_angles_def less_2_cases_iff wrapAngleMethod_finite)
  have cur: "eventAngles tc ! nat (triggerIndexForListeners (triggerShape tc) (triggerState tc) i) = 0"
    using z assms(9) by (auto simp: less_2_cases_iff)
  have "next_phase_loop (ce_engineCycle env) (eventAngles tc) 2 0 k [] = None" for k
    using next_phase_same same by (metis not_Some_eq)
  then show ?thesis
    by (simp add: decoded_tooth_def place_tooth_def Let_def cur reportEventToWaveChart_def tc_call_def tc_report_def assms(8)
        split: Option.bind_split)
qed


subsection \<open>Cam edges\<close>

lemma raise_vvt_wrap:
  assumes "0 < h"
  shows "- (of_nat n * (2 * of_int h)) \<le> x + of_int h \<Longrightarrow>
    raise_vvt (2 * h) x = map_option (\<lambda>a. a - of_int h) (wrap_up (2 * of_int h) (x + of_int h))"
proof (induction n arbitrary: x)
  case 0
  then show ?case using assms by (subst raise_vvt.simps, subst wrap_up.simps) auto
next
  case (Suc n)
  show ?case
  proof (cases "x < - of_int h")
    case True
    have "- (of_nat n * (2 * of_int h)) \<le> (x + of_int (2 * h)) + of_int h"
      using Suc.prems by (simp add: algebra_simps)
    from Suc.IH[OF this] show ?thesis
      using True by (subst raise_vvt.simps, subst wrap_up.simps) (simp add: algebra_simps)
  next
    case False
    then show ?thesis by (subst raise_vvt.simps, subst wrap_up.simps) auto
  qed
qed

lemma lower_vvt_wrap:
  assumes "0 < h"
  shows "x + of_int h < (of_nat n + 1) * (2 * of_int h) \<Longrightarrow>
    lower_vvt (2 * h) x = map_option (\<lambda>a. a - of_int h) (wrap_down (2 * of_int h) (x + of_int h))"
proof (induction n arbitrary: x)
  case 0
  then show ?case by (subst lower_vvt.simps, subst wrap_down.simps) auto
next
  case (Suc n)
  show ?case
  proof (cases "of_int h \<le> x")
    case True
    have "(x - of_int (2 * h)) + of_int h < (of_nat n + 1) * (2 * of_int h)"
      using Suc.prems by (simp add: algebra_simps)
    from Suc.IH[OF this] show ?thesis
      using True by (subst lower_vvt.simps, subst wrap_down.simps) (simp add: algebra_simps)
  next
    case False
    then show ?thesis by (subst lower_vvt.simps, subst wrap_down.simps) auto
  qed
qed

lemma wrapVvt_wrapped:
  assumes "0 < h"
  shows "wrapVvt x (2 * h) = Some (wrapped (2 * of_int h) (x + of_int h) - of_int h)"
proof -
  have c: "0 < (2 * of_int h :: rat)" using assms by simp
  obtain n :: nat where "- (x + of_int h) / (2 * of_int h) < of_nat n" using reals_Archimedean2 by blast
  then have "- (of_nat n * (2 * of_int h)) \<le> x + of_int h" using c by (simp add: field_simps)
  note up = raise_vvt_wrap[OF assms this]
  from wraps_end[OF c, of "x + of_int h"] obtain a where
    a: "wrap_up (2 * of_int h) (x + of_int h) = Some a" "wrap_down (2 * of_int h) a = Some (wrapped (2 * of_int h) (x + of_int h))"
    by (auto split: option.splits)
  obtain m :: nat where "a / (2 * of_int h) < of_nat m" using reals_Archimedean2 by blast
  then have "(a - of_int h) + of_int h < (of_nat m + 1) * (2 * of_int h)" using c by (simp add: field_simps)
  from lower_vvt_wrap[OF assms this] show ?thesis by (simp add: wrapVvt_def up a)
qed

text \<open>The period in which the position of a cam is kept.\<close>

definition cam_period :: "vvt_mode_e \<Rightarrow> int" where
  "cam_period mode = (if mode = VVT_HONDA_K_INTAKE \<or> mode = VVT_TOYOTA_3_TOOTH then 180 else 720)"

lemma wrapVvtForCamType_bounds:
  obtains p where "wrapVvtForCamType x mode = Some p"
    "- (of_int (cam_period mode) / 2) \<le> p" "p < of_int (cam_period mode) / 2"
    "p = x - of_int (cam_period mode) * of_int \<lfloor>x / of_int (cam_period mode) + 1 / 2\<rfloor>"
proof -
  have *: "\<exists>p. wrapVvt x (2 * h) = Some p \<and> - of_int h \<le> p \<and> p < of_int h \<and>
      p = x - of_int (2 * h) * of_int \<lfloor>x / of_int (2 * h) + 1 / 2\<rfloor>" if "0 < h" for h :: int
  proof -
    have "(x + of_int h) / (2 * of_int h) = x / of_int (2 * h) + 1 / 2" using that by (simp add: field_simps)
    then show ?thesis
      using wrapVvt_wrapped[OF that, of x] wrapped_bounds[of "2 * of_int h" "x + of_int h"] that
      by (auto simp: wrapped_def)
  qed
  show thesis
    using *[of 90] *[of 360] that by (cases "mode = VVT_HONDA_K_INTAKE \<or> mode = VVT_TOYOTA_3_TOOTH")
      (auto simp: wrapVvtForCamType_def cam_period_def)
qed

lemma wrapAngleMethod_ends: "0 < c \<Longrightarrow> \<exists>r. wrapAngleMethod c code x = Some r"
  using wraps_end[of c 0] wraps_end[of c x]
  by (auto simp: wrapAngleMethod_def wrapAngle_def assertAngleRange_def split: option.splits)


text \<open>What a cam edge may have done to the state.\<close>

definition cam_outcome :: "central_env \<Rightarrow> efitick_t \<Rightarrow> nat \<Rightarrow> central \<Rightarrow> central \<Rightarrow> bool" where
  "cam_outcome env t index tc tc' \<longleftrightarrow>
     (\<forall>j. j \<noteq> index \<longrightarrow> vvtPosition tc' ! j = vvtPosition tc ! j) \<and> length (vvtPosition tc') = length (vvtPosition tc) \<and>
     eventAngles tc' = eventAngles tc \<and> triggerShape tc' = triggerShape tc \<and>
     (\<exists>cs. tc_calls tc' = tc_calls tc @ cs) \<and>
     (vvtPosition tc' ! index = vvtPosition tc ! index \<or>
      \<not> hasSynchronizedPhase (ce_dec env) (triggerState tc') \<and>
        vvtPosition tc' ! index = (fst (vvtPosition tc ! index), timer_init) \<or>
      hasSynchronizedPhase (ce_dec env) (triggerState tc') \<and> snd (vvtPosition tc' ! index) = t \<and>
        (let period = of_int (cam_period (vvt_mode_of env (index mod CAMS_PER_BANK)))
         in - (period / 2) \<le> fst (vvtPosition tc' ! index) \<and> fst (vvtPosition tc' ! index) < period / 2))"

lemma adjustCrankPhase_frame:
  "adjustCrankPhase env cam tc = (a, tc') \<Longrightarrow> tc' = tc\<lparr>triggerState := triggerState tc'\<rparr>"
  by (auto simp: adjustCrankPhase_def syncAndReport_def Let_def split: if_splits vvt_mode_e.splits prod.splits)

lemma cam_outcome_later:
  assumes "cam_outcome env t index tc1 tc'" "vvtPosition tc1 = vvtPosition tc" "eventAngles tc1 = eventAngles tc"
    "triggerShape tc1 = triggerShape tc" "\<exists>cs. tc_calls tc1 = tc_calls tc @ cs"
  shows "cam_outcome env t index tc tc'"
  using assms unfolding cam_outcome_def by (auto simp: Let_def)

lemma cam_outcome_frame:
  assumes "vvtPosition tc1 = vvtPosition tc" "eventAngles tc1 = eventAngles tc"
    "triggerShape tc1 = triggerShape tc" "\<exists>cs. tc_calls tc1 = tc_calls tc @ cs"
  shows "cam_outcome env t index tc tc1"
  using assms by (simp add: cam_outcome_def)

lemma record_vvt_outcome:
  assumes "index < length (vvtPosition tc)"
  shows "\<exists>tc'. record_vvt env t index q tc = Some tc' \<and> cam_outcome env t index tc tc'"
proof -
  obtain p where "wrapVvtForCamType q (vvt_mode_of env (index mod CAMS_PER_BANK)) = Some p"
    "- (of_int (cam_period (vvt_mode_of env (index mod CAMS_PER_BANK))) / 2) \<le> p"
    "p < of_int (cam_period (vvt_mode_of env (index mod CAMS_PER_BANK))) / 2"
    by (rule wrapVvtForCamType_bounds[of q "vvt_mode_of env (index mod CAMS_PER_BANK)"])
  then show ?thesis
    using assms by (simp add: record_vvt_def cam_outcome_def Let_def)
qed

lemma sync_from_cam_frame:
  assumes "sync_from_cam env index trgPhase pos tc = (q, tc')"
  shows "vvtPosition tc' = vvtPosition tc" "eventAngles tc' = eventAngles tc" "triggerShape tc' = triggerShape tc"
    "tc_calls tc' = tc_calls tc"
proof -
  obtain a tc1 where adj: "adjustCrankPhase env (index mod CAMS_PER_BANK) tc = (a, tc1)"
    by (cases "adjustCrankPhase env (index mod CAMS_PER_BANK) tc")
  have "vvtPosition tc1 = vvtPosition tc" "eventAngles tc1 = eventAngles tc" "triggerShape tc1 = triggerShape tc"
    "tc_calls tc1 = tc_calls tc" by (subst adjustCrankPhase_frame[OF adj], simp)+
  then show "vvtPosition tc' = vvtPosition tc" "eventAngles tc' = eventAngles tc" "triggerShape tc' = triggerShape tc"
    "tc_calls tc' = tc_calls tc"
    using assms unfolding sync_from_cam_def adj by (auto simp: Let_def tc_report_def split: if_splits)
qed

lemma position_cam_outcome:
  assumes "index < length (vvtPosition tc)"
  shows "\<exists>tc'. position_cam env t index trgPhase e tc = Some tc' \<and> cam_outcome env t index tc tc'"
proof -
  have finish: "\<exists>tc'. (case sync_from_cam env index trgPhase pos tc of (pos, tc) \<Rightarrow> record_vvt env t index pos tc) = Some tc' \<and>
      cam_outcome env t index tc tc'" for pos
  proof (cases "sync_from_cam env index trgPhase pos tc")
    case (Pair q tc1)
    note frame = sync_from_cam_frame[OF Pair]
    then show ?thesis
      using record_vvt_outcome[of index tc1 env t q] cam_outcome_later[OF _ frame(1-3)] assms Pair by auto
  qed
  obtain q where q: "wrapVvt (cfg_vvtOffsets (ce_cfg env) ! index - e) 360 = Some q"
    using wrapVvt_wrapped[of 180 "cfg_vvtOffsets (ce_cfg env) ! index - e"] by auto
  have "cam_outcome env t index tc tc" by (rule cam_outcome_frame) auto
  then show ?thesis
    using finish by (simp add: position_cam_def Let_def q)
qed

lemma count_cam_edge_frame [simp]:
  "vvtPosition (count_cam_edge L env b t index tc) = vvtPosition tc"
  "eventAngles (count_cam_edge L env b t index tc) = eventAngles tc"
  "triggerShape (count_cam_edge L env b t index tc) = triggerShape tc"
  "tc_calls (count_cam_edge L env b t index tc) = tc_calls tc"
  by (simp_all add: count_cam_edge_def Let_def)

lemma locate_cam_edge_outcome:
  assumes "0 < ce_engineCycle env" "index < length (vvtPosition tc)"
  shows "\<exists>tc'. locate_cam_edge env t index tc = Some tc' \<and> cam_outcome env t index tc tc'"
proof (cases "getCurrentEnginePhase env t tc")
  case None
  then show ?thesis by (auto simp: locate_cam_edge_def intro: cam_outcome_frame)
next
  case (Some trgPhase)
  obtain e msgs where e: "toEngPhase env trgPhase tc = Some (e, msgs)"
    using wrapAngleMethod_ends[OF assms(1)] by (fastforce simp: toEngPhase_def)
  have "cam_outcome env t index tc (tc_report msgs tc)"
    by (rule cam_outcome_frame) (simp_all add: tc_report_def)
  moreover have "\<exists>tc'. position_cam env t index trgPhase e (tc_report msgs tc) = Some tc' \<and> cam_outcome env t index tc tc'"
    using position_cam_outcome[of index "tc_report msgs tc"] assms(2) cam_outcome_later by (fastforce simp: tc_report_def)
  ultimately show ?thesis by (simp add: locate_cam_edge_def Some e Let_def)
qed

lemma cam_handler_outcome:
  assumes "0 < ce_engineCycle env" "index < length (vvtPosition tc)"
  shows "\<exists>tc'. hwHandleVvtCamSignal L env r t index tc = Some tc' \<and> cam_outcome env t index tc tc'"
proof -
  have later: "\<exists>tc'. locate_cam_edge env t index (count_cam_edge L env b t index tc1) = Some tc' \<and>
      cam_outcome env t index tc tc'"
    if "vvtPosition tc1 = vvtPosition tc" "eventAngles tc1 = eventAngles tc" "triggerShape tc1 = triggerShape tc"
      "\<exists>cs. tc_calls tc1 = tc_calls tc @ cs" for b tc1
  proof -
    let ?tc2 = "count_cam_edge L env b t index tc1"
    note kept = that
    obtain tc' where "locate_cam_edge env t index ?tc2 = Some tc'" "cam_outcome env t index ?tc2 tc'"
      using locate_cam_edge_outcome[OF assms(1), of index ?tc2 t] assms(2) kept(1) by auto
    moreover have "cam_outcome env t index tc tc'"
      by (rule cam_outcome_later[OF calculation(2)]) (simp_all add: kept)
    ultimately show ?thesis by simp
  qed
  have kept: "cam_outcome env t index tc tc1"
    if "vvtPosition tc1 = vvtPosition tc" "eventAngles tc1 = eventAngles tc" "triggerShape tc1 = triggerShape tc"
      "\<exists>cs. tc_calls tc1 = tc_calls tc @ cs" for tc1
    by (rule cam_outcome_frame[OF that])
  define rising where "rising = (r \<noteq> cfg_invertCamVVTSignal (ce_cfg env))"
  define tc1 where "tc1 = (let tc = tc_call (LogCamTriggerTooth t index rising) (tc_call (SnifferVvtEvent index rising) tc)
      in if vvt_mode_of env (index mod CAMS_PER_BANK) = VVT_INACTIVE
         then tc_report [Warning CUSTOM_VVT_MODE_NOT_SELECTED] tc else tc)"
  have "hwHandleVvtCamSignal L env r t index tc \<in>
      {Some tc, Some tc1, locate_cam_edge env t index (count_cam_edge L env rising t index tc1)}"
    by (simp add: hwHandleVvtCamSignal_def tc1_def rising_def Let_def)
  moreover have "vvtPosition tc1 = vvtPosition tc" "eventAngles tc1 = eventAngles tc" "triggerShape tc1 = triggerShape tc"
    "\<exists>cs. tc_calls tc1 = tc_calls tc @ cs"
    by (simp_all add: tc1_def tc_call_def tc_report_def Let_def)
  note calls = this
  moreover have "cam_outcome env t index tc tc" by (rule kept) auto
  ultimately show ?thesis
    using later[OF calls, of rising] kept[OF calls] by auto
qed

text \<open>C8: the handler of a cam edge always returns. It changes the position of its own cam only: the angle it
  records with the time of the edge is in the half-open period of the cam mode around zero, and
  while the phase of the engine is unknown it marks the position as stale instead.\<close>

theorem cam_edge_position:
  assumes "0 < ce_engineCycle env" "index < length (vvtPosition tc)"
  shows "\<exists>tc'. hwHandleVvtCamSignal L env r t index tc = Some tc' \<and>
    (\<forall>j. j \<noteq> index \<longrightarrow> vvtPosition tc' ! j = vvtPosition tc ! j) \<and>
    (vvtPosition tc' ! index = vvtPosition tc ! index \<or>
     \<not> hasSynchronizedPhase (ce_dec env) (triggerState tc') \<and>
       vvtPosition tc' ! index = (fst (vvtPosition tc ! index), timer_init) \<or>
     hasSynchronizedPhase (ce_dec env) (triggerState tc') \<and> snd (vvtPosition tc' ! index) = t \<and>
       (let period = of_int (cam_period (vvt_mode_of env (index mod CAMS_PER_BANK)))
        in - (period / 2) \<le> fst (vvtPosition tc' ! index) \<and> fst (vvtPosition tc' ! index) < period / 2))"
  using cam_handler_outcome[OF assms, of L r t] unfolding cam_outcome_def by blast


subsection \<open>The listeners of a tooth\<close>

lemma cam_handler_calls:
  assumes "0 < ce_engineCycle env" "0 < length (vvtPosition tc)" "hwHandleVvtCamSignal L env r t 0 tc = Some tc'"
  shows "\<exists>cs. tc_calls tc' = tc_calls tc @ cs" "length (vvtPosition tc') = length (vvtPosition tc)"
  using cam_handler_outcome[OF assms(1,2), of L r t] assms(3) by (auto simp: cam_outcome_def)

lemma map_cam_tooth_calls:
  assumes "0 < ce_engineCycle env" "0 < length (vvtPosition tc)" "map_cam_tooth L env t tc = Some tc'"
  shows "\<exists>cs. tc_calls tc' = tc_calls tc @ cs"
proof (cases "ce_instantMAP env - mapCamPrevCycleValue tc > 0")
  case True
  let ?tc = "tc\<lparr>mapCamPrevCycleValue := ce_instantMAP env\<rparr>"
  from assms(3) True obtain tc1 tc2 where h: "hwHandleVvtCamSignal L env True t 0 ?tc = Some tc1"
    "hwHandleVvtCamSignal L env False t 0 tc1 = Some tc2" "tc_calls tc' = tc_calls tc2"
    by (auto simp: map_cam_tooth_def Let_def bind_eq_Some_conv)
  have len: "0 < length (vvtPosition tc1)"
    using cam_handler_calls(2)[OF assms(1) _ h(1)] assms(2) by simp
  obtain cs where cs: "tc_calls tc1 = tc_calls tc @ cs"
    using cam_handler_calls(1)[OF assms(1) _ h(1)] assms(2) by auto
  from cam_handler_calls(1)[OF assms(1) len h(2)] show ?thesis using cs h(3) by auto
next
  case False
  then show ?thesis using assms(3) by (auto simp: map_cam_tooth_def Let_def)
qed

lemma decodeMapCam_calls:
  assumes "0 < ce_engineCycle env" "0 < length (vvtPosition tc)" "decodeMapCam L env t p tc = Some tc'"
  shows "\<exists>cs. tc_calls tc' = tc_calls tc @ cs"
  using assms(3) map_cam_tooth_calls[OF assms(1,2)]
  by (fastforce simp: decodeMapCam_def Let_def bind_eq_Some_conv split: if_splits)

lemma tc_call_frame [simp]:
  "vvtPosition (tc_call c tc) = vvtPosition tc"
  "triggerShape (tc_call c tc) = triggerShape tc"
  "triggerState (tc_call c tc) = triggerState tc"
  "eventAngles (tc_call c tc) = eventAngles tc"
  "engineCycleEventCount (tc_call c tc) = engineCycleEventCount tc"
  by (simp_all add: tc_call_def)

lemma tc_report_frame [simp]:
  "vvtPosition (tc_report ms tc) = vvtPosition tc"
  "triggerShape (tc_report ms tc) = triggerShape tc"
  "triggerState (tc_report ms tc) = triggerState tc"
  "eventAngles (tc_report ms tc) = eventAngles tc"
  "engineCycleEventCount (tc_report ms tc) = engineCycleEventCount tc"
  by (simp_all add: tc_report_def)

lemma wave_chart_frame [simp]:
  "vvtPosition (reportEventToWaveChart s i b tc) = vvtPosition tc"
  "triggerShape (reportEventToWaveChart s i b tc) = triggerShape tc"
  "triggerState (reportEventToWaveChart s i b tc) = triggerState tc"
  "eventAngles (reportEventToWaveChart s i b tc) = eventAngles tc"
  "engineCycleEventCount (reportEventToWaveChart s i b tc) = engineCycleEventCount tc"
  by (simp_all add: reportEventToWaveChart_def Let_def)

lemma tps_frame [simp]:
  "vvtPosition (if q then tc_call c tc else tc) = vvtPosition tc"
  "triggerShape (if q then tc_call c tc else tc) = triggerShape tc"
  "triggerState (if q then tc_call c tc else tc) = triggerState tc"
  "eventAngles (if q then tc_call c tc else tc) = eventAngles tc"
  "engineCycleEventCount (if q then tc_call c tc else tc) = engineCycleEventCount tc"
  by (simp_all add: tc_call_def)

lemma place_tooth_range:
  assumes "place_tooth env signal t index tc = Some (ph, tc')"
  shows "timestamp ph = t" "tooth_range env tc (nat index) = Some (currentEngPhase ph, nextEngPhase ph)"
    "vvtPosition tc' = vvtPosition tc"
proof -
  note * = assms[unfolded place_tooth_def Let_def bind_eq_Some_conv]
  obtain cur m1 nxt m2 eng m3 where
    e: "toEngPhase env (eventAngles tc ! nat index) tc = Some (cur, m1)"
      "next_phase_loop (ce_engineCycle env) (eventAngles tc) (engineCycleEventCount tc) (eventAngles tc ! nat index)
         (nat index) [] = Some (nxt, m2)"
      "toEngPhase env nxt tc = Some (eng, m3)"
    and r: "ph = \<lparr>timestamp = t, currentTrgPhase = eventAngles tc ! nat index, nextTrgPhase = nxt,
                  currentEngPhase = cur, nextEngPhase = eng\<rparr>"
      "vvtPosition tc' = vvtPosition tc"
    using * by (auto simp: bind_eq_Some_conv toEngPhase_def phaseAdjustment_def simp del: of_nat_unat)
  show "timestamp ph = t" "tooth_range env tc (nat index) = Some (currentEngPhase ph, nextEngPhase ph)"
    "vvtPosition tc' = vvtPosition tc"
    by (simp_all add: tooth_range_def e r)
qed

text \<open>From a decoded tooth the injection and ignition listener and the RPM calculator get the same phases:
  those of the tooth, stamped with the time of its edge.\<close>

theorem listeners_get_tooth_range:
  assumes "decoded_tooth L env env' signal t i tc = Some tc'" "0 < ce_engineCycle env'" "0 < length (vvtPosition tc)"
    and index: "index = triggerIndexForListeners (triggerShape tc) (triggerState tc) i"
  shows "\<exists>ph. {RpmShaftPositionCallback index ph, MainTriggerCallback index ph} \<subseteq> set (tc_calls tc') \<and>
    timestamp ph = t \<and> tooth_range env tc (nat index) = Some (currentEngPhase ph, nextEngPhase ph)"
proof -
  from assms(1) obtain ph tc1 where p: "place_tooth env signal t index tc = Some (ph, tc1)"
    and d: "decodeMapCam L env' t (currentEngPhase ph)
      (tc_call (MainTriggerCallback index ph) (tc_call (TdcMarkCallback index t)
        (tc_call (RpmShaftPositionCallback index ph) tc1))) = Some tc'"
    by (auto simp: decoded_tooth_def Let_def bind_eq_Some_conv index)
  note r = place_tooth_range[OF p]
  have "\<exists>cs. tc_calls tc' = tc_calls (tc_call (MainTriggerCallback index ph) (tc_call (TdcMarkCallback index t)
        (tc_call (RpmShaftPositionCallback index ph) tc1))) @ cs"
    by (rule decodeMapCam_calls[OF assms(2) _ d]) (use assms(3) r in \<open>simp add: tc_call_def\<close>)
  then show ?thesis using r by (auto simp: tc_call_def)
qed

subsection \<open>Examples\<close>

definition example_config :: central_config where
  "example_config = \<lparr>cfg_trigger_type = TT_TOOTHED_WHEEL, cfg_customTotalToothCount = 1, cfg_customSkippedToothCount = 0,
     cfg_twoStroke = False, cfg_skippedWheelOnCam = False, cfg_globalTriggerAngleOffset = 10,
     cfg_minCamPhaseResolveRpm = 0, cfg_maxCamPhaseResolveRpm = 0, cfg_vvtMode = [VVT_SINGLE_TOOTH, VVT_INACTIVE],
     cfg_vvtOffsets = [0, 0, 0, 0], cfg_engineSyncCam = 0, cfg_invertCamVVTSignal = False,
     cfg_invertPrimaryTriggerSignal = False, cfg_invertSecondaryTriggerSignal = False, cfg_triggerSkipPulses = 0,
     cfg_cranking_rpm = 550, cfg_mapCamDetectionAnglePosition = 0, cfg_overrideTriggerGaps = False,
     cfg_gapTrackingLengthOverride = 0, cfg_triggerGapOverrideFrom = replicate GAP_TRACKING_LENGTH 0,
     cfg_triggerGapOverrideTo = replicate GAP_TRACKING_LENGTH 0, cfg_triggerInputPins = [2, 0], cfg_camInputs = [3, 0, 0, 0]\<rparr>"

definition example_central_env :: central_env where
  "example_central_env = \<lparr>ce_cfg = example_config, ce_dec = example_env, ce_engineCycle = 720, ce_oneDegreeUs = Some 100,
     ce_operationMode = FOUR_STROKE_CRANK_SENSOR, ce_cachedRpm = 1000, ce_allowTriggerInput = True, ce_instantMAP = 100\<rparr>"

lemma TriggerCentral_simps [simp]:
  "triggerShape TriggerCentral = blank_waveform" "length (vvtPosition TriggerCentral) = 4"
  "phaseAdjustment TriggerCentral = 0"
  by (simp_all add: TriggerCentral_def resetCounters_def Let_def BANKS_COUNT_def CAMS_PER_BANK_def phaseAdjustment_def
    resetState_def resetHasFullSync_def)

text \<open>The custom wheel with one tooth, as the configuration makes it on a two-stroke engine.\<close>

definition single_tooth_shape :: trigger_waveform where
  "single_tooth_shape =
     (initializeTriggerWaveform libfw_example TWO_STROKE TT_TOOTHED_WHEEL 1 0 blank_waveform)
       \<lparr>triggerShapeSynchPointIndex := Some 0\<rparr>"

lemma single_tooth_shape_fields:
  "getSize single_tooth_shape = 2" "getLength single_tooth_shape = 2" "useOnlyRisingEdges single_tooth_shape"
  "m_operationMode single_tooth_shape = TWO_STROKE" "triggerShapeSynchPointIndex single_tooth_shape = Some 0"
  "length (isRiseEvent single_tooth_shape) = 280" "isRiseEvent single_tooth_shape ! 0" "\<not> isRiseEvent single_tooth_shape ! 1"
  "tdcPosition single_tooth_shape = 0" "getSwitchTime (wave single_tooth_shape) 0 = 1 / 2"
  "getSwitchTime (wave single_tooth_shape) 1 = 1" "phaseCount (wave single_tooth_shape) = 2"
  by code_simp+

definition two_tooth_shape :: trigger_waveform where
  "two_tooth_shape = blank_waveform\<lparr>wave := (wave blank_waveform)\<lparr>phaseCount := 2, switchTimes := [1/4, 1]\<rparr>,
     m_operationMode := FOUR_STROKE_CRANK_SENSOR, triggerShapeSynchPointIndex := Some 0\<rparr>"

lemma phase_roundtrip_witness:
  "\<exists>q. toEngPhase example_central_env 5 TriggerCentral = Some (q, []) \<and> 0 \<le> q \<and> q < ce_engineCycle example_central_env \<and>
    toTrgPhase example_central_env q TriggerCentral = Some (5, [])"
  by (rule phase_roundtrip)
    (simp_all add: small_offsets_def example_central_env_def example_config_def blank_waveform_def)

lemma two_tooth_preparable: "preparable two_tooth_shape 0 (replicate 560 0)"
  by (auto simp: preparable_def two_tooth_shape_def blank_waveform_def times_ok_def getSwitchTime_def getSize_def
      getLength_def getEngineCycle_def getCycleDuration_def cycle_duration_def less_Suc_eq numeral_2_eq_2)

lemma one_tooth_per_phase_witness:
  "\<exists>ys. let tc = TriggerCentral\<lparr>triggerShape := two_tooth_shape, engineCycleEventCount := 4, eventAngles := ys\<rparr>
    in \<exists>!j. j < 4 \<and> (\<exists>cur nxt. tooth_range example_central_env tc j = Some (cur, nxt) \<and> isPhaseInRange 100 cur nxt)"
proof -
  have f: "getLength two_tooth_shape = 4" "\<not> useOnlyRisingEdges two_tooth_shape"
    "getEngineCycle (m_operationMode two_tooth_shape) = 720" "tdcPosition two_tooth_shape = 0"
    by (simp_all add: two_tooth_shape_def blank_waveform_def getLength_def getEngineCycle_def getCycleDuration_def
        cycle_duration_def getSize_def)
  obtain ys where ys: "prepareEventAngles 720 4 two_tooth_shape (replicate 560 0) = Some (ys, [])"
    using prepared_teeth[OF two_tooth_preparable, of 4] f by auto
  let ?tc = "TriggerCentral\<lparr>triggerShape := two_tooth_shape, engineCycleEventCount := 4, eventAngles := ys\<rparr>"
  have "\<exists>!j. entry (useOnlyRisingEdges (triggerShape ?tc)) j < getLength (triggerShape ?tc) \<and>
    (\<exists>cur nxt. tooth_range example_central_env ?tc (entry (useOnlyRisingEdges (triggerShape ?tc)) j) = Some (cur, nxt) \<and>
       isPhaseInRange 100 cur nxt)"
    by (rule one_tooth_per_phase[where sp = 0 and xs = "replicate 560 0" and cnt = 4 and msgs = "[]"])
      (simp_all add: two_tooth_preparable f ys small_offsets_def example_central_env_def example_config_def)
  then show ?thesis by (intro exI[of _ ys]) (simp add: f entry_def Let_def)
qed

lemma single_tooth_preparable: "preparable single_tooth_shape 0 (replicate 560 0)"
  by (auto simp: preparable_def later_rises_def times_ok_def single_tooth_shape_fields
      single_tooth_shape_fields(8,11)[unfolded One_nat_def] less_Suc_eq numeral_2_eq_2)

lemma single_tooth_never_returns_witness:
  "\<exists>ys. prepareEventAngles 360 2 single_tooth_shape (replicate 560 0) = Some (ys, []) \<and>
    decoded_tooth libfw_example (example_central_env\<lparr>ce_engineCycle := 360\<rparr>) example_central_env PrimaryRising 100 0
      (TriggerCentral\<lparr>triggerShape := single_tooth_shape, engineCycleEventCount := 2, eventAngles := ys\<rparr>) = None"
proof -
  have f: "getEngineCycle TWO_STROKE = 360" by (simp add: getEngineCycle_def)
  obtain ys where ys: "prepareEventAngles 360 2 single_tooth_shape (replicate 560 0) = Some (ys, [])"
    using prepared_teeth[OF single_tooth_preparable, of 2] by (auto simp: single_tooth_shape_fields f)
  have "decoded_tooth libfw_example (example_central_env\<lparr>ce_engineCycle := 360\<rparr>) example_central_env PrimaryRising 100 0
      (TriggerCentral\<lparr>triggerShape := single_tooth_shape, engineCycleEventCount := 2, eventAngles := ys\<rparr>) = None"
    by (rule single_tooth_never_returns[where sp = 0 and xs = "replicate 560 0" and cnt = 2 and msgs = "[]"])
      (simp_all add: single_tooth_preparable single_tooth_shape_fields f ys small_offsets_def example_central_env_def
        example_config_def triggerIndexForListeners_def getWheelOperationMode_def getCrankDivider_def)
  with ys show ?thesis by blast
qed

lemma cam_edge_position_witness:
  "\<exists>tc'. hwHandleVvtCamSignal libfw_example example_central_env True 5000 1 TriggerCentral = Some tc' \<and>
    vvtPosition tc' ! 0 = vvtPosition TriggerCentral ! 0"
proof -
  have "0 < ce_engineCycle example_central_env" "1 < length (vvtPosition TriggerCentral)"
    by (simp_all add: example_central_env_def)
  from cam_edge_position[OF this, of libfw_example True 5000] show ?thesis by auto
qed

definition listeners_example :: central where
  "listeners_example = TriggerCentral\<lparr>triggerShape := two_tooth_shape, engineCycleEventCount := 4,
     eventAngles := [0, 180, 360, 540]\<rparr>"

lemma listeners_get_tooth_range_witness:
  "\<exists>tc' ph. decoded_tooth libfw_example example_central_env example_central_env PrimaryRising 5000 1 listeners_example = Some tc' \<and>
    {RpmShaftPositionCallback 1 ph, MainTriggerCallback 1 ph} \<subseteq> set (tc_calls tc') \<and> timestamp ph = 5000"
proof -
  have "decoded_tooth libfw_example example_central_env example_central_env PrimaryRising 5000 1 listeners_example \<noteq> None"
    "triggerIndexForListeners (triggerShape listeners_example) (triggerState listeners_example) 1 = 1"
    by code_simp+
  moreover have "0 < ce_engineCycle example_central_env" "0 < length (vvtPosition listeners_example)"
    by (simp_all add: example_central_env_def listeners_example_def)
  ultimately show ?thesis
    using listeners_get_tooth_range[of libfw_example example_central_env example_central_env PrimaryRising 5000 1
        listeners_example _ 1] by fastforce
qed

end
