(* ===== verification/Linked_List.thy ===== *)
theory Linked_List
  imports Fome_Prelude
begin

text \<open>
  The macros of \<^verbatim>\<open>ext_algo/utlist.h\<close> that the trigger scheduler uses on its intrusive singly linked list.
  The field \<^verbatim>\<open>next\<close> of all elements is one function from addresses to links, so that writes to other
  fields cannot touch a list. A loop over the links ends only if the links do: \<open>None\<close> is "does not
  return", which includes the dereference of a null pointer.
\<close>

subsection \<open>The macros\<close>

partial_function (option) ll_last :: "('a \<Rightarrow> 'a option) \<Rightarrow> 'a \<Rightarrow> 'a option" where
  "ll_last nxt tmp = (case nxt tmp of None \<Rightarrow> Some tmp | Some n \<Rightarrow> ll_last nxt n)"

definition LL_APPEND2 :: "'a option \<Rightarrow> 'a \<Rightarrow> ('a \<Rightarrow> 'a option) \<Rightarrow> ('a option \<times> ('a \<Rightarrow> 'a option)) option" where
  "LL_APPEND2 head add nxt =
     (let nxt = nxt(add := None) in
      case head of
        None \<Rightarrow> Some (Some add, nxt)
      | Some h \<Rightarrow> Option.bind (ll_last nxt h) (\<lambda>tmp. Some (head, nxt(tmp := Some add))))"

partial_function (option) ll_previous :: "('a \<Rightarrow> 'a option) \<Rightarrow> 'a \<Rightarrow> 'a \<Rightarrow> 'a option" where
  "ll_previous nxt del tmp =
     (case nxt tmp of
        None \<Rightarrow> Some tmp
      | Some n \<Rightarrow> if n \<noteq> del then ll_previous nxt del n else Some tmp)"

definition LL_DELETE2 :: "'a option \<Rightarrow> 'a \<Rightarrow> ('a \<Rightarrow> 'a option) \<Rightarrow> ('a option \<times> ('a \<Rightarrow> 'a option)) option" where
  "LL_DELETE2 head del nxt =
     (if head = Some del then Some (nxt del, nxt)
      else case head of
        None \<Rightarrow> None
      | Some h \<Rightarrow> Option.bind (ll_previous nxt del h) (\<lambda>tmp.
          if nxt tmp \<noteq> None then Some (head, nxt(tmp := nxt del)) else Some (head, nxt)))"

declare ll_last.simps [code] ll_previous.simps [code]

subsection \<open>The elements of a list\<close>

fun links :: "('a \<Rightarrow> 'a option) \<Rightarrow> 'a option \<Rightarrow> 'a list \<Rightarrow> bool" where
  "links nxt p [] = (p = None)"
| "links nxt p (a # as) = (p = Some a \<and> links nxt (nxt a) as)"

lemma links_cong: "(\<And>a. a \<in> set as \<Longrightarrow> nxt a = nxt' a) \<Longrightarrow> links nxt p as = links nxt' p as"
  by (induction as arbitrary: p) auto

lemma links_unchanged [simp]: "b \<notin> set as \<Longrightarrow> links (nxt(b := q)) p as = links nxt p as"
  by (rule links_cong) auto

lemma links_None [simp]: "links nxt None as \<longleftrightarrow> as = []"
  by (cases as) auto

lemma links_Some: "links nxt (Some a) as \<longleftrightarrow> (\<exists>bs. as = a # bs \<and> links nxt (nxt a) bs)"
  by (cases as) auto

text \<open>A list up to, and not including, a link: the part of a list already passed by a loop.\<close>

fun segment :: "('a \<Rightarrow> 'a option) \<Rightarrow> 'a option \<Rightarrow> 'a list \<Rightarrow> 'a option \<Rightarrow> bool" where
  "segment nxt p [] q = (p = q)"
| "segment nxt p (a # as) q = (p = Some a \<and> segment nxt (nxt a) as q)"

lemma segment_cong: "(\<And>a. a \<in> set as \<Longrightarrow> nxt a = nxt' a) \<Longrightarrow> segment nxt p as q = segment nxt' p as q"
  by (induction as arbitrary: p) auto

lemma links_append: "links nxt p (as @ bs) \<longleftrightarrow> (\<exists>q. segment nxt p as q \<and> links nxt q bs)"
  by (induction as arbitrary: p) auto

lemma segment_snoc: "segment nxt p (as @ [a]) q \<longleftrightarrow> segment nxt p as (Some a) \<and> nxt a = q"
  by (induction as arbitrary: p) auto

lemma ll_last_links:
  "links nxt (Some a) as \<Longrightarrow> ll_last nxt a = Some (last as)"
proof (induction as arbitrary: a)
  case (Cons b bs)
  then show ?case by (cases bs) (subst ll_last.simps, auto)+
qed simp

lemma links_relink_last:
  assumes "links nxt p as" "as \<noteq> []" "distinct as"
  shows "segment (nxt(last as := q)) p as q"
proof -
  obtain bs b where as: "as = bs @ [b]" using assms(2) by (cases as rule: rev_cases) auto
  have "segment nxt p bs (Some b)" using assms(1) by (auto simp: as links_append)
  then have "segment (nxt(b := q)) p bs (Some b)"
    using assms(3) by (subst segment_cong[where nxt' = nxt]) (auto simp: as)
  then show ?thesis by (simp add: as segment_snoc)
qed

lemma LL_APPEND2_links:
  assumes "links nxt head as" "distinct as" "a \<notin> set as"
  obtains head' nxt' where "LL_APPEND2 head a nxt = Some (head', nxt')" "links nxt' head' (as @ [a])"
    "\<And>b. b \<notin> set as \<Longrightarrow> b \<noteq> a \<Longrightarrow> nxt' b = nxt b"
proof (cases as)
  case Nil
  with assms that show ?thesis by (auto simp: LL_APPEND2_def)
next
  case (Cons h t)
  then have h: "head = Some h" "links (nxt(a := None)) (Some h) as" using assms by auto
  have l: "last as \<in> set as" using Cons by (intro last_in_set) simp
  let ?nxt = "nxt(a := None, last as := Some a)"
  have "segment ?nxt (Some h) as (Some a)"
    using links_relink_last[OF h(2) _ assms(2)] Cons by simp
  moreover have "last as \<noteq> a" using assms(3) l by auto
  ultimately have "links ?nxt (Some h) (as @ [a])" by (auto simp: links_append)
  moreover have "LL_APPEND2 head a nxt = Some (Some h, ?nxt)"
    using ll_last_links[OF h(2)] by (simp add: LL_APPEND2_def h(1))
  ultimately show ?thesis using l by (intro that[of "Some h" ?nxt]) auto
qed

lemma ll_previous_links:
  "links nxt (Some a) (as @ d # bs) \<Longrightarrow> as \<noteq> [] \<Longrightarrow> d \<notin> set as \<Longrightarrow> ll_previous nxt d a = Some (last as)"
proof (induction as arbitrary: a)
  case (Cons c cs)
  then show ?case by (cases cs) (subst ll_previous.simps, auto)+
qed simp

lemma LL_DELETE2_links:
  assumes "links nxt head (as @ d # bs)" "distinct (as @ d # bs)"
  obtains head' nxt' where "LL_DELETE2 head d nxt = Some (head', nxt')" "segment nxt' head' as (nxt d)"
    "links nxt' (nxt d) bs" "\<And>b. b \<notin> set as \<Longrightarrow> nxt' b = nxt b"
proof (cases as)
  case Nil
  with assms show ?thesis by (intro that[of "nxt d" nxt]) (auto simp: LL_DELETE2_def)
next
  case (Cons h t)
  have seg: "segment nxt head as (Some d)" "links nxt (nxt d) bs" using assms(1) by (auto simp: links_append)
  have h: "head = Some h" "h \<noteq> d" using assms Cons by auto
  obtain cs c where as: "as = cs @ [c]" by (cases as rule: rev_cases) (use Cons in auto)
  have nl: "nxt c = Some d" and cs: "segment nxt head cs (Some c)" using seg(1) by (simp_all add: as segment_snoc)
  have "c \<notin> set cs" using assms(2) by (simp add: as)
  then have "segment (nxt(c := nxt d)) head as (nxt d)"
    using cs by (simp add: as segment_snoc) (subst segment_cong[where nxt' = nxt], auto)
  moreover have "links (nxt(c := nxt d)) (nxt d) bs"
    using seg(2) assms(2) by (subst links_unchanged) (auto simp: as)
  moreover have "LL_DELETE2 head d nxt = Some (head, nxt(c := nxt d))"
    using h nl ll_previous_links[of nxt h as d bs] assms Cons by (auto simp: LL_DELETE2_def as)
  ultimately show ?thesis using that[of head "nxt(c := nxt d)"] as by auto
qed

end
