(* ===== verification/Trigger_Scheduler.thy ===== *)
theory Trigger_Scheduler
  imports Linked_List Timer_Executor Trigger_Central
begin

text \<open>
  \<^verbatim>\<open>controllers/system/timer/trigger_scheduler.cpp\<close>, \<^verbatim>\<open>AngleBasedEvent\<close> of \<^verbatim>\<open>algo/event_registry.h\<close> and
  \<^verbatim>\<open>scheduleByAngle\<close> of \<^verbatim>\<open>engine_cycle/rpm_calculator.cpp\<close>: events that wait for the tooth before their
  angle, and are handed to the executor with a time when it comes. The events live in a store, one
  function from addresses for each field; the address of an event is also that of the \<^verbatim>\<open>scheduling_s\<close>
  it begins with. The state is the world of the executor, so that a callback which the executor runs
  in the middle of an operation sees and changes it as in the firmware.
\<close>

subsection \<open>State\<close>

record 'x angle_events =
  nextToothEvent :: "addr \<Rightarrow> addr option"
  eventPhase :: "addr \<Rightarrow> phase_angle"
  eventAction :: "addr \<Rightarrow> action_s"
  m_angleBasedEventsHead :: "addr option"
  ts_log :: diag_log
  outer :: 'x

definition QUEUE_LENGTH_LIMIT :: nat where "QUEUE_LENGTH_LIMIT = 1000"

subsection \<open>Events\<close>

definition setAngle :: "central_env \<Rightarrow> central \<Rightarrow> addr \<Rightarrow> phase_angle \<Rightarrow> 'x angle_events \<Rightarrow> 'x angle_events option" where
  "setAngle env tc event angle w =
     Option.bind (toTrgPhase env angle tc) (\<lambda>(p, msgs).
       Some (w\<lparr>eventPhase := (eventPhase w)(event := p), ts_log := ts_log w @ msgs\<rparr>))"

definition shouldSchedule :: "enginePhaseInfo \<Rightarrow> 'x angle_events \<Rightarrow> addr \<Rightarrow> bool" where
  "shouldSchedule phase w event = isTrgPhaseInRange (eventPhase w event) phase"

definition getAngleFromNow :: "rat \<Rightarrow> enginePhaseInfo \<Rightarrow> 'x angle_events \<Rightarrow> addr \<Rightarrow> rat" where
  "getAngleFromNow engineCycle phase w event =
     (let angleOffset = eventPhase w event - currentTrgPhase phase
      in if angleOffset < 0 then angleOffset + engineCycle else angleOffset)"

text \<open>\<^verbatim>\<open>scheduleByAngle\<close>; the duration of a degree is a number while the engine turns. The conversion to
  \<^verbatim>\<open>int32_t\<close> truncates; its result outside of 32 bits is not defined in C and wraps here.\<close>

definition USF2NT :: "rat \<Rightarrow> rat" where "USF2NT us_float = us_float * of_int US_TO_NT_MULTIPLIER"

definition scheduleByAngle ::
  "libfw \<Rightarrow> clock \<Rightarrow> 'w callbacks \<Rightarrow> rat \<Rightarrow> addr \<Rightarrow> efitick_t \<Rightarrow> rat \<Rightarrow> action_s \<Rightarrow> 'w executor \<Rightarrow> (efitick_t \<times> 'w executor) option" where
  "scheduleByAngle L clk exec oneDegreeUs timer edgeTimestamp angle action e =
     (let delayUs = oneDegreeUs * angle;
          delayNt = sint (word_of_int (c_trunc (USF2NT delayUs)) :: 32 word);
          delayedTime = edgeTimestamp + delayNt
      in Option.bind (schedule L clk exec (Some timer) delayedTime action e) (\<lambda>e. Some (delayedTime, e)))"

subsection \<open>Queueing\<close>

text \<open>The loop of \<^verbatim>\<open>assertNotInList\<close>; \<open>counter\<close> counts the elements seen.\<close>

function assertNotInList :: "(addr \<Rightarrow> addr option) \<Rightarrow> addr \<Rightarrow> nat \<Rightarrow> addr option \<Rightarrow> bool \<times> diag_log" where
  "assertNotInList nxt element counter current =
     (case current of
        None \<Rightarrow> (False, [])
      | Some c \<Rightarrow>
          let counter = counter + 1 in
          if counter > QUEUE_LENGTH_LIMIT then (False, [FirmwareError CUSTOM_ERR_LOOPED_QUEUE])
          else if c = element then (True, [Warning CUSTOM_RE_ADDING_INTO_EXECUTION_QUEUE])
          else assertNotInList nxt element counter (nxt c))"
  by pat_completeness auto
termination by (relation "measure (\<lambda>(_, _, counter, _). Suc QUEUE_LENGTH_LIMIT - counter)") auto

declare assertNotInList.simps [simp del]

text \<open>The private \<^verbatim>\<open>schedule\<close> of an event whose angle is set.\<close>

definition queue_event :: "addr \<Rightarrow> action_s \<Rightarrow> 'x angle_events \<Rightarrow> 'x angle_events option" where
  "queue_event event action w =
     (let w = w\<lparr>eventAction := (eventAction w)(event := action)\<rparr>;
          (found, msgs) = assertNotInList (nextToothEvent w) event 0 (m_angleBasedEventsHead w);
          w = w\<lparr>ts_log := ts_log w @ msgs\<rparr>
      in if found then Some w
         else Option.bind (LL_APPEND2 (m_angleBasedEventsHead w) event (nextToothEvent w))
                (\<lambda>(h, nxt). Some (w\<lparr>m_angleBasedEventsHead := h, nextToothEvent := nxt\<rparr>)))"

definition schedule_angle ::
  "central_env \<Rightarrow> central \<Rightarrow> addr \<Rightarrow> phase_angle \<Rightarrow> action_s \<Rightarrow> 'x angle_events \<Rightarrow> 'x angle_events option" where
  "schedule_angle env tc event angle action w =
     Option.bind (setAngle env tc event angle w) (queue_event event action)"

text \<open>Lifting to the executor whose world the events are.\<close>

definition on_world :: "('w \<Rightarrow> 'w option) \<Rightarrow> 'w executor \<Rightarrow> 'w executor option" where
  "on_world f e = Option.bind (f (world e)) (\<lambda>w. Some (e\<lparr>world := w\<rparr>))"

definition scheduleOrQueue ::
  "libfw \<Rightarrow> clock \<Rightarrow> 'x angle_events callbacks \<Rightarrow> central_env \<Rightarrow> central \<Rightarrow> rat \<Rightarrow>
   addr \<Rightarrow> phase_angle \<Rightarrow> action_s \<Rightarrow> enginePhaseInfo \<Rightarrow> 'x angle_events executor \<Rightarrow> (bool \<times> 'x angle_events executor) option" where
  "scheduleOrQueue L clk exec env tc oneDegreeUs event angle action phase e =
     Option.bind (on_world (setAngle env tc event angle) e) (\<lambda>e.
       if shouldSchedule phase (world e) event
       then Option.bind (scheduleByAngle L clk exec oneDegreeUs event (timestamp phase)
                           (getAngleFromNow (ce_engineCycle env) phase (world e) event) action e)
              (\<lambda>(t, e). Some (True, e))
       else Option.bind (on_world (queue_event event action) e) (\<lambda>e. Some (False, e)))"

subsection \<open>A tooth\<close>

text \<open>The body of the loop for an event that is due, after it has been taken out of the list.\<close>

definition fire_event ::
  "libfw \<Rightarrow> clock \<Rightarrow> 'x angle_events callbacks \<Rightarrow> rat \<Rightarrow> rat \<Rightarrow> enginePhaseInfo \<Rightarrow> addr \<Rightarrow>
   'x angle_events executor \<Rightarrow> 'x angle_events executor option" where
  "fire_event L clk exec oneDegreeUs engineCycle phase current e =
     Option.bind (cancel current e) (\<lambda>e.
     Option.bind (scheduleByAngle L clk exec oneDegreeUs current (timestamp phase)
                    (getAngleFromNow engineCycle phase (world e) current) (eventAction (world e) current) e)
       (\<lambda>(t, e). Some e))"

partial_function (option) phase_loop ::
  "(addr \<Rightarrow> 'x angle_events executor \<Rightarrow> 'x angle_events executor option) \<Rightarrow> enginePhaseInfo \<Rightarrow>
   addr option \<Rightarrow> addr option \<Rightarrow> addr option \<Rightarrow> 'x angle_events executor \<Rightarrow>
   (addr option \<times> addr option \<times> 'x angle_events executor) option" where
  "phase_loop fire phase current keephead keeptail e =
     (case current of
        None \<Rightarrow> Some (keephead, keeptail, e)
      | Some c \<Rightarrow>
          let tmp = nextToothEvent (world e) c in
          if shouldSchedule phase (world e) c
          then Option.bind (LL_DELETE2 keephead c (nextToothEvent (world e))) (\<lambda>(keephead, nxt).
               Option.bind (fire c (e\<lparr>world := (world e)\<lparr>nextToothEvent := nxt\<rparr>\<rparr>)) (\<lambda>e.
               phase_loop fire phase tmp keephead keeptail e))
          else phase_loop fire phase tmp keephead (Some c) e)"

declare phase_loop.simps [code] execute_pending_loop.simps [code] busy_wait.simps [code]
  find_position.simps [code] find_previous.simps [code]

text \<open>The list is detached, gone through, and what is kept goes before what has been queued meanwhile.\<close>

definition take_tooth ::
  "(addr \<Rightarrow> 'x angle_events executor \<Rightarrow> 'x angle_events executor option) \<Rightarrow> enginePhaseInfo \<Rightarrow>
   'x angle_events executor \<Rightarrow> 'x angle_events executor option" where
  "take_tooth fire phase e =
     (let keephead = m_angleBasedEventsHead (world e);
          e = e\<lparr>world := (world e)\<lparr>m_angleBasedEventsHead := None\<rparr>\<rparr>
      in Option.bind (phase_loop fire phase keephead keephead None e)
           (\<lambda>(keephead, keeptail, e).
             case keephead of
               None \<Rightarrow> Some e
             | Some k \<Rightarrow> (case keeptail of
                 None \<Rightarrow> None
               | Some t \<Rightarrow>
                   let w = world e;
                       w = w\<lparr>nextToothEvent := (nextToothEvent w)(t := m_angleBasedEventsHead w)\<rparr>
                   in Some (e\<lparr>world := w\<lparr>m_angleBasedEventsHead := keephead\<rparr>\<rparr>))))"

definition onEnginePhase ::
  "libfw \<Rightarrow> clock \<Rightarrow> 'x angle_events callbacks \<Rightarrow> rat \<Rightarrow> rat \<Rightarrow> rat \<Rightarrow> enginePhaseInfo \<Rightarrow>
   'x angle_events executor \<Rightarrow> 'x angle_events executor option" where
  "onEnginePhase L clk exec oneDegreeUs engineCycle rpm phase e =
     (if rpm = 0 then Some e
      else take_tooth (fire_event L clk exec oneDegreeUs engineCycle phase) phase e)"

end
