(* ===== verification/Scheduler_Properties.thy ===== *)
theory Scheduler_Properties
  imports Trigger_Scheduler Central_Properties
begin

text \<open>
  What the trigger scheduler guarantees. The contract of the executor, as the loop over the waiting
  events relies on it, is the locale \<open>angle_executor\<close>; the executor of \<open>Timer_Executor\<close> keeps it when its
  callbacks only record and queue events of their own (\<open>quiet_callbacks\<close>).
\<close>

subsection \<open>The list of waiting events\<close>

definition waiting :: "'x angle_events \<Rightarrow> addr list \<Rightarrow> bool" where
  "waiting w xs \<longleftrightarrow> links (nextToothEvent w) (m_angleBasedEventsHead w) xs \<and> distinct xs"

lemma assertNotInList_links:
  assumes "links nxt p xs" "n + length xs \<le> QUEUE_LENGTH_LIMIT"
  shows "assertNotInList nxt a n p =
    (if a \<in> set xs then (True, [Warning CUSTOM_RE_ADDING_INTO_EXECUTION_QUEUE]) else (False, []))"
  using assms
proof (induction xs arbitrary: p n)
  case Nil
  then show ?case by (subst assertNotInList.simps) simp
next
  case (Cons x xs)
  then show ?case by (subst assertNotInList.simps) auto
qed

text \<open>Queueing refines appending to the list; an event that waits already is reported and stays where it is.\<close>

lemma queue_event_waiting:
  assumes "waiting w xs" "length xs \<le> QUEUE_LENGTH_LIMIT"
  shows "\<exists>w'. queue_event a act w = Some w' \<and> waiting w' (if a \<in> set xs then xs else xs @ [a]) \<and>
    eventPhase w' = eventPhase w \<and> eventAction w' = (eventAction w)(a := act) \<and> outer w' = outer w \<and>
    ts_log w' = ts_log w @ (if a \<in> set xs then [Warning CUSTOM_RE_ADDING_INTO_EXECUTION_QUEUE] else []) \<and>
    (\<forall>b. b \<notin> set xs \<longrightarrow> b \<noteq> a \<longrightarrow> nextToothEvent w' b = nextToothEvent w b)"
proof -
  have xs: "links (nextToothEvent w) (m_angleBasedEventsHead w) xs" "distinct xs"
    using assms(1) by (auto simp: waiting_def)
  note list = assertNotInList_links[OF xs(1), of 0 a] assms(2)
  show ?thesis
  proof (cases "a \<in> set xs")
    case True
    then show ?thesis using list xs by (simp add: queue_event_def waiting_def Let_def)
  next
    case False
    obtain h nxt where "LL_APPEND2 (m_angleBasedEventsHead w) a (nextToothEvent w) = Some (h, nxt)"
      "links nxt h (xs @ [a])" "\<And>b. b \<notin> set xs \<Longrightarrow> b \<noteq> a \<Longrightarrow> nxt b = nextToothEvent w b"
      using LL_APPEND2_links[OF xs False] by blast
    then show ?thesis using list xs False by (simp add: queue_event_def waiting_def Let_def)
  qed
qed

lemma links_outside:
  "links nxt p xs \<Longrightarrow> set xs \<inter> A = {} \<Longrightarrow> (\<And>a. a \<notin> A \<Longrightarrow> nxt' a = nxt a) \<Longrightarrow> links nxt' p xs"
  using links_cong[of xs nxt' nxt p] by auto

subsection \<open>The contract of the executor\<close>

text \<open>What may happen to the events while the executor runs callbacks: events of \<open>own\<close> are appended, the
  other events are left alone.\<close>

definition queues_only :: "addr set \<Rightarrow> 'x angle_events \<Rightarrow> 'x angle_events \<Rightarrow> bool" where
  "queues_only own w w' \<longleftrightarrow>
     (\<forall>zs. waiting w zs \<longrightarrow> set zs \<subseteq> own \<longrightarrow>
        (\<exists>as. waiting w' (zs @ as) \<and> set as \<subseteq> own) \<and>
        (\<forall>a. a \<notin> own \<longrightarrow> nextToothEvent w' a = nextToothEvent w a \<and> eventPhase w' a = eventPhase w a \<and>
           eventAction w' a = eventAction w a))"

lemma queues_onlyD:
  assumes "queues_only own w w'" "waiting w zs" "set zs \<subseteq> own"
  obtains as where "waiting w' (zs @ as)" "set as \<subseteq> own"
    "\<And>a. a \<notin> own \<Longrightarrow> nextToothEvent w' a = nextToothEvent w a \<and> eventPhase w' a = eventPhase w a \<and>
       eventAction w' a = eventAction w a"
  using assms unfolding queues_only_def by blast

lemma queues_only_refl [simp]: "queues_only own w w"
  by (auto simp: queues_only_def intro: exI[of _ "[]"])

lemma queues_only_trans:
  assumes "queues_only own w w1" "queues_only own w1 w2"
  shows "queues_only own w w2"
  unfolding queues_only_def
proof (intro allI impI)
  fix zs assume zs: "waiting w zs" "set zs \<subseteq> own"
  obtain as where as: "waiting w1 (zs @ as)" "set as \<subseteq> own"
    "\<And>a. a \<notin> own \<Longrightarrow> nextToothEvent w1 a = nextToothEvent w a \<and> eventPhase w1 a = eventPhase w a \<and> eventAction w1 a = eventAction w a"
    by (rule queues_onlyD[OF assms(1) zs]) blast
  have "set (zs @ as) \<subseteq> own" using zs as by simp
  then obtain bs where "waiting w2 ((zs @ as) @ bs)" "set bs \<subseteq> own"
    "\<And>a. a \<notin> own \<Longrightarrow> nextToothEvent w2 a = nextToothEvent w1 a \<and> eventPhase w2 a = eventPhase w1 a \<and> eventAction w2 a = eventAction w1 a"
    by (rule queues_onlyD[OF assms(2) as(1)]) blast
  with as show "(\<exists>as. waiting w2 (zs @ as) \<and> set as \<subseteq> own) \<and>
      (\<forall>a. a \<notin> own \<longrightarrow> nextToothEvent w2 a = nextToothEvent w a \<and> eventPhase w2 a = eventPhase w a \<and> eventAction w2 a = eventAction w a)"
    by (auto intro!: exI[of _ "as @ bs"])
qed

lemma queues_only_fold:
  "(\<And>c w. queues_only own w (f c w)) \<Longrightarrow> queues_only own w (fold f cs w)"
  by (induction cs arbitrary: w) (auto intro: queues_only_trans)

text \<open>Handing over one event has an effect that \<open>given\<close> records: \<open>given e0 evs e\<close> says that on the way from \<open>e0\<close>
  to \<open>e\<close> the executor has been handed the entries \<open>evs\<close>, and what became of everything it holds. What is
  handed over for an event is a function of its angle and its action. No event is handed over twice.\<close>

locale angle_executor =
  fixes ok :: "'x angle_events executor \<Rightarrow> bool"
    and fire :: "addr \<Rightarrow> 'x angle_events executor \<Rightarrow> 'x angle_events executor option"
    and event_ok :: "'x angle_events \<Rightarrow> addr \<Rightarrow> bool"
    and entry :: "'x angle_events \<Rightarrow> addr \<Rightarrow> addr \<times> efitick_t \<times> action_s"
    and given :: "'x angle_events executor \<Rightarrow> (addr \<times> efitick_t \<times> action_s) list \<Rightarrow> 'x angle_events executor \<Rightarrow> bool"
    and own :: "addr set"
  assumes fire_gives: "ok e \<Longrightarrow> event_ok (world e) a \<Longrightarrow> given e0 evs e \<Longrightarrow> a \<notin> fst ` set evs \<Longrightarrow>
      \<exists>e'. fire a e = Some e' \<and> ok e' \<and> queues_only own (world e) (world e') \<and> given e0 (evs @ [entry (world e) a]) e'"
    and given_none: "given e [] e"
    and ok_links: "ok e \<Longrightarrow> ok (e\<lparr>world := (world e)\<lparr>nextToothEvent := n, m_angleBasedEventsHead := h\<rparr>\<rparr>)"
    and given_links: "given e0 evs (e\<lparr>world := (world e)\<lparr>nextToothEvent := n, m_angleBasedEventsHead := h\<rparr>\<rparr>) = given e0 evs e"
    and entry_object: "fst (entry w a) = a"
    and event_fields: "eventPhase w' a = eventPhase w a \<Longrightarrow> eventAction w' a = eventAction w a \<Longrightarrow>
      event_ok w' a = event_ok w a \<and> entry w' a = entry w a"
begin

lemma ok_next: "ok e \<Longrightarrow> ok (e\<lparr>world := (world e)\<lparr>nextToothEvent := n\<rparr>\<rparr>)"
  using ok_links[where e = e and n = n and h = "m_angleBasedEventsHead (world e)"] by simp

lemma given_next: "given e0 evs (e\<lparr>world := (world e)\<lparr>nextToothEvent := n\<rparr>\<rparr>) = given e0 evs e"
  using given_links[where e = e and n = n and h = "m_angleBasedEventsHead (world e)"] by simp

text \<open>The state of the loop: \<open>evs\<close> has been handed over since \<open>e0\<close>, \<open>ks\<close> is kept, \<open>ys\<close> is to come, \<open>zs\<close> has been
  queued meanwhile.\<close>

definition loop_state :: "'x angle_events executor \<Rightarrow> (addr \<times> efitick_t \<times> action_s) list \<Rightarrow>
    addr list \<Rightarrow> addr list \<Rightarrow> addr list \<Rightarrow> addr option \<Rightarrow> 'x angle_events executor \<Rightarrow> bool" where
  "loop_state e0 evs ks ys zs keephead e \<longleftrightarrow>
     ok e \<and> given e0 evs e \<and> links (nextToothEvent (world e)) keephead (ks @ ys) \<and> distinct (ks @ ys) \<and>
     set (ks @ ys) \<inter> own = {} \<and> waiting (world e) zs \<and> set zs \<subseteq> own \<and> (\<forall>a\<in>set ys. event_ok (world e) a) \<and>
     set ys \<inter> fst ` set evs = {}"

definition last_of :: "addr list \<Rightarrow> addr option" where
  "last_of ks = (if ks = [] then None else Some (last ks))"

definition head_of :: "addr list \<Rightarrow> addr option" where
  "head_of ys = (case ys of [] \<Rightarrow> None | y # _ \<Rightarrow> Some y)"

lemma fire_step:
  assumes "loop_state e0 evs ks (y # ys) zs keephead e"
  obtains keephead' nxt e' as where
    "LL_DELETE2 keephead y (nextToothEvent (world e)) = Some (keephead', nxt)"
    "fire y (e\<lparr>world := (world e)\<lparr>nextToothEvent := nxt\<rparr>\<rparr>) = Some e'"
    "loop_state e0 (evs @ [entry (world e) y]) ks ys (zs @ as) keephead' e'"
    "\<And>a. a \<notin> own \<Longrightarrow> eventPhase (world e') a = eventPhase (world e) a \<and> eventAction (world e') a = eventAction (world e) a"
proof -
  let ?nxt = "nextToothEvent (world e)"
  note S = assms[unfolded loop_state_def]
  have links: "links ?nxt keephead (ks @ y # ys)" "distinct (ks @ y # ys)" using S by auto
  obtain keephead' nxt where d: "LL_DELETE2 keephead y ?nxt = Some (keephead', nxt)"
    "segment nxt keephead' ks (?nxt y)" "links nxt (?nxt y) ys" "\<And>b. b \<notin> set ks \<Longrightarrow> nxt b = ?nxt b"
    by (rule LL_DELETE2_links[OF links]) auto
  let ?e = "e\<lparr>world := (world e)\<lparr>nextToothEvent := nxt\<rparr>\<rparr>"
  have "ok ?e" "given e0 evs ?e" "y \<notin> fst ` set evs"
    using S ok_next by (auto simp: given_next)
  moreover have "event_ok (world ?e) y \<and> entry (world ?e) y = entry (world e) y"
    using S event_fields[of "world ?e" y "world e"] by simp
  ultimately obtain e' where f: "fire y ?e = Some e'" "ok e'" "queues_only own (world ?e) (world e')"
    "given e0 (evs @ [entry (world e) y]) e'"
    using fire_gives[of ?e y e0 evs] by auto
  have "links nxt (m_angleBasedEventsHead (world e)) zs"
    by (rule links_outside[where A = "set ks" and nxt = ?nxt]) (use S d(4) in \<open>auto simp: waiting_def\<close>)
  then have "waiting (world ?e) zs" using S by (simp add: waiting_def)
  moreover have "set zs \<subseteq> own" using S by simp
  ultimately obtain as where as: "waiting (world e') (zs @ as)" "set as \<subseteq> own"
    and same: "\<And>a. a \<notin> own \<Longrightarrow> nextToothEvent (world e') a = nextToothEvent (world ?e) a \<and>
      eventPhase (world e') a = eventPhase (world ?e) a \<and> eventAction (world e') a = eventAction (world ?e) a"
    by (rule queues_onlyD[OF f(3)]) blast
  then have other: "nextToothEvent (world e') a = nxt a" "eventPhase (world e') a = eventPhase (world e) a"
    "eventAction (world e') a = eventAction (world e) a" if "a \<notin> own" for a
    using that by auto
  have "links nxt keephead' (ks @ ys)" using d(2,3) by (auto simp: links_append)
  then have "links (nextToothEvent (world e')) keephead' (ks @ ys)"
    by (rule links_outside[OF _ _ other(1)]) (use S in auto)
  moreover have "\<forall>a\<in>set ys. event_ok (world e') a"
    using S other event_fields by (metis Int_iff Un_iff empty_iff list.set_intros(2) set_append)
  moreover have "set ys \<inter> fst ` set (evs @ [entry (world e) y]) = {}" using S by (auto simp: entry_object)
  ultimately have "loop_state e0 (evs @ [entry (world e) y]) ks ys (zs @ as) keephead' e'"
    unfolding loop_state_def using S f(2,4) as by auto
  from d(1) f(1) this show thesis by (rule that) (simp add: other)
qed

lemma phase_loop_result:
  assumes "loop_state e0 evs ks ys zs keephead e"
  shows "\<exists>kh e' as. phase_loop fire phase (head_of ys) keephead (last_of ks) e =
      Some (kh, last_of (ks @ filter (\<lambda>a. \<not> shouldSchedule phase (world e) a) ys), e') \<and>
    loop_state e0 (evs @ map (entry (world e)) (filter (shouldSchedule phase (world e)) ys))
      (ks @ filter (\<lambda>a. \<not> shouldSchedule phase (world e) a) ys) [] (zs @ as) kh e'"
  using assms
proof (induction ys arbitrary: evs ks zs keephead e)
  case Nil
  then show ?case by (subst phase_loop.simps) (auto simp: head_of_def intro!: exI[of _ "[]"])
next
  case (Cons y ys)
  have tmp: "nextToothEvent (world e) y = head_of ys"
    using Cons.prems by (cases ys) (auto simp: loop_state_def links_append head_of_def)
  show ?case
  proof (cases "shouldSchedule phase (world e) y")
    case False
    have "loop_state e0 evs (ks @ [y]) ys zs keephead e" using Cons.prems by (auto simp: loop_state_def)
    from Cons.IH[OF this] show ?thesis
      using False tmp by (subst phase_loop.simps) (simp add: head_of_def last_of_def)
  next
    case True
    obtain keephead' nxt e1 bs where f:
      "LL_DELETE2 keephead y (nextToothEvent (world e)) = Some (keephead', nxt)"
      "fire y (e\<lparr>world := (world e)\<lparr>nextToothEvent := nxt\<rparr>\<rparr>) = Some e1"
      "loop_state e0 (evs @ [entry (world e) y]) ks ys (zs @ bs) keephead' e1"
      "\<And>a. a \<notin> own \<Longrightarrow> eventPhase (world e1) a = eventPhase (world e) a \<and> eventAction (world e1) a = eventAction (world e) a"
      by (rule fire_step[OF Cons.prems]) (erule (2) that, blast)
    have no: "a \<notin> own" if "a \<in> set ys" for a using Cons.prems that by (auto simp: loop_state_def)
    have same: "shouldSchedule phase (world e1) a = shouldSchedule phase (world e) a"
      "entry (world e1) a = entry (world e) a" if "a \<in> set ys" for a
      using f(4)[OF no[OF that]] event_fields[of "world e1" a "world e"] by (simp_all add: shouldSchedule_def)
    have filt: "filter (\<lambda>a. \<not> shouldSchedule phase (world e1) a) ys = filter (\<lambda>a. \<not> shouldSchedule phase (world e) a) ys"
      "filter (shouldSchedule phase (world e1)) ys = filter (shouldSchedule phase (world e)) ys"
      using same(1) by (auto intro: filter_cong)
    have img: "map (entry (world e1)) (filter (shouldSchedule phase (world e)) ys) =
        map (entry (world e)) (filter (shouldSchedule phase (world e)) ys)"
      using same(2) by auto
    have "phase_loop fire phase (head_of (y # ys)) keephead (last_of ks) e =
        phase_loop fire phase (head_of ys) keephead' (last_of ks) e1"
      using True tmp f(1,2) by (subst phase_loop.simps) (simp add: head_of_def)
    then show ?thesis
      using Cons.IH[OF f(3)] True unfolding filt img by auto
  qed
qed

lemma take_tooth_result:
  assumes "ok e" "waiting (world e) xs" "set xs \<inter> own = {}" "\<forall>a\<in>set xs. event_ok (world e) a"
  shows "\<exists>e' as. take_tooth fire phase e = Some e' \<and> set as \<subseteq> own \<and>
    waiting (world e') (filter (\<lambda>a. \<not> shouldSchedule phase (world e) a) xs @ as) \<and>
    given e (map (entry (world e)) (filter (shouldSchedule phase (world e)) xs)) e'"
proof -
  let ?keep = "filter (\<lambda>a. \<not> shouldSchedule phase (world e) a) xs"
  let ?evs = "map (entry (world e)) (filter (shouldSchedule phase (world e)) xs)"
  let ?e = "e\<lparr>world := (world e)\<lparr>m_angleBasedEventsHead := None\<rparr>\<rparr>"
  have e: "?e = e\<lparr>world := (world e)\<lparr>nextToothEvent := nextToothEvent (world e), m_angleBasedEventsHead := None\<rparr>\<rparr>"
    by simp
  have E: "ok ?e" "given e [] ?e"
    unfolding e using ok_links[OF assms(1)] given_none by (simp_all only: given_links)
  have sch: "shouldSchedule phase (world ?e) = shouldSchedule phase (world e)" by (simp add: shouldSchedule_def fun_eq_iff)
  have fields: "event_ok (world ?e) a = event_ok (world e) a \<and> entry (world ?e) a = entry (world e) a" for a
    by (rule event_fields) simp_all
  then have entries: "entry (world ?e) = entry (world e)" by blast
  have "loop_state e [] [] xs [] (m_angleBasedEventsHead (world e)) ?e"
    unfolding loop_state_def using assms E fields by (auto simp: waiting_def)
  from phase_loop_result[OF this, of phase, unfolded sch entries] obtain kh e1 as where
    r: "phase_loop fire phase (head_of xs) (m_angleBasedEventsHead (world e)) (last_of []) ?e = Some (kh, last_of ?keep, e1)"
    "loop_state e ?evs ?keep [] as kh e1"
    by auto
  have head: "head_of xs = m_angleBasedEventsHead (world e)" using assms(2) by (cases xs) (auto simp: waiting_def head_of_def)
  have l: "links (nextToothEvent (world e1)) kh ?keep" "waiting (world e1) as" "set as \<subseteq> own" "set ?keep \<inter> own = {}" "distinct ?keep"
    "given e ?evs e1"
    using r(2) by (auto simp: loop_state_def)
  show ?thesis
  proof (cases kh)
    case None
    then have k: "?keep = []" using l(1) by simp
    have "take_tooth fire phase e = Some e1"
      using r(1) None by (simp add: take_tooth_def Let_def head last_of_def)
    then show ?thesis using l unfolding k by auto
  next
    case (Some k)
    then have ne: "?keep \<noteq> []" using l(1) by auto
    let ?w = "(world e1)\<lparr>nextToothEvent := (nextToothEvent (world e1))(last ?keep := m_angleBasedEventsHead (world e1)),
      m_angleBasedEventsHead := kh\<rparr>"
    have t: "take_tooth fire phase e = Some (e1\<lparr>world := ?w\<rparr>)"
      using r(1) Some ne by (simp add: take_tooth_def Let_def head last_of_def)
    have "last ?keep \<notin> set as" using l(3,4) last_in_set[OF ne] by blast
    then have "waiting ?w (?keep @ as)"
      using links_relink_last[OF l(1) ne l(5)] l(2-5) by (auto simp: waiting_def links_append)
    then show ?thesis using t l(3,6) by (intro exI[of _ "e1\<lparr>world := ?w\<rparr>"] exI[of _ as]) (simp add: given_links)
  qed
qed

end

subsection \<open>The executor keeps the contract\<close>

text \<open>The entry of a due event: its object, the time of its angle, counted from the tooth, and its action.\<close>

definition due_entry :: "rat \<Rightarrow> rat \<Rightarrow> enginePhaseInfo \<Rightarrow> 'x angle_events \<Rightarrow> addr \<Rightarrow> addr \<times> efitick_t \<times> action_s" where
  "due_entry oneDegreeUs engineCycle phase w a =
     (a, timestamp phase + sint (word_of_int (c_trunc (USF2NT (oneDegreeUs * getAngleFromNow engineCycle phase w a))) :: 32 word),
      eventAction w a)"

text \<open>Callbacks that leave the executor alone, are noted in \<open>outer\<close>, and queue events of \<open>own\<close> only, while the
  engine turns fast enough for a cycle to take less than the ten seconds the executor accepts.\<close>

locale quiet_callbacks =
  fixes L :: libfw and clk :: clock and f :: "efitick_t \<times> action_s \<Rightarrow> action_s list angle_events \<Rightarrow> action_s list angle_events"
    and own :: "addr set" and oneDegreeUs engineCycle :: rat and phase :: enginePhaseInfo and late :: int
  assumes lib: "libfw_ok L" and clock: "clock_advances clk"
    and f_queues: "queues_only own w (f c w)" and f_notes: "outer (f c w) = outer w @ [snd c]"
    and degree: "0 \<le> oneDegreeUs" "oneDegreeUs * engineCycle < 10000000"
    and angles: "0 \<le> currentTrgPhase phase" "currentTrgPhase phase < engineCycle"
begin

definition turning :: "action_s list angle_events executor \<Rightarrow> bool" where
  "turning e \<longleftrightarrow> reachable late (exec_queue e) \<and> timestamp phase \<le> clk (reads e)"

definition fires :: "addr \<Rightarrow> action_s list angle_events executor \<Rightarrow> action_s list angle_events executor option" where
  "fires = fire_event L clk (quiet_call f clk) oneDegreeUs engineCycle phase"

definition queueable :: "action_s list angle_events \<Rightarrow> addr \<Rightarrow> bool" where
  "queueable w a \<longleftrightarrow> POOL_SIZE \<le> a \<and> is_scheduled (eventAction w a) \<and> 0 \<le> eventPhase w a \<and> eventPhase w a < engineCycle"

text \<open>What becomes of what the executor holds while it is handed \<open>evs\<close>: with \<open>ran\<close> what has run, each entry when the
  clock had reached its time, and \<open>cancelled\<close> what was taken back, every entry is accounted for. Only entries
  of the objects of \<open>evs\<close> are taken back, and these objects hold nothing but what they were handed.\<close>

definition given :: "action_s list angle_events executor \<Rightarrow> (addr \<times> efitick_t \<times> action_s) list \<Rightarrow>
    action_s list angle_events executor \<Rightarrow> bool" where
  "given e0 evs e \<longleftrightarrow> (\<exists>ran cancelled calls.
     mset ran + mset (entries (exec_queue e)) + cancelled = mset (entries (exec_queue e0)) + mset evs \<and>
     cancelled \<subseteq># filter_mset (\<lambda>en. fst en \<in> fst ` set evs) (mset (entries (exec_queue e0))) \<and>
     (\<forall>en \<in> set (entries (exec_queue e)). fst en \<in> fst ` set evs \<longrightarrow> en \<in> set evs) \<and>
     outer (world e) = outer (world e0) @ map snd calls \<and> ran_in_time (map snd ran) calls)"

lemma angle_from_now:
  assumes "queueable w a"
  shows "0 \<le> getAngleFromNow engineCycle phase w a" "getAngleFromNow engineCycle phase w a < engineCycle"
  using assms angles by (auto simp: getAngleFromNow_def queueable_def Let_def)

lemma delay_bounds:
  assumes "queueable w a"
  defines "d \<equiv> sint (word_of_int (c_trunc (USF2NT (oneDegreeUs * getAngleFromNow engineCycle phase w a))) :: 32 word)"
  shows "d < TOO_FAR_INTO_FUTURE_NT"
proof -
  let ?x = "oneDegreeUs * getAngleFromNow engineCycle phase w a"
  have "0 \<le> ?x" using degree angle_from_now[OF assms(1)] by simp
  moreover have "?x \<le> oneDegreeUs * engineCycle"
    using degree(1) angle_from_now(2)[OF assms(1)] by (intro mult_left_mono) auto
  ultimately have x: "0 \<le> USF2NT ?x" "USF2NT ?x < 40000000"
    using degree(2) by (auto simp: USF2NT_def US_TO_NT_MULTIPLIER_def)
  then have t: "0 \<le> c_trunc (USF2NT ?x)" "c_trunc (USF2NT ?x) < 40000000"
    by (auto simp: c_trunc_def floor_less_iff)
  then have "d = c_trunc (USF2NT ?x)"
    unfolding d_def by (simp add: signed_of_int signed_take_bit_int_eq_self)
  then show ?thesis using t by (simp add: TOO_FAR_INTO_FUTURE_NT_def US2NT_def US_TO_NT_MULTIPLIER_def)
qed

lemma outer_fold: "outer (fold f cs w) = outer w @ map snd cs"
  by (induction cs arbitrary: w) (auto simp: f_notes)

lemma given_step:
  assumes "given e0 evs e" "a \<notin> fst ` set evs"
    and "entries q = filter (\<lambda>en. fst en \<noteq> a) (entries (exec_queue e))"
    and "add_mset (a, t, act) (mset (entries q)) = mset es + mset (entries (exec_queue e'))"
    and "outer (world e') = outer (world e) @ map snd cs" "ran_in_time (map snd es) cs"
  shows "given e0 (evs @ [(a, t, act)]) e'"
proof -
  let ?new = "(a, t, act)" and ?E0 = "mset (entries (exec_queue e0))"
  let ?old = "filter_mset (\<lambda>en. fst en = a)"
  obtain ran cancelled calls where g:
    "mset ran + mset (entries (exec_queue e)) + cancelled = ?E0 + mset evs"
    "cancelled \<subseteq># filter_mset (\<lambda>en. fst en \<in> fst ` set evs) ?E0"
    "\<forall>en \<in> set (entries (exec_queue e)). fst en \<in> fst ` set evs \<longrightarrow> en \<in> set evs"
    "outer (world e) = outer (world e0) @ map snd calls" "ran_in_time (map snd ran) calls"
    using assms(1) unfolding given_def by blast
  define c where "c = ?old (mset (entries (exec_queue e)))"
  have split: "mset (entries (exec_queue e)) = mset (entries q) + c"
    using multiset_partition[of "mset (entries (exec_queue e))" "\<lambda>en. fst en = a"]
    by (simp add: assms(3) c_def union_commute)
  have none: "?old (mset evs) = {#}"
    using assms(2) mset_filter[of "\<lambda>en. fst en = a" evs, symmetric] by (force simp: filter_empty_conv)
  have "?old (mset ran) + c + ?old cancelled = ?old ?E0"
    using arg_cong[OF g(1), of ?old] none by (simp add: c_def)
  then have "?old ?E0 = c + (?old (mset ran) + ?old cancelled)" by (simp only: ac_simps)
  then have c_old: "c \<subseteq># ?old ?E0" by (simp only: mset_subset_eq_add_left)
  have "mset (ran @ es) + mset (entries (exec_queue e')) + (cancelled + c) = ?E0 + mset (evs @ [?new])"
  proof -
    have "mset (ran @ es) + mset (entries (exec_queue e')) + (cancelled + c) =
        (mset es + mset (entries (exec_queue e'))) + (mset ran + cancelled + c)"
      by (simp add: ac_simps)
    also have "\<dots> = add_mset ?new (mset ran + mset (entries (exec_queue e)) + cancelled)"
      unfolding assms(4)[symmetric] split by (simp add: ac_simps)
    finally show ?thesis unfolding g(1) by simp
  qed
  moreover have "cancelled + c \<subseteq># filter_mset (\<lambda>en. fst en \<in> fst ` set (evs @ [?new])) ?E0"
  proof -
    have "filter_mset (\<lambda>en. fst en \<in> fst ` set (evs @ [?new])) ?E0 =
        filter_mset (\<lambda>en. fst en \<in> fst ` set evs) ?E0 + ?old ?E0"
      using assms(2) by (intro multiset_eqI) auto
    then show ?thesis using subset_mset.add_mono[OF g(2) c_old] by simp
  qed
  moreover have "\<forall>en \<in> set (entries (exec_queue e')). fst en \<in> fst ` set (evs @ [?new]) \<longrightarrow> en \<in> set (evs @ [?new])"
  proof
    fix en assume "en \<in> set (entries (exec_queue e'))"
    then have "en \<in># add_mset ?new (mset (entries q))" by (simp add: assms(4))
    then have "en = ?new \<or> en \<in> set (entries (exec_queue e)) \<and> fst en \<noteq> a" by (auto simp: assms(3))
    then show "fst en \<in> fst ` set (evs @ [?new]) \<longrightarrow> en \<in> set (evs @ [?new])"
      using g(3) by auto
  qed
  moreover have "outer (world e') = outer (world e0) @ map snd (calls @ cs)" using assms(5) g(4) by simp
  moreover have "ran_in_time (map snd (ran @ es)) (calls @ cs)"
    using g(5) assms(6) by (simp add: ran_in_time_def list_all2_appendI)
  ultimately show ?thesis unfolding given_def by blast
qed

text \<open>Handing over an event: an entry that its object still has is cancelled, the event gets the time of its
  angle, and the executor runs what has become due.\<close>

lemma fires_runs:
  assumes "turning e" "queueable (world e) a"
  obtains e' q es cs where "fires a e = Some e'" "turning e'" "world e' = fold f cs (world e)"
    "entries q = filter (\<lambda>en. fst en \<noteq> a) (entries (exec_queue e))"
    "add_mset (due_entry oneDegreeUs engineCycle phase (world e) a) (mset (entries q)) = mset es + mset (entries (exec_queue e'))"
    "ran_in_time (map snd es) cs"
proof -
  let ?act = "eventAction (world e) a"
  let ?nt = "timestamp phase + sint (word_of_int (c_trunc (USF2NT (oneDegreeUs *
    getAngleFromNow engineCycle phase (world e) a))) :: 32 word)"
  have late: "?nt < clk (reads e) + TOO_FAR_INTO_FUTURE_NT"
    using delay_bounds[OF assms(2)] assms(1) by (simp add: turning_def)
  have reach: "reachable late (exec_queue e)" and a: "POOL_SIZE \<le> a" "is_scheduled ?act"
    using assms by (auto simp: turning_def queueable_def)
  have "queue_ok (exec_queue e)"
    using reachable_inv[OF reach] by (auto simp: queue_inv_def queue_ok_def)
  then obtain q where q: "remove_task a (exec_queue e) = Some q"
    "entries q = filter (\<lambda>en. fst en \<noteq> a) (entries (exec_queue e))"
    by (rule entries_remove)
  define e1 where "e1 = e\<lparr>exec_queue := q\<rparr>"
  have e1: "exec_queue e1 = q" "world e1 = world e" "reads e1 = reads e" by (simp_all add: e1_def)
  have gone: "a \<notin> set (pending_addrs q)"
    using q(2) unfolding entries_addrs[symmetric] by auto
  have "reachable late q" by (rule reachable.removed[OF reach a(1) q(1)])
  then obtain e' es cs where S: "schedule L clk (quiet_call f clk) (Some a) ?nt ?act e1 = Some e'"
    "reachable late (exec_queue e')" "world e' = fold f cs (world e)" "ran_in_time (map snd es) cs"
    "add_mset (a, ?nt, ?act) (mset (entries q)) = mset es + mset (entries (exec_queue e'))" "reads e \<le> reads e'"
    using schedule_quiet[OF lib clock, of late e1 ?act a ?nt f] a gone late unfolding e1 by metis
  show thesis
  proof (rule that)
    show "fires a e = Some e'"
      using S(1) q(1) by (simp add: fires_def fire_event_def scheduleByAngle_def cancel_def e1_def Let_def)
    show "turning e'"
      using S(2,6) assms(1) clock by (auto simp: turning_def clock_advances_def mono_def intro: order_trans)
    show "world e' = fold f cs (world e)" by (rule S)
    show "add_mset (due_entry oneDegreeUs engineCycle phase (world e) a) (mset (entries q)) = mset es + mset (entries (exec_queue e'))"
      using S(5) by (simp add: due_entry_def)
  qed (use q S in simp_all)
qed

lemma fires_gives:
  assumes "turning e" "queueable (world e) a" "given e0 evs e" "a \<notin> fst ` set evs"
  shows "\<exists>e'. fires a e = Some e' \<and> turning e' \<and> queues_only own (world e) (world e') \<and>
    given e0 (evs @ [due_entry oneDegreeUs engineCycle phase (world e) a]) e'"
proof -
  obtain e' q es cs where F: "fires a e = Some e'" "turning e'" "world e' = fold f cs (world e)"
    "entries q = filter (\<lambda>en. fst en \<noteq> a) (entries (exec_queue e))"
    "add_mset (due_entry oneDegreeUs engineCycle phase (world e) a) (mset (entries q)) = mset es + mset (entries (exec_queue e'))"
    "ran_in_time (map snd es) cs"
    by (rule fires_runs[OF assms(1,2)])
  have "given e0 (evs @ [due_entry oneDegreeUs engineCycle phase (world e) a]) e'"
    unfolding due_entry_def
    by (rule given_step[OF assms(3,4) F(4) F(5)[unfolded due_entry_def] _ F(6)]) (simp add: F(3) outer_fold)
  moreover have "queues_only own (world e) (world e')"
    unfolding F(3) by (rule queues_only_fold[OF f_queues])
  ultimately show ?thesis using F(1,2) by blast
qed

end

sublocale quiet_callbacks \<subseteq> executor: angle_executor turning fires queueable "due_entry oneDegreeUs engineCycle phase" given own
  by unfold_locales
    (use fires_gives in \<open>auto simp: turning_def given_def queueable_def due_entry_def getAngleFromNow_def ran_in_time_def
      intro: exI[of _ "[]"]\<close>)

context quiet_callbacks begin

lemmas tooth_given = executor.take_tooth_result

end

text \<open>An event is queued at the end of the list of waiting events. If it waits already it keeps its place,
  which is reported, and only its angle and action are new. Queueing always returns.\<close>

theorem queueing_appends:
  assumes "waiting w xs" "length xs \<le> QUEUE_LENGTH_LIMIT" "small_offsets env tc" "0 \<le> angle" "angle < ce_engineCycle env"
  shows "\<exists>w' p. schedule_angle env tc a angle act w = Some w' \<and> toTrgPhase env angle tc = Some (p, []) \<and>
    waiting w' (if a \<in> set xs then xs else xs @ [a]) \<and>
    eventPhase w' = (eventPhase w)(a := p) \<and> eventAction w' = (eventAction w)(a := act) \<and>
    ts_log w' = ts_log w @ (if a \<in> set xs then [Warning CUSTOM_RE_ADDING_INTO_EXECUTION_QUEUE] else [])"
proof -
  let ?p = "wrapped (ce_engineCycle env) (angle - engine_shift env tc)"
  have p: "toTrgPhase env angle tc = Some (?p, [])" by (rule toTrgPhase_wrapped[OF assms(3-5)])
  let ?w = "w\<lparr>eventPhase := (eventPhase w)(a := ?p)\<rparr>"
  have "waiting ?w xs" using assms(1) by (simp add: waiting_def)
  from queue_event_waiting[OF this assms(2), of a act] show ?thesis
    using p by (auto simp: schedule_angle_def setAngle_def)
qed

text \<open>C10: at a tooth every waiting event whose phase is before the next tooth is handed to the executor with
  its action and the time of its angle, each exactly once, and no other; the others keep their order,
  and what the callbacks queue meanwhile (other events) comes after them. An event may still be
  pending in the executor, as a spark is that overdwell protection has scheduled: that entry is
  cancelled, and afterwards nothing is pending for the event but the entry of its angle. Every entry
  the executor held or was handed is still pending, or has run when the clock had reached its time,
  or was such a cancelled entry. The handler returns.\<close>

theorem tooth_fires_due_events:
  assumes "libfw_ok L" "clock_advances clk" "\<And>c w. queues_only own w (f c w)" "\<And>c w. outer (f c w) = outer w @ [snd c]"
    and "0 \<le> oneDegreeUs" "oneDegreeUs * engineCycle < 10000000"
    and "0 \<le> currentTrgPhase phase" "currentTrgPhase phase < engineCycle" "rpm \<noteq> 0"
    and "reachable late (exec_queue e)" "timestamp phase \<le> clk (reads e)" "waiting (world e) xs" "set xs \<inter> own = {}"
    and "\<forall>a\<in>set xs. POOL_SIZE \<le> a \<and> is_scheduled (eventAction (world e) a) \<and>
      0 \<le> eventPhase (world e) a \<and> eventPhase (world e) a < engineCycle"
    and "due = filter (shouldSchedule phase (world e)) xs"
    and "handed = map (due_entry oneDegreeUs engineCycle phase (world e)) due"
  shows "\<exists>e' as ran cancelled calls. onEnginePhase L clk (quiet_call f clk) oneDegreeUs engineCycle rpm phase e = Some e' \<and>
    waiting (world e') (filter (\<lambda>a. \<not> shouldSchedule phase (world e) a) xs @ as) \<and> set as \<subseteq> own \<and>
    mset ran + mset (entries (exec_queue e')) + cancelled = mset (entries (exec_queue e)) + mset handed \<and>
    cancelled \<subseteq># filter_mset (\<lambda>en. fst en \<in> set due) (mset (entries (exec_queue e))) \<and>
    (\<forall>en \<in> set (entries (exec_queue e')). fst en \<in> set due \<longrightarrow> en \<in> set handed) \<and>
    outer (world e') = outer (world e) @ map snd calls \<and> ran_in_time (map snd ran) calls"
proof -
  have q: "quiet_callbacks L clk f own oneDegreeUs engineCycle phase"
    using assms by unfold_locales auto
  note defs = quiet_callbacks.turning_def[OF q] quiet_callbacks.fires_def[OF q] quiet_callbacks.queueable_def[OF q]
  have objects: "fst ` set handed = set due"
    by (simp add: assms(16) due_entry_def image_image)
  obtain e' as where "take_tooth (quiet_callbacks.fires L clk f oneDegreeUs engineCycle phase) phase e = Some e'"
    "set as \<subseteq> own" "waiting (world e') (filter (\<lambda>a. \<not> shouldSchedule phase (world e) a) xs @ as)"
    "quiet_callbacks.given e handed e'"
    using quiet_callbacks.tooth_given[OF q, of late e xs phase] assms by (auto simp: defs)
  then show ?thesis
    using assms(9) unfolding onEnginePhase_def defs quiet_callbacks.given_def[OF q] objects by auto
qed

subsection \<open>An event queued while it is in the detached list\<close>

lemma ll_last_self:
  assumes "ll_last nxt a = Some r"
  shows "nxt a \<noteq> Some a"
proof (rule ll_last.raw_induct[OF _ assms, where P = "\<lambda>nxt a r. nxt a \<noteq> Some a"])
  fix loop :: "('a \<Rightarrow> 'a option) \<Rightarrow> 'a \<Rightarrow> 'a option" and nxt a r
  assume IH: "\<And>nxt a r. loop nxt a = Some r \<Longrightarrow> nxt a \<noteq> Some a"
    and body: "(case nxt a of None \<Rightarrow> Some a | Some n \<Rightarrow> loop nxt n) = Some r"
  show "nxt a \<noteq> Some a"
  proof
    assume "nxt a = Some a"
    with body have "loop nxt a = Some r" by simp
    with IH \<open>nxt a = Some a\<close> show False by blast
  qed
qed

lemma assertNotInList_self:
  assumes "nxt b = Some b" "b \<noteq> c" "n \<le> QUEUE_LENGTH_LIMIT"
  shows "assertNotInList nxt c n (Some b) = (False, [FirmwareError CUSTOM_ERR_LOOPED_QUEUE])"
  using assms(3)
proof (induction "QUEUE_LENGTH_LIMIT - n" arbitrary: n)
  case 0
  then show ?case by (subst assertNotInList.simps) (simp add: assms)
next
  case (Suc k)
  then have "assertNotInList nxt c (Suc n) (Some b) = (False, [FirmwareError CUSTOM_ERR_LOOPED_QUEUE])"
    by (intro Suc.hyps(1)) auto
  with Suc show ?case by (subst assertNotInList.simps) (simp add: assms)
qed

lemma queue_event_self:
  assumes "m_angleBasedEventsHead w = Some b" "nextToothEvent w b = Some b" "c \<noteq> b"
  shows "queue_event c act w = None"
proof -
  have "ll_last ((nextToothEvent w)(c := None)) b = None"
    using ll_last_self[of "(nextToothEvent w)(c := None)" b] assms(2,3) by (cases "ll_last ((nextToothEvent w)(c := None)) b") auto
  then show ?thesis
    using assertNotInList_self[of "nextToothEvent w" b c 0] assms by (simp add: queue_event_def LL_APPEND2_def Let_def)
qed

text \<open>C11: the list that is gone through is detached, so the check for an event that waits already does not see
  it. When the executor, called for a due event, runs a callback that queues the event behind it,
  the list ends up as that one event linked to itself: the events that waited after it are lost,
  and queueing any other event never returns.\<close>

theorem requeued_waiting_event_loops:
  assumes "waiting (world e) (a # b # xs)" "shouldSchedule phase (world e) a" "\<not> shouldSchedule phase (world e) b"
    and "rpm \<noteq> 0" "c \<noteq> b"
    and "fire_event L clk exec oneDegreeUs engineCycle phase a (e\<lparr>world := (world e)\<lparr>m_angleBasedEventsHead := None\<rparr>\<rparr>) = Some e2"
    and "queue_event b act ((world e)\<lparr>m_angleBasedEventsHead := None\<rparr>) = Some w2" "world e2 = w2\<lparr>outer := out\<rparr>"
  shows "\<exists>e'. onEnginePhase L clk exec oneDegreeUs engineCycle rpm phase e = Some e' \<and>
    m_angleBasedEventsHead (world e') = Some b \<and> nextToothEvent (world e') b = Some b \<and>
    queue_event c act' (world e') = None"
proof -
  let ?fire = "fire_event L clk exec oneDegreeUs engineCycle phase"
  let ?e = "e\<lparr>world := (world e)\<lparr>m_angleBasedEventsHead := None\<rparr>\<rparr>"
  have links: "m_angleBasedEventsHead (world e) = Some a" "nextToothEvent (world e) a = Some b"
    using assms(1) by (auto simp: waiting_def)
  have q: "m_angleBasedEventsHead (world e2) = Some b" "nextToothEvent (world e2) b = None"
    "eventPhase (world e2) = eventPhase (world e)"
    using assms(7,8) by (simp_all add: queue_event_def assertNotInList.simps[of _ _ _ None] LL_APPEND2_def Let_def)
      (drule sym, simp)+
  have due: "shouldSchedule phase (world ?e) a" "\<not> shouldSchedule phase (world e2) b"
    using assms(2,3) q(3) by (simp_all add: shouldSchedule_def)
  have same: "?e\<lparr>world := (world ?e)\<lparr>nextToothEvent := nextToothEvent (world ?e)\<rparr>\<rparr> = ?e" by simp
  have "phase_loop ?fire phase (Some a) (Some a) None ?e = phase_loop ?fire phase (Some b) (Some b) None e2"
    using due(1) links assms(6) by (subst phase_loop.simps) (simp add: LL_DELETE2_def)
  also have "\<dots> = Some (Some b, Some b, e2)"
    using due(2) q(2) by (subst phase_loop.simps, simp, subst phase_loop.simps, simp)
  finally have "onEnginePhase L clk exec oneDegreeUs engineCycle rpm phase e =
      Some (e2\<lparr>world := (world e2)\<lparr>nextToothEvent := (nextToothEvent (world e2))(b := Some b), m_angleBasedEventsHead := Some b\<rparr>\<rparr>)"
    using links(1) assms(4) q(1) by (simp add: onEnginePhase_def take_tooth_def Let_def)
  moreover have "queue_event c act' ((world e2)\<lparr>nextToothEvent := (nextToothEvent (world e2))(b := Some b),
      m_angleBasedEventsHead := Some b\<rparr>) = None"
    by (rule queue_event_self[where b = b]) (use assms(5) in simp_all)
  ultimately show ?thesis by auto
qed


subsection \<open>Examples\<close>

text \<open>Callback 7 queues the event that its parameter names.\<close>

definition note_call :: "efitick_t \<times> action_s \<Rightarrow> action_s list angle_events \<Rightarrow> action_s list angle_events" where
  "note_call c w =
     (let a = snd c;
          w = (if m_callback a = Some 7 \<and> m_param a \<in> {200..<300}
               then (case queue_event (m_param a) (example_action 1) w of Some w' \<Rightarrow> w' | None \<Rightarrow> w) else w)
      in w\<lparr>outer := outer w @ [a]\<rparr>)"

lemma note_call_queues: "queues_only {200..<300} w (note_call c w)"
  unfolding queues_only_def
proof (intro allI impI)
  fix zs assume zs: "waiting w zs" "set zs \<subseteq> {200..<300}"
  then have "length zs \<le> card {200..<300::nat}"
    using card_mono[of "{200..<300::nat}" "set zs"] by (simp add: waiting_def distinct_card)
  then have len: "length zs \<le> QUEUE_LENGTH_LIMIT" by (simp add: QUEUE_LENGTH_LIMIT_def)
  show "(\<exists>as. waiting (note_call c w) (zs @ as) \<and> set as \<subseteq> {200..<300}) \<and>
     (\<forall>a. a \<notin> {200..<300} \<longrightarrow> nextToothEvent (note_call c w) a = nextToothEvent w a \<and>
       eventPhase (note_call c w) a = eventPhase w a \<and> eventAction (note_call c w) a = eventAction w a)"
  proof (cases "m_callback (snd c) = Some 7 \<and> m_param (snd c) \<in> {200..<300}")
    case True
    obtain w' where w': "queue_event (m_param (snd c)) (example_action 1) w = Some w'"
      "waiting w' (if m_param (snd c) \<in> set zs then zs else zs @ [m_param (snd c)])" "eventPhase w' = eventPhase w"
      "eventAction w' = (eventAction w)(m_param (snd c) := example_action 1)"
      "\<forall>b. b \<notin> set zs \<longrightarrow> b \<noteq> m_param (snd c) \<longrightarrow> nextToothEvent w' b = nextToothEvent w b"
      using queue_event_waiting[OF zs(1) len, of "m_param (snd c)" "example_action 1"] by blast
    have n: "note_call c w = w'\<lparr>outer := outer w' @ [snd c]\<rparr>" using True w'(1) by (simp add: note_call_def Let_def)
    have "\<exists>as. waiting (note_call c w) (zs @ as) \<and> set as \<subseteq> {200..<300}"
    proof (cases "m_param (snd c) \<in> set zs")
      case True
      with w'(2) show ?thesis by (intro exI[of _ "[]"]) (simp add: n waiting_def)
    next
      case False
      with w'(2) \<open>m_callback (snd c) = Some 7 \<and> m_param (snd c) \<in> {200..<300}\<close> show ?thesis
        by (intro exI[of _ "[m_param (snd c)]"]) (simp add: n waiting_def)
    qed
    then show ?thesis using w'(3-5) zs(2) True by (auto simp: n)
  next
    case False
    then have "note_call c w = w\<lparr>outer := outer w @ [snd c]\<rparr>" unfolding note_call_def Let_def by (simp only: if_False)
    then show ?thesis using zs by (auto simp: waiting_def intro!: exI[of _ "[]"])
  qed
qed

lemma note_call_notes: "outer (note_call c w) = outer w @ [snd c]"
proof -
  have "outer w' = outer w" if "queue_event a act w = Some w'" for a act w'
    using that by (auto simp: queue_event_def Let_def bind_eq_Some_conv split: prod.splits if_splits)
  then show ?thesis by (auto simp: note_call_def Let_def split: option.split)
qed

definition example_phase :: enginePhaseInfo where
  "example_phase = \<lparr>timestamp = 900, currentTrgPhase = 0, nextTrgPhase = 180, currentEngPhase = 0, nextEngPhase = 180\<rparr>"

interpretation example_quiet: quiet_callbacks libfw_example int note_call "{200..<300}" 100 720 example_phase executor_late
  by unfold_locales
    (simp_all add: libfw_example_ok example_clock note_call_queues note_call_notes example_phase_def)

text \<open>Events 301, 201 and 302 wait for phases 10, 300 and 400.\<close>

definition example_events :: "action_s list angle_events" where
  "example_events = \<lparr>nextToothEvent = (\<lambda>a. if a = 301 then Some 201 else if a = 201 then Some 302 else None),
     eventPhase = (\<lambda>a. if a = 301 then 10 else if a = 201 then 300 else 400),
     eventAction = (\<lambda>a. if a = 301 then \<lparr>m_callback = Some 7, m_param = 201\<rparr> else example_action 2),
     m_angleBasedEventsHead = Some 301, ts_log = [], outer = []\<rparr>"

definition example_angle_executor :: "action_s list angle_events executor" where
  "example_angle_executor = \<lparr>exec_queue = EventQueue 32 blank_store, reentrantFlag = False, timerCallbackCounter = 0,
     scheduleCounter = 0, maxExecuteCounter = 0, executeCounter = 0,
     executeAllPendingActionsInvocationCounter = 0, lock_held = False, reads = 5000,
     hw = hw example_executor, exec_log = [], world = example_events\<rparr>"

lemma queueing_appends_witness:
  "\<exists>w' p. schedule_angle example_central_env TriggerCentral 303 90 (example_action 1) example_events = Some w' \<and>
    toTrgPhase example_central_env 90 TriggerCentral = Some (p, []) \<and> waiting w' [301, 201, 302, 303]"
proof -
  have "waiting example_events [301, 201, 302]" by (simp add: waiting_def example_events_def)
  from queueing_appends[OF this, of example_central_env TriggerCentral 90 303 "example_action 1"] show ?thesis
    by (auto simp: QUEUE_LENGTH_LIMIT_def small_offsets_def example_central_env_def example_config_def blank_waveform_def)
qed

lemma example_angle_executor_reachable:
  "reachable executor_late (exec_queue example_angle_executor)"
  "timestamp example_phase \<le> int (reads example_angle_executor)"
  using example_empty_reachable
  by (simp_all add: example_angle_executor_def example_phase_def executor_late_def US2NT_def US_TO_NT_MULTIPLIER_def)

lemma requeued_waiting_event_loops_witness:
  "\<exists>e'. onEnginePhase libfw_example int (quiet_call note_call int) 100 720 1000 example_phase example_angle_executor = Some e' \<and>
    m_angleBasedEventsHead (world e') = Some 201 \<and> nextToothEvent (world e') 201 = Some 201 \<and>
    queue_event 303 (example_action 1) (world e') = None"
proof -
  let ?w = "example_events\<lparr>m_angleBasedEventsHead := None\<rparr>"
  let ?a = "\<lparr>m_callback = Some 7, m_param = 201\<rparr>"
  let ?fire = "fire_event libfw_example int (quiet_call note_call int) 100 720 example_phase 301 (example_angle_executor\<lparr>world := ?w\<rparr>)"
  have "case ?fire of None \<Rightarrow> False | Some e2 \<Rightarrow> outer (world e2) = [?a]" by code_simp
  then obtain e2 where e2: "?fire = Some e2" "outer (world e2) = [?a]" by (auto split: option.splits)
  obtain cs where cs: "world e2 = fold note_call cs ?w"
    by (rule example_quiet.fires_runs[of "example_angle_executor\<lparr>world := ?w\<rparr>" 301,
        unfolded example_quiet.turning_def example_quiet.fires_def example_quiet.queueable_def])
      (use example_angle_executor_reachable e2(1) in
        \<open>auto simp: example_events_def POOL_SIZE_def is_scheduled_def\<close>)
  have "map snd cs = [?a]" using e2(2) by (simp add: cs example_quiet.outer_fold example_events_def)
  then obtain t where "cs = [(t, ?a)]" by (cases cs) auto
  then have w: "world e2 = note_call (t, ?a) ?w" by (simp add: cs)
  obtain w2 where q: "queue_event 201 (example_action 1) ?w = Some w2"
    by (simp add: queue_event_def assertNotInList.simps[of _ _ _ None] LL_APPEND2_def Let_def example_events_def)
  have "world e2 = w2\<lparr>outer := outer w2 @ [?a]\<rparr>" by (simp add: w note_call_def q Let_def del: One_nat_def)
  note eq = this
  have we: "world example_angle_executor = example_events" by (simp add: example_angle_executor_def)
  note loops = requeued_waiting_event_loops[where e = example_angle_executor and a = 301 and b = 201 and xs = "[302]" and c = 303
      and rpm = 1000 and act' = "example_action 1", OF _ _ _ _ _ _ q[folded we] eq]
  show ?thesis
    by (rule loops[of example_phase])
      (use e2(1) in \<open>simp_all add: example_angle_executor_def example_events_def waiting_def shouldSchedule_def
        isTrgPhaseInRange_def isPhaseInRange_def example_phase_def\<close>)
qed

text \<open>Event 100 waits for phase 10, event 302 for phase 400; for event 100 the executor holds an action at 1000.\<close>

definition overdwell_events :: "action_s list angle_events" where
  "overdwell_events = example_events\<lparr>m_angleBasedEventsHead := Some 100, nextToothEvent := (\<lambda>a. if a = 100 then Some 302 else None),
     eventPhase := (\<lambda>a. if a = 100 then 10 else 400), eventAction := (\<lambda>a. example_action 2)\<rparr>"

definition overdwell_executor :: "action_s list angle_events executor" where
  "overdwell_executor = example_angle_executor\<lparr>exec_queue := example_queue, reads := 930, world := overdwell_events\<rparr>"

lemma overdwell_entries: "entries (exec_queue overdwell_executor) = [(100, 1000, example_action 1)]"
proof -
  have rep: "queue_rep example_queue [100] (rev [0..<POOL_SIZE])" by (rule example_queue_insert)
  have "pending example_queue = [(1000, example_action 1)]"
    using example_pending by (simp add: example_executor_def)
  then show ?thesis
    using pending_rep[OF rep] by (simp add: overdwell_executor_def entries_def pending_addrs_rep[OF rep])
qed

lemma tooth_fires_due_events_witness:
  "entries (exec_queue overdwell_executor) = [(100, 1000, example_action 1)] \<and>
   (\<exists>e' as. onEnginePhase libfw_example int (quiet_call note_call int) 100 720 1000 example_phase overdwell_executor = Some e' \<and>
    waiting (world e') (302 # as) \<and>
    (\<forall>en \<in> set (entries (exec_queue e')). fst en = 100 \<longrightarrow> en = (100, 4900, example_action 2)))"
proof -
  let ?e = overdwell_executor
  have due: "filter (\<lambda>a. \<not> shouldSchedule example_phase (world ?e) a) [100, 302] = [302]"
    "[100] = filter (shouldSchedule example_phase (world ?e)) [100, 302]"
    by (simp_all add: overdwell_executor_def overdwell_events_def example_events_def shouldSchedule_def
        isTrgPhaseInRange_def isPhaseInRange_def example_phase_def)
  have handed: "[(100, 4900, example_action 2)] = map (due_entry 100 720 example_phase (world ?e)) [100]"
    by (simp add: due_entry_def getAngleFromNow_def overdwell_executor_def overdwell_events_def example_phase_def
        USF2NT_def US_TO_NT_MULTIPLIER_def c_trunc_def)
  have "\<exists>e' as ran cancelled calls.
      onEnginePhase libfw_example int (quiet_call note_call int) 100 720 1000 example_phase ?e = Some e' \<and>
    waiting (world e') (filter (\<lambda>a. \<not> shouldSchedule example_phase (world ?e) a) [100, 302] @ as) \<and> set as \<subseteq> {200..<300} \<and>
    mset ran + mset (entries (exec_queue e')) + cancelled =
      mset (entries (exec_queue ?e)) + mset [(100, 4900, example_action 2)] \<and>
    cancelled \<subseteq># filter_mset (\<lambda>en. fst en \<in> set [100]) (mset (entries (exec_queue ?e))) \<and>
    (\<forall>en \<in> set (entries (exec_queue e')). fst en \<in> set [100] \<longrightarrow> en \<in> set [(100, 4900, example_action 2)]) \<and>
    outer (world e') = outer (world ?e) @ map snd calls \<and> ran_in_time (map snd ran) calls"
    by (rule tooth_fires_due_events[OF libfw_example_ok example_clock note_call_queues note_call_notes,
          where late = executor_late, OF _ _ _ _ _ _ _ _ _ _ due(2) handed])
      (use example_executor_reachable in \<open>simp_all add: example_executor_def overdwell_executor_def overdwell_events_def
         example_phase_def example_events_def waiting_def POOL_SIZE_def example_action_def is_scheduled_def\<close>)
  then show ?thesis unfolding due(1) by (auto simp: overdwell_entries)
qed

end
