(* ===== verification/Serial_Can.thy ===== *)
theory Serial_Can
  imports Containers
begin

text \<open>
  \<^verbatim>\<open>console/binary/serial_can.h\<close> and \<^verbatim>\<open>.cpp\<close>: the byte stream of the tuning software over CAN frames in the
  ISO 15765-2 protocol, with \<^verbatim>\<open>CanTxMessage\<close> of \<^verbatim>\<open>drivers/can/can_msg_tx.cpp\<close> and the listener that
  queues the frames received. Bytes are \<open>8 word\<close>; a pointer and a length are the list of the bytes from the
  pointer on. \<open>minI\<close> belongs to the \<^verbatim>\<open>libfirmware\<close> submodule and is a parameter; verbose output is left
  out, and \<^verbatim>\<open>TS_CAN_DEVICE_SHORT_PACKETS_IN_ONE_FRAME\<close>, which no board defines, is off.
\<close>

type_synonym byte = "8 word"

unbundle bit_operations_syntax

subsection \<open>Frames and the port\<close>

abbreviation (input) CAN_ECU_SERIAL_RX_ID :: "32 word" where "CAN_ECU_SERIAL_RX_ID \<equiv> 0x100"
abbreviation (input) CAN_ECU_SERIAL_TX_ID :: "32 word" where "CAN_ECU_SERIAL_TX_ID \<equiv> 0x102"
abbreviation (input) CAN_FIFO_BUF_SIZE :: "nat" where "CAN_FIFO_BUF_SIZE \<equiv> 76"
abbreviation (input) CAN_FIFO_FRAME_SIZE :: "nat" where "CAN_FIFO_FRAME_SIZE \<equiv> 8"
abbreviation (input) CAN_FLOW_STATUS_OK :: "int" where "CAN_FLOW_STATUS_OK \<equiv> 0"
abbreviation (input) CAN_FLOW_STATUS_WAIT_MORE :: "int" where "CAN_FLOW_STATUS_WAIT_MORE \<equiv> 1"
abbreviation "CUSTOM_ERR_CAN_COMMUNICATION \<equiv> ObdCode 8900"
abbreviation "CUSTOM_ERR_CAN_CONFIGURATION \<equiv> ObdCode 6109"

abbreviation (input) ISO_TP_FRAME_SINGLE :: "int" where "ISO_TP_FRAME_SINGLE \<equiv> 0"
abbreviation (input) ISO_TP_FRAME_FIRST :: "int" where "ISO_TP_FRAME_FIRST \<equiv> 1"
abbreviation (input) ISO_TP_FRAME_CONSECUTIVE :: "int" where "ISO_TP_FRAME_CONSECUTIVE \<equiv> 2"
abbreviation (input) ISO_TP_FRAME_FLOW_CONTROL :: "int" where "ISO_TP_FRAME_FLOW_CONTROL \<equiv> 3"

record can_frame =
  can_id :: "32 word"
  DLC :: byte
  data8 :: "byte list"

definition CanTxMessage :: "32 word \<Rightarrow> byte \<Rightarrow> can_frame" where
  "CanTxMessage eid dlc = \<lparr>can_id = eid, DLC = dlc, data8 = replicate 8 0\<rparr>"

text \<open>\<^verbatim>\<open>ICanStreamer\<close> on a state of its own: \<open>transmit\<close> tells whether it returned \<^verbatim>\<open>CAN_MSG_OK\<close>, \<open>receive\<close> gives the
  frame or nothing on a timeout; \<open>destroy_message\<close> is the destructor of \<^verbatim>\<open>CanTxMessage\<close>, and \<open>memory_behind\<close> the
  bytes that happen to follow a frame in memory.\<close>

record 'w ICanStreamer =
  transmit :: "can_frame \<Rightarrow> 'w \<Rightarrow> bool \<times> 'w"
  receive :: "'w \<Rightarrow> can_frame option \<times> 'w"
  destroy_message :: "can_frame \<Rightarrow> 'w \<Rightarrow> 'w"
  memory_behind :: "nat \<Rightarrow> byte"

record IsoTpFrameHeader =
  frameType :: int
  hdr_numBytes :: int
  hdr_index :: int
  fcFlag :: int
  blockSize :: int
  separationTime :: int

text \<open>The fields that a caller leaves unset are not read for its type of frame.\<close>

definition iso_header :: "int \<Rightarrow> IsoTpFrameHeader" where
  "iso_header type =
     \<lparr>frameType = type, hdr_numBytes = 0, hdr_index = 0, fcFlag = 0, blockSize = 0, separationTime = 0\<rparr>"

record 'w CanStreamerState =
  rxFifoBuf :: "byte fifo_buffer"
  txFifoBuf :: "byte fifo_buffer"
  waitingForNumBytes :: int
  waitingForFrameIndex :: int
  port :: 'w
  can_log :: diag_log

definition CanStreamerState :: "'w \<Rightarrow> 'w CanStreamerState" where
  "CanStreamerState w =
     \<lparr>rxFifoBuf = fifo_buffer 0 CAN_FIFO_BUF_SIZE, txFifoBuf = fifo_buffer 0 CAN_FIFO_BUF_SIZE,
      waitingForNumBytes = 0, waitingForFrameIndex = 0, port = w, can_log = []\<rparr>"

type_synonym minI_fun = "int \<Rightarrow> int \<Rightarrow> int"

definition minI_ok :: "minI_fun \<Rightarrow> bool" where
  "minI_ok minI \<longleftrightarrow> (\<forall>a b. minI a b = min a b)"

subsection \<open>Sending\<close>

text \<open>The switch of \<^verbatim>\<open>sendFrame\<close>: offset of the data, how many bytes fit, and the bytes of the frame so far;
  nothing for a bad frame type.\<close>

definition frame_header :: "minI_fun \<Rightarrow> IsoTpFrameHeader \<Rightarrow> (nat \<times> int \<times> byte list) option" where
  "frame_header minI header =
     (let d = (replicate 8 0)[0 := of_int (push_bit 4 (frameType header AND 0xf))] in
      if frameType header = ISO_TP_FRAME_SINGLE then
        let maxNumBytes = minI (hdr_numBytes header) 7
        in Some (1, maxNumBytes, d[0 := d ! 0 OR of_int maxNumBytes])
      else if frameType header = ISO_TP_FRAME_FIRST then
        let d = d[0 := d ! 0 OR of_int (drop_bit 8 (hdr_numBytes header) AND 0xf)];
            d = d[1 := of_int (hdr_numBytes header AND 0xff)]
        in Some (2, minI (hdr_numBytes header) 6, d)
      else if frameType header = ISO_TP_FRAME_CONSECUTIVE then
        Some (1, 7, d[0 := d ! 0 OR of_int (hdr_index header AND 0xf)])
      else if frameType header = ISO_TP_FRAME_FLOW_CONTROL then
        let d = d[0 := d ! 0 OR of_int (fcFlag header AND 0xf)];
            d = d[1 := of_int (blockSize header)];
            d = d[2 := of_int (separationTime header)]
        in Some (3, 0, d)
      else None)"

text \<open>The loop that copies the data into the frame.\<close>

definition copy_bytes :: "nat \<Rightarrow> nat \<Rightarrow> byte list \<Rightarrow> byte list \<Rightarrow> byte list" where
  "copy_bytes offset n bytes d = fold (\<lambda>i d. d[i + offset := bytes ! i]) [0..<n] d"

definition sendFrame ::
  "minI_fun \<Rightarrow> 'w ICanStreamer \<Rightarrow> IsoTpFrameHeader \<Rightarrow> byte list option \<Rightarrow> int \<Rightarrow> 'w CanStreamerState \<Rightarrow> int \<times> 'w CanStreamerState" where
  "sendFrame minI S header bytes num st =
     (let msg = CanTxMessage CAN_ECU_SERIAL_TX_ID 8 in
      case frame_header minI header of
        None \<Rightarrow>
          (0, st\<lparr>port := destroy_message S
                  (msg\<lparr>data8 := (data8 msg)[0 := of_int (push_bit 4 (frameType header AND 0xf))]\<rparr>) (port st)\<rparr>)
      | Some (offset, maxNumBytes, d) \<Rightarrow>
          let numBytes = minI maxNumBytes num;
              d = (case bytes of None \<Rightarrow> d | Some bytes \<Rightarrow> copy_bytes offset (nat numBytes) bytes d);
              msg = msg\<lparr>data8 := d\<rparr>;
              (ok, w) = transmit S msg (port st);
              w = destroy_message S msg w
          in (if ok then numBytes else 0, st\<lparr>port := w\<rparr>))"

subsection \<open>Receiving a frame\<close>

text \<open>\<open>num\<close> bytes of memory from \<open>offset\<close> on in the frame. Reading behind the frame is marked.\<close>

definition frame_bytes :: "'w ICanStreamer \<Rightarrow> nat \<Rightarrow> nat \<Rightarrow> can_frame \<Rightarrow> byte list" where
  "frame_bytes S offset num f =
     map (\<lambda>i. if i < length (data8 f) then data8 f ! i else memory_behind S (i - length (data8 f))) [offset..<offset + num]"

definition put_rest :: "byte list \<Rightarrow> byte fifo_buffer \<Rightarrow> byte fifo_buffer" where
  "put_rest bytes b = fold (\<lambda>x b. snd (fifo_put x b)) bytes b"

text \<open>The switch of \<^verbatim>\<open>receiveFrame\<close>: the bytes available, where they start, and the state; nothing for
  the frames that are ignored.\<close>

definition accept_frame ::
  "minI_fun \<Rightarrow> can_frame \<Rightarrow> 'w CanStreamerState \<Rightarrow> (int \<times> nat \<times> 'w CanStreamerState) option" where
  "accept_frame minI f st =
     (let b0 = uint (data8 f ! 0); type = drop_bit 4 b0 AND 0xf in
      if type = ISO_TP_FRAME_SINGLE then
        Some (b0 AND 0xf, 1, st\<lparr>waitingForNumBytes := -1\<rparr>)
      else if type = ISO_TP_FRAME_FIRST then
        let total = push_bit 8 (b0 AND 0xf) OR uint (data8 f ! 1)
        in Some (minI total 6, 2, st\<lparr>waitingForNumBytes := total, waitingForFrameIndex := 1\<rparr>)
      else if type = ISO_TP_FRAME_CONSECUTIVE then
        if waitingForNumBytes st < 0 \<or> waitingForFrameIndex st \<noteq> b0 AND 0xf then None
        else Some (minI (waitingForNumBytes st) 7, 1,
                   st\<lparr>waitingForFrameIndex := (waitingForFrameIndex st + 1) AND 0xf\<rparr>)
      else None)"

text \<open>The number of bytes copied, the bytes, and the state. Without a buffer nothing is copied.\<close>

definition receiveFrame ::
  "minI_fun \<Rightarrow> 'w ICanStreamer \<Rightarrow> can_frame option \<Rightarrow> bool \<Rightarrow> int \<Rightarrow> 'w CanStreamerState \<Rightarrow>
     int \<times> byte list \<times> 'w CanStreamerState" where
  "receiveFrame minI S rxmsg has_buf num st =
     (case rxmsg of
        None \<Rightarrow> (0, [], st)
      | Some f \<Rightarrow>
          if uint (DLC f) < 1 then (0, [], st)
          else
            case accept_frame minI f st of
              None \<Rightarrow> (0, [], st)
            | Some (numBytesAvailable, offset, st) \<Rightarrow>
                let numBytesToCopy = minI num numBytesAvailable;
                    src = frame_bytes S offset (nat numBytesAvailable) f;
                    st = (if offset + nat numBytesAvailable > length (data8 f)
                          then st\<lparr>can_log := can_log st @ [OutOfBounds]\<rparr> else st);
                    buf = (if has_buf then take (nat numBytesToCopy) src else []);
                    st = st\<lparr>waitingForNumBytes := waitingForNumBytes st - numBytesAvailable,
                            rxFifoBuf := put_rest (drop (nat numBytesToCopy) src) (rxFifoBuf st)\<rparr>;
                    st = (if drop_bit 4 (uint (data8 f ! 0)) AND 0xf = ISO_TP_FRAME_FIRST
                          then snd (sendFrame minI S (iso_header ISO_TP_FRAME_FLOW_CONTROL) None 0 st) else st)
                in (numBytesToCopy, buf, st))"

subsection \<open>Sending data\<close>

text \<open>The loop over the flow control frames: whether the sender may go on.\<close>

function flow_control ::
  "minI_fun \<Rightarrow> 'w ICanStreamer \<Rightarrow> int \<Rightarrow> 'w CanStreamerState \<Rightarrow> bool \<times> 'w CanStreamerState" where
  "flow_control minI S numFcReceived st =
     (let (rxmsg, w) = receive S (port st); st = st\<lparr>port := w\<rparr> in
      case rxmsg of
        None \<Rightarrow> (False, st)
      | Some f \<Rightarrow>
          let (n, buf, st) = receiveFrame minI S (Some f) False 0 st;
              flowStatus = uint (data8 f ! 0) AND 0xf in
          if flowStatus \<noteq> CAN_FLOW_STATUS_OK then
            if flowStatus = CAN_FLOW_STATUS_WAIT_MORE \<and> numFcReceived < 3
            then flow_control minI S (numFcReceived + 1) st
            else (False, st)
          else (True, st))"
  by pat_completeness auto
termination by (relation "measure (\<lambda>(m, S, k, st). nat (3 - k))") auto

declare flow_control.simps [simp del]

text \<open>The loop over the consecutive frames; \<open>bytes\<close> is what is left from \<^verbatim>\<open>txbuf + offset\<close> on.\<close>

function send_consecutive ::
  "minI_fun \<Rightarrow> 'w ICanStreamer \<Rightarrow> byte list \<Rightarrow> int \<Rightarrow> int \<Rightarrow> int \<Rightarrow> 'w CanStreamerState \<Rightarrow> int \<times> 'w CanStreamerState" where
  "send_consecutive minI S bytes numBytes idx totalNumSent st =
     (if numBytes > 0 then
        let len = minI numBytes 7;
            header = (iso_header ISO_TP_FRAME_CONSECUTIVE)\<lparr>hdr_index := idx AND 0xf, hdr_numBytes := len\<rparr>;
            (numSent, st) = sendFrame minI S header (Some bytes) len st in
        if numSent < 1 then (totalNumSent, st)
        else send_consecutive minI S (drop (nat numSent) bytes) (numBytes - numSent) (idx + 1) (totalNumSent + numSent) st
      else (totalNumSent, st))"
  by pat_completeness auto
termination by (relation "measure (\<lambda>(m, S, bytes, n, idx, total, st). nat n)") auto

declare send_consecutive.simps [simp del]

definition sendDataTimeout ::
  "minI_fun \<Rightarrow> 'w ICanStreamer \<Rightarrow> byte list \<Rightarrow> int \<Rightarrow> 'w CanStreamerState \<Rightarrow> int \<times> 'w CanStreamerState" where
  "sendDataTimeout minI S txbuf numBytes st =
     (if numBytes < 1 then (0, st)
      else if numBytes \<le> 7 then
        sendFrame minI S ((iso_header ISO_TP_FRAME_SINGLE)\<lparr>hdr_numBytes := numBytes\<rparr>) (Some txbuf) numBytes st
      else
        let (numSent, st) = sendFrame minI S ((iso_header ISO_TP_FRAME_FIRST)\<lparr>hdr_numBytes := numBytes\<rparr>) (Some txbuf) numBytes st;
            (go_on, st) = flow_control minI S 0 st in
        if \<not> go_on then (0, st)
        else send_consecutive minI S (drop (nat numSent) txbuf) (numBytes - numSent) 1 numSent st)"

subsection \<open>The stream\<close>

text \<open>The bytes moved out of the FIFO; \<open>numReadFromFifo\<close> iterations at most.\<close>

fun drain_fifo :: "nat \<Rightarrow> byte fifo_buffer \<Rightarrow> byte list \<times> byte fifo_buffer" where
  "drain_fifo 0 b = ([], b)"
| "drain_fifo (Suc n) b =
     (if fifo_isEmpty b then ([], b)
      else let (x, b) = fifo_get b; (xs, b) = drain_fifo n b in (x # xs, b))"

definition getDataFromFifo ::
  "minI_fun \<Rightarrow> int \<Rightarrow> 'w CanStreamerState \<Rightarrow> byte list \<times> int \<times> 'w CanStreamerState" where
  "getDataFromFifo minI numBytes st =
     (if fifo_isEmpty (rxFifoBuf st) then ([], numBytes, st)
      else let numReadFromFifo = minI numBytes (cb_getCount (rxFifoBuf st));
               (xs, b) = drain_fifo (nat numReadFromFifo) (rxFifoBuf st)
           in (xs, numBytes - int (length xs), st\<lparr>rxFifoBuf := b\<rparr>))"

text \<open>The loop of \<^verbatim>\<open>streamReceiveTimeout\<close>; \<open>rxbuf\<close> holds the bytes delivered so far.\<close>

function receive_loop ::
  "minI_fun \<Rightarrow> 'w ICanStreamer \<Rightarrow> byte list \<Rightarrow> int \<Rightarrow> 'w CanStreamerState \<Rightarrow> byte list \<times> int \<times> 'w CanStreamerState" where
  "receive_loop minI S rxbuf availableBufferSpace st =
     (if availableBufferSpace > 0 then
        let (rxmsg, w) = receive S (port st); st = st\<lparr>port := w\<rparr> in
        case rxmsg of
          None \<Rightarrow> (rxbuf, availableBufferSpace, st)
        | Some f \<Rightarrow>
            let (numReceived, buf, st) = receiveFrame minI S (Some f) True availableBufferSpace st in
            if numReceived < 1 then (rxbuf, availableBufferSpace, st)
            else receive_loop minI S (rxbuf @ buf) (availableBufferSpace - numReceived) st
      else (rxbuf, availableBufferSpace, st))"
  by pat_completeness auto
termination by (relation "measure (\<lambda>(m, S, rxbuf, n, st). nat n)") auto

declare receive_loop.simps [simp del]

text \<open>The bytes written to the buffer of the caller, the new value of \<^verbatim>\<open>*np\<close>, and the state.\<close>

definition streamReceiveTimeout ::
  "minI_fun \<Rightarrow> 'w ICanStreamer \<Rightarrow> int \<Rightarrow> 'w CanStreamerState \<Rightarrow> byte list \<times> int \<times> 'w CanStreamerState" where
  "streamReceiveTimeout minI S np st =
     (let (rxbuf, availableBufferSpace, st) = getDataFromFifo minI np st;
          (rxbuf, availableBufferSpace, st) = receive_loop minI S rxbuf availableBufferSpace st
      in (rxbuf, np - availableBufferSpace, st))"

text \<open>The loop of \<^verbatim>\<open>streamAddToTxTimeout\<close>, and what is left for the buffer; \<open>txbuf\<close> is the list from the offset on.\<close>

partial_function (option) add_loop ::
  "minI_fun \<Rightarrow> 'w ICanStreamer \<Rightarrow> byte list \<Rightarrow> int \<Rightarrow> 'w CanStreamerState \<Rightarrow> (byte list \<times> int \<times> 'w CanStreamerState) option" where
  "add_loop minI S txbuf numBytes st =
     (if numBytes \<ge> cb_getSize (txFifoBuf st) - cb_getCount (txFifoBuf st) then
        let numBytesToAdd = cb_getSize (txFifoBuf st) - cb_getCount (txFifoBuf st);
            st = st\<lparr>txFifoBuf := snd (fifo_put_items (take (nat numBytesToAdd) txbuf) (txFifoBuf st))\<rparr>;
            (numSent, st) = sendDataTimeout minI S (elements (txFifoBuf st)) (cb_getCount (txFifoBuf st)) st in
        if numSent < 1 then Some (txbuf, numBytes, st)
        else add_loop minI S (drop (nat numBytesToAdd) txbuf) (numBytes - numBytesToAdd)
               (st\<lparr>txFifoBuf := fifo_clear 0 (txFifoBuf st)\<rparr>)
      else Some (txbuf, numBytes, st))"

text \<open>The result is always \<^verbatim>\<open>CAN_MSG_OK\<close>.\<close>

definition streamAddToTxTimeout ::
  "minI_fun \<Rightarrow> 'w ICanStreamer \<Rightarrow> byte list \<Rightarrow> 'w CanStreamerState \<Rightarrow> 'w CanStreamerState option" where
  "streamAddToTxTimeout minI S txbuf st =
     (case add_loop minI S txbuf (int (length txbuf)) st of
        None \<Rightarrow> None
      | Some (rest, numBytes, st) \<Rightarrow>
          Some (st\<lparr>txFifoBuf := snd (fifo_put_items (take (nat numBytes) rest) (txFifoBuf st))\<rparr>))"

definition streamFlushTx :: "minI_fun \<Rightarrow> 'w ICanStreamer \<Rightarrow> 'w CanStreamerState \<Rightarrow> 'w CanStreamerState" where
  "streamFlushTx minI S st =
     (let (numSent, st) = sendDataTimeout minI S (elements (txFifoBuf st)) (cb_getCount (txFifoBuf st)) st
      in st\<lparr>txFifoBuf := fifo_clear 0 (txFifoBuf st)\<rparr>)"

subsection \<open>The streamer of the firmware\<close>

text \<open>The CAN driver, the listener and what is on the bus: whether a device is set and transmission allowed,
  which frames the driver takes within its 100 ms (by those taken before), the frames sent, the counters
  shown to the user, the queue of the listener, and the frames that arrive while a reader waits.\<close>

record can_world =
  s_device :: bool
  allowCanTx :: bool
  canTransmit :: "can_frame list \<Rightarrow> can_frame \<Rightarrow> bool"
  bus :: "can_frame list"
  canWriteOk :: "16 word"
  canWriteNotOk :: "16 word"
  rxFifo :: "can_frame fifo_buffer"
  coming :: "can_frame list"
  world_log :: diag_log

definition destroy_CanTxMessage :: "can_frame \<Rightarrow> can_world \<Rightarrow> can_world" where
  "destroy_CanTxMessage f w =
     (if \<not> s_device w then w\<lparr>world_log := world_log w @ [Warning CUSTOM_ERR_CAN_CONFIGURATION]\<rparr>
      else if \<not> allowCanTx w then w
      else if canTransmit w (bus w) f then w\<lparr>bus := bus w @ [f], canWriteOk := canWriteOk w + 1\<rparr>
      else w\<lparr>canWriteNotOk := canWriteNotOk w + 1\<rparr>)"

text \<open>\<^verbatim>\<open>CanTsListener::decodeFrame\<close> and \<^verbatim>\<open>CanListener::processFrame\<close>.\<close>

definition decodeFrame :: "can_frame \<Rightarrow> can_world \<Rightarrow> can_world" where
  "decodeFrame f w =
     (let (ok, q) = fifo_put f (rxFifo w); w = w\<lparr>rxFifo := q\<rparr>
      in if \<not> ok then w\<lparr>world_log := world_log w @ [Warning CUSTOM_ERR_CAN_COMMUNICATION]\<rparr> else w)"

definition processFrame :: "can_frame \<Rightarrow> can_world \<Rightarrow> can_world" where
  "processFrame f w = (if can_id f = CAN_ECU_SERIAL_RX_ID then decodeFrame f w else w)"

text \<open>\<^verbatim>\<open>fifo_buffer_sync::get\<close>: while the queue is empty the reader waits; each frame that arrives goes
  through the listener, and when no more come the wait times out. Frames that arrive while nobody waits
  are not modelled, so the queue never overflows.\<close>

fun sync_get :: "can_frame list \<Rightarrow> can_world \<Rightarrow> can_frame option \<times> can_world" where
  "sync_get fs w =
     (if fifo_isEmpty (rxFifo w) then
        case fs of [] \<Rightarrow> (None, w\<lparr>coming := []\<rparr>) | f # fs \<Rightarrow> sync_get fs (processFrame f w)
      else let (f, q) = fifo_get (rxFifo w) in (Some f, w\<lparr>rxFifo := q, coming := fs\<rparr>))"

declare sync_get.simps [simp del]

definition CanStreamer :: "(nat \<Rightarrow> byte) \<Rightarrow> can_world ICanStreamer" where
  "CanStreamer behind =
     \<lparr>transmit = (\<lambda>f w. (True, w)), receive = (\<lambda>w. sync_get (coming w) w),
      destroy_message = destroy_CanTxMessage, memory_behind = behind\<rparr>"

text \<open>The channel of the console, \<^verbatim>\<open>CanTsChannel\<close> of \<^verbatim>\<open>ts_can_channel.cpp\<close>: a write, a read and a flush go to the
  stream; \<^verbatim>\<open>readTimeout\<close> gives the bytes read.\<close>

definition channel_write :: "minI_fun \<Rightarrow> (nat \<Rightarrow> byte) \<Rightarrow> byte list \<Rightarrow> can_world CanStreamerState \<Rightarrow> can_world CanStreamerState option" where
  "channel_write minI behind buffer st = streamAddToTxTimeout minI (CanStreamer behind) buffer st"

definition channel_readTimeout ::
  "minI_fun \<Rightarrow> (nat \<Rightarrow> byte) \<Rightarrow> int \<Rightarrow> can_world CanStreamerState \<Rightarrow> byte list \<times> int \<times> can_world CanStreamerState" where
  "channel_readTimeout minI behind n st = streamReceiveTimeout minI (CanStreamer behind) n st"

definition channel_flush :: "minI_fun \<Rightarrow> (nat \<Rightarrow> byte) \<Rightarrow> can_world CanStreamerState \<Rightarrow> can_world CanStreamerState" where
  "channel_flush minI behind st = streamFlushTx minI (CanStreamer behind) st"

end
