(* ===== verification/Serial_Can_Properties.thy ===== *)
theory Serial_Can_Properties
  imports Serial_Can
begin

text \<open>
  What the byte stream over CAN guarantees: the frames of a packet carry it, the receiver puts the packets
  together again whatever pieces it reads them in, and what happens when a flow control frame is missing or
  a frame is malformed. The contract of the port is the locale \<open>can_link\<close>, which the streamer of the firmware
  keeps while its driver takes every frame.
\<close>

subsection \<open>Bits of a frame\<close>

lemma minI_ok_eq: "minI_ok minI \<Longrightarrow> minI = min"
  by (auto simp: minI_ok_def)

lemma frame_byte_table:
  "\<forall>t\<in>set [0..3]. \<forall>x\<in>set [0..15].
     uint ((of_int (push_bit 4 (t AND 15)) :: byte) OR of_int x) = t * 16 + x \<and>
     drop_bit 4 (t * 16 + x) AND 15 = t \<and> (t * 16 + x) AND 15 = (x :: int)"
  by code_simp

lemma frame_byte:
  assumes "0 \<le> t" "t \<le> 3" "0 \<le> x" "x \<le> (15 :: int)"
  shows "uint ((of_int (push_bit 4 (t AND 15)) :: byte) OR of_int x) = t * 16 + x"
    "drop_bit 4 (t * 16 + x) AND 15 = t" "(t * 16 + x) AND 15 = x"
  using frame_byte_table assms by simp_all

lemma low_nibble: "0 \<le> (x :: int) AND 15" "x AND 15 \<le> 15"
  by (simp_all add: AND_upper2)

lemma drop_twelve_bits:
  assumes "0 \<le> n" "n < (4096 :: int)"
  shows "drop_bit 8 n AND 15 = drop_bit 8 n"
proof -
  have "drop_bit 8 n < 2 ^ 4" using assms by (simp add: drop_bit_eq_div)
  moreover have "0 \<le> drop_bit 8 n" using assms by simp
  ultimately have "take_bit 4 (drop_bit 8 n) = drop_bit 8 n" by (intro take_bit_int_eq_self)
  then show ?thesis by (simp add: take_bit_eq_mask mask_numeral)
qed

lemma twelve_bits:
  assumes "0 \<le> n" "n < (4096 :: int)"
  shows "push_bit 8 (drop_bit 8 n AND 15) OR uint (of_int (n AND 255) :: byte) = n"
proof -
  have "n AND 255 = take_bit 8 n" by (simp add: take_bit_eq_mask mask_numeral)
  then have "uint (of_int (n AND 255) :: byte) = take_bit 8 n" by (simp add: unsigned_of_int)
  moreover have "push_bit 8 (drop_bit 8 n) OR take_bit 8 n = n"
    by (rule bit_eqI) (auto simp: bit_simps)
  ultimately show ?thesis by (simp add: drop_twelve_bits[OF assms])
qed

subsection \<open>The frames of a packet\<close>

definition padded :: "byte list \<Rightarrow> can_frame" where
  "padded d = (CanTxMessage CAN_ECU_SERIAL_TX_ID 8)\<lparr>data8 := d @ replicate (8 - length d) 0\<rparr>"

definition type_byte :: "int \<Rightarrow> int \<Rightarrow> byte" where
  "type_byte t x = of_int (push_bit 4 (t AND 15)) OR of_int x"

definition single_frame :: "byte list \<Rightarrow> can_frame" where
  "single_frame p = padded (type_byte 0 (int (length p)) # p)"

definition first_frame :: "byte list \<Rightarrow> can_frame" where
  "first_frame p = padded (type_byte 1 (drop_bit 8 (int (length p)) AND 15) # of_int (int (length p) AND 255) # take 6 p)"

definition next_frame :: "int \<Rightarrow> byte list \<Rightarrow> can_frame" where
  "next_frame idx p = padded (type_byte 2 (idx AND 15) # take 7 p)"

definition continue_frame :: can_frame where
  "continue_frame = padded [type_byte 3 0, 0, 0]"

fun next_frames :: "int \<Rightarrow> byte list \<Rightarrow> can_frame list" where
  "next_frames idx p = (if p = [] then [] else next_frame idx p # next_frames (idx + 1) (drop 7 p))"

declare next_frames.simps [simp del]

definition packet_frames :: "byte list \<Rightarrow> can_frame list" where
  "packet_frames p = (if length p \<le> 7 then [single_frame p] else first_frame p # next_frames 1 (drop 6 p))"

lemma type_byte_bits:
  assumes "0 \<le> t" "t \<le> 3" "0 \<le> x" "x \<le> 15"
  shows "drop_bit 4 (uint (type_byte t x)) AND 0xf = t" "uint (type_byte t x) AND 0xf = x"
  using frame_byte[OF assms] by (simp_all add: type_byte_def)

lemma padded_data: "data8 (padded d) = d @ replicate (8 - length d) 0" "DLC (padded d) = 8"
  by (simp_all add: padded_def CanTxMessage_def)

lemma copy_bytes_Suc: "copy_bytes k (Suc n) bs d = (copy_bytes k n bs d)[n + k := bs ! n]"
  by (simp add: copy_bytes_def)

lemma copy_bytes_0: "copy_bytes k 0 bs d = d"
  by (simp add: copy_bytes_def)

lemma length_copy_bytes [simp]: "length (copy_bytes k n bs d) = length d"
  by (induction n) (simp_all add: copy_bytes_0 copy_bytes_Suc)

lemma copy_bytes_eq:
  assumes "length d = k" "n \<le> length bs" "n \<le> m"
  shows "copy_bytes k n bs (d @ replicate m z) = d @ take n bs @ replicate (m - n) z"
  using assms(2,3)
proof (induction n)
  case (Suc n)
  have "replicate (m - n) z = z # replicate (m - Suc n) z"
    using Suc.prems by (metis Suc_diff_Suc Suc_le_lessD replicate_Suc)
  moreover have "take (Suc n) bs = take n bs @ [bs ! n]"
    using Suc.prems by (simp add: take_Suc_conv_app_nth)
  ultimately show ?case
    using Suc assms(1) by (simp add: copy_bytes_Suc list_update_append)
qed (simp add: copy_bytes_0)


subsection \<open>The buffer of the sender\<close>

text \<open>A FIFO that nothing was taken from since it was cleared: its items are the front of the array.\<close>

definition linear :: "byte fifo_buffer \<Rightarrow> byte list \<Rightarrow> bool" where
  "linear b xs \<longleftrightarrow> fifo_ok b \<and> fifo_items b = xs \<and> fifo_capacity b = CAN_FIFO_BUF_SIZE \<and> currentIndexRead b = 0"

lemma fifo_put_index: "currentIndexRead (snd (fifo_put x b)) = currentIndexRead b"
  by (simp add: fifo_put_def cb_add_def Let_def)

lemma linear_put:
  assumes "linear b xs" "length xs < 76"
  shows "\<exists>b'. fifo_put x b = (True, b') \<and> linear b' (xs @ [x])"
  using fifo.put_accepts[of b x] fifo_put_index[of x b] assms by (auto simp: linear_def)

lemma linear_put_items:
  assumes "linear b xs" "length xs + length ys \<le> 76"
  shows "linear (snd (fifo_put_items ys b)) (xs @ ys)"
  using assms
proof (induction ys arbitrary: b xs)
  case (Cons y ys)
  obtain b' where "fifo_put y b = (True, b')" "linear b' (xs @ [y])"
    using linear_put[of b xs y] Cons.prems by auto
  with Cons.IH[of b' "xs @ [y]"] Cons.prems(2) show ?case by simp
qed simp

lemma linear_counts:
  assumes "linear b xs"
  shows "cb_getSize b = 76" "cb_getCount b = int (length xs)" "fifo_isEmpty b = (xs = [])"
  using assms fifo_counts[of b]
  by (auto simp: linear_def fifo_items_def fifo_capacity_def fifo_isEmpty_def simp del: of_nat_unat)

lemma linear_elements:
  assumes "linear b xs"
  shows "\<exists>rest. elements b = xs @ rest"
proof -
  let ?n = "unat (count b)"
  have n: "?n \<le> 76" "length (elements b) \<ge> 76"
    using assms by (auto simp: linear_def fifo_ok_def cb_ok_def fifo_capacity_def)
  have "xs = take ?n (elements b)"
  proof (rule nth_equalityI)
    show "length xs = length (take ?n (elements b))"
      using assms n by (auto simp: linear_def fifo_items_def)
    fix i assume i: "i < length xs"
    then have "i < ?n" using assms by (auto simp: linear_def fifo_items_def)
    then have "(0 + i) mod unat (m_size b) = i"
      using assms n by (auto simp: linear_def fifo_capacity_def)
    then show "xs ! i = take ?n (elements b) ! i"
      using assms \<open>i < ?n\<close> by (auto simp: linear_def fifo_items_def)
  qed
  then show ?thesis by (metis append_take_drop_id)
qed

lemma linear_clear: "linear b xs \<Longrightarrow> linear (fifo_clear 0 b) []"
  by (simp add: linear_def fifo_clear_def cb_clear_def fifo_ok_def cb_ok_def fifo_items_def fifo_capacity_def)

lemma linear_new: "linear (fifo_buffer 0 76) []"
  using fifo_buffer_ok[of 76 "0 :: byte"] by (simp add: linear_def fifo_buffer_def Let_def)

lemma put_rest_ok:
  assumes "fifo_ok b" "length (fifo_items b) + length xs \<le> fifo_capacity b"
  shows "fifo_ok (put_rest xs b) \<and> fifo_items (put_rest xs b) = fifo_items b @ xs \<and>
    fifo_capacity (put_rest xs b) = fifo_capacity b"
  using assms
proof (induction xs arbitrary: b)
  case (Cons x xs)
  obtain b' where "fifo_put x b = (True, b')" "fifo_ok b'" "fifo_items b' = fifo_items b @ [x]" "fifo_capacity b' = fifo_capacity b"
    using fifo.put_accepts[OF Cons.prems(1), of x] Cons.prems(2) by auto
  with Cons.IH[of b'] Cons.prems(2) show ?case by (simp add: put_rest_def)
qed (simp add: put_rest_def)

lemma drain_fifo_ok:
  assumes "fifo_ok b" "n \<le> length (fifo_items b)"
  shows "\<exists>b'. drain_fifo n b = (take n (fifo_items b), b') \<and> fifo_ok b' \<and> fifo_items b' = drop n (fifo_items b) \<and>
    fifo_capacity b' = fifo_capacity b"
  using assms
proof (induction n arbitrary: b)
  case (Suc n)
  obtain x xs where i: "fifo_items b = x # xs" using Suc.prems(2) by (cases "fifo_items b") auto
  obtain b' where "fifo_get b = (x, b')" "fifo_ok b'" "fifo_items b' = xs" "fifo_capacity b' = fifo_capacity b"
    using fifo.get_first[OF Suc.prems(1) i] by auto
  with Suc.IH[of b'] Suc.prems i show ?case by (auto simp: fifo_isEmpty_items)
qed simp

text \<open>The stream of bytes falls into packets that fill the buffer, and a rest.\<close>

fun full_packets :: "byte list \<Rightarrow> byte list list" where
  "full_packets xs = (if length xs < 76 then [] else take 76 xs # full_packets (drop 76 xs))"

fun remainder :: "byte list \<Rightarrow> byte list" where
  "remainder xs = (if length xs < 76 then xs else remainder (drop 76 xs))"

declare full_packets.simps [simp del] remainder.simps [simp del]

lemma length_remainder: "length (remainder xs) < 76"
  by (induction xs rule: remainder.induct) (subst remainder.simps, simp)

lemma packets_remainder: "concat (full_packets xs) @ remainder xs = xs"
  by (induction xs rule: remainder.induct) (subst full_packets.simps, subst remainder.simps, simp)

lemma full_packets_length: "p \<in> set (full_packets xs) \<Longrightarrow> length p = 76"
  by (induction xs rule: full_packets.induct) (subst (asm) (2) full_packets.simps, auto split: if_splits)

lemma full_packets_append: "full_packets (xs @ ys) = full_packets xs @ full_packets (remainder xs @ ys)"
proof (induction xs rule: remainder.induct)
  case (1 xs)
  then show ?case
    by (cases "length xs < 76")
      (simp_all add: full_packets.simps[of xs] remainder.simps[of xs] full_packets.simps[of "xs @ ys"])
qed

lemma remainder_append: "remainder (xs @ ys) = remainder (remainder xs @ ys)"
proof (induction xs rule: remainder.induct)
  case (1 xs)
  then show ?case
    by (cases "length xs < 76") (simp_all add: remainder.simps[of xs] remainder.simps[of "xs @ ys"])
qed

definition stream_packets :: "byte list \<Rightarrow> byte list list" where
  "stream_packets xs = full_packets xs @ (if remainder xs = [] then [] else [remainder xs])"

lemma stream_packets_concat: "concat (stream_packets xs) = xs"
  using packets_remainder[of xs] by (auto simp: stream_packets_def)

lemma stream_packets_size: "p \<in> set (stream_packets xs) \<Longrightarrow> p \<noteq> [] \<and> length p \<le> 76"
  using full_packets_length[of p xs] length_remainder[of xs] by (auto simp: stream_packets_def split: if_splits)

text \<open>The flow control frames that the packets of a stream call for.\<close>

definition grants_needed :: "byte list \<Rightarrow> nat" where
  "grants_needed xs = length (full_packets xs) + (if 7 < length (remainder xs) then 1 else 0)"

text \<open>A stream written in pieces and flushed.\<close>

fun write_pieces :: "minI_fun \<Rightarrow> 'w ICanStreamer \<Rightarrow> byte list list \<Rightarrow> 'w CanStreamerState \<Rightarrow> 'w CanStreamerState option" where
  "write_pieces minI S [] st = Some (streamFlushTx minI S st)"
| "write_pieces minI S (d # ds) st = Option.bind (streamAddToTxTimeout minI S d st) (write_pieces minI S ds)"

text \<open>A stream read in pieces of the sizes asked for.\<close>

fun read_pieces :: "minI_fun \<Rightarrow> 'w ICanStreamer \<Rightarrow> nat list \<Rightarrow> 'w CanStreamerState \<Rightarrow> byte list list \<times> 'w CanStreamerState" where
  "read_pieces minI S [] st = ([], st)"
| "read_pieces minI S (n # ns) st =
     (let (piece, np, st) = streamReceiveTimeout minI S (int n) st; (pieces, st) = read_pieces minI S ns st
      in (piece # pieces, st))"

text \<open>How the receiver takes the frames of a packet.\<close>

lemma accept_single:
  assumes "length p \<le> 7"
  shows "accept_frame min (single_frame p) st = Some (int (length p), 1, st\<lparr>waitingForNumBytes := - 1\<rparr>)"
    "data8 (single_frame p) = [type_byte 0 (int (length p))] @ p @ replicate (7 - length p) 0"
  using type_byte_bits[of 0 "int (length p)"] assms
  by (simp_all add: accept_frame_def single_frame_def padded_data)

lemma accept_first:
  assumes "7 < length p" "length p < 4096"
  shows "accept_frame min (first_frame p) st =
      Some (6, 2, st\<lparr>waitingForNumBytes := int (length p), waitingForFrameIndex := 1\<rparr>)"
    "data8 (first_frame p) =
      [type_byte 1 (drop_bit 8 (int (length p)) AND 15), of_int (int (length p) AND 255)] @ take 6 p @ []"
  using type_byte_bits[of 1 "drop_bit 8 (int (length p)) AND 15"] twelve_bits[of "int (length p)"] low_nibble assms
  by (simp_all add: accept_frame_def first_frame_def padded_data Let_def)

lemma low_nibble_mod: "x AND 15 = x mod (16 :: int)"
  using take_bit_eq_mask[of 4 x] by (simp add: mask_numeral take_bit_eq_mod)

lemma accept_next:
  assumes "waitingForNumBytes st = int (length p)" "waitingForFrameIndex st = idx AND 15"
  shows "accept_frame min (next_frame idx p) st =
      Some (int (length (take 7 p)), 1, st\<lparr>waitingForFrameIndex := (idx + 1) AND 15\<rparr>)"
    "data8 (next_frame idx p) = [type_byte 2 (idx AND 15)] @ take 7 p @ replicate (7 - length (take 7 p)) 0"
proof -
  have "((idx AND 15) + 1) AND 15 = (idx + 1) AND 15" by (simp add: low_nibble_mod mod_add_left_eq)
  then show "accept_frame min (next_frame idx p) st =
      Some (int (length (take 7 p)), 1, st\<lparr>waitingForFrameIndex := (idx + 1) AND 15\<rparr>)"
    using type_byte_bits[of 2 "idx AND 15"] low_nibble assms
    by (simp add: accept_frame_def next_frame_def padded_data Let_def min.commute)
qed (simp add: next_frame_def padded_data)

text \<open>The frames as the receiver gets them: its partner sends with the number the receiver listens to.\<close>

definition arriving :: "can_frame \<Rightarrow> can_frame" where
  "arriving f = f\<lparr>can_id := CAN_ECU_SERIAL_RX_ID\<rparr>"

lemma arriving_fields [simp]:
  "data8 (arriving f) = data8 f" "DLC (arriving f) = DLC f" "accept_frame min (arriving f) st = accept_frame min f st"
  by (simp_all add: arriving_def accept_frame_def Let_def)

text \<open>The frames \<open>fs\<close> carry the bytes \<open>bs\<close> to a receiver in the state \<open>st\<close>: the rest of the packet it waits for,
  then whole packets.\<close>

definition carry :: "'w CanStreamerState \<Rightarrow> can_frame list \<Rightarrow> byte list \<Rightarrow> bool" where
  "carry st fs bs \<longleftrightarrow>
     (\<exists>idx rest ps. fs = map arriving (next_frames idx rest @ concat (map packet_frames ps)) \<and> bs = rest @ concat ps \<and>
        (rest \<noteq> [] \<longrightarrow> waitingForNumBytes st = int (length rest) \<and> waitingForFrameIndex st = idx AND 15) \<and>
        (\<forall>p\<in>set ps. p \<noteq> [] \<and> length p < 4096))"

lemma carry_packets: "(\<And>p. p \<in> set ps \<Longrightarrow> p \<noteq> [] \<and> length p < 4096) \<Longrightarrow>
    carry st (map arriving (concat (map packet_frames ps))) (concat ps)"
  unfolding carry_def by (intro exI[of _ 0] exI[of _ "[]"] exI[of _ ps]) (simp add: next_frames.simps)

lemma packet_frames_not_empty: "packet_frames p \<noteq> []"
  by (simp add: packet_frames_def)

lemma carry_none:
  assumes "carry st fs []"
  shows "fs = []"
proof -
  from assms obtain idx ps where "fs = map arriving (next_frames idx [] @ concat (map packet_frames ps))" "concat ps = []"
    "\<forall>p\<in>set ps. p \<noteq> []"
    by (auto simp: carry_def)
  moreover from this have "ps = []" by (cases ps) auto
  ultimately show ?thesis by (simp add: next_frames.simps)
qed

lemma carry_some: "carry st [] bs \<Longrightarrow> bs = []"
  using packet_frames_not_empty by (auto simp: carry_def next_frames.simps split: if_splits)

text \<open>One frame: how it is accepted, and its bytes.\<close>

definition delivers :: "'w CanStreamerState \<Rightarrow> can_frame \<Rightarrow> byte list \<Rightarrow> byte list \<Rightarrow> 'w CanStreamerState \<Rightarrow> bool" where
  "delivers st f h q st1 \<longleftrightarrow>
     DLC f = 8 \<and> length (data8 f) = 8 \<and> (\<exists>z. data8 f = h @ q @ z) \<and> q \<noteq> [] \<and>
     accept_frame min f st = Some (int (length q), length h, st1) \<and>
     rxFifoBuf st1 = rxFifoBuf st \<and> port st1 = port st \<and> can_log st1 = can_log st"

lemma delivers_arriving: "delivers st (arriving f) h q st1 = delivers st f h q st1"
  by (simp add: delivers_def)

lemma single_delivers:
  assumes "p \<noteq> []" "length p \<le> 7"
  shows "delivers st (single_frame p) [type_byte 0 (int (length p))] p (st\<lparr>waitingForNumBytes := - 1\<rparr>)"
  using accept_single[OF assms(2)] assms by (auto simp: delivers_def single_frame_def padded_data)

lemma first_delivers:
  assumes "7 < length p" "length p < 4096"
  shows "delivers st (first_frame p)
    [type_byte 1 (drop_bit 8 (int (length p)) AND 15), of_int (int (length p) AND 255)] (take 6 p)
    (st\<lparr>waitingForNumBytes := int (length p), waitingForFrameIndex := 1\<rparr>)"
  using accept_first[OF assms] assms by (auto simp: delivers_def first_frame_def padded_data numeral_2_eq_2)

lemma next_delivers:
  assumes "p \<noteq> []" "waitingForNumBytes st = int (length p)" "waitingForFrameIndex st = idx AND 15"
  shows "delivers st (next_frame idx p) [type_byte 2 (idx AND 15)] (take 7 p)
    (st\<lparr>waitingForFrameIndex := (idx + 1) AND 15\<rparr>)"
  using accept_next[OF assms(2,3)] assms(1) by (auto simp: delivers_def next_frame_def padded_data)

text \<open>The rest of a packet and whole packets after it.\<close>

lemma carry_rest:
  assumes "rest \<noteq> [] \<Longrightarrow> waitingForNumBytes st = int (length rest) \<and> waitingForFrameIndex st = idx AND 15"
    "\<forall>p\<in>set ps. p \<noteq> [] \<and> length p < 4096"
  shows "carry st (map arriving (next_frames idx rest @ concat (map packet_frames ps))) (rest @ concat ps)"
  unfolding carry_def using assms by blast

lemma carry_frameI:
  fixes st st1 :: "'w CanStreamerState"
  assumes "delivers st f h q st1" "bs = q @ bs'"
    and "\<And>st2 :: 'w CanStreamerState. waitingForNumBytes st2 = waitingForNumBytes st1 - int (length q) \<Longrightarrow>
      waitingForFrameIndex st2 = waitingForFrameIndex st1 \<Longrightarrow> carry st2 fs bs'"
  shows "\<exists>h q bs' st1. delivers st f h q st1 \<and> bs = q @ bs' \<and>
    (\<forall>st2 :: 'w CanStreamerState. waitingForNumBytes st2 = waitingForNumBytes st1 - int (length q) \<longrightarrow>
       waitingForFrameIndex st2 = waitingForFrameIndex st1 \<longrightarrow> carry st2 fs bs')"
  by (rule exI[of _ h], rule exI[of _ q], rule exI[of _ bs'], rule exI[of _ st1]) (simp add: assms)

lemma carry_frame:
  fixes st :: "'w CanStreamerState"
  assumes "carry st (f # fs) bs"
  shows "\<exists>h q bs' st1. delivers st f h q st1 \<and> bs = q @ bs' \<and>
    (\<forall>st2 :: 'w CanStreamerState. waitingForNumBytes st2 = waitingForNumBytes st1 - int (length q) \<longrightarrow>
       waitingForFrameIndex st2 = waitingForFrameIndex st1 \<longrightarrow> carry st2 fs bs')"
proof -
  from assms obtain idx rest ps where c: "f # fs = map arriving (next_frames idx rest @ concat (map packet_frames ps))"
    "bs = rest @ concat ps" "rest \<noteq> [] \<longrightarrow> waitingForNumBytes st = int (length rest) \<and> waitingForFrameIndex st = idx AND 15"
    "\<forall>p\<in>set ps. p \<noteq> [] \<and> length p < 4096"
    by (auto simp: carry_def)
  show ?thesis
  proof (cases "rest = []")
    case False
    with c have f: "f = arriving (next_frame idx rest)"
      "fs = map arriving (next_frames (idx + 1) (drop 7 rest) @ concat (map packet_frames ps))"
      by (simp_all add: next_frames.simps[of idx rest])
    have "carry st2 fs (drop 7 rest @ concat ps)"
      if "waitingForNumBytes st2 = int (length rest) - int (length (take 7 rest))" "waitingForFrameIndex st2 = (idx + 1) AND 15" for st2 :: "'w CanStreamerState"
      unfolding f(2) by (rule carry_rest) (use that c(4) in auto)
    moreover have "bs = take 7 rest @ drop 7 rest @ concat ps" using c(2) by simp
    moreover have "delivers st f [type_byte 2 (idx AND 15)] (take 7 rest) (st\<lparr>waitingForFrameIndex := (idx + 1) AND 15\<rparr>)"
      unfolding f(1) delivers_arriving using False c(3) by (intro next_delivers) auto
    ultimately show ?thesis
      using False c(3) by (intro carry_frameI[of st f _ "take 7 rest"]) auto
  next
    case True
    with c obtain p qs where ps: "ps = p # qs" by (cases ps) (auto simp: next_frames.simps)
    have p: "p \<noteq> []" "length p < 4096" using c(4) ps by auto
    show ?thesis
    proof (cases "length p \<le> 7")
      case l: True
      with c True ps have f: "f = arriving (single_frame p)" "fs = map arriving (concat (map packet_frames qs))"
        by (simp_all add: next_frames.simps packet_frames_def)
      have "delivers st f [type_byte 0 (int (length p))] p (st\<lparr>waitingForNumBytes := - 1\<rparr>)"
        unfolding f(1) delivers_arriving using p(1) l by (rule single_delivers)
      moreover have "carry st2 fs (concat qs)" for st2 :: "'w CanStreamerState"
        unfolding f(2) using c(4) ps by (intro carry_packets) auto
      moreover have "bs = p @ concat qs" using c(2) ps True by simp
      ultimately show ?thesis by (intro carry_frameI[of st f _ p])
    next
      case l: False
      with c True ps have f: "f = arriving (first_frame p)"
        "fs = map arriving (next_frames 1 (drop 6 p) @ concat (map packet_frames qs))"
        by (simp_all add: next_frames.simps[of idx] packet_frames_def)
      have "carry st2 fs (drop 6 p @ concat qs)"
        if "waitingForNumBytes st2 = int (length p) - int (length (take 6 p))" "waitingForFrameIndex st2 = 1" for st2 :: "'w CanStreamerState"
        unfolding f(2) by (rule carry_rest) (use that c(4) ps l in auto)
      moreover have "bs = take 6 p @ drop 6 p @ concat qs" using c(2) ps True by simp
      moreover have "delivers st f
          [type_byte 1 (drop_bit 8 (int (length p)) AND 15), of_int (int (length p) AND 255)] (take 6 p)
          (st\<lparr>waitingForNumBytes := int (length p), waitingForFrameIndex := 1\<rparr>)"
        unfolding f(1) delivers_arriving using p(2) l by (intro first_delivers) auto
      ultimately show ?thesis
        by (intro carry_frameI[of st f _ "take 6 p"]) auto
    qed
  qed
qed

text \<open>A flow control frame that tells the sender to go on.\<close>

definition go_ahead :: "can_frame \<Rightarrow> bool" where
  "go_ahead f \<longleftrightarrow> uint (data8 f ! 0) = 0x30"

lemma go_ahead_ignored: "go_ahead f \<Longrightarrow> receiveFrame min S (Some f) has_buf num st = (0, [], st)"
  by (simp add: go_ahead_def receiveFrame_def accept_frame_def Let_def)

subsection \<open>The contract of the port\<close>

text \<open>A link that loses nothing: a message is on the wire once its object is destroyed, and the frames of the
  inbox come in their order until it is empty.\<close>

locale can_link =
  fixes S :: "'w ICanStreamer"
    and ok :: "'w \<Rightarrow> bool"
    and wire :: "'w \<Rightarrow> can_frame list"
    and inbox :: "'w \<Rightarrow> can_frame list"
  assumes sends: "ok w \<Longrightarrow> \<exists>w1 w2. transmit S f w = (True, w1) \<and> destroy_message S f w1 = w2 \<and>
      ok w2 \<and> wire w2 = wire w @ [f] \<and> inbox w2 = inbox w"
    and receives: "ok w \<Longrightarrow> inbox w = f # fs \<Longrightarrow>
      \<exists>w'. receive S w = (Some f, w') \<and> ok w' \<and> wire w' = wire w \<and> inbox w' = fs"
    and times_out: "ok w \<Longrightarrow> inbox w = [] \<Longrightarrow>
      \<exists>w'. receive S w = (None, w') \<and> ok w' \<and> wire w' = wire w \<and> inbox w' = []"
begin

text \<open>Only the port changed, and \<open>fs\<close> went out.\<close>

definition sent :: "can_frame list \<Rightarrow> 'w CanStreamerState \<Rightarrow> 'w CanStreamerState \<Rightarrow> bool" where
  "sent fs st st' \<longleftrightarrow> (\<exists>w. st' = st\<lparr>port := w\<rparr> \<and> ok w \<and> wire w = wire (port st) @ fs \<and> inbox w = inbox (port st))"

lemma sent_trans: "sent fs st st1 \<Longrightarrow> sent gs st1 st2 \<Longrightarrow> sent (fs @ gs) st st2"
  by (auto simp: sent_def)

lemma sent_refl: "ok (port st) \<Longrightarrow> sent [] st st"
  by (auto simp: sent_def intro: exI[of _ "port st"])

lemma sent_port: "sent fs st st' \<Longrightarrow> ok (port st')" "sent fs st st' \<Longrightarrow> wire (port st') = wire (port st) @ fs"
  "sent fs st st' \<Longrightarrow> inbox (port st') = inbox (port st)"
  by (auto simp: sent_def)

lemma sendFrame_sends:
  assumes "ok (port st)" "frame_header min header = Some (k, m, d @ replicate n 0)" "length d = k" "k + n = 8"
    "nat (min m num) \<le> length bs" "nat (min m num) \<le> n"
  shows "\<exists>st'. sendFrame min S header (Some bs) num st = (min m num, st') \<and> sent [padded (d @ take (nat (min m num)) bs)] st st'"
proof -
  let ?j = "nat (min m num)"
  have c: "copy_bytes k ?j bs (d @ replicate n 0) = d @ take ?j bs @ replicate (n - ?j) 0"
    using assms(3,5,6) by (rule copy_bytes_eq)
  have "length (d @ take ?j bs) = k + ?j" using assms(3,5) by simp
  then have "8 - length (d @ take ?j bs) = n - ?j" using assms(4) by linarith
  then have p: "(CanTxMessage CAN_ECU_SERIAL_TX_ID 8)\<lparr>data8 := d @ take ?j bs @ replicate (n - ?j) 0\<rparr>
      = padded (d @ take ?j bs)"
    by (simp add: padded_def)
  obtain w1 w2 where "transmit S (padded (d @ take ?j bs)) (port st) = (True, w1)"
    "destroy_message S (padded (d @ take ?j bs)) w1 = w2"
    "ok w2" "wire w2 = wire (port st) @ [padded (d @ take ?j bs)]" "inbox w2 = inbox (port st)"
    using sends[OF assms(1)] by blast
  then show ?thesis
    using assms(2) by (auto simp: sendFrame_def c p sent_def Let_def)
qed

lemma send_single:
  assumes "ok (port st)" "p \<noteq> []" "length p \<le> 7"
  shows "\<exists>st'. sendFrame min S ((iso_header ISO_TP_FRAME_SINGLE)\<lparr>hdr_numBytes := int (length p)\<rparr>)
      (Some (p @ rest)) (int (length p)) st = (int (length p), st') \<and> sent [single_frame p] st st'"
proof -
  have "frame_header min ((iso_header ISO_TP_FRAME_SINGLE)\<lparr>hdr_numBytes := int (length p)\<rparr>) =
      Some (1, int (length p), [type_byte 0 (int (length p))] @ replicate 7 0)"
    using assms by (simp add: frame_header_def iso_header_def type_byte_def Let_def numeral_eq_Suc)
  from sendFrame_sends[OF assms(1) this, of "int (length p)" "p @ rest"] assms(3) show ?thesis
    by (simp add: single_frame_def)
qed

lemma send_first:
  assumes "ok (port st)" "7 < length p"
  shows "\<exists>st'. sendFrame min S ((iso_header ISO_TP_FRAME_FIRST)\<lparr>hdr_numBytes := int (length p)\<rparr>)
      (Some (p @ rest)) (int (length p)) st = (6, st') \<and> sent [first_frame p] st st'"
proof -
  have "frame_header min ((iso_header ISO_TP_FRAME_FIRST)\<lparr>hdr_numBytes := int (length p)\<rparr>) =
      Some (2, 6, [type_byte 1 (drop_bit 8 (int (length p)) AND 15), of_int (int (length p) AND 255)] @ replicate 6 0)"
    using assms by (simp add: frame_header_def iso_header_def type_byte_def Let_def numeral_eq_Suc)
  from sendFrame_sends[OF assms(1) this, of "int (length p)" "p @ rest"] assms(2) show ?thesis
    by (simp add: first_frame_def)
qed

lemma send_next:
  assumes "ok (port st)" "p \<noteq> []"
  shows "\<exists>st'. sendFrame min S ((iso_header ISO_TP_FRAME_CONSECUTIVE)\<lparr>hdr_index := idx AND 15, hdr_numBytes := n\<rparr>)
      (Some (p @ rest)) (min (int (length p)) 7) st = (min (int (length p)) 7, st') \<and> sent [next_frame idx p] st st'"
proof -
  have "frame_header min ((iso_header ISO_TP_FRAME_CONSECUTIVE)\<lparr>hdr_index := idx AND 15, hdr_numBytes := n\<rparr>) =
      Some (1, 7, [type_byte 2 (idx AND 15)] @ replicate 7 0)"
    using assms by (simp add: frame_header_def iso_header_def type_byte_def Let_def numeral_eq_Suc)
  moreover have "min 7 (min (int (length p)) 7) = min (int (length p)) 7" "nat (min (int (length p)) 7) = min (length p) 7"
    "take (min (length p) 7) p = take 7 p"
    by (auto simp: min_def)
  ultimately show ?thesis
    using sendFrame_sends[OF assms(1), of _ 1 7 "[type_byte 2 (idx AND 15)]" 7 "min (int (length p)) 7" "p @ rest"]
    by (simp add: next_frame_def min.commute)
qed


text \<open>The consecutive frames.\<close>

lemma send_consecutive_sends:
  assumes "ok (port st)"
  shows "\<exists>st'. send_consecutive min S (p @ rest) (int (length p)) idx acc st = (acc + int (length p), st') \<and>
    sent (next_frames idx p) st st'"
  using assms
proof (induction "length p" arbitrary: p idx acc st rule: less_induct)
  case less
  show ?case
  proof (cases "p = []")
    case True
    with less.prems sent_refl show ?thesis
      by (auto simp: send_consecutive.simps[of _ _ _ 0] next_frames.simps)
  next
    case False
    let ?len = "min (int (length p)) 7"
    obtain st1 where f: "sendFrame min S ((iso_header ISO_TP_FRAME_CONSECUTIVE)\<lparr>hdr_index := idx AND 15, hdr_numBytes := ?len\<rparr>)
        (Some (p @ rest)) ?len st = (?len, st1)" and s1: "sent [next_frame idx p] st st1"
      using send_next[OF less.prems False, of ?len idx rest] by blast
    have n: "nat ?len = min (length p) 7" "int (length p) - ?len = int (length (drop 7 p))" "\<not> ?len < 1"
      "drop (nat ?len) (p @ rest) = drop 7 p @ rest" "?len + int (length (drop 7 p)) = int (length p)"
      using False by (auto simp: min_def)
    obtain st2 where r: "send_consecutive min S (drop 7 p @ rest) (int (length (drop 7 p))) (idx + 1) (acc + ?len) st1
        = (acc + ?len + int (length (drop 7 p)), st2)" and s2: "sent (next_frames (idx + 1) (drop 7 p)) st1 st2"
      using less.hyps[of "drop 7 p" st1 "idx + 1" "acc + ?len"] False sent_port(1)[OF s1] by auto
    have "send_consecutive min S (p @ rest) (int (length p)) idx acc st = (acc + int (length p), st2)"
      using False f r n by (subst send_consecutive.simps) (simp add: Let_def add.assoc)
    moreover have "sent (next_frames idx p) st st2"
      using sent_trans[OF s1 s2] False by (simp add: next_frames.simps[of idx p])
    ultimately show ?thesis by blast
  qed
qed

lemma flow_control_goes_on:
  assumes "ok (port st)" "inbox (port st) = f # fs" "go_ahead f"
  shows "\<exists>w. flow_control min S k st = (True, st\<lparr>port := w\<rparr>) \<and> ok w \<and> wire w = wire (port st) \<and> inbox w = fs"
proof -
  obtain w where "receive S (port st) = (Some f, w)" "ok w" "wire w = wire (port st)" "inbox w = fs"
    using receives[OF assms(1,2)] by blast
  then show ?thesis
    using assms(3) by (auto simp: flow_control.simps[of _ _ k] Let_def go_ahead_ignored go_ahead_def)
qed

text \<open>The state of a sender that has \<open>xs\<close> in its buffer and will be told to go on.\<close>

definition sending :: "byte list \<Rightarrow> 'w CanStreamerState \<Rightarrow> bool" where
  "sending xs st \<longleftrightarrow> linear (txFifoBuf st) xs \<and> ok (port st) \<and> (\<forall>f\<in>set (inbox (port st)). go_ahead f)"

text \<open>The frames of the packets went out, and \<open>n\<close> flow control frames were read.\<close>

definition went_out :: "byte list list \<Rightarrow> nat \<Rightarrow> 'w CanStreamerState \<Rightarrow> 'w CanStreamerState \<Rightarrow> bool" where
  "went_out ps n st st' \<longleftrightarrow>
     wire (port st') = wire (port st) @ concat (map packet_frames ps) \<and> inbox (port st') = drop n (inbox (port st))"

lemma went_out_trans: "went_out ps n st st1 \<Longrightarrow> went_out qs m st1 st2 \<Longrightarrow> went_out (ps @ qs) (n + m) st st2"
  by (simp add: went_out_def add.commute)

lemma send_packet:
  assumes "sending xs st" "p \<noteq> []" "7 < length p \<Longrightarrow> inbox (port st) \<noteq> []"
  shows "\<exists>st'. sendDataTimeout min S (p @ rest) (int (length p)) st = (int (length p), st') \<and> sending xs st' \<and>
    went_out [p] (if 7 < length p then 1 else 0) st st' \<and> txFifoBuf st' = txFifoBuf st"
proof (cases "7 < length p")
  case False
  then have l: "length p \<le> 7" by simp
  from send_single[OF _ assms(2) l, of st rest] assms(1) obtain st' where
    "sendFrame min S ((iso_header ISO_TP_FRAME_SINGLE)\<lparr>hdr_numBytes := int (length p)\<rparr>) (Some (p @ rest)) (int (length p)) st
      = (int (length p), st')" "sent [single_frame p] st st'"
    by (auto simp: sending_def)
  then show ?thesis
    using l assms(1,2) by (auto simp: sendDataTimeout_def sent_def sending_def went_out_def packet_frames_def Suc_le_eq)
next
  case True
  obtain f fs where i: "inbox (port st) = f # fs" using assms(3)[OF True] by (cases "inbox (port st)") auto
  from send_first[OF _ True, of st rest] assms(1) obtain st1 where
    f1: "sendFrame min S ((iso_header ISO_TP_FRAME_FIRST)\<lparr>hdr_numBytes := int (length p)\<rparr>) (Some (p @ rest)) (int (length p)) st
      = (6, st1)" and s1: "sent [first_frame p] st st1"
    by (auto simp: sending_def)
  obtain w where f2: "flow_control min S 0 st1 = (True, st1\<lparr>port := w\<rparr>)"
    and w: "ok w" "wire w = wire (port st1)" "inbox w = fs"
    using flow_control_goes_on[of st1 f fs 0] sent_port[OF s1] i assms(1) by (auto simp: sending_def)
  obtain st2 where f3: "send_consecutive min S (drop 6 p @ rest) (int (length (drop 6 p))) 1 6 (st1\<lparr>port := w\<rparr>)
      = (6 + int (length (drop 6 p)), st2)" and s2: "sent (next_frames 1 (drop 6 p)) (st1\<lparr>port := w\<rparr>) st2"
    using send_consecutive_sends[of "st1\<lparr>port := w\<rparr>" "drop 6 p" rest 1 6] w by auto
  have n: "int (length p) - 6 = int (length (drop 6 p))" "drop 6 (p @ rest) = drop 6 p @ rest"
    "6 + int (length (drop 6 p)) = int (length p)" using True by auto
  have "sendDataTimeout min S (p @ rest) (int (length p)) st = (int (length p), st2)"
    using True assms(2) by (simp add: sendDataTimeout_def f1 f2 f3 n del: length_drop drop_append)
  moreover have "sending xs st2" "txFifoBuf st2 = txFifoBuf st"
    using s1 s2 w i assms(1) by (auto simp: sent_def sending_def)
  moreover have "went_out [p] 1 st st2"
    using True sent_port[OF s1] sent_port[OF s2] w i by (simp add: went_out_def packet_frames_def)
  ultimately show ?thesis using True by auto
qed

lemma add_loop_sends:
  assumes "sending xs st" "length xs < 76" "length (full_packets (xs @ d)) \<le> length (inbox (port st))"
  shows "\<exists>ys rest st'. add_loop min S d (int (length d)) st = Some (rest, int (length rest), st') \<and> sending ys st' \<and>
    ys @ rest = remainder (xs @ d) \<and>
    went_out (full_packets (xs @ d)) (length (full_packets (xs @ d))) st st'"
  using assms
proof (induction "length d" arbitrary: xs d st rule: less_induct)
  case less
  have lin: "linear (txFifoBuf st) xs" using less.prems(1) by (simp add: sending_def)
  note counts = linear_counts[OF lin]
  show ?case
  proof (cases "length (xs @ d) < 76")
    case True
    then have "full_packets (xs @ d) = []" "remainder (xs @ d) = xs @ d"
      by (simp_all add: full_packets.simps[of "xs @ d"] remainder.simps[of "xs @ d"])
    with True less.prems(1) show ?thesis
      by (auto simp: add_loop.simps[of _ _ d] counts went_out_def)
  next
    case False
    let ?k = "76 - length xs"
    let ?p = "xs @ take ?k d"
    let ?b = "snd (fifo_put_items (take ?k d) (txFifoBuf st))"
    let ?st = "st\<lparr>txFifoBuf := ?b\<rparr>"
    have lp: "length ?p = 76" using False less.prems(2) by simp
    have lb: "linear ?b ?p" using linear_put_items[OF lin, of "take ?k d"] lp by simp
    obtain more where more: "elements ?b = ?p @ more" using linear_elements[OF lb] by blast
    have full: "full_packets (xs @ d) = ?p # full_packets (drop ?k d)" "remainder (xs @ d) = remainder (drop ?k d)"
      using False less.prems(2) by (simp_all add: full_packets.simps[of "xs @ d"] remainder.simps[of "xs @ d"])
    have "sending ?p ?st" using less.prems(1) lb by (simp add: sending_def)
    from send_packet[OF this, of ?p more] lp full less.prems(3) obtain st1 where
      s1: "sendDataTimeout min S (elements ?b) 76 ?st = (76, st1)" "sending ?p st1"
        "went_out [?p] 1 ?st st1" "txFifoBuf st1 = ?b"
      using more by fastforce
    let ?st2 = "st1\<lparr>txFifoBuf := fifo_clear 0 ?b\<rparr>"
    have s2: "sending [] ?st2" using s1(2) linear_clear[OF lb] by (simp add: sending_def)
    have w2: "went_out [?p] 1 st ?st2" using s1(3) by (simp add: went_out_def)
    have pre: "length (drop ?k d) < length d" "length (full_packets ([] @ drop ?k d)) \<le> length (inbox (port ?st2))"
      using False less.prems(2,3) w2 full by (auto simp: went_out_def)
    obtain ys rest st' where r: "add_loop min S (drop ?k d) (int (length (drop ?k d))) ?st2 = Some (rest, int (length rest), st')"
      "sending ys st'" "ys @ rest = remainder (drop ?k d)"
      "went_out (full_packets (drop ?k d)) (length (full_packets (drop ?k d))) ?st2 st'"
      using less.hyps[OF pre(1) s2 _ pre(2)] by auto
    have i: "int (length d) - (76 - int (length xs)) = int (length (drop ?k d))" "nat (76 - int (length xs)) = ?k"
      using False less.prems(2) by auto
    have "add_loop min S d (int (length d)) st = Some (rest, int (length rest), st')"
      using False r(1) linear_counts[OF lb] lp
      by (simp add: add_loop.simps[of _ _ d] counts i s1(1,4) Let_def del: length_drop)
    then show ?thesis using r(2,3) full went_out_trans[OF w2 r(4)] by auto
  qed
qed

lemma streamAdd_sends:
  assumes "sending xs st" "length xs < 76" "length (full_packets (xs @ d)) \<le> length (inbox (port st))"
  shows "\<exists>st'. streamAddToTxTimeout min S d st = Some st' \<and> sending (remainder (xs @ d)) st' \<and>
    went_out (full_packets (xs @ d)) (length (full_packets (xs @ d))) st st'"
proof -
  obtain ys rest st1 where a: "add_loop min S d (int (length d)) st = Some (rest, int (length rest), st1)"
    "sending ys st1" "ys @ rest = remainder (xs @ d)"
    "went_out (full_packets (xs @ d)) (length (full_packets (xs @ d))) st st1"
    using add_loop_sends[OF assms] by blast
  have "length ys + length rest < 76" using length_remainder[of "xs @ d"] by (simp flip: a(3))
  then have "linear (snd (fifo_put_items rest (txFifoBuf st1))) (remainder (xs @ d))"
    using linear_put_items[of "txFifoBuf st1" ys rest] a(2,3) by (simp add: sending_def)
  then show ?thesis using a by (simp add: streamAddToTxTimeout_def sending_def went_out_def)
qed

text \<open>The packets of a stream whose buffer is flushed at its end.\<close>

lemma streamFlush_sends:
  assumes "sending xs st" "7 < length xs \<Longrightarrow> inbox (port st) \<noteq> []"
  shows "sending [] (streamFlushTx min S st) \<and>
    went_out (if xs = [] then [] else [xs]) (if 7 < length xs then 1 else 0) st (streamFlushTx min S st)"
proof (cases "xs = []")
  case True
  then show ?thesis
    using assms(1) linear_counts[of "txFifoBuf st" xs] linear_clear[of "txFifoBuf st" xs]
    by (simp add: streamFlushTx_def sendDataTimeout_def sending_def went_out_def)
next
  case False
  have lin: "linear (txFifoBuf st) xs" using assms(1) by (simp add: sending_def)
  obtain more where "elements (txFifoBuf st) = xs @ more" using linear_elements[OF lin] by blast
  with send_packet[OF assms(1) False assms(2), of more] linear_counts[OF lin] linear_clear[OF lin] show ?thesis
    using False by (auto simp: streamFlushTx_def sending_def went_out_def)
qed

lemma write_pieces_sends:
  assumes "sending xs st" "length xs < 76" "grants_needed (xs @ concat ds) \<le> length (inbox (port st))"
  shows "\<exists>st'. write_pieces min S ds st = Some st' \<and> sending [] st' \<and>
    went_out (stream_packets (xs @ concat ds)) (grants_needed (xs @ concat ds)) st st'"
  using assms
proof (induction ds arbitrary: xs st)
  case Nil
  have "full_packets xs = []" "remainder xs = xs"
    using Nil.prems(2) by (simp_all add: full_packets.simps[of xs] remainder.simps[of xs])
  moreover from this have "7 < length xs \<Longrightarrow> inbox (port st) \<noteq> []"
    using Nil.prems(3) by (auto simp: grants_needed_def)
  ultimately show ?case
    using streamFlush_sends[OF Nil.prems(1)] by (auto simp: stream_packets_def grants_needed_def split: if_splits)
next
  case (Cons d ds)
  let ?ys = "remainder (xs @ d)" and ?n = "length (full_packets (xs @ d))"
  have split: "stream_packets (xs @ concat (d # ds)) = full_packets (xs @ d) @ stream_packets (?ys @ concat ds)"
    "grants_needed (xs @ concat (d # ds)) = ?n + grants_needed (?ys @ concat ds)"
    using full_packets_append[of "xs @ d" "concat ds"] remainder_append[of "xs @ d" "concat ds"]
    by (simp_all add: stream_packets_def grants_needed_def)
  obtain st1 where a: "streamAddToTxTimeout min S d st = Some st1" "sending ?ys st1"
    "went_out (full_packets (xs @ d)) ?n st st1"
    using streamAdd_sends[OF Cons.prems(1,2), of d] Cons.prems(3) split(2) by auto
  have "grants_needed (?ys @ concat ds) \<le> length (inbox (port st1))"
    using Cons.prems(3) split(2) a(3) by (simp add: went_out_def)
  with Cons.IH[OF a(2) length_remainder] obtain st2 where r: "write_pieces min S ds st1 = Some st2" "sending [] st2"
    "went_out (stream_packets (?ys @ concat ds)) (grants_needed (?ys @ concat ds)) st1 st2"
    by blast
  then show ?case using a went_out_trans[OF a(3) r(3)] split by simp
qed

subsection \<open>The receiver\<close>

lemma send_continue:
  assumes "ok (port st)"
  shows "\<exists>n st'. sendFrame min S (iso_header ISO_TP_FRAME_FLOW_CONTROL) None 0 st = (n, st') \<and> sent [continue_frame] st st'"
proof -
  have "frame_header min (iso_header ISO_TP_FRAME_FLOW_CONTROL) = Some (3, 0, data8 continue_frame)"
    by (simp add: frame_header_def iso_header_def continue_frame_def padded_data type_byte_def Let_def numeral_eq_Suc)
  moreover have "(CanTxMessage CAN_ECU_SERIAL_TX_ID 8)\<lparr>data8 := data8 continue_frame\<rparr> = continue_frame"
    by (simp add: continue_frame_def padded_def)
  ultimately show ?thesis
    using sends[OF assms, of continue_frame] by (auto simp: sendFrame_def sent_def Let_def)
qed

text \<open>What one frame delivers: its bytes \<open>q\<close> go to the caller as far as it has room, the others wait.\<close>

lemma receive_bytes:
  assumes ok: "ok (port st)" and f: "DLC f = 8" "data8 f = h @ q @ z" "length (data8 f) = 8"
    and acc: "accept_frame min f st = Some (int (length q), length h, st1)" and st1: "rxFifoBuf st1 = rxFifoBuf st" "port st1 = port st"
    and fifo: "fifo_ok (rxFifoBuf st)" "fifo_items (rxFifoBuf st) = []" "fifo_capacity (rxFifoBuf st) = 76"
    and num: "0 < num"
  shows "\<exists>st'. receiveFrame min S (Some f) True (int num) st = (int (min num (length q)), take num q, st') \<and>
    ok (port st') \<and> inbox (port st') = inbox (port st) \<and> can_log st' = can_log st1 \<and>
    waitingForNumBytes st' = waitingForNumBytes st1 - int (length q) \<and> waitingForFrameIndex st' = waitingForFrameIndex st1 \<and>
    fifo_ok (rxFifoBuf st') \<and> fifo_items (rxFifoBuf st') = drop num q \<and> fifo_capacity (rxFifoBuf st') = 76"
proof -
  have src: "frame_bytes S (length h) (length q) f = q"
    using f by (intro nth_equalityI) (auto simp: frame_bytes_def nth_append)
  let ?n = "min (int num) (int (length q))"
  have n: "nat ?n = min num (length q)" "take (min num (length q)) q = take num q" "drop (min num (length q)) q = drop num q"
    by (auto simp: min_def)
  let ?b = "put_rest (drop num q) (rxFifoBuf st)"
  let ?st = "st1\<lparr>waitingForNumBytes := waitingForNumBytes st1 - int (length q), rxFifoBuf := ?b\<rparr>"
  have "length q \<le> 8" using f by auto
  then have b: "fifo_ok ?b" "fifo_items ?b = drop num q" "fifo_capacity ?b = 76"
    using put_rest_ok[OF fifo(1), of "drop num q"] fifo by auto
  obtain m st2 where fc: "sendFrame min S (iso_header ISO_TP_FRAME_FLOW_CONTROL) None 0 ?st = (m, st2)" "sent [continue_frame] ?st st2"
    using send_continue[of ?st] ok st1 by auto
  have "\<not> length h + length q > length (data8 f)" "\<not> uint (DLC f) < 1" using f by auto
  then show ?thesis
    using acc src n fc b ok st1 by (auto simp: receiveFrame_def Let_def sent_def)
qed

text \<open>A receiver to which the bytes \<open>bs\<close> are on their way: first those in its buffer, then those in the frames to come.\<close>

definition receiving :: "byte list \<Rightarrow> 'w CanStreamerState \<Rightarrow> bool" where
  "receiving bs st \<longleftrightarrow> ok (port st) \<and> fifo_ok (rxFifoBuf st) \<and> fifo_capacity (rxFifoBuf st) = 76 \<and>
     (\<exists>bs'. bs = fifo_items (rxFifoBuf st) @ bs' \<and> carry st (inbox (port st)) bs')"

lemma receive_loop_reads:
  assumes "receiving bs st" "fifo_items (rxFifoBuf st) = []"
  shows "\<exists>st'. receive_loop min S rxbuf (int n) st = (rxbuf @ take n bs, int (n - length bs), st') \<and>
    receiving (drop n bs) st' \<and> can_log st' = can_log st"
  using assms
proof (induction n arbitrary: rxbuf bs st rule: less_induct)
  case (less n)
  have r: "ok (port st)" "fifo_ok (rxFifoBuf st)" "fifo_capacity (rxFifoBuf st) = 76" "carry st (inbox (port st)) bs"
    using less.prems by (auto simp: receiving_def)
  consider "n = 0" | "0 < n" "inbox (port st) = []" | f fs where "0 < n" "inbox (port st) = f # fs"
    by (cases "inbox (port st)") auto
  then show ?case
  proof cases
    case 1
    with less.prems show ?thesis by (simp add: receive_loop.simps)
  next
    case 2
    obtain w where "receive S (port st) = (None, w)" "ok w" "inbox w = []" using times_out[OF r(1) 2(2)] by blast
    moreover have "bs = []" using r(4) 2(2) carry_some by simp
    ultimately show ?thesis
      using 2 r less.prems(2) by (auto simp: receive_loop.simps receiving_def carry_def)
  next
    case 3
    obtain w where w: "receive S (port st) = (Some f, w)" "ok w" "inbox w = fs" using receives[OF r(1) 3(2)] by blast
    obtain h q bs' st1 where d: "delivers (st\<lparr>port := w\<rparr>) f h q st1" "bs = q @ bs'"
      "\<And>st2 :: 'w CanStreamerState. waitingForNumBytes st2 = waitingForNumBytes st1 - int (length q) \<Longrightarrow>
         waitingForFrameIndex st2 = waitingForFrameIndex st1 \<Longrightarrow> carry st2 fs bs'"
      using carry_frame[of "st\<lparr>port := w\<rparr>" f fs bs] r(4) 3(2) by (auto simp: carry_def)
    obtain st2 where s2: "receiveFrame min S (Some f) True (int n) (st\<lparr>port := w\<rparr>) = (int (min n (length q)), take n q, st2)"
      "ok (port st2)" "inbox (port st2) = fs" "can_log st2 = can_log st" "carry st2 fs bs'"
      "fifo_ok (rxFifoBuf st2)" "fifo_items (rxFifoBuf st2) = drop n q" "fifo_capacity (rxFifoBuf st2) = 76"
      using receive_bytes[of "st\<lparr>port := w\<rparr>" f h q _ st1 n] d w r less.prems(2) 3(1) by (auto simp: delivers_def)
    have q: "q \<noteq> []" using d(1) by (simp add: delivers_def)
    have rec: "receiving (drop n q @ bs') st2" using s2 by (simp add: receiving_def)
    show ?thesis
    proof (cases "n \<le> length q")
      case True
      then have "receive_loop min S rxbuf (int n) st = (rxbuf @ take n bs, int (n - length bs), st2)"
        using 3 q w s2(1) d(2)
        by (simp add: receive_loop.simps[of _ _ rxbuf "int n"] receive_loop.simps[of _ _ "rxbuf @ take n q" 0])
      then show ?thesis using rec True d(2) s2(4) by auto
    next
      case False
      have "\<exists>st'. receive_loop min S (rxbuf @ q) (int (n - length q)) st2 =
          ((rxbuf @ q) @ take (n - length q) bs', int (n - length q - length bs'), st') \<and>
          receiving (drop (n - length q) bs') st' \<and> can_log st' = can_log st2"
        using less.IH[of "n - length q" bs' st2 "rxbuf @ q"] False q rec s2(7) 3(1) by simp
      then show ?thesis
        using 3 q w s2(1,4) d(2) False
        by (auto simp: receive_loop.simps[of _ _ rxbuf "int n"] of_nat_diff diff_diff_add)
    qed
  qed
qed

lemma getDataFromFifo_reads:
  assumes "receiving bs st"
  shows "\<exists>st' m. getDataFromFifo min (int n) st = (take m bs, int (n - m), st') \<and> receiving (drop m bs) st' \<and>
    can_log st' = can_log st \<and> m \<le> n \<and> m \<le> length bs \<and> (m = n \<or> fifo_items (rxFifoBuf st') = [])"
proof -
  let ?q = "fifo_items (rxFifoBuf st)"
  let ?m = "min n (length ?q)"
  obtain bs' where bs: "bs = ?q @ bs'" "carry st (inbox (port st)) bs'" and r: "ok (port st)" "fifo_ok (rxFifoBuf st)"
    "fifo_capacity (rxFifoBuf st) = 76"
    using assms by (auto simp: receiving_def)
  obtain b where b: "drain_fifo ?m (rxFifoBuf st) = (take ?m ?q, b)" "fifo_ok b" "fifo_items b = drop ?m ?q" "fifo_capacity b = 76"
    using drain_fifo_ok[OF r(2), of ?m] r(3) by auto
  have c: "cb_getCount (rxFifoBuf st) = int (length ?q)"
    using fifo_counts(1)[OF r(2)] by (simp add: fifo_items_def)
  have m: "nat (min (int n) (int (length ?q))) = ?m" "take ?m bs = take ?m ?q" "drop ?m bs = drop ?m ?q @ bs'"
    using bs by (auto simp: min_def)
  let ?st = "if fifo_isEmpty (rxFifoBuf st) then st else st\<lparr>rxFifoBuf := b\<rparr>"
  have "getDataFromFifo min (int n) st = (take ?m bs, int (n - ?m), ?st)"
    using b(1) c m(1,2) r(2) by (auto simp: getDataFromFifo_def fifo_isEmpty_items of_nat_diff min_def)
  moreover have "receiving (drop ?m bs) ?st"
    using assms bs b m(3) r by (auto simp: receiving_def carry_def fifo_isEmpty_items)
  moreover have "?m = n \<or> fifo_items (rxFifoBuf ?st) = []"
    using b r(2) by (auto simp: fifo_isEmpty_items min_def)
  moreover have "?m \<le> length bs" "?m \<le> n" "can_log ?st = can_log st" using bs by auto
  ultimately show ?thesis by blast
qed

lemma streamReceive_reads:
  assumes "receiving bs st"
  shows "\<exists>st'. streamReceiveTimeout min S (int n) st = (take n bs, int (min n (length bs)), st') \<and>
    receiving (drop n bs) st' \<and> can_log st' = can_log st"
proof -
  obtain st1 m where g: "getDataFromFifo min (int n) st = (take m bs, int (n - m), st1)" "receiving (drop m bs) st1"
    "can_log st1 = can_log st" "m \<le> n" "m \<le> length bs" "m = n \<or> fifo_items (rxFifoBuf st1) = []"
    using getDataFromFifo_reads[OF assms, of n] by blast
  show ?thesis
  proof (cases "m = n")
    case True
    then show ?thesis
      using g by (simp add: streamReceiveTimeout_def receive_loop.simps[of _ _ _ 0])
  next
    case False
    obtain st2 where l: "receive_loop min S (take m bs) (int (n - m)) st1 =
        (take m bs @ take (n - m) (drop m bs), int (n - m - length (drop m bs)), st2)"
      "receiving (drop (n - m) (drop m bs)) st2" "can_log st2 = can_log st1"
      using receive_loop_reads[OF g(2), of "take m bs" "n - m"] g(6) False by blast
    have "take m bs @ take (n - m) (drop m bs) = take n bs" "drop (n - m) (drop m bs) = drop n bs"
      using g(4) by (metis le_add_diff_inverse take_add) (simp add: g(4))
    moreover have "int n - int (n - m - length (drop m bs)) = int (min n (length bs))"
      using g(4,5) by auto
    ultimately show ?thesis
      using g(1,3) l by (simp add: streamReceiveTimeout_def)
  qed
qed

lemma read_pieces_reads:
  assumes "receiving bs st"
  shows "\<exists>pieces st'. read_pieces min S ns st = (pieces, st') \<and> concat pieces = take (sum_list ns) bs \<and> can_log st' = can_log st"
  using assms
proof (induction ns arbitrary: bs st)
  case (Cons n ns)
  obtain st1 where r: "streamReceiveTimeout min S (int n) st = (take n bs, int (min n (length bs)), st1)"
    "receiving (drop n bs) st1" "can_log st1 = can_log st"
    using streamReceive_reads[OF Cons.prems, of n] by blast
  from Cons.IH[OF r(2)] obtain pieces st2 where "read_pieces min S ns st1 = (pieces, st2)"
    "concat pieces = take (sum_list ns) (drop n bs)" "can_log st2 = can_log st1"
    by blast
  then show ?case using r by (auto simp: take_add)
qed simp

end

subsection \<open>The streamer of the firmware keeps the contract\<close>

text \<open>A device is set, transmission is allowed, and the driver takes every frame.\<close>

definition can_ok :: "can_world \<Rightarrow> bool" where
  "can_ok w \<longleftrightarrow> s_device w \<and> allowCanTx w \<and> canTransmit w = (\<lambda>fs f. True) \<and> fifo_ok (rxFifo w) \<and>
     0 < fifo_capacity (rxFifo w)"

text \<open>What a reader will get: the frames queued, and those of the listener among the frames that come.\<close>

definition can_inbox :: "can_world \<Rightarrow> can_frame list" where
  "can_inbox w = fifo_items (rxFifo w) @ filter (\<lambda>f. can_id f = CAN_ECU_SERIAL_RX_ID) (coming w)"

lemma sync_get_first:
  assumes "can_ok w" "fifo_items (rxFifo w) @ filter (\<lambda>f. can_id f = CAN_ECU_SERIAL_RX_ID) fs = f # gs"
  shows "\<exists>w'. sync_get fs w = (Some f, w') \<and> can_ok w' \<and> bus w' = bus w \<and> can_inbox w' = gs"
  using assms
proof (induction fs arbitrary: w)
  case (Cons g fs)
  show ?case
  proof (cases "fifo_items (rxFifo w)")
    case Nil
    show ?thesis
    proof (cases "can_id g = CAN_ECU_SERIAL_RX_ID")
      case True
      obtain q where "fifo_put g (rxFifo w) = (True, q)" "fifo_ok q" "fifo_items q = [g]" "fifo_capacity q = fifo_capacity (rxFifo w)"
        using fifo.put_accepts[of "rxFifo w" g] Cons.prems(1) Nil by (auto simp: can_ok_def)
      then have "processFrame g w = w\<lparr>rxFifo := q\<rparr>" "can_ok (w\<lparr>rxFifo := q\<rparr>)" "fifo_items q = [g]"
        using True Cons.prems(1) by (simp_all add: processFrame_def decodeFrame_def can_ok_def)
      moreover from this have "sync_get (g # fs) w = sync_get fs (w\<lparr>rxFifo := q\<rparr>)"
        using Cons.prems(1) Nil by (simp add: sync_get.simps[of "g # fs"] fifo_isEmpty_items can_ok_def)
      ultimately show ?thesis
        using Cons.IH[of "w\<lparr>rxFifo := q\<rparr>"] Cons.prems(2) Nil True by simp
    next
      case False
      then show ?thesis
        using Cons.IH[of w] Cons.prems Nil
        by (simp add: sync_get.simps[of "g # fs"] processFrame_def fifo_isEmpty_items can_ok_def)
    qed
  next
    case (Cons x xs)
    then obtain q where "fifo_get (rxFifo w) = (x, q)" "fifo_ok q" "fifo_items q = xs" "fifo_capacity q = fifo_capacity (rxFifo w)"
      using fifo.get_first[of "rxFifo w" x xs] Cons.prems(1) by (auto simp: can_ok_def)
    then show ?thesis
      using Cons Cons.prems by (auto simp: sync_get.simps[of "g # fs"] fifo_isEmpty_items can_ok_def can_inbox_def)
  qed
next
  case Nil
  then obtain q where "fifo_get (rxFifo w) = (f, q)" "fifo_ok q" "fifo_items q = gs" "fifo_capacity q = fifo_capacity (rxFifo w)"
    using fifo.get_first[of "rxFifo w" f gs] by (auto simp: can_ok_def)
  then show ?case
    using Nil by (auto simp: sync_get.simps[of "[]"] fifo_isEmpty_items can_ok_def can_inbox_def)
qed

lemma sync_get_none:
  assumes "can_ok w" "fifo_items (rxFifo w) = []" "filter (\<lambda>f. can_id f = CAN_ECU_SERIAL_RX_ID) fs = []"
  shows "sync_get fs w = (None, w\<lparr>coming := []\<rparr>)"
  using assms(3)
proof (induction fs)
  case (Cons g fs)
  then show ?case
    using assms(1,2)
    by (simp add: sync_get.simps[of "g # fs"] processFrame_def fifo_isEmpty_items can_ok_def split: if_splits)
qed (use assms(1,2) in \<open>simp add: sync_get.simps[of "[]"] fifo_isEmpty_items can_ok_def\<close>)

interpretation can: can_link "CanStreamer behind" can_ok bus can_inbox
proof
  fix w :: can_world and f fs
  assume ok: "can_ok w"
  show "\<exists>w1 w2. transmit (CanStreamer behind) f w = (True, w1) \<and> destroy_message (CanStreamer behind) f w1 = w2 \<and>
      can_ok w2 \<and> bus w2 = bus w @ [f] \<and> can_inbox w2 = can_inbox w"
    using ok by (auto simp: CanStreamer_def destroy_CanTxMessage_def can_ok_def can_inbox_def)
  show "can_inbox w = f # fs \<Longrightarrow>
      \<exists>w'. receive (CanStreamer behind) w = (Some f, w') \<and> can_ok w' \<and> bus w' = bus w \<and> can_inbox w' = fs"
    using sync_get_first[OF ok, of "coming w"] by (simp add: CanStreamer_def can_inbox_def)
  show "can_inbox w = [] \<Longrightarrow>
      \<exists>w'. receive (CanStreamer behind) w = (None, w') \<and> can_ok w' \<and> bus w' = bus w \<and> can_inbox w' = []"
    using sync_get_none[OF ok, of "coming w"] ok by (auto simp: CanStreamer_def can_inbox_def can_ok_def)
qed

subsection \<open>The properties\<close>

lemma arriving_inbox:
  assumes "fifo_items (rxFifo w) = []" "coming w = map arriving fs"
  shows "can_inbox w = map arriving fs"
  using assms by (simp add: can_inbox_def arriving_def filter_map comp_def)

lemma filter_arriving: "filter (\<lambda>f. can_id f = CAN_ECU_SERIAL_RX_ID) (map arriving fs) = map arriving fs"
  by (induction fs) (simp_all add: arriving_def)

text \<open>C23: the frames of a stream depend on its bytes only. However the stream is cut into writes, once it is
  flushed the bus has carried exactly the frames of its packets, full ones of 76 bytes and a last one with the
  rest, nothing is left in the buffer, and one flow control frame has been used for every packet of more than
  seven bytes; the operations return.\<close>

theorem writes_refine_packets:
  fixes st :: "can_world CanStreamerState"
  assumes "minI_ok minI" "txFifoBuf st = fifo_buffer 0 CAN_FIFO_BUF_SIZE" "can_ok (port st)"
    "\<forall>f\<in>set (can_inbox (port st)). go_ahead f" "grants_needed (concat ds) \<le> length (can_inbox (port st))"
  shows "\<exists>st'. write_pieces minI (CanStreamer behind) ds st = Some st' \<and>
    bus (port st') = bus (port st) @ concat (map packet_frames (stream_packets (concat ds))) \<and>
    can_inbox (port st') = drop (grants_needed (concat ds)) (can_inbox (port st)) \<and> fifo_items (txFifoBuf st') = []"
proof -
  have "can.sending [] st" using assms(2-4) linear_new by (simp add: can.sending_def)
  from can.write_pieces_sends[OF this, of ds behind] assms(5) show ?thesis
    unfolding minI_ok_eq[OF assms(1)] by (auto simp: can.went_out_def can.sending_def linear_def)
qed

text \<open>C22: the stream comes back as it was. The frames that a sender puts on the bus for a stream, written in any
  pieces and flushed, reach a receiver whose buffer is empty; reading with buffers of any sizes returns the
  bytes of the stream in their order, as many as were asked for, and no byte is read from outside a frame.\<close>

theorem stream_roundtrip:
  fixes sender receiver :: "can_world CanStreamerState"
  assumes "minI_ok minI" "txFifoBuf sender = fifo_buffer 0 CAN_FIFO_BUF_SIZE" "can_ok (port sender)" "bus (port sender) = []"
    "\<forall>f\<in>set (can_inbox (port sender)). go_ahead f" "grants_needed (concat ds) \<le> length (can_inbox (port sender))"
    and "rxFifoBuf receiver = fifo_buffer 0 CAN_FIFO_BUF_SIZE" "can_ok (port receiver)" "fifo_items (rxFifo (port receiver)) = []"
  shows "\<exists>sender' pieces receiver'. write_pieces minI (CanStreamer behind) ds sender = Some sender' \<and>
    read_pieces minI (CanStreamer behind) ns
      (receiver\<lparr>port := (port receiver)\<lparr>coming := map arriving (bus (port sender'))\<rparr>\<rparr>) = (pieces, receiver') \<and>
    concat pieces = take (sum_list ns) (concat ds) \<and> can_log receiver' = can_log receiver"
proof -
  have "can.sending [] sender" using assms(2-5) linear_new by (simp add: can.sending_def)
  from can.write_pieces_sends[OF this, of ds behind] assms(4,6) obtain sender' where
    s: "write_pieces min (CanStreamer behind) ds sender = Some sender'"
      "bus (port sender') = concat (map packet_frames (stream_packets (concat ds)))"
    by (auto simp: can.went_out_def)
  let ?fs = "map arriving (bus (port sender'))"
  let ?r = "receiver\<lparr>port := (port receiver)\<lparr>coming := ?fs\<rparr>\<rparr>"
  have "carry ?r ?fs (concat ds)"
    using carry_packets[of "stream_packets (concat ds)" ?r] stream_packets_size[of _ "concat ds"]
    unfolding s(2) stream_packets_concat by fastforce
  then have "can.receiving (concat ds) ?r"
    using assms(7-9) fifo_buffer_ok[of 76 "0 :: byte"]
    by (simp add: can.receiving_def can_ok_def can_inbox_def filter_arriving)
  from can.read_pieces_reads[OF this, of behind ns] s(1) show ?thesis
    unfolding minI_ok_eq[OF assms(1)] by auto
qed

text \<open>A partner that does not answer costs bytes. When a write fills the buffer and no flow control frame
  comes, the first frame of the packet is on the bus, the packet stays in the buffer to be sent again from its start,
  and the bytes of the write that did not fit are dropped; the write reports success all the same.\<close>

theorem unanswered_write_drops_bytes:
  fixes st :: "can_world CanStreamerState"
  assumes "minI_ok minI" "linear (txFifoBuf st) xs" "can_ok (port st)" "length xs < 76" "76 \<le> length (xs @ d)" "can_inbox (port st) = []"
  shows "\<exists>st'. streamAddToTxTimeout minI (CanStreamer behind) d st = Some st' \<and>
    fifo_items (txFifoBuf st') = take 76 (xs @ d) \<and> bus (port st') = bus (port st) @ [first_frame (take 76 (xs @ d))]"
proof -
  let ?k = "76 - length xs"
  let ?p = "xs @ take ?k d"
  let ?b = "snd (fifo_put_items (take ?k d) (txFifoBuf st))"
  note lin = assms(2,3)
  have lp: "length ?p = 76" "take 76 (xs @ d) = ?p" using assms(4,5) by simp_all
  have lb: "linear ?b ?p" using linear_put_items[OF lin(1), of "take ?k d"] lp by simp
  obtain more where more: "elements ?b = ?p @ more" using linear_elements[OF lb] by blast
  obtain st1 where s1: "sendFrame min (CanStreamer behind) ((iso_header ISO_TP_FRAME_FIRST)\<lparr>hdr_numBytes := 76\<rparr>)
      (Some (?p @ more)) 76 (st\<lparr>txFifoBuf := ?b\<rparr>) = (6, st1)" "can.sent [first_frame ?p] (st\<lparr>txFifoBuf := ?b\<rparr>) st1"
    using can.send_first[of "st\<lparr>txFifoBuf := ?b\<rparr>" ?p behind more] lin(2) lp by auto
  obtain w where w: "receive (CanStreamer behind) (port st1) = (None, w)" "bus w = bus (port st1)"
    using can.times_out[of "port st1"] can.sent_port[OF s1(2)] assms(6) by auto
  have f: "txFifoBuf st1 = ?b" "bus (port st1) = bus (port st) @ [first_frame ?p]"
    using s1(2) by (auto simp: can.sent_def)
  have fc: "flow_control min (CanStreamer behind) 0 st1 = (False, st1\<lparr>port := w\<rparr>)"
    using w by (simp add: flow_control.simps)
  have k: "nat (76 - int (length xs)) = ?k" "76 - int (length xs) \<le> int (length d)" using assms(4,5) by auto
  have "add_loop min (CanStreamer behind) d (int (length d)) st = Some (d, int (length d), st1\<lparr>port := w\<rparr>)"
    using s1(1) fc k linear_counts[OF lin(1)] linear_counts[OF lb] lp(1)
    by (simp add: add_loop.simps[of _ _ d] more sendDataTimeout_def Let_def f(1))
  moreover have "snd (fifo_put_items d ?b) = ?b"
    using fifo_put_full[of ?b] lb lp(1) by (cases d) (auto simp: linear_def)
  ultimately show ?thesis
    using lb f w(2) lp(2) unfolding minI_ok_eq[OF assms(1)] by (simp add: streamAddToTxTimeout_def linear_def)
qed

lemma frame_bytes_behind:
  assumes "length (data8 f) = 8" "7 < n"
  shows "frame_bytes S (Suc 0) n f = drop (Suc 0) (data8 f) @ map (memory_behind S) [0..<n - 7]"
proof (rule nth_equalityI)
  fix i assume "i < length (frame_bytes S (Suc 0) n f)"
  then show "frame_bytes S (Suc 0) n f ! i = (drop (Suc 0) (data8 f) @ map (memory_behind S) [0..<n - 7]) ! i"
    using assms by (cases "i < 7") (auto simp: frame_bytes_def nth_append simp del: upt_Suc)
qed (use assms in \<open>simp add: frame_bytes_def\<close>)

text \<open>C24: bytes from outside a frame. Whatever the frame and the state, receiving reads behind the eight bytes of the
  frame in one case only: a frame that claims to be complete and to hold more than seven bytes. It is then handed to
  the reader with as many bytes of the memory behind it as it claims too much.\<close>

theorem single_frame_overread:
  assumes "minI_ok minI" "length (data8 f) = 8" "1 \<le> uint (DLC f)"
    and "t = drop_bit 4 (uint (data8 f ! 0)) AND 0xf" "n = nat (uint (data8 f ! 0) AND 0xf)"
    and "receiveFrame minI S (Some f) True (int num) st = (m, buf, st')"
  shows "if t = ISO_TP_FRAME_SINGLE \<and> 7 < n
    then can_log st' = can_log st @ [OutOfBounds] \<and>
      (n \<le> num \<longrightarrow> buf = drop 1 (data8 f) @ map (memory_behind S) [0..<n - 7])
    else can_log st' = can_log st"
proof -
  have log: "can_log (snd (sendFrame min S h b k s)) = can_log s" for h b k and s :: "'a CanStreamerState"
    by (simp add: sendFrame_def Let_def split: option.split prod.split)
  have dlc: "\<not> uint (DLC f) < 1" using assms(3) by simp
  have nib: "0 \<le> uint (data8 f ! 0) AND 15" by (simp add: low_nibble)
  show ?thesis
  proof (cases "t = ISO_TP_FRAME_SINGLE")
    case True
    have "1 + n > 8 \<longleftrightarrow> 7 < n" by arith
    with True show ?thesis
      using assms(2,4-6) dlc nib unfolding minI_ok_eq[OF assms(1)]
      by (auto simp: receiveFrame_def accept_frame_def frame_bytes_behind Let_def)
  next
    case False
    then show ?thesis
      using assms(2,4-6) dlc unfolding minI_ok_eq[OF assms(1)]
      by (auto simp: receiveFrame_def accept_frame_def Let_def log split: if_splits)
  qed
qed

subsection \<open>Witnesses\<close>

definition example_can :: "can_frame list \<Rightarrow> can_world" where
  "example_can fs =
     \<lparr>s_device = True, allowCanTx = True, canTransmit = (\<lambda>_ _. True), bus = [], canWriteOk = 0, canWriteNotOk = 0,
      rxFifo = fifo_buffer (CanTxMessage 0 0) CAN_FIFO_FRAME_SIZE, coming = fs, world_log = []\<rparr>"

lemma example_can_facts:
  "can_ok (example_can fs)" "fifo_items (rxFifo (example_can fs)) = []" "coming (example_can fs) = fs" "bus (example_can fs) = []"
  "can_inbox (example_can fs) = filter (\<lambda>f. can_id f = CAN_ECU_SERIAL_RX_ID) fs"
  using fifo_buffer_ok[of 8 "CanTxMessage 0 0"] by (simp_all add: example_can_def can_ok_def can_inbox_def)

lemma example_grant:
  "filter (\<lambda>f. can_id f = CAN_ECU_SERIAL_RX_ID) [arriving continue_frame] = [arriving continue_frame]"
  "go_ahead (arriving continue_frame)"
  using frame_byte(1)[of 3 0]
  by (simp_all add: go_ahead_def continue_frame_def padded_data type_byte_def) (simp add: arriving_def)

lemma example_needs: "length d < 76 \<Longrightarrow> grants_needed d \<le> 1"
  by (simp add: grants_needed_def full_packets.simps[of d])

theorem writes_refine_packets_witness:
  "\<exists>st'. write_pieces min (CanStreamer (\<lambda>_. 0)) [[1, 2, 3], [4, 5, 6, 7, 8, 9]]
      (CanStreamerState (example_can [arriving continue_frame])) = Some st' \<and>
    bus (port st') = concat (map packet_frames (stream_packets [1, 2, 3, 4, 5, 6, 7, 8, 9]))"
  using writes_refine_packets[of min "CanStreamerState (example_can [arriving continue_frame])" "[[1, 2, 3], [4, 5, 6, 7, 8, 9]]" "\<lambda>_. 0"]
    example_grant example_needs[of "[1, 2, 3, 4, 5, 6, 7, 8, 9]"]
  by (auto simp: minI_ok_def CanStreamerState_def example_can_facts)

theorem stream_roundtrip_witness:
  "\<exists>sender' pieces receiver'. write_pieces min (CanStreamer (\<lambda>_. 0)) [[1, 2, 3], [4, 5, 6, 7, 8, 9]]
      (CanStreamerState (example_can [arriving continue_frame])) = Some sender' \<and>
    read_pieces min (CanStreamer (\<lambda>_. 0)) [4, 2, 3]
      (CanStreamerState (example_can (map arriving (bus (port sender'))))) = (pieces, receiver') \<and>
    concat pieces = [1, 2, 3, 4, 5, 6, 7, 8, 9]"
proof -
  have "(CanStreamerState (example_can []))\<lparr>port := (port (CanStreamerState (example_can [])))\<lparr>coming := fs\<rparr>\<rparr>
      = CanStreamerState (example_can fs)" for fs
    by (simp add: CanStreamerState_def example_can_def)
  then show ?thesis
    using stream_roundtrip[of min "CanStreamerState (example_can [arriving continue_frame])" "[[1, 2, 3], [4, 5, 6, 7, 8, 9]]"
        "CanStreamerState (example_can [])" "\<lambda>_. 0" "[4, 2, 3]"]
      example_grant example_needs[of "[1, 2, 3, 4, 5, 6, 7, 8, 9]"]
    by (auto simp: minI_ok_def CanStreamerState_def example_can_facts)
qed

theorem unanswered_write_drops_bytes_witness:
  "\<exists>st'. streamAddToTxTimeout min (CanStreamer (\<lambda>_. 0)) (replicate 100 7) (CanStreamerState (example_can [])) = Some st' \<and>
    fifo_items (txFifoBuf st') = replicate 76 7 \<and> bus (port st') = [first_frame (replicate 76 7)]"
  using unanswered_write_drops_bytes[of min "CanStreamerState (example_can [])" "[]" "replicate 100 7" "\<lambda>_. 0"] linear_new
  by (auto simp: minI_ok_def CanStreamerState_def example_can_facts)

theorem single_frame_overread_witness:
  "fst (snd (receiveFrame min (CanStreamer (\<lambda>_. 0xAB)) (Some \<lparr>can_id = 0x100, DLC = 8, data8 = [9, 1, 2, 3, 4, 5, 6, 7]\<rparr>) True (int 100)
     (CanStreamerState (example_can [])))) = [1, 2, 3, 4, 5, 6, 7, 0xAB, 0xAB]"
proof -
  let ?f = "\<lparr>can_id = 0x100, DLC = 8, data8 = [9, 1, 2, 3, 4, 5, 6, 7]\<rparr>"
  obtain m buf st' where r: "receiveFrame min (CanStreamer (\<lambda>_. 0xAB)) (Some ?f) True (int 100)
      (CanStreamerState (example_can [])) = (m, buf, st')"
    by (metis surj_pair)
  have "drop_bit 4 (uint (9 :: byte)) AND 0xf = 0" "nat (uint (9 :: byte) AND 0xf) = 9" by code_simp+
  moreover have "memory_behind (CanStreamer (\<lambda>_. 0xAB)) = (\<lambda>_. 0xAB)" by (simp add: CanStreamer_def)
  ultimately show ?thesis
    using single_frame_overread[of min ?f 0 9, OF _ _ _ _ _ r]
    by (simp add: r[simplified] minI_ok_def upt_conv_Cons)
qed

end
