(* ===== verification/Instant_Rpm.thy ===== *)
theory Instant_Rpm
  imports Trigger_Central Angle_Index
begin

text \<open>
  \<^verbatim>\<open>controllers/trigger/instant_rpm_calculator.h\<close> and \<^verbatim>\<open>.cpp\<close>: the speed between two teeth and the share
  of each cylinder in it. Time stamps are the low 32 bits of the tick. \<open>None\<close> as the result of a computation
  means that an angle is not wrapped in finite time or that an array is read out of bounds. \<open>minI\<close> belongs
  to the \<^verbatim>\<open>libfirmware\<close> submodule.
\<close>

abbreviation "CUSTOM_ERR_TRIGGER_ANGLE_RANGE \<equiv> ObdCode 6560"
abbreviation "CUSTOM_ERR_6561 \<equiv> ObdCode 6561"

record instant_rpm =
  timeOfLastEvent :: "32 word list"
  spinningEventIndex :: nat
  m_instantRpm :: rat
  m_lastCylRpm :: rat
  cylinderRpm :: "rat list"
  cylinderRpmDelta :: "rat list"
  ir_log :: diag_log

definition InstantRpmCalculator :: "nat \<Rightarrow> instant_rpm" where
  "InstantRpmCalculator cylinders =
     \<lparr>timeOfLastEvent = replicate PWM_PHASE_MAX_COUNT 0, spinningEventIndex = 0, m_instantRpm = 0, m_lastCylRpm = 0,
      cylinderRpm = replicate cylinders 0, cylinderRpmDelta = replicate cylinders 0, ir_log = []\<rparr>"

text \<open>What the calculator reads of the configuration and of the cylinders (\<^verbatim>\<open>getAngleOffset\<close>).\<close>

record instant_env =
  ie_engineCycle :: rat
  ie_instantRpmRange :: rat
  ie_cylindersCount :: nat
  ie_cylContributionWindow :: rat
  ie_cylContributionPhase :: rat
  ie_angleOffsets :: "rat list"

definition resetInstantRpm :: "instant_rpm \<Rightarrow> instant_rpm" where
  "resetInstantRpm ir =
     ir\<lparr>timeOfLastEvent := replicate (length (timeOfLastEvent ir)) 0, spinningEventIndex := 0, m_instantRpm := 0\<rparr>"

text \<open>\<^verbatim>\<open>memmove\<close> of \<open>n\<close> elements inside an array: the part that falls into it.\<close>

definition array_move :: "nat \<Rightarrow> nat \<Rightarrow> nat \<Rightarrow> 'a list \<Rightarrow> 'a list" where
  "array_move dst src n xs = map (\<lambda>i. if dst \<le> i \<and> i < dst + n then xs ! (src + (i - dst)) else xs ! i) [0..<length xs]"

text \<open>Writing behind the array is marked.\<close>

definition movePreSynchTimestamps :: "(int \<Rightarrow> int \<Rightarrow> int) \<Rightarrow> trigger_waveform \<Rightarrow> instant_rpm \<Rightarrow> instant_rpm" where
  "movePreSynchTimestamps minI shape ir =
     (let triggerSize = getLength shape;
          eventsToCopy = nat (minI (int (spinningEventIndex ir)) (int triggerSize));
          (firstSrc, firstDst) =
            (if eventsToCopy \<ge> triggerSize then (spinningEventIndex ir - triggerSize, 0)
             else (0, triggerSize - spinningEventIndex ir))
      in ir\<lparr>timeOfLastEvent := array_move firstDst firstSrc eventsToCopy (timeOfLastEvent ir),
            ir_log := ir_log ir @ (if eventsToCopy \<noteq> 0 \<and> firstDst + eventsToCopy > length (timeOfLastEvent ir)
                                   then [OutOfBounds] else [])\<rparr>)"

text \<open>The speed, if there is one, and what is reported.\<close>

definition calculateInstantRpm ::
  "instant_env \<Rightarrow> trigger_waveform \<Rightarrow> rat list \<Rightarrow> nat \<Rightarrow> 32 word \<Rightarrow> rat \<Rightarrow> instant_rpm \<Rightarrow> (rat option \<times> diag_log) option" where
  "calculateInstantRpm env shape angles idx nowNt32 window ir =
     (let currentAngle = angles ! idx in
      case wrapAngle (ie_engineCycle env) CUSTOM_ERR_TRIGGER_ANGLE_RANGE (Fin (currentAngle - window)) of
        None \<Rightarrow> None
      | Some (prevAngle, l1) \<Rightarrow>
          case findAngleIndex shape angles prevAngle of
            None \<Rightarrow> None
          | Some (prevIndex, l2) \<Rightarrow>
              if \<not> unat prevIndex < length (timeOfLastEvent ir) then None
              else
                let prevIndexAngle = angles ! unat prevIndex;
                    time90ago = timeOfLastEvent ir ! unat prevIndex in
                if time90ago = 0 then Some (None, l1 @ l2)
                else
                  let time = nowNt32 - time90ago;
                      angleDiff = currentAngle - prevIndexAngle in
                  case wrapAngle (ie_engineCycle env) CUSTOM_ERR_6561 (Fin angleDiff) of
                    None \<Rightarrow> None
                  | Some (angleDiff, l3) \<Rightarrow>
                      let l = l1 @ l2 @ l3 in
                      if time = 0 then Some (None, l)
                      else
                        let instantRpm = 60000000 / 360 * of_int US_TO_NT_MULTIPLIER * angleDiff / of_nat (unat time) in
                        if instantRpm < RPM_LOW_THRESHOLD then Some (None, l) else Some (Some instantRpm, l))"

definition setLastEventTimeForInstantRpm :: "trigger_waveform \<Rightarrow> efitick_t \<Rightarrow> instant_rpm \<Rightarrow> instant_rpm" where
  "setLastEventTimeForInstantRpm shape nowNt ir =
     (if spinningEventIndex ir \<ge> length (timeOfLastEvent ir) then ir
      else ir\<lparr>timeOfLastEvent := (timeOfLastEvent ir)[spinningEventIndex ir := of_int nowNt],
              spinningEventIndex := spinningEventIndex ir + (if useOnlyRisingEdges shape then 2 else 1)\<rparr>)"

text \<open>One cylinder, and the loop over the cylinders.\<close>

definition cylinder_contribution ::
  "instant_env \<Rightarrow> trigger_waveform \<Rightarrow> rat list \<Rightarrow> nat \<Rightarrow> 32 word \<Rightarrow> enginePhaseInfo \<Rightarrow> nat \<Rightarrow> instant_rpm \<Rightarrow> instant_rpm option" where
  "cylinder_contribution env shape angles idx nowNt32 phaseInfo i ir =
     (case wrapAngle (ie_engineCycle env) OBD_PCM_Processor_Fault (Fin (ie_angleOffsets env ! i + ie_cylContributionPhase env)) of
        None \<Rightarrow> None
      | Some (measurementAngle, l) \<Rightarrow>
          let ir = ir\<lparr>ir_log := ir_log ir @ l\<rparr> in
          if isEngPhaseInRange measurementAngle phaseInfo then
            case calculateInstantRpm env shape angles idx nowNt32 (ie_cylContributionWindow env) ir of
              None \<Rightarrow> None
            | Some (rpm, l) \<Rightarrow>
                let ir = ir\<lparr>ir_log := ir_log ir @ l\<rparr> in
                (case rpm of
                   None \<Rightarrow> Some ir
                 | Some v \<Rightarrow>
                     Some (ir\<lparr>cylinderRpm := (cylinderRpm ir)[i := v],
                              cylinderRpmDelta := (cylinderRpmDelta ir)[i := v - m_lastCylRpm ir],
                              m_lastCylRpm := v\<rparr>))
          else Some ir)"

fun cylinder_loop :: "(nat \<Rightarrow> instant_rpm \<Rightarrow> instant_rpm option) \<Rightarrow> nat list \<Rightarrow> instant_rpm \<Rightarrow> instant_rpm option" where
  "cylinder_loop f [] ir = Some ir"
| "cylinder_loop f (i # is) ir = Option.bind (f i ir) (cylinder_loop f is)"

definition updateCylinderContribution ::
  "instant_env \<Rightarrow> trigger_waveform \<Rightarrow> rat list \<Rightarrow> nat \<Rightarrow> 32 word \<Rightarrow> enginePhaseInfo \<Rightarrow> instant_rpm \<Rightarrow> instant_rpm option" where
  "updateCylinderContribution env shape angles idx nowNt32 phaseInfo ir =
     (if getLength shape < ie_cylindersCount env * 2 then Some ir
      else if ie_cylContributionWindow env \<le> 0 then Some ir
      else cylinder_loop (cylinder_contribution env shape angles idx nowNt32 phaseInfo) [0..<ie_cylindersCount env] ir)"

text \<open>An index behind the array of time stamps is reported and nothing else happens.\<close>

definition updateInstantRpm ::
  "instant_env \<Rightarrow> trigger_waveform \<Rightarrow> rat list \<Rightarrow> nat \<Rightarrow> enginePhaseInfo \<Rightarrow> instant_rpm \<Rightarrow> instant_rpm option" where
  "updateInstantRpm env shape angles idx phaseInfo ir =
     (let nowNt32 = of_int (timestamp phaseInfo) in
      if \<not> idx < length (timeOfLastEvent ir) then Some (ir\<lparr>ir_log := ir_log ir @ [FirmwareError OBD_PCM_Processor_Fault]\<rparr>)
      else
        let ir = ir\<lparr>timeOfLastEvent := (timeOfLastEvent ir)[idx := nowNt32]\<rparr> in
        case calculateInstantRpm env shape angles idx nowNt32 (ie_instantRpmRange env) ir of
          None \<Rightarrow> None
        | Some (rpm, l) \<Rightarrow>
            let ir = ir\<lparr>ir_log := ir_log ir @ l\<rparr> in
            (case rpm of
               None \<Rightarrow> Some ir
             | Some v \<Rightarrow> updateCylinderContribution env shape angles idx nowNt32 phaseInfo (ir\<lparr>m_instantRpm := v\<rparr>)))"

end
