(* ===== verification/Rpm_Calculator.thy ===== *)
theory Rpm_Calculator
  imports Instant_Rpm Trigger_Scheduler
begin

text \<open>
  \<^verbatim>\<open>controllers/engine_cycle/rpm_calculator.h\<close> and \<^verbatim>\<open>.cpp\<close>, \<^verbatim>\<open>shutdown_controller.h\<close>, and the handlers of
  \<^verbatim>\<open>algo/engine.cpp\<close> that the trigger decoder calls: the speed of the engine, whether it stands, cranks or runs,
  and how the speed is measured once per engine cycle. What other modules do when the speed becomes
  known or the engine stops is recorded as a call. The speed is a sensor that never times out, so the sensor is
  its stored value; not a number is \<open>None\<close> for the duration of a degree.
\<close>

datatype spinning_state_e = STOPPED | SPINNING_UP | CRANKING | RUNNING

datatype rpm_call = PeriodicFastCallback | OnEngineStop | InvalidateInjection

record rpm_calculator =
  previousRpmValue :: int
  oneDegreeUs :: "rat option"
  lastTdcTimer :: efitick_t
  rpmRate :: rat
  cachedRpmValue :: rat
  revolutionCounterSinceBoot :: "32 word"
  revolutionCounterSinceStart :: "32 word"
  spinning_state :: spinning_state_e
  isSpinning :: bool
  engineStartTimer :: efitick_t
  m_lastRpm :: rat
  rpm_sensor :: rat
  rpm_calls :: "rpm_call list"

text \<open>What the calculator reads of the configuration, and the time of the last request to stop.\<close>

record rpm_env =
  re_instant :: instant_env
  re_cfg :: central_config
  re_alwaysInstantRpm :: bool
  re_isFasterEngineSpinUpEnabled :: bool
  re_engineStopTimer :: efitick_t

definition MAX_ALLOWED_RPM :: rat where "MAX_ALLOWED_RPM = 30000"

definition NO_RPM_EVENTS_TIMEOUT_SECS :: rat where "NO_RPM_EVENTS_TIMEOUT_SECS = 2"

definition SLOW_CALLBACK_PERIOD_MS :: rat where "SLOW_CALLBACK_PERIOD_MS = 50"

definition getOneDegreeTimeUs :: "rat \<Rightarrow> rat" where
  "getOneDegreeTimeUs rpm = 1000000 * 60 / 360 / rpm"

definition isEngineStop :: "efitick_t \<Rightarrow> efitick_t \<Rightarrow> bool" where
  "isEngineStop m_engineStopTimer nowNt = (getElapsedSeconds m_engineStopTimer nowNt < 5)"

subsection \<open>The states\<close>

definition isStopped :: "rpm_calculator \<Rightarrow> bool" where
  "isStopped r = (spinning_state r = STOPPED \<or> spinning_state r = SPINNING_UP \<and> cachedRpmValue r = 0)"

definition isCranking :: "rpm_calculator \<Rightarrow> bool" where
  "isCranking r = (spinning_state r = CRANKING \<or> spinning_state r = SPINNING_UP \<and> cachedRpmValue r > 0)"

definition isSpinningUp :: "rpm_calculator \<Rightarrow> bool" where
  "isSpinningUp r = (spinning_state r = SPINNING_UP)"

definition isRunning :: "rpm_calculator \<Rightarrow> bool" where
  "isRunning r = (spinning_state r = RUNNING)"

definition doesTriggerImplyOperationMode :: "trigger_type_e \<Rightarrow> bool" where
  "doesTriggerImplyOperationMode type =
     (type \<notin> {TT_TOOTHED_WHEEL, TT_ONE, TT_3_1_CAM, TT_36_2_2_2, TT_TOOTHED_WHEEL_60_2, TT_TOOTHED_WHEEL_36_1})"

definition getOperationMode :: "central_config \<Rightarrow> trigger_waveform \<Rightarrow> operation_mode_e" where
  "getOperationMode cfg shape =
     (if doesTriggerImplyOperationMode (cfg_trigger_type cfg) then getWheelOperationMode shape
      else lookupOperationMode cfg)"

definition checkIfSpinning :: "libfw \<Rightarrow> rpm_env \<Rightarrow> efitick_t \<Rightarrow> central \<Rightarrow> rpm_calculator \<Rightarrow> bool" where
  "checkIfSpinning L env nowNt tc r =
     (if isEngineStop (re_engineStopTimer env) nowNt then False
      else
        let noRpmEventsForTooLong = getElapsedSeconds (lastTdcTimer r) nowNt > NO_RPM_EVENTS_TIMEOUT_SECS;
            noTriggerEventsForTooLong = \<not> engineMovedRecently L nowNt tc
        in \<not> (noRpmEventsForTooLong \<or> noTriggerEventsForTooLong))"

subsection \<open>The value\<close>

definition rpm_call :: "rpm_call \<Rightarrow> rpm_calculator \<Rightarrow> rpm_calculator" where
  "rpm_call c r = r\<lparr>rpm_calls := rpm_calls r @ [c]\<rparr>"

definition assignRpmValue :: "rat \<Rightarrow> rpm_calculator \<Rightarrow> rpm_calculator" where
  "assignRpmValue floatRpmValue r =
     (let r = r\<lparr>previousRpmValue := c_trunc (cachedRpmValue r), cachedRpmValue := floatRpmValue, rpm_sensor := floatRpmValue\<rparr> in
      if cachedRpmValue r \<le> 0 then r\<lparr>oneDegreeUs := None\<rparr>
      else
        let r = r\<lparr>oneDegreeUs := Some (getOneDegreeTimeUs floatRpmValue)\<rparr>
        in if previousRpmValue r = 0 then rpm_call PeriodicFastCallback r else r)"

text \<open>\<^verbatim>\<open>engineStartTimer.reset()\<close> takes the current time, \<open>now\<close>.\<close>

definition setRpmValue :: "rat \<Rightarrow> efitick_t \<Rightarrow> rat \<Rightarrow> rpm_calculator \<Rightarrow> rpm_calculator" where
  "setRpmValue cranking_rpm now' v r =
     (let v = (if v > MAX_ALLOWED_RPM then 0 else v);
          r = assignRpmValue v r in
      if cachedRpmValue r = 0 then r\<lparr>spinning_state := STOPPED\<rparr>
      else if cachedRpmValue r \<ge> cranking_rpm then
        (if spinning_state r \<noteq> RUNNING then r\<lparr>engineStartTimer := now'\<rparr> else r)\<lparr>spinning_state := RUNNING\<rparr>
      else if spinning_state r = STOPPED \<or> spinning_state r = SPINNING_UP then r\<lparr>spinning_state := CRANKING\<rparr>
      else r)"

definition onNewEngineCycle :: "rpm_calculator \<Rightarrow> rpm_calculator" where
  "onNewEngineCycle r =
     r\<lparr>revolutionCounterSinceBoot := revolutionCounterSinceBoot r + 1,
       revolutionCounterSinceStart := revolutionCounterSinceStart r + 1\<rparr>"

definition setStopSpinning :: "rpm_calculator \<Rightarrow> rpm_calculator" where
  "setStopSpinning r =
     (let r = r\<lparr>isSpinning := False, revolutionCounterSinceStart := 0, rpmRate := 0\<rparr>;
          r = (if cachedRpmValue r \<noteq> 0 then assignRpmValue 0 r else r);
          r = r\<lparr>spinning_state := STOPPED\<rparr>
      in rpm_call OnEngineStop r)"

definition onSlowCallback :: "libfw \<Rightarrow> rpm_env \<Rightarrow> efitick_t \<Rightarrow> central \<Rightarrow> rpm_calculator \<Rightarrow> rpm_calculator" where
  "onSlowCallback L env now' tc r =
     (let r = (if \<not> engineMovedRecently L now' tc then setStopSpinning r else r) in
      if re_alwaysInstantRpm env then
        let rpm = rpm_sensor r;
            r = (if rpm = 0 \<or> m_lastRpm r = 0 then r\<lparr>rpmRate := 0\<rparr>
                 else r\<lparr>rpmRate := (rpm - m_lastRpm r) / (SLOW_CALLBACK_PERIOD_MS * (1/1000))\<rparr>)
        in r\<lparr>m_lastRpm := rpm\<rparr>
      else r)"

text \<open>The calculator, the instant calculator and whether the ignition events are ready.\<close>

record rotation =
  rpm :: rpm_calculator
  instant :: instant_rpm
  ignition_isReady :: bool

definition RpmCalculator :: rpm_calculator where
  "RpmCalculator =
     assignRpmValue 0
       \<lparr>previousRpmValue = 0, oneDegreeUs = None, lastTdcTimer = timer_init, rpmRate = 0, cachedRpmValue = 0,
        revolutionCounterSinceBoot = 0, revolutionCounterSinceStart = 0, spinning_state = STOPPED, isSpinning = False,
        engineStartTimer = timer_init, m_lastRpm = 0, rpm_sensor = 0, rpm_calls = []\<rparr>"

definition setSpinningUp :: "rpm_env \<Rightarrow> efitick_t \<Rightarrow> central \<Rightarrow> rotation \<Rightarrow> rotation" where
  "setSpinningUp env nowNt tc e =
     (if \<not> re_isFasterEngineSpinUpEnabled env then e
      else
        let e = (if isStopped (rpm e) \<and> \<not> isSpinning (rpm e)
                 then e\<lparr>rpm := (rpm e)\<lparr>spinning_state := SPINNING_UP, isSpinning := True\<rparr>,
                        instant := (instant e)\<lparr>spinningEventIndex := 0\<rparr>\<rparr>
                 else e)
        in if isSpinningUp (rpm e) \<and> \<not> shaft_is_synchronized (triggerState tc)
           then e\<lparr>instant := setLastEventTimeForInstantRpm (triggerShape tc) nowNt (instant e)\<rparr>
           else e)"

subsection \<open>The callback of the shaft position\<close>

text \<open>Once per engine cycle, at the first event: the period since the last time and the speed from it.\<close>

definition cycle_rpm ::
  "libfw \<Rightarrow> (int \<Rightarrow> int \<Rightarrow> int) \<Rightarrow> rpm_env \<Rightarrow> efitick_t \<Rightarrow> central \<Rightarrow> efitick_t \<Rightarrow> rotation \<Rightarrow> rotation" where
  "cycle_rpm L minI env now' tc stamp e =
     (let hadRpmRecently = checkIfSpinning L env stamp tc (rpm e);
          (periodSeconds, tdc) = getElapsedSecondsAndReset (lastTdcTimer (rpm e)) stamp;
          e = e\<lparr>rpm := (rpm e)\<lparr>lastTdcTimer := tdc\<rparr>\<rparr>;
          set = setRpmValue (cfg_cranking_rpm (re_cfg env)) now';
          e = (if hadRpmRecently then
                 (if \<not> re_alwaysInstantRpm env then
                    (if periodSeconds = 0 then e\<lparr>rpm := (set 0 (rpm e))\<lparr>rpmRate := 0\<rparr>\<rparr>
                     else
                       let mult = getEngineCycle (getOperationMode (re_cfg env) (triggerShape tc)) / 360;
                           v = 60 * mult / periodSeconds;
                           rpmDelta = v - of_int (previousRpmValue (rpm e))
                       in e\<lparr>rpm := set v ((rpm e)\<lparr>rpmRate := rpmDelta / (mult * periodSeconds)\<rparr>)\<rparr>)
                  else e)
               else e\<lparr>instant := movePreSynchTimestamps minI (triggerShape tc) (instant e)\<rparr>)
      in e\<lparr>rpm := onNewEngineCycle (rpm e)\<rparr>)"

definition rpmShaftPositionCallback ::
  "libfw \<Rightarrow> (int \<Rightarrow> int \<Rightarrow> int) \<Rightarrow> rpm_env \<Rightarrow> efitick_t \<Rightarrow> central \<Rightarrow> nat \<Rightarrow> enginePhaseInfo \<Rightarrow> rotation \<Rightarrow> rotation option" where
  "rpmShaftPositionCallback L minI env now' tc trgEventIndex phaseInfo e =
     (let e = (if trgEventIndex = 0 then cycle_rpm L minI env now' tc (timestamp phaseInfo) e else e) in
      case updateInstantRpm (re_instant env) (triggerShape tc) (eventAngles tc) trgEventIndex phaseInfo (instant e) of
        None \<Rightarrow> None
      | Some ir \<Rightarrow>
          let e = e\<lparr>instant := ir\<rparr>;
              instantRpm = m_instantRpm ir in
          Some (if re_alwaysInstantRpm env
                then e\<lparr>rpm := setRpmValue (cfg_cranking_rpm (re_cfg env)) now' instantRpm (rpm e)\<rparr>
                else if isSpinningUp (rpm e) then e\<lparr>rpm := assignRpmValue instantRpm (rpm e)\<rparr>
                else e))"

text \<open>The mark of the top dead centre: at the first event of a cycle one of two timers (\<open>tdcScheduler\<close>, by the parity of the
  revolution) is set for the angle from the synchronization point. Converting a duration that is not a number is not
  defined in C, so it gives \<open>None\<close>.\<close>

definition tdcMarkCallback ::
  "libfw \<Rightarrow> clock \<Rightarrow> 'w callbacks \<Rightarrow> rpm_env \<Rightarrow> central \<Rightarrow> (nat \<Rightarrow> addr) \<Rightarrow> action_s \<Rightarrow> nat \<Rightarrow> efitick_t \<Rightarrow> rpm_calculator \<Rightarrow>
     'w executor \<Rightarrow> ('w executor \<times> diag_log) option" where
  "tdcMarkCallback L clk exec env tc tdcScheduler onTdcCallback trgEventIndex edgeTimestamp r e =
     (if trgEventIndex = 0 \<and> isEngineSnifferEnabled tc then
        let revIndex2 = unat (revolutionCounterSinceBoot r mod 2) in
        if rpm_sensor r \<noteq> 0 then
          case wrapAngle (ie_engineCycle (re_instant env)) CUSTOM_ERR_6553
                 (Fin (tdcPosition (triggerShape tc) + cfg_globalTriggerAngleOffset (re_cfg env))) of
            None \<Rightarrow> None
          | Some (angle, msgs) \<Rightarrow>
              (case oneDegreeUs r of
                 None \<Rightarrow> None
               | Some us \<Rightarrow>
                   Option.bind (scheduleByAngle L clk exec us (tdcScheduler revIndex2) edgeTimestamp angle onTdcCallback e)
                     (\<lambda>(t, e). Some (e, msgs)))
        else Some (e, [])
      else Some (e, []))"

subsection \<open>The handlers of the engine\<close>

definition OnTriggerStateProperState :: "rpm_env \<Rightarrow> efitick_t \<Rightarrow> central \<Rightarrow> rotation \<Rightarrow> rotation" where
  "OnTriggerStateProperState env nowNt tc e = setSpinningUp env nowNt tc e"

definition OnTriggerSynchronizationLost :: "central \<Rightarrow> rotation \<Rightarrow> central \<times> rotation" where
  "OnTriggerSynchronizationLost tc e =
     (let e = e\<lparr>rpm := setStopSpinning (rpm e)\<rparr>;
          tc = tc\<lparr>triggerState := resetState PrimaryDecoder (triggerState tc)\<rparr>;
          e = e\<lparr>instant := resetInstantRpm (instant e)\<rparr>;
          tc = tc\<lparr>vvtState := map (resetState VvtDecoder) (vvtState tc)\<rparr>;
          e = e\<lparr>rpm := rpm_call InvalidateInjection (rpm e)\<rparr>
      in (tc, e\<lparr>ignition_isReady := False\<rparr>))"

definition getSecondsSinceEngineStart :: "efitick_t \<Rightarrow> rpm_calculator \<Rightarrow> rat" where
  "getSecondsSinceEngineStart nowNt r = getElapsedSeconds (engineStartTimer r) nowNt"

end
