(* ===== verification/Rpm_Properties.thy ===== *)
theory Rpm_Properties
  imports Rpm_Calculator Central_Properties
begin

text \<open>
  What the speed measurement guarantees: the states of the engine and the speed agree in every state the handlers
  can reach, the speed of a cycle and the speed between two teeth are exact at constant speed, and where the
  array of early time stamps is too short.
\<close>

subsection \<open>Values\<close>

text \<open>The value and what is derived from it agree.\<close>

definition rpm_ok :: "rpm_calculator \<Rightarrow> bool" where
  "rpm_ok r \<longleftrightarrow>
     0 \<le> cachedRpmValue r \<and> rpm_sensor r = cachedRpmValue r \<and>
     oneDegreeUs r = (if cachedRpmValue r = 0 then None else Some (getOneDegreeTimeUs (cachedRpmValue r))) \<and>
     (spinning_state r = STOPPED \<longrightarrow> cachedRpmValue r = 0) \<and>
     (spinning_state r \<in> {CRANKING, RUNNING} \<longrightarrow> 0 < cachedRpmValue r \<and> cachedRpmValue r \<le> MAX_ALLOWED_RPM) \<and>
     (spinning_state r = SPINNING_UP \<longrightarrow> isSpinning r)"

lemma assign_fields [simp]:
  "cachedRpmValue (assignRpmValue v r) = v" "rpm_sensor (assignRpmValue v r) = v"
  "spinning_state (assignRpmValue v r) = spinning_state r" "isSpinning (assignRpmValue v r) = isSpinning r"
  "previousRpmValue (assignRpmValue v r) = c_trunc (cachedRpmValue r)" "rpmRate (assignRpmValue v r) = rpmRate r"
  "engineStartTimer (assignRpmValue v r) = engineStartTimer r" "lastTdcTimer (assignRpmValue v r) = lastTdcTimer r"
  "revolutionCounterSinceStart (assignRpmValue v r) = revolutionCounterSinceStart r"
  "oneDegreeUs (assignRpmValue v r) = (if v \<le> 0 then None else Some (getOneDegreeTimeUs v))"
  by (simp_all add: assignRpmValue_def rpm_call_def Let_def)

lemma assign_ok: "rpm_ok r \<Longrightarrow> spinning_state r = SPINNING_UP \<Longrightarrow> 0 \<le> v \<Longrightarrow> rpm_ok (assignRpmValue v r)"
  by (auto simp: rpm_ok_def)

text \<open>What \<open>setRpmValue\<close> does to the state: the speed decides, but a running engine stays running while it turns.\<close>

definition allowed :: "rat \<Rightarrow> rat" where
  "allowed v = (if v > MAX_ALLOWED_RPM then 0 else v)"

definition next_state :: "rat \<Rightarrow> rat \<Rightarrow> spinning_state_e \<Rightarrow> spinning_state_e" where
  "next_state cranking_rpm v s =
     (if v = 0 then STOPPED else if cranking_rpm \<le> v then RUNNING
      else if s = STOPPED \<or> s = SPINNING_UP then CRANKING else s)"

lemma set_fields [simp]:
  "cachedRpmValue (setRpmValue c t v r) = allowed v" "rpm_sensor (setRpmValue c t v r) = allowed v"
  "isSpinning (setRpmValue c t v r) = isSpinning r" "previousRpmValue (setRpmValue c t v r) = c_trunc (cachedRpmValue r)"
  "rpmRate (setRpmValue c t v r) = rpmRate r" "lastTdcTimer (setRpmValue c t v r) = lastTdcTimer r"
  "revolutionCounterSinceStart (setRpmValue c t v r) = revolutionCounterSinceStart r"
  "oneDegreeUs (setRpmValue c t v r) = (if allowed v \<le> 0 then None else Some (getOneDegreeTimeUs (allowed v)))"
  "spinning_state (setRpmValue c t v r) = next_state c (allowed v) (spinning_state r)"
  "engineStartTimer (setRpmValue c t v r) =
     (if next_state c (allowed v) (spinning_state r) = RUNNING \<and> spinning_state r \<noteq> RUNNING then t else engineStartTimer r)"
  by (auto simp: setRpmValue_def allowed_def next_state_def Let_def)

lemma set_ok: "0 \<le> v \<Longrightarrow> rpm_ok r \<Longrightarrow> rpm_ok (setRpmValue c t v r)"
  by (auto simp: rpm_ok_def allowed_def next_state_def MAX_ALLOWED_RPM_def split: if_splits)

lemma stop_fields [simp]:
  "spinning_state (setStopSpinning r) = STOPPED" "isSpinning (setStopSpinning r) = False"
  "revolutionCounterSinceStart (setStopSpinning r) = 0" "rpmRate (setStopSpinning r) = 0"
  "cachedRpmValue (setStopSpinning r) = 0" "engineStartTimer (setStopSpinning r) = engineStartTimer r"
  by (auto simp: setStopSpinning_def rpm_call_def Let_def)

lemma stop_ok: "rpm_ok r \<Longrightarrow> rpm_ok (setStopSpinning r)"
  by (auto simp: setStopSpinning_def rpm_ok_def rpm_call_def Let_def)

lemma rpm_ok_update [simp]:
  "rpm_ok (r\<lparr>lastTdcTimer := t\<rparr>) = rpm_ok r" "rpm_ok (r\<lparr>rpmRate := x\<rparr>) = rpm_ok r" "rpm_ok (r\<lparr>m_lastRpm := x\<rparr>) = rpm_ok r"
  "rpm_ok (rpm_call c r) = rpm_ok r" "rpm_ok (onNewEngineCycle r) = rpm_ok r"
  by (simp_all add: rpm_ok_def rpm_call_def onNewEngineCycle_def)

lemma new_cycle_fields [simp]:
  "spinning_state (onNewEngineCycle r) = spinning_state r" "cachedRpmValue (onNewEngineCycle r) = cachedRpmValue r"
  "engineStartTimer (onNewEngineCycle r) = engineStartTimer r" "rpmRate (onNewEngineCycle r) = rpmRate r"
  "oneDegreeUs (onNewEngineCycle r) = oneDegreeUs r" "lastTdcTimer (onNewEngineCycle r) = lastTdcTimer r"
  "revolutionCounterSinceStart (onNewEngineCycle r) = revolutionCounterSinceStart r + 1"
  by (simp_all add: onNewEngineCycle_def)

lemma rpm_call_fields [simp]:
  "spinning_state (rpm_call c r) = spinning_state r" "cachedRpmValue (rpm_call c r) = cachedRpmValue r"
  "engineStartTimer (rpm_call c r) = engineStartTimer r"
  by (simp_all add: rpm_call_def)

subsection \<open>The instant speed is never negative\<close>

lemma calculate_positive: "calculateInstantRpm env s a i now' w ir = Some (Some v, l) \<Longrightarrow> RPM_LOW_THRESHOLD \<le> v"
  by (auto simp: calculateInstantRpm_def Let_def split: option.splits if_splits)

lemma contribution_keeps:
  "cylinder_contribution env s a k now' info i ir = Some ir' \<Longrightarrow> m_instantRpm ir' = m_instantRpm ir"
  by (auto simp: cylinder_contribution_def Let_def split: option.splits if_splits)

lemma cylinder_loop_keeps:
  "cylinder_loop (cylinder_contribution env s a k now' info) is ir = Some ir' \<Longrightarrow> m_instantRpm ir' = m_instantRpm ir"
  by (induction "is" arbitrary: ir) (auto simp: bind_eq_Some_conv dest: contribution_keeps)

lemma update_nonneg:
  assumes "updateInstantRpm env s a i info ir = Some ir'" "0 \<le> m_instantRpm ir"
  shows "0 \<le> m_instantRpm ir'"
  using assms calculate_positive[of env s a i]
  by (fastforce simp: updateInstantRpm_def updateCylinderContribution_def Let_def RPM_LOW_THRESHOLD_def
      dest: cylinder_loop_keeps split: option.splits if_splits)

lemma other_instant [simp]:
  "m_instantRpm (movePreSynchTimestamps minI s ir) = m_instantRpm ir"
  "m_instantRpm (setLastEventTimeForInstantRpm s t ir) = m_instantRpm ir"
  "m_instantRpm (resetInstantRpm ir) = 0"
  by (simp_all add: movePreSynchTimestamps_def setLastEventTimeForInstantRpm_def resetInstantRpm_def Let_def split: prod.split)

subsection \<open>The handlers\<close>

text \<open>One call of a handler, at any time and with any state of the trigger central.\<close>

inductive rotation_step :: "libfw \<Rightarrow> (int \<Rightarrow> int \<Rightarrow> int) \<Rightarrow> rpm_env \<Rightarrow> rotation \<Rightarrow> rotation \<Rightarrow> bool"
  for L minI env where
  shaft: "rpmShaftPositionCallback L minI env t tc i info e = Some e' \<Longrightarrow> rotation_step L minI env e e'"
| slow: "rotation_step L minI env e (e\<lparr>rpm := onSlowCallback L env t tc (rpm e)\<rparr>)"
| edge: "rotation_step L minI env e (OnTriggerStateProperState env t tc e)"
| lost: "OnTriggerSynchronizationLost tc e = (tc', e') \<Longrightarrow> rotation_step L minI env e e'"

definition rotation_start :: "nat \<Rightarrow> rotation" where
  "rotation_start cylinders = \<lparr>rpm = RpmCalculator, instant = InstantRpmCalculator cylinders, ignition_isReady = False\<rparr>"

definition rotation_ok :: "rotation \<Rightarrow> bool" where
  "rotation_ok e \<longleftrightarrow> rpm_ok (rpm e) \<and> 0 \<le> m_instantRpm (instant e)"

lemma rotation_start_ok: "rotation_ok (rotation_start n)"
  by (simp add: rotation_ok_def rotation_start_def rpm_ok_def RpmCalculator_def InstantRpmCalculator_def)

lemma elapsed_nonneg: "0 \<le> getElapsedSeconds t now'"
  by (simp add: getElapsedSeconds_def getElapsedUs_floor clock32max_def US_TO_NT_MULTIPLIER_def pos_imp_zdiv_nonneg_iff)

lemma getEngineCycle_pos: "0 < getEngineCycle om"
  by (simp add: getEngineCycle_def)

lemma cycle_ok:
  assumes "rotation_ok e"
  shows "rotation_ok (cycle_rpm L minI env t tc stamp e)"
proof -
  have "0 \<le> 60 * (getEngineCycle om / 360) / getElapsedSeconds s t" for om s t
    using elapsed_nonneg[of s t] getEngineCycle_pos[of om] by (simp add: less_imp_le)
  then show ?thesis
    using assms by (auto simp: cycle_rpm_def getElapsedSecondsAndReset_def rotation_ok_def Let_def intro!: set_ok)
qed

lemma rotation_step_ok:
  assumes "rotation_step L minI env e e'" "rotation_ok e"
  shows "rotation_ok e'"
  using assms(1)
proof (cases rule: rotation_step.cases)
  case (shaft t tc i info)
  let ?e = "if i = 0 then cycle_rpm L minI env t tc (timestamp info) e else e"
  have e: "rotation_ok ?e" using assms(2) cycle_ok by simp
  obtain ir where ir: "updateInstantRpm (re_instant env) (triggerShape tc) (eventAngles tc) i info (instant ?e) = Some ir"
    using shaft by (auto simp: rpmShaftPositionCallback_def Let_def split: option.splits)
  then have "0 \<le> m_instantRpm ir" using update_nonneg e by (simp add: rotation_ok_def)
  then show ?thesis
    using shaft ir e
    by (auto simp: rpmShaftPositionCallback_def Let_def rotation_ok_def isSpinningUp_def set_ok assign_ok split: if_splits)
next
  case (slow t tc)
  then show ?thesis
    using assms(2) stop_ok[of "rpm e"] by (auto simp: onSlowCallback_def rotation_ok_def Let_def)
next
  case (edge t tc)
  then show ?thesis
    using assms(2)
    by (auto simp: OnTriggerStateProperState_def setSpinningUp_def rotation_ok_def rpm_ok_def isStopped_def Let_def)
next
  case (lost tc tc')
  then show ?thesis
    using assms(2) stop_ok[of "rpm e"] by (auto simp: OnTriggerSynchronizationLost_def rotation_ok_def Let_def)
qed

text \<open>C25: in every state the handlers can reach the engine is in exactly one of the three conditions standing,
  cranking and running, the speed is positive exactly when it does not stand, the sensor shows the same speed,
  the duration of a degree is the one of that speed (and not a number at rest), and outside of spinning up the
  speed is at most the allowed one.\<close>

theorem reachable_speed_consistent:
  assumes "(rotation_step L minI env)\<^sup>*\<^sup>* (rotation_start n) e"
  shows "(isStopped (rpm e) \<or> isCranking (rpm e) \<or> isRunning (rpm e)) \<and>
    \<not> (isStopped (rpm e) \<and> isCranking (rpm e)) \<and> \<not> (isStopped (rpm e) \<and> isRunning (rpm e)) \<and>
    \<not> (isCranking (rpm e) \<and> isRunning (rpm e)) \<and>
    (if isStopped (rpm e) then cachedRpmValue (rpm e) = 0 \<and> oneDegreeUs (rpm e) = None
     else 0 < cachedRpmValue (rpm e) \<and> oneDegreeUs (rpm e) = Some (1000000 * 60 / 360 / cachedRpmValue (rpm e))) \<and>
    rpm_sensor (rpm e) = cachedRpmValue (rpm e) \<and>
    (spinning_state (rpm e) \<noteq> SPINNING_UP \<longrightarrow> cachedRpmValue (rpm e) \<le> MAX_ALLOWED_RPM)"
proof -
  from assms have "rotation_ok e"
    by (induction rule: rtranclp_induct) (auto intro: rotation_start_ok rotation_step_ok)
  then have "rpm_ok (rpm e)" by (simp add: rotation_ok_def)
  then show ?thesis
    by (cases "spinning_state (rpm e)")
      (auto simp: rpm_ok_def isStopped_def isCranking_def isRunning_def getOneDegreeTimeUs_def MAX_ALLOWED_RPM_def)
qed

subsection \<open>Hysteresis\<close>

lemma cycle_state:
  assumes "rotation_ok e" "spinning_state (rpm e) = RUNNING"
  shows "let r = rpm (cycle_rpm L minI env t tc stamp e) in
    spinning_state r = RUNNING \<and> engineStartTimer r = engineStartTimer (rpm e) \<or>
    spinning_state r = STOPPED \<and> \<not> re_alwaysInstantRpm env"
  using assms
  by (auto simp: cycle_rpm_def getElapsedSecondsAndReset_def next_state_def Let_def)

text \<open>C26: a running engine does not fall back to cranking. Whatever handler runs next, a running engine is still
  running afterwards, at a positive speed and with the time of its start unchanged, or it has stopped with speed 0.\<close>

theorem running_engine_hysteresis:
  assumes "rotation_step L minI env e e'" "rotation_ok e" "isRunning (rpm e)"
  shows "isRunning (rpm e') \<and> engineStartTimer (rpm e') = engineStartTimer (rpm e) \<and> 0 < cachedRpmValue (rpm e') \<or>
    spinning_state (rpm e') = STOPPED \<and> cachedRpmValue (rpm e') = 0"
proof -
  have ok: "rpm_ok (rpm e')" using rotation_step_ok[OF assms(1,2)] by (simp add: rotation_ok_def)
  have run: "spinning_state (rpm e) = RUNNING" using assms(3) by (simp add: isRunning_def)
  have "spinning_state (rpm e') = RUNNING \<and> engineStartTimer (rpm e') = engineStartTimer (rpm e) \<or> spinning_state (rpm e') = STOPPED"
    using assms(1)
  proof (cases rule: rotation_step.cases)
    case (shaft t tc i info)
    then show ?thesis
      using cycle_state[OF assms(2) run, of L minI env t tc "timestamp info"] run
      by (auto simp: rpmShaftPositionCallback_def isSpinningUp_def next_state_def Let_def split: option.splits if_splits)
  next
    case (slow t tc)
    then show ?thesis using run by (auto simp: onSlowCallback_def Let_def)
  next
    case (edge t tc)
    then show ?thesis
      using run by (auto simp: OnTriggerStateProperState_def setSpinningUp_def isStopped_def isSpinningUp_def Let_def)
  next
    case (lost tc tc')
    then show ?thesis by (auto simp: OnTriggerSynchronizationLost_def Let_def)
  qed
  then show ?thesis using ok by (auto simp: rpm_ok_def isRunning_def)
qed

subsection \<open>The speed of a cycle\<close>

lemma elapsed_exact:
  assumes "0 \<le> d" "d \<le> clock32max"
  shows "getElapsedSeconds t (t + d) = of_int (d div 4) / 1000000"
  using assms by (simp add: getElapsedSeconds_def getElapsedUs_floor US_TO_NT_MULTIPLIER_def min_def max_def)

lemma cycle_rpm_measured:
  assumes "checkIfSpinning L env stamp tc (rpm e)" "getElapsedSeconds (lastTdcTimer (rpm e)) stamp = period" "period \<noteq> 0"
    and "\<not> re_alwaysInstantRpm env" "revs = getEngineCycle (getOperationMode (re_cfg env) (triggerShape tc)) / 360"
    and "v = 60 * revs / period"
  shows "rpm (cycle_rpm L minI env t tc stamp e) =
    onNewEngineCycle (setRpmValue (cfg_cranking_rpm (re_cfg env)) t v
      ((rpm e)\<lparr>lastTdcTimer := stamp, rpmRate := (v - of_int (previousRpmValue (rpm e))) / (revs * period)\<rparr>))"
  using assms(1-4) unfolding assms(5,6) by (simp add: cycle_rpm_def getElapsedSecondsAndReset_def Let_def)

lemma whole_microseconds:
  assumes "4 \<le> d" "d \<le> 4 * 2000000"
  shows "getElapsedSeconds (t - d) t = of_int (d div 4) / 1000000" "(0::rat) < of_int (d div 4)" "of_int (d div 4) \<le> (2000000 :: rat)"
    and "getElapsedSeconds (t - d) t \<le> 2"
proof -
  show e: "getElapsedSeconds (t - d) t = of_int (d div 4) / 1000000"
    using elapsed_exact[of d "t - d"] assms by (simp add: clock32max_def)
  have "0 < d div 4" "d div 4 \<le> 2000000" using assms by auto
  then show "(0::rat) < of_int (d div 4)" and le: "of_int (d div 4) \<le> (2000000 :: rat)"
    by (metis of_int_0_less_iff, metis of_int_le_iff of_int_numeral)
  show "getElapsedSeconds (t - d) t \<le> 2" unfolding e using le by simp
qed

text \<open>The speed measured over one engine cycle. When the first tooth comes \<open>d\<close> ticks after the last time, with the
  engine turning and not asked to stop, the new speed is 60 seconds over the period times the revolutions of a cycle, the
  duration of a degree is the period over the degrees of a cycle, the timer is reset, the revolution is
  counted, and the engine runs from the speed on that ends cranking.\<close>

theorem cycle_speed_exact:
  assumes "lastTdcTimer (rpm e) = stamp - d" "4 \<le> d" "d \<le> 4 * 2000000" "\<not> re_alwaysInstantRpm env"
    and "engineMovedRecently L stamp tc" "\<not> isEngineStop (re_engineStopTimer env) stamp"
    and "cycle = getEngineCycle (getOperationMode (re_cfg env) (triggerShape tc))"
    and "v = 60 * (cycle / 360) * 1000000 / of_int (d div 4)" "v \<le> MAX_ALLOWED_RPM"
  shows "let r = rpm (cycle_rpm L minI env t tc stamp e) in
    cachedRpmValue r = v \<and> oneDegreeUs r = Some (of_int (d div 4) / cycle) \<and> lastTdcTimer r = stamp \<and>
    revolutionCounterSinceStart r = revolutionCounterSinceStart (rpm e) + 1 \<and>
    spinning_state r = (if cfg_cranking_rpm (re_cfg env) \<le> v \<or> isRunning (rpm e) then RUNNING else CRANKING)"
proof -
  note us = whole_microseconds[OF assms(2,3)]
  have c: "0 < cycle" using assms(7) getEngineCycle_pos by simp
  have v: "0 < v" using us c assms(8) by simp
  have spin: "checkIfSpinning L env stamp tc (rpm e)"
    using assms(1,5,6) us(4)[of stamp] by (simp add: checkIfSpinning_def NO_RPM_EVENTS_TIMEOUT_SECS_def)
  have d: "getOneDegreeTimeUs v = of_int (d div 4) / cycle"
    using us c by (simp add: getOneDegreeTimeUs_def assms(8) field_simps)
  note r = cycle_rpm_measured[OF spin _ _ assms(4), of "of_int (d div 4) / 1000000" "cycle / 360" v minI t]
  have s: "next_state (cfg_cranking_rpm (re_cfg env)) v (spinning_state (rpm e)) =
      (if cfg_cranking_rpm (re_cfg env) \<le> v \<or> isRunning (rpm e) then RUNNING else CRANKING)"
    using v by (cases "spinning_state (rpm e)") (auto simp: next_state_def isRunning_def)
  show ?thesis
    using r v d s us assms(1,7-9) by (simp add: allowed_def)
qed

text \<open>The acceleration is taken over two cycles. At the callback after speeds \<open>v1\<close> and then \<open>v2\<close> were measured, the rate
  of change for a new speed \<open>v3\<close> is the difference between \<open>v3\<close> and the whole part of \<open>v1\<close>, not of \<open>v2\<close>, over the time of one
  engine cycle times its revolutions.\<close>

theorem acceleration_skips_a_cycle:
  assumes "rpm e = (setRpmValue c t2 v2 (setRpmValue c t1 v1 r0))\<lparr>lastTdcTimer := stamp - d\<rparr>"
    and "0 \<le> v1" "v1 \<le> MAX_ALLOWED_RPM" "4 \<le> d" "d \<le> 4 * 2000000" "\<not> re_alwaysInstantRpm env"
    and "engineMovedRecently L stamp tc" "\<not> isEngineStop (re_engineStopTimer env) stamp"
    and "revs = getEngineCycle (getOperationMode (re_cfg env) (triggerShape tc)) / 360"
    and "period = of_int (d div 4) / 1000000" "v3 = 60 * revs / period"
  shows "rpmRate (rpm (cycle_rpm L minI env t tc stamp e)) = (v3 - of_int \<lfloor>v1\<rfloor>) / (revs * period)"
proof -
  note us = whole_microseconds[OF assms(4,5)]
  have pos: "0 < period" "period \<le> 2" using us assms(10) by simp_all
  have "checkIfSpinning L env stamp tc (rpm e)"
    using assms(1,7,8) us(4)[of stamp] by (simp add: checkIfSpinning_def NO_RPM_EVENTS_TIMEOUT_SECS_def)
  moreover have "getElapsedSeconds (lastTdcTimer (rpm e)) stamp = period" unfolding assms(1,10) using us(1) by simp
  moreover have "period \<noteq> 0" using pos by simp
  ultimately show ?thesis
    using cycle_rpm_measured[of L env stamp tc e period, OF _ _ _ assms(6,9,11)] assms(1-3)
    by (simp add: allowed_def c_trunc_def)
qed

subsection \<open>The speed between two teeth\<close>

text \<open>Where the time of tooth \<open>j\<close> is stored: with rising edges only, in the even entry of its pair.\<close>

definition stamp_slot :: "trigger_waveform \<Rightarrow> nat \<Rightarrow> nat" where
  "stamp_slot s j = (if useOnlyRisingEdges s then 2 * (j div 2) else j)"

text \<open>The engine has turned at the speed of \<open>v\<close> degrees per tick since every other tooth passed, each less than 32 bits of
  ticks ago, and the low 32 bits of their times are stored and not 0.\<close>

definition steady_stamps :: "rat \<Rightarrow> rat \<Rightarrow> trigger_waveform \<Rightarrow> rat list \<Rightarrow> nat \<Rightarrow> int \<Rightarrow> instant_rpm \<Rightarrow> bool" where
  "steady_stamps c v s ea i now' ir \<longleftrightarrow>
     (\<forall>j < getLength s. ea ! stamp_slot s j = ea ! j) \<and>
     (\<forall>j < getLength s. ea ! j \<noteq> ea ! i \<longrightarrow>
        (\<exists>d. 0 < d \<and> d < 2 ^ 32 \<and> v * of_int d = wrapped c (ea ! i - ea ! j) \<and>
             timeOfLastEvent ir ! stamp_slot s j = of_int (now' - d) \<and> timeOfLastEvent ir ! stamp_slot s j \<noteq> 0))"

lemma tooth_behind:
  assumes c: "0 < c" and ea: "\<And>j. j < n \<Longrightarrow> 0 \<le> ea ! j \<and> ea ! j < c" and i: "i < n" and j: "j < n" "ea ! j \<noteq> ea ! i"
    and w: "0 < w" "w \<le> wrapped c (ea ! i - ea ! j)"
    and k: "k < n" "ea ! k \<le> wrapped c (ea ! i - w)" "\<forall>j. k < j \<and> j < n \<longrightarrow> wrapped c (ea ! i - w) < ea ! j"
    and sorted: "\<And>i j. i \<le> j \<Longrightarrow> j < n \<Longrightarrow> ea ! i \<le> ea ! j"
  shows "ea ! k \<noteq> ea ! i"
proof
  assume eq: "ea ! k = ea ! i"
  have b: "0 \<le> ea ! i" "ea ! i < c" "0 \<le> ea ! j" "ea ! j < c" using ea i j by auto
  have wc: "w < c" using w(2) wrapped_bounds[OF c, of "ea ! i - ea ! j"] by simp
  show False
  proof (cases "w \<le> ea ! i")
    case True
    then have "wrapped c (ea ! i - w) = ea ! i - w" using b w by (intro wrapped_in) auto
    then show False using k(2) eq w(1) by simp
  next
    case False
    then have p: "wrapped c (ea ! i - w) = ea ! i - w + c"
      using wrapped_unique[of c "ea ! i - w" 1] b wc c by simp
    have "ea ! i < ea ! j"
    proof (rule ccontr)
      assume "\<not> ea ! i < ea ! j"
      then have "wrapped c (ea ! i - ea ! j) = ea ! i - ea ! j" using b by (intro wrapped_in) auto
      then show False using w(2) False b by simp
    qed
    then have "wrapped c (ea ! i - ea ! j) = ea ! i - ea ! j + c"
      using wrapped_unique[of c "ea ! i - ea ! j" 1] b c by simp
    then have "ea ! j \<le> wrapped c (ea ! i - w)" using w(2) p by simp
    then have "j \<le> k" using k(3) j(1) by (meson linorder_not_le)
    then show False using sorted[of j k] k(1) eq \<open>ea ! i < ea ! j\<close> by simp
  qed
qed

text \<open>C27: the instant speed is exact. At constant speed, whatever tooth passes and wherever the 32 bit clock is, the speed
  found between this tooth and the one at least a window behind is the speed of the engine, if it is not below the
  lowest speed of interest; nothing is reported.\<close>

theorem instant_speed_exact:
  assumes "0 < getLength s" "getLength s \<le> length (timeOfLastEvent ir)" "length (timeOfLastEvent ir) \<le> 0xFFFF" "getLength s \<le> length ea"
    and "\<And>i j. i \<le> j \<Longrightarrow> j < getLength s \<Longrightarrow> ea ! i \<le> ea ! j"
    and "ea ! 0 = 0" "\<And>j. j < getLength s \<Longrightarrow> ea ! j < ie_engineCycle env" "ie_engineCycle env \<le> 720"
    and "i < getLength s" "0 < v" "steady_stamps (ie_engineCycle env) v s ea i now' ir"
    and "0 < w" "\<exists>j < getLength s. ea ! j \<noteq> ea ! i \<and> w \<le> wrapped (ie_engineCycle env) (ea ! i - ea ! j)"
    and "speed = v * of_int US_TO_NT_MULTIPLIER * 1000000 * 60 / 360"
  shows "calculateInstantRpm env s ea i (of_int now') w ir = Some (if speed < RPM_LOW_THRESHOLD then None else Some speed, [])"
proof -
  let ?c = "ie_engineCycle env" and ?n = "getLength s"
  have c: "0 < ?c" using assms(1,6) assms(7)[of 0] by simp
  have ea: "0 \<le> ea ! j \<and> ea ! j < ?c" if "j < ?n" for j
    using that assms(5)[of 0 j] assms(6,7) by simp
  obtain j where j: "j < ?n" "ea ! j \<noteq> ea ! i" "w \<le> wrapped ?c (ea ! i - ea ! j)" using assms(13) by blast
  have w: "w < ?c" using j(3) wrapped_bounds[OF c, of "ea ! i - ea ! j"] by simp
  let ?p = "wrapped ?c (ea ! i - w)"
  have small: "- 10000000 \<le> x \<and> x \<le> 10000000" if "- 720 \<le> x" "x \<le> 720" for x :: rat
    using that by simp
  have wrap1: "wrapAngle ?c code (Fin (ea ! i - w)) = Some (?p, [])" for code
    using ea[OF assms(9)] w assms(8,12) by (intro wrapAngle_finite c) auto
  obtain k where k: "k < ?n" "ea ! k \<le> ?p" "\<forall>j. k < j \<and> j < ?n \<longrightarrow> ?p < ea ! j"
    "findAngleIndex s ea ?p = Some (of_nat (stamp_slot s k), [])"
    using findAngleIndex_found[of s ea ?p] assms(1-6) wrapped_bounds[OF c, of "ea ! i - w"] by (auto simp: stamp_slot_def)
  have neq: "ea ! k \<noteq> ea ! i"
    using tooth_behind[of ?c ?n ea i j w k] c ea assms(5,9,12) j k(1-3) by blast
  have slot: "stamp_slot s k \<le> k" by (simp add: stamp_slot_def)
  then have u: "unat (of_nat (stamp_slot s k) :: 16 word) = stamp_slot s k"
    using k(1) assms(2,3) by (simp add: unat_of_nat take_bit_nat_eq_self)
  obtain d where d: "0 < d" "d < 2 ^ 32" "v * of_int d = wrapped ?c (ea ! i - ea ! k)"
    "timeOfLastEvent ir ! stamp_slot s k = of_int (now' - d)" "timeOfLastEvent ir ! stamp_slot s k \<noteq> 0"
    "ea ! stamp_slot s k = ea ! k"
    using assms(11) k(1) neq by (auto simp: steady_stamps_def)
  have time: "of_int now' - of_int (now' - d) = (of_int d :: 32 word)" by simp
  have td: "unat (of_int d :: 32 word) = nat d"
    using d(1,2) by (simp add: unat_eq_nat_uint uint_word_of_int take_bit_int_eq_self)
  then have nz: "(of_int d :: 32 word) \<noteq> 0" using d(1) by auto
  have wrap2: "wrapAngle ?c code (Fin (ea ! i - ea ! k)) = Some (v * of_int d, [])" for code
    unfolding d(3) using ea[OF assms(9)] ea[OF k(1)] assms(8) by (intro wrapAngle_finite c) auto
  have "60000000 / 360 * of_int US_TO_NT_MULTIPLIER * (v * of_int d) / of_nat (nat d) = speed"
    using d(1) assms(14) by simp
  then show ?thesis
    using k(1) assms(2) slot d(4-6) nz
    by (simp add: calculateInstantRpm_def wrap1 k(4) u wrap2 time td Let_def)
qed

subsection \<open>The time stamps before synchronization\<close>

text \<open>Moving the early time stamps. For a trigger with at most as many events per engine cycle as the array has room for,
  the stamps taken before synchronization end up right before the end of the cycle, the newest last, and nothing is
  written outside the array. A trigger with more events per engine cycle makes the copy write behind the array
  as soon as there is one stamp to copy.\<close>

theorem presync_stamps_moved:
  assumes "\<And>a b. minI a b = min a b" "length (timeOfLastEvent ir) = PWM_PHASE_MAX_COUNT" "spinningEventIndex ir \<le> PWM_PHASE_MAX_COUNT"
  shows "let ir' = movePreSynchTimestamps minI s ir in
    ir_log ir' = ir_log ir @ (if PWM_PHASE_MAX_COUNT < getLength s \<and> 0 < spinningEventIndex ir then [OutOfBounds] else []) \<and>
    (getLength s \<le> PWM_PHASE_MAX_COUNT \<longrightarrow>
      (\<forall>i < min (spinningEventIndex ir) (getLength s).
         timeOfLastEvent ir' ! (getLength s - 1 - i) = timeOfLastEvent ir ! (spinningEventIndex ir - 1 - i)))"
proof -
  let ?n = "getLength s" and ?k = "spinningEventIndex ir"
  have m: "nat (minI (int ?k) (int ?n)) = min ?k ?n" by (simp add: assms(1))
  show ?thesis
  proof (cases "?n \<le> ?k")
    case True
    then show ?thesis
      using assms(2,3) by (auto simp: movePreSynchTimestamps_def m array_move_def min_def Let_def)
  next
    case False
    have "array_move (?n - ?k) 0 ?k (timeOfLastEvent ir) ! (?n - 1 - i) = timeOfLastEvent ir ! (?k - 1 - i)"
      if "?n \<le> PWM_PHASE_MAX_COUNT" "i < ?k" for i
    proof -
      have "?n - 1 - i < length (timeOfLastEvent ir)" "?n - ?k \<le> ?n - 1 - i" "?n - 1 - i - (?n - ?k) = ?k - 1 - i" "?n - 1 - i < ?n"
        using that False assms(2) by auto
      then show ?thesis using False by (simp add: array_move_def)
    qed
    then show ?thesis
      using False assms(2) by (auto simp: movePreSynchTimestamps_def assms(1) Let_def)
  qed
qed

subsection \<open>Witnesses\<close>

definition example_rpm_env :: rpm_env where
  "example_rpm_env =
     \<lparr>re_instant = \<lparr>ie_engineCycle = 720, ie_instantRpmRange = 90, ie_cylindersCount = 4, ie_cylContributionWindow = 0,
        ie_cylContributionPhase = 0, ie_angleOffsets = [0, 180, 360, 540]\<rparr>,
      re_cfg = example_config, re_alwaysInstantRpm = False, re_isFasterEngineSpinUpEnabled = True, re_engineStopTimer = timer_init\<rparr>"

theorem reachable_speed_consistent_witness:
  "let e = OnTriggerStateProperState example_rpm_env 5 TriggerCentral (rotation_start 4) in
    isStopped (rpm e) \<and> \<not> isCranking (rpm e) \<and> oneDegreeUs (rpm e) = None"
proof -
  let ?e = "OnTriggerStateProperState example_rpm_env 5 TriggerCentral (rotation_start 4)"
  have "(rotation_step libfw_example min example_rpm_env)\<^sup>*\<^sup>* (rotation_start 4) ?e"
    by (rule r_into_rtranclp, rule rotation_step.edge)
  from reachable_speed_consistent[OF this] show ?thesis
    by (auto simp: OnTriggerStateProperState_def setSpinningUp_def rotation_start_def example_rpm_env_def RpmCalculator_def
        isStopped_def isSpinningUp_def Let_def split: if_splits)
qed

definition running_example :: rotation where
  "running_example =
     (rotation_start 4)\<lparr>rpm := (setRpmValue 400 9 1000 RpmCalculator)\<lparr>lastTdcTimer := 1000000 - 480000\<rparr>\<rparr>"

lemma running_example_ok: "rotation_ok running_example" "isRunning (rpm running_example)"
  using rotation_start_ok[of 4]
  by (auto simp: running_example_def rotation_ok_def rotation_start_def isRunning_def next_state_def allowed_def
      MAX_ALLOWED_RPM_def intro!: set_ok)

theorem running_engine_hysteresis_witness:
  "let e' = snd (OnTriggerSynchronizationLost TriggerCentral running_example) in
    isRunning (rpm e') \<and> engineStartTimer (rpm e') = 9 \<and> 0 < cachedRpmValue (rpm e') \<or>
    spinning_state (rpm e') = STOPPED \<and> cachedRpmValue (rpm e') = 0"
proof -
  have "rotation_step libfw_example min example_rpm_env running_example (snd (OnTriggerSynchronizationLost TriggerCentral running_example))"
    by (rule rotation_step.lost) (rule surjective_pairing)
  from running_engine_hysteresis[OF this running_example_ok] show ?thesis
    by (simp add: example_rpm_env_def OnTriggerSynchronizationLost_def Let_def)
qed

definition turning_example :: central where
  "turning_example = TriggerCentral\<lparr>m_lastEventTimer := 999000,
     triggerShape := (triggerShape TriggerCentral)\<lparr>wave := (wave (triggerShape TriggerCentral))\<lparr>phaseCount := 2\<rparr>\<rparr>\<rparr>"

lemma turning_example_turns:
  "engineMovedRecently libfw_example 1000000 turning_example" "\<not> isEngineStop (re_engineStopTimer example_rpm_env) 1000000"
proof -
  have "getSecondsSinceTriggerEvent 1000000 turning_example = 250 / 1000000"
    by (simp add: getSecondsSinceTriggerEvent_def turning_example_def getElapsedSeconds_def getElapsedUs_floor clock32max_def
        US_TO_NT_MULTIPLIER_def)
  then show "engineMovedRecently libfw_example 1000000 turning_example"
    using libfw_clampF[OF libfw_example_ok] by (simp add: engineMovedRecently_def Let_def)
  show "\<not> isEngineStop (re_engineStopTimer example_rpm_env) 1000000"
    by (simp add: isEngineStop_def example_rpm_env_def getElapsedSeconds_def getElapsedUs_floor timer_init_def clock32max_def
        US_TO_NT_MULTIPLIER_def)
qed

lemma example_cycle: "getEngineCycle (getOperationMode (re_cfg example_rpm_env) (triggerShape turning_example)) = 720"
  by (simp add: getOperationMode_def example_rpm_env_def example_config_def doesTriggerImplyOperationMode_def lookupOperationMode_def
      getEngineCycle_def)

theorem cycle_speed_exact_witness:
  "let r = rpm (cycle_rpm libfw_example min example_rpm_env 0 turning_example 1000000 running_example) in
    cachedRpmValue r = 1000 \<and> oneDegreeUs r = Some (120000 / 720) \<and> spinning_state r = RUNNING"
proof -
  have "lastTdcTimer (rpm running_example) = 1000000 - 480000" "\<not> re_alwaysInstantRpm example_rpm_env"
    by (simp_all add: running_example_def example_rpm_env_def)
  from cycle_speed_exact[OF this(1) _ _ this(2) turning_example_turns example_cycle[symmetric] refl, of min 0] running_example_ok(2)
  show ?thesis by (simp add: MAX_ALLOWED_RPM_def Let_def)
qed

definition accelerating_example :: rotation where
  "accelerating_example = (rotation_start 4)\<lparr>rpm :=
     (setRpmValue 400 9 900 (setRpmValue 400 9 800 RpmCalculator))\<lparr>lastTdcTimer := 1000000 - 480000\<rparr>\<rparr>"

text \<open>Speeds of 800, 900 and 1000: a rate of 200 per two revolutions of 0.12 seconds each, not 100.\<close>

theorem acceleration_skips_a_cycle_witness:
  "rpmRate (rpm (cycle_rpm libfw_example min example_rpm_env 0 turning_example 1000000 accelerating_example)) = (1000 - 800) / (2 * (12/100))"
proof -
  have "rpm accelerating_example = (setRpmValue 400 9 900 (setRpmValue 400 9 800 RpmCalculator))\<lparr>lastTdcTimer := 1000000 - 480000\<rparr>"
    "\<not> re_alwaysInstantRpm example_rpm_env"
    by (simp_all add: accelerating_example_def example_rpm_env_def)
  from acceleration_skips_a_cycle[OF this(1) _ _ _ _ this(2) turning_example_turns refl refl refl, of min 0]
  show ?thesis by (simp add: MAX_ALLOWED_RPM_def example_cycle)
qed

text \<open>Teeth at 0, 180, 360 and 540 degrees, 6000 speed: 36 degrees per millisecond, 9/1000 degrees per tick.\<close>

definition four_tooth_shape :: trigger_waveform where
  "four_tooth_shape = blank_waveform\<lparr>m_operationMode := FOUR_STROKE_CAM_SENSOR, wave := (wave blank_waveform)\<lparr>phaseCount := 4\<rparr>\<rparr>"

definition four_stamps :: instant_rpm where
  "four_stamps = (InstantRpmCalculator 4)\<lparr>timeOfLastEvent :=
     [of_int (5 - 40000), of_int (5 - 20000), 5, of_int (5 - 60000)] @ replicate 276 0\<rparr>"

theorem instant_speed_exact_witness:
  "calculateInstantRpm (re_instant example_rpm_env) four_tooth_shape [0, 180, 360, 540] 2 5 90 four_stamps = Some (Some 6000, [])"
proof -
  have n: "getLength four_tooth_shape = 4"
    by (simp add: four_tooth_shape_def getLength_def getEngineCycle_def getCycleDuration_def cycle_duration_def getSize_def)
  have j: "j = 0 \<or> j = 1 \<or> j = 2 \<or> j = 3" if "j < 4" for j :: nat using that by auto
  have rise: "\<not> useOnlyRisingEdges four_tooth_shape" by (simp add: four_tooth_shape_def blank_waveform_def)
  have w: "wrapped 720 180 = 180" "wrapped 720 360 = 360" "wrapped 720 (- 180) = 540"
    using wrapped_unique[of 720 "- 180" 1] by simp_all
  have steady: "steady_stamps 720 (9/1000) four_tooth_shape [0, 180, 360, 540] 2 5 four_stamps"
    unfolding steady_stamps_def n
  proof (intro conjI allI impI)
    fix j :: nat assume "j < 4"
    then show "[0, 180, 360, 540 :: rat] ! stamp_slot four_tooth_shape j = [0, 180, 360, 540] ! j"
      by (simp add: stamp_slot_def rise)
    assume "[0, 180, 360, 540 :: rat] ! j \<noteq> [0, 180, 360, 540] ! 2"
    with j[OF \<open>j < 4\<close>] consider "j = 0" | "j = 1" | "j = 3" by fastforce
    then show "\<exists>d. 0 < d \<and> d < 2 ^ 32 \<and> 9/1000 * of_int d = wrapped 720 ([0, 180, 360, 540] ! 2 - [0, 180, 360, 540] ! j) \<and>
        timeOfLastEvent four_stamps ! stamp_slot four_tooth_shape j = of_int (5 - d) \<and>
        timeOfLastEvent four_stamps ! stamp_slot four_tooth_shape j \<noteq> 0"
    proof cases
      case 1 then show ?thesis by (intro exI[of _ 40000]) (simp add: stamp_slot_def rise four_stamps_def w)
    next
      case 2 then show ?thesis by (intro exI[of _ 20000]) (simp add: stamp_slot_def rise four_stamps_def w)
    next
      case 3 then show ?thesis by (intro exI[of _ 60000]) (simp add: stamp_slot_def rise four_stamps_def w)
    qed
  qed
  have "\<exists>j<4. [0, 180, 360, 540 :: rat] ! j \<noteq> 360 \<and> 90 \<le> wrapped 720 (360 - [0, 180, 360, 540] ! j)"
    by (rule exI[of _ 0]) (simp add: w)
  moreover have "[0, 180, 360, 540 :: rat] ! a \<le> [0, 180, 360, 540] ! b" if "a \<le> b" "b < 4" for a b
    using j[OF that(2)] that by (auto simp: le_Suc_eq numeral_eq_Suc)
  moreover have "[0, 180, 360, 540 :: rat] ! b < 720" if "b < 4" for b
    using j[OF that] by auto
  ultimately show ?thesis
    using instant_speed_exact[of four_tooth_shape four_stamps "[0, 180, 360, 540]" "re_instant example_rpm_env" 2 "9/1000" 5 90 6000] steady
    by (simp add: n example_rpm_env_def four_stamps_def US_TO_NT_MULTIPLIER_def RPM_LOW_THRESHOLD_def)
qed

theorem presync_stamps_moved_witness:
  "ir_log (movePreSynchTimestamps min
     (blank_waveform\<lparr>m_operationMode := FOUR_STROKE_CRANK_SENSOR, wave := (wave blank_waveform)\<lparr>phaseCount := 150\<rparr>\<rparr>)
     ((InstantRpmCalculator 4)\<lparr>spinningEventIndex := 10\<rparr>)) = [OutOfBounds]"
  using presync_stamps_moved[of min "(InstantRpmCalculator 4)\<lparr>spinningEventIndex := 10\<rparr>"
      "blank_waveform\<lparr>m_operationMode := FOUR_STROKE_CRANK_SENSOR, wave := (wave blank_waveform)\<lparr>phaseCount := 150\<rparr>\<rparr>"]
  by (simp add: InstantRpmCalculator_def PWM_PHASE_MAX_COUNT_def getLength_def getEngineCycle_def getCycleDuration_def
      cycle_duration_def getSize_def Let_def)

end
