(* ===== verification/Efi_Text.thy ===== *)
theory Efi_Text
  imports Fome_Prelude "HOL-Library.Monad_Syntax"
begin

text \<open>
  \<^verbatim>\<open>util/efilib.cpp\<close> and \<^verbatim>\<open>.h\<close>: the text functions the firmware has instead of the C library. A
  \<^verbatim>\<open>const char*\<close> that is only read is the \<open>string\<close> up to its zero character; text that is changed in
  place is a buffer with a position, and reading outside of the buffer is the value None. \<open>atoi\<close>, \<open>absI\<close>
  and \<open>minI\<close> are functions of the \<^verbatim>\<open>libfirmware\<close> submodule: a record of parameters, with what the code
  relies on as the hypothesis \<open>textfw_ok\<close>.
\<close>

abbreviation (input) NUL :: "char" where "NUL \<equiv> CHR 0x00"
abbreviation (input) SPACE_CHAR :: "char" where "SPACE_CHAR \<equiv> CHR '' ''"
abbreviation (input) QUOTE_CHAR :: "char" where "QUOTE_CHAR \<equiv> CHR 0x22"
abbreviation (input) ATOI_ERROR_CODE :: "int" where "ATOI_ERROR_CODE \<equiv> 311223344"

text \<open>The text a pointer points at.\<close>

definition c_string :: "char list \<Rightarrow> nat \<Rightarrow> string" where
  "c_string buf p = takeWhile (\<lambda>c. c \<noteq> NUL) (drop p buf)"

definition char_at :: "char list \<Rightarrow> nat \<Rightarrow> char option" where
  "char_at buf p = (if p < length buf then Some (buf ! p) else None)"

subsection \<open>Characters and comparison\<close>

definition boolToString :: "bool \<Rightarrow> string" where
  "boolToString value = (if value then ''Yes'' else ''No'')"

definition mytolower :: "char \<Rightarrow> char" where
  "mytolower c = (if (65::nat) \<le> of_char c \<and> of_char c \<le> (90::nat) then char_of (of_char c - 65 + 97 :: nat) else c)"

definition indexOf :: "string \<Rightarrow> char \<Rightarrow> int" where
  "indexOf s c = (case find (\<lambda>i. s ! i = c) [0..<length s] of None \<Rightarrow> -1 | Some i \<Rightarrow> int i)"

definition strEqual :: "string \<Rightarrow> string \<Rightarrow> bool" where
  "strEqual str1 str2 =
     (if length str1 \<noteq> length str2 then False
      else find (\<lambda>i. str1 ! i \<noteq> str2 ! i) [0..<length str1] = None)"

definition strEqualCaseInsensitive :: "string \<Rightarrow> string \<Rightarrow> bool" where
  "strEqualCaseInsensitive str1 str2 =
     (if length str1 \<noteq> length str2 then False
      else find (\<lambda>i. mytolower (str1 ! i) \<noteq> mytolower (str2 ! i)) [0..<length str1] = None)"

text \<open>The hash is computed in the 32 bits of \<^verbatim>\<open>unsigned long\<close> and returned as an \<^verbatim>\<open>int\<close>; a plain \<^verbatim>\<open>char\<close> is
  unsigned on the processor.\<close>

definition djb2lowerCase :: "string \<Rightarrow> int" where
  "djb2lowerCase str = sint (fold (\<lambda>c h. 33 * h + of_nat (of_char (mytolower c))) str (5381 :: 32 word))"

subsection \<open>Trimming in place\<close>

function trim_front :: "char list \<Rightarrow> nat \<Rightarrow> nat option" where
  "trim_front buf p =
     (case char_at buf p of
        None \<Rightarrow> None
      | Some c \<Rightarrow> if c = SPACE_CHAR then trim_front buf (p + 1) else Some p)"
  by pat_completeness auto
termination by (relation "measure (\<lambda>(buf, p). length buf - p)") (auto simp: char_at_def split: if_splits)

declare trim_front.simps [simp del]

primrec trim_back :: "nat \<Rightarrow> nat \<Rightarrow> char list \<Rightarrow> char list" where
  "trim_back p 0 buf = buf"
| "trim_back p (Suc n) buf = (if buf ! (p + n) = SPACE_CHAR then trim_back p n (buf[p + n := NUL]) else buf)"

definition efiTrim :: "char list \<Rightarrow> nat \<Rightarrow> (char list \<times> nat) option" where
  "efiTrim buf param = do {
     param \<leftarrow> trim_front buf param;
     let len = length (c_string buf param);
     Some (trim_back param len buf, param)
   }"

subsection \<open>Integers to text\<close>

text \<open>The digits are written from the last of the ten places of a local buffer to the left: \<open>idx\<close> places
  are free, \<open>written\<close> is the used end of the buffer. Without a free place the C code would write before
  the buffer.\<close>

primrec ltoa_digits :: "nat \<Rightarrow> 32 word \<Rightarrow> 32 word \<Rightarrow> string \<Rightarrow> string option" where
  "ltoa_digits 0 num radix written = None"
| "ltoa_digits (Suc idx) num radix written =
     (let digit = num mod radix;
          c = (if digit < 10 then char_of (unat digit + 48) else char_of (unat digit + 97 - 10));
          written = c # written;
          num = num div radix
      in if num \<noteq> 0 then ltoa_digits idx num radix written else Some written)"

definition ltoa_internal :: "32 word \<Rightarrow> 32 word \<Rightarrow> string option" where
  "ltoa_internal num radix = ltoa_digits 10 num radix []"

definition itoa_signed :: "32 word \<Rightarrow> 32 word \<Rightarrow> string option" where
  "itoa_signed num radix =
     (if num <s 0 then map_option ((#) (CHR ''-'')) (ltoa_internal (- num) radix)
      else ltoa_internal num radix)"

definition itoa10 :: "32 word \<Rightarrow> string option" where
  "itoa10 num = itoa_signed num 10"

text \<open>None stands for a recursion that does not end.\<close>

partial_function (option) efiPow10 :: "int \<Rightarrow> int option" where
  "efiPow10 param =
     (if param = 0 then Some 1
      else if param = 1 then Some 10
      else if param = 2 then Some 100
      else if param = 3 then Some 1000
      else if param = 4 then Some 10000
      else if param = 5 then Some 100000
      else if param = 6 then Some 1000000
      else if param = 7 then Some 10000000
      else if param = 8 then Some 100000000
      else do { r \<leftarrow> efiPow10 (10 - 1); Some (10 * r) })"

declare efiPow10.simps [code]

subsection \<open>Text to floats\<close>

record textfw =
  atoi :: "string \<Rightarrow> int"
  absI :: "int \<Rightarrow> int"
  fw_minI :: "int \<Rightarrow> int \<Rightarrow> int"

definition is_digit :: "char \<Rightarrow> bool" where
  "is_digit c \<longleftrightarrow> (48::nat) \<le> of_char c \<and> of_char c \<le> (57::nat)"

definition decimal_value :: "string \<Rightarrow> int" where
  "decimal_value s = foldl (\<lambda>n c. 10 * n + (of_char c - 48)) 0 s"

definition is_number :: "string \<Rightarrow> bool" where
  "is_number s \<longleftrightarrow> s \<noteq> [] \<and> (\<forall>c \<in> set s. is_digit c) \<and> decimal_value s < 2 ^ 31"

definition textfw_ok :: "textfw \<Rightarrow> bool" where
  "textfw_ok W \<longleftrightarrow>
     (\<forall>s. is_number s \<longrightarrow> atoi W s = decimal_value s \<and> atoi W (CHR ''-'' # s) = - decimal_value s) \<and>
     (\<forall>a. absI W a = \<bar>a\<bar>) \<and> (\<forall>a b. fw_minI W a b = min a b)"

definition textfw_example :: textfw where
  "textfw_example =
     \<lparr>atoi = (\<lambda>s. if s \<noteq> [] \<and> hd s = CHR ''-'' then - decimal_value (tl s)
                  else if s \<noteq> [] \<and> list_all is_digit s then decimal_value s else ATOI_ERROR_CODE),
      absI = abs, fw_minI = min\<rparr>"

text \<open>The work is done in a static buffer of 100 characters.\<close>

definition atoff :: "textfw \<Rightarrow> string \<Rightarrow> xfloat" where
  "atoff W param =
     (if length param > 99 then NaN
      else if indexOf param (CHR ''n'') \<noteq> -1 \<or> indexOf param (CHR ''N'') \<noteq> -1 then NaN
      else
        let dotIndex = indexOf param (CHR ''.'') in
        if dotIndex = -1 then
          let result = atoi W param in
          if absI W result = ATOI_ERROR_CODE then NaN else Fin (of_int result)
        else
          let integerPart = atoi W (take (nat dotIndex) param) in
          if absI W integerPart = ATOI_ERROR_CODE then NaN
          else
            let rest = drop (nat dotIndex + 1) param;
                decimalLen = length rest;
                decimal = atoi W rest in
            if absI W decimal = ATOI_ERROR_CODE then NaN
            else
              let divider = fold (\<lambda>i d. d * 10) [0..<decimalLen] 1
              in Fin (of_int integerPart + of_int decimal / divider))"

subsection \<open>Numbers\<close>

definition efiRound :: "rat \<Rightarrow> rat \<Rightarrow> diag_log \<Rightarrow> xfloat \<times> diag_log" where
  "efiRound value precision lg =
     (if precision = 0 then (NaN, lg @ [FirmwareError CUSTOM_ERR_ASSERT])
      else (Fin (of_int (c_round (value / precision)) * precision), lg))"

definition limitRateOfChange :: "rat \<Rightarrow> rat \<Rightarrow> rat \<Rightarrow> rat \<Rightarrow> rat \<Rightarrow> rat" where
  "limitRateOfChange newValue oldValue incrLimitPerSec decrLimitPerSec secsPassed =
     (if newValue \<ge> oldValue then
        if incrLimitPerSec \<le> 0 then newValue else oldValue + min (newValue - oldValue) (incrLimitPerSec * secsPassed)
      else if decrLimitPerSec \<le> 0 then newValue
      else oldValue - min (oldValue - newValue) (decrLimitPerSec * secsPassed))"

unbundle bit_operations_syntax

definition SWAP_UINT16 :: "16 word \<Rightarrow> 16 word" where
  "SWAP_UINT16 x = (push_bit 8 x OR drop_bit 8 x)"

definition SWAP_UINT32 :: "32 word \<Rightarrow> 32 word" where
  "SWAP_UINT32 x =
     ((drop_bit 24 x AND 0x000000ff) OR (push_bit 8 x AND 0x00ff0000) OR
      (drop_bit 8 x AND 0x0000ff00) OR (push_bit 24 x AND 0xff000000))"


subsection \<open>Byte order\<close>

lemma byte_masks:
  "(0x000000ff :: 32 word) = mask 8" "(0x00ff0000 :: 32 word) = push_bit 16 (mask 8)"
  "(0x0000ff00 :: 32 word) = push_bit 8 (mask 8)" "(0xff000000 :: 32 word) = push_bit 24 (mask 8)"
  by (simp_all add: mask_eq_exp_minus_1 push_bit_eq_mult)

lemma SWAP_UINT16_involution [simp]: "SWAP_UINT16 (SWAP_UINT16 x) = x"
  by (rule bit_word_eqI) (auto simp: SWAP_UINT16_def bit_simps)

lemma byte_index:
  fixes n :: nat
  assumes "n < 32"
  obtains k where "k < 8" "n = k" | k where "k < 8" "n = k + 8" | k where "k < 8" "n = k + 16"
    | k where "k < 8" "n = k + 24"
proof -
  consider "n < 8" | "n = (n - 8) + 8" "n - 8 < 8" | "n = (n - 16) + 16" "n - 16 < 8" | "n = (n - 24) + 24" "n - 24 < 8"
    using assms by linarith
  then show ?thesis using that by cases blast+
qed

lemma bit_SWAP_UINT32:
  assumes "k < 8"
  shows "bit (SWAP_UINT32 x) k = bit x (k + 24)" "bit (SWAP_UINT32 x) (k + 8) = bit x (k + 16)"
    "bit (SWAP_UINT32 x) (k + 16) = bit x (k + 8)" "bit (SWAP_UINT32 x) (k + 24) = bit x k"
  using assms by (simp_all add: SWAP_UINT32_def byte_masks bit_simps add.commute)

lemma SWAP_UINT32_involution [simp]: "SWAP_UINT32 (SWAP_UINT32 x) = x"
proof (rule bit_word_eqI)
  fix n
  assume "n < LENGTH(32)"
  then have "n < 32" by simp
  then show "bit (SWAP_UINT32 (SWAP_UINT32 x)) n = bit x n"
    by (rule byte_index) (simp_all add: bit_SWAP_UINT32)
qed

subsection \<open>Text and comparison\<close>

lemma find_upt_None: "find P [0..<n] = None \<longleftrightarrow> (\<forall>i<n. \<not> P i)"
  by (auto simp: find_None_iff)

lemma strEqual_eq [simp]: "strEqual s t \<longleftrightarrow> s = t"
  unfolding strEqual_def find_upt_None by (metis nth_equalityI)

lemma strEqualCaseInsensitive_eq: "strEqualCaseInsensitive s t \<longleftrightarrow> map mytolower s = map mytolower t"
  unfolding strEqualCaseInsensitive_def find_upt_None list_eq_iff_nth_eq[of "map mytolower s"]
  by auto

lemma indexOf_none: "indexOf s c = -1 \<longleftrightarrow> c \<notin> set s"
proof -
  have "indexOf s c = -1 \<longleftrightarrow> find (\<lambda>i. s ! i = c) [0..<length s] = None"
    by (auto simp: indexOf_def split: option.splits)
  then show ?thesis by (auto simp: find_upt_None in_set_conv_nth)
qed

lemma indexOf_append: "c \<notin> set s \<Longrightarrow> indexOf (s @ c # t) c = int (length s)"
proof -
  assume c: "c \<notin> set s"
  have "find (\<lambda>i. (s @ c # t) ! i = c) [0..<length (s @ c # t)] = Some (length s)"
    unfolding find_Some_iff
    by (rule exI[of _ "length s"]) (use c in \<open>auto simp: nth_append\<close>)
  then show ?thesis by (simp add: indexOf_def)
qed

subsection \<open>Integers to text\<close>

lemma decimal_value_snoc: "decimal_value (s @ [c]) = 10 * decimal_value s + (of_char c - 48)"
  by (simp add: decimal_value_def)

lemma digit_char: "k < 10 \<Longrightarrow> is_digit (char_of (k + 48)) \<and> of_char (char_of (k + 48) :: char) = (of_nat k + 48 :: int)"
  for k :: nat
proof -
  assume k: "k < 10"
  then have "(k + 48) mod 256 = k + 48" by simp
  then have n: "of_char (char_of (k + 48) :: char) = k + 48" by (simp add: of_char_of)
  have "(of_char (char_of (k + 48) :: char) :: int) = int (of_char (char_of (k + 48) :: char))"
    by (rule of_nat_of_char[symmetric])
  then show ?thesis using k unfolding n by (simp add: is_digit_def n del: of_char_of)
qed

lemma decimal_value_nonneg: "\<forall>c \<in> set s. is_digit c \<Longrightarrow> 0 \<le> decimal_value s"
proof (induction s rule: rev_induct)
  case (snoc c s)
  have "(of_char c :: int) = int (of_char c)" by (rule of_nat_of_char[symmetric])
  then show ?case using snoc by (simp add: decimal_value_snoc is_digit_def del: of_nat_of_char)
qed (simp add: decimal_value_def)

lemma ltoa_digits_10:
  "unat num < 10 ^ idx \<Longrightarrow> 0 < idx \<Longrightarrow>
   \<exists>ds. ltoa_digits idx num 10 written = Some (ds @ written) \<and> ds \<noteq> [] \<and> length ds \<le> idx \<and>
        (\<forall>c \<in> set ds. is_digit c) \<and> decimal_value ds = int (unat num)"
proof (induction idx arbitrary: num written)
  case (Suc idx)
  let ?k = "unat (num mod 10)"
  let ?c = "char_of (?k + 48) :: char"
  have k: "?k = unat num mod 10" by (simp add: unat_mod)
  then have k10: "?k < 10" by simp
  then have w10: "num mod 10 < 10" by (simp add: word_less_nat_alt)
  note c = digit_char[OF k10]
  have q: "unat (num div 10) = unat num div 10" by (simp add: unat_div)
  have step: "ltoa_digits (Suc idx) num 10 written =
    (if num div 10 \<noteq> 0 then ltoa_digits idx (num div 10) 10 (?c # written) else Some (?c # written))"
    using w10 by (simp add: Let_def)
  show ?case
  proof (cases "num div 10 = 0")
    case True
    then have "unat num div 10 = 0" using q by simp
    then have "unat num = ?k" using k by simp
    then show ?thesis unfolding step using True c
      by (intro exI[of _ "[?c]"]) (simp add: decimal_value_def del: of_nat_unat)
  next
    case False
    have lt: "unat (num div 10) < 10 ^ idx" using Suc.prems(1) q by (simp add: less_mult_imp_div_less mult.commute)
    have "0 < idx"
    proof (rule ccontr)
      assume "\<not> 0 < idx"
      then have "unat (num div 10) = 0" using lt by simp
      then show False using False by (simp add: unat_eq_zero)
    qed
    from Suc.IH[OF lt this, of "?c # written"] obtain ds where
      ds: "ltoa_digits idx (num div 10) 10 (?c # written) = Some (ds @ ?c # written)" "length ds \<le> idx"
        "\<forall>c \<in> set ds. is_digit c" "decimal_value ds = int (unat (num div 10))" by blast
    have "decimal_value (ds @ [?c]) = int (unat num)"
      using c k q ds(4) by (simp add: decimal_value_snoc zmod_int zdiv_int del: of_nat_unat)
    then show ?thesis unfolding step using False ds c
      by (intro exI[of _ "ds @ [?c]"]) (simp del: of_nat_unat)
  qed
qed simp

lemma ltoa_internal_10:
  obtains ds where "ltoa_internal num 10 = Some ds" "ds \<noteq> []" "length ds \<le> 10"
    "\<forall>c \<in> set ds. is_digit c" "decimal_value ds = int (unat num)"
proof -
  have "unat num < 2 ^ 32" using unsigned_less[of num] by simp
  then have "unat num < 10 ^ 10" by simp
  from ltoa_digits_10[OF this, of "[]"] show ?thesis using that by (auto simp: ltoa_internal_def)
qed

lemma efiPow10_nine: "efiPow10 9 = None"
proof -
  have "n \<noteq> 9" if "efiPow10 n = Some r" for n r
    by (rule efiPow10.raw_induct[OF _ that, where P = "\<lambda>n r. n \<noteq> 9"])
      (auto split: if_splits Option.bind_splits)
  then show ?thesis by (cases "efiPow10 9") auto
qed

lemma unat_signed_abs: "int (unat (if num <s 0 then - num else num)) = \<bar>sint num\<bar>" for num :: "32 word"
proof -
  have r: "- (2 ^ 31) \<le> sint num" "sint num < 2 ^ 31" using sint_greater_eq[of num] sint_less[of num] by simp_all
  have "int (unat (word_of_int k :: 32 word)) = k" if "0 \<le> k" "k \<le> 2 ^ 31" for k
    using that by (simp add: unsigned_of_int take_bit_int_eq_self)
  moreover have "(if num <s 0 then - num else num) = word_of_int \<bar>sint num\<bar>"
    by (simp add: word_sless_alt)
  ultimately show ?thesis using r by simp
qed

lemma itoa10_text:
  obtains ds where "ds \<noteq> []" "length ds \<le> 10" "\<forall>c \<in> set ds. is_digit c"
    "itoa10 num = Some (if num <s 0 then CHR ''-'' # ds else ds)" "decimal_value ds = \<bar>sint num\<bar>"
proof -
  obtain ds where ds: "ltoa_internal (if num <s 0 then - num else num) 10 = Some ds" "ds \<noteq> []" "length ds \<le> 10"
      "\<forall>c \<in> set ds. is_digit c" "decimal_value ds = int (unat (if num <s 0 then - num else num))"
    by (rule ltoa_internal_10)
  have "itoa10 num = Some (if num <s 0 then CHR ''-'' # ds else ds)"
    using ds(1) by (simp add: itoa10_def itoa_signed_def split: if_splits)
  then show ?thesis using that ds(2-5) unfolding unat_signed_abs by blast
qed

lemma numbers_read_back:
  assumes "textfw_ok W" "is_number s"
  shows "atoi W s = decimal_value s" "atoi W (CHR ''-'' # s) = - decimal_value s"
  using assms by (simp_all add: textfw_ok_def)

subsection \<open>Trimming\<close>

definition strip_spaces :: "string \<Rightarrow> string" where
  "strip_spaces s = rev (dropWhile (\<lambda>c. c = SPACE_CHAR) (rev (dropWhile (\<lambda>c. c = SPACE_CHAR) s)))"

lemma c_string_append: "NUL \<notin> set s \<Longrightarrow> c_string (pre @ s @ NUL # rest) (length pre) = s"
  unfolding c_string_def by (subst drop_append) (auto simp: takeWhile_append)

lemma c_string_no_NUL: "NUL \<notin> set (c_string buf p)"
  using set_takeWhileD unfolding c_string_def by fastforce

text \<open>Memory with a zero character behind a position holds a text there.\<close>

lemma c_string_split:
  assumes "p \<le> q" "q < length buf" "buf ! q = NUL"
  obtains rest where "buf = take p buf @ c_string buf p @ NUL # rest"
proof -
  have "NUL \<in> set (drop p buf)"
    using assms by (auto simp: in_set_conv_nth intro!: exI[of _ "q - p"])
  then have "dropWhile (\<lambda>c. c \<noteq> NUL) (drop p buf) \<noteq> []" by auto
  then obtain rest where "dropWhile (\<lambda>c. c \<noteq> NUL) (drop p buf) = NUL # rest"
    using hd_dropWhile[of "\<lambda>c. c \<noteq> NUL" "drop p buf"] by (metis list.collapse)
  then have "drop p buf = c_string buf p @ NUL # rest"
    unfolding c_string_def by (metis takeWhile_dropWhile_id)
  then show ?thesis using that by (metis append_take_drop_id)
qed

lemma char_at_append: "char_at (pre @ s) (length pre) = (if s = [] then None else Some (hd s))"
  by (cases s) (auto simp: char_at_def nth_append)

lemma trim_front_append:
  "NUL \<notin> set s \<Longrightarrow> trim_front (pre @ s @ NUL # rest) (length pre) =
     Some (length pre + length (takeWhile (\<lambda>c. c = SPACE_CHAR) s))"
proof (induction s arbitrary: pre)
  case Nil
  then show ?case by (simp add: trim_front.simps char_at_append)
next
  case (Cons c s)
  have "trim_front ((pre @ [c]) @ s @ NUL # rest) (length (pre @ [c])) =
    Some (length (pre @ [c]) + length (takeWhile (\<lambda>c. c = SPACE_CHAR) s))"
    by (rule Cons.IH) (use Cons.prems in simp)
  then show ?case by (subst trim_front.simps) (auto simp: char_at_append)
qed

lemma trim_back_append:
  "trim_back (length pre) (length s) (pre @ s @ NUL # rest) =
    (let t = rev (dropWhile (\<lambda>c. c = SPACE_CHAR) (rev s))
     in pre @ t @ replicate (length s - length t) NUL @ NUL # rest)"
proof (induction s arbitrary: rest rule: rev_induct)
  case (snoc c s)
  show ?case
  proof (cases "c = SPACE_CHAR")
    case True
    have "trim_back (length pre) (length (s @ [c])) (pre @ (s @ [c]) @ NUL # rest) =
      trim_back (length pre) (length s) (pre @ s @ NUL # NUL # rest)"
      using True by (simp add: nth_append list_update_append)
    also have "\<dots> = (let t = rev (dropWhile (\<lambda>c. c = SPACE_CHAR) (rev s))
     in pre @ t @ replicate (length s - length t) NUL @ NUL # NUL # rest)"
      using snoc.IH[of "NUL # rest"] by simp
    finally show ?thesis using True length_dropWhile_le[of "\<lambda>c. c = SPACE_CHAR" "rev s"]
      by (simp add: Let_def Suc_diff_le replicate_append_same[symmetric])
  qed (simp add: Let_def nth_append)
qed (simp add: Let_def)

lemma efiTrim_strips:
  assumes "NUL \<notin> set s"
  shows "\<exists>buf' p. efiTrim (pre @ s @ NUL # rest) (length pre) = Some (buf', p) \<and> c_string buf' p = strip_spaces s
    \<and> length buf' = length (pre @ s @ NUL # rest)"
proof -
  let ?sp = "takeWhile (\<lambda>c. c = SPACE_CHAR) s" and ?s = "dropWhile (\<lambda>c. c = SPACE_CHAR) s"
  have split: "pre @ s @ NUL # rest = (pre @ ?sp) @ ?s @ NUL # rest" by simp
  have nul: "NUL \<notin> set ?s" using assms set_dropWhileD by fastforce
  let ?buf = "trim_back (length (pre @ ?sp)) (length ?s) ((pre @ ?sp) @ ?s @ NUL # rest)"
  have "efiTrim (pre @ s @ NUL # rest) (length pre) = Some (?buf, length (pre @ ?sp))"
    using c_string_append[OF nul, of "pre @ ?sp" rest] trim_front_append[OF assms, of pre rest]
    unfolding efiTrim_def split[symmetric] by (simp add: split[symmetric] del: takeWhile_dropWhile_id)
  moreover have "c_string ?buf (length (pre @ ?sp)) = strip_spaces s"
  proof -
    have "NUL \<notin> set (strip_spaces s)" using nul set_dropWhileD by (fastforce simp: strip_spaces_def)
    then show ?thesis unfolding trim_back_append Let_def
      using c_string_append[of "strip_spaces s" "pre @ ?sp"]
      by (simp add: strip_spaces_def c_string_def takeWhile_append)
  qed
  moreover have "length ?sp + length ?s = length s" by (metis length_append takeWhile_dropWhile_id)
  then have "length ?buf = length (pre @ s @ NUL # rest)"
    unfolding trim_back_append Let_def using length_dropWhile_le[of "\<lambda>c. c = SPACE_CHAR" "rev ?s"] by simp
  ultimately show ?thesis by blast
qed

subsection \<open>Text to floats\<close>

lemma digits_no_special: "is_number s \<Longrightarrow> CHR ''n'' \<notin> set s \<and> CHR ''N'' \<notin> set s \<and> CHR ''.'' \<notin> set s \<and> CHR ''-'' \<notin> set s"
  by (auto simp: is_number_def is_digit_def)

lemma divider_power: "fold (\<lambda>i d. d * 10) [0..<n] 1 = (10 :: rat) ^ n"
  by (induction n) simp_all

lemma atoff_split:
  assumes "textfw_ok W" "\<forall>x. CHR ''.'' \<notin> set a" "CHR ''n'' \<notin> set (a @ b)" "CHR ''N'' \<notin> set (a @ b)"
    "length a + length b < 99" "\<bar>atoi W a\<bar> \<noteq> ATOI_ERROR_CODE" "\<bar>atoi W b\<bar> \<noteq> ATOI_ERROR_CODE"
  shows "atoff W (a @ CHR ''.'' # b) = Fin (of_int (atoi W a) + of_int (atoi W b) / 10 ^ length b)"
proof -
  have "indexOf (a @ CHR ''.'' # b) (CHR ''.'') = int (length a)"
    using assms(2) by (simp add: indexOf_append)
  moreover have "indexOf (a @ CHR ''.'' # b) (CHR ''n'') = -1" "indexOf (a @ CHR ''.'' # b) (CHR ''N'') = -1"
    using assms(3,4) by (simp_all add: indexOf_none)
  moreover have "absI W x = \<bar>x\<bar>" for x using assms(1) by (simp add: textfw_ok_def)
  ultimately show ?thesis using assms(5-7) by (simp add: atoff_def Let_def divider_power)
qed

lemma atoff_decimal:
  assumes W: "textfw_ok W" and a: "is_number a" and b: "is_number b" and len: "length a + length b < 98"
    and v: "decimal_value a \<noteq> ATOI_ERROR_CODE" "decimal_value b \<noteq> ATOI_ERROR_CODE"
  shows "atoff W (a @ CHR ''.'' # b) = Fin (of_int (decimal_value a) + of_int (decimal_value b) / 10 ^ length b)"
    "atoff W ((CHR ''-'' # a) @ CHR ''.'' # b) = Fin (- of_int (decimal_value a) + of_int (decimal_value b) / 10 ^ length b)"
proof -
  have nonneg: "\<bar>decimal_value a\<bar> \<noteq> ATOI_ERROR_CODE" "\<bar>decimal_value b\<bar> \<noteq> ATOI_ERROR_CODE"
    using v decimal_value_nonneg a b by (simp_all add: is_number_def)
  note r = numbers_read_back[OF W a] numbers_read_back[OF W b]
  show "atoff W (a @ CHR ''.'' # b) = Fin (of_int (decimal_value a) + of_int (decimal_value b) / 10 ^ length b)"
    by (subst atoff_split[OF W])
      (use digits_no_special[OF a] digits_no_special[OF b] nonneg len r in simp_all)
  show "atoff W ((CHR ''-'' # a) @ CHR ''.'' # b) = Fin (- of_int (decimal_value a) + of_int (decimal_value b) / 10 ^ length b)"
    by (subst atoff_split[OF W])
      (use digits_no_special[OF a] digits_no_special[OF b] nonneg len r in simp_all)
qed

text \<open>Every integer but the smallest is printed within eleven characters and read back.\<close>

lemma itoa10_reads_back:
  assumes "textfw_ok W" "- (2 ^ 31) < sint num"
  shows "\<exists>s ds. itoa10 num = Some s \<and> length s \<le> 11 \<and> atoi W s = sint num \<and>
    ds \<noteq> [] \<and> (\<forall>c \<in> set ds. is_digit c) \<and> (s = ds \<or> s = CHR ''-'' # ds)"
proof -
  obtain ds where ds: "ds \<noteq> []" "length ds \<le> 10" "\<forall>c \<in> set ds. is_digit c"
    "itoa10 num = Some (if num <s 0 then CHR ''-'' # ds else ds)" "decimal_value ds = \<bar>sint num\<bar>"
    by (rule itoa10_text)
  have "sint num < 2 ^ 31" using sint_less[of num] by simp
  then have n: "is_number ds" using ds assms(2) by (simp add: is_number_def)
  show ?thesis
    by (intro exI[of _ "if num <s 0 then CHR ''-'' # ds else ds"] exI[of _ ds])
      (use ds numbers_read_back[OF assms(1) n] in \<open>auto simp: word_sless_alt\<close>)
qed

text \<open>C33: A decimal fraction is read as its value, but with a minus sign the fraction is added to the
  negative integer part: every negative number with a fraction is read as another number.\<close>

theorem atoff_negative_fraction:
  assumes "textfw_ok W" "is_number a" "is_number b" "length a + length b < 98"
    "decimal_value a \<noteq> ATOI_ERROR_CODE" "decimal_value b \<noteq> ATOI_ERROR_CODE" "decimal_value b \<noteq> 0"
  shows "let v = of_int (decimal_value a) + of_int (decimal_value b) / 10 ^ length b in
    atoff W (a @ CHR ''.'' # b) = Fin v \<and> atoff W (CHR ''-'' # a @ CHR ''.'' # b) \<noteq> Fin (- v)"
  using atoff_decimal[OF assms(1-6)] assms(7) by (auto simp: Let_def)

lemma textfw_example_ok: "textfw_ok textfw_example"
proof -
  have "atoi textfw_example s = decimal_value s \<and> atoi textfw_example (CHR ''-'' # s) = - decimal_value s"
    if "is_number s" for s
    using that digits_no_special[OF that] by (cases s) (auto simp: textfw_example_def is_number_def list_all_iff)
  then show ?thesis by (simp add: textfw_ok_def) (simp add: textfw_example_def)
qed

lemma atoff_negative_fraction_witness:
  "atoff textfw_example ''0.5'' = Fin (1/2) \<and> atoff textfw_example ''-0.5'' \<noteq> Fin (- (1/2))"
  using atoff_negative_fraction[OF textfw_example_ok, of "''0''" "''5''"]
  by (simp add: is_number_def is_digit_def decimal_value_def Let_def)

end
