(* ===== verification/Console_Line.thy ===== *)
theory Console_Line
  imports Efi_Text
begin

text \<open>
  \<^verbatim>\<open>util/cli_registry.cpp\<close>: the registry of the console commands and the interpreter of a command
  line. A registered callback is a function pointer, of which the model keeps the name; calling it is an
  entry of the list \<open>called\<close> with its arguments. What is printed is the list \<open>printed\<close>. Reading a
  character outside of a buffer, or an argument that was not set, is the value None.
\<close>

abbreviation (input) MAX_CMD_LINE_LENGTH :: "nat" where "MAX_CMD_LINE_LENGTH \<equiv> 100"
abbreviation (input) CONSOLE_MAX_ACTIONS :: "nat" where "CONSOLE_MAX_ACTIONS \<equiv> 150"
abbreviation "CUSTOM_ERR_COMMAND_LOWER_CASE_EXPECTED \<equiv> ObdCode 6140"
abbreviation "CUSTOM_SAME_TWICE \<equiv> ObdCode 6683"
abbreviation "CUSTOM_CONSOLE_TOO_MANY \<equiv> ObdCode 6601"

subsection \<open>The registry\<close>

datatype (plugins only: code) action_type_e =
    NO_PARAMETER
  | NO_PARAMETER_P
  | ONE_PARAMETER
  | ONE_PARAMETER_P
  | FLOAT_PARAMETER_NAN_ALLOWED
  | FLOAT_PARAMETER
  | FLOAT_PARAMETER_P
  | STRING_PARAMETER
  | STRING_PARAMETER_P
  | STRING2_PARAMETER
  | STRING2_PARAMETER_P
  | STRING3_PARAMETER
  | STRING5_PARAMETER
  | TWO_INTS_PARAMETER
  | TWO_INTS_PARAMETER_P
  | FLOAT_FLOAT_PARAMETER
  | FLOAT_FLOAT_FLOAT_PARAMETER
  | FLOAT_FLOAT_FLOAT_FLOAT_PARAMETER
  | FLOAT_FLOAT_PARAMETER_P
  | INT_FLOAT_PARAMETER

datatype 'c callback = HelpCommand | Echo | Callback 'c

datatype 'p argument = ArgInt int | ArgFloat xfloat | ArgString string | ArgPointer 'p

record ('c, 'p) TokenCallback =
  token :: string
  parameterType :: action_type_e
  callback_fn :: "'c callback"
  param :: 'p

datatype 'p console_message =
    NotAnInteger string
  | InvalidFloat string
  | UnsupportedParameterType action_type_e
  | InvalidInput
  | IncorrectArgumentCount int int
  | UnknownCommand string
  | LongLine
  | FailedToHandle string
  | Confirmation string nat
  | ActionsAvailable nat
  | ActionParameters string int
  | HelpLink
  | GotValue int

record ('c, 'p) console =
  consoleActions :: "('c, 'p) TokenCallback list"
  handleBuffer :: "char list"
  called :: "('c callback \<times> 'p argument list) list"
  printed :: "'p console_message list"
  con_log :: diag_log

definition con_error :: "diag \<Rightarrow> ('c, 'p) console \<Rightarrow> ('c, 'p) console" where
  "con_error d st = st\<lparr>con_log := con_log st @ [d]\<rparr>"

definition efiPrintf :: "'p console_message \<Rightarrow> ('c, 'p) console \<Rightarrow> ('c, 'p) console" where
  "efiPrintf m st = st\<lparr>printed := printed st @ [m]\<rparr>"

definition resetConsoleActions :: "('c, 'p) console \<Rightarrow> ('c, 'p) console" where
  "resetConsoleActions st = st\<lparr>consoleActions := []\<rparr>"

definition isupper :: "char \<Rightarrow> bool" where
  "isupper c \<longleftrightarrow> (65::nat) \<le> of_char c \<and> of_char c \<le> (90::nat)"

definition isspace :: "char \<Rightarrow> bool" where
  "isspace c \<longleftrightarrow> c = CHR '' '' \<or> ((9::nat) \<le> of_char c \<and> of_char c \<le> (13::nat))"

definition doAddAction ::
  "string \<Rightarrow> action_type_e \<Rightarrow> 'c callback \<Rightarrow> 'p \<Rightarrow> ('c, 'p) console \<Rightarrow> ('c, 'p) console" where
  "doAddAction tok type cb par st =
     (let st = fold (\<lambda>c st. if isupper c then con_error (FirmwareError CUSTOM_ERR_COMMAND_LOWER_CASE_EXPECTED) st else st) tok st;
          st = fold (\<lambda>a st. if tok = token a then con_error (FirmwareError CUSTOM_SAME_TWICE) st else st) (consoleActions st) st
      in if \<not> length (consoleActions st) < CONSOLE_MAX_ACTIONS
         then con_error (FirmwareError CUSTOM_CONSOLE_TOO_MANY) st
         else st\<lparr>consoleActions := consoleActions st @
                  [\<lparr>token = tok, parameterType = type, callback_fn = cb, param = par\<rparr>]\<rparr>)"

definition getParameterCount :: "action_type_e \<Rightarrow> int" where
  "getParameterCount type =
     (case type of
        NO_PARAMETER \<Rightarrow> 0 | NO_PARAMETER_P \<Rightarrow> 0
      | ONE_PARAMETER \<Rightarrow> 1 | ONE_PARAMETER_P \<Rightarrow> 1 | FLOAT_PARAMETER \<Rightarrow> 1 | STRING_PARAMETER \<Rightarrow> 1
      | FLOAT_FLOAT_PARAMETER \<Rightarrow> 2 | FLOAT_FLOAT_PARAMETER_P \<Rightarrow> 2 | STRING2_PARAMETER \<Rightarrow> 2
      | STRING2_PARAMETER_P \<Rightarrow> 2 | TWO_INTS_PARAMETER \<Rightarrow> 2 | TWO_INTS_PARAMETER_P \<Rightarrow> 2 | INT_FLOAT_PARAMETER \<Rightarrow> 2
      | STRING3_PARAMETER \<Rightarrow> 3 | FLOAT_FLOAT_FLOAT_PARAMETER \<Rightarrow> 3
      | FLOAT_FLOAT_FLOAT_FLOAT_PARAMETER \<Rightarrow> 4
      | STRING5_PARAMETER \<Rightarrow> 5
      | _ \<Rightarrow> -1)"

definition helpCommand :: "('c, 'p) console \<Rightarrow> ('c, 'p) console" where
  "helpCommand st =
     (let st = efiPrintf (ActionsAvailable (length (consoleActions st))) st;
          st = fold (\<lambda>a st. efiPrintf (ActionParameters (token a) (getParameterCount (parameterType a))) st) (consoleActions st) st
      in efiPrintf HelpLink st)"

definition echo :: "int \<Rightarrow> ('c, 'p) console \<Rightarrow> ('c, 'p) console" where
  "echo value st = efiPrintf (GotValue value) st"

text \<open>Calling a callback through its pointer.\<close>

definition call_fn :: "'c callback \<Rightarrow> 'p argument list \<Rightarrow> ('c, 'p) console \<Rightarrow> ('c, 'p) console" where
  "call_fn cb args st =
     (let st = st\<lparr>called := called st @ [(cb, args)]\<rparr> in
      case (cb, args) of
        (HelpCommand, []) \<Rightarrow> helpCommand st
      | (Echo, [ArgInt n]) \<Rightarrow> echo n st
      | _ \<Rightarrow> st)"

definition initConsoleLogic :: "'p \<Rightarrow> ('c, 'p) console \<Rightarrow> ('c, 'p) console" where
  "initConsoleLogic null st = doAddAction ''echo'' ONE_PARAMETER Echo null (doAddAction ''help'' NO_PARAMETER HelpCommand null st)"

subsection \<open>Tokens\<close>

definition findEndOfToken :: "string \<Rightarrow> int" where
  "findEndOfToken line =
     (if line \<noteq> [] \<and> hd line = QUOTE_CHAR then
        let v = indexOf (tl line) QUOTE_CHAR in if v = -1 then -1 else v + 2
      else indexOf line SPACE_CHAR)"

fun tokenLength :: "string \<Rightarrow> nat" where
  "tokenLength [] = 0"
| "tokenLength (c # msgp) = (if c = SPACE_CHAR then 0 else Suc (tokenLength msgp))"

text \<open>\<^verbatim>\<open>unquote\<close> shortens the text in place; the result is the text at the pointer returned. A line that is
  a single quote loses its only character before the pointer moves behind it.\<close>

definition unquote :: "string \<Rightarrow> string" where
  "unquote line =
     (if line \<noteq> [] \<and> hd line = QUOTE_CHAR \<and> last line = QUOTE_CHAR then tl (butlast line) else line)"

subsection \<open>Splitting the line in place\<close>

text \<open>The loops \<^verbatim>\<open>while (isspace(*args)) {*args = 0; args++;}\<close>.\<close>

function skip_spaces :: "char list \<Rightarrow> nat \<Rightarrow> (char list \<times> nat) option" where
  "skip_spaces buf args =
     (case char_at buf args of
        None \<Rightarrow> None
      | Some c \<Rightarrow> if isspace c then skip_spaces (buf[args := NUL]) (args + 1) else Some (buf, args))"
  by pat_completeness auto
termination by (relation "measure (\<lambda>(buf, p). length buf - p)") (auto simp: char_at_def split: if_splits)

text \<open>The search for the closing quote.\<close>

function find_quote :: "char list \<Rightarrow> nat \<Rightarrow> nat option" where
  "find_quote buf args =
     (case char_at buf args of
        None \<Rightarrow> None
      | Some c \<Rightarrow> if c \<noteq> NUL \<and> c \<noteq> QUOTE_CHAR then find_quote buf (args + 1) else Some args)"
  by pat_completeness auto
termination by (relation "measure (\<lambda>(buf, p). length buf - p)") (auto simp: char_at_def split: if_splits)

declare skip_spaces.simps [simp del] find_quote.simps [simp del]

lemma find_quote_le: "find_quote buf p = Some q \<Longrightarrow> p \<le> q"
proof (induction buf p rule: find_quote.induct)
  case (1 buf p)
  from 1(2) show ?case by (subst (asm) find_quote.simps) (auto split: option.splits if_splits dest!: 1(1))
qed

text \<open>The loop over the characters of a token: \<open>Some None\<close> for a missing quote.\<close>

function skip_token :: "char list \<Rightarrow> nat \<Rightarrow> nat option option" where
  "skip_token buf args =
     (case char_at buf args of
        None \<Rightarrow> None
      | Some c \<Rightarrow>
          if c = NUL \<or> isspace c then Some (Some args)
          else if c = QUOTE_CHAR then
            (case find_quote buf (args + 1) of
               None \<Rightarrow> None
             | Some q \<Rightarrow> if char_at buf q = Some NUL then Some None else skip_token buf (q + 1))
          else skip_token buf (args + 1))"
  by pat_completeness auto
termination
  by (relation "measure (\<lambda>(buf, p). length buf - p)")
    (auto simp: char_at_def split: if_splits dest: find_quote_le)

declare skip_token.simps [simp del]

text \<open>The loop over the tokens, with the count, the buffer and the pointers stored in \<^verbatim>\<open>argv\<close>; \<open>max_args\<close> is
  what is left of it.\<close>

primrec args_loop :: "nat \<Rightarrow> char list \<Rightarrow> nat \<Rightarrow> nat list \<Rightarrow> (int \<times> char list \<times> nat list) option" where
  "args_loop 0 buf args argv =
     do {_ \<leftarrow> char_at buf args; Some (int (length argv), buf, argv)}"
| "args_loop (Suc left) buf args argv = do {
     c \<leftarrow> char_at buf args;
     if c = NUL then Some (int (length argv), buf, argv)
     else do {
       let argv = argv @ [args];
       r \<leftarrow> skip_token buf args;
       case r of
         None \<Rightarrow> Some (-1, buf, argv)
       | Some args \<Rightarrow> do {
           c \<leftarrow> char_at buf args;
           let (buf, args) = (if c \<noteq> NUL then (buf[args := NUL], args + 1) else (buf, args));
           (buf, args) \<leftarrow> skip_spaces buf args;
           args_loop left buf args argv
         }
     }
   }"

definition setargs :: "char list \<Rightarrow> nat \<Rightarrow> (int \<times> char list \<times> nat list) option" where
  "setargs buf max_args = do {
     (buf, args) \<leftarrow> skip_spaces buf 0;
     args_loop max_args buf args []
   }"

subsection \<open>Running a command\<close>

definition arg :: "string list \<Rightarrow> nat \<Rightarrow> string option" where
  "arg argv i = (if i < length argv then Some (argv ! i) else None)"

text \<open>The loops that read \<open>n\<close> integers or floats from the arguments at \<open>i\<close> on; the inner None is the return of -1.
  A bad integer is reported with the first argument.\<close>

fun get_ints ::
  "textfw \<Rightarrow> string list \<Rightarrow> nat \<Rightarrow> nat \<Rightarrow> ('c, 'p) console \<Rightarrow> (int list option \<times> ('c, 'p) console) option" where
  "get_ints W argv i 0 st = Some (Some [], st)"
| "get_ints W argv i (Suc n) st = do {
     a \<leftarrow> arg argv i;
     let value = atoi W a;
     if absI W value = ATOI_ERROR_CODE then do {
       a0 \<leftarrow> arg argv 0;
       Some (None, efiPrintf (NotAnInteger a0) st)
     } else do {
       (r, st) \<leftarrow> get_ints W argv (i + 1) n st;
       Some (map_option ((#) value) r, st)
     }
   }"

fun get_floats ::
  "textfw \<Rightarrow> string list \<Rightarrow> nat \<Rightarrow> nat \<Rightarrow> ('c, 'p) console \<Rightarrow> (xfloat list option \<times> ('c, 'p) console) option" where
  "get_floats W argv i 0 st = Some (Some [], st)"
| "get_floats W argv i (Suc n) st = do {
     a \<leftarrow> arg argv i;
     let value = atoff W a;
     if value = NaN then Some (None, efiPrintf (InvalidFloat a) st)
     else do {
       (r, st) \<leftarrow> get_floats W argv (i + 1) n st;
       Some (map_option ((#) value) r, st)
     }
   }"

text \<open>The callback of an action with its pointer argument, when it has one, and the result 0.\<close>

definition run_action ::
  "('c, 'p) TokenCallback \<Rightarrow> 'p argument list option \<Rightarrow> bool \<Rightarrow> ('c, 'p) console \<Rightarrow> int \<times> ('c, 'p) console" where
  "run_action current args with_param st =
     (case args of
        None \<Rightarrow> (-1, st)
      | Some args \<Rightarrow>
          (0, call_fn (callback_fn current) (args @ (if with_param then [ArgPointer (param current)] else [])) st))"

definition string_args :: "string list \<Rightarrow> nat \<Rightarrow> 'p argument list option" where
  "string_args argv n = those (map (\<lambda>i. map_option ArgString (arg argv i)) [0..<n])"

definition handleActionWithParameter ::
  "textfw \<Rightarrow> ('c, 'p) TokenCallback \<Rightarrow> string list \<Rightarrow> ('c, 'p) console \<Rightarrow> (int \<times> ('c, 'p) console) option" where
  "handleActionWithParameter W current argv st =
     (let strings = (\<lambda>n with_param. do {
            args \<leftarrow> string_args argv n;
            Some (run_action current (Some args) with_param st)});
          ints = (\<lambda>n with_param. do {
            (r, st) \<leftarrow> get_ints W argv 0 n st;
            Some (run_action current (map_option (map ArgInt) r) with_param st)});
          floats = (\<lambda>n with_param. do {
            (r, st) \<leftarrow> get_floats W argv 0 n st;
            Some (run_action current (map_option (map ArgFloat) r) with_param st)})
      in case parameterType current of
           NO_PARAMETER \<Rightarrow> Some (run_action current (Some []) False st)
         | NO_PARAMETER_P \<Rightarrow> Some (run_action current (Some []) True st)
         | STRING_PARAMETER \<Rightarrow> strings 1 False
         | STRING_PARAMETER_P \<Rightarrow> strings 1 True
         | STRING2_PARAMETER \<Rightarrow> strings 2 False
         | STRING2_PARAMETER_P \<Rightarrow> strings 2 True
         | STRING3_PARAMETER \<Rightarrow> strings 3 False
         | STRING5_PARAMETER \<Rightarrow> strings 5 False
         | TWO_INTS_PARAMETER \<Rightarrow> ints 2 False
         | FLOAT_PARAMETER_NAN_ALLOWED \<Rightarrow> do {
             a \<leftarrow> arg argv 0;
             Some (run_action current (Some [ArgFloat (atoff W a)]) False st)}
         | FLOAT_PARAMETER \<Rightarrow> floats 1 False
         | FLOAT_FLOAT_PARAMETER \<Rightarrow> floats 2 False
         | FLOAT_FLOAT_PARAMETER_P \<Rightarrow> floats 2 True
         | FLOAT_FLOAT_FLOAT_PARAMETER \<Rightarrow> floats 3 False
         | FLOAT_FLOAT_FLOAT_FLOAT_PARAMETER \<Rightarrow> floats 4 False
         | INT_FLOAT_PARAMETER \<Rightarrow> do {
             (r, st) \<leftarrow> get_ints W argv 0 1 st;
             case r of
               None \<Rightarrow> Some (-1, st)
             | Some value1 \<Rightarrow> do {
                 (r, st) \<leftarrow> get_floats W argv 1 1 st;
                 Some (run_action current (map_option (\<lambda>value2. map ArgInt value1 @ map ArgFloat value2) r) False st)}}
         | ONE_PARAMETER \<Rightarrow> ints 1 False
         | ONE_PARAMETER_P \<Rightarrow> ints 1 True
         | _ \<Rightarrow> Some (-1, efiPrintf (UnsupportedParameterType (parameterType current)) st))"

text \<open>The first registered action with the name decides.\<close>

definition handleConsoleLineInternal ::
  "textfw \<Rightarrow> string \<Rightarrow> int \<Rightarrow> ('c, 'p) console \<Rightarrow> (int \<times> ('c, 'p) console) option" where
  "handleConsoleLineInternal W commandLine lineLength st = do {
     let len = nat (fw_minI W lineLength (int (length (handleBuffer st)) - 1));
     let buf = take len commandLine @ NUL # drop (len + 1) (handleBuffer st);
     (argc, buf, argv) \<leftarrow> setargs buf 10;
     let st = st\<lparr>handleBuffer := buf\<rparr>;
     let argv = map (c_string buf) argv;
     if argc \<le> 0 then Some (-1, efiPrintf InvalidInput st)
     else do {
       name \<leftarrow> arg argv 0;
       case find (\<lambda>current. strEqual name (token current)) (consoleActions st) of
         None \<Rightarrow> Some (-1, efiPrintf (UnknownCommand commandLine) st)
       | Some current \<Rightarrow>
           if argc - 1 \<noteq> getParameterCount (parameterType current)
           then Some (-1, efiPrintf (IncorrectArgumentCount (argc - 1) (getParameterCount (parameterType current))) st)
           else handleActionWithParameter W current (tl argv) st
     }
   }"

definition handleConsoleLine :: "textfw \<Rightarrow> string option \<Rightarrow> ('c, 'p) console \<Rightarrow> ('c, 'p) console option" where
  "handleConsoleLine W line st =
     (case line of
        None \<Rightarrow> Some st
      | Some line \<Rightarrow>
          let lineLength = length line in
          if lineLength > MAX_CMD_LINE_LENGTH then Some (efiPrintf LongLine st)
          else do {
            (ret, st) \<leftarrow> handleConsoleLineInternal W line (int lineLength) st;
            if ret < 0 then Some (efiPrintf (FailedToHandle line) st)
            else Some (efiPrintf (Confirmation line lineLength) st)
          })"

subsection \<open>Reference: the words of a line\<close>

text \<open>A word ends at white space outside of quotes; a quote without its partner makes the line invalid.\<close>

function word :: "string \<Rightarrow> (string \<times> string) option" where
  "word [] = Some ([], [])"
| "word (c # s) =
     (if isspace c then Some ([], c # s)
      else if c = QUOTE_CHAR then
        let quoted = takeWhile (\<lambda>c. c \<noteq> QUOTE_CHAR) s; rest = dropWhile (\<lambda>c. c \<noteq> QUOTE_CHAR) s in
        if rest = [] then None else map_option (apfst ((@) (c # quoted @ [QUOTE_CHAR]))) (word (tl rest))
      else map_option (apfst ((#) c)) (word s))"
  by pat_completeness auto
termination
proof (relation "measure length", goal_cases)
  case (2 c s quoted rest)
  then show ?case using length_dropWhile_le[of "\<lambda>c. c \<noteq> QUOTE_CHAR" s] by simp
qed simp_all

primrec words :: "nat \<Rightarrow> string \<Rightarrow> string list option" where
  "words 0 s = Some []"
| "words (Suc n) s =
     (if s = [] then Some []
      else case word s of
        None \<Rightarrow> None
      | Some (w, rest) \<Rightarrow> map_option ((#) w) (words n (dropWhile isspace rest)))"

definition words_of_line :: "nat \<Rightarrow> string \<Rightarrow> string list option" where
  "words_of_line n line = words n (dropWhile isspace line)"

end
