(* ===== verification/Console_Properties.thy ===== *)
theory Console_Properties
  imports Console_Line
begin

text \<open>
  The interpreter of command lines: the splitting in place is the splitting of the line into words, and
  every line is answered, running at most one callback with the arguments its action was registered for.
\<close>

subsection \<open>Splitting in place\<close>

lemma isspace_NUL [simp]: "\<not> isspace NUL"
  by (simp add: isspace_def)

lemma skip_spaces_append:
  "NUL \<notin> set s \<Longrightarrow> skip_spaces (pre @ s @ NUL # rest) (length pre) =
     Some (pre @ replicate (length (takeWhile isspace s)) NUL @ dropWhile isspace s @ NUL # rest,
           length pre + length (takeWhile isspace s))"
proof (induction s arbitrary: pre)
  case Nil
  then show ?case by (simp add: skip_spaces.simps char_at_append)
next
  case (Cons c s)
  have "skip_spaces ((pre @ [NUL]) @ s @ NUL # rest) (length (pre @ [NUL])) =
    Some ((pre @ [NUL]) @ replicate (length (takeWhile isspace s)) NUL @ dropWhile isspace s @ NUL # rest,
           length (pre @ [NUL]) + length (takeWhile isspace s))"
    by (rule Cons.IH) (use Cons.prems in simp)
  then show ?case by (subst skip_spaces.simps) (simp add: char_at_append)
qed

lemma find_quote_append:
  "NUL \<notin> set s \<Longrightarrow> find_quote (pre @ s @ NUL # rest) (length pre) =
     Some (length pre + length (takeWhile (\<lambda>c. c \<noteq> QUOTE_CHAR) s))"
proof (induction s arbitrary: pre)
  case Nil
  then show ?case by (simp add: find_quote.simps char_at_append)
next
  case (Cons c s)
  have "find_quote ((pre @ [c]) @ s @ NUL # rest) (length (pre @ [c])) =
    Some (length (pre @ [c]) + length (takeWhile (\<lambda>c. c \<noteq> QUOTE_CHAR) s))"
    by (rule Cons.IH) (use Cons.prems in simp)
  then show ?case using Cons.prems by (subst find_quote.simps) (auto simp: char_at_append)
qed

lemma word_split:
  "word s = Some (w, r) \<Longrightarrow> s = w @ r \<and> (r = [] \<or> isspace (hd r)) \<and> (s \<noteq> [] \<longrightarrow> \<not> isspace (hd s) \<longrightarrow> w \<noteq> [])"
proof (induction s arbitrary: w r rule: word.induct)
  case (2 c s)
  let ?q = "takeWhile (\<lambda>c. c \<noteq> QUOTE_CHAR) s" and ?r = "dropWhile (\<lambda>c. c \<noteq> QUOTE_CHAR) s"
  consider "isspace c" | "\<not> isspace c" "c = QUOTE_CHAR" | "\<not> isspace c" "c \<noteq> QUOTE_CHAR" by blast
  then show ?case
  proof cases
    case 2
    with "2.prems" obtain w' where ne: "?r \<noteq> []" and w': "word (tl ?r) = Some (w', r)"
        "w = (c # ?q @ [QUOTE_CHAR]) @ w'"
      by (auto simp: Let_def split: if_splits)
    have "tl ?r = w' @ r \<and> (r = [] \<or> isspace (hd r))" using "2.IH"(1)[OF 2 refl refl ne w'(1)] by blast
    moreover have "s = ?q @ QUOTE_CHAR # tl ?r"
      using hd_dropWhile[OF ne] ne takeWhile_dropWhile_id[of "\<lambda>c. c \<noteq> QUOTE_CHAR" s]
      by (metis (mono_tags, lifting) list.collapse)
    ultimately show ?thesis using w'(2) 2 by (auto simp del: takeWhile_dropWhile_id)
  next
    case 3
    with "2.prems" obtain w' where "word s = Some (w', r)" "w = c # w'" by auto
    then show ?thesis using "2.IH"(2)[OF 3 \<open>word s = Some (w', r)\<close>] 3 by auto
  qed (use "2.prems" in auto)
qed simp

lemma skip_token_append:
  "NUL \<notin> set s \<Longrightarrow> skip_token (pre @ s @ NUL # rest) (length pre) =
     Some (map_option (\<lambda>(w, r). length pre + length w) (word s))"
proof (induction s arbitrary: pre rule: word.induct)
  case 1
  then show ?case by (simp add: skip_token.simps char_at_append)
next
  case (2 c s)
  let ?q = "takeWhile (\<lambda>c. c \<noteq> QUOTE_CHAR) s" and ?r = "dropWhile (\<lambda>c. c \<noteq> QUOTE_CHAR) s"
  consider "isspace c" | "\<not> isspace c" "c = QUOTE_CHAR" | "\<not> isspace c" "c \<noteq> QUOTE_CHAR" by blast
  then show ?case
  proof cases
    case 1
    then show ?thesis by (simp add: skip_token.simps char_at_append)
  next
    case 2
    have nul: "NUL \<notin> set s" using "2.prems" by simp
    have f: "find_quote (pre @ (c # s) @ NUL # rest) (length pre + 1) = Some (length pre + 1 + length ?q)"
      using find_quote_append[OF nul, of "pre @ [c]" rest] by simp
    show ?thesis
    proof (cases "?r = []")
      case True
      then have q: "?q = s" by (metis append_Nil2 takeWhile_dropWhile_id)
      have "char_at (pre @ (c # s) @ NUL # rest) (length pre + 1 + length s) = Some NUL"
        using char_at_append[of "pre @ c # s" "NUL # rest"] by simp
      moreover have "find_quote (pre @ (c # s) @ NUL # rest) (length pre + 1) = Some (length pre + 1 + length s)"
        using f q by metis
      ultimately show ?thesis using 2 True "2.prems" by (subst skip_token.simps) (simp add: char_at_append)
    next
      case False
      let ?pre = "pre @ c # ?q @ [QUOTE_CHAR]"
      have s: "s = ?q @ QUOTE_CHAR # tl ?r"
        using hd_dropWhile[OF False] False takeWhile_dropWhile_id[of "\<lambda>c. c \<noteq> QUOTE_CHAR" s]
        by (metis (mono_tags, lifting) list.collapse)
      then have buf: "pre @ (c # s) @ NUL # rest = ?pre @ tl ?r @ NUL # rest"
        by (metis append.assoc append_Cons append_Nil)
      have nul': "NUL \<notin> set (tl ?r)" using nul s by (metis Un_iff set_ConsD set_append list.set_intros(2))
      have "char_at (pre @ (c # s) @ NUL # rest) (length pre + 1 + length ?q) = Some QUOTE_CHAR"
        unfolding buf using char_at_append[of "pre @ c # ?q" "QUOTE_CHAR # tl ?r @ NUL # rest"] by simp
      moreover have "skip_token (pre @ (c # s) @ NUL # rest) (length pre + 1 + length ?q + 1) =
          Some (map_option (\<lambda>(w, r). length ?pre + length w) (word (tl ?r)))"
        unfolding buf using "2.IH"(1)[OF 2 refl refl False nul', of ?pre] by (simp add: add.assoc)
      ultimately show ?thesis using f 2 False "2.prems"
        by (subst skip_token.simps) (auto simp: char_at_append option.map_comp comp_def apfst_def map_prod_def case_prod_unfold add.assoc)
    qed
  next
    case 3
    have "skip_token ((pre @ [c]) @ s @ NUL # rest) (length (pre @ [c])) =
      Some (map_option (\<lambda>(w, r). length (pre @ [c]) + length w) (word s))"
      by (rule "2.IH"(2)[OF 3]) (use "2.prems" in simp)
    then show ?thesis using 3 "2.prems"
      by (subst skip_token.simps) (auto simp: char_at_append option.map_comp comp_def apfst_def map_prod_def case_prod_unfold add.assoc)
  qed
qed


definition args_result ::
  "string list option \<Rightarrow> char list \<Rightarrow> nat list \<Rightarrow> (int \<times> char list \<times> nat list) option \<Rightarrow> nat \<Rightarrow> bool" where
  "args_result ws pre argv r k \<longleftrightarrow>
     (\<exists>n z new. r = Some (n, pre @ z, argv @ new) \<and> length z = k \<and>
        (case ws of
           None \<Rightarrow> n = -1
         | Some ts \<Rightarrow> n = int (length argv + length ts) \<and> map (c_string (pre @ z)) new = ts))"

lemma c_string_word: "NUL \<notin> set w \<Longrightarrow> c_string ((pre @ w @ NUL # x) @ z) (length pre) = w"
  using c_string_append[of w pre "x @ z"] by simp

lemma args_result_Cons:
  assumes "args_result (words left s) (pre @ w @ NUL # x) (argv @ [length pre]) r k" "NUL \<notin> set w"
  shows "args_result (map_option ((#) w) (words left s)) pre argv r (length w + 1 + length x + k)"
proof -
  from assms(1) obtain n z new where r: "r = Some (n, (pre @ w @ NUL # x) @ z, (argv @ [length pre]) @ new)"
    "length z = k" "case words left s of None \<Rightarrow> n = -1
      | Some ts \<Rightarrow> n = int (length (argv @ [length pre]) + length ts) \<and> map (c_string ((pre @ w @ NUL # x) @ z)) new = ts"
    unfolding args_result_def by blast
  show ?thesis unfolding args_result_def
    by (rule exI[of _ n], rule exI[of _ "w @ NUL # x @ z"], rule exI[of _ "length pre # new"])
      (use r c_string_word[OF assms(2), of pre x z] in \<open>auto split: option.splits\<close>)
qed

text \<open>A word at the end of the line, and a word before white space.\<close>

lemma args_loop_last:
  assumes "NUL \<notin> set s" "s \<noteq> []" "word s = Some (s, [])"
  shows "args_loop (Suc left) (pre @ s @ NUL # rest) (length pre) argv =
    Some (int (length argv + 1), pre @ s @ NUL # rest, argv @ [length pre])"
proof -
  let ?buf = "pre @ s @ NUL # rest"
  have c: "char_at ?buf (length pre) = Some (hd s)" "hd s \<noteq> NUL"
    using assms by (cases s; auto simp: char_at_append)+
  have e: "char_at ?buf (length pre + length s) = Some NUL"
    using char_at_append[of "pre @ s" "NUL # rest"] by simp
  moreover have "skip_spaces ?buf (length pre + length s) = Some (?buf, length pre + length s)"
    using skip_spaces_append[of "[]" "pre @ s" rest] by simp
  moreover have "args_loop left ?buf (length pre + length s) (argv @ [length pre]) =
    Some (int (length argv + 1), ?buf, argv @ [length pre])"
    using e by (cases left) simp_all
  ultimately show ?thesis using c skip_token_append[OF assms(1), of pre rest] assms(3) by simp
qed

lemma args_loop_step:
  fixes pre rest :: "char list"
  assumes "NUL \<notin> set s" "s \<noteq> []" "word s = Some (w, d # r)"
  defines "pre' \<equiv> pre @ w @ NUL # replicate (length (takeWhile isspace r)) NUL"
  shows "args_loop (Suc left) (pre @ s @ NUL # rest) (length pre) argv =
    args_loop left (pre' @ dropWhile isspace r @ NUL # rest) (length pre') (argv @ [length pre])"
proof -
  let ?buf = "pre @ s @ NUL # rest"
  have s: "s = w @ d # r" using word_split[OF assms(3)] by simp
  have c: "char_at ?buf (length pre) = Some (hd s)" "hd s \<noteq> NUL"
    using assms(1,2) by (cases s; auto simp: char_at_append)+
  have e: "char_at ?buf (length pre + length w) = Some d" "d \<noteq> NUL" "NUL \<notin> set r"
    using char_at_append[of "pre @ w" "d # r @ NUL # rest"] assms(1) s by auto
  have "skip_spaces (?buf[length pre + length w := NUL]) (length pre + length w + 1) =
    Some (pre' @ dropWhile isspace r @ NUL # rest, length pre')"
    using skip_spaces_append[OF e(3), of "pre @ w @ [NUL]" rest] s by (simp add: list_update_append pre'_def)
  then show ?thesis using c e(1,2) skip_token_append[OF assms(1), of pre rest] assms(3)
    by (simp add: Let_def)
qed

lemma args_loop_words:
  "NUL \<notin> set s \<Longrightarrow> s = [] \<or> \<not> isspace (hd s) \<Longrightarrow>
   args_result (words left s) pre argv (args_loop left (pre @ s @ NUL # rest) (length pre) argv) (length s + 1 + length rest)"
proof (induction left arbitrary: s pre argv)
  case 0
  have "args_loop 0 (pre @ s @ NUL # rest) (length pre) argv = Some (int (length argv), pre @ s @ NUL # rest, argv)"
    by (simp add: char_at_append)
  then show ?case by (simp add: args_result_def)
next
  case (Suc left)
  show ?case
  proof (cases "s = []")
    case True
    then show ?thesis by (simp add: char_at_append args_result_def)
  next
    case ne: False
    then have c: "char_at (pre @ s @ NUL # rest) (length pre) = Some (hd s)" "hd s \<noteq> NUL"
      using Suc.prems(1) by (cases s; auto simp: char_at_append)+
    consider "word s = None" | w where "word s = Some (w, [])" | w d r where "word s = Some (w, d # r)"
      by (cases "word s") (auto, metis neq_Nil_conv)
    then show ?thesis
    proof cases
      case 1
      then show ?thesis using c skip_token_append[OF Suc.prems(1), of pre rest] ne by (simp add: args_result_def)
    next
      case w: 2
      then have "word s = Some (s, [])" using word_split[OF w] by simp
      moreover from this have "words (Suc left) s = Some [s]" using ne by (cases left) simp_all
      ultimately show ?thesis
        using args_loop_last[OF Suc.prems(1) ne] c_string_append[OF Suc.prems(1), of pre rest]
        by (simp add: args_result_def)
    next
      case w: 3
      let ?r = "dropWhile isspace r" and ?k = "length (takeWhile isspace r)"
      let ?pre = "pre @ w @ NUL # replicate ?k NUL"
      have s: "s = w @ d # r" "isspace d" using word_split[OF w] by auto
      then have nul: "NUL \<notin> set w" "NUL \<notin> set ?r" using Suc.prems(1) set_dropWhileD by fastforce+
      have ih: "args_result (words left ?r) ?pre (argv @ [length pre])
        (args_loop left (?pre @ ?r @ NUL # rest) (length ?pre) (argv @ [length pre])) (length ?r + 1 + length rest)"
        by (rule Suc.IH) (use nul hd_dropWhile[of isspace r] in auto)
      have "?k + length ?r = length r" by (metis length_append takeWhile_dropWhile_id)
      then have len: "length s + 1 + length rest =
          length w + 1 + length (replicate ?k NUL) + (length ?r + 1 + length rest)"
        using s(1) by simp
      have ws: "words (Suc left) s = map_option ((#) w) (words left ?r)" using ne w s(2) by simp
      show ?thesis unfolding ws len args_loop_step[OF Suc.prems(1) ne w]
        by (rule args_result_Cons[OF ih nul(1)])
    qed
  qed
qed

text \<open>The buffer read by the reference and by the code: the words of the line are the texts the pointers
  of \<^verbatim>\<open>argv\<close> point at.\<close>

lemma setargs_words:
  assumes "NUL \<notin> set line"
  shows "\<exists>n buf argv. setargs (line @ NUL # rest) m = Some (n, buf, argv) \<and>
    length buf = length (line @ NUL # rest) \<and>
    (case words_of_line m line of
       None \<Rightarrow> n = -1
     | Some ts \<Rightarrow> n = int (length ts) \<and> map (c_string buf) argv = ts)"
proof -
  let ?k = "length (takeWhile isspace line)" and ?s = "dropWhile isspace line"
  have len: "?k + length ?s = length line" by (metis length_append takeWhile_dropWhile_id)
  have "NUL \<notin> set ?s" using assms set_dropWhileD by fastforce
  then have "args_result (words m ?s) (replicate ?k NUL) []
    (args_loop m (replicate ?k NUL @ ?s @ NUL # rest) (length (replicate ?k NUL)) []) (length ?s + 1 + length rest)"
    by (rule args_loop_words) (use hd_dropWhile[of isspace line] in auto)
  then have "args_result (words m ?s) (replicate ?k NUL) [] (setargs (line @ NUL # rest) m) (length ?s + 1 + length rest)"
    using skip_spaces_append[OF assms, of "[]" rest] by (simp add: setargs_def)
  then show ?thesis using len unfolding args_result_def words_of_line_def by (fastforce split: option.splits)
qed


subsection \<open>The interpreter on words\<close>

definition dispatch ::
  "textfw \<Rightarrow> string \<Rightarrow> string list option \<Rightarrow> ('c, 'p) console \<Rightarrow> (int \<times> ('c, 'p) console) option" where
  "dispatch W line ws st =
     (case ws of
        None \<Rightarrow> Some (-1, efiPrintf InvalidInput st)
      | Some [] \<Rightarrow> Some (-1, efiPrintf InvalidInput st)
      | Some (name # args) \<Rightarrow>
          (case find (\<lambda>current. name = token current) (consoleActions st) of
             None \<Rightarrow> Some (-1, efiPrintf (UnknownCommand line) st)
           | Some current \<Rightarrow>
               if int (length args) \<noteq> getParameterCount (parameterType current)
               then Some (-1, efiPrintf (IncorrectArgumentCount (int (length args)) (getParameterCount (parameterType current))) st)
               else handleActionWithParameter W current args st))"

lemma internal_dispatch:
  fixes st :: "('c, 'p) console"
  assumes W: "textfw_ok W" and buf: "length (handleBuffer st) = 101" and line: "NUL \<notin> set line" "length line \<le> 100"
  obtains b where "length b = 101"
    "handleConsoleLineInternal W line (int (length line)) st =
     dispatch W line (words_of_line 10 line) (st\<lparr>handleBuffer := b\<rparr>)"
proof -
  have n: "nat (fw_minI W (int (length line)) (int (length (handleBuffer st)) - 1)) = length line"
    using W line(2) buf by (simp add: textfw_ok_def)
  let ?in = "line @ NUL # drop (length line + 1) (handleBuffer st)"
  obtain n b argv where s: "setargs ?in 10 = Some (n, b, argv)" "length b = length ?in"
    "case words_of_line 10 line of None \<Rightarrow> n = -1
     | Some ts \<Rightarrow> n = int (length ts) \<and> map (c_string b) argv = ts"
    using setargs_words[OF line(1), of "drop (length line + 1) (handleBuffer st)" 10] by blast
  have len: "length b = 101" using s(2) buf line(2) by simp
  have "handleConsoleLineInternal W line (int (length line)) st =
     dispatch W line (words_of_line 10 line) (st\<lparr>handleBuffer := b\<rparr>)"
    using s(1,3) unfolding handleConsoleLineInternal_def n
    by (auto simp: Let_def dispatch_def arg_def strEqual_eq[abs_def] simp del: length_map
        split: option.splits list.splits)
  then show ?thesis using that len by blast
qed

text \<open>Reading the arguments prints at most a message.\<close>

definition same_but_printed :: "('c, 'p) console \<Rightarrow> ('c, 'p) console \<Rightarrow> bool" where
  "same_but_printed st st' \<longleftrightarrow> (\<exists>p. st' = st\<lparr>printed := p\<rparr>)"

lemma same_but_printed_refl [simp]: "same_but_printed st st"
  unfolding same_but_printed_def by (rule exI[of _ "printed st"]) simp

lemma same_but_printed_efiPrintf [simp]: "same_but_printed st (efiPrintf m st)"
  by (auto simp: same_but_printed_def efiPrintf_def)

lemma same_but_printed_trans: "same_but_printed a b \<Longrightarrow> same_but_printed b c \<Longrightarrow> same_but_printed a c"
  by (auto simp: same_but_printed_def)

lemma same_but_printed_fields:
  "same_but_printed st st' \<Longrightarrow> called st' = called st \<and> consoleActions st' = consoleActions st \<and>
     handleBuffer st' = handleBuffer st \<and> con_log st' = con_log st"
  by (auto simp: same_but_printed_def)

lemma get_ints_total:
  "i + n \<le> length argv \<Longrightarrow> \<exists>r st'. get_ints W argv i n st = Some (r, st') \<and> same_but_printed st st'"
proof (induction n arbitrary: i st)
  case (Suc n)
  from Suc.IH[of "i + 1" st] Suc.prems obtain r st' where
    "get_ints W argv (i + 1) n st = Some (r, st')" "same_but_printed st st'" by auto
  then show ?case using Suc.prems by (auto simp: arg_def Let_def)
qed simp

lemma get_floats_total:
  "i + n \<le> length argv \<Longrightarrow> \<exists>r st'. get_floats W argv i n st = Some (r, st') \<and> same_but_printed st st'"
proof (induction n arbitrary: i st)
  case (Suc n)
  from Suc.IH[of "i + 1" st] Suc.prems obtain r st' where
    "get_floats W argv (i + 1) n st = Some (r, st')" "same_but_printed st st'" by auto
  then show ?case using Suc.prems by (auto simp: arg_def Let_def)
qed simp

lemma those_Some: "(\<And>x. x \<in> set xs \<Longrightarrow> f x = Some (g x)) \<Longrightarrow> those (map f xs) = Some (map g xs)"
  by (induction xs) auto

lemma string_args_all: "n = length argv \<Longrightarrow> string_args argv n = Some (map ArgString argv)"
proof -
  have "those (map (\<lambda>i. map_option ArgString (arg argv i)) [0..<length argv]) =
      Some (map (\<lambda>i. ArgString (argv ! i)) [0..<length argv])"
    by (rule those_Some) (simp add: arg_def)
  also have "map (\<lambda>i. ArgString (argv ! i)) [0..<length argv] = map ArgString argv"
    by (rule nth_equalityI) simp_all
  finally show "n = length argv \<Longrightarrow> string_args argv n = Some (map ArgString argv)" by (simp add: string_args_def)
qed

lemma call_fn_fields:
  "called (call_fn cb args st) = called st @ [(cb, args)]" "consoleActions (call_fn cb args st) = consoleActions st"
  "handleBuffer (call_fn cb args st) = handleBuffer st" "con_log (call_fn cb args st) = con_log st"
proof -
  have folded: "\<forall>xs st. same_but_printed st (fold (\<lambda>a st. efiPrintf (f a) st) xs st)" for f :: "('c, 'p) TokenCallback \<Rightarrow> 'p console_message"
  proof
    fix xs
    show "\<forall>st. same_but_printed st (fold (\<lambda>a st. efiPrintf (f a) st) xs st)"
      by (induction xs) (auto intro: same_but_printed_trans[OF same_but_printed_efiPrintf])
  qed
  have printed_only: "same_but_printed st (helpCommand st)" for st :: "('c, 'p) console"
    unfolding helpCommand_def Let_def
    by (rule same_but_printed_trans[OF same_but_printed_trans[OF same_but_printed_efiPrintf] same_but_printed_efiPrintf])
      (rule folded[rule_format])
  have "same_but_printed (st\<lparr>called := called st @ [(cb, args)]\<rparr>) (call_fn cb args st)"
    using printed_only by (auto simp: call_fn_def echo_def Let_def split: callback.splits list.splits argument.splits)
  from same_but_printed_fields[OF this] show
    "called (call_fn cb args st) = called st @ [(cb, args)]" "consoleActions (call_fn cb args st) = consoleActions st"
    "handleBuffer (call_fn cb args st) = handleBuffer st" "con_log (call_fn cb args st) = con_log st"
    by simp_all
qed

text \<open>The result of a command: refused with a message, or one call.\<close>

definition refused_or_called ::
  "('c, 'p) TokenCallback \<Rightarrow> ('c, 'p) console \<Rightarrow> (int \<times> ('c, 'p) console) option \<Rightarrow> bool" where
  "refused_or_called cur st r \<longleftrightarrow>
     (\<exists>st'. same_but_printed st st' \<and>
        (r = Some (-1, st') \<or> (\<exists>args. r = Some (0, call_fn (callback_fn cur) args st'))))"

lemma refused_or_called_run:
  "same_but_printed st st' \<Longrightarrow> refused_or_called cur st (Some (run_action cur args par st'))"
  by (auto simp: refused_or_called_def run_action_def split: option.split)

lemma refused_or_called_ints:
  "n \<le> length argv \<Longrightarrow> refused_or_called cur st
     (Option.bind (get_ints W argv 0 n st) (\<lambda>(r, st). Some (run_action cur (f r) par st)))"
  using get_ints_total[of 0 n argv W st] refused_or_called_run by fastforce

lemma refused_or_called_floats:
  "i + n \<le> length argv \<Longrightarrow> same_but_printed st st' \<Longrightarrow> refused_or_called cur st
     (Option.bind (get_floats W argv i n st') (\<lambda>(r, st). Some (run_action cur (f r) par st)))"
  using get_floats_total[of i n argv W st'] refused_or_called_run same_but_printed_trans by fastforce

lemma refused_or_called_int_float:
  "length argv = 2 \<Longrightarrow> refused_or_called cur st
     (Option.bind (get_ints W argv 0 1 st) (\<lambda>(r, st). case r of None \<Rightarrow> Some (-1, st)
        | Some v \<Rightarrow> Option.bind (get_floats W argv 1 1 st) (\<lambda>(r, st). Some (run_action cur (f v r) par st))))"
  using get_ints_total[of 0 1 argv W st] refused_or_called_floats[of 1 1 argv st]
  by (fastforce simp: refused_or_called_def split: option.splits)

lemma refused_or_called_unsupported: "refused_or_called cur st (Some (-1, efiPrintf m st))"
  by (auto simp: refused_or_called_def)

lemma action_total:
  assumes "int (length args) = getParameterCount (parameterType cur)"
  shows "refused_or_called cur st (handleActionWithParameter W cur args st)"
  using assms
  by (cases "parameterType cur")
    (simp_all add: handleActionWithParameter_def getParameterCount_def string_args_all refused_or_called_run
      refused_or_called_ints refused_or_called_floats refused_or_called_int_float refused_or_called_unsupported
      Let_def del: get_ints.simps get_floats.simps One_nat_def)


subsection \<open>Every line is answered\<close>

lemma refused_or_called_fields:
  assumes "refused_or_called cur st r"
  obtains k st' where "r = Some (k, st')" "consoleActions st' = consoleActions st" "handleBuffer st' = handleBuffer st"
    "con_log st' = con_log st"
    "k < 0 \<and> called st' = called st \<or> k = 0 \<and> (\<exists>args. called st' = called st @ [(callback_fn cur, args)])"
proof -
  from assms obtain st0 where "same_but_printed st st0"
      "r = Some (-1, st0) \<or> (\<exists>args. r = Some (0, call_fn (callback_fn cur) args st0))"
    unfolding refused_or_called_def by blast
  then show ?thesis using that same_but_printed_fields[of st st0] by (auto simp: call_fn_fields)
qed

lemma dispatch_answers:
  obtains k st' where "dispatch W line ws st = Some (k, st')" "consoleActions st' = consoleActions st"
    "handleBuffer st' = handleBuffer st" "con_log st' = con_log st"
    "k < 0 \<and> called st' = called st \<or>
     k = 0 \<and> (\<exists>cur args. cur \<in> set (consoleActions st) \<and> called st' = called st @ [(callback_fn cur, args)])"
proof (cases "\<exists>name args cur. ws = Some (name # args) \<and> find (\<lambda>c. name = token c) (consoleActions st) = Some cur \<and>
    int (length args) = getParameterCount (parameterType cur)")
  case True
  then obtain name args cur where w: "ws = Some (name # args)" "find (\<lambda>c. name = token c) (consoleActions st) = Some cur"
    "int (length args) = getParameterCount (parameterType cur)" by blast
  have "cur \<in> set (consoleActions st)" using w(2) by (auto simp: find_Some_iff)
  moreover have "dispatch W line ws st = handleActionWithParameter W cur args st" using w by (simp add: dispatch_def)
  ultimately show ?thesis using refused_or_called_fields[OF action_total[OF w(3), of st W]] that by metis
next
  case False
  then have "\<exists>m. dispatch W line ws st = Some (-1, efiPrintf m st)"
    by (auto simp: dispatch_def split: option.splits list.splits)
  then obtain m where "dispatch W line ws st = Some (-1, efiPrintf m st)" by blast
  then show ?thesis using that[of "-1" "efiPrintf m st"] by (simp add: efiPrintf_def)
qed

text \<open>The shape of the answer to a line that is not too long.\<close>

lemma handleConsoleLine_dispatch:
  fixes st :: "('c, 'p) console"
  assumes "textfw_ok W" "length (handleBuffer st) = 101" "NUL \<notin> set line" "length line \<le> 100"
  obtains b where "length b = 101"
    "handleConsoleLine W (Some line) st =
      (case dispatch W line (words_of_line 10 line) (st\<lparr>handleBuffer := b\<rparr>) of
         None \<Rightarrow> None
       | Some (k, st) \<Rightarrow> Some (efiPrintf (if k < 0 then FailedToHandle line else Confirmation line (length line)) st))"
proof -
  obtain b where b: "length b = 101" "handleConsoleLineInternal W line (int (length line)) st =
     dispatch W line (words_of_line 10 line) (st\<lparr>handleBuffer := b\<rparr>)"
    using internal_dispatch[OF assms] by blast
  have "handleConsoleLine W (Some line) st =
      (case dispatch W line (words_of_line 10 line) (st\<lparr>handleBuffer := b\<rparr>) of
         None \<Rightarrow> None
       | Some (k, st) \<Rightarrow> Some (efiPrintf (if k < 0 then FailedToHandle line else Confirmation line (length line)) st))"
    using assms(4) b(2) by (auto simp: handleConsoleLine_def Let_def split: option.splits)
  then show ?thesis using that b(1) by blast
qed

lemma efiPrintf_fields [simp]:
  "called (efiPrintf m st) = called st" "consoleActions (efiPrintf m st) = consoleActions st"
  "handleBuffer (efiPrintf m st) = handleBuffer st" "con_log (efiPrintf m st) = con_log st"
  "printed (efiPrintf m st) = printed st @ [m]"
  by (simp_all add: efiPrintf_def)

lemma console_answers:
  assumes "textfw_ok W" "length (handleBuffer st) = 101" "NUL \<notin> set line"
  shows "\<exists>st'. handleConsoleLine W (Some line) st = Some st' \<and> length (handleBuffer st') = 101 \<and>
    consoleActions st' = consoleActions st \<and> con_log st' = con_log st \<and>
    (if last (printed st') = Confirmation line (length line)
     then \<exists>cur args. cur \<in> set (consoleActions st) \<and> called st' = called st @ [(callback_fn cur, args)]
     else called st' = called st)"
proof (cases "length line \<le> 100")
  case False
  then show ?thesis using assms(2) by (simp add: handleConsoleLine_def)
next
  case True
  obtain b where b: "length b = 101" "handleConsoleLine W (Some line) st =
      (case dispatch W line (words_of_line 10 line) (st\<lparr>handleBuffer := b\<rparr>) of
         None \<Rightarrow> None
       | Some (k, st) \<Rightarrow> Some (efiPrintf (if k < 0 then FailedToHandle line else Confirmation line (length line)) st))"
    by (rule handleConsoleLine_dispatch[OF assms True])
  show ?thesis
    by (rule dispatch_answers[of W line "words_of_line 10 line" "st\<lparr>handleBuffer := b\<rparr>"])
      (use b in auto)
qed

text \<open>C29: Whatever text comes in, the interpreter returns without reading outside of its buffer and without
  using an argument that was not given, keeps the registry and the size of its buffer, and runs at most one
  callback, one that is registered; it confirms the line exactly when it ran one.\<close>

theorem console_answers_every_line:
  assumes "textfw_ok W" "length (handleBuffer st) = 101" "NUL \<notin> set line"
  shows "\<exists>st'. handleConsoleLine W (Some line) st = Some st' \<and> length (handleBuffer st') = 101 \<and>
    consoleActions st' = consoleActions st \<and> con_log st' = con_log st \<and>
    (if last (printed st') = Confirmation line (length line)
     then \<exists>cur args. cur \<in> set (consoleActions st) \<and> called st' = called st @ [(callback_fn cur, args)]
     else called st' = called st)"
  by (rule console_answers[OF assms])

subsection \<open>Words that arrive\<close>

definition plain_word :: "string \<Rightarrow> bool" where
  "plain_word w \<longleftrightarrow> w \<noteq> [] \<and> (\<forall>c \<in> set w. \<not> isspace c \<and> c \<noteq> QUOTE_CHAR \<and> c \<noteq> NUL)"

fun join_words :: "string list \<Rightarrow> string" where
  "join_words [] = []"
| "join_words [w] = w"
| "join_words (w # v # ws) = w @ SPACE_CHAR # join_words (v # ws)"

lemma word_plain:
  "\<forall>c \<in> set w. \<not> isspace c \<and> c \<noteq> QUOTE_CHAR \<Longrightarrow> s = [] \<or> isspace (hd s) \<Longrightarrow> word (w @ s) = Some (w, s)"
  by (induction w) (cases s; auto)+

lemma plain_no_space: "plain_word w \<Longrightarrow> dropWhile isspace (w @ s) = w @ s \<and> w @ s \<noteq> []"
  by (cases w) (auto simp: plain_word_def)

lemma join_words_hd: "ws \<noteq> [] \<Longrightarrow> \<exists>s. join_words ws = hd ws @ s"
  by (cases ws rule: join_words.cases) auto

lemma words_join:
  "\<forall>w \<in> set ws. plain_word w \<Longrightarrow> length ws \<le> n \<Longrightarrow> words n (join_words ws) = Some ws"
proof (induction ws arbitrary: n rule: join_words.induct)
  case (1 n)
  then show ?case by (cases n) simp_all
next
  case (2 w n)
  then obtain m where n: "n = Suc m" by (cases n) auto
  have "word w = Some (w, [])" using word_plain[of w "[]"] 2 by (simp add: plain_word_def)
  then show ?case using 2 n by (cases m) (auto simp: plain_word_def)
next
  case (3 w v ws n)
  then obtain m where n: "n = Suc m" by (cases n) auto
  have "word (w @ SPACE_CHAR # join_words (v # ws)) = Some (w, SPACE_CHAR # join_words (v # ws))"
    using 3 by (intro word_plain) (auto simp: plain_word_def isspace_def)
  moreover have "dropWhile isspace (SPACE_CHAR # join_words (v # ws)) = join_words (v # ws)"
    using join_words_hd[of "v # ws"] plain_no_space[of v] 3 by (auto simp: isspace_def)
  ultimately show ?case using 3 n by simp
qed

lemma words_of_line_join:
  "\<forall>w \<in> set ws. plain_word w \<Longrightarrow> length ws \<le> n \<Longrightarrow> words_of_line n (join_words ws) = Some ws"
proof -
  assume a: "\<forall>w \<in> set ws. plain_word w" "length ws \<le> n"
  have "dropWhile isspace (join_words ws) = join_words ws"
    using join_words_hd[of ws] plain_no_space[of "hd ws"] a(1) by (cases ws) auto
  then show ?thesis using words_join[OF a] by (simp add: words_of_line_def)
qed

lemma join_words_no_NUL: "\<forall>w \<in> set ws. plain_word w \<Longrightarrow> NUL \<notin> set (join_words ws)"
  by (induction ws rule: join_words.induct) (auto simp: plain_word_def)


text \<open>A line of plain words with a registered name and the right number of words.\<close>

lemma handle_words:
  fixes st :: "('c, 'p) console"
  assumes W: "textfw_ok W" "length (handleBuffer st) = 101"
    and words: "\<forall>w \<in> set (name # ws). plain_word w" "length (join_words (name # ws)) \<le> 100" "length ws < 10"
    and cur: "find (\<lambda>a. name = token a) (consoleActions st) = Some cur"
      "int (length ws) = getParameterCount (parameterType cur)"
  obtains b where "length b = 101"
    "handleConsoleLine W (Some (join_words (name # ws))) st =
      (case handleActionWithParameter W cur ws (st\<lparr>handleBuffer := b\<rparr>) of
         None \<Rightarrow> None
       | Some (k, st) \<Rightarrow> Some (efiPrintf (if k < 0 then FailedToHandle (join_words (name # ws))
             else Confirmation (join_words (name # ws)) (length (join_words (name # ws)))) st))"
proof -
  let ?line = "join_words (name # ws)"
  obtain b where b: "length b = 101" "handleConsoleLine W (Some ?line) st =
      (case dispatch W ?line (words_of_line 10 ?line) (st\<lparr>handleBuffer := b\<rparr>) of
         None \<Rightarrow> None
       | Some (k, st) \<Rightarrow> Some (efiPrintf (if k < 0 then FailedToHandle ?line else Confirmation ?line (length ?line)) st))"
    by (rule handleConsoleLine_dispatch[OF W join_words_no_NUL[OF words(1)] words(2)])
  have "words_of_line 10 ?line = Some (name # ws)" by (rule words_of_line_join) (use words in auto)
  then have "dispatch W ?line (words_of_line 10 ?line) (st\<lparr>handleBuffer := b\<rparr>) =
    handleActionWithParameter W cur ws (st\<lparr>handleBuffer := b\<rparr>)"
    using cur by (simp add: dispatch_def)
  then show ?thesis using that[OF b(1)] b(2) by simp
qed

text \<open>C30: A line of words separated by spaces whose first word is the name of a text command with as many
  parameters runs the callback of the first action registered under the name with exactly the words, and
  confirms the line.\<close>

theorem words_reach_callback:
  assumes "textfw_ok W" "length (handleBuffer st) = 101"
    and "\<forall>w \<in> set (name # ws). plain_word w" "length (join_words (name # ws)) \<le> 100"
    and "find (\<lambda>a. name = token a) (consoleActions st) = Some cur"
      "parameterType cur \<in> {STRING_PARAMETER, STRING2_PARAMETER, STRING3_PARAMETER, STRING5_PARAMETER}"
      "int (length ws) = getParameterCount (parameterType cur)"
  shows "\<exists>st'. handleConsoleLine W (Some (join_words (name # ws))) st = Some st' \<and>
    called st' = called st @ [(callback_fn cur, map ArgString ws)] \<and>
    last (printed st') = Confirmation (join_words (name # ws)) (length (join_words (name # ws)))"
proof -
  have few: "length ws < 10" using assms(6,7) by (auto simp: getParameterCount_def)
  have run: "handleActionWithParameter W cur ws st = Some (0, call_fn (callback_fn cur) (map ArgString ws) st)" for st
    using assms(6,7)
    by (auto simp: handleActionWithParameter_def run_action_def getParameterCount_def Let_def string_args_all)
  show ?thesis
    by (rule handle_words[OF assms(1-4) few assms(5,7)]) (simp add: run call_fn_fields)
qed

lemma plain_digits: "s \<noteq> [] \<Longrightarrow> \<forall>c \<in> set s. is_digit c \<Longrightarrow> plain_word s \<and> plain_word (CHR ''-'' # s)"
  by (auto simp: plain_word_def is_digit_def isspace_def)

text \<open>C31: An integer printed by \<^verbatim>\<open>itoa10\<close> and sent as the argument of an integer command arrives at its
  callback as the same integer, for all 32-bit integers but the smallest and the two that \<^verbatim>\<open>atoi\<close> uses for
  errors.\<close>

theorem integer_command_roundtrip:
  assumes "textfw_ok W" "length (handleBuffer st) = 101" "plain_word name" "length name \<le> 88"
    and "find (\<lambda>a. name = token a) (consoleActions st) = Some cur" "parameterType cur = ONE_PARAMETER"
    and "- (2 ^ 31) < sint num" "\<bar>sint num\<bar> \<noteq> ATOI_ERROR_CODE"
  shows "\<exists>s st'. itoa10 num = Some s \<and> handleConsoleLine W (Some (name @ SPACE_CHAR # s)) st = Some st' \<and>
    called st' = called st @ [(callback_fn cur, [ArgInt (sint num)])]"
proof -
  obtain s where s: "itoa10 num = Some s" "length s \<le> 11" "plain_word s" "atoi W s = sint num"
    using itoa10_reads_back[OF assms(1,7)] plain_digits by metis
  have run: "handleActionWithParameter W cur [s] st = Some (0, call_fn (callback_fn cur) [ArgInt (sint num)] st)" for st
    using assms(1,6,8) s(4)
    by (simp add: handleActionWithParameter_def run_action_def Let_def arg_def textfw_ok_def)
  show ?thesis
    by (rule handle_words[OF assms(1,2), of name "[s]" cur])
      (use assms(3-6) s run in \<open>auto simp: getParameterCount_def call_fn_fields\<close>)
qed

text \<open>C32: An action of one of four types (three of them have a registering function, \<^verbatim>\<open>FLOAT_PARAMETER_P\<close> has
  none) is never run: for \<^verbatim>\<open>addConsoleActionNANF\<close> and
  \<^verbatim>\<open>addConsoleActionSP\<close> no number of arguments is right, and two integers with a pointer have no case. A
  line with its name fails whatever follows.\<close>

theorem unrunnable_actions:
  assumes "textfw_ok W" "length (handleBuffer st) = 101" "NUL \<notin> set line" "length line \<le> 100"
    and "words_of_line 10 line = Some (name # args)"
    and "find (\<lambda>a. name = token a) (consoleActions st) = Some cur"
      "parameterType cur \<in> {FLOAT_PARAMETER_NAN_ALLOWED, STRING_PARAMETER_P, FLOAT_PARAMETER_P, TWO_INTS_PARAMETER_P}"
  shows "\<exists>st'. handleConsoleLine W (Some line) st = Some st' \<and> called st' = called st \<and>
    last (printed st') = FailedToHandle line"
proof (rule handleConsoleLine_dispatch[OF assms(1-4)])
  fix b
  assume b: "handleConsoleLine W (Some line) st =
      (case dispatch W line (words_of_line 10 line) (st\<lparr>handleBuffer := b\<rparr>) of
         None \<Rightarrow> None
       | Some (k, st) \<Rightarrow> Some (efiPrintf (if k < 0 then FailedToHandle line else Confirmation line (length line)) st))"
  have "\<exists>m. dispatch W line (words_of_line 10 line) (st\<lparr>handleBuffer := b\<rparr>) =
      Some (-1, efiPrintf m (st\<lparr>handleBuffer := b\<rparr>))"
    using assms(5-7) by (auto simp: dispatch_def getParameterCount_def handleActionWithParameter_def Let_def)
  then show ?thesis using b by auto
qed

text \<open>C28: The splitting of the line in place gives the words of the line: the count, or -1 for a missing
  quote, and pointers at the words, in a buffer of the same size. It never reads behind the terminating
  zero.\<close>

theorem setargs_is_word_split:
  assumes "NUL \<notin> set line"
  shows "\<exists>n buf argv. setargs (line @ NUL # rest) m = Some (n, buf, argv) \<and>
    length buf = length (line @ NUL # rest) \<and>
    (case words_of_line m line of
       None \<Rightarrow> n = -1
     | Some ts \<Rightarrow> n = int (length ts) \<and> map (c_string buf) argv = ts)"
  by (rule setargs_words[OF assms])

subsection \<open>Concrete runs\<close>

definition demo_console :: "(nat, unit) console" where
  "demo_console =
     doAddAction ''set'' STRING2_PARAMETER (Callback 1) ()
       (doAddAction ''gain'' FLOAT_PARAMETER_NAN_ALLOWED (Callback 2) ()
         (initConsoleLogic () \<lparr>consoleActions = [], handleBuffer = replicate 101 NUL, called = [], printed = [], con_log = []\<rparr>))"

lemma demo_console_fields:
  "length (handleBuffer demo_console) = 101" "called demo_console = []"
  "find (\<lambda>a. ''set'' = token a) (consoleActions demo_console) =
     Some \<lparr>token = ''set'', parameterType = STRING2_PARAMETER, callback_fn = Callback 1, param = ()\<rparr>"
  "find (\<lambda>a. ''echo'' = token a) (consoleActions demo_console) =
     Some \<lparr>token = ''echo'', parameterType = ONE_PARAMETER, callback_fn = Echo, param = ()\<rparr>"
  "find (\<lambda>a. ''gain'' = token a) (consoleActions demo_console) =
     Some \<lparr>token = ''gain'', parameterType = FLOAT_PARAMETER_NAN_ALLOWED, callback_fn = Callback 2, param = ()\<rparr>"
  by (simp_all add: demo_console_def initConsoleLogic_def doAddAction_def isupper_def con_error_def Let_def)

lemma console_answers_every_line_witness:
  "\<exists>st'. handleConsoleLine textfw_example (Some ''echo 5'') demo_console = Some st' \<and> length (handleBuffer st') = 101 \<and>
    consoleActions st' = consoleActions demo_console \<and> con_log st' = con_log demo_console \<and>
    (if last (printed st') = Confirmation ''echo 5'' (length ''echo 5'')
     then \<exists>cur args. cur \<in> set (consoleActions demo_console) \<and> called st' = called demo_console @ [(callback_fn cur, args)]
     else called st' = called demo_console)"
  by (rule console_answers_every_line[OF textfw_example_ok demo_console_fields(1)]) simp

lemma words_reach_callback_witness:
  "\<exists>st'. handleConsoleLine textfw_example (Some ''set fuel 7'') demo_console = Some st' \<and>
     called st' = [(Callback 1, [ArgString ''fuel'', ArgString ''7''])]"
  using words_reach_callback[OF textfw_example_ok demo_console_fields(1), of "''set''" "[''fuel'', ''7'']"]
  by (auto simp: demo_console_fields plain_word_def isspace_def getParameterCount_def)

lemma integer_command_roundtrip_witness:
  "\<exists>s st'. itoa10 (-75) = Some s \<and> handleConsoleLine textfw_example (Some (''echo'' @ SPACE_CHAR # s)) demo_console = Some st' \<and>
    called st' = called demo_console @ [(Echo, [ArgInt (sint (-75 :: 32 word))])]"
  using integer_command_roundtrip[OF textfw_example_ok demo_console_fields(1), of "''echo''" _ "-75"]
  by (auto simp: demo_console_fields plain_word_def isspace_def)

lemma unrunnable_actions_witness:
  "\<exists>st'. handleConsoleLine textfw_example (Some ''gain 1.5'') demo_console = Some st' \<and> called st' = called demo_console \<and>
    last (printed st') = FailedToHandle ''gain 1.5''"
proof (rule unrunnable_actions[OF textfw_example_ok demo_console_fields(1)])
  show "words_of_line 10 ''gain 1.5'' = Some (''gain'' # [''1.5''])"
    by (simp add: words_of_line_def isspace_def numeral_eq_Suc)
qed (simp add: demo_console_fields)+

lemma setargs_is_word_split_witness:
  "\<exists>n buf argv. setargs (''set \"a b\" 7'' @ NUL # ''junk'') 10 = Some (n, buf, argv) \<and>
    length buf = length (''set \"a b\" 7'' @ NUL # ''junk'') \<and>
    (case words_of_line 10 ''set \"a b\" 7'' of
       None \<Rightarrow> n = -1
     | Some ts \<Rightarrow> n = int (length ts) \<and> map (c_string buf) argv = ts)"
  by (rule setargs_is_word_split) simp

end
