(* ===== verification/Text_Log.thy ===== *)
theory Text_Log
  imports Efi_Text
begin

text \<open>
  \<^verbatim>\<open>util/loggingcentral.cpp\<close> and \<^verbatim>\<open>util/datalogging.cpp\<close>: the buffers of text output. Lines go to the write buffer;
  the tuning protocol swaps it with the read buffer and sends that one. The queues of free and filled line
  buffers belong to ChibiOS. \<^verbatim>\<open>chvsnprintf\<close> is a parameter: the text it would print without a limit.
\<close>

abbreviation "CUSTOM_LOGGING_BUFFER_OVERFLOW \<equiv> ObdCode 6044"
abbreviation "ERROR_LOGGING_SIZE_CALC \<equiv> ObdCode 6534"
abbreviation "CUSTOM_APPEND_NULL \<equiv> ObdCode 6602"

subsection \<open>LogBuffer\<close>

text \<open>The size of the buffer is the template parameter \<^verbatim>\<open>TBufferSize\<close>.\<close>

record LogBuffer =
  m_buffer :: "char list"
  m_writePtr :: nat

definition mem_write :: "nat \<Rightarrow> 'a list \<Rightarrow> 'a list \<Rightarrow> 'a list" where
  "mem_write p xs buf = take p buf @ xs @ drop (p + length xs) buf"

definition log_length :: "LogBuffer \<Rightarrow> nat" where
  "log_length b = m_writePtr b"

definition log_reset :: "LogBuffer \<Rightarrow> LogBuffer" where
  "log_reset b = b\<lparr>m_writePtr := 0, m_buffer := (m_buffer b)[0 := NUL]\<rparr>"

definition log_get :: "LogBuffer \<Rightarrow> string" where
  "log_get b = c_string (m_buffer b) 0"

text \<open>The space left is computed in \<^verbatim>\<open>size_t\<close> and passed to \<^verbatim>\<open>minI\<close> as an \<^verbatim>\<open>int\<close>.\<close>

definition writeInternal :: "textfw \<Rightarrow> string \<Rightarrow> LogBuffer \<Rightarrow> LogBuffer" where
  "writeInternal W buffer b =
     (let available = (of_nat (length (m_buffer b)) - of_nat (log_length b) - 1 :: 32 word);
          len = nat (fw_minI W (sint available) (int (length buffer)));
          b = b\<lparr>m_buffer := (m_buffer b)[m_writePtr b + len := NUL]\<rparr>;
          b = b\<lparr>m_buffer := mem_write (m_writePtr b) (take len buffer) (m_buffer b)\<rparr>
      in b\<lparr>m_writePtr := m_writePtr b + len\<rparr>)"

subsection \<open>The two output buffers\<close>

record text_output =
  writeBuffer :: LogBuffer
  readBuffer :: LogBuffer

definition write_line :: "textfw \<Rightarrow> string \<Rightarrow> text_output \<Rightarrow> text_output" where
  "write_line W line t = t\<lparr>writeBuffer := writeInternal W line (writeBuffer t)\<rparr>"

text \<open>The text to send, or nothing when its length is not the number of characters written.\<close>

definition swapOutputBuffers :: "text_output \<Rightarrow> (string option \<times> nat) \<times> diag_log \<times> text_output" where
  "swapOutputBuffers t =
     (let t = \<lparr>writeBuffer = readBuffer t, readBuffer = writeBuffer t\<rparr>;
          t = t\<lparr>writeBuffer := log_reset (writeBuffer t)\<rparr>;
          actualOutputBufferSize = log_length (readBuffer t);
          expectedOutputSize = length (log_get (readBuffer t))
      in if actualOutputBufferSize \<noteq> expectedOutputSize then ((None, actualOutputBufferSize), [FirmwareError ERROR_LOGGING_SIZE_CALC], t)
         else ((Some (log_get (readBuffer t)), actualOutputBufferSize), [], t))"

subsection \<open>Logging\<close>

record Logging =
  l_buffer :: "char list"
  m_linePointer :: nat

definition loggingSize :: "Logging \<Rightarrow> nat" where
  "loggingSize l = m_linePointer l"

definition remainingSize :: "Logging \<Rightarrow> 32 word" where
  "remainingSize l = of_nat (length (l_buffer l)) - of_nat (loggingSize l)"

definition validateBuffer :: "32 word \<Rightarrow> Logging \<Rightarrow> bool \<times> diag_log" where
  "validateBuffer extraLen l =
     (if remainingSize l < extraLen + 1 then (True, [Warning (CUSTOM_LOGGING_BUFFER_OVERFLOW)]) else (False, []))"

definition logging_append :: "string option \<Rightarrow> Logging \<Rightarrow> Logging \<times> diag_log" where
  "logging_append text l =
     (case text of
        None \<Rightarrow> (l, [FirmwareError CUSTOM_APPEND_NULL])
      | Some text \<Rightarrow>
          let extraLen = length text;
              (isCapacityProblem, lg) = validateBuffer (of_nat extraLen) l
          in if isCapacityProblem then (l, lg)
             else (l\<lparr>l_buffer := mem_write (m_linePointer l) (text @ [NUL]) (l_buffer l),
                     m_linePointer := m_linePointer l + extraLen\<rparr>, lg))"

text \<open>\<open>formatted\<close> is the whole text of the format; \<^verbatim>\<open>chvsnprintf\<close> writes what fits with a terminating zero and
  returns the length of the whole text.\<close>

definition appendPrintf :: "string \<Rightarrow> Logging \<Rightarrow> Logging" where
  "appendPrintf formatted l =
     (let available = unat (remainingSize l);
          shown = take (available - 1) formatted;
          l = (if available = 0 then l
               else l\<lparr>l_buffer := mem_write (m_linePointer l) (shown @ [NUL]) (l_buffer l)\<rparr>);
          written = length formatted;
          l = l\<lparr>m_linePointer := m_linePointer l + (if written > available then available else written)\<rparr>
      in l\<lparr>l_buffer := (l_buffer l)[length (l_buffer l) - 1 := NUL]\<rparr>)"

definition logging_reset :: "Logging \<Rightarrow> Logging" where
  "logging_reset l = l\<lparr>m_linePointer := 0, l_buffer := (l_buffer l)[0 := NUL]\<rparr>"

text \<open>\<open>scheduleLogging\<close> passes the text to the write buffer and empties the logging.\<close>

definition scheduleLogging :: "textfw \<Rightarrow> Logging \<Rightarrow> text_output \<Rightarrow> Logging \<times> text_output" where
  "scheduleLogging W l t = (logging_reset l, write_line W (c_string (l_buffer l) 0) t)"

subsection \<open>What the buffer holds\<close>

text \<open>The buffer holds a text without zeros, terminated, with the write position at its end.\<close>

definition holds :: "string \<Rightarrow> LogBuffer \<Rightarrow> bool" where
  "holds s b \<longleftrightarrow> (\<exists>rest. m_buffer b = s @ NUL # rest) \<and> NUL \<notin> set s \<and> m_writePtr b = length s"

lemma holds_get: "holds s b \<Longrightarrow> log_get b = s \<and> log_length b = length s \<and> length s < length (m_buffer b)"
  using c_string_append[of s "[]"] by (auto simp: holds_def log_get_def log_length_def)

lemma log_reset_holds: "m_buffer b \<noteq> [] \<Longrightarrow> holds [] (log_reset b) \<and> length (m_buffer (log_reset b)) = length (m_buffer b)"
  by (cases "m_buffer b") (auto simp: holds_def log_reset_def)

lemma drop_update_self: "n < length xs \<Longrightarrow> drop n (xs[n := v]) = v # drop (Suc n) xs"
  by (metis Cons_nth_drop_Suc drop_update_cancel length_list_update lessI nth_list_update_eq)

lemma writeInternal_holds:
  assumes W: "textfw_ok W" and h: "holds s b" and size: "length (m_buffer b) < 2 ^ 31" and line: "NUL \<notin> set line"
  shows "holds (take (length (m_buffer b) - 1) (s @ line)) (writeInternal W line b) \<and>
    length (m_buffer (writeInternal W line b)) = length (m_buffer b)"
proof -
  obtain rest where buf: "m_buffer b = s @ NUL # rest" and ptr: "m_writePtr b = length s" "NUL \<notin> set s"
    using h by (auto simp: holds_def)
  have "(of_nat (length (m_buffer b)) - of_nat (log_length b) - 1 :: 32 word) = of_nat (length rest)"
    using buf ptr by (simp add: log_length_def)
  moreover have "sint (of_nat (length rest) :: 32 word) = int (length rest)"
    using size buf by (simp add: signed_of_nat signed_take_bit_int_eq_self)
  ultimately have len: "nat (fw_minI W (sint (of_nat (length (m_buffer b)) - of_nat (log_length b) - 1 :: 32 word)) (int (length line)))
      = min (length rest) (length line)"
    using W by (simp add: textfw_ok_def flip: of_nat_min)
  let ?n = "min (length rest) (length line)"
  have new: "m_buffer (writeInternal W line b) = s @ take ?n line @ NUL # drop (Suc ?n) (NUL # rest)"
    "m_writePtr (writeInternal W line b) = length s + ?n"
    unfolding writeInternal_def len Let_def
    by (simp_all add: buf ptr mem_write_def list_update_append drop_update_self del: list_update.simps)
  then show ?thesis using buf line ptr by (auto simp: holds_def min_def dest: in_set_takeD)
qed


subsection \<open>What is sent\<close>

definition text_ok :: "nat \<Rightarrow> string \<Rightarrow> text_output \<Rightarrow> bool" where
  "text_ok n s t \<longleftrightarrow> holds s (writeBuffer t) \<and> length (m_buffer (writeBuffer t)) = n \<and>
     length (m_buffer (readBuffer t)) = n \<and> 0 < n \<and> n < 2 ^ 31"

lemma write_lines_ok:
  "textfw_ok W \<Longrightarrow> text_ok n s t \<Longrightarrow> \<forall>l \<in> set ls. NUL \<notin> set l \<Longrightarrow>
   text_ok n (take (n - 1) (s @ concat ls)) (fold (write_line W) ls t)"
proof (induction ls arbitrary: s t)
  case Nil
  then have "length s \<le> n - 1" using holds_get[of s "writeBuffer t"] by (auto simp: text_ok_def)
  then show ?case using Nil by simp
next
  case (Cons l ls)
  then have "text_ok n (take (n - 1) (s @ l)) (write_line W l t)"
    using writeInternal_holds[of W s "writeBuffer t" l] by (simp add: text_ok_def write_line_def)
  from Cons.IH[OF Cons.prems(1) this] Cons.prems(3)
  have "text_ok n (take (n - 1) (take (n - 1) (s @ l) @ concat ls)) (fold (write_line W) (l # ls) t)" by simp
  moreover have "take (n - 1) (take (n - 1) (s @ l) @ concat ls) = take (n - 1) (s @ concat (l # ls))"
    by (simp add: min_def)
  ultimately show ?case by simp
qed

lemma swap_ok:
  assumes "text_ok n s t"
  shows "\<exists>t'. swapOutputBuffers t = ((Some s, length s), [], t') \<and> text_ok n [] t'"
proof -
  have "m_buffer (readBuffer t) \<noteq> []" using assms by (auto simp: text_ok_def)
  from log_reset_holds[OF this] show ?thesis
    using assms holds_get[of s "writeBuffer t"] by (simp add: text_ok_def swapOutputBuffers_def Let_def)
qed

text \<open>C40: The text fetched by a swap is what was written since the last one, the lines one after the other,
  cut off one character before the end of the buffer; no message about its size is possible, and the next
  text starts empty.\<close>

theorem fetched_text_is_written_text:
  assumes "textfw_ok W" "text_ok n [] t" "\<forall>l \<in> set ls. NUL \<notin> set l"
  shows "\<exists>t'. swapOutputBuffers (fold (write_line W) ls t) =
      ((Some (take (n - 1) (concat ls)), min (n - 1) (length (concat ls))), [], t') \<and> text_ok n [] t'"
  using swap_ok[OF write_lines_ok[OF assms]] by (simp add: min.commute)

definition demo_text :: text_output where
  "demo_text =
     \<lparr>writeBuffer = \<lparr>m_buffer = replicate 6 NUL, m_writePtr = 0\<rparr>, readBuffer = \<lparr>m_buffer = replicate 6 NUL, m_writePtr = 0\<rparr>\<rparr>"

lemma demo_text_ok: "text_ok 6 [] demo_text"
proof -
  have "replicate 6 NUL = [] @ NUL # replicate 5 NUL" by (simp add: numeral_eq_Suc)
  then show ?thesis unfolding text_ok_def holds_def demo_text_def by auto
qed

lemma fetched_text_is_written_text_witness:
  "\<exists>t'. swapOutputBuffers (fold (write_line textfw_example) [''msg,'', ''on,''] demo_text) =
      ((Some (take (6 - 1) (concat [''msg,'', ''on,''])), min (6 - 1) (length (concat [''msg,'', ''on,'']))), [], t') \<and> text_ok 6 [] t'"
  by (rule fetched_text_is_written_text[OF textfw_example_ok demo_text_ok]) simp

text \<open>The writers of a \<^verbatim>\<open>Logging\<close> keep the position inside the buffer or right behind it.\<close>

definition logging_ok :: "Logging \<Rightarrow> bool" where
  "logging_ok l \<longleftrightarrow> 0 < length (l_buffer l) \<and> length (l_buffer l) < 2 ^ 31 \<and> m_linePointer l \<le> length (l_buffer l)"

lemma remainingSize_unat:
  assumes "logging_ok l"
  shows "unat (remainingSize l) = length (l_buffer l) - m_linePointer l"
proof -
  have "remainingSize l = of_nat (length (l_buffer l) - m_linePointer l)"
    using assms by (simp add: remainingSize_def loggingSize_def logging_ok_def of_nat_diff)
  moreover have "length (l_buffer l) - m_linePointer l < 2 ^ 32" using assms by (auto simp: logging_ok_def)
  ultimately show ?thesis by (simp add: unat_of_nat)
qed

lemma mem_write_length [simp]: "p + length xs \<le> length buf \<Longrightarrow> length (mem_write p xs buf) = length buf"
  by (simp add: mem_write_def)

lemma logging_reset_ok: "logging_ok l \<Longrightarrow> logging_ok (logging_reset l)"
  by (simp add: logging_ok_def logging_reset_def)

lemma appendPrintf_ok: "logging_ok l \<Longrightarrow> logging_ok (appendPrintf s l)"
proof -
  assume l: "logging_ok l"
  let ?a = "length (l_buffer l) - m_linePointer l"
  have "length (mem_write (m_linePointer l) (take (?a - 1) s @ [NUL]) (l_buffer l)) = length (l_buffer l)" if "?a \<noteq> 0"
    by (rule mem_write_length) (use l that in \<open>auto simp: logging_ok_def min_def\<close>)
  then show "logging_ok (appendPrintf s l)"
    using l by (auto simp: appendPrintf_def remainingSize_unat Let_def logging_ok_def simp del: length_greater_0_conv)
qed

end
