(* ===== verification/Tuner_Studio.thy ===== *)
theory Tuner_Studio
  imports Console_Line Text_Log Serial_Can
begin

text \<open>
  \<^verbatim>\<open>console/binary/tunerstudio.cpp\<close>, \<^verbatim>\<open>tunerstudio_commands.cpp\<close> and \<^verbatim>\<open>tunerstudio_io.cpp\<close>: the binary protocol of the
  tuning software, over any channel. A packet is its size, its payload and a checksum; the first byte of a
  request is the command. The configuration page is a list of bytes; its size, the signature, the live data
  and the checksum come from generated files and other modules and are parameters. What other modules are
  told to do is the list \<open>ts_events\<close>.
\<close>

abbreviation (input) BLOCKING_FACTOR :: "nat" where "BLOCKING_FACTOR \<equiv> 1300"
abbreviation (input) SCRATCH_SIZE :: "nat" where "SCRATCH_SIZE \<equiv> 1330"
abbreviation (input) CRC_VALUE_SIZE :: "nat" where "CRC_VALUE_SIZE \<equiv> 4"
abbreviation (input) TS_COMMUNICATION_TIMEOUT :: "nat" where "TS_COMMUNICATION_TIMEOUT \<equiv> 1000"
abbreviation (input) TS_COMMUNICATION_TIMEOUT_SHORT :: "nat" where "TS_COMMUNICATION_TIMEOUT_SHORT \<equiv> 10"
abbreviation (input) TS_RESPONSE_OK :: "byte" where "TS_RESPONSE_OK \<equiv> 0"
abbreviation (input) TS_RESPONSE_BURN_OK :: "byte" where "TS_RESPONSE_BURN_OK \<equiv> 4"
abbreviation (input) TS_RESPONSE_UNDERRUN :: "byte" where "TS_RESPONSE_UNDERRUN \<equiv> 0x80"
abbreviation (input) TS_RESPONSE_CRC_FAILURE :: "byte" where "TS_RESPONSE_CRC_FAILURE \<equiv> 0x82"
abbreviation (input) TS_RESPONSE_UNRECOGNIZED_COMMAND :: "byte" where "TS_RESPONSE_UNRECOGNIZED_COMMAND \<equiv> 0x83"
abbreviation (input) TS_RESPONSE_OUT_OF_RANGE :: "byte" where "TS_RESPONSE_OUT_OF_RANGE \<equiv> 0x84"

text \<open>The commands, by their characters.\<close>

abbreviation (input) TS_OUTPUT_COMMAND :: "byte" where "TS_OUTPUT_COMMAND \<equiv> 0x4F"
abbreviation (input) TS_HELLO_COMMAND :: "byte" where "TS_HELLO_COMMAND \<equiv> 0x53"
abbreviation (input) TS_QUERY_COMMAND :: "byte" where "TS_QUERY_COMMAND \<equiv> 0x51"
abbreviation (input) TS_CRC_CHECK_COMMAND :: "byte" where "TS_CRC_CHECK_COMMAND \<equiv> 0x6B"
abbreviation (input) TS_READ_COMMAND :: "byte" where "TS_READ_COMMAND \<equiv> 0x52"
abbreviation (input) TS_GET_TEXT :: "byte" where "TS_GET_TEXT \<equiv> 0x47"
abbreviation (input) TS_EXECUTE :: "byte" where "TS_EXECUTE \<equiv> 0x45"
abbreviation (input) TS_QUERY_BOOTLOADER :: "byte" where "TS_QUERY_BOOTLOADER \<equiv> 0x4C"
abbreviation (input) TS_PERF_TRACE_BEGIN :: "byte" where "TS_PERF_TRACE_BEGIN \<equiv> 0x5F"
abbreviation (input) TS_PERF_TRACE_GET_BUFFER :: "byte" where "TS_PERF_TRACE_GET_BUFFER \<equiv> 0x62"
abbreviation (input) TS_COMMAND_F :: "byte" where "TS_COMMAND_F \<equiv> 0x46"
abbreviation (input) TS_GET_FIRMWARE_VERSION :: "byte" where "TS_GET_FIRMWARE_VERSION \<equiv> 0x56"
abbreviation (input) TS_GET_CONFIG_ERROR :: "byte" where "TS_GET_CONFIG_ERROR \<equiv> 0x65"
abbreviation (input) TS_SINGLE_WRITE_COMMAND :: "byte" where "TS_SINGLE_WRITE_COMMAND \<equiv> 0x57"
abbreviation (input) TS_CHUNK_WRITE_COMMAND :: "byte" where "TS_CHUNK_WRITE_COMMAND \<equiv> 0x43"
abbreviation (input) TS_BURN_COMMAND :: "byte" where "TS_BURN_COMMAND \<equiv> 0x42"
abbreviation (input) TS_IO_TEST_COMMAND :: "byte" where "TS_IO_TEST_COMMAND \<equiv> 0x5A"
abbreviation (input) TS_SET_LOGGER_SWITCH :: "byte" where "TS_SET_LOGGER_SWITCH \<equiv> 0x6C"
abbreviation (input) TS_COMPOSITE_ENABLE :: "byte" where "TS_COMPOSITE_ENABLE \<equiv> 1"
abbreviation (input) TS_COMPOSITE_DISABLE :: "byte" where "TS_COMPOSITE_DISABLE \<equiv> 2"
abbreviation (input) TS_COMPOSITE_READ :: "byte" where "TS_COMPOSITE_READ \<equiv> 3"

subsection \<open>The channel and its surroundings\<close>

text \<open>The virtual functions of \<^verbatim>\<open>TsChannelBase\<close> that a transport implements; \<open>ts_readTimeout\<close> gives the bytes that
  arrived within the timeout in milliseconds.\<close>

record 'w ts_transport =
  ts_write :: "byte list \<Rightarrow> bool \<Rightarrow> 'w \<Rightarrow> 'w"
  ts_readTimeout :: "nat \<Rightarrow> nat \<Rightarrow> 'w \<Rightarrow> byte list \<times> 'w"
  ts_flush :: "'w \<Rightarrow> 'w"
  ts_isReady :: "'w \<Rightarrow> bool"

text \<open>What comes from elsewhere: generated sizes and texts, the live data, the checksum of \<^verbatim>\<open>libfirmware\<close>, the
  board's overrides of the configuration, the tooth logger, and the memory behind the scratch buffer.
  \<open>perf_trace\<close> is none when tracing is not compiled in.\<close>

record ts_env =
  TOTAL_CONFIG_SIZE :: nat
  TS_TOTAL_OUTPUT_SIZE :: nat
  ts_signature :: "byte list"
  TS_PROTOCOL :: "byte list"
  firmware_version :: "byte list"
  crc32inc :: "byte list \<Rightarrow> 32 word \<Rightarrow> 32 word"
  live_data :: "nat \<Rightarrow> nat \<Rightarrow> byte list"
  setBoardConfigOverrides :: "byte list \<Rightarrow> byte list"
  tooth_buffer :: "byte list option"
  perf_trace :: "byte list option"
  critical_error :: "byte list"
  bootloader_info :: byte
  overall_status :: "string list"
  memory_after :: "nat \<Rightarrow> byte"
  memory_at_null :: "nat \<Rightarrow> byte"
  textfw :: textfw

datatype ts_event =
    TunerStudioError
  | OnBurnRequest
  | ExecuteTSCommand nat nat
  | EnableToothLogger
  | DisableToothLogger
  | ReturnToothLoggerBuffer
  | PerfTraceEnable
  | Sleep nat

record tunerstudio_counters_s =
  queryCommandCounter :: int
  outputChannelsCommandCounter :: int
  readPageCommandsCounter :: int
  burnCommandCounter :: int
  writeValueCommandCounter :: int
  crc32CheckCommandCounter :: int
  writeChunkCommandCounter :: int
  errorCounter :: int
  totalCounter :: int
  textCommandCounter :: int

text \<open>A channel with the state its commands use. \<open>ts_port\<close> is the state of the transport.\<close>

record ('w, 'c, 'p) ts_state =
  scratchBuffer :: "byte list"
  in_sync :: bool
  ts_port :: 'w
  page :: "byte list"
  tsState :: tunerstudio_counters_s
  rebootForPresetPending :: bool
  ts_console :: "('c, 'p) console"
  ts_text :: text_output
  ts_events :: "ts_event list"
  ts_log :: diag_log

definition ts_event :: "ts_event \<Rightarrow> ('w, 'c, 'p) ts_state \<Rightarrow> ('w, 'c, 'p) ts_state" where
  "ts_event e st = st\<lparr>ts_events := ts_events st @ [e]\<rparr>"

definition tick :: "(tunerstudio_counters_s \<Rightarrow> tunerstudio_counters_s) \<Rightarrow> ('w, 'c, 'p) ts_state \<Rightarrow> ('w, 'c, 'p) ts_state" where
  "tick f st = st\<lparr>tsState := f (tsState st)\<rparr>"

subsection \<open>Sending packets\<close>

definition singleCrc :: "ts_env \<Rightarrow> byte list \<Rightarrow> 32 word" where
  "singleCrc E buf = crc32inc E buf 0"

text \<open>Words in the memory of the little-endian processor.\<close>

definition bytes16 :: "16 word \<Rightarrow> byte list" where
  "bytes16 w = [ucast w, ucast (drop_bit 8 w)]"

definition bytes32 :: "32 word \<Rightarrow> byte list" where
  "bytes32 w = [ucast w, ucast (drop_bit 8 w), ucast (drop_bit 16 w), ucast (drop_bit 24 w)]"

definition word16 :: "byte \<Rightarrow> byte \<Rightarrow> 16 word" where
  "word16 b0 b1 = ucast b0 OR push_bit 8 (ucast b1)"

definition word32 :: "byte list \<Rightarrow> 32 word" where
  "word32 bs = ucast (bs ! 0) OR push_bit 8 (ucast (bs ! 1)) OR push_bit 16 (ucast (bs ! 2)) OR push_bit 24 (ucast (bs ! 3))"

definition port_write :: "'w ts_transport \<Rightarrow> byte list \<Rightarrow> bool \<Rightarrow> ('w, 'c, 'p) ts_state \<Rightarrow> ('w, 'c, 'p) ts_state" where
  "port_write T bs isEndOfPacket st = st\<lparr>ts_port := ts_write T bs isEndOfPacket (ts_port st)\<rparr>"

definition port_flush :: "'w ts_transport \<Rightarrow> ('w, 'c, 'p) ts_state \<Rightarrow> ('w, 'c, 'p) ts_state" where
  "port_flush T st = st\<lparr>ts_port := ts_flush T (ts_port st)\<rparr>"

definition writeCrcPacketLocked ::
  "'w ts_transport \<Rightarrow> ts_env \<Rightarrow> byte \<Rightarrow> byte list \<Rightarrow> ('w, 'c, 'p) ts_state \<Rightarrow> ('w, 'c, 'p) ts_state" where
  "writeCrcPacketLocked T E responseCode buf st =
     (let headerBuffer = bytes16 (SWAP_UINT16 (of_nat (length buf + 1))) @ [responseCode];
          st = port_write T headerBuffer False st;
          st = (if buf \<noteq> [] then port_write T buf False st else st);
          crc = crc32inc E [responseCode] 0;
          crc = (if buf \<noteq> [] then crc32inc E buf crc else crc);
          st = port_write T (bytes32 (SWAP_UINT32 crc)) True st
      in port_flush T st)"

definition writeCrcResponse :: "'w ts_transport \<Rightarrow> ts_env \<Rightarrow> byte \<Rightarrow> ('w, 'c, 'p) ts_state \<Rightarrow> ('w, 'c, 'p) ts_state" where
  "writeCrcResponse T E responseCode st = writeCrcPacketLocked T E responseCode [] st"

definition copyAndWriteSmallCrcPacket ::
  "'w ts_transport \<Rightarrow> ts_env \<Rightarrow> byte list \<Rightarrow> ('w, 'c, 'p) ts_state \<Rightarrow> ('w, 'c, 'p) ts_state" where
  "copyAndWriteSmallCrcPacket T E buf st =
     (if length buf > BLOCKING_FACTOR + 7 then st\<lparr>ts_log := ts_log st @ [FirmwareError OBD_PCM_Processor_Fault]\<rparr>
      else
        let st = st\<lparr>scratchBuffer := mem_write 0 buf (scratchBuffer st)\<rparr>
        in writeCrcPacketLocked T E TS_RESPONSE_OK (take (length buf) (scratchBuffer st)) st)"

definition sendOkResponse :: "'w ts_transport \<Rightarrow> ts_env \<Rightarrow> ('w, 'c, 'p) ts_state \<Rightarrow> ('w, 'c, 'p) ts_state" where
  "sendOkResponse T E st = writeCrcResponse T E TS_RESPONSE_OK st"

definition sendErrorCode :: "'w ts_transport \<Rightarrow> ts_env \<Rightarrow> byte \<Rightarrow> ('w, 'c, 'p) ts_state \<Rightarrow> ('w, 'c, 'p) ts_state" where
  "sendErrorCode T E code st = writeCrcResponse T E code st"

definition tunerStudioError :: "('w, 'c, 'p) ts_state \<Rightarrow> ('w, 'c, 'p) ts_state" where
  "tunerStudioError st = ts_event TunerStudioError (tick (\<lambda>t. t\<lparr>errorCounter := errorCounter t + 1\<rparr>) st)"

subsection \<open>Commands on the configuration page\<close>

text \<open>Whether the range does not fit; the sum of two 16-bit numbers cannot wrap in \<^verbatim>\<open>size_t\<close>.\<close>

definition validateOffsetCount ::
  "'w ts_transport \<Rightarrow> ts_env \<Rightarrow> nat \<Rightarrow> nat \<Rightarrow> ('w, 'c, 'p) ts_state \<Rightarrow> bool \<times> ('w, 'c, 'p) ts_state" where
  "validateOffsetCount T E offset cnt st =
     (if offset + cnt > TOTAL_CONFIG_SIZE E
      then (True, sendErrorCode T E TS_RESPONSE_OUT_OF_RANGE (tunerStudioError st))
      else (False, st))"

text \<open>\<open>n\<close> bytes of the memory from \<open>p\<close> on in the scratch buffer. Reading behind the buffer is marked.\<close>

definition scratch_bytes :: "ts_env \<Rightarrow> nat \<Rightarrow> nat \<Rightarrow> byte list \<Rightarrow> byte list" where
  "scratch_bytes E p n buf =
     map (\<lambda>i. if i < length buf then buf ! i else memory_after E (i - length buf)) [p..<p + n]"

definition handleWriteChunkCommand ::
  "'w ts_transport \<Rightarrow> ts_env \<Rightarrow> nat \<Rightarrow> nat \<Rightarrow> nat \<Rightarrow> ('w, 'c, 'p) ts_state \<Rightarrow> ('w, 'c, 'p) ts_state" where
  "handleWriteChunkCommand T E offset cnt content st =
     (let st = tick (\<lambda>t. t\<lparr>writeChunkCommandCounter := writeChunkCommandCounter t + 1\<rparr>) st;
          (bad, st) = validateOffsetCount T E offset cnt st in
      if bad then st
      else
        let st = (if \<not> rebootForPresetPending st then
                    let st = (if content + cnt > length (scratchBuffer st)
                              then st\<lparr>ts_log := ts_log st @ [OutOfBounds]\<rparr> else st)
                    in st\<lparr>page := mem_write offset (scratch_bytes E content cnt (scratchBuffer st)) (page st)\<rparr>
                  else st);
            st = st\<lparr>page := setBoardConfigOverrides E (page st)\<rparr>
        in sendOkResponse T E st)"

definition handleCrc32Check ::
  "'w ts_transport \<Rightarrow> ts_env \<Rightarrow> nat \<Rightarrow> nat \<Rightarrow> ('w, 'c, 'p) ts_state \<Rightarrow> ('w, 'c, 'p) ts_state" where
  "handleCrc32Check T E offset cnt st =
     (let st = tick (\<lambda>t. t\<lparr>crc32CheckCommandCounter := crc32CheckCommandCounter t + 1\<rparr>) st;
          (bad, st) = validateOffsetCount T E offset cnt st in
      if bad then st
      else copyAndWriteSmallCrcPacket T E (bytes32 (SWAP_UINT32 (singleCrc E (take cnt (drop offset (page st)))))) st)"

definition handleWriteValueCommand ::
  "'w ts_transport \<Rightarrow> ts_env \<Rightarrow> nat \<Rightarrow> byte \<Rightarrow> ('w, 'c, 'p) ts_state \<Rightarrow> ('w, 'c, 'p) ts_state" where
  "handleWriteValueCommand T E offset value st =
     (let st = tick (\<lambda>t. t\<lparr>writeValueCommandCounter := writeValueCommandCounter t + 1\<rparr>) st;
          (bad, st) = validateOffsetCount T E offset 1 st in
      if bad then st
      else
        let st = (if \<not> rebootForPresetPending st then st\<lparr>page := (page st)[offset := value]\<rparr> else st)
        in st\<lparr>page := setBoardConfigOverrides E (page st)\<rparr>)"

definition handlePageReadCommand ::
  "'w ts_transport \<Rightarrow> ts_env \<Rightarrow> nat \<Rightarrow> nat \<Rightarrow> ('w, 'c, 'p) ts_state \<Rightarrow> ('w, 'c, 'p) ts_state" where
  "handlePageReadCommand T E offset cnt st =
     (let st = tick (\<lambda>t. t\<lparr>readPageCommandsCounter := readPageCommandsCounter t + 1\<rparr>) st in
      if rebootForPresetPending st then sendErrorCode T E TS_RESPONSE_UNRECOGNIZED_COMMAND st
      else
        let (bad, st) = validateOffsetCount T E offset cnt st in
        if bad then st else writeCrcPacketLocked T E TS_RESPONSE_OK (take cnt (drop offset (page st))) st)"

definition requestBurn :: "('w, 'c, 'p) ts_state \<Rightarrow> ('w, 'c, 'p) ts_state" where
  "requestBurn st = ts_event OnBurnRequest st"

definition handleBurnCommand :: "'w ts_transport \<Rightarrow> ts_env \<Rightarrow> ('w, 'c, 'p) ts_state \<Rightarrow> ('w, 'c, 'p) ts_state" where
  "handleBurnCommand T E st =
     (let st = tick (\<lambda>t. t\<lparr>burnCommandCounter := burnCommandCounter t + 1\<rparr>) st;
          st = (if \<not> rebootForPresetPending st then requestBurn st else st)
      in writeCrcResponse T E TS_RESPONSE_BURN_OK st)"

subsection \<open>Other commands\<close>

definition isKnownCommand :: "byte \<Rightarrow> bool" where
  "isKnownCommand command \<longleftrightarrow>
     command = TS_HELLO_COMMAND \<or> command = TS_READ_COMMAND \<or> command = TS_OUTPUT_COMMAND \<or>
     command = TS_BURN_COMMAND \<or> command = TS_SINGLE_WRITE_COMMAND \<or>
     command = TS_CHUNK_WRITE_COMMAND \<or> command = TS_EXECUTE \<or> command = TS_IO_TEST_COMMAND \<or>
     command = TS_SET_LOGGER_SWITCH \<or> command = TS_GET_TEXT \<or> command = TS_CRC_CHECK_COMMAND \<or>
     command = TS_GET_FIRMWARE_VERSION \<or> command = TS_PERF_TRACE_BEGIN \<or>
     command = TS_PERF_TRACE_GET_BUFFER \<or> command = TS_GET_CONFIG_ERROR \<or> command = TS_QUERY_BOOTLOADER"

datatype ts_response_format_e = TS_PLAIN | TS_CRC

definition handleQueryCommand ::
  "'w ts_transport \<Rightarrow> ts_env \<Rightarrow> ts_response_format_e \<Rightarrow> ('w, 'c, 'p) ts_state \<Rightarrow> ('w, 'c, 'p) ts_state" where
  "handleQueryCommand T E mode st =
     (let st = tick (\<lambda>t. t\<lparr>queryCommandCounter := queryCommandCounter t + 1\<rparr>) st;
          buffer = ts_signature E @ [0]
      in if mode = TS_CRC then copyAndWriteSmallCrcPacket T E buffer st
         else port_flush T (port_write T buffer True st))"

definition handlePlainCommand ::
  "'w ts_transport \<Rightarrow> ts_env \<Rightarrow> byte \<Rightarrow> ('w, 'c, 'p) ts_state \<Rightarrow> bool \<times> ('w, 'c, 'p) ts_state" where
  "handlePlainCommand T E command st =
     (if command = 0 then (False, st)
      else if command = TS_HELLO_COMMAND \<or> command = TS_QUERY_COMMAND then (True, handleQueryCommand T E TS_PLAIN st)
      else if command = TS_COMMAND_F then (True, port_flush T (port_write T (TS_PROTOCOL E) False st))
      else (False, st))"

definition cmdOutputChannels ::
  "'w ts_transport \<Rightarrow> ts_env \<Rightarrow> nat \<Rightarrow> nat \<Rightarrow> ('w, 'c, 'p) ts_state \<Rightarrow> ('w, 'c, 'p) ts_state" where
  "cmdOutputChannels T E offset cnt st =
     (if offset + cnt > TS_TOTAL_OUTPUT_SIZE E then sendErrorCode T E TS_RESPONSE_OUT_OF_RANGE st
      else
        let st = tick (\<lambda>t. t\<lparr>outputChannelsCommandCounter := outputChannelsCommandCounter t + 1\<rparr>) st;
            st = st\<lparr>scratchBuffer := mem_write 0 (live_data E offset cnt) (scratchBuffer st)\<rparr>
        in writeCrcPacketLocked T E TS_RESPONSE_OK (take cnt (scratchBuffer st)) st)"

definition handleGetVersion :: "'w ts_transport \<Rightarrow> ts_env \<Rightarrow> ('w, 'c, 'p) ts_state \<Rightarrow> ('w, 'c, 'p) ts_state" where
  "handleGetVersion T E st = copyAndWriteSmallCrcPacket T E (take 31 (firmware_version E) @ [0]) st"

definition byte_of_char :: "char \<Rightarrow> byte" where
  "byte_of_char c = of_nat (of_char c)"

definition char_of_byte :: "byte \<Rightarrow> char" where
  "char_of_byte b = char_of (unat b)"

definition handleGetText :: "'w ts_transport \<Rightarrow> ts_env \<Rightarrow> ('w, 'c, 'p) ts_state \<Rightarrow> ('w, 'c, 'p) ts_state" where
  "handleGetText T E st =
     (let st = tick (\<lambda>t. t\<lparr>textCommandCounter := textCommandCounter t + 1\<rparr>) st;
          st = st\<lparr>ts_text := fold (write_line (textfw E)) (overall_status E) (ts_text st)\<rparr>;
          ((output, outputSize), lg, text) = swapOutputBuffers (ts_text st);
          st = st\<lparr>ts_text := text, ts_log := ts_log st @ lg\<rparr>
      in case output of
           Some output \<Rightarrow> writeCrcPacketLocked T E TS_RESPONSE_OK (map byte_of_char output) st
         | None \<Rightarrow> writeCrcPacketLocked T E TS_RESPONSE_OK (map (memory_at_null E) [0..<outputSize]) st)"


text \<open>The text of a console command is trimmed in the scratch buffer, from \<open>data\<close> on, and run.\<close>

definition handleExecuteCommand ::
  "'w ts_transport \<Rightarrow> ts_env \<Rightarrow> nat \<Rightarrow> nat \<Rightarrow> ('w, 'c, 'p) ts_state \<Rightarrow> ('w, 'c, 'p) ts_state option" where
  "handleExecuteCommand T E data incomingPacketSize st = do {
     let st = st\<lparr>scratchBuffer := (scratchBuffer st)[data + incomingPacketSize := 0]\<rparr>;
     (buf, trimmed) \<leftarrow> efiTrim (map char_of_byte (scratchBuffer st)) data;
     let st = st\<lparr>scratchBuffer := map byte_of_char buf\<rparr>;
     con \<leftarrow> handleConsoleLine (textfw E) (Some (c_string buf trimmed)) (ts_console st);
     Some (writeCrcResponse T E TS_RESPONSE_OK (st\<lparr>ts_console := con\<rparr>))
   }"

definition logger_switch ::
  "'w ts_transport \<Rightarrow> ts_env \<Rightarrow> byte \<Rightarrow> ('w, 'c, 'p) ts_state \<Rightarrow> bool \<times> ('w, 'c, 'p) ts_state" where
  "logger_switch T E sub st =
     (if sub = TS_COMPOSITE_ENABLE then (True, sendOkResponse T E (ts_event EnableToothLogger st))
      else if sub = TS_COMPOSITE_DISABLE then (True, sendOkResponse T E (ts_event DisableToothLogger st))
      else if sub = TS_COMPOSITE_READ then
        let st = (case tooth_buffer E of
                    Some toothBuffer \<Rightarrow>
                      ts_event ReturnToothLoggerBuffer (writeCrcPacketLocked T E TS_RESPONSE_OK toothBuffer st)
                  | None \<Rightarrow> sendErrorCode T E TS_RESPONSE_OUT_OF_RANGE st)
        in (True, sendOkResponse T E st)
      else (False, st))"

text \<open>The parameters of a request are read from the scratch buffer whatever the size of the packet was. The
  request starts at the first byte; \<open>data\<close> is behind the command.\<close>

definition handleCrcCommand ::
  "'w ts_transport \<Rightarrow> ts_env \<Rightarrow> nat \<Rightarrow> ('w, 'c, 'p) ts_state \<Rightarrow> (bool \<times> ('w, 'c, 'p) ts_state) option" where
  "handleCrcCommand T E incomingPacketSize st =
     (let buf = scratchBuffer st; command = buf ! 0;
          data16_0 = word16 (buf ! 1) (buf ! 2); data16_1 = word16 (buf ! 3) (buf ! 4);
          offset = unat data16_0; num = unat data16_1 in
      if command = TS_OUTPUT_COMMAND then
        let (offset, num) = (if incomingPacketSize = 1 then (0, TS_TOTAL_OUTPUT_SIZE E) else (offset, num))
        in Some (True, cmdOutputChannels T E offset num st)
      else if command = TS_HELLO_COMMAND then Some (True, handleQueryCommand T E TS_CRC st)
      else if command = TS_GET_FIRMWARE_VERSION then Some (True, handleGetVersion T E st)
      else if command = TS_GET_TEXT then Some (True, handleGetText T E st)
      else if command = TS_EXECUTE then
        map_option (Pair True) (handleExecuteCommand T E 1 (incomingPacketSize - 1) st)
      else if command = TS_CHUNK_WRITE_COMMAND then Some (True, handleWriteChunkCommand T E offset num 5 st)
      else if command = TS_SINGLE_WRITE_COMMAND then Some (True, handleWriteValueCommand T E offset (buf ! 5) st)
      else if command = TS_CRC_CHECK_COMMAND then Some (True, handleCrc32Check T E offset num st)
      else if command = TS_BURN_COMMAND then Some (True, handleBurnCommand T E st)
      else if command = TS_READ_COMMAND then Some (True, handlePageReadCommand T E offset num st)
      else if command = TS_IO_TEST_COMMAND then
        let subsystem = unat (SWAP_UINT16 data16_0); idx = unat (SWAP_UINT16 data16_1)
        in Some (True, sendOkResponse T E (ts_event (ExecuteTSCommand subsystem idx) st))
      else if command = TS_SET_LOGGER_SWITCH then Some (logger_switch T E (buf ! 1) st)
      else if command = TS_PERF_TRACE_BEGIN \<and> perf_trace E \<noteq> None then
        Some (True, sendOkResponse T E (ts_event PerfTraceEnable st))
      else if command = TS_PERF_TRACE_GET_BUFFER \<and> perf_trace E \<noteq> None then
        Some (True, writeCrcPacketLocked T E TS_RESPONSE_OK (the (perf_trace E)) st)
      else if command = TS_GET_CONFIG_ERROR then
        Some (True, writeCrcPacketLocked T E TS_RESPONSE_OK (critical_error E) st)
      else if command = TS_QUERY_BOOTLOADER then
        Some (True, copyAndWriteSmallCrcPacket T E [bootloader_info E] st)
      else Some (False, tunerStudioError (sendErrorCode T E TS_RESPONSE_UNRECOGNIZED_COMMAND st)))"

subsection \<open>Receiving a packet\<close>

definition port_read ::
  "'w ts_transport \<Rightarrow> nat \<Rightarrow> nat \<Rightarrow> ('w, 'c, 'p) ts_state \<Rightarrow> byte list \<times> ('w, 'c, 'p) ts_state" where
  "port_read T n timeout st = (let (bs, w) = ts_readTimeout T n timeout (ts_port st) in (bs, st\<lparr>ts_port := w\<rparr>))"

text \<open>Reading into the scratch buffer at a position: how many bytes came.\<close>

definition read_scratch ::
  "'w ts_transport \<Rightarrow> nat \<Rightarrow> nat \<Rightarrow> nat \<Rightarrow> ('w, 'c, 'p) ts_state \<Rightarrow> nat \<times> ('w, 'c, 'p) ts_state" where
  "read_scratch T p n timeout st =
     (let (bs, st) = port_read T n timeout st
      in (length bs, st\<lparr>scratchBuffer := mem_write p bs (scratchBuffer st)\<rparr>))"

text \<open>The body of the packet: whether it was received with a known command, and the state.\<close>

definition receive_body ::
  "'w ts_transport \<Rightarrow> ts_env \<Rightarrow> nat \<Rightarrow> ('w, 'c, 'p) ts_state \<Rightarrow> bool \<times> ('w, 'c, 'p) ts_state" where
  "receive_body T E expectedSize st =
     (if in_sync st then
        let (received, st) = read_scratch T 0 expectedSize TS_COMMUNICATION_TIMEOUT st;
            command = scratchBuffer st ! 0 in
        if received \<noteq> expectedSize
        then (False, (sendErrorCode T E TS_RESPONSE_UNDERRUN (tunerStudioError st))\<lparr>in_sync := False\<rparr>)
        else if \<not> isKnownCommand command
        then (False, (sendErrorCode T E TS_RESPONSE_UNRECOGNIZED_COMMAND st)\<lparr>in_sync := False\<rparr>)
        else (True, st)
      else
        let (received, st) = read_scratch T 0 1 TS_COMMUNICATION_TIMEOUT_SHORT st;
            command = scratchBuffer st ! 0 in
        if \<not> isKnownCommand command then (False, st)
        else
          let (received, st) = read_scratch T 1 (expectedSize - 1) TS_COMMUNICATION_TIMEOUT st in
          if received \<noteq> expectedSize - 1 then (False, st) else (True, st))"

text \<open>The checksum and the command.\<close>

definition check_and_handle ::
  "'w ts_transport \<Rightarrow> ts_env \<Rightarrow> nat \<Rightarrow> ('w, 'c, 'p) ts_state \<Rightarrow> (int \<times> ('w, 'c, 'p) ts_state) option" where
  "check_and_handle T E incomingPacketSize st =
     (let expectedCrc = SWAP_UINT32 (word32 (take 4 (drop incomingPacketSize (scratchBuffer st))));
          actualCrc = singleCrc E (take incomingPacketSize (scratchBuffer st)) in
      if actualCrc \<noteq> expectedCrc then
        Some (-1, if in_sync st
                  then (sendErrorCode T E TS_RESPONSE_CRC_FAILURE (tunerStudioError st))\<lparr>in_sync := False\<rparr>
                  else st)
      else do {
        (success, st) \<leftarrow> handleCrcCommand T E incomingPacketSize (st\<lparr>in_sync := True\<rparr>);
        Some (if success then 0 else -1, st)
      })"

definition tsProcessOne ::
  "'w ts_transport \<Rightarrow> ts_env \<Rightarrow> ('w, 'c, 'p) ts_state \<Rightarrow> (int \<times> ('w, 'c, 'p) ts_state) option" where
  "tsProcessOne T E st =
     (if \<not> ts_isReady T (ts_port st) then Some (-1, ts_event (Sleep 10) st)
      else
        let st = tick (\<lambda>t. t\<lparr>totalCounter := totalCounter t + 1\<rparr>) st;
            (first, st) = port_read T 1 TS_COMMUNICATION_TIMEOUT st in
        if length first \<noteq> 1 then Some (-1, st\<lparr>in_sync := False\<rparr>)
        else
          let (second, st) = port_read T 1 TS_COMMUNICATION_TIMEOUT_SHORT st in
          if length second \<noteq> 1 then
            let (ok, st) = handlePlainCommand T E (hd first) st
            in Some (-1, if ok then st else (tunerStudioError st)\<lparr>in_sync := False\<rparr>)
          else
            let incomingPacketSize = unat (word16 (hd second) (hd first));
                expectedSize = incomingPacketSize + CRC_VALUE_SIZE in
            if incomingPacketSize = 0 \<or> expectedSize > length (scratchBuffer st) then
              let st = (if in_sync st then sendErrorCode T E TS_RESPONSE_UNDERRUN (tunerStudioError st) else st)
              in Some (-1, st\<lparr>in_sync := False\<rparr>)
            else
              let (complete, st) = receive_body T E expectedSize st in
              if \<not> complete then Some (-1, st) else check_and_handle T E incomingPacketSize st)"

text \<open>Rounds of the loop of \<^verbatim>\<open>TunerstudioThread::ThreadTask\<close>: the results, and the state.\<close>

primrec ThreadTask ::
  "'w ts_transport \<Rightarrow> ts_env \<Rightarrow> nat \<Rightarrow> ('w, 'c, 'p) ts_state \<Rightarrow> (int list \<times> ('w, 'c, 'p) ts_state) option" where
  "ThreadTask T E 0 st = Some ([], st)"
| "ThreadTask T E (Suc n) st = do {
     (r, st) \<leftarrow> tsProcessOne T E st;
     (rs, st) \<leftarrow> ThreadTask T E n st;
     Some (r # rs, st)
   }"

end
