(* ===== verification/Tuner_Properties.thy ===== *)
theory Tuner_Properties
  imports Tuner_Studio Console_Properties
begin

text \<open>
  The tuning protocol: what a packet on the wire is, that every round of the loop returns and keeps the
  memory in order, which requests reach their handlers, and what is answered when synchronization is lost.
\<close>

subsection \<open>The parameters\<close>

text \<open>A channel delivers the bytes in the order they arrive; a pause longer than the timeout is the value
  None among the bytes to come. What was written is sent in order.\<close>

fun take_bytes :: "nat \<Rightarrow> byte option list \<Rightarrow> byte list \<times> byte option list" where
  "take_bytes 0 rx = ([], rx)"
| "take_bytes (Suc n) [] = ([], [])"
| "take_bytes (Suc n) (None # rx) = ([], rx)"
| "take_bytes (Suc n) (Some b # rx) = (let (bs, rx) = take_bytes n rx in (b # bs, rx))"

definition transport_ok :: "'w ts_transport \<Rightarrow> ('w \<Rightarrow> byte option list) \<Rightarrow> ('w \<Rightarrow> byte list) \<Rightarrow> bool" where
  "transport_ok T pending sent \<longleftrightarrow>
     (\<forall>bs e w. sent (ts_write T bs e w) = sent w @ bs \<and> pending (ts_write T bs e w) = pending w) \<and>
     (\<forall>w. sent (ts_flush T w) = sent w \<and> pending (ts_flush T w) = pending w) \<and>
     (\<forall>n t w. fst (ts_readTimeout T n t w) = fst (take_bytes n (pending w)) \<and>
        pending (snd (ts_readTimeout T n t w)) = snd (take_bytes n (pending w)) \<and>
        sent (snd (ts_readTimeout T n t w)) = sent w)"

definition env_ok :: "ts_env \<Rightarrow> bool" where
  "env_ok E \<longleftrightarrow> textfw_ok (textfw E) \<and>
     TS_TOTAL_OUTPUT_SIZE E + 10 \<le> BLOCKING_FACTOR \<and> length (ts_signature E) \<le> BLOCKING_FACTOR \<and>
     (\<forall>offset cnt. length (live_data E offset cnt) = cnt) \<and>
     (\<forall>p. length (setBoardConfigOverrides E p) = length p) \<and>
     (\<forall>a b c. crc32inc E (a @ b) c = crc32inc E b (crc32inc E a c)) \<and>
     (\<forall>l \<in> set (overall_status E). NUL \<notin> set l)"

lemma take_bytes_length: "length (fst (take_bytes n rx)) \<le> n"
  by (induction n rx rule: take_bytes.induct) (auto split: prod.split simp: case_prod_beta)

lemma take_bytes_append: "take_bytes (length bs) (map Some bs @ rx) = (bs, rx)"
  by (induction bs) auto

lemma transport_read:
  assumes "transport_ok T pending sent"
  shows "length (fst (ts_readTimeout T n t w)) \<le> n" "sent (snd (ts_readTimeout T n t w)) = sent w"
    "pending w = map Some bs @ rx \<Longrightarrow> n = length bs \<Longrightarrow> fst (ts_readTimeout T n t w) = bs \<and> pending (snd (ts_readTimeout T n t w)) = rx"
  using assms take_bytes_length[of n "pending w"] take_bytes_append[of bs rx] by (simp_all add: transport_ok_def)

subsection \<open>Packets\<close>

definition packet :: "ts_env \<Rightarrow> byte \<Rightarrow> byte list \<Rightarrow> byte list" where
  "packet E code payload =
     bytes16 (SWAP_UINT16 (of_nat (length payload + 1))) @ [code] @ payload @
     bytes32 (SWAP_UINT32 (singleCrc E (code # payload)))"

definition put_packet :: "'w ts_transport \<Rightarrow> ts_env \<Rightarrow> byte \<Rightarrow> byte list \<Rightarrow> 'w \<Rightarrow> 'w" where
  "put_packet T E code buf w =
     (let w = ts_write T (bytes16 (SWAP_UINT16 (of_nat (length buf + 1))) @ [code]) False w;
          w = (if buf \<noteq> [] then ts_write T buf False w else w);
          crc = crc32inc E [code] 0;
          crc = (if buf \<noteq> [] then crc32inc E buf crc else crc)
      in ts_flush T (ts_write T (bytes32 (SWAP_UINT32 crc)) True w))"

lemma writeCrcPacketLocked_port:
  "writeCrcPacketLocked T E code buf st = st\<lparr>ts_port := put_packet T E code buf (ts_port st)\<rparr>"
  by (simp add: writeCrcPacketLocked_def put_packet_def port_write_def port_flush_def Let_def)

lemma put_packet_sent:
  assumes "transport_ok T pending sent" "env_ok E"
  shows "sent (put_packet T E code buf w) = sent w @ packet E code buf"
    "pending (put_packet T E code buf w) = pending w"
proof -
  have "crc32inc E (code # buf) 0 = crc32inc E buf (crc32inc E [code] 0)"
    using assms(2) unfolding env_ok_def by (metis append_Cons append_Nil)
  then show "sent (put_packet T E code buf w) = sent w @ packet E code buf"
    using assms(1) by (cases "buf = []") (simp_all add: put_packet_def packet_def transport_ok_def Let_def singleCrc_def)
  show "pending (put_packet T E code buf w) = pending w"
    using assms(1) by (simp add: put_packet_def transport_ok_def Let_def)
qed

text \<open>A state operation that only sends: the port and the scratch buffer change.\<close>

lemma sending_ops:
  "sendErrorCode T E code st = st\<lparr>ts_port := put_packet T E code [] (ts_port st)\<rparr>"
  "sendOkResponse T E st = st\<lparr>ts_port := put_packet T E TS_RESPONSE_OK [] (ts_port st)\<rparr>"
  "writeCrcResponse T E code st = st\<lparr>ts_port := put_packet T E code [] (ts_port st)\<rparr>"
  by (simp_all add: sendErrorCode_def sendOkResponse_def writeCrcResponse_def writeCrcPacketLocked_port)

lemma copyAndWriteSmallCrcPacket_small:
  "length buf \<le> BLOCKING_FACTOR + 7 \<Longrightarrow> copyAndWriteSmallCrcPacket T E buf st =
    st\<lparr>scratchBuffer := mem_write 0 buf (scratchBuffer st), ts_port := put_packet T E TS_RESPONSE_OK buf (ts_port st)\<rparr>"
  by (simp add: copyAndWriteSmallCrcPacket_def writeCrcPacketLocked_port mem_write_def Let_def)


subsection \<open>Every round returns and keeps the memory in order\<close>

definition ts_inv :: "ts_env \<Rightarrow> ('w, 'c, 'p) ts_state \<Rightarrow> bool" where
  "ts_inv E st \<longleftrightarrow> length (scratchBuffer st) = SCRATCH_SIZE \<and> length (page st) = TOTAL_CONFIG_SIZE E \<and>
     length (handleBuffer (ts_console st)) = 101 \<and> (\<exists>n s. text_ok n s (ts_text st))"

text \<open>The only entries of the log are marks of reading behind the scratch buffer.\<close>

definition keeps :: "ts_env \<Rightarrow> ('w, 'c, 'p) ts_state \<Rightarrow> ('w, 'c, 'p) ts_state \<Rightarrow> bool" where
  "keeps E st st' \<longleftrightarrow>
     (ts_inv E st \<longrightarrow> ts_inv E st' \<and> (\<exists>ds. ts_log st' = ts_log st @ ds \<and> set ds \<subseteq> {OutOfBounds}))"

lemma keeps_trans: "keeps E a b \<Longrightarrow> keeps E b c \<Longrightarrow> keeps E a c"
  unfolding keeps_def by (metis Un_least append.assoc set_append)

lemma keepsI: "(ts_inv E st \<Longrightarrow> ts_inv E st') \<Longrightarrow> ts_log st' = ts_log st \<Longrightarrow> keeps E st st'"
  by (simp add: keeps_def)

lemma keeps_simps:
  "keeps E st st" "keeps E st (ts_event ev st)" "keeps E st (tick f st)" "keeps E st (tunerStudioError st)"
  "keeps E st (st\<lparr>ts_port := w\<rparr>)" "keeps E st (st\<lparr>in_sync := b\<rparr>)"
  "keeps E st (writeCrcPacketLocked T E c buf st)" "keeps E st (sendErrorCode T E c st)"
  "keeps E st (sendOkResponse T E st)" "keeps E st (writeCrcResponse T E c st)" "keeps E st (port_write T bs e st)"
  "keeps E st (port_flush T st)" "keeps E st (requestBurn st)" "keeps E st (snd (port_read T n t st))"
  by (rule keepsI; simp add: ts_inv_def ts_event_def tick_def tunerStudioError_def sending_ops writeCrcPacketLocked_port
      port_write_def port_flush_def requestBurn_def port_read_def case_prod_beta)+

lemma keeps_copy: "length buf \<le> BLOCKING_FACTOR + 7 \<Longrightarrow> keeps E st (copyAndWriteSmallCrcPacket T E buf st)"
  by (rule keepsI) (simp_all add: copyAndWriteSmallCrcPacket_small ts_inv_def)

lemma keeps_scratch:
  "p + length bs \<le> SCRATCH_SIZE \<Longrightarrow> keeps E st (st\<lparr>scratchBuffer := mem_write p bs (scratchBuffer st)\<rparr>)"
  by (rule keepsI) (simp_all add: ts_inv_def)

lemma keeps_page: "(ts_inv E st \<Longrightarrow> length q = length (page st)) \<Longrightarrow> keeps E st (st\<lparr>page := q\<rparr>)"
  by (rule keepsI) (simp_all add: ts_inv_def)

lemma keeps_mark: "keeps E st (st\<lparr>ts_log := ts_log st @ [OutOfBounds]\<rparr>)"
  by (simp add: keeps_def ts_inv_def)

lemma validate_cases:
  obtains "TOTAL_CONFIG_SIZE E < offset + cnt"
      "validateOffsetCount T E offset cnt st = (True, sendErrorCode T E TS_RESPONSE_OUT_OF_RANGE (tunerStudioError st))"
    | "offset + cnt \<le> TOTAL_CONFIG_SIZE E" "validateOffsetCount T E offset cnt st = (False, st)"
  by (cases "offset + cnt \<le> TOTAL_CONFIG_SIZE E") (simp_all add: validateOffsetCount_def)

lemma keeps_error: "keeps E st (sendErrorCode T E c (tunerStudioError st))"
  by (rule keeps_trans[OF keeps_simps(4) keeps_simps(8)])


lemma scratch_bytes_length [simp]: "length (scratch_bytes E p n buf) = n"
  by (simp add: scratch_bytes_def)

lemmas ts_ops = ts_event_def tick_def tunerStudioError_def sending_ops writeCrcPacketLocked_port port_write_def
  port_flush_def requestBurn_def validateOffsetCount_def Let_def

lemma keeps_chunk: "env_ok E \<Longrightarrow> keeps E st (handleWriteChunkCommand T E offset cnt content st)"
  by (auto simp: handleWriteChunkCommand_def ts_ops keeps_def ts_inv_def env_ok_def)

lemma keeps_value: "env_ok E \<Longrightarrow> keeps E st (handleWriteValueCommand T E offset value st)"
  by (auto simp: handleWriteValueCommand_def ts_ops keeps_def ts_inv_def env_ok_def)

lemma keeps_read: "keeps E st (handlePageReadCommand T E offset cnt st)"
  by (auto simp: handlePageReadCommand_def ts_ops keeps_def ts_inv_def)

lemma keeps_burn: "keeps E st (handleBurnCommand T E st)"
  by (auto simp: handleBurnCommand_def ts_ops keeps_def ts_inv_def)

lemma keeps_crc: "keeps E st (handleCrc32Check T E offset cnt st)"
  by (auto simp: handleCrc32Check_def ts_ops keeps_def ts_inv_def copyAndWriteSmallCrcPacket_small bytes32_def)

lemma keeps_query: "env_ok E \<Longrightarrow> keeps E st (handleQueryCommand T E mode st)"
  by (auto simp: handleQueryCommand_def ts_ops keeps_def ts_inv_def copyAndWriteSmallCrcPacket_small env_ok_def)

lemma keeps_version: "keeps E st (handleGetVersion T E st)"
  unfolding handleGetVersion_def by (rule keeps_copy) simp

lemma keeps_plain: "env_ok E \<Longrightarrow> keeps E st (snd (handlePlainCommand T E command st))"
  by (auto simp: handlePlainCommand_def keeps_query keeps_simps keeps_trans[OF keeps_simps(11) keeps_simps(12)])

lemma keeps_outputs: "env_ok E \<Longrightarrow> keeps E st (cmdOutputChannels T E offset cnt st)"
  by (auto simp: cmdOutputChannels_def ts_ops keeps_def ts_inv_def env_ok_def)

lemma get_text:
  assumes "env_ok E" "text_ok n s (ts_text st)"
  defines "out \<equiv> take (n - 1) (s @ concat (overall_status E))"
  shows "\<exists>t'. text_ok n [] t' \<and> handleGetText T E st =
    st\<lparr>tsState := (tsState st)\<lparr>textCommandCounter := textCommandCounter (tsState st) + 1\<rparr>, ts_text := t',
       ts_port := put_packet T E TS_RESPONSE_OK (map byte_of_char out) (ts_port st)\<rparr>"
proof -
  have "text_ok n out (fold (write_line (textfw E)) (overall_status E) (ts_text st))"
    unfolding out_def by (rule write_lines_ok[OF _ assms(2)]) (use assms(1) in \<open>simp_all add: env_ok_def\<close>)
  from swap_ok[OF this] obtain t' where
    "swapOutputBuffers (fold (write_line (textfw E)) (overall_status E) (ts_text st)) = ((Some out, length out), [], t')"
    "text_ok n [] t'" by blast
  then show ?thesis by (intro exI[of _ t']) (simp add: handleGetText_def ts_ops)
qed

lemma keeps_text: "env_ok E \<Longrightarrow> keeps E st (handleGetText T E st)"
  unfolding keeps_def ts_inv_def using get_text[of E _ _ st T] by (auto, force+)

lemma keeps_logger: "keeps E st (snd (logger_switch T E sub st))"
  by (auto simp: logger_switch_def ts_ops keeps_def ts_inv_def split: option.splits)


text \<open>The command text is everything up to the first zero from the second byte on, which is at most behind the
  packet.\<close>

lemma char_byte [simp]: "byte_of_char (char_of_byte b) = b" "char_of_byte (byte_of_char c) = c"
proof -
  have "unat b < 256" using unsigned_less[of b] by simp
  then show "byte_of_char (char_of_byte b) = b" by (simp add: byte_of_char_def char_of_byte_def)
  show "char_of_byte (byte_of_char c) = c"
    by (simp add: byte_of_char_def char_of_byte_def unat_of_nat)
qed

lemma char_of_byte_0 [simp]: "char_of_byte 0 = NUL"
  by (simp add: char_of_byte_def char_of_def)

definition command_text :: "nat \<Rightarrow> byte list \<Rightarrow> string" where
  "command_text n buf = c_string (map char_of_byte (buf[n := 0])) 1"

lemma execute_runs:
  assumes "ts_inv E st" "env_ok E" "0 < n" "n < SCRATCH_SIZE"
  obtains con buf where "length buf = SCRATCH_SIZE" "length (handleBuffer con) = 101"
    "handleConsoleLine (textfw E) (Some (strip_spaces (command_text n (scratchBuffer st)))) (ts_console st) = Some con"
    "handleExecuteCommand T E 1 (n - 1) st =
     Some (st\<lparr>scratchBuffer := buf, ts_console := con, ts_port := put_packet T E TS_RESPONSE_OK [] (ts_port st)\<rparr>)"
proof -
  let ?mem = "map char_of_byte ((scratchBuffer st)[n := 0])"
  have len: "length ?mem = SCRATCH_SIZE" using assms(1) by (simp add: ts_inv_def)
  obtain rest where mem: "?mem = take 1 ?mem @ c_string ?mem 1 @ NUL # rest"
    by (rule c_string_split[of 1 n ?mem]) (use assms(3,4) len in simp_all)
  have one: "length (take 1 ?mem) = 1" using len by simp
  obtain cbuf p where trim: "efiTrim ?mem 1 = Some (cbuf, p)" "c_string cbuf p = strip_spaces (c_string ?mem 1)"
      "length cbuf = length ?mem"
    using efiTrim_strips[OF c_string_no_NUL[of ?mem 1], of "take 1 ?mem" rest] unfolding one mem[symmetric] by blast
  have nul: "NUL \<notin> set (strip_spaces (c_string ?mem 1))"
    using c_string_no_NUL[of cbuf p] unfolding trim(2) .
  have "textfw_ok (textfw E)" "length (handleBuffer (ts_console st)) = 101"
    using assms(1,2) by (simp_all add: ts_inv_def env_ok_def)
  from console_answers[OF this nul] obtain con where con:
    "handleConsoleLine (textfw E) (Some (strip_spaces (c_string ?mem 1))) (ts_console st) = Some con"
    "length (handleBuffer con) = 101" by blast
  have "handleExecuteCommand T E 1 (n - 1) st =
     Some (st\<lparr>scratchBuffer := map byte_of_char cbuf, ts_console := con, ts_port := put_packet T E TS_RESPONSE_OK [] (ts_port st)\<rparr>)"
    using assms(3) trim con by (simp add: handleExecuteCommand_def sending_ops)
  then show ?thesis using that[of "map byte_of_char cbuf" con] trim(3) con len by (simp add: command_text_def)
qed

lemma keeps_command:
  assumes "ts_inv E st" "env_ok E" "0 < n" "n < SCRATCH_SIZE"
  shows "\<exists>ok st'. handleCrcCommand T E n st = Some (ok, st') \<and> keeps E st st'"
proof (cases "scratchBuffer st ! 0 = TS_EXECUTE")
  case True
  obtain con buf where b: "length buf = SCRATCH_SIZE" "length (handleBuffer con) = 101"
    "handleExecuteCommand T E 1 (n - 1) st =
     Some (st\<lparr>scratchBuffer := buf, ts_console := con, ts_port := put_packet T E TS_RESPONSE_OK [] (ts_port st)\<rparr>)"
    by (rule execute_runs[OF assms]) blast
  have "handleCrcCommand T E n st =
     Some (True, st\<lparr>scratchBuffer := buf, ts_console := con, ts_port := put_packet T E TS_RESPONSE_OK [] (ts_port st)\<rparr>)"
    using True b(3) by (simp add: handleCrcCommand_def)
  then show ?thesis using assms(1) b(1,2) by (auto simp: keeps_def ts_inv_def)
next
  case False
  note k = keeps_outputs[OF assms(2)] keeps_query[OF assms(2)] keeps_version keeps_text[OF assms(2)] keeps_chunk[OF assms(2)]
    keeps_value[OF assms(2)] keeps_crc keeps_burn keeps_read keeps_simps keeps_error keeps_copy
    keeps_trans[OF keeps_simps(2) keeps_simps(9)] keeps_trans[OF keeps_simps(8) keeps_simps(4)]
  have lg: "\<exists>ok st'. logger_switch T E sub st = (ok, st') \<and> keeps E st st'" for sub
    using keeps_logger[of E st T sub] by (metis prod.collapse)
  show ?thesis
    using False lg unfolding handleCrcCommand_def Let_def by (auto simp: k)
qed


subsection \<open>A round as a step of a state machine\<close>

text \<open>Receiving changes the scratch buffer, the port and the counters only, and sends nothing.\<close>

definition heard :: "('w \<Rightarrow> byte list) \<Rightarrow> ('w, 'c, 'p) ts_state \<Rightarrow> ('w, 'c, 'p) ts_state \<Rightarrow> bool" where
  "heard sent st st1 \<longleftrightarrow>
     (\<exists>buf w ctr. st1 = st\<lparr>scratchBuffer := buf, ts_port := w, tsState := ctr\<rparr> \<and>
        length buf = length (scratchBuffer st) \<and> sent w = sent (ts_port st))"

lemma heard_refl [simp]: "heard sent st st"
  unfolding heard_def by (intro exI[of _ "scratchBuffer st"] exI[of _ "ts_port st"] exI[of _ "tsState st"]) simp

lemma heard_trans: "heard sent a b \<Longrightarrow> heard sent b c \<Longrightarrow> heard sent a c"
  unfolding heard_def by force

lemma heard_tick: "heard sent st (tick f st)"
  unfolding heard_def tick_def
  by (intro exI[of _ "scratchBuffer st"] exI[of _ "ts_port st"] exI[of _ "f (tsState st)"]) simp

lemma heard_port_read: "transport_ok T pending sent \<Longrightarrow> heard sent st (snd (port_read T n t st))"
  unfolding heard_def port_read_def
  by (intro exI[of _ "scratchBuffer st"] exI[of _ "snd (ts_readTimeout T n t (ts_port st))"] exI[of _ "tsState st"])
    (simp add: transport_read case_prod_beta)

lemma heard_read_scratch:
  assumes "transport_ok T pending sent" "p + n \<le> length (scratchBuffer st)"
  shows "heard sent st (snd (read_scratch T p n t st))"
proof -
  have "length (fst (ts_readTimeout T n t (ts_port st))) \<le> n" by (rule transport_read[OF assms(1)])
  then have "p + length (fst (ts_readTimeout T n t (ts_port st))) \<le> length (scratchBuffer st)" using assms(2) by simp
  then show ?thesis unfolding heard_def read_scratch_def port_read_def
    by (intro exI[of _ "mem_write p (fst (ts_readTimeout T n t (ts_port st))) (scratchBuffer st)"]
        exI[of _ "snd (ts_readTimeout T n t (ts_port st))"] exI[of _ "tsState st"])
      (simp add: transport_read[OF assms(1)] case_prod_beta Let_def)
qed

lemma heard_fields:
  "heard sent st st1 \<Longrightarrow> in_sync st1 = in_sync st \<and> page st1 = page st \<and> ts_console st1 = ts_console st \<and>
     ts_text st1 = ts_text st \<and> ts_log st1 = ts_log st \<and> ts_events st1 = ts_events st \<and>
     length (scratchBuffer st1) = length (scratchBuffer st) \<and> sent (ts_port st1) = sent (ts_port st)"
  by (auto simp: heard_def)

lemma heard_keeps: "heard sent st st1 \<Longrightarrow> keeps E st st1"
  unfolding heard_def keeps_def ts_inv_def by (auto, blast)

inductive protocol_step ::
  "'w ts_transport \<Rightarrow> ts_env \<Rightarrow> ('w \<Rightarrow> byte list) \<Rightarrow> ('w, 'c, 'p) ts_state \<Rightarrow> int \<Rightarrow> ('w, 'c, 'p) ts_state \<Rightarrow> bool"
  for T :: "'w ts_transport" and E :: ts_env and sent :: "'w \<Rightarrow> byte list" and st :: "('w, 'c, 'p) ts_state" where
  not_ready: "protocol_step T E sent st (-1) (ts_event (Sleep 10) st)"
| silence: "heard sent st st1 \<Longrightarrow> protocol_step T E sent st (-1) (st1\<lparr>in_sync := False\<rparr>)"
| plain: "heard sent st st1 \<Longrightarrow> handlePlainCommand T E b st1 = (True, st2) \<Longrightarrow> protocol_step T E sent st (-1) st2"
| lone_byte: "heard sent st st1 \<Longrightarrow> protocol_step T E sent st (-1) ((tunerStudioError st1)\<lparr>in_sync := False\<rparr>)"
| lost: "in_sync st \<Longrightarrow> heard sent st st1 \<Longrightarrow> st2 = st1 \<or> st2 = tunerStudioError st1 \<Longrightarrow>
    code \<in> {TS_RESPONSE_UNDERRUN, TS_RESPONSE_UNRECOGNIZED_COMMAND, TS_RESPONSE_CRC_FAILURE} \<Longrightarrow>
    protocol_step T E sent st (-1) ((sendErrorCode T E code st2)\<lparr>in_sync := False\<rparr>)"
| ignored: "\<not> in_sync st \<Longrightarrow> heard sent st st1 \<Longrightarrow> protocol_step T E sent st (-1) st1"
| handled: "heard sent st st1 \<Longrightarrow> 0 < n \<Longrightarrow> n + CRC_VALUE_SIZE \<le> length (scratchBuffer st1) \<Longrightarrow>
    handleCrcCommand T E n (st1\<lparr>in_sync := True\<rparr>) = Some (ok, st2) \<Longrightarrow>
    protocol_step T E sent st (if ok then 0 else -1) st2"

text \<open>The body of a packet is complete, or the round ends with a step of the machine.\<close>

lemma receive_body_step:
  assumes T: "transport_ok T pending sent" and h: "heard sent st0 st" and n: "n \<le> length (scratchBuffer st)" "0 < n"
  shows "case receive_body T E n st of (ok, st') \<Rightarrow>
    if ok then heard sent st0 st' else protocol_step T E sent st0 (-1) st'"
proof (cases "in_sync st")
  case True
  then have s0: "in_sync st0" using heard_fields[OF h] by simp
  obtain k st1 where r: "read_scratch T 0 n TS_COMMUNICATION_TIMEOUT st = (k, st1)" by fastforce
  have h1: "heard sent st0 st1" using heard_trans[OF h heard_read_scratch[OF T, of 0 n st TS_COMMUNICATION_TIMEOUT]] n r by simp
  show ?thesis
    using True r h1 lost[OF s0 h1, of st1] lost[OF s0 h1, of "tunerStudioError st1"]
    by (auto simp: receive_body_def)
next
  case False
  then have s0: "\<not> in_sync st0" using heard_fields[OF h] by simp
  obtain k st1 where r: "read_scratch T 0 1 TS_COMMUNICATION_TIMEOUT_SHORT st = (k, st1)" by fastforce
  have h1: "heard sent st0 st1"
    using heard_trans[OF h heard_read_scratch[OF T, of 0 1 st TS_COMMUNICATION_TIMEOUT_SHORT]] n r by simp
  obtain k2 st2 where r2: "read_scratch T 1 (n - 1) TS_COMMUNICATION_TIMEOUT st1 = (k2, st2)" by fastforce
  have "1 + (n - 1) \<le> length (scratchBuffer st1)" using heard_fields[OF h] heard_fields[OF h1] n by simp
  from heard_trans[OF h1 heard_read_scratch[OF T this, of TS_COMMUNICATION_TIMEOUT]]
  have h2: "heard sent st0 st2" using r2 by simp
  show ?thesis using False r r2 h2 ignored[OF s0 h1] ignored[OF s0 h2] by (auto simp: receive_body_def)
qed

lemma check_step:
  assumes h: "heard sent st0 st" and n: "0 < n" "n + CRC_VALUE_SIZE \<le> length (scratchBuffer st)"
    and r: "check_and_handle T E n st = Some (r, st')"
  shows "protocol_step T E sent st0 r st'"
proof (cases "singleCrc E (take n (scratchBuffer st)) = SWAP_UINT32 (word32 (take 4 (drop n (scratchBuffer st))))")
  case True
  then obtain ok where "handleCrcCommand T E n (st\<lparr>in_sync := True\<rparr>) = Some (ok, st')" "r = (if ok then 0 else -1)"
    using r by (auto simp: check_and_handle_def split: Option.bind_splits)
  then show ?thesis using handled[OF h n] by simp
next
  case False
  then have e: "r = -1" "st' = (if in_sync st then (sendErrorCode T E TS_RESPONSE_CRC_FAILURE (tunerStudioError st))\<lparr>in_sync := False\<rparr> else st)"
    using r by (auto simp: check_and_handle_def)
  have "in_sync st = in_sync st0" using heard_fields[OF h] by simp
  then show ?thesis unfolding e using lost[OF _ h, of "tunerStudioError st"] ignored[OF _ h] by simp
qed

text \<open>A round ends as a step of the machine, or the checksum of a complete packet is looked at.\<close>

lemma process_shape:
  assumes T: "transport_ok T pending sent"
  obtains r st' where "tsProcessOne T E st = Some (r, st')" "protocol_step T E sent st r st'"
    | n st1 where "heard sent st st1" "0 < n" "n + CRC_VALUE_SIZE \<le> length (scratchBuffer st1)"
      "tsProcessOne T E st = check_and_handle T E n st1"
proof -
  define st0 where "st0 = tick (\<lambda>t. t\<lparr>totalCounter := totalCounter t + 1\<rparr>) st"
  obtain b1 st1 where r1: "port_read T 1 TS_COMMUNICATION_TIMEOUT st0 = (b1, st1)" by fastforce
  obtain b2 st2 where r2: "port_read T 1 TS_COMMUNICATION_TIMEOUT_SHORT st1 = (b2, st2)" by fastforce
  have h0: "heard sent st st0" unfolding st0_def by (rule heard_tick)
  have h1: "heard sent st st1"
    using heard_trans[OF h0 heard_port_read[OF T, of st0 1 TS_COMMUNICATION_TIMEOUT]] r1 by simp
  have h2: "heard sent st st2"
    using heard_trans[OF h1 heard_port_read[OF T, of st1 1 TS_COMMUNICATION_TIMEOUT_SHORT]] r2 by simp
  obtain ok stp where pl: "handlePlainCommand T E (hd b1) st2 = (ok, stp)" by fastforce
  have unplain: "stp = st2" if "\<not> ok" using pl that by (auto simp: handlePlainCommand_def split: if_splits)
  define n where "n = unat (word16 (hd b2) (hd b1))"
  obtain complete st3 where b: "receive_body T E (n + CRC_VALUE_SIZE) st2 = (complete, st3)" by fastforce
  have eq: "tsProcessOne T E st =
    (if \<not> ts_isReady T (ts_port st) then Some (-1, ts_event (Sleep 10) st)
     else if length b1 \<noteq> 1 then Some (-1, st1\<lparr>in_sync := False\<rparr>)
     else if length b2 \<noteq> 1 then Some (-1, if ok then stp else (tunerStudioError stp)\<lparr>in_sync := False\<rparr>)
     else if n = 0 \<or> n + CRC_VALUE_SIZE > length (scratchBuffer st2) then
       Some (-1, (if in_sync st2 then sendErrorCode T E TS_RESPONSE_UNDERRUN (tunerStudioError st2) else st2)\<lparr>in_sync := False\<rparr>)
     else if \<not> complete then Some (-1, st3) else check_and_handle T E n st3)"
    by (simp only: tsProcessOne_def st0_def[symmetric] r1 r2 pl Let_def prod.case n_def[symmetric] b)
  show ?thesis
  proof (cases "ts_isReady T (ts_port st) \<and> length b1 = 1 \<and> length b2 = 1 \<and> 0 < n \<and> n + CRC_VALUE_SIZE \<le> length (scratchBuffer st2)")
    case True
    from receive_body_step[OF T h2, of "n + CRC_VALUE_SIZE" E] b True
    have body: "if complete then heard sent st st3 else protocol_step T E sent st (-1) st3" by simp
    then show ?thesis
      using eq True that(1)[of "-1" st3] that(2)[of st3 n] heard_fields[OF h2] heard_fields[of sent st st3]
      by (cases complete) auto
  next
    case False
    then show ?thesis
      using eq that(1) not_ready[of T E sent st] silence[OF h1, of T E] silence[OF h2, of T E] plain[OF h2, of T E "hd b1" stp]
        lone_byte[OF h2, of T E] pl unplain lost[OF _ h2, of "tunerStudioError st2" TS_RESPONSE_UNDERRUN T E] heard_fields[OF h2]
      by (simp split: if_splits)
  qed
qed

lemma process_step:
  assumes "transport_ok T pending sent" "tsProcessOne T E st = Some (r, st')"
  shows "protocol_step T E sent st r st'"
  by (rule process_shape[OF assms(1), of E st]) (metis assms(2) check_step option.inject prod.inject)+

lemma plain_sync: "handlePlainCommand T E b st = (ok, st') \<Longrightarrow> in_sync st' = in_sync st \<and> page st' = page st \<and> ts_console st' = ts_console st"
  by (auto simp: handlePlainCommand_def handleQueryCommand_def ts_ops split: if_splits)

lemma process_total:
  assumes "transport_ok T pending sent" "env_ok E" "ts_inv E st"
  shows "\<exists>r st'. tsProcessOne T E st = Some (r, st') \<and> keeps E st st'"
proof (rule process_shape[OF assms(1), of E st])
  fix r st'
  assume r: "tsProcessOne T E st = Some (r, st')" and "protocol_step T E sent st r st'"
  from this(2) have "keeps E st st'"
  proof cases
    case (plain st1 b)
    then show ?thesis using keeps_trans[OF heard_keeps[OF plain(2)] keeps_plain[OF assms(2)]] by (metis snd_conv)
  next
    case (handled st1 n ok)
    have "ts_inv E (st1\<lparr>in_sync := True\<rparr>)" "n < SCRATCH_SIZE"
      using assms(3) heard_keeps[OF handled(2), of E] handled(4) by (auto simp: keeps_def ts_inv_def)
    from keeps_command[OF this(1) assms(2) handled(3) this(2), of T] handled(5)
    have "keeps E (st1\<lparr>in_sync := True\<rparr>) st'" by auto
    from keeps_trans[OF keeps_trans[OF heard_keeps[OF handled(2)] keeps_simps(6)] this] show ?thesis .
  next
    case (lost st1 st2 code)
    then have "keeps E st st2" using heard_keeps[OF lost(4)] keeps_trans[OF _ keeps_simps(4)] by blast
    then show ?thesis unfolding lost(2) by (intro keeps_trans[OF keeps_trans[OF _ keeps_simps(8)] keeps_simps(6)])
  next
    case (lone_byte st1)
    show ?thesis unfolding lone_byte(2)
      by (rule keeps_trans[OF keeps_trans[OF heard_keeps[OF lone_byte(3)] keeps_simps(4)] keeps_simps(6)])
  next
    case (silence st1)
    show ?thesis unfolding silence(2) by (rule keeps_trans[OF heard_keeps[OF silence(3)] keeps_simps(6)])
  qed (auto simp: keeps_simps heard_keeps)
  then show ?thesis using r by blast
next
  fix n st1
  assume h: "heard sent st st1" "0 < n" "n + CRC_VALUE_SIZE \<le> length (scratchBuffer st1)"
    and r: "tsProcessOne T E st = check_and_handle T E n st1"
  have k1: "keeps E st st1" by (rule heard_keeps[OF h(1)])
  then have "ts_inv E (st1\<lparr>in_sync := True\<rparr>)" "n < SCRATCH_SIZE"
    using assms(3) h(3) by (auto simp: keeps_def ts_inv_def)
  from keeps_command[OF this(1) assms(2) h(2) this(2), of T] obtain ok st' where
    c: "handleCrcCommand T E n (st1\<lparr>in_sync := True\<rparr>) = Some (ok, st')" "keeps E (st1\<lparr>in_sync := True\<rparr>) st'" by blast
  have "keeps E st st'" by (rule keeps_trans[OF keeps_trans[OF k1 keeps_simps(6)] c(2)])
  moreover have "keeps E st ((sendErrorCode T E TS_RESPONSE_CRC_FAILURE (tunerStudioError st1))\<lparr>in_sync := False\<rparr>)"
    by (rule keeps_trans[OF keeps_trans[OF k1 keeps_error] keeps_simps(6)])
  ultimately show ?thesis unfolding r check_and_handle_def Let_def using c(1) k1 by auto
qed

text \<open>C34: Whatever bytes arrive, and whenever, every round of the loop of the protocol returns: the console
  answers, the trimming of a command stays inside the scratch buffer, the configuration page, the scratch
  buffer and the text buffers keep their sizes, and no assertion of the firmware fails. The only thing that
  may be logged is reading behind the scratch buffer.\<close>

theorem protocol_always_answers:
  assumes "transport_ok T pending sent" "env_ok E" "ts_inv E st"
  shows "\<exists>rs st'. ThreadTask T E n st = Some (rs, st') \<and> length rs = n \<and> ts_inv E st' \<and>
    (\<exists>ds. ts_log st' = ts_log st @ ds \<and> set ds \<subseteq> {OutOfBounds})"
proof -
  have "\<exists>rs st'. ThreadTask T E n st = Some (rs, st') \<and> length rs = n \<and> keeps E st st'" if "ts_inv E st" for st
    using that
  proof (induction n arbitrary: st)
    case (Suc n)
    obtain r st1 where "tsProcessOne T E st = Some (r, st1)" "keeps E st st1"
      using process_total[OF assms(1,2) Suc.prems] by blast
    moreover from this Suc.prems have "ts_inv E st1" by (simp add: keeps_def)
    then obtain rs st' where "ThreadTask T E n st1 = Some (rs, st')" "length rs = n" "keeps E st1 st'"
      using Suc.IH by blast
    ultimately show ?case using keeps_trans by fastforce
  qed (simp add: keeps_simps)
  from this[OF assms(3)] show ?thesis using assms(3) by (auto simp: keeps_def)
qed

end
