(* ===== verification/Tuner_Requests.thy ===== *)
theory Tuner_Requests
  imports Tuner_Properties
begin

text \<open>
  The tuning protocol from the side of the tuning software: when errors are answered, and what a request on
  the wire does to the configuration page and to the console.
\<close>

subsection \<open>Synchronization\<close>

lemma copy_sync: "in_sync (copyAndWriteSmallCrcPacket T E buf st) = in_sync st"
  by (simp add: copyAndWriteSmallCrcPacket_def writeCrcPacketLocked_port Let_def)

lemma handlers_sync:
  "in_sync (handleWriteChunkCommand T E offset cnt content st) = in_sync st"
  "in_sync (handleWriteValueCommand T E offset value st) = in_sync st"
  "in_sync (handlePageReadCommand T E offset cnt st) = in_sync st"
  "in_sync (handleBurnCommand T E st) = in_sync st"
  "in_sync (handleCrc32Check T E offset cnt st) = in_sync st"
  "in_sync (handleQueryCommand T E mode st) = in_sync st"
  "in_sync (handleGetVersion T E st) = in_sync st"
  "in_sync (cmdOutputChannels T E offset cnt st) = in_sync st"
  "in_sync (handleGetText T E st) = in_sync st"
  "in_sync (snd (logger_switch T E sub st)) = in_sync st"
  by (simp_all add: handleWriteChunkCommand_def handleWriteValueCommand_def handlePageReadCommand_def handleBurnCommand_def
      handleCrc32Check_def handleQueryCommand_def handleGetVersion_def cmdOutputChannels_def handleGetText_def
      logger_switch_def ts_ops copy_sync split: option.split prod.split)

lemma execute_sync: "handleExecuteCommand T E d n st = Some st' \<Longrightarrow> in_sync st' = in_sync st"
  by (auto simp: handleExecuteCommand_def ts_ops split: Option.bind_splits)

lemma command_sync: "handleCrcCommand T E n st = Some (ok, st') \<Longrightarrow> in_sync st' = in_sync st"
  by (auto simp: handleCrcCommand_def Let_def handlers_sync copy_sync writeCrcPacketLocked_port ts_event_def
      sending_ops tunerStudioError_def tick_def execute_sync split: if_splits)
    (metis handlers_sync(10) snd_conv)+

lemma plain_sent:
  assumes "transport_ok T pending sent" "handlePlainCommand T E b st = (True, st')"
  shows "sent (ts_port st') \<in> {sent (ts_port st) @ ts_signature E @ [0], sent (ts_port st) @ TS_PROTOCOL E}"
  using assms by (auto simp: handlePlainCommand_def handleQueryCommand_def ts_ops transport_ok_def split: if_splits)

text \<open>C35: A round after which the channel is not in sync has handled no command: the page and the console are
  as before. When the channel was in sync it has sent nothing or one error packet; when it was not, it has
  sent nothing but the answer to a single-byte command. So after one error nothing is answered until a packet
  with a known command and a correct checksum has come.\<close>

theorem one_error_per_loss_of_sync:
  assumes "transport_ok T pending sent" "env_ok E" "tsProcessOne T E st = Some (r, st')" "\<not> in_sync st'"
  shows "r = -1 \<and> page st' = page st \<and> ts_console st' = ts_console st \<and>
    (sent (ts_port st') = sent (ts_port st) \<or>
     (if in_sync st
      then \<exists>code \<in> {TS_RESPONSE_UNDERRUN, TS_RESPONSE_UNRECOGNIZED_COMMAND, TS_RESPONSE_CRC_FAILURE}.
             sent (ts_port st') = sent (ts_port st) @ packet E code []
      else sent (ts_port st') \<in> {sent (ts_port st) @ ts_signature E @ [0], sent (ts_port st) @ TS_PROTOCOL E}))"
  using process_step[OF assms(1,3)]
proof cases
  case (plain st1 b)
  note h = heard_fields[OF plain(2)]
  show ?thesis using h plain(1) plain_sync[OF plain(3)] plain_sent[OF assms(1) plain(3)] assms(4) by auto
next
  case (lost st1 st2 code)
  have "sent (ts_port st') = sent (ts_port st) @ packet E code []" "page st' = page st" "ts_console st' = ts_console st"
    using lost(2,5) heard_fields[OF lost(4)] put_packet_sent[OF assms(1,2)]
    by (auto simp: sending_ops tunerStudioError_def ts_event_def tick_def)
  then show ?thesis using lost(1,3,6) by auto
next
  case (handled st1 n ok)
  then show ?thesis using command_sync[OF handled(5)] assms(4) by simp
next
  case (lone_byte st1)
  then show ?thesis using heard_fields[OF lone_byte(3)] by (simp add: tunerStudioError_def ts_event_def tick_def)
next
  case not_ready
  then show ?thesis by (simp add: ts_event_def)
qed (use heard_fields in auto)

subsection \<open>Requests on the wire\<close>

lemma word16_bytes16: "word16 (bytes16 w ! 0) (bytes16 w ! 1) = w"
  by (rule bit_word_eqI) (auto simp: word16_def bytes16_def bit_simps)

lemma word16_swapped: "word16 (bytes16 (SWAP_UINT16 w) ! 1) (bytes16 (SWAP_UINT16 w) ! 0) = w"
  by (rule bit_word_eqI) (auto simp: word16_def bytes16_def SWAP_UINT16_def bit_simps)

lemma word32_bytes32: "word32 (bytes32 w) = w"
proof (rule bit_word_eqI)
  fix n
  assume "n < LENGTH(32)"
  then have "n < 32" by simp
  then show "bit (word32 (bytes32 w)) n = bit w n"
    by (rule byte_index) (simp_all add: word32_def bytes32_def bit_simps add.commute)
qed

definition request :: "ts_env \<Rightarrow> byte list \<Rightarrow> byte list" where
  "request E payload =
     bytes16 (SWAP_UINT16 (of_nat (length payload))) @ payload @ bytes32 (SWAP_UINT32 (singleCrc E payload))"


lemma read_pending:
  assumes "transport_ok T pending sent" "pending (ts_port st) = map Some bs @ rx"
  obtains w where "port_read T (length bs) t st = (bs, st\<lparr>ts_port := w\<rparr>)" "pending w = rx" "sent w = sent (ts_port st)"
  using that transport_read(2,3)[OF assms(1)] assms(2) by (simp add: port_read_def case_prod_beta)

lemma read_scratch_pending:
  assumes "transport_ok T pending sent" "pending (ts_port st) = map Some bs @ rx"
  obtains w where "read_scratch T p (length bs) t st =
      (length bs, st\<lparr>scratchBuffer := mem_write p bs (scratchBuffer st), ts_port := w\<rparr>)"
    "pending w = rx" "sent w = sent (ts_port st)"
proof -
  obtain w where "port_read T (length bs) t st = (bs, st\<lparr>ts_port := w\<rparr>)" "pending w = rx" "sent w = sent (ts_port st)"
    using read_pending[OF assms] by blast
  then show ?thesis using that[of w] by (simp add: read_scratch_def)
qed

lemma mem_write_split: "mem_write (Suc 0) bs (mem_write 0 [b] buf) = mem_write 0 (b # bs) buf"
  by (cases buf) (simp_all add: mem_write_def)

lemma body_received:
  assumes T: "transport_ok T pending sent" and pend: "pending (ts_port st) = map Some body @ rx"
    and body: "body \<noteq> []" "length body \<le> length (scratchBuffer st)" "isKnownCommand (body ! 0)"
  obtains w where "receive_body T E (length body) st =
      (True, st\<lparr>scratchBuffer := mem_write 0 body (scratchBuffer st), ts_port := w\<rparr>)"
    "pending w = rx" "sent w = sent (ts_port st)"
proof (cases "in_sync st")
  case True
  obtain w where w: "read_scratch T 0 (length body) TS_COMMUNICATION_TIMEOUT st =
      (length body, st\<lparr>scratchBuffer := mem_write 0 body (scratchBuffer st), ts_port := w\<rparr>)"
    "pending w = rx" "sent w = sent (ts_port st)"
    by (rule read_scratch_pending[OF T pend])
  have "mem_write 0 body (scratchBuffer st) ! 0 = body ! 0" using body(1) by (simp add: mem_write_def nth_append)
  then show ?thesis using True w body(3) that[of w] by (simp add: receive_body_def)
next
  case False
  obtain b bs where b: "body = b # bs" using body(1) by (cases body) auto
  have "pending (ts_port st) = map Some [b] @ map Some bs @ rx" using pend b by simp
  from read_scratch_pending[OF T this, of 0 TS_COMMUNICATION_TIMEOUT_SHORT]
  obtain w where w: "read_scratch T 0 1 TS_COMMUNICATION_TIMEOUT_SHORT st =
      (1, st\<lparr>scratchBuffer := mem_write 0 [b] (scratchBuffer st), ts_port := w\<rparr>)"
    "pending w = map Some bs @ rx" "sent w = sent (ts_port st)" by auto
  let ?st = "st\<lparr>scratchBuffer := mem_write 0 [b] (scratchBuffer st), ts_port := w\<rparr>"
  from read_scratch_pending[OF T, of ?st bs rx "Suc 0" TS_COMMUNICATION_TIMEOUT] w(2)
  obtain w2 where w2: "read_scratch T (Suc 0) (length bs) TS_COMMUNICATION_TIMEOUT ?st =
      (length bs, ?st\<lparr>scratchBuffer := mem_write (Suc 0) bs (scratchBuffer ?st), ts_port := w2\<rparr>)"
    "pending w2 = rx" "sent w2 = sent w" by auto
  have "mem_write 0 [b] (scratchBuffer st) ! 0 = b" by (simp add: mem_write_def)
  then show ?thesis using False w w2 b body(3) that[of w2] by (simp add: receive_body_def mem_write_split)
qed

definition receiving ::
  "ts_env \<Rightarrow> byte list \<Rightarrow> 'w \<Rightarrow> ('w, 'c, 'p) ts_state \<Rightarrow> ('w, 'c, 'p) ts_state" where
  "receiving E payload w st =
     st\<lparr>tsState := (tsState st)\<lparr>totalCounter := totalCounter (tsState st) + 1\<rparr>, ts_port := w, in_sync := True,
        scratchBuffer := payload @ bytes32 (SWAP_UINT32 (singleCrc E payload)) @ drop (length payload + CRC_VALUE_SIZE) (scratchBuffer st)\<rparr>"

lemma request_handled:
  assumes T: "transport_ok T pending sent" and ready: "ts_isReady T (ts_port st)"
    and pend: "pending (ts_port st) = map Some (request E payload) @ rx"
    and size: "payload \<noteq> []" "length payload + CRC_VALUE_SIZE \<le> SCRATCH_SIZE" "length (scratchBuffer st) = SCRATCH_SIZE"
    and known: "isKnownCommand (payload ! 0)"
  obtains w where "pending w = rx" "sent w = sent (ts_port st)"
    "tsProcessOne T E st = map_option (\<lambda>(ok, st). (if ok then 0 else -1, st))
       (handleCrcCommand T E (length payload) (receiving E payload w st))"
proof -
  let ?size = "of_nat (length payload) :: 16 word" and ?crc = "bytes32 (SWAP_UINT32 (singleCrc E payload))"
  let ?body = "payload @ ?crc"
  obtain hi lo where hdr: "bytes16 (SWAP_UINT16 ?size) = [hi, lo]" by (simp add: bytes16_def)
  have n: "unat (word16 lo hi) = length payload"
  proof -
    have "word16 lo hi = ?size" using word16_swapped[of ?size] hdr by simp
    moreover have "length payload < 2 ^ 16" using size(2) by simp
    ultimately show ?thesis by (simp add: unat_of_nat)
  qed
  have crc: "length ?crc = 4" by (simp add: bytes32_def)
  let ?st0 = "tick (\<lambda>t. t\<lparr>totalCounter := totalCounter t + 1\<rparr>) st"
  have "pending (ts_port ?st0) = map Some [hi] @ map Some (lo # ?body) @ rx"
    using pend hdr by (simp add: request_def tick_def)
  from read_pending[OF T this, of TS_COMMUNICATION_TIMEOUT]
  obtain w1 where w1: "port_read T 1 TS_COMMUNICATION_TIMEOUT ?st0 = ([hi], ?st0\<lparr>ts_port := w1\<rparr>)"
    "pending w1 = map Some [lo] @ map Some ?body @ rx" "sent w1 = sent (ts_port st)"
    by (auto simp: tick_def)
  from read_pending[OF T, of "?st0\<lparr>ts_port := w1\<rparr>" "[lo]" "map Some ?body @ rx" TS_COMMUNICATION_TIMEOUT_SHORT] w1(2)
  obtain w2 where w2: "port_read T 1 TS_COMMUNICATION_TIMEOUT_SHORT (?st0\<lparr>ts_port := w1\<rparr>) = ([lo], ?st0\<lparr>ts_port := w2\<rparr>)"
    "pending w2 = map Some ?body @ rx" "sent w2 = sent w1"
    by auto
  have len: "length ?body = length payload + CRC_VALUE_SIZE" using crc by simp
  obtain w where w: "receive_body T E (length ?body) (?st0\<lparr>ts_port := w2\<rparr>) =
      (True, ?st0\<lparr>scratchBuffer := mem_write 0 ?body (scratchBuffer st), ts_port := w\<rparr>)"
    "pending w = rx" "sent w = sent w2"
    by (rule body_received[OF T, of "?st0\<lparr>ts_port := w2\<rparr>" ?body rx E])
      (use w2(2) size known len in \<open>auto simp: tick_def nth_append\<close>)
  let ?st3 = "?st0\<lparr>scratchBuffer := mem_write 0 ?body (scratchBuffer st), ts_port := w\<rparr>"
  have one: "tsProcessOne T E st = check_and_handle T E (length payload) ?st3"
    using ready size w w1(1) w2(1) n len by (simp add: tsProcessOne_def tick_def)
  have buf: "scratchBuffer ?st3 = payload @ ?crc @ drop (length payload + CRC_VALUE_SIZE) (scratchBuffer st)"
    using crc by (simp add: mem_write_def)
  have "check_and_handle T E (length payload) ?st3 = map_option (\<lambda>(ok, st). (if ok then 0 else -1, st))
       (handleCrcCommand T E (length payload) (?st3\<lparr>in_sync := True\<rparr>))"
    using crc unfolding check_and_handle_def buf
    by (cases "handleCrcCommand T E (length payload) (?st3\<lparr>in_sync := True\<rparr>)") (simp_all add: word32_bytes32 case_prod_beta)
  moreover have "?st3\<lparr>in_sync := True\<rparr> = receiving E payload w st"
    using buf by (simp add: receiving_def tick_def)
  ultimately show ?thesis using that[of w] one w w1 w2 by simp
qed


subsection \<open>The page\<close>

lemma receiving_fields [simp]:
  "page (receiving E payload w st) = page st" "ts_port (receiving E payload w st) = w"
  "ts_console (receiving E payload w st) = ts_console st" "ts_log (receiving E payload w st) = ts_log st"
  "rebootForPresetPending (receiving E payload w st) = rebootForPresetPending st" "in_sync (receiving E payload w st)"
  "errorCounter (tsState (receiving E payload w st)) = errorCounter (tsState st)"
  "scratchBuffer (receiving E payload w st) = payload @ bytes32 (SWAP_UINT32 (singleCrc E payload)) @
     drop (length payload + CRC_VALUE_SIZE) (scratchBuffer st)"
  by (simp_all add: receiving_def)

text \<open>A request with an offset and a count.\<close>

definition range_request :: "byte \<Rightarrow> 16 word \<Rightarrow> 16 word \<Rightarrow> byte list \<Rightarrow> byte list" where
  "range_request cmd off cnt bytes = cmd # bytes16 off @ bytes16 cnt @ bytes"

lemma range_request_length: "length (range_request cmd off cnt bytes) = length bytes + 5"
  by (simp add: range_request_def bytes16_def)

lemma range_request_read:
  "(range_request cmd off cnt bytes @ xs) ! 0 = cmd"
  "word16 ((range_request cmd off cnt bytes @ xs) ! 1) ((range_request cmd off cnt bytes @ xs) ! 2) = off"
  "word16 ((range_request cmd off cnt bytes @ xs) ! 3) ((range_request cmd off cnt bytes @ xs) ! 4) = cnt"
  using word16_bytes16[of off] word16_bytes16[of cnt]
  by (simp_all add: range_request_def bytes16_def numeral_eq_Suc)

lemma range_command:
  "scratchBuffer st = range_request TS_CHUNK_WRITE_COMMAND off cnt bytes @ xs \<Longrightarrow> handleCrcCommand T E n st =
     Some (True, handleWriteChunkCommand T E (unat off) (unat cnt) 5 st)"
  "scratchBuffer st = range_request TS_READ_COMMAND off cnt bytes @ xs \<Longrightarrow> handleCrcCommand T E n st =
     Some (True, handlePageReadCommand T E (unat off) (unat cnt) st)"
  "scratchBuffer st = range_request TS_CRC_CHECK_COMMAND off cnt bytes @ xs \<Longrightarrow> handleCrcCommand T E n st =
     Some (True, handleCrc32Check T E (unat off) (unat cnt) st)"
  unfolding handleCrcCommand_def Let_def by (simp_all only: range_request_read) simp_all

lemmas received_range_command = range_command[OF receiving_fields(8)]

lemma range_request_scratch:
  "scratch_bytes E 5 (length bytes) (range_request cmd off cnt bytes @ xs) = bytes"
proof (rule nth_equalityI)
  show "scratch_bytes E 5 (length bytes) (range_request cmd off cnt bytes @ xs) ! i = bytes ! i"
    if "i < length (scratch_bytes E 5 (length bytes) (range_request cmd off cnt bytes @ xs))" for i
    using that by (simp add: scratch_bytes_def range_request_def bytes16_def nth_append)
qed simp

lemma scratch_bytes_behind:
  assumes "p \<le> length buf" "length buf \<le> p + n"
  shows "scratch_bytes E p n buf = drop p buf @ map (memory_after E) [0..<p + n - length buf]"
proof -
  let ?f = "\<lambda>i. if i < length buf then buf ! i else memory_after E (i - length buf)"
  have "[p..<p + n] = [p..<length buf] @ [length buf..<p + n]"
    using assms by (metis upt_add_eq_append le_add_diff_inverse)
  moreover have "map ?f [p..<length buf] = drop p buf"
    by (rule nth_equalityI) (use assms in auto)
  moreover have "map ?f [length buf..<p + n] = map (memory_after E) [0..<p + n - length buf]"
    by (rule nth_equalityI) simp_all
  ultimately show ?thesis by (simp add: scratch_bytes_def)
qed

text \<open>Receiving a request with a range.\<close>

lemma range_request_handled:
  assumes "transport_ok T pending sent" "\<forall>w. ts_isReady T w" "ts_inv E st"
    and "pending (ts_port st) = map Some (request E (range_request cmd off cnt bytes)) @ rx"
    and "length bytes + 9 \<le> SCRATCH_SIZE"
    and "cmd \<in> {TS_CHUNK_WRITE_COMMAND, TS_READ_COMMAND, TS_CRC_CHECK_COMMAND}"
  obtains w where "pending w = rx" "sent w = sent (ts_port st)"
    "tsProcessOne T E st = map_option (\<lambda>(ok, st). (if ok then 0 else -1, st))
       (handleCrcCommand T E (length (range_request cmd off cnt bytes)) (receiving E (range_request cmd off cnt bytes) w st))"
proof (rule request_handled[OF assms(1) _ assms(4)])
  show "range_request cmd off cnt bytes \<noteq> []" by (simp add: range_request_def)
  show "isKnownCommand (range_request cmd off cnt bytes ! 0)"
    using assms(6) by (auto simp: range_request_def isKnownCommand_def)
qed (use that assms(2,3,5) in \<open>auto simp: ts_inv_def range_request_length\<close>)

lemma chunk_written:
  assumes "env_ok E" "transport_ok T pending sent" "unat off + unat cnt \<le> TOTAL_CONFIG_SIZE E" "\<not> rebootForPresetPending st"
  defines "st' \<equiv> handleWriteChunkCommand T E (unat off) (unat cnt) 5 st"
  shows "page st' = setBoardConfigOverrides E (mem_write (unat off) (scratch_bytes E 5 (unat cnt) (scratchBuffer st)) (page st))"
    "sent (ts_port st') = sent (ts_port st) @ packet E TS_RESPONSE_OK []" "pending (ts_port st') = pending (ts_port st)"
    "rebootForPresetPending st' = rebootForPresetPending st"
    "ts_log st' = ts_log st @ (if 5 + unat cnt > length (scratchBuffer st) then [OutOfBounds] else [])"
  using assms put_packet_sent[OF assms(2,1)] by (auto simp: st'_def handleWriteChunkCommand_def ts_ops)

text \<open>C36: A chunk written to the configuration page by a request on the wire is answered, and a read request
  for the same range is answered with exactly the bytes written; the rest of the page is as before, but for
  what the board overrides.\<close>

theorem written_chunk_reads_back:
  assumes "transport_ok T pending sent" "env_ok E" "ts_inv E st" "\<forall>w. ts_isReady T w" "\<not> rebootForPresetPending st"
    and "pending (ts_port st) =
      map Some (request E (range_request TS_CHUNK_WRITE_COMMAND off cnt bytes) @ request E (range_request TS_READ_COMMAND off cnt []))"
    and "unat cnt = length bytes" "length bytes + 9 \<le> SCRATCH_SIZE" "unat off + unat cnt \<le> TOTAL_CONFIG_SIZE E"
    and "\<forall>p. take (unat cnt) (drop (unat off) (setBoardConfigOverrides E p)) = take (unat cnt) (drop (unat off) p)"
  shows "\<exists>st'. ThreadTask T E 2 st = Some ([0, 0], st') \<and>
    page st' = setBoardConfigOverrides E (mem_write (unat off) bytes (page st)) \<and>
    sent (ts_port st') = sent (ts_port st) @ packet E TS_RESPONSE_OK [] @ packet E TS_RESPONSE_OK bytes"
proof -
  let ?W = "range_request TS_CHUNK_WRITE_COMMAND off cnt bytes" and ?R = "range_request TS_READ_COMMAND off cnt []"
  have "pending (ts_port st) = map Some (request E ?W) @ map Some (request E ?R)" using assms(6) by simp
  from range_request_handled[OF assms(1,4,3) this assms(8)] obtain w where
    w: "pending w = map Some (request E ?R)" "sent w = sent (ts_port st)"
    "tsProcessOne T E st = map_option (\<lambda>(ok, st). (if ok then 0 else -1, st))
       (handleCrcCommand T E (length ?W) (receiving E ?W w st))" by auto
  let ?st1 = "handleWriteChunkCommand T E (unat off) (unat cnt) 5 (receiving E ?W w st)"
  note cw = chunk_written[OF assms(2,1,9), of "receiving E ?W w st"]
  have one: "tsProcessOne T E st = Some (0, ?st1)" using w(3) by (simp add: received_range_command)
  have page1: "page ?st1 = setBoardConfigOverrides E (mem_write (unat off) bytes (page st))"
    using cw(1) assms(5,7) by (simp add: range_request_scratch)
  have inv: "ts_inv E ?st1" using process_total[OF assms(1-3)] assms(3) one by (auto simp: keeps_def)
  have "pending (ts_port ?st1) = map Some (request E ?R) @ []" using cw(3) assms(5) w(1) by simp
  from range_request_handled[OF assms(1,4) inv this] obtain w2 where
    w2: "sent w2 = sent (ts_port ?st1)" "tsProcessOne T E ?st1 = map_option (\<lambda>(ok, st). (if ok then 0 else -1, st))
       (handleCrcCommand T E (length ?R) (receiving E ?R w2 ?st1))" by auto
  let ?st2 = "handlePageReadCommand T E (unat off) (unat cnt) (receiving E ?R w2 ?st1)"
  have two: "tsProcessOne T E ?st1 = Some (0, ?st2)" using w2(2) by (simp add: received_range_command)
  have "length (page st) = TOTAL_CONFIG_SIZE E" using assms(3) by (simp add: ts_inv_def)
  then have "take (unat cnt) (drop (unat off) (mem_write (unat off) bytes (page st))) = bytes"
    using assms(7,9) by (simp add: mem_write_def)
  then have "page ?st2 = page ?st1" "sent (ts_port ?st2) = sent (ts_port ?st1) @ packet E TS_RESPONSE_OK bytes"
    using cw(4) assms(5,9,10) w2(1) page1 put_packet_sent[OF assms(1,2)] by (simp_all add: handlePageReadCommand_def ts_ops)
  moreover have "ThreadTask T E 2 st = Some ([0, 0], ?st2)" using one two by (simp add: numeral_2_eq_2)
  ultimately show ?thesis using page1 cw(2) assms(5) w(2) by simp
qed


text \<open>C37: A range outside of the configuration page is refused: the page is as before, the error counter goes
  up by one, and the answer is one packet with the code for out of range.\<close>

theorem out_of_range_refused:
  assumes "transport_ok T pending sent" "env_ok E" "ts_inv E st" "\<forall>w. ts_isReady T w" "\<not> rebootForPresetPending st"
    and "pending (ts_port st) = map Some (request E (range_request cmd off cnt bytes)) @ rx"
    and "cmd \<in> {TS_CHUNK_WRITE_COMMAND, TS_READ_COMMAND, TS_CRC_CHECK_COMMAND}"
    and "length bytes + 9 \<le> SCRATCH_SIZE" "TOTAL_CONFIG_SIZE E < unat off + unat cnt"
  shows "\<exists>st'. tsProcessOne T E st = Some (0, st') \<and> page st' = page st \<and>
    errorCounter (tsState st') = errorCounter (tsState st) + 1 \<and>
    sent (ts_port st') = sent (ts_port st) @ packet E TS_RESPONSE_OUT_OF_RANGE []"
proof -
  obtain w where w: "sent w = sent (ts_port st)"
    "tsProcessOne T E st = map_option (\<lambda>(ok, st). (if ok then 0 else -1, st))
       (handleCrcCommand T E (length (range_request cmd off cnt bytes)) (receiving E (range_request cmd off cnt bytes) w st))"
    using range_request_handled[OF assms(1,4,3,6,8,7)] by blast
  consider "cmd = TS_CHUNK_WRITE_COMMAND" | "cmd = TS_READ_COMMAND" | "cmd = TS_CRC_CHECK_COMMAND" using assms(7) by auto
  then show ?thesis
    by cases (use w assms(5,9) put_packet_sent[OF assms(1,2)] in \<open>simp_all add: received_range_command ts_ops
      handleWriteChunkCommand_def handlePageReadCommand_def handleCrc32Check_def\<close>)
qed

text \<open>C38: The count of a chunk write is not compared with the size of the packet. A request of five bytes
  without any data and a count above 1325 is answered with OK, and what it writes to the configuration page
  are the bytes of its checksum, the rest of the scratch buffer with the end of earlier packets, and the
  memory behind it.\<close>

theorem chunk_write_overread:
  assumes "transport_ok T pending sent" "env_ok E" "ts_inv E st" "\<forall>w. ts_isReady T w" "\<not> rebootForPresetPending st"
    and "pending (ts_port st) = map Some (request E (range_request TS_CHUNK_WRITE_COMMAND off cnt [])) @ rx"
    and "1325 < unat cnt" "unat off + unat cnt \<le> TOTAL_CONFIG_SIZE E"
  shows "\<exists>st'. tsProcessOne T E st = Some (0, st') \<and> ts_log st' = ts_log st @ [OutOfBounds] \<and>
    sent (ts_port st') = sent (ts_port st) @ packet E TS_RESPONSE_OK [] \<and>
    page st' = setBoardConfigOverrides E (mem_write (unat off)
      (bytes32 (SWAP_UINT32 (singleCrc E (range_request TS_CHUNK_WRITE_COMMAND off cnt []))) @ drop 9 (scratchBuffer st) @
       map (memory_after E) [0..<unat cnt - 1325]) (page st))"
proof -
  let ?W = "range_request TS_CHUNK_WRITE_COMMAND off cnt []"
  have "length ([] :: byte list) + 9 \<le> SCRATCH_SIZE" by simp
  from range_request_handled[OF assms(1,4,3,6) this] obtain w where w: "sent w = sent (ts_port st)"
    "tsProcessOne T E st = map_option (\<lambda>(ok, st). (if ok then 0 else -1, st)) (handleCrcCommand T E (length ?W) (receiving E ?W w st))"
    by auto
  have size: "length (scratchBuffer st) = SCRATCH_SIZE" using assms(3) by (simp add: ts_inv_def)
  let ?buf = "scratchBuffer (receiving E ?W w st)"
  have buf: "?buf = ?W @ bytes32 (SWAP_UINT32 (singleCrc E ?W)) @ drop 9 (scratchBuffer st)"
    by (simp add: range_request_length)
  have len: "length ?buf = SCRATCH_SIZE" unfolding buf using size by (simp add: range_request_length bytes32_def)
  have five: "drop 5 ?buf = bytes32 (SWAP_UINT32 (singleCrc E ?W)) @ drop 9 (scratchBuffer st)"
    unfolding buf by (simp add: range_request_length)
  have "scratch_bytes E 5 (unat cnt) ?buf = drop 5 ?buf @ map (memory_after E) [0..<unat cnt - 1325]"
    using scratch_bytes_behind[of 5 ?buf "unat cnt" E] len assms(7) by (simp del: receiving_fields(8))
  then have bytes: "scratch_bytes E 5 (unat cnt) ?buf = bytes32 (SWAP_UINT32 (singleCrc E ?W)) @ drop 9 (scratchBuffer st) @
       map (memory_after E) [0..<unat cnt - 1325]" unfolding five by simp
  note cw = chunk_written[OF assms(2,1,8), of "receiving E ?W w st"]
  let ?st' = "handleWriteChunkCommand T E (unat off) (unat cnt) 5 (receiving E ?W w st)"
  have "tsProcessOne T E st = Some (0, ?st')" using w(2) by (simp add: received_range_command)
  moreover have "ts_log ?st' = ts_log st @ [OutOfBounds]" using cw(5) len assms(5,7) by (simp del: receiving_fields(8))
  moreover have "sent (ts_port ?st') = sent (ts_port st) @ packet E TS_RESPONSE_OK []" using cw(2) assms(5) w(1) by simp
  moreover have "page ?st' = setBoardConfigOverrides E (mem_write (unat off) (bytes32 (SWAP_UINT32 (singleCrc E ?W)) @
      drop 9 (scratchBuffer st) @ map (memory_after E) [0..<unat cnt - 1325]) (page st))"
    using cw(1) assms(5) bytes by (simp del: receiving_fields(8))
  ultimately show ?thesis by blast
qed

subsection \<open>Console commands over the protocol\<close>

text \<open>C39: The text of an execute request reaches the console trimmed of its spaces, with all it does there, and
  the request is answered with OK when the console is done; the page is as before.\<close>

theorem execute_runs_command:
  assumes "transport_ok T pending sent" "env_ok E" "ts_inv E st" "ts_isReady T (ts_port st)"
    and "pending (ts_port st) = map Some (request E (TS_EXECUTE # map byte_of_char cmd)) @ rx"
    and "NUL \<notin> set cmd" "length cmd + 5 \<le> SCRATCH_SIZE"
  shows "\<exists>st' con. tsProcessOne T E st = Some (0, st') \<and>
    handleConsoleLine (textfw E) (Some (strip_spaces cmd)) (ts_console st) = Some con \<and> ts_console st' = con \<and>
    page st' = page st \<and> sent (ts_port st') = sent (ts_port st) @ packet E TS_RESPONSE_OK []"
proof -
  let ?P = "TS_EXECUTE # map byte_of_char cmd"
  have size: "length (scratchBuffer st) = SCRATCH_SIZE" using assms(3) by (simp add: ts_inv_def)
  obtain w where w: "sent w = sent (ts_port st)"
    "tsProcessOne T E st = map_option (\<lambda>(ok, st). (if ok then 0 else -1, st)) (handleCrcCommand T E (length ?P) (receiving E ?P w st))"
    by (rule request_handled[OF assms(1,4,5)]) (use assms(7) size in \<open>auto simp: isKnownCommand_def\<close>)
  let ?st = "receiving E ?P w st"
  have inv: "ts_inv E ?st" using assms(3,7) size by (simp add: ts_inv_def receiving_def bytes32_def)
  obtain b bs where crc: "bytes32 (SWAP_UINT32 (singleCrc E ?P)) = b # bs" by (simp add: bytes32_def)
  have "(scratchBuffer ?st)[length ?P := 0] = ?P @ 0 # bs @ drop (length ?P + CRC_VALUE_SIZE) (scratchBuffer st)"
    by (simp add: crc list_update_append)
  then have "map char_of_byte ((scratchBuffer ?st)[length ?P := 0]) =
      [char_of_byte TS_EXECUTE] @ cmd @ NUL # map char_of_byte (bs @ drop (length ?P + CRC_VALUE_SIZE) (scratchBuffer st))"
    by (simp add: comp_def)
  then have cmd: "command_text (length ?P) (scratchBuffer ?st) = cmd"
    using c_string_append[OF assms(6), of "[char_of_byte TS_EXECUTE]"] unfolding command_text_def by simp
  have n: "0 < length ?P" "length ?P < SCRATCH_SIZE" using assms(7) by simp_all
  obtain con buf where e: "handleConsoleLine (textfw E) (Some (strip_spaces cmd)) (ts_console st) = Some con"
    "handleExecuteCommand T E 1 (length ?P - 1) ?st =
     Some (?st\<lparr>scratchBuffer := buf, ts_console := con, ts_port := put_packet T E TS_RESPONSE_OK [] (ts_port ?st)\<rparr>)"
    by (rule execute_runs[OF inv assms(2) n, where T = T, unfolded cmd]) simp
  have "handleCrcCommand T E (length ?P) ?st = map_option (Pair True) (handleExecuteCommand T E 1 (length ?P - 1) ?st)"
    by (simp add: handleCrcCommand_def)
  then have "tsProcessOne T E st = Some (0, ?st\<lparr>scratchBuffer := buf, ts_console := con, ts_port := put_packet T E TS_RESPONSE_OK [] w\<rparr>)"
    using w(2) e(2) by simp
  then show ?thesis using e(1) w(1) put_packet_sent[OF assms(1,2)] by simp
qed


subsection \<open>The tooth log\<close>

text \<open>A request for the tooth log is answered with two packets, and an unknown switch of the logger with none.\<close>

lemma composite_read_answers_twice:
  assumes "transport_ok T pending sent" "env_ok E" "tooth_buffer E = Some bytes"
  shows "\<exists>st'. logger_switch T E TS_COMPOSITE_READ st = (True, st') \<and>
    sent (ts_port st') = sent (ts_port st) @ packet E TS_RESPONSE_OK bytes @ packet E TS_RESPONSE_OK []"
  using assms(3) put_packet_sent[OF assms(1,2)] by (simp add: logger_switch_def ts_ops)

lemma unknown_switch_unanswered:
  "sub \<notin> {TS_COMPOSITE_ENABLE, TS_COMPOSITE_DISABLE, TS_COMPOSITE_READ} \<Longrightarrow> logger_switch T E sub st = (False, st)"
  by (simp add: logger_switch_def)

subsection \<open>Concrete channels\<close>

text \<open>A wire with the bytes to come and the bytes sent, and the CRC-32 of Ethernet.\<close>

definition wire :: "(byte option list \<times> byte list) ts_transport" where
  "wire = \<lparr>ts_write = (\<lambda>bs e (rx, tx). (rx, tx @ bs)),
     ts_readTimeout = (\<lambda>n t (rx, tx). let (bs, rx) = take_bytes n rx in (bs, (rx, tx))),
     ts_flush = (\<lambda>w. w), ts_isReady = (\<lambda>w. True)\<rparr>"

lemma wire_ok: "transport_ok wire fst snd"
  by (simp add: transport_ok_def wire_def case_prod_beta)

definition crc32_step :: "byte \<Rightarrow> 32 word \<Rightarrow> 32 word" where
  "crc32_step b c = ((\<lambda>c. if bit c 0 then drop_bit 1 c XOR 0xEDB88320 else drop_bit 1 c) ^^ 8) (c XOR ucast b)"

definition demo_env :: ts_env where
  "demo_env = \<lparr>TOTAL_CONFIG_SIZE = 2000, TS_TOTAL_OUTPUT_SIZE = 4, ts_signature = [0x46, 0x4F], TS_PROTOCOL = [0x30, 0x30, 0x31],
     firmware_version = [0x31], crc32inc = (\<lambda>bs c. NOT (fold crc32_step bs (NOT c))), live_data = (\<lambda>offset cnt. replicate cnt 0),
     setBoardConfigOverrides = (\<lambda>p. p), tooth_buffer = None, perf_trace = None, critical_error = [], bootloader_info = 0,
     overall_status = [], memory_after = (\<lambda>i. 0xAA), memory_at_null = (\<lambda>i. 0), textfw = textfw_example\<rparr>"

lemma demo_env_ok: "env_ok demo_env"
  by (simp add: env_ok_def demo_env_def textfw_example_ok)

definition demo_ts :: "byte option list \<Rightarrow> (byte option list \<times> byte list, nat, unit) ts_state" where
  "demo_ts rx = \<lparr>scratchBuffer = replicate 1330 0, in_sync = False, ts_port = (rx, []), page = replicate 2000 0,
     tsState = \<lparr>queryCommandCounter = 0, outputChannelsCommandCounter = 0, readPageCommandsCounter = 0, burnCommandCounter = 0,
       writeValueCommandCounter = 0, crc32CheckCommandCounter = 0, writeChunkCommandCounter = 0, errorCounter = 0,
       totalCounter = 0, textCommandCounter = 0\<rparr>,
     rebootForPresetPending = False, ts_console = demo_console, ts_text = demo_text, ts_events = [], ts_log = []\<rparr>"

lemma demo_ts_inv: "ts_inv demo_env (demo_ts rx)"
  using demo_text_ok by (auto simp: ts_inv_def demo_ts_def demo_env_def demo_console_fields)

lemma demo_ready: "\<forall>w. ts_isReady wire w" "ts_isReady wire w" "\<not> rebootForPresetPending (demo_ts rx)"
  "fst (ts_port (demo_ts rx)) = rx"
  by (simp_all add: wire_def demo_ts_def)

lemma protocol_always_answers_witness:
  "\<exists>rs st'. ThreadTask wire demo_env 3 (demo_ts [Some 0, None, Some 7]) = Some (rs, st') \<and> length rs = 3 \<and> ts_inv demo_env st' \<and>
    (\<exists>ds. ts_log st' = ts_log (demo_ts [Some 0, None, Some 7]) @ ds \<and> set ds \<subseteq> {OutOfBounds})"
  by (rule protocol_always_answers[OF wire_ok demo_env_ok demo_ts_inv])

lemma one_error_per_loss_of_sync_witness:
  "\<exists>r st'. tsProcessOne wire demo_env (demo_ts [Some 0, Some 0]) = Some (r, st') \<and> r = -1 \<and> page st' = replicate 2000 0"
proof -
  have t: "tsProcessOne wire demo_env (demo_ts [Some 0, Some 0]) =
    Some (-1, (demo_ts [Some 0, Some 0])\<lparr>tsState := (tsState (demo_ts []))\<lparr>totalCounter := 1\<rparr>, ts_port := ([], []), in_sync := False\<rparr>)"
    by (simp add: tsProcessOne_def wire_def demo_ts_def tick_def port_read_def word16_def)
  then have "r = -1 \<and> page st' = page (demo_ts [Some 0, Some 0])"
    if "tsProcessOne wire demo_env (demo_ts [Some 0, Some 0]) = Some (r, st')" for r st'
    using one_error_per_loss_of_sync[OF wire_ok demo_env_ok that] that by simp
  then show ?thesis using t by (simp add: demo_ts_def)
qed

lemma written_chunk_reads_back_witness:
  "\<exists>st'. ThreadTask wire demo_env 2 (demo_ts (map Some (request demo_env (range_request TS_CHUNK_WRITE_COMMAND 16 3 [7, 8, 9]) @
        request demo_env (range_request TS_READ_COMMAND 16 3 [])))) = Some ([0, 0], st') \<and>
    page st' = setBoardConfigOverrides demo_env (mem_write (unat (16 :: 16 word)) [7, 8, 9] (page (demo_ts []))) \<and>
    snd (ts_port st') = snd (ts_port (demo_ts [])) @ packet demo_env TS_RESPONSE_OK [] @ packet demo_env TS_RESPONSE_OK [7, 8, 9]"
proof -
  let ?rx = "map Some (request demo_env (range_request TS_CHUNK_WRITE_COMMAND 16 3 [7, 8, 9]) @
        request demo_env (range_request TS_READ_COMMAND 16 3 []))"
  have "\<exists>st'. ThreadTask wire demo_env 2 (demo_ts ?rx) = Some ([0, 0], st') \<and>
    page st' = setBoardConfigOverrides demo_env (mem_write (unat (16 :: 16 word)) [7, 8, 9] (page (demo_ts ?rx))) \<and>
    snd (ts_port st') = snd (ts_port (demo_ts ?rx)) @ packet demo_env TS_RESPONSE_OK [] @ packet demo_env TS_RESPONSE_OK [7, 8, 9]"
    by (rule written_chunk_reads_back[OF wire_ok demo_env_ok demo_ts_inv demo_ready(1,3,4)]) (simp_all add: demo_env_def)
  then show ?thesis by (simp add: demo_ts_def)
qed

lemma out_of_range_refused_witness:
  "\<exists>st'. tsProcessOne wire demo_env (demo_ts (map Some (request demo_env (range_request TS_READ_COMMAND 1999 2 [])))) = Some (0, st') \<and>
    page st' = replicate 2000 0 \<and> errorCounter (tsState st') = 1 \<and>
    snd (ts_port st') = packet demo_env TS_RESPONSE_OUT_OF_RANGE []"
proof -
  let ?rx = "map Some (request demo_env (range_request TS_READ_COMMAND 1999 2 []))"
  have "fst (ts_port (demo_ts ?rx)) = ?rx @ []" by (simp add: demo_ts_def)
  from out_of_range_refused[OF wire_ok demo_env_ok demo_ts_inv demo_ready(1,3) this]
  show ?thesis by (simp add: demo_env_def) (simp add: demo_ts_def)
qed

lemma chunk_write_overread_witness:
  "\<exists>st'. tsProcessOne wire demo_env (demo_ts (map Some (request demo_env (range_request TS_CHUNK_WRITE_COMMAND 0 1400 [])))) = Some (0, st') \<and>
    ts_log st' = [OutOfBounds]"
proof -
  let ?rx = "map Some (request demo_env (range_request TS_CHUNK_WRITE_COMMAND 0 1400 []))"
  have "fst (ts_port (demo_ts ?rx)) = ?rx @ []" by (simp add: demo_ts_def)
  from chunk_write_overread[OF wire_ok demo_env_ok demo_ts_inv demo_ready(1,3) this]
  have "\<exists>st'. tsProcessOne wire demo_env (demo_ts ?rx) = Some (0, st') \<and> ts_log st' = ts_log (demo_ts ?rx) @ [OutOfBounds]"
    by (auto simp: demo_env_def)
  then show ?thesis by (simp add: demo_ts_def)
qed

lemma execute_runs_command_witness:
  "\<exists>st' con. tsProcessOne wire demo_env (demo_ts (map Some (request demo_env (TS_EXECUTE # map byte_of_char '' set fuel 7 '')))) = Some (0, st') \<and>
    handleConsoleLine textfw_example (Some ''set fuel 7'') demo_console = Some con \<and> ts_console st' = con"
proof -
  let ?rx = "map Some (request demo_env (TS_EXECUTE # map byte_of_char '' set fuel 7 ''))"
  have "fst (ts_port (demo_ts ?rx)) = ?rx @ []" by (simp add: demo_ts_def)
  from execute_runs_command[OF wire_ok demo_env_ok demo_ts_inv demo_ready(2) this]
  have "\<exists>st' con. tsProcessOne wire demo_env (demo_ts ?rx) = Some (0, st') \<and>
    handleConsoleLine (textfw demo_env) (Some (strip_spaces '' set fuel 7 '')) (ts_console (demo_ts ?rx)) = Some con \<and> ts_console st' = con"
    by auto
  then show ?thesis by (simp add: strip_spaces_def) (simp add: demo_env_def demo_ts_def)
qed

end
