(* ===== verification/Spec2Isabelle.thy ===== *)
theory Spec2Isabelle
  imports Trigger_Shapes Angle_Index Wheel_Sync Decoder_Errors Timer_Executor Containers Trigger_Central Central_Properties Scheduler_Properties Serial_Can_Properties Rpm_Properties Console_Properties Tuner_Requests
begin

text \<open>
  A verification library for the FOME engine control firmware (the directory \<^verbatim>\<open>src/firmware\<close>).

  \<^bold>\<open>The program.\<close> The firmware reads a toothed wheel on the crankshaft and wheels on the camshafts, works out
  where in its cycle the engine is and how fast it turns, and sets off sparks, injections and other actions at
  angles of that cycle. The library models the path from an edge of a sensor to an action in time:

  \<^item> a \<^emph>\<open>shape\<close> says which teeth a wheel has and how its synchronization point is recognized;
  \<^item> the \<^emph>\<open>decoder\<close> consumes edges with their times, finds the synchronization point by the ratios of the
    gaps between them, and counts teeth and cycles;
  \<^item> the \<^emph>\<open>trigger central\<close> feeds the decoders of crank and cams, translates a tooth to an angle of the engine
    cycle, and tells the listeners the range of angles from this tooth to the next;
  \<^item> the \<^emph>\<open>speed calculators\<close> listen to the teeth and keep the speed and the state of the engine;
  \<^item> the \<^emph>\<open>trigger scheduler\<close> holds events by angle and hands those of the current range to the
  \<^item> \<^emph>\<open>executor\<close>, which keeps a queue of events by time and one hardware timer.

  Beside this path the library models the containers these parts use, and how a user talks to the firmware: the
  byte stream over CAN, the protocol of the tuning software over any channel, the interpreter of console
  commands, and the buffers of text output.

  \<^bold>\<open>The theories.\<close> In the order in which they build on each other; file names are relative to \<^verbatim>\<open>src/firmware\<close>,
  and a definition has the name of the C++ function unless that name is taken in HOL.

  \<^item> \<open>Fome_Prelude\<close>: the error log (\<open>diag\<close>: \<^verbatim>\<open>firmwareError\<close> and \<^verbatim>\<open>warning\<close> record a code and return), C floats
    (\<open>xfloat\<close>, truncation and rounding), and the functions of the \<^verbatim>\<open>libfirmware\<close> submodule, whose sources are not in the
    repository: the record \<open>libfw\<close> with the hypothesis \<open>libfw_ok\<close> on documented behaviour.
  \<^item> \<open>Trigger_Types\<close>, \<open>State_Sequence\<close>, \<open>Trigger_Structure\<close>: the enumerations, \<^verbatim>\<open>core/state_sequence\<close>, and the class
    \<^verbatim>\<open>TriggerWaveform\<close> of \<^verbatim>\<open>decoders/trigger_structure\<close> as the record \<open>trigger_waveform\<close>, one definition per method.
  \<^item> \<open>Shapes_Universal\<close>, \<open>Shapes_Europe\<close>, \<open>Shapes_Chrysler\<close>, \<open>Shapes_Mazda\<close>, \<open>Shapes_Nissan\<close>: the functions of
    \<^verbatim>\<open>decoders/trigger_*.cpp\<close>, statement by statement; \<open>Shape_Library\<close> holds the invariant of a waveform under
    construction and its normal form, \<open>Toothed_Wheel\<close> the wheels of every tooth count, \<open>Trigger_Shapes\<close> the switch over all types.
  \<^item> \<open>Event_Angles\<close>, \<open>Angle_Index\<close>: wrapping of angles, the angles of the decoded events, and the search in them.
  \<^item> \<open>Timer_Model\<close>: \<^verbatim>\<open>util/timer\<close>. \<open>Trigger_Decoder\<close>: \<^verbatim>\<open>trigger_decoder.cpp\<close>, the state machine of an edge (record \<open>decoder\<close>).
    \<open>Decoder_Sync\<close>, \<open>Wheel_Sync\<close>: the decoder on a train of edges. \<open>Decoder_Errors\<close>: the decoder on wrong input.
  \<^item> \<open>Trigger_Simulator\<close>: \<^verbatim>\<open>trigger_simulator.cpp\<close>, the decoder run on a simulated turn of a shape to find its synchronization point.
  \<^item> \<open>Engine_Phase\<close>, \<open>Trigger_Central\<close>, \<open>Central_Properties\<close>: \<^verbatim>\<open>engine_phase_angle.h\<close> and \<^verbatim>\<open>trigger_central.cpp\<close> (record \<open>central\<close>);
    what other modules do when they are called is recorded in \<open>tc_calls\<close>.
  \<^item> \<open>Timed_Queue\<close> (locale), \<open>Event_Queue\<close>, \<open>Queue_Properties\<close>, \<open>Timer_Executor\<close>: \<^verbatim>\<open>system/timer/event_queue\<close> over an explicit store of
    linked objects, and \<^verbatim>\<open>single_timer_executor.cpp\<close> with the hardware timer; callbacks are functions on the whole state.
  \<^item> \<open>Linked_List\<close>, \<open>Trigger_Scheduler\<close>, \<open>Scheduler_Properties\<close>: the macros of \<^verbatim>\<open>utlist.h\<close> and \<^verbatim>\<open>trigger_scheduler.cpp\<close>.
  \<^item> \<open>Instant_Rpm\<close>, \<open>Rpm_Calculator\<close>, \<open>Rpm_Properties\<close>: \<^verbatim>\<open>instant_rpm_calculator.cpp\<close>, \<^verbatim>\<open>rpm_calculator.cpp\<close> and the handlers of
    \<^verbatim>\<open>engine.cpp\<close> for a good edge and for lost synchronization.
  \<^item> \<open>Bounded_Queue\<close> (locale), \<open>Containers\<close>: \<^verbatim>\<open>util/containers\<close>. \<open>Serial_Can\<close>, \<open>Serial_Can_Properties\<close>: \<^verbatim>\<open>console/binary/serial_can\<close> with
    \<^verbatim>\<open>can_msg_tx.cpp\<close> and the listener of received frames.
  \<^item> \<open>Efi_Text\<close>: the text functions of \<^verbatim>\<open>util/efilib\<close>; \<open>Console_Line\<close>, \<open>Console_Properties\<close>: \<^verbatim>\<open>util/cli_registry.cpp\<close>, the registry of
    commands and the interpreter of a line in its buffer (record \<open>console\<close>). \<open>Text_Log\<close>: \<^verbatim>\<open>util/loggingcentral.cpp\<close> and
    \<^verbatim>\<open>util/datalogging.cpp\<close>.
  \<^item> \<open>Tuner_Studio\<close>, \<open>Tuner_Properties\<close>, \<open>Tuner_Requests\<close>: \<^verbatim>\<open>console/binary/tunerstudio.cpp\<close>, \<^verbatim>\<open>tunerstudio_commands.cpp\<close> and
    \<^verbatim>\<open>tunerstudio_io.cpp\<close> (record \<open>ts_state\<close>): packets, the loop over requests, and every command. The page of the configuration is a list
    of bytes; the checksum, the live data and the signature are parameters.

  \<^bold>\<open>Interfaces.\<close> Four contracts are locales: \<open>bounded_queue\<close> (interpreted on \<^verbatim>\<open>fifo_buffer\<close>), \<open>timed_queue\<close> (on
  \<^verbatim>\<open>EventQueue\<close>), \<open>angle_executor\<close> with its extension \<open>quiet_callbacks\<close> (on the executor with callbacks that do not
  schedule actions of their own), and \<open>can_link\<close> (on the CAN streamer whose driver takes every frame). The lemmas of the clients are
  proved once inside them.

  \<^bold>\<open>What is shown.\<close> Shapes: every built-in shape and every custom wheel that fits is well formed. Decoder: on a
  missing-tooth wheel it synchronizes and then names every tooth for ever; indices stay in range; wrong teeth drop
  synchronization with one message. Angles: the two phase spaces are inverse to each other, the ranges given to the listeners tile the
  cycle, the binary search finds the last event. The angles
  prepared for a shape increase from the synchronization point, on both edges or on rising edges only. Executor: the queue is sorted and its pool
  accounted for in every reachable state, no event is lost; when the timer callback returns, what was due has run, in order and not early, and the
  timer is set for the rest. Scheduler: a tooth hands over exactly the events before the next tooth, each at the time of its angle, in place of what
  overdwell protection may have scheduled for it (\<open>entries\<close> lists what the executor holds by object). Speed: state and value agree in every reachable state, and the speeds are exact at constant speed. CAN: a stream
  comes back byte for byte however it is cut. Console: a line is split into its words and answered, and a command gets the
  arguments it was registered with. Tuning protocol: every round returns and keeps the memory in order, a written chunk reads back,
  ranges outside of the page are refused, and errors are answered once per loss of synchronization. Text output: what is fetched
  is what was written. Several theorems state what goes wrong outside the intended use
  (arrays that are too short, loops that never end, bytes that are lost); the manifest lists them as findings.

  \<^bold>\<open>Conventions.\<close> Floats are exact rationals, with \<open>xfloat\<close> where the code handles not-a-number or infinities: the theorems say
  nothing about rounding. Machine integers are words where they wrap and \<open>int\<close> or \<open>nat\<close> where the code keeps them
  small; ticks of the clock are \<open>int\<close>, four per microsecond as on the STM32. Reads and writes outside an array
  leave the mark \<open>OutOfBounds\<close> in the log, or make the result \<open>None\<close>. A loop that need not end is a
  \<^theory_text>\<open>partial_function (option)\<close>, so that \<open>None\<close> also means that it does not return; where the code relies on its end, that it is
  \<open>Some\<close> is a theorem. No fuel is used. \<^verbatim>\<open>efiAssert\<close> is modelled as enabled: it records the error and returns. Code compiled for
  unit tests only is left out. The current time is an argument, or a clock that gives the time of the \<open>n\<close>-th reading.
  Interrupts are not interleaved with each other: a handler is one step. What a decoder tells its listener is recorded as
  a call; the work of the engine's listeners is modelled in \<open>Rpm_Calculator\<close> as steps of their own. In the theorems on the executor and the
  trigger scheduler callbacks change only the state outside of the executor; in the definitions they may change all of it.

  \<^bold>\<open>Not modelled.\<close> Vendored code (\<^verbatim>\<open>ext\<close>: FatFS, the WiFi driver; ChibiOS is a submodule), hardware ports, generated
  tables and structures, the Lua host, the status loop, binary logs and threads of the console, the configuration of boards
  and engines, and of the engine functions fuel, ignition, idle, throttle, boost, knock, sensors and gauges, which read the angles and the speed
  modelled here. The manifest lists each with the reason.
\<close>

end
